(* ===== verification/Prelude.thy ===== *)
theory Prelude
  imports Main "HOL-Library.Product_Lexorder" "HOL-Library.List_Lexorder" "HOL-Library.Char_ord"
    "HOL-Library.Multiset"
begin

text \<open>
  The vocabulary every component shares: identifiers, instants and byte strings; the error values
  of the database driver and of the store; and SQL statements over a table that is a list of rows
  (\<open>upd\<close>, \<open>del\<close>, \<open>cnt\<close>, \<open>one\<close>, \<open>exists_row\<close>, \<open>order_desc\<close>), with the generic facts about them that
  the component proofs use. The collection \<open>table_simps\<close> gathers these facts.
\<close>

named_theorems table_simps \<open>facts on rows after an UPDATE, a DELETE or an INSERT\<close>

section \<open>Basic types\<close>

text \<open>
  A UUID is its canonical lower-case text form, so the byte order of the text is PostgreSQL's order
  on the type. An instant is an integer number of nanoseconds since the Unix epoch; a duration is
  an integer number of nanoseconds.
\<close>

type_synonym uuid = string
type_synonym time = int
type_synonym duration = int
type_synonym bytes = string

abbreviation second :: duration where "second \<equiv> 1000000000"
abbreviation minute :: duration where "minute \<equiv> 60 * second"
abbreviation hour :: duration where "hour \<equiv> 60 * minute"

section \<open>Errors of the driver and of the store\<close>

text \<open>
  \<open>pg_error\<close> is what a statement itself can answer: a violated constraint, a negative
  \<open>LIMIT\<close> or \<open>OFFSET\<close>, or \<open>pgx.ErrNoRows\<close> from a
  query declared \<open>:one\<close>. \<open>store_error\<close> is the sentinel errors of the store; \<open>ErrPg\<close> is a driver error
  returned as it is. Loss of the connection is not modelled.
\<close>

datatype pg_error = UniqueViolation | ForeignKeyViolation | CheckViolation | InvalidRowCount | NoRows

datatype store_error =
    ErrNotFound | ErrDuplicate | ErrConflict | ErrBadPayload | ErrNoSecrets
  | ErrPg pg_error

fun map_no_rows :: "pg_error \<Rightarrow> store_error" where
  "map_no_rows NoRows = ErrNotFound"
| "map_no_rows e = ErrPg e"

fun is_unique_violation :: "pg_error \<Rightarrow> bool" where
  "is_unique_violation UniqueViolation = True"
| "is_unique_violation _ = False"

definition dup_or_pg :: "pg_error \<Rightarrow> store_error" where
  "dup_or_pg e = (if is_unique_violation e then ErrDuplicate else ErrPg e)"

text \<open>
  \<open>and_then m f\<close> is the statement \<open>x, err := m; if err != nil { return err }; f(x)\<close>; \<open>on_err h m\<close> replaces the
  error the way the caller maps it; \<open>require b e\<close> is \<open>if !b { return e }\<close>. A transaction that returns an
  error is rolled back, so the error carries no database.
\<close>

definition and_then :: "'e + 'a \<Rightarrow> ('a \<Rightarrow> 'e + 'b) \<Rightarrow> 'e + 'b" where
  "and_then m f = (case m of Inl e \<Rightarrow> Inl e | Inr x \<Rightarrow> f x)"

definition on_err :: "('e \<Rightarrow> 'f) \<Rightarrow> 'e + 'a \<Rightarrow> 'f + 'a" where
  "on_err h m = (case m of Inl e \<Rightarrow> Inl (h e) | Inr x \<Rightarrow> Inr x)"

definition require :: "bool \<Rightarrow> 'e \<Rightarrow> 'e + unit" where
  "require b e = (if b then Inr () else Inl e)"

lemma and_then_simps [simp]: "and_then (Inl e) f = Inl e" "and_then (Inr x) f = f x"
  by (simp_all add: and_then_def)

lemma on_err_simps [simp]: "on_err h (Inl e) = Inl (h e)" "on_err h (Inr x) = Inr x"
  by (simp_all add: on_err_def)

lemma and_then_Inr [simp]: "and_then m f = Inr y \<longleftrightarrow> (\<exists>x. m = Inr x \<and> f x = Inr y)"
  by (cases m) simp_all

lemma and_then_Inl:
  "and_then m f = Inl e \<longleftrightarrow> m = Inl e \<or> (\<exists>x. m = Inr x \<and> f x = Inl e)"
  by (cases m) simp_all

lemma on_err_Inr [simp]: "on_err h m = Inr x \<longleftrightarrow> m = Inr x"
  by (cases m) simp_all

lemma on_err_Inl: "on_err h m = Inl f \<longleftrightarrow> (\<exists>e. m = Inl e \<and> f = h e)"
  by (cases m) auto

lemma require_Inr [simp]: "require b e = Inr u \<longleftrightarrow> b"
  by (simp add: require_def)

lemma require_Inl [simp]: "require b e = Inl e' \<longleftrightarrow> \<not> b \<and> e' = e"
  by (auto simp: require_def)

section \<open>Statements on a table\<close>

definition upd :: "('r \<Rightarrow> bool) \<Rightarrow> ('r \<Rightarrow> 'r) \<Rightarrow> 'r list \<Rightarrow> 'r list" where
  "upd p f t = map (\<lambda>r. if p r then f r else r) t"

definition del :: "('r \<Rightarrow> bool) \<Rightarrow> 'r list \<Rightarrow> 'r list" where
  "del p t = filter (\<lambda>r. \<not> p r) t"

definition cnt :: "('r \<Rightarrow> bool) \<Rightarrow> 'r list \<Rightarrow> nat" where
  "cnt p t = length (filter p t)"

definition one :: "('r \<Rightarrow> bool) \<Rightarrow> 'r list \<Rightarrow> 'r option" where
  "one p t = find p t"

definition exists_row :: "('r \<Rightarrow> bool) \<Rightarrow> 'r list \<Rightarrow> bool" where
  "exists_row p t \<longleftrightarrow> list_ex p t"

definition order_desc :: "('r \<Rightarrow> 'k::linorder) \<Rightarrow> 'r list \<Rightarrow> 'r list" where
  "order_desc key t = rev (sort_key key t)"

definition row_of :: "('r \<Rightarrow> bool) \<Rightarrow> 'r list \<Rightarrow> pg_error + 'r" where
  "row_of p t = (case one p t of None \<Rightarrow> Inl NoRows | Some r \<Rightarrow> Inr r)"

section \<open>Generic facts\<close>

lemma set_upd [table_simps]: "set (upd p f t) = (\<lambda>r. if p r then f r else r) ` set t"
  by (simp add: upd_def)

lemma set_upd_split: "set (upd p f t) = f ` {r \<in> set t. p r} \<union> {r \<in> set t. \<not> p r}"
  by (auto simp: set_upd)

lemma ball_upd [simp]:
  "(\<And>r. P (f r) \<longleftrightarrow> P r) \<Longrightarrow> (\<forall>r \<in> set (upd p f t). P r) \<longleftrightarrow> (\<forall>r \<in> set t. P r)"
  by (induction t) (simp_all add: upd_def)

lemma bex_upd [simp]:
  "(\<And>r. P (f r) \<longleftrightarrow> P r) \<Longrightarrow> (\<exists>r \<in> set (upd p f t). P r) \<longleftrightarrow> (\<exists>r \<in> set t. P r)"
  by (induction t) (simp_all add: upd_def)

lemma set_del [simp]: "set (del p t) = {r \<in> set t. \<not> p r}"
  by (simp add: del_def)

lemma upd_Nil [simp]: "upd p f [] = []"
  by (simp add: upd_def)

lemma upd_append: "upd p f (s @ t) = upd p f s @ upd p f t"
  by (simp add: upd_def)

lemma length_upd [simp]: "length (upd p f t) = length t"
  by (simp add: upd_def)

lemma upd_none: "(\<And>r. r \<in> set t \<Longrightarrow> \<not> p r) \<Longrightarrow> upd p f t = t"
  by (simp add: upd_def map_idI)

lemma map_upd_same: "(\<And>r. p r \<Longrightarrow> key (f r) = key r) \<Longrightarrow> map key (upd p f t) = map key t"
  by (simp add: upd_def)

lemma filter_upd_same:
  "(\<And>r. p r \<Longrightarrow> q (f r) = q r) \<Longrightarrow> filter q (upd p f t) = upd p f (filter q t)"
  by (induction t) (auto simp: upd_def)

lemma distinct_map_del [simp]: "distinct (map key t) \<Longrightarrow> distinct (map key (del p t))"
  by (simp add: del_def distinct_map_filter)

lemma exists_row_iff [simp]: "exists_row p t \<longleftrightarrow> (\<exists>r \<in> set t. p r)"
  by (simp add: exists_row_def list_ex_iff)

lemma one_None [simp]: "one p t = None \<longleftrightarrow> (\<forall>r \<in> set t. \<not> p r)"
  by (auto simp: one_def find_None_iff)

lemma one_Some: "one p t = Some r \<Longrightarrow> r \<in> set t \<and> p r"
  by (auto simp: one_def find_Some_iff)

lemma one_Some_unique:
  "distinct (map key t) \<Longrightarrow> r \<in> set t \<Longrightarrow> key r = k \<Longrightarrow> one (\<lambda>x. key x = k) t = Some r"
  by (induction t) (force simp: one_def)+

lemma row_of_Inr: "row_of p t = Inr r \<Longrightarrow> r \<in> set t \<and> p r"
  by (auto simp: row_of_def dest: one_Some split: option.splits)

lemma row_of_Inl: "row_of p t = Inl e \<longleftrightarrow> e = NoRows \<and> (\<forall>r \<in> set t. \<not> p r)"
  by (auto simp: row_of_def simp flip: one_None split: option.splits)

lemma cnt_0 [simp]: "cnt p t = 0 \<longleftrightarrow> (\<forall>r \<in> set t. \<not> p r)"
  by (simp add: cnt_def filter_empty_conv)

lemma cnt_pos [simp]: "0 < cnt p t \<longleftrightarrow> (\<exists>r \<in> set t. p r)"
  by (metis cnt_0 neq0_conv)

lemma cnt_key_le_1: "distinct (map key t) \<Longrightarrow> cnt (\<lambda>r. key r = k) t \<le> 1"
proof (induction t)
  case Nil
  then show ?case by (simp add: cnt_def)
next
  case (Cons r t)
  show ?case
  proof (cases "key r = k")
    case True
    with Cons.prems have "\<forall>x \<in> set t. key x \<noteq> k"
      by (metis distinct.simps(2) image_eqI list.set_map list.simps(9))
    then have "filter (\<lambda>r. key r = k) t = []"
      by (simp add: filter_empty_conv)
    then show ?thesis using True by (simp add: cnt_def)
  next
    case False
    with Cons show ?thesis by (simp add: cnt_def)
  qed
qed

lemma distinct_key_eq:
  "distinct (map key t) \<Longrightarrow> r \<in> set t \<Longrightarrow> s \<in> set t \<Longrightarrow> key r = key s \<Longrightarrow> r = s"
  by (auto simp: distinct_map inj_on_def)

lemma filter_key_single:
  "distinct (map key t) \<Longrightarrow> r \<in> set t \<Longrightarrow> filter (\<lambda>x. key x = key r) t = [r]"
proof (induction t)
  case (Cons x t)
  then show ?case
    by (cases "x = r") (auto simp: filter_empty_conv image_iff)
qed simp

lemma concat_if_single: "concat (map (\<lambda>x. if P x then [g x] else []) xs) = map g (filter P xs)"
  by (induction xs) auto

lemma concat_if: "concat (map (\<lambda>x. if P x then h x else []) xs) = concat (map h (filter P xs))"
  by (induction xs) auto

lemma map_concat_single:
  "(\<And>x. x \<in> set xs \<Longrightarrow> map f (g x) = [k x]) \<Longrightarrow> map f (concat (map g xs)) = map k xs"
  by (induction xs) auto

lemma set_order_desc [simp]: "set (order_desc key t) = set t"
  by (simp add: order_desc_def)

lemma length_order_desc [simp]: "length (order_desc key t) = length t"
  by (simp add: order_desc_def)

lemma mset_order_desc [simp]: "mset (order_desc key t) = mset t"
  by (simp add: order_desc_def)

lemma map_key_sort: "map key (sort_key key t) = sort (map key t)"
  by (rule properties_for_sort [symmetric]) (simp_all add: sorted_sort_key)

lemma map_order_desc: "map key (order_desc key t) = rev (sort (map key t))"
  by (simp add: order_desc_def map_key_sort flip: rev_map)

lemma sorted_order_desc: "sorted_wrt (\<lambda>x y. key y \<le> key x) (order_desc key t)"
  using sorted_sort_key [of key t]
  by (simp add: order_desc_def sorted_wrt_rev sorted_map)

end
