(* ===== verification/Schema.thy ===== *)
theory Schema
  imports Prelude
begin

text \<open>
  The tables of \<open>core/migrations/\<close> that the Secret Bundle and the fleet domains use, one record per row
  type of \<open>core/internal/database/gen/models.go\<close>, and the database as a record of tables. A table is the
  list of its rows in insertion order. Columns no query reads (\<open>created_at\<close> of secrets and versions,
  \<open>updated_at\<close> of bindings, drafts and policies, the id of a binding) are left out. The second half
  states the \<open>ON DELETE CASCADE\<close> rules and the one restricting foreign key, from a Bundle Revision's file
  to its Secret.
\<close>

section \<open>Rows\<close>

record application_row =
  ap_id :: uuid
  ap_name :: string
  ap_created :: time

record environment_row =
  en_id :: uuid
  en_app :: uuid
  en_name :: string
  en_created :: time
  en_protection :: string

record secret_row =
  sc_id :: uuid
  sc_app :: uuid
  sc_env :: uuid
  sc_name :: string
  sc_retired :: "time option"

record version_row =
  sv_id :: uuid
  sv_secret :: uuid
  sv_seq :: int
  sv_wrapped :: bytes
  sv_nonce :: bytes
  sv_cipher :: bytes

record binding_row =
  fb_secret :: uuid
  fb_path :: string
  fb_uid :: int
  fb_gid :: int
  fb_mode :: int

record draft_row =
  dr_id :: uuid
  dr_app :: uuid
  dr_env :: uuid
  dr_version :: int

record selection_row =
  ds_draft :: uuid
  ds_secret :: uuid
  ds_seq :: int

record revision_row =
  br_id :: uuid
  br_app :: uuid
  br_env :: uuid
  br_draft_version :: int
  br_created :: time
  br_by :: string
  br_category :: string
  br_explanation :: string
  br_external :: string

record file_row =
  rf_rev :: uuid
  rf_secret :: uuid
  rf_path :: string
  rf_uid :: int
  rf_gid :: int
  rf_mode :: int
  rf_seq :: int

record policy_row =
  po_env :: uuid
  po_action :: string

record unit_row =
  pu_env :: uuid
  pu_pos :: int
  pu_name :: string

record node_row =
  nd_id :: uuid
  nd_name :: string
  nd_serial :: string
  nd_age :: string
  nd_cert :: string
  nd_cert_expires :: time
  nd_created :: time
  nd_last_seen :: "time option"
  nd_etag :: string
  nd_observed :: string
  nd_result :: string
  nd_poll :: int
  nd_bundle_dir :: string

record group_row =
  ng_id :: uuid
  ng_name :: string
  ng_created :: time

record member_row =
  gm_group :: uuid
  gm_node :: uuid

datatype assignment_status = Active | Removing

record assignment_row =
  as_id :: uuid
  as_group :: uuid
  as_rev :: uuid
  as_created :: time
  as_app :: uuid
  as_env :: uuid
  as_status :: assignment_status

record token_row =
  et_hash :: string
  et_name :: string
  et_created :: time
  et_expires :: time
  et_used :: "time option"
  et_node :: "uuid option"

record convergence_row =
  cv_node :: uuid
  cv_asg :: uuid
  cv_app :: uuid
  cv_env :: uuid
  cv_desired :: string
  cv_observed :: string
  cv_stage :: string
  cv_result :: string
  cv_error :: string
  cv_reported :: "time option"
  cv_updated :: time

datatype task_status = Pending | Cleaned | Failed | Offline | CleanupUnconfirmed

record task_row =
  ut_asg :: uuid
  ut_node :: uuid
  ut_status :: task_status
  ut_error :: string
  ut_updated :: time

record audit_row =
  ae_id :: int
  ae_actor :: string
  ae_action :: string
  ae_resource :: string
  ae_result :: string
  ae_correlation :: string
  ae_created :: time
  ae_actor_type :: string
  ae_actor_id :: string
  ae_actor_display :: string
  ae_resource_type :: string
  ae_resource_id :: string
  ae_resource_display :: string
  ae_outcome :: string
  ae_category :: string
  ae_explanation :: string
  ae_external :: string

section \<open>The database\<close>

text \<open>\<open>audit_seq\<close> is the last value the \<open>bigserial\<close> of the audit table handed out.\<close>

record db =
  t_apps :: "application_row list"
  t_envs :: "environment_row list"
  t_secrets :: "secret_row list"
  t_versions :: "version_row list"
  t_bindings :: "binding_row list"
  t_drafts :: "draft_row list"
  t_selections :: "selection_row list"
  t_revisions :: "revision_row list"
  t_files :: "file_row list"
  t_policies :: "policy_row list"
  t_units :: "unit_row list"
  t_nodes :: "node_row list"
  t_groups :: "group_row list"
  t_members :: "member_row list"
  t_assignments :: "assignment_row list"
  t_tokens :: "token_row list"
  t_convergence :: "convergence_row list"
  t_tasks :: "task_row list"
  t_audit :: "audit_row list"
  audit_seq :: int

definition empty_db :: db where
  "empty_db = \<lparr>t_apps = [], t_envs = [], t_secrets = [], t_versions = [], t_bindings = [], t_drafts = [],
     t_selections = [], t_revisions = [], t_files = [], t_policies = [], t_units = [], t_nodes = [],
     t_groups = [], t_members = [], t_assignments = [], t_tokens = [], t_convergence = [], t_tasks = [],
     t_audit = [], audit_seq = 0\<rparr>"

type_synonym 'a query = "pg_error + 'a"
type_synonym 'a result = "store_error + 'a"

section \<open>Deletion\<close>

text \<open>Each \<open>drop_\<close> function deletes the rows of one table and everything that cascades from them.\<close>

definition drop_assignments :: "(assignment_row \<Rightarrow> bool) \<Rightarrow> db \<Rightarrow> db" where
  "drop_assignments p d =
     (let gone = map as_id (filter p (t_assignments d)) in
      d\<lparr>t_assignments := del p (t_assignments d),
        t_convergence := del (\<lambda>c. cv_asg c \<in> set gone) (t_convergence d),
        t_tasks := del (\<lambda>t. ut_asg t \<in> set gone) (t_tasks d)\<rparr>)"

definition drop_revisions :: "(revision_row \<Rightarrow> bool) \<Rightarrow> db \<Rightarrow> db" where
  "drop_revisions p d =
     (let gone = map br_id (filter p (t_revisions d)) in
      drop_assignments (\<lambda>a. as_rev a \<in> set gone)
        (d\<lparr>t_revisions := del p (t_revisions d),
           t_files := del (\<lambda>f. rf_rev f \<in> set gone) (t_files d)\<rparr>))"

definition drop_drafts :: "(draft_row \<Rightarrow> bool) \<Rightarrow> db \<Rightarrow> db" where
  "drop_drafts p d =
     (let gone = map dr_id (filter p (t_drafts d)) in
      d\<lparr>t_drafts := del p (t_drafts d),
        t_selections := del (\<lambda>s. ds_draft s \<in> set gone) (t_selections d)\<rparr>)"

definition drop_secrets :: "(secret_row \<Rightarrow> bool) \<Rightarrow> db \<Rightarrow> db" where
  "drop_secrets p d =
     (let gone = map sc_id (filter p (t_secrets d)) in
      d\<lparr>t_secrets := del p (t_secrets d),
        t_versions := del (\<lambda>v. sv_secret v \<in> set gone) (t_versions d),
        t_bindings := del (\<lambda>b. fb_secret b \<in> set gone) (t_bindings d),
        t_selections := del (\<lambda>s. ds_secret s \<in> set gone) (t_selections d)\<rparr>)"

definition drop_convergence :: "(convergence_row \<Rightarrow> bool) \<Rightarrow> db \<Rightarrow> db" where
  "drop_convergence p d = d\<lparr>t_convergence := del p (t_convergence d)\<rparr>"

definition drop_environments :: "(environment_row \<Rightarrow> bool) \<Rightarrow> db \<Rightarrow> db" where
  "drop_environments p d =
     (let gone = map en_id (filter p (t_envs d)) in
      drop_convergence (\<lambda>c. cv_env c \<in> set gone)
       (drop_revisions (\<lambda>r. br_env r \<in> set gone)
         (drop_drafts (\<lambda>r. dr_env r \<in> set gone)
           (drop_secrets (\<lambda>s. sc_env s \<in> set gone)
             (d\<lparr>t_envs := del p (t_envs d),
                t_policies := del (\<lambda>r. po_env r \<in> set gone) (t_policies d),
                t_units := del (\<lambda>r. pu_env r \<in> set gone) (t_units d)\<rparr>)))))"

definition drop_applications :: "(application_row \<Rightarrow> bool) \<Rightarrow> db \<Rightarrow> db" where
  "drop_applications p d =
     (let gone = map ap_id (filter p (t_apps d)) in
      drop_convergence (\<lambda>c. cv_app c \<in> set gone)
       (drop_revisions (\<lambda>r. br_app r \<in> set gone)
         (drop_drafts (\<lambda>r. dr_app r \<in> set gone)
           (drop_secrets (\<lambda>s. sc_app s \<in> set gone)
             (drop_environments (\<lambda>e. en_app e \<in> set gone)
               (d\<lparr>t_apps := del p (t_apps d)\<rparr>))))))"

definition drop_groups :: "(group_row \<Rightarrow> bool) \<Rightarrow> db \<Rightarrow> db" where
  "drop_groups p d =
     (let gone = map ng_id (filter p (t_groups d)) in
      drop_assignments (\<lambda>a. as_group a \<in> set gone)
        (d\<lparr>t_groups := del p (t_groups d),
           t_members := del (\<lambda>m. gm_group m \<in> set gone) (t_members d)\<rparr>))"

definition drop_nodes :: "(node_row \<Rightarrow> bool) \<Rightarrow> db \<Rightarrow> db" where
  "drop_nodes p d =
     (let gone = map nd_id (filter p (t_nodes d)) in
      d\<lparr>t_nodes := del p (t_nodes d),
        t_members := del (\<lambda>m. gm_node m \<in> set gone) (t_members d),
        t_convergence := del (\<lambda>c. cv_node c \<in> set gone) (t_convergence d),
        t_tasks := del (\<lambda>t. ut_node t \<in> set gone) (t_tasks d),
        t_tokens := del (\<lambda>t. case et_node t of None \<Rightarrow> False | Some n \<Rightarrow> n \<in> set gone) (t_tokens d)\<rparr>)"

text \<open>
  \<open>revision_files.secret_id\<close> references \<open>secrets\<close> without a cascade, and its check runs before the
  cascade from the deleted Bundle Revisions reaches their files: a deletion of Secrets is refused while
  any file names one of them. \<open>files_block p\<close> is that check for the Secrets a
  statement deletes, those with \<open>p\<close>.
\<close>

definition files_block :: "(secret_row \<Rightarrow> bool) \<Rightarrow> db \<Rightarrow> bool" where
  "files_block p d \<longleftrightarrow>
     (let gone = map sc_id (filter p (t_secrets d)) in exists_row (\<lambda>f. rf_secret f \<in> set gone) (t_files d))"

lemmas drop_defs =
  drop_assignments_def drop_revisions_def drop_drafts_def drop_secrets_def drop_convergence_def
  drop_environments_def drop_applications_def drop_groups_def drop_nodes_def

section \<open>What a deletion leaves alone\<close>

lemma drop_assignments_keeps [simp]:
  "t_apps (drop_assignments p d) = t_apps d" "t_envs (drop_assignments p d) = t_envs d"
    "t_secrets (drop_assignments p d) = t_secrets d" "t_versions (drop_assignments p d) = t_versions d"
    "t_bindings (drop_assignments p d) = t_bindings d" "t_drafts (drop_assignments p d) = t_drafts d"
    "t_selections (drop_assignments p d) = t_selections d"
    "t_revisions (drop_assignments p d) = t_revisions d" "t_files (drop_assignments p d) = t_files d"
    "t_policies (drop_assignments p d) = t_policies d" "t_units (drop_assignments p d) = t_units d"
    "t_nodes (drop_assignments p d) = t_nodes d" "t_groups (drop_assignments p d) = t_groups d"
    "t_members (drop_assignments p d) = t_members d" "t_tokens (drop_assignments p d) = t_tokens d"
    "t_audit (drop_assignments p d) = t_audit d" "audit_seq (drop_assignments p d) = audit_seq d"
  by (simp_all add: drop_assignments_def Let_def)

lemma drop_revisions_keeps [simp]:
  "t_apps (drop_revisions p d) = t_apps d" "t_envs (drop_revisions p d) = t_envs d"
    "t_secrets (drop_revisions p d) = t_secrets d" "t_versions (drop_revisions p d) = t_versions d"
    "t_bindings (drop_revisions p d) = t_bindings d" "t_drafts (drop_revisions p d) = t_drafts d"
    "t_selections (drop_revisions p d) = t_selections d" "t_policies (drop_revisions p d) = t_policies d"
    "t_units (drop_revisions p d) = t_units d" "t_nodes (drop_revisions p d) = t_nodes d"
    "t_groups (drop_revisions p d) = t_groups d" "t_members (drop_revisions p d) = t_members d"
    "t_tokens (drop_revisions p d) = t_tokens d" "t_audit (drop_revisions p d) = t_audit d"
    "audit_seq (drop_revisions p d) = audit_seq d"
  by (simp_all add: drop_revisions_def Let_def)

lemma drop_drafts_keeps [simp]:
  "t_apps (drop_drafts p d) = t_apps d" "t_envs (drop_drafts p d) = t_envs d"
    "t_secrets (drop_drafts p d) = t_secrets d" "t_versions (drop_drafts p d) = t_versions d"
    "t_bindings (drop_drafts p d) = t_bindings d" "t_revisions (drop_drafts p d) = t_revisions d"
    "t_files (drop_drafts p d) = t_files d" "t_policies (drop_drafts p d) = t_policies d"
    "t_units (drop_drafts p d) = t_units d" "t_nodes (drop_drafts p d) = t_nodes d"
    "t_groups (drop_drafts p d) = t_groups d" "t_members (drop_drafts p d) = t_members d"
    "t_assignments (drop_drafts p d) = t_assignments d" "t_tokens (drop_drafts p d) = t_tokens d"
    "t_convergence (drop_drafts p d) = t_convergence d" "t_tasks (drop_drafts p d) = t_tasks d"
    "t_audit (drop_drafts p d) = t_audit d" "audit_seq (drop_drafts p d) = audit_seq d"
  by (simp_all add: drop_drafts_def Let_def)

lemma drop_secrets_keeps [simp]:
  "t_apps (drop_secrets p d) = t_apps d" "t_envs (drop_secrets p d) = t_envs d"
    "t_drafts (drop_secrets p d) = t_drafts d" "t_revisions (drop_secrets p d) = t_revisions d"
    "t_files (drop_secrets p d) = t_files d" "t_policies (drop_secrets p d) = t_policies d"
    "t_units (drop_secrets p d) = t_units d" "t_nodes (drop_secrets p d) = t_nodes d"
    "t_groups (drop_secrets p d) = t_groups d" "t_members (drop_secrets p d) = t_members d"
    "t_assignments (drop_secrets p d) = t_assignments d" "t_tokens (drop_secrets p d) = t_tokens d"
    "t_convergence (drop_secrets p d) = t_convergence d" "t_tasks (drop_secrets p d) = t_tasks d"
    "t_audit (drop_secrets p d) = t_audit d" "audit_seq (drop_secrets p d) = audit_seq d"
  by (simp_all add: drop_secrets_def Let_def)

lemma drop_convergence_keeps [simp]:
  "t_apps (drop_convergence p d) = t_apps d" "t_envs (drop_convergence p d) = t_envs d"
    "t_secrets (drop_convergence p d) = t_secrets d" "t_versions (drop_convergence p d) = t_versions d"
    "t_bindings (drop_convergence p d) = t_bindings d" "t_drafts (drop_convergence p d) = t_drafts d"
    "t_selections (drop_convergence p d) = t_selections d"
    "t_revisions (drop_convergence p d) = t_revisions d" "t_files (drop_convergence p d) = t_files d"
    "t_policies (drop_convergence p d) = t_policies d" "t_units (drop_convergence p d) = t_units d"
    "t_nodes (drop_convergence p d) = t_nodes d" "t_groups (drop_convergence p d) = t_groups d"
    "t_members (drop_convergence p d) = t_members d"
    "t_assignments (drop_convergence p d) = t_assignments d"
    "t_tokens (drop_convergence p d) = t_tokens d" "t_tasks (drop_convergence p d) = t_tasks d"
    "t_audit (drop_convergence p d) = t_audit d" "audit_seq (drop_convergence p d) = audit_seq d"
  by (simp_all add: drop_convergence_def Let_def)

lemma drop_environments_keeps [simp]:
  "t_apps (drop_environments p d) = t_apps d" "t_nodes (drop_environments p d) = t_nodes d"
    "t_groups (drop_environments p d) = t_groups d" "t_members (drop_environments p d) = t_members d"
    "t_tokens (drop_environments p d) = t_tokens d" "t_audit (drop_environments p d) = t_audit d"
    "audit_seq (drop_environments p d) = audit_seq d"
  by (simp_all add: drop_environments_def Let_def)

lemma drop_applications_keeps [simp]:
  "t_nodes (drop_applications p d) = t_nodes d" "t_groups (drop_applications p d) = t_groups d"
    "t_members (drop_applications p d) = t_members d" "t_tokens (drop_applications p d) = t_tokens d"
    "t_audit (drop_applications p d) = t_audit d" "audit_seq (drop_applications p d) = audit_seq d"
  by (simp_all add: drop_applications_def Let_def)

lemma drop_groups_keeps [simp]:
  "t_apps (drop_groups p d) = t_apps d" "t_envs (drop_groups p d) = t_envs d"
    "t_secrets (drop_groups p d) = t_secrets d" "t_versions (drop_groups p d) = t_versions d"
    "t_bindings (drop_groups p d) = t_bindings d" "t_drafts (drop_groups p d) = t_drafts d"
    "t_selections (drop_groups p d) = t_selections d" "t_revisions (drop_groups p d) = t_revisions d"
    "t_files (drop_groups p d) = t_files d" "t_policies (drop_groups p d) = t_policies d"
    "t_units (drop_groups p d) = t_units d" "t_nodes (drop_groups p d) = t_nodes d"
    "t_tokens (drop_groups p d) = t_tokens d" "t_audit (drop_groups p d) = t_audit d"
    "audit_seq (drop_groups p d) = audit_seq d"
  by (simp_all add: drop_groups_def Let_def)

lemma drop_nodes_keeps [simp]:
  "t_apps (drop_nodes p d) = t_apps d" "t_envs (drop_nodes p d) = t_envs d"
    "t_secrets (drop_nodes p d) = t_secrets d" "t_versions (drop_nodes p d) = t_versions d"
    "t_bindings (drop_nodes p d) = t_bindings d" "t_drafts (drop_nodes p d) = t_drafts d"
    "t_selections (drop_nodes p d) = t_selections d" "t_revisions (drop_nodes p d) = t_revisions d"
    "t_files (drop_nodes p d) = t_files d" "t_policies (drop_nodes p d) = t_policies d"
    "t_units (drop_nodes p d) = t_units d" "t_groups (drop_nodes p d) = t_groups d"
    "t_assignments (drop_nodes p d) = t_assignments d" "t_audit (drop_nodes p d) = t_audit d"
    "audit_seq (drop_nodes p d) = audit_seq d"
  by (simp_all add: drop_nodes_def Let_def)

section \<open>What a deletion removes\<close>

lemma drop_assignments_tables [simp]:
  "t_assignments (drop_assignments p d) = del p (t_assignments d)"
  "t_tasks (drop_assignments p d) = del (\<lambda>t. ut_asg t \<in> as_id ` {a \<in> set (t_assignments d). p a}) (t_tasks d)"
  "t_convergence (drop_assignments p d) =
     del (\<lambda>c. cv_asg c \<in> as_id ` {a \<in> set (t_assignments d). p a}) (t_convergence d)"
  by (simp_all add: drop_assignments_def Let_def)

lemma drop_revisions_tables [simp]:
  "t_revisions (drop_revisions p d) = del p (t_revisions d)"
  "t_files (drop_revisions p d) = del (\<lambda>f. rf_rev f \<in> br_id ` {r \<in> set (t_revisions d). p r}) (t_files d)"
  "t_assignments (drop_revisions p d) =
     del (\<lambda>a. as_rev a \<in> br_id ` {r \<in> set (t_revisions d). p r}) (t_assignments d)"
  by (simp_all add: drop_revisions_def Let_def)

lemma drop_drafts_tables [simp]:
  "t_drafts (drop_drafts p d) = del p (t_drafts d)"
  "t_selections (drop_drafts p d) = del (\<lambda>x. ds_draft x \<in> dr_id ` {r \<in> set (t_drafts d). p r}) (t_selections d)"
  by (simp_all add: drop_drafts_def Let_def)

lemma drop_secrets_tables [simp]:
  "t_secrets (drop_secrets p d) = del p (t_secrets d)"
  "t_versions (drop_secrets p d) = del (\<lambda>v. sv_secret v \<in> sc_id ` {s \<in> set (t_secrets d). p s}) (t_versions d)"
  "t_bindings (drop_secrets p d) = del (\<lambda>b. fb_secret b \<in> sc_id ` {s \<in> set (t_secrets d). p s}) (t_bindings d)"
  "t_selections (drop_secrets p d) = del (\<lambda>x. ds_secret x \<in> sc_id ` {s \<in> set (t_secrets d). p s}) (t_selections d)"
  by (simp_all add: drop_secrets_def Let_def)

lemma drop_groups_tables [simp]:
  "t_groups (drop_groups p d) = del p (t_groups d)"
  "t_members (drop_groups p d) = del (\<lambda>m. gm_group m \<in> ng_id ` {g \<in> set (t_groups d). p g}) (t_members d)"
  "t_assignments (drop_groups p d) =
     del (\<lambda>a. as_group a \<in> ng_id ` {g \<in> set (t_groups d). p g}) (t_assignments d)"
  by (simp_all add: drop_groups_def Let_def)

lemma drop_nodes_tables [simp]:
  "t_nodes (drop_nodes p d) = del p (t_nodes d)"
  "t_members (drop_nodes p d) = del (\<lambda>m. gm_node m \<in> nd_id ` {n \<in> set (t_nodes d). p n}) (t_members d)"
  by (simp_all add: drop_nodes_def Let_def)

end
