(* ===== verification/BundleQueries.thy ===== *)
theory BundleQueries
  imports Schema
begin

text \<open>
  The SQL of \<open>core/internal/database/queries/domain.sql\<close> that concerns Applications, Environments,
  Secrets, Drafts and Bundle Revisions, and of \<open>unassignment.sql\<close> that concerns Activation Policies, as
  \<open>core/internal/database/gen/\<close> runs it: one definition per query, on the record of tables. A constraint
  the migrations declare is a branch of the insert. \<open>coll\<close> is the database's text collation as a sort
  key; \<open>ts\<close> is the transaction's \<open>now()\<close>.
\<close>

section \<open>Applications and Environments\<close>

definition list_applications_q :: "(string \<Rightarrow> string) \<Rightarrow> db \<Rightarrow> application_row list" where
  "list_applications_q coll d = sort_key (\<lambda>r. coll (ap_name r)) (t_apps d)"

definition create_application_q :: "uuid \<Rightarrow> string \<Rightarrow> time \<Rightarrow> db \<Rightarrow> db query" where
  "create_application_q i name ts d =
     (if exists_row (\<lambda>r. ap_id r = i \<or> ap_name r = name) (t_apps d) then Inl UniqueViolation
      else Inr (d\<lparr>t_apps := t_apps d @ [\<lparr>ap_id = i, ap_name = name, ap_created = ts\<rparr>]\<rparr>))"

definition get_application_q :: "uuid \<Rightarrow> db \<Rightarrow> application_row query" where
  "get_application_q i d = row_of (\<lambda>r. ap_id r = i) (t_apps d)"

definition list_environments_q :: "(string \<Rightarrow> string) \<Rightarrow> uuid \<Rightarrow> db \<Rightarrow> environment_row list" where
  "list_environments_q coll app d =
     sort_key (\<lambda>r. coll (en_name r)) (filter (\<lambda>r. en_app r = app) (t_envs d))"

definition create_environment_q ::
    "uuid \<Rightarrow> uuid \<Rightarrow> string \<Rightarrow> string \<Rightarrow> time \<Rightarrow> db \<Rightarrow> db query" where
  "create_environment_q i app name level ts d =
     (if level \<notin> {''standard'', ''protected'', ''unclassified''} then Inl CheckViolation
      else if exists_row (\<lambda>r. en_id r = i \<or> en_app r = app \<and> en_name r = name) (t_envs d)
      then Inl UniqueViolation
      else if \<not> exists_row (\<lambda>r. ap_id r = app) (t_apps d) then Inl ForeignKeyViolation
      else Inr (d\<lparr>t_envs := t_envs d @
             [\<lparr>en_id = i, en_app = app, en_name = name, en_created = ts, en_protection = level\<rparr>]\<rparr>))"

definition get_environment_q :: "uuid \<Rightarrow> uuid \<Rightarrow> db \<Rightarrow> environment_row query" where
  "get_environment_q env app d = row_of (\<lambda>r. en_id r = env \<and> en_app r = app) (t_envs d)"

definition environment_exists_q :: "uuid \<Rightarrow> uuid \<Rightarrow> db \<Rightarrow> bool" where
  "environment_exists_q env app d = exists_row (\<lambda>r. en_id r = env \<and> en_app r = app) (t_envs d)"

definition count_active_for_environment_q :: "uuid \<Rightarrow> uuid \<Rightarrow> db \<Rightarrow> nat" where
  "count_active_for_environment_q app env d =
     cnt (\<lambda>a. as_app a = app \<and> as_env a = env \<and> as_status a = Active) (t_assignments d)"

definition count_active_for_application_q :: "uuid \<Rightarrow> db \<Rightarrow> nat" where
  "count_active_for_application_q app d =
     cnt (\<lambda>a. as_app a = app \<and> as_status a = Active) (t_assignments d)"

definition count_active_for_secret_q :: "uuid \<Rightarrow> db \<Rightarrow> nat" where
  "count_active_for_secret_q sid d =
     length [a. a \<leftarrow> t_assignments d, s \<leftarrow> t_secrets d,
       sc_app s = as_app a \<and> sc_env s = as_env a \<and> sc_id s = sid \<and> as_status a = Active]"

definition delete_files_for_application_q :: "uuid \<Rightarrow> db \<Rightarrow> db" where
  "delete_files_for_application_q app d =
     d\<lparr>t_files := del (\<lambda>f. rf_rev f \<in> set (map br_id (filter (\<lambda>r. br_app r = app) (t_revisions d))))
                   (t_files d)\<rparr>"

definition delete_files_for_environment_q :: "uuid \<Rightarrow> uuid \<Rightarrow> db \<Rightarrow> db" where
  "delete_files_for_environment_q app env d =
     d\<lparr>t_files := del (\<lambda>f. rf_rev f \<in>
           set (map br_id (filter (\<lambda>r. br_app r = app \<and> br_env r = env) (t_revisions d)))) (t_files d)\<rparr>"

definition delete_files_for_secret_q :: "uuid \<Rightarrow> db \<Rightarrow> db" where
  "delete_files_for_secret_q sid d = d\<lparr>t_files := del (\<lambda>f. rf_secret f = sid) (t_files d)\<rparr>"

text \<open>An \<open>:execrows\<close> statement answers the number of rows it changed with the new database.\<close>

definition delete_application_by_id_q :: "uuid \<Rightarrow> db \<Rightarrow> (nat \<times> db) query" where
  "delete_application_by_id_q app d =
     (let envs = map en_id (filter (\<lambda>e. en_app e = app) (t_envs d)) in
      if exists_row (\<lambda>r. ap_id r = app) (t_apps d)
         \<and> files_block (\<lambda>s. sc_app s = app \<or> sc_env s \<in> set envs) d
      then Inl ForeignKeyViolation
      else Inr (cnt (\<lambda>r. ap_id r = app) (t_apps d), drop_applications (\<lambda>r. ap_id r = app) d))"

definition delete_environment_by_id_q :: "uuid \<Rightarrow> uuid \<Rightarrow> db \<Rightarrow> (nat \<times> db) query" where
  "delete_environment_by_id_q env app d =
     (let p = (\<lambda>r. en_id r = env \<and> en_app r = app) in
      if exists_row p (t_envs d) \<and> files_block (\<lambda>s. sc_env s = env) d then Inl ForeignKeyViolation
      else Inr (cnt p (t_envs d), drop_environments p d))"

definition delete_secret_by_id_q :: "uuid \<Rightarrow> db \<Rightarrow> (nat \<times> db) query" where
  "delete_secret_by_id_q sid d =
     (if files_block (\<lambda>s. sc_id s = sid) d then Inl ForeignKeyViolation
      else Inr (cnt (\<lambda>s. sc_id s = sid) (t_secrets d), drop_secrets (\<lambda>s. sc_id s = sid) d))"

section \<open>Secrets, versions and File Bindings\<close>

record secret_list_row =
  sl_id :: uuid
  sl_name :: string
  sl_path :: string
  sl_uid :: int
  sl_gid :: int
  sl_mode :: int
  sl_latest :: int
  sl_selected :: int

definition max_seq :: "uuid \<Rightarrow> db \<Rightarrow> int" where
  "max_seq sid d =
     (case map sv_seq (filter (\<lambda>v. sv_secret v = sid) (t_versions d)) of
        [] \<Rightarrow> 0 | x # xs \<Rightarrow> fold max xs x)"

text \<open>A left join: the rows that match, or one row of \<open>NULL\<close>.\<close>

definition left_join :: "('r \<Rightarrow> bool) \<Rightarrow> 'r list \<Rightarrow> 'r option list" where
  "left_join p t = (case filter p t of [] \<Rightarrow> [None] | rs \<Rightarrow> map Some rs)"

definition list_secrets_q :: "(string \<Rightarrow> string) \<Rightarrow> uuid \<Rightarrow> uuid \<Rightarrow> db \<Rightarrow> secret_list_row list" where
  "list_secrets_q coll app env d =
     sort_key (\<lambda>r. coll (sl_name r))
       [\<lparr>sl_id = sc_id sc, sl_name = sc_name sc,
         sl_path = (case fb of None \<Rightarrow> [] | Some b \<Rightarrow> fb_path b),
         sl_uid = (case fb of None \<Rightarrow> 0 | Some b \<Rightarrow> fb_uid b),
         sl_gid = (case fb of None \<Rightarrow> 0 | Some b \<Rightarrow> fb_gid b),
         sl_mode = (case fb of None \<Rightarrow> 0 | Some b \<Rightarrow> fb_mode b),
         sl_latest = max_seq (sc_id sc) d,
         sl_selected = (case ds of None \<Rightarrow> 0 | Some s \<Rightarrow> ds_seq s)\<rparr>.
        sc \<leftarrow> t_secrets d, sc_app sc = app \<and> sc_env sc = env \<and> sc_retired sc = None,
        fb \<leftarrow> left_join (\<lambda>b. fb_secret b = sc_id sc) (t_bindings d),
        dr \<leftarrow> left_join (\<lambda>r. dr_app r = sc_app sc \<and> dr_env r = sc_env sc) (t_drafts d),
        ds \<leftarrow> left_join (\<lambda>s. dr \<noteq> None \<and> ds_draft s = dr_id (the dr) \<and> ds_secret s = sc_id sc)
                (t_selections d)]"

definition insert_secret_q :: "uuid \<Rightarrow> uuid \<Rightarrow> uuid \<Rightarrow> string \<Rightarrow> db \<Rightarrow> db query" where
  "insert_secret_q i app env name d =
     (if exists_row (\<lambda>s. sc_id s = i \<or> sc_app s = app \<and> sc_env s = env \<and> sc_name s = name) (t_secrets d)
      then Inl UniqueViolation
      else if \<not> exists_row (\<lambda>r. ap_id r = app) (t_apps d) \<or> \<not> exists_row (\<lambda>r. en_id r = env) (t_envs d)
      then Inl ForeignKeyViolation
      else Inr (d\<lparr>t_secrets := t_secrets d @
             [\<lparr>sc_id = i, sc_app = app, sc_env = env, sc_name = name, sc_retired = None\<rparr>]\<rparr>))"

definition insert_version_q ::
    "uuid \<Rightarrow> uuid \<Rightarrow> int \<Rightarrow> bytes \<Rightarrow> bytes \<Rightarrow> bytes \<Rightarrow> db \<Rightarrow> db query" where
  "insert_version_q i sid seq wrapped nonce ct d =
     (if exists_row (\<lambda>v. sv_id v = i \<or> sv_secret v = sid \<and> sv_seq v = seq) (t_versions d)
      then Inl UniqueViolation
      else if \<not> exists_row (\<lambda>s. sc_id s = sid) (t_secrets d) then Inl ForeignKeyViolation
      else Inr (d\<lparr>t_versions := t_versions d @
             [\<lparr>sv_id = i, sv_secret = sid, sv_seq = seq, sv_wrapped = wrapped, sv_nonce = nonce,
               sv_cipher = ct\<rparr>]\<rparr>))"

definition insert_version_first_q ::
    "uuid \<Rightarrow> uuid \<Rightarrow> bytes \<Rightarrow> bytes \<Rightarrow> bytes \<Rightarrow> db \<Rightarrow> db query" where
  "insert_version_first_q i sid wrapped nonce ct d = insert_version_q i sid 1 wrapped nonce ct d"

definition insert_version_next_q ::
    "uuid \<Rightarrow> uuid \<Rightarrow> bytes \<Rightarrow> bytes \<Rightarrow> bytes \<Rightarrow> db \<Rightarrow> (int \<times> db) query" where
  "insert_version_next_q i sid wrapped nonce ct d =
     (let seq = max_seq sid d + 1 in
      and_then (insert_version_q i sid seq wrapped nonce ct d) (\<lambda>d'. Inr (seq, d')))"

definition insert_default_binding_q :: "uuid \<Rightarrow> string \<Rightarrow> db \<Rightarrow> db query" where
  "insert_default_binding_q sid path d =
     (if exists_row (\<lambda>b. fb_secret b = sid) (t_bindings d) then Inl UniqueViolation
      else if \<not> exists_row (\<lambda>s. sc_id s = sid) (t_secrets d) then Inl ForeignKeyViolation
      else Inr (d\<lparr>t_bindings := t_bindings d @
             [\<lparr>fb_secret = sid, fb_path = path, fb_uid = 0, fb_gid = 0, fb_mode = 256\<rparr>]\<rparr>))"

definition update_file_binding_q ::
    "uuid \<Rightarrow> string \<Rightarrow> int \<Rightarrow> int \<Rightarrow> int \<Rightarrow> db \<Rightarrow> db" where
  "update_file_binding_q sid path uid gid mode d =
     d\<lparr>t_bindings := upd (\<lambda>b. fb_secret b = sid)
         (\<lambda>b. b\<lparr>fb_path := path, fb_uid := uid, fb_gid := gid, fb_mode := mode\<rparr>) (t_bindings d)\<rparr>"

definition select_secret_app_env_q :: "uuid \<Rightarrow> db \<Rightarrow> (uuid \<times> uuid) query" where
  "select_secret_app_env_q sid d =
     and_then (row_of (\<lambda>s. sc_id s = sid) (t_secrets d)) (\<lambda>s. Inr (sc_app s, sc_env s))"

definition secret_version_blob_q :: "uuid \<Rightarrow> int \<Rightarrow> db \<Rightarrow> (bytes \<times> bytes \<times> bytes) query" where
  "secret_version_blob_q sid seq d =
     and_then (row_of (\<lambda>v. sv_secret v = sid \<and> sv_seq v = seq) (t_versions d))
       (\<lambda>v. Inr (sv_wrapped v, sv_nonce v, sv_cipher v))"

section \<open>Drafts\<close>

definition insert_draft_q :: "uuid \<Rightarrow> uuid \<Rightarrow> uuid \<Rightarrow> db \<Rightarrow> db query" where
  "insert_draft_q i app env d =
     (if exists_row (\<lambda>r. dr_app r = app \<and> dr_env r = env) (t_drafts d) then Inr d
      else if exists_row (\<lambda>r. dr_id r = i) (t_drafts d) then Inl UniqueViolation
      else if \<not> exists_row (\<lambda>r. ap_id r = app) (t_apps d) \<or> \<not> exists_row (\<lambda>r. en_id r = env) (t_envs d)
      then Inl ForeignKeyViolation
      else Inr (d\<lparr>t_drafts := t_drafts d @ [\<lparr>dr_id = i, dr_app = app, dr_env = env, dr_version = 0\<rparr>]\<rparr>))"

definition upsert_selection_q :: "uuid \<Rightarrow> uuid \<Rightarrow> int \<Rightarrow> db \<Rightarrow> db query" where
  "upsert_selection_q draft sid seq d =
     (if exists_row (\<lambda>s. ds_draft s = draft \<and> ds_secret s = sid) (t_selections d)
      then Inr (d\<lparr>t_selections := upd (\<lambda>s. ds_draft s = draft \<and> ds_secret s = sid)
             (\<lambda>s. s\<lparr>ds_seq := seq\<rparr>) (t_selections d)\<rparr>)
      else if \<not> exists_row (\<lambda>r. dr_id r = draft) (t_drafts d) \<or> \<not> exists_row (\<lambda>s. sc_id s = sid) (t_secrets d)
      then Inl ForeignKeyViolation
      else Inr (d\<lparr>t_selections := t_selections d @
             [\<lparr>ds_draft = draft, ds_secret = sid, ds_seq = seq\<rparr>]\<rparr>))"

fun upsert_selections_for :: "draft_row list \<Rightarrow> uuid \<Rightarrow> db \<Rightarrow> db query" where
  "upsert_selections_for [] sid d = Inr d"
| "upsert_selections_for (r # rs) sid d =
     and_then (upsert_selection_q (dr_id r) sid 1 d) (upsert_selections_for rs sid)"

definition insert_selection_for_new_secret_q :: "uuid \<Rightarrow> uuid \<Rightarrow> uuid \<Rightarrow> db \<Rightarrow> db query" where
  "insert_selection_for_new_secret_q sid app env d =
     upsert_selections_for (filter (\<lambda>r. dr_app r = app \<and> dr_env r = env) (t_drafts d)) sid d"

definition update_selection_version_q :: "int \<Rightarrow> uuid \<Rightarrow> uuid \<Rightarrow> uuid \<Rightarrow> db \<Rightarrow> db" where
  "update_selection_version_q seq app env sid d =
     d\<lparr>t_selections := upd
         (\<lambda>s. ds_secret s = sid \<and>
              exists_row (\<lambda>r. dr_id r = ds_draft s \<and> dr_app r = app \<and> dr_env r = env) (t_drafts d))
         (\<lambda>s. s\<lparr>ds_seq := seq\<rparr>) (t_selections d)\<rparr>"

text \<open>\<open>SelectDraftID\<close>, \<open>SelectDraftIDForUpdate\<close> and \<open>SelectDraftIDVersion\<close> read the same row.\<close>

definition select_draft_q :: "uuid \<Rightarrow> uuid \<Rightarrow> db \<Rightarrow> draft_row query" where
  "select_draft_q app env d = row_of (\<lambda>r. dr_app r = app \<and> dr_env r = env) (t_drafts d)"

definition select_draft_version_q :: "uuid \<Rightarrow> db \<Rightarrow> int query" where
  "select_draft_version_q i d = and_then (row_of (\<lambda>r. dr_id r = i) (t_drafts d)) (\<lambda>r. Inr (dr_version r))"

definition bump_draft_q :: "uuid \<Rightarrow> db \<Rightarrow> (int \<times> db) query" where
  "bump_draft_q i d =
     and_then (row_of (\<lambda>r. dr_id r = i) (t_drafts d))
       (\<lambda>r. Inr (dr_version r + 1,
          d\<lparr>t_drafts := upd (\<lambda>r. dr_id r = i) (\<lambda>r. r\<lparr>dr_version := dr_version r + 1\<rparr>) (t_drafts d)\<rparr>))"

record draft_selection =
  sel_secret :: uuid
  sel_name :: string
  sel_seq :: int
  sel_path :: string
  sel_uid :: int
  sel_gid :: int
  sel_mode :: int

definition list_draft_selections_q ::
    "(string \<Rightarrow> string) \<Rightarrow> uuid \<Rightarrow> uuid \<Rightarrow> db \<Rightarrow> draft_selection list" where
  "list_draft_selections_q coll app env d =
     sort_key (\<lambda>r. coll (sel_name r))
       [\<lparr>sel_secret = sc_id sc, sel_name = sc_name sc, sel_seq = ds_seq ds,
         sel_path = (case fb of None \<Rightarrow> [] | Some b \<Rightarrow> fb_path b),
         sel_uid = (case fb of None \<Rightarrow> 0 | Some b \<Rightarrow> fb_uid b),
         sel_gid = (case fb of None \<Rightarrow> 0 | Some b \<Rightarrow> fb_gid b),
         sel_mode = (case fb of None \<Rightarrow> 0 | Some b \<Rightarrow> fb_mode b)\<rparr>.
        ds \<leftarrow> t_selections d, dr \<leftarrow> t_drafts d, dr_id dr = ds_draft ds \<and> dr_app dr = app \<and> dr_env dr = env,
        sc \<leftarrow> t_secrets d, sc_id sc = ds_secret ds,
        fb \<leftarrow> left_join (\<lambda>b. fb_secret b = sc_id sc) (t_bindings d)]"

definition selection_exists_q :: "uuid \<Rightarrow> uuid \<Rightarrow> int \<Rightarrow> db \<Rightarrow> bool" where
  "selection_exists_q draft sid seq d \<longleftrightarrow>
     exists_row (\<lambda>v. sv_secret v = sid \<and> sv_seq v = seq \<and>
       exists_row (\<lambda>s. sc_id s = sv_secret v \<and>
         exists_row (\<lambda>r. dr_app r = sc_app s \<and> dr_env r = sc_env s \<and> dr_id r = draft) (t_drafts d))
       (t_secrets d)) (t_versions d)"

definition count_draft_selections_q :: "uuid \<Rightarrow> db \<Rightarrow> nat" where
  "count_draft_selections_q draft d = cnt (\<lambda>s. ds_draft s = draft) (t_selections d)"

section \<open>Bundle Revisions\<close>

record operation_reason =
  or_category :: string
  or_explanation :: string
  or_external :: string

definition insert_revision_q ::
    "uuid \<Rightarrow> uuid \<Rightarrow> uuid \<Rightarrow> int \<Rightarrow> string \<Rightarrow> operation_reason \<Rightarrow> time \<Rightarrow> db \<Rightarrow> db query" where
  "insert_revision_q i app env dv actor reason ts d =
     (if exists_row (\<lambda>r. br_id r = i) (t_revisions d) then Inl UniqueViolation
      else if \<not> exists_row (\<lambda>r. ap_id r = app) (t_apps d) \<or> \<not> exists_row (\<lambda>r. en_id r = env) (t_envs d)
      then Inl ForeignKeyViolation
      else Inr (d\<lparr>t_revisions := t_revisions d @
             [\<lparr>br_id = i, br_app = app, br_env = env, br_draft_version = dv, br_created = ts, br_by = actor,
               br_category = or_category reason, br_explanation = or_explanation reason,
               br_external = or_external reason\<rparr>]\<rparr>))"

definition file_key :: "file_row \<Rightarrow> uuid \<times> uuid" where
  "file_key f = (rf_rev f, rf_secret f)"

definition insert_files :: "file_row list \<Rightarrow> db \<Rightarrow> db query" where
  "insert_files fs d =
     (if \<not> distinct (map file_key fs) \<or>
         list_ex (\<lambda>f. exists_row (\<lambda>g. file_key g = file_key f) (t_files d)) fs then Inl UniqueViolation
      else if list_ex (\<lambda>f. \<not> exists_row (\<lambda>r. br_id r = rf_rev f) (t_revisions d)
                          \<or> \<not> exists_row (\<lambda>s. sc_id s = rf_secret f) (t_secrets d)) fs
      then Inl ForeignKeyViolation
      else Inr (d\<lparr>t_files := t_files d @ fs\<rparr>))"

definition draft_files :: "uuid \<Rightarrow> uuid \<Rightarrow> db \<Rightarrow> file_row list" where
  "draft_files rv draft d =
     [\<lparr>rf_rev = rv, rf_secret = ds_secret ds, rf_path = fb_path fb, rf_uid = fb_uid fb,
       rf_gid = fb_gid fb, rf_mode = fb_mode fb, rf_seq = ds_seq ds\<rparr>.
      ds \<leftarrow> t_selections d, ds_draft ds = draft, fb \<leftarrow> t_bindings d, fb_secret fb = ds_secret ds]"

definition insert_files_from_draft_q :: "uuid \<Rightarrow> uuid \<Rightarrow> db \<Rightarrow> db query" where
  "insert_files_from_draft_q rv draft d = insert_files (draft_files rv draft d) d"

definition insert_files_copy_q :: "uuid \<Rightarrow> uuid \<Rightarrow> db \<Rightarrow> db query" where
  "insert_files_copy_q rv source d =
     insert_files (map (\<lambda>f. f\<lparr>rf_rev := rv\<rparr>) (filter (\<lambda>f. rf_rev f = source) (t_files d))) d"

definition count_revision_files_q :: "uuid \<Rightarrow> db \<Rightarrow> nat" where
  "count_revision_files_q rv d = cnt (\<lambda>f. rf_rev f = rv) (t_files d)"

definition newest_first :: "revision_row list \<Rightarrow> revision_row list" where
  "newest_first rs = order_desc (\<lambda>r. (br_created r, br_id r)) rs"

text \<open>A revision with the number of its files.\<close>

definition list_revisions_q :: "uuid \<Rightarrow> uuid \<Rightarrow> db \<Rightarrow> (revision_row \<times> nat) list" where
  "list_revisions_q app env d =
     map (\<lambda>r. (r, count_revision_files_q (br_id r) d))
       (newest_first (filter (\<lambda>r. br_app r = app \<and> br_env r = env) (t_revisions d)))"

definition list_all_revisions_q :: "nat \<Rightarrow> db \<Rightarrow> (revision_row \<times> nat) list" where
  "list_all_revisions_q limit d =
     take limit (map (\<lambda>r. (r, count_revision_files_q (br_id r) d)) (newest_first (t_revisions d)))"

definition select_latest_revision_q :: "uuid \<Rightarrow> uuid \<Rightarrow> db \<Rightarrow> uuid query" where
  "select_latest_revision_q app env d =
     (case newest_first (filter (\<lambda>r. br_app r = app \<and> br_env r = env) (t_revisions d)) of
        [] \<Rightarrow> Inl NoRows | r # _ \<Rightarrow> Inr (br_id r))"

definition select_revision_draft_version_q :: "uuid \<Rightarrow> uuid \<Rightarrow> uuid \<Rightarrow> db \<Rightarrow> int query" where
  "select_revision_draft_version_q i app env d =
     and_then (row_of (\<lambda>r. br_id r = i \<and> br_app r = app \<and> br_env r = env) (t_revisions d))
       (\<lambda>r. Inr (br_draft_version r))"

definition revision_files_q :: "(string \<Rightarrow> string) \<Rightarrow> uuid \<Rightarrow> db \<Rightarrow> file_row list" where
  "revision_files_q coll rv d =
     sort_key (\<lambda>f. coll (rf_path f)) (filter (\<lambda>f. rf_rev f = rv) (t_files d))"

definition revision_app_env_q :: "uuid \<Rightarrow> db \<Rightarrow> (uuid \<times> uuid) query" where
  "revision_app_env_q i d =
     and_then (row_of (\<lambda>r. br_id r = i) (t_revisions d)) (\<lambda>r. Inr (br_app r, br_env r))"

section \<open>Activation Policies\<close>

definition upsert_activation_policy_q :: "uuid \<Rightarrow> string \<Rightarrow> db \<Rightarrow> db query" where
  "upsert_activation_policy_q env action d =
     (if action \<notin> {''none'', ''reload'', ''restart''} then Inl CheckViolation
      else if exists_row (\<lambda>p. po_env p = env) (t_policies d)
      then Inr (d\<lparr>t_policies := upd (\<lambda>p. po_env p = env) (\<lambda>p. p\<lparr>po_action := action\<rparr>) (t_policies d)\<rparr>)
      else if \<not> exists_row (\<lambda>r. en_id r = env) (t_envs d) then Inl ForeignKeyViolation
      else Inr (d\<lparr>t_policies := t_policies d @ [\<lparr>po_env = env, po_action = action\<rparr>]\<rparr>))"

definition delete_policy_units_q :: "uuid \<Rightarrow> db \<Rightarrow> db" where
  "delete_policy_units_q env d = d\<lparr>t_units := del (\<lambda>u. pu_env u = env) (t_units d)\<rparr>"

definition insert_policy_unit_q :: "uuid \<Rightarrow> int \<Rightarrow> string \<Rightarrow> db \<Rightarrow> db query" where
  "insert_policy_unit_q env pos name d =
     (if pos < 1 \<or> 5 < pos then Inl CheckViolation
      else if exists_row (\<lambda>u. pu_env u = env \<and> pu_pos u = pos) (t_units d) then Inl UniqueViolation
      else if \<not> exists_row (\<lambda>r. en_id r = env) (t_envs d) then Inl ForeignKeyViolation
      else Inr (d\<lparr>t_units := t_units d @ [\<lparr>pu_env = env, pu_pos = pos, pu_name = name\<rparr>]\<rparr>))"

definition get_activation_policy_q :: "uuid \<Rightarrow> db \<Rightarrow> policy_row query" where
  "get_activation_policy_q env d = row_of (\<lambda>p. po_env p = env) (t_policies d)"

definition list_policy_units_q :: "uuid \<Rightarrow> db \<Rightarrow> string list" where
  "list_policy_units_q env d = map pu_name (sort_key pu_pos (filter (\<lambda>u. pu_env u = env) (t_units d)))"

end
