(* ===== verification/FleetQueries.thy ===== *)
theory FleetQueries
  imports BundleQueries
begin

text \<open>
  The SQL of \<open>queries/domain.sql\<close> that concerns Node Groups, Assignments, Managed Nodes and
  Enrollment Tokens, all of \<open>unassignment.sql\<close> on Assignments, and \<open>convergence.sql\<close>, as
  \<open>core/internal/database/gen/\<close> runs it: one definition per query.
\<close>

section \<open>Node Groups and their members\<close>

definition members_of :: "uuid \<Rightarrow> db \<Rightarrow> uuid list" where
  "members_of g d = map gm_node (filter (\<lambda>m. gm_group m = g) (t_members d))"

definition list_node_groups_q :: "(string \<Rightarrow> string) \<Rightarrow> db \<Rightarrow> (group_row \<times> uuid list) list" where
  "list_node_groups_q coll d =
     map (\<lambda>g. (g, members_of (ng_id g) d)) (sort_key (\<lambda>g. coll (ng_name g)) (t_groups d))"

definition create_node_group_q :: "uuid \<Rightarrow> string \<Rightarrow> time \<Rightarrow> db \<Rightarrow> db query" where
  "create_node_group_q i name ts d =
     (if exists_row (\<lambda>g. ng_id g = i \<or> ng_name g = name) (t_groups d) then Inl UniqueViolation
      else Inr (d\<lparr>t_groups := t_groups d @ [\<lparr>ng_id = i, ng_name = name, ng_created = ts\<rparr>]\<rparr>))"

definition count_active_for_group_q :: "uuid \<Rightarrow> db \<Rightarrow> nat" where
  "count_active_for_group_q g d = cnt (\<lambda>a. as_group a = g \<and> as_status a = Active) (t_assignments d)"

definition delete_node_group_by_id_q :: "uuid \<Rightarrow> db \<Rightarrow> nat \<times> db" where
  "delete_node_group_by_id_q g d = (cnt (\<lambda>r. ng_id r = g) (t_groups d), drop_groups (\<lambda>r. ng_id r = g) d)"

definition insert_group_member_q :: "uuid \<Rightarrow> uuid \<Rightarrow> db \<Rightarrow> db query" where
  "insert_group_member_q g n d =
     (if exists_row (\<lambda>m. gm_group m = g \<and> gm_node m = n) (t_members d) then Inr d
      else if \<not> exists_row (\<lambda>r. ng_id r = g) (t_groups d) \<or> \<not> exists_row (\<lambda>r. nd_id r = n) (t_nodes d)
      then Inl ForeignKeyViolation
      else Inr (d\<lparr>t_members := t_members d @ [\<lparr>gm_group = g, gm_node = n\<rparr>]\<rparr>))"

definition group_member_conflict_q :: "uuid \<Rightarrow> uuid \<Rightarrow> db \<Rightarrow> bool" where
  "group_member_conflict_q g n d =
     exists_row (\<lambda>a. as_group a = g \<and> as_status a = Active \<and>
       exists_row (\<lambda>a2. as_status a2 = Active \<and> as_app a2 = as_app a \<and> as_env a2 = as_env a \<and>
           as_group a2 \<noteq> as_group a \<and>
           exists_row (\<lambda>m. gm_group m = as_group a2 \<and> gm_node m = n) (t_members d)) (t_assignments d))
       (t_assignments d)"

definition remove_group_member_q :: "uuid \<Rightarrow> uuid \<Rightarrow> db \<Rightarrow> db" where
  "remove_group_member_q g n d = d\<lparr>t_members := del (\<lambda>m. gm_group m = g \<and> gm_node m = n) (t_members d)\<rparr>"

section \<open>Assignments\<close>

text \<open>A join of an Assignment with its Node Group.\<close>

definition with_group :: "db \<Rightarrow> assignment_row \<Rightarrow> (assignment_row \<times> group_row) list" where
  "with_group d a = map (\<lambda>g. (a, g)) (filter (\<lambda>g. ng_id g = as_group a) (t_groups d))"

definition list_assignments_q :: "db \<Rightarrow> (assignment_row \<times> group_row) list" where
  "list_assignments_q d =
     order_desc (\<lambda>(a, g). (as_created a, as_id a)) (concat (map (with_group d) (t_assignments d)))"

definition select_node_group_name_q :: "uuid \<Rightarrow> db \<Rightarrow> string query" where
  "select_node_group_name_q g d = and_then (row_of (\<lambda>r. ng_id r = g) (t_groups d)) (\<lambda>r. Inr (ng_name r))"

definition assignment_conflict_q :: "uuid \<Rightarrow> uuid \<Rightarrow> uuid \<Rightarrow> db \<Rightarrow> bool" where
  "assignment_conflict_q app env g d =
     exists_row (\<lambda>m. exists_row (\<lambda>a2. as_group a2 = gm_group m \<and> as_app a2 = app \<and> as_env a2 = env \<and>
           as_status a2 = Active \<and> as_group a2 \<noteq> g) (t_assignments d) \<and>
         gm_node m \<in> set (members_of g d)) (t_members d)"

definition insert_assignment_q ::
    "uuid \<Rightarrow> uuid \<Rightarrow> uuid \<Rightarrow> uuid \<Rightarrow> uuid \<Rightarrow> time \<Rightarrow> db \<Rightarrow> (time \<times> db) query" where
  "insert_assignment_q i g app env rid ts d =
     (if exists_row (\<lambda>a. as_id a = i \<or>
            as_group a = g \<and> as_app a = app \<and> as_env a = env \<and> as_status a = Active) (t_assignments d)
      then Inl UniqueViolation
      else if \<not> exists_row (\<lambda>r. ng_id r = g) (t_groups d) \<or> \<not> exists_row (\<lambda>r. br_id r = rid) (t_revisions d)
      then Inl ForeignKeyViolation
      else Inr (ts div second * second, d\<lparr>t_assignments := t_assignments d @
             [\<lparr>as_id = i, as_group = g, as_rev = rid, as_created = ts, as_app = app, as_env = env,
               as_status = Active\<rparr>]\<rparr>))"

definition advance_desired_revision_q :: "uuid \<Rightarrow> uuid \<Rightarrow> uuid \<Rightarrow> db \<Rightarrow> db query" where
  "advance_desired_revision_q app env rid d =
     (let p = (\<lambda>a. as_app a = app \<and> as_env a = env \<and> as_status a = Active) in
      if exists_row p (t_assignments d) \<and> \<not> exists_row (\<lambda>r. br_id r = rid) (t_revisions d)
      then Inl ForeignKeyViolation
      else Inr (d\<lparr>t_assignments := upd p (\<lambda>a. a\<lparr>as_rev := rid\<rparr>) (t_assignments d)\<rparr>))"

definition assignment_by_id_q :: "uuid \<Rightarrow> db \<Rightarrow> (assignment_row \<times> group_row) query" where
  "assignment_by_id_q i d =
     row_of (\<lambda>(a, g). as_id a = i) (concat (map (with_group d) (t_assignments d)))"

section \<open>Unassignment\<close>

definition mark_assignment_removing_q :: "uuid \<Rightarrow> db \<Rightarrow> nat \<times> db" where
  "mark_assignment_removing_q i d =
     (let p = (\<lambda>a. as_id a = i \<and> as_status a = Active) in
      (cnt p (t_assignments d),
       d\<lparr>t_assignments := upd p (\<lambda>a. a\<lparr>as_status := Removing\<rparr>) (t_assignments d)\<rparr>))"

text \<open>The subquery \<open>group_id = (SELECT ...)\<close> matches nothing when there is no such Assignment.\<close>

definition insert_unassignment_tasks_q :: "uuid \<Rightarrow> time \<Rightarrow> db \<Rightarrow> db query" where
  "insert_unassignment_tasks_q i ts d =
     (let nodes = (case one (\<lambda>a. as_id a = i) (t_assignments d) of
                     None \<Rightarrow> [] | Some a \<Rightarrow> members_of (as_group a) d) in
      if \<not> distinct nodes \<or> exists_row (\<lambda>t. ut_asg t = i \<and> ut_node t \<in> set nodes) (t_tasks d)
      then Inl UniqueViolation
      else Inr (d\<lparr>t_tasks := t_tasks d @ map (\<lambda>n. \<lparr>ut_asg = i, ut_node = n, ut_status = Pending,
             ut_error = [], ut_updated = ts\<rparr>) nodes\<rparr>))"

definition list_unassignment_tasks_q :: "uuid \<Rightarrow> db \<Rightarrow> task_row list" where
  "list_unassignment_tasks_q i d = sort_key ut_node (filter (\<lambda>t. ut_asg t = i) (t_tasks d))"

definition report_cleanup_task_q ::
    "uuid \<Rightarrow> uuid \<Rightarrow> task_status \<Rightarrow> string \<Rightarrow> time \<Rightarrow> db \<Rightarrow> nat \<times> db" where
  "report_cleanup_task_q i n status err ts d =
     (let p = (\<lambda>t. ut_asg t = i \<and> ut_node t = n \<and> ut_status t \<in> {Pending, Failed, CleanupUnconfirmed}) in
      (cnt p (t_tasks d),
       d\<lparr>t_tasks := upd p (\<lambda>t. t\<lparr>ut_status := status, ut_error := err, ut_updated := ts\<rparr>) (t_tasks d)\<rparr>))"

definition abandon_cleanup_confirmation_q :: "uuid \<Rightarrow> time \<Rightarrow> db \<Rightarrow> nat \<times> db" where
  "abandon_cleanup_confirmation_q i ts d =
     (let p = (\<lambda>t. ut_asg t = i \<and> ut_status t \<in> {Pending, Failed, Offline}) in
      (cnt p (t_tasks d),
       d\<lparr>t_tasks := upd p (\<lambda>t. t\<lparr>ut_status := CleanupUnconfirmed, ut_updated := ts\<rparr>) (t_tasks d)\<rparr>))"

definition pending_cleanup_q :: "uuid \<Rightarrow> db \<Rightarrow> (uuid \<times> uuid \<times> uuid) list" where
  "pending_cleanup_q n d =
     sort_key fst [(ut_asg t, as_app a, as_env a).
       t \<leftarrow> t_tasks d, ut_node t = n \<and> ut_status t \<in> {Pending, Failed, CleanupUnconfirmed},
       a \<leftarrow> t_assignments d, as_id a = ut_asg t]"

section \<open>Managed Nodes\<close>

definition list_node_q :: "(string \<Rightarrow> string) \<Rightarrow> db \<Rightarrow> node_row list" where
  "list_node_q coll d = sort_key (\<lambda>n. coll (nd_name n)) (t_nodes d)"

definition get_node_q :: "uuid \<Rightarrow> db \<Rightarrow> node_row query" where
  "get_node_q i d = row_of (\<lambda>n. nd_id n = i) (t_nodes d)"

definition node_by_serial_q :: "string \<Rightarrow> db \<Rightarrow> node_row query" where
  "node_by_serial_q serial d = row_of (\<lambda>n. nd_serial n = serial) (t_nodes d)"

definition touch_node_q :: "uuid \<Rightarrow> string \<Rightarrow> string \<Rightarrow> time \<Rightarrow> db \<Rightarrow> db" where
  "touch_node_q i observed result at d =
     d\<lparr>t_nodes := upd (\<lambda>n. nd_id n = i)
         (\<lambda>n. n\<lparr>nd_last_seen := Some at, nd_observed := observed, nd_result := result\<rparr>) (t_nodes d)\<rparr>"

definition set_node_desired_q :: "uuid \<Rightarrow> string \<Rightarrow> db \<Rightarrow> db" where
  "set_node_desired_q i etag d =
     d\<lparr>t_nodes := upd (\<lambda>n. nd_id n = i) (\<lambda>n. n\<lparr>nd_etag := etag\<rparr>) (t_nodes d)\<rparr>"

definition set_node_poll_interval_q :: "uuid \<Rightarrow> int \<Rightarrow> db \<Rightarrow> (nat \<times> db) query" where
  "set_node_poll_interval_q i secs d =
     (let p = (\<lambda>n. nd_id n = i) in
      if exists_row p (t_nodes d) \<and> (secs < 5 \<or> 86400 < secs) then Inl CheckViolation
      else Inr (cnt p (t_nodes d), d\<lparr>t_nodes := upd p (\<lambda>n. n\<lparr>nd_poll := secs\<rparr>) (t_nodes d)\<rparr>))"

definition rename_node_q :: "uuid \<Rightarrow> string \<Rightarrow> db \<Rightarrow> nat \<times> db" where
  "rename_node_q i name d =
     (let p = (\<lambda>n. nd_id n = i) in
      (cnt p (t_nodes d), d\<lparr>t_nodes := upd p (\<lambda>n. n\<lparr>nd_name := name\<rparr>) (t_nodes d)\<rparr>))"

definition set_node_bundle_dir_q :: "uuid \<Rightarrow> string \<Rightarrow> db \<Rightarrow> nat \<times> db" where
  "set_node_bundle_dir_q i dir d =
     (let p = (\<lambda>n. nd_id n = i) in
      (cnt p (t_nodes d), d\<lparr>t_nodes := upd p (\<lambda>n. n\<lparr>nd_bundle_dir := dir\<rparr>) (t_nodes d)\<rparr>))"

definition delete_node_q :: "uuid \<Rightarrow> db \<Rightarrow> nat \<times> db" where
  "delete_node_q i d = (cnt (\<lambda>n. nd_id n = i) (t_nodes d), drop_nodes (\<lambda>n. nd_id n = i) d)"

text \<open>A new row takes the defaults of its columns, a polling interval of 15 seconds among them.\<close>

definition register_node_q ::
    "uuid \<Rightarrow> string \<Rightarrow> string \<Rightarrow> string \<Rightarrow> string \<Rightarrow> time \<Rightarrow> string \<Rightarrow> time \<Rightarrow> db \<Rightarrow> db query" where
  "register_node_q i name serial age cert expires dir ts d =
     (if exists_row (\<lambda>n. nd_id n = i \<or> nd_serial n = serial) (t_nodes d) then Inl UniqueViolation
      else Inr (d\<lparr>t_nodes := t_nodes d @
        [\<lparr>nd_id = i, nd_name = name, nd_serial = serial, nd_age = age, nd_cert = cert,
          nd_cert_expires = expires, nd_created = ts, nd_last_seen = None, nd_etag = [], nd_observed = [],
          nd_result = [], nd_poll = 15, nd_bundle_dir = dir\<rparr>]\<rparr>))"

definition activate_pending_node_q ::
    "uuid \<Rightarrow> string \<Rightarrow> string \<Rightarrow> string \<Rightarrow> time \<Rightarrow> db \<Rightarrow> (nat \<times> db) query" where
  "activate_pending_node_q i serial age cert expires d =
     (let p = (\<lambda>n. nd_id n = i) in
      if exists_row p (t_nodes d) \<and> exists_row (\<lambda>n. nd_serial n = serial \<and> nd_id n \<noteq> i) (t_nodes d)
      then Inl UniqueViolation
      else Inr (cnt p (t_nodes d),
        d\<lparr>t_nodes := upd p (\<lambda>n. n\<lparr>nd_serial := serial, nd_age := age, nd_cert := cert,
            nd_cert_expires := expires\<rparr>) (t_nodes d)\<rparr>))"

section \<open>Enrollment Tokens\<close>

definition create_node_enrollment_token_q ::
    "string \<Rightarrow> string \<Rightarrow> time \<Rightarrow> uuid option \<Rightarrow> time \<Rightarrow> db \<Rightarrow> db query" where
  "create_node_enrollment_token_q hash name expires node ts d =
     (if exists_row (\<lambda>t. et_hash t = hash) (t_tokens d) then Inl UniqueViolation
      else if (case node of None \<Rightarrow> False | Some n \<Rightarrow> \<not> exists_row (\<lambda>r. nd_id r = n) (t_nodes d))
      then Inl ForeignKeyViolation
      else Inr (d\<lparr>t_tokens := t_tokens d @ [\<lparr>et_hash = hash, et_name = name, et_created = ts,
             et_expires = expires, et_used = None, et_node = node\<rparr>]\<rparr>))"

definition create_enrollment_token_q :: "string \<Rightarrow> string \<Rightarrow> time \<Rightarrow> time \<Rightarrow> db \<Rightarrow> db query" where
  "create_enrollment_token_q hash name expires ts d =
     create_node_enrollment_token_q hash name expires None ts d"

definition select_enrollment_token_q :: "string \<Rightarrow> db \<Rightarrow> token_row query" where
  "select_enrollment_token_q hash d = row_of (\<lambda>t. et_hash t = hash) (t_tokens d)"

definition select_enrollment_token_used_at_q :: "string \<Rightarrow> db \<Rightarrow> time option query" where
  "select_enrollment_token_used_at_q hash d =
     and_then (row_of (\<lambda>t. et_hash t = hash) (t_tokens d)) (\<lambda>t. Inr (et_used t))"

definition mark_enrollment_token_used_q :: "string \<Rightarrow> time \<Rightarrow> db \<Rightarrow> db" where
  "mark_enrollment_token_used_q hash at d =
     d\<lparr>t_tokens := upd (\<lambda>t. et_hash t = hash) (\<lambda>t. t\<lparr>et_used := Some at\<rparr>) (t_tokens d)\<rparr>"

section \<open>Delivery and Convergence\<close>

definition assigned_revisions_q :: "uuid \<Rightarrow> db \<Rightarrow> uuid list" where
  "assigned_revisions_q n d =
     sort (remdups [as_rev a. a \<leftarrow> t_assignments d, as_status a = Active,
       m \<leftarrow> t_members d, gm_group m = as_group a \<and> gm_node m = n])"

definition assignment_for_node_revision_q :: "uuid \<Rightarrow> uuid \<Rightarrow> db \<Rightarrow> (assignment_row \<times> group_row) query" where
  "assignment_for_node_revision_q n rid d =
     row_of (\<lambda>(a, g). as_rev a = rid \<and> as_status a = Active \<and>
         exists_row (\<lambda>m. gm_group m = as_group a \<and> gm_node m = n) (t_members d))
       (concat (map (with_group d) (t_assignments d)))"

text \<open>The observed revision of a row moves only with the result \<open>ok\<close>.\<close>

definition record_convergence_q :: "convergence_row \<Rightarrow> time \<Rightarrow> db \<Rightarrow> db query" where
  "record_convergence_q c ts d =
     (let p = (\<lambda>r. cv_node r = cv_node c \<and> cv_asg r = cv_asg c) in
      if exists_row p (t_convergence d)
      then Inr (d\<lparr>t_convergence := upd p (\<lambda>r. c\<lparr>
             cv_observed := (if cv_result c = ''ok'' then cv_observed c else cv_observed r),
             cv_updated := ts\<rparr>) (t_convergence d)\<rparr>)
      else if \<not> exists_row (\<lambda>n. nd_id n = cv_node c) (t_nodes d) \<or>
              \<not> exists_row (\<lambda>a. as_id a = cv_asg c) (t_assignments d) \<or>
              \<not> exists_row (\<lambda>a. ap_id a = cv_app c) (t_apps d) \<or>
              \<not> exists_row (\<lambda>e. en_id e = cv_env c) (t_envs d) then Inl ForeignKeyViolation
      else Inr (d\<lparr>t_convergence := t_convergence d @ [c\<lparr>
             cv_observed := (if cv_result c = ''ok'' then cv_observed c else []),
             cv_updated := ts\<rparr>]\<rparr>))"

definition node_convergence_q :: "uuid \<Rightarrow> db \<Rightarrow> convergence_row list" where
  "node_convergence_q n d =
     order_desc (\<lambda>c. (cv_result c = ''failed'', cv_updated c)) (filter (\<lambda>c. cv_node c = n) (t_convergence d))"

definition all_node_convergence_q :: "db \<Rightarrow> convergence_row list" where
  "all_node_convergence_q d = sort_key cv_node (t_convergence d)"

definition node_assignment_counts_q :: "db \<Rightarrow> (uuid \<times> nat) list" where
  "node_assignment_counts_q d =
     (let ns = [gm_node m. m \<leftarrow> t_members d, a \<leftarrow> t_assignments d,
                 as_group a = gm_group m \<and> as_status a = Active] in
      map (\<lambda>n. (n, length (filter (\<lambda>x. x = n) ns))) (remdups ns))"

end
