(* ===== verification/BundleStore.thy ===== *)
theory BundleStore
  imports BundleQueries
begin

text \<open>
  The store operations of the Secret Bundle domain: the first half of
  \<open>core/internal/database/domain.go\<close> (Applications, Environments, Secrets, Drafts, Publish, Rollback)
  and the Activation Policies of \<open>unassignment.go\<close>. One definition per method, with the method's calls
  in their order. Each method runs in one transaction: an error leaves the database as it was, and a
  method that reads a count before the transaction reads it from the same database. A fresh id the
  database generates (\<open>gen_random_uuid()\<close>) and the clocks are arguments.
\<close>

section \<open>Applications and Environments\<close>

definition list_applications :: "(string \<Rightarrow> string) \<Rightarrow> db \<Rightarrow> application_row list" where
  "list_applications coll d = list_applications_q coll d"

definition create_application :: "uuid \<Rightarrow> string \<Rightarrow> time \<Rightarrow> db \<Rightarrow> db result" where
  "create_application i name ts d = on_err dup_or_pg (create_application_q i name ts d)"

definition get_application :: "uuid \<Rightarrow> db \<Rightarrow> application_row result" where
  "get_application i d = on_err map_no_rows (get_application_q i d)"

text \<open>The store's \<open>Environment\<close> drops the protection level and the creation time of the row.\<close>

record environment =
  env_id :: uuid
  env_name :: string
  env_app :: uuid

definition environment_of :: "environment_row \<Rightarrow> environment" where
  "environment_of r = \<lparr>env_id = en_id r, env_name = en_name r, env_app = en_app r\<rparr>"

definition list_environments :: "(string \<Rightarrow> string) \<Rightarrow> uuid \<Rightarrow> db \<Rightarrow> environment list" where
  "list_environments coll app d = map environment_of (list_environments_q coll app d)"

definition create_environment :: "uuid \<Rightarrow> uuid \<Rightarrow> string \<Rightarrow> time \<Rightarrow> db \<Rightarrow> db result" where
  "create_environment i app name ts d =
     on_err dup_or_pg (create_environment_q i app name ''standard'' ts d)"

definition get_environment :: "uuid \<Rightarrow> uuid \<Rightarrow> db \<Rightarrow> environment result" where
  "get_environment env app d =
     and_then (on_err map_no_rows (get_environment_q env app d)) (\<lambda>r. Inr (environment_of r))"

definition delete_application :: "uuid \<Rightarrow> db \<Rightarrow> db result" where
  "delete_application app d =
     (if 0 < count_active_for_application_q app d then Inl ErrConflict
      else and_then (on_err ErrPg (delete_application_by_id_q app (delete_files_for_application_q app d)))
        (\<lambda>(n, d'). if n \<noteq> 1 then Inl ErrNotFound else Inr d'))"

definition delete_environment :: "uuid \<Rightarrow> uuid \<Rightarrow> db \<Rightarrow> db result" where
  "delete_environment env app d =
     (if 0 < count_active_for_environment_q app env d then Inl ErrConflict
      else and_then
        (on_err ErrPg (delete_environment_by_id_q env app (delete_files_for_environment_q app env d)))
        (\<lambda>(n, d'). if n \<noteq> 1 then Inl ErrNotFound else Inr d'))"

definition delete_secret :: "uuid \<Rightarrow> db \<Rightarrow> db result" where
  "delete_secret sid d =
     (if 0 < count_active_for_secret_q sid d then Inl ErrConflict
      else and_then (on_err ErrPg (delete_secret_by_id_q sid (delete_files_for_secret_q sid d)))
        (\<lambda>(n, d'). if n \<noteq> 1 then Inl ErrNotFound else Inr d'))"

section \<open>Secrets and their versions\<close>

definition list_secrets :: "(string \<Rightarrow> string) \<Rightarrow> uuid \<Rightarrow> uuid \<Rightarrow> db \<Rightarrow> secret_list_row list" where
  "list_secrets coll app env d = list_secrets_q coll app env d"

definition bump_draft_tx :: "uuid \<Rightarrow> db \<Rightarrow> (int \<times> db) query" where
  "bump_draft_tx draft d = bump_draft_q draft d"

definition bump_draft :: "uuid \<Rightarrow> uuid \<Rightarrow> db \<Rightarrow> (int \<times> db) query" where
  "bump_draft app env d =
     and_then (select_draft_q app env d) (\<lambda>r. bump_draft_tx (dr_id r) d)"

definition ensure_draft_and_bump :: "uuid \<Rightarrow> uuid \<Rightarrow> uuid \<Rightarrow> db \<Rightarrow> db query" where
  "ensure_draft_and_bump fresh app env d =
     and_then (insert_draft_q fresh app env d)
       (\<lambda>d1. and_then (bump_draft app env d1) (\<lambda>(_, d2). Inr d2))"

definition create_secret_with_value ::
    "uuid \<Rightarrow> uuid \<Rightarrow> uuid \<Rightarrow> uuid \<Rightarrow> uuid \<Rightarrow> string \<Rightarrow> bytes \<Rightarrow> bytes \<Rightarrow> bytes \<Rightarrow> db \<Rightarrow> db result" where
  "create_secret_with_value fresh sid vid app env name wrapped nonces ct d =
     and_then (on_err dup_or_pg (insert_secret_q sid app env name d)) (\<lambda>d1.
     and_then (on_err ErrPg (insert_version_first_q vid sid wrapped nonces ct d1)) (\<lambda>d2.
     and_then (on_err ErrPg (insert_default_binding_q sid name d2)) (\<lambda>d3.
     and_then (on_err ErrPg (ensure_draft_and_bump fresh app env d3)) (\<lambda>d4.
     on_err ErrPg (insert_selection_for_new_secret_q sid app env d4)))))"

definition add_secret_version ::
    "uuid \<Rightarrow> uuid \<Rightarrow> bytes \<Rightarrow> bytes \<Rightarrow> bytes \<Rightarrow> db \<Rightarrow> (int \<times> int \<times> db) result" where
  "add_secret_version vid sid wrapped nonces ct d =
     and_then (on_err map_no_rows (select_secret_app_env_q sid d)) (\<lambda>(app, env).
     and_then (on_err ErrPg (insert_version_next_q vid sid wrapped nonces ct d)) (\<lambda>(seq, d1).
     and_then (on_err ErrPg (bump_draft app env (update_selection_version_q seq app env sid d1)))
       (\<lambda>(version, d2). Inr (seq, version, d2))))"

definition update_binding ::
    "uuid \<Rightarrow> string \<Rightarrow> int \<Rightarrow> int \<Rightarrow> int \<Rightarrow> db \<Rightarrow> (int \<times> db) result" where
  "update_binding sid path uid gid mode d =
     and_then (on_err map_no_rows (select_secret_app_env_q sid d)) (\<lambda>(app, env).
     on_err ErrPg (bump_draft app env (update_file_binding_q sid path uid gid mode d)))"

section \<open>Drafts\<close>

record draft =
  draft_version :: int
  draft_selections :: "draft_selection list"

definition get_draft :: "(string \<Rightarrow> string) \<Rightarrow> uuid \<Rightarrow> uuid \<Rightarrow> db \<Rightarrow> draft result" where
  "get_draft coll app env d =
     and_then (on_err map_no_rows (select_draft_q app env d)) (\<lambda>r.
     Inr \<lparr>draft_version = dr_version r, draft_selections = list_draft_selections_q coll app env d\<rparr>)"

text \<open>
  \<open>UpdateDraftSelections\<close> ranges twice over the same Go map, and each range has an order of its own:
  \<open>checks\<close> and \<open>writes\<close> are the entries in the two orders.
\<close>

fun upsert_all :: "uuid \<Rightarrow> (uuid \<times> int) list \<Rightarrow> db \<Rightarrow> db query" where
  "upsert_all draft [] d = Inr d"
| "upsert_all draft ((sid, seq) # xs) d =
     and_then (upsert_selection_q draft sid seq d) (upsert_all draft xs)"

definition update_draft_selections ::
    "uuid \<Rightarrow> uuid \<Rightarrow> int \<Rightarrow> (uuid \<times> int) list \<Rightarrow> (uuid \<times> int) list \<Rightarrow> db \<Rightarrow> (int \<times> db) result" where
  "update_draft_selections app env expected checks writes d =
     and_then (on_err map_no_rows (select_draft_q app env d)) (\<lambda>r.
     and_then (on_err ErrPg (select_draft_version_q (dr_id r) d)) (\<lambda>version.
     if version \<noteq> expected then Inl ErrConflict
     else if list_ex (\<lambda>(sid, seq). \<not> selection_exists_q (dr_id r) sid seq d) checks
     then Inl ErrBadPayload
     else and_then (on_err ErrPg (upsert_all (dr_id r) writes d))
       (\<lambda>d1. on_err ErrPg (bump_draft_tx (dr_id r) d1))))"

section \<open>Publish, Rollback and Bundle Revisions\<close>

text \<open>\<open>rev_created\<close> is the instant the text of \<open>CreatedAt\<close> shows, which has whole seconds.\<close>

record revision =
  rev_id :: uuid
  rev_draft :: int
  rev_files :: nat
  rev_by :: string
  rev_created :: time
  rev_reason :: operation_reason

definition whole_seconds :: "time \<Rightarrow> time" where
  "whole_seconds t = t div second * second"

definition revision_of :: "revision_row \<times> nat \<Rightarrow> revision" where
  "revision_of rn = (case rn of (r, n) \<Rightarrow>
     \<lparr>rev_id = br_id r, rev_draft = br_draft_version r, rev_files = n, rev_by = br_by r,
      rev_created = whole_seconds (br_created r),
      rev_reason = \<lparr>or_category = br_category r, or_explanation = br_explanation r,
                    or_external = br_external r\<rparr>\<rparr>)"

definition publish ::
    "uuid \<Rightarrow> uuid \<Rightarrow> uuid \<Rightarrow> string \<Rightarrow> operation_reason \<Rightarrow> time \<Rightarrow> time \<Rightarrow> db \<Rightarrow> (revision \<times> db) result" where
  "publish rid app env actor reason ts now d =
     and_then (on_err map_no_rows (select_draft_q app env d)) (\<lambda>r.
     let n = count_draft_selections_q (dr_id r) d in
     if n = 0 then Inl ErrNoSecrets
     else
       and_then (on_err ErrPg (insert_revision_q rid app env (dr_version r) actor reason ts d)) (\<lambda>d1.
       and_then (on_err ErrPg (insert_files_from_draft_q rid (dr_id r) d1)) (\<lambda>d2.
       Inr (\<lparr>rev_id = rid, rev_draft = dr_version r, rev_files = n, rev_by = actor,
             rev_created = whole_seconds now, rev_reason = reason\<rparr>, d2))))"

definition list_revisions :: "uuid \<Rightarrow> uuid \<Rightarrow> db \<Rightarrow> revision list" where
  "list_revisions app env d = map revision_of (list_revisions_q app env d)"

definition list_all_revisions :: "int \<Rightarrow> db \<Rightarrow> revision list" where
  "list_all_revisions limit d =
     (let n = (if limit \<le> 0 \<or> 50 < limit then 5 else limit) in
      map revision_of (list_all_revisions_q (nat n) d))"

definition rollback ::
    "uuid \<Rightarrow> uuid \<Rightarrow> uuid \<Rightarrow> uuid \<Rightarrow> string \<Rightarrow> operation_reason \<Rightarrow> time \<Rightarrow> time \<Rightarrow> db
      \<Rightarrow> (revision \<times> db) result" where
  "rollback rid app env source actor reason ts now d =
     and_then (on_err map_no_rows (select_revision_draft_version_q source app env d)) (\<lambda>dv.
     let n = count_revision_files_q source d in
     if n = 0 then Inl ErrNoSecrets
     else
       and_then (on_err ErrPg (insert_revision_q rid app env dv actor reason ts d)) (\<lambda>d1.
       and_then (on_err ErrPg (insert_files_copy_q rid source d1)) (\<lambda>d2.
       Inr (\<lparr>rev_id = rid, rev_draft = dv, rev_files = n, rev_by = actor,
             rev_created = whole_seconds now, rev_reason = reason\<rparr>, d2))))"

section \<open>Reads of the delivery path\<close>

definition revision_files :: "(string \<Rightarrow> string) \<Rightarrow> uuid \<Rightarrow> db \<Rightarrow> file_row list" where
  "revision_files coll rid d = revision_files_q coll rid d"

definition revision_app_env :: "uuid \<Rightarrow> db \<Rightarrow> (uuid \<times> uuid) result" where
  "revision_app_env rid d = on_err map_no_rows (revision_app_env_q rid d)"

definition secret_version_blob :: "uuid \<Rightarrow> int \<Rightarrow> db \<Rightarrow> (bytes \<times> bytes \<times> bytes) result" where
  "secret_version_blob sid seq d = on_err map_no_rows (secret_version_blob_q sid seq d)"

definition secret_app_env :: "uuid \<Rightarrow> db \<Rightarrow> (uuid \<times> uuid) result" where
  "secret_app_env sid d = on_err map_no_rows (select_secret_app_env_q sid d)"

section \<open>Activation Policies\<close>

record activation_policy =
  pol_env :: uuid
  pol_action :: string
  pol_units :: "string list"

fun insert_units :: "uuid \<Rightarrow> int \<Rightarrow> string list \<Rightarrow> db \<Rightarrow> db query" where
  "insert_units env pos [] d = Inr d"
| "insert_units env pos (u # us) d =
     and_then (insert_policy_unit_q env pos u d) (insert_units env (pos + 1) us)"

definition save_activation_policy :: "activation_policy \<Rightarrow> db \<Rightarrow> db result" where
  "save_activation_policy p d =
     and_then (on_err ErrPg (upsert_activation_policy_q (pol_env p) (pol_action p) d)) (\<lambda>d1.
     on_err ErrPg (insert_units (pol_env p) 1 (pol_units p) (delete_policy_units_q (pol_env p) d1)))"

definition get_activation_policy :: "uuid \<Rightarrow> db \<Rightarrow> activation_policy result" where
  "get_activation_policy env d =
     and_then (on_err map_no_rows (get_activation_policy_q env d)) (\<lambda>p.
     Inr \<lparr>pol_env = po_env p, pol_action = po_action p, pol_units = list_policy_units_q env d\<rparr>)"

end
