(* ===== verification/BundleInvariants.thy ===== *)
theory BundleInvariants
  imports BundleStore
begin

text \<open>
  The well-formedness of the Secret Bundle tables and the proof that every operation of \<open>BundleStore\<close>
  keeps it. \<open>keys_ok\<close> is the primary keys and unique constraints of the migrations; \<open>refs_ok\<close> is the
  foreign keys, strengthened with what the operations add to them (a Draft selects, and a Bundle
  Revision freezes, Secrets of its own Application and Environment, at versions that exist);
  \<open>total_ok\<close> is that a Secret has a File Binding, a Draft and the versions 1 to n without a gap.
\<close>

section \<open>The invariant\<close>

definition env_in :: "db \<Rightarrow> uuid \<Rightarrow> uuid \<Rightarrow> bool" where
  "env_in d env app \<longleftrightarrow> (\<exists>e \<in> set (t_envs d). en_id e = env \<and> en_app e = app)"

definition version_in :: "db \<Rightarrow> uuid \<Rightarrow> int \<Rightarrow> bool" where
  "version_in d sid seq \<longleftrightarrow> (\<exists>v \<in> set (t_versions d). sv_secret v = sid \<and> sv_seq v = seq)"

definition secret_in :: "db \<Rightarrow> uuid \<Rightarrow> uuid \<Rightarrow> uuid \<Rightarrow> bool" where
  "secret_in d sid app env \<longleftrightarrow>
     (\<exists>s \<in> set (t_secrets d). sc_id s = sid \<and> sc_app s = app \<and> sc_env s = env)"

definition keys_ok :: "db \<Rightarrow> bool" where
  "keys_ok d \<longleftrightarrow>
     distinct (map ap_id (t_apps d)) \<and> distinct (map en_id (t_envs d)) \<and>
     distinct (map sc_id (t_secrets d)) \<and>
     distinct (map (\<lambda>v. (sv_secret v, sv_seq v)) (t_versions d)) \<and>
     distinct (map fb_secret (t_bindings d)) \<and> distinct (map dr_id (t_drafts d)) \<and>
     distinct (map (\<lambda>r. (dr_app r, dr_env r)) (t_drafts d)) \<and>
     distinct (map (\<lambda>s. (ds_draft s, ds_secret s)) (t_selections d)) \<and>
     distinct (map br_id (t_revisions d)) \<and> distinct (map file_key (t_files d))"

definition owners_ok :: "db \<Rightarrow> bool" where
  "owners_ok d \<longleftrightarrow>
     (\<forall>e \<in> set (t_envs d). \<exists>a \<in> set (t_apps d). ap_id a = en_app e) \<and>
     (\<forall>s \<in> set (t_secrets d). env_in d (sc_env s) (sc_app s)) \<and>
     (\<forall>r \<in> set (t_drafts d). env_in d (dr_env r) (dr_app r)) \<and>
     (\<forall>r \<in> set (t_revisions d). env_in d (br_env r) (br_app r)) \<and>
     (\<forall>v \<in> set (t_versions d). \<exists>s \<in> set (t_secrets d). sc_id s = sv_secret v) \<and>
     (\<forall>b \<in> set (t_bindings d). \<exists>s \<in> set (t_secrets d). sc_id s = fb_secret b)"

definition contents_ok :: "db \<Rightarrow> bool" where
  "contents_ok d \<longleftrightarrow>
     (\<forall>x \<in> set (t_selections d). version_in d (ds_secret x) (ds_seq x) \<and>
        (\<exists>r \<in> set (t_drafts d). dr_id r = ds_draft x \<and> secret_in d (ds_secret x) (dr_app r) (dr_env r))) \<and>
     (\<forall>f \<in> set (t_files d). version_in d (rf_secret f) (rf_seq f) \<and>
        (\<exists>r \<in> set (t_revisions d). br_id r = rf_rev f \<and> secret_in d (rf_secret f) (br_app r) (br_env r)))"

definition refs_ok :: "db \<Rightarrow> bool" where
  "refs_ok d \<longleftrightarrow> owners_ok d \<and> contents_ok d"

definition seqs_of :: "uuid \<Rightarrow> db \<Rightarrow> int list" where
  "seqs_of sid d = map sv_seq (filter (\<lambda>v. sv_secret v = sid) (t_versions d))"

definition total_ok :: "db \<Rightarrow> bool" where
  "total_ok d \<longleftrightarrow>
     (\<forall>s \<in> set (t_secrets d). (\<exists>b \<in> set (t_bindings d). fb_secret b = sc_id s) \<and>
        (\<exists>r \<in> set (t_drafts d). dr_app r = sc_app s \<and> dr_env r = sc_env s) \<and>
        (\<exists>n \<ge> 1. seqs_of (sc_id s) d = [1..n]))"

definition bundle_ok :: "db \<Rightarrow> bool" where
  "bundle_ok d \<longleftrightarrow> keys_ok d \<and> refs_ok d \<and> total_ok d"

lemma bundle_okI: "keys_ok d \<Longrightarrow> owners_ok d \<Longrightarrow> contents_ok d \<Longrightarrow> total_ok d \<Longrightarrow> bundle_ok d"
  by (simp add: bundle_ok_def refs_ok_def)

lemma bundle_okD:
  assumes "bundle_ok d"
  shows "keys_ok d" "owners_ok d" "contents_ok d" "total_ok d"
  using assms by (simp_all add: bundle_ok_def refs_ok_def)

lemmas parts_ok_defs = owners_ok_def contents_ok_def total_ok_def
lemmas lookup_defs = env_in_def version_in_def secret_in_def

lemma bundle_ok_empty: "bundle_ok empty_db"
  by (simp add: bundle_ok_def refs_ok_def keys_ok_def parts_ok_defs empty_db_def)

section \<open>Lookups under the invariant\<close>

lemma select_draft_eq:
  "keys_ok d \<Longrightarrow> r \<in> set (t_drafts d) \<Longrightarrow> select_draft_q (dr_app r) (dr_env r) d = Inr r"
  using one_Some_unique [of "\<lambda>r. (dr_app r, dr_env r)" "t_drafts d" r "(dr_app r, dr_env r)"]
  by (simp add: select_draft_q_def row_of_def keys_ok_def)

lemma select_draft_Inr:
  "select_draft_q app env d = Inr r \<Longrightarrow> r \<in> set (t_drafts d) \<and> dr_app r = app \<and> dr_env r = env"
  unfolding select_draft_q_def by (blast dest: row_of_Inr)

lemma drafts_filter_single:
  assumes "keys_ok d" "r \<in> set (t_drafts d)"
  shows "filter (\<lambda>x. dr_app x = dr_app r \<and> dr_env x = dr_env r) (t_drafts d) = [r]"
  using filter_key_single [of "\<lambda>r. (dr_app r, dr_env r)" "t_drafts d" r] assms by (simp add: keys_ok_def)

lemma max_seq_upto:
  assumes "seqs_of sid d = [1..n]" "1 \<le> n"
  shows "max_seq sid d = n"
proof -
  have fold_max: "fold max xs x = Max (insert x (set xs))" for xs and x :: int
  proof (induction xs arbitrary: x)
    case (Cons y ys)
    then show ?case by (cases "ys = []") (simp_all add: insert_commute max.commute max.left_commute)
  qed simp
  from assms have "seqs_of sid d = 1 # [2..n]"
    by (simp add: upto_rec1)
  then have "max_seq sid d = Max (insert 1 {2..n})"
    by (simp add: max_seq_def seqs_of_def fold_max)
  moreover have "insert 1 {2..n} = {1..n}" using assms(2) by auto
  ultimately show ?thesis using assms(2) by (simp add: Max_eq_iff)
qed

lemma version_in_seqs: "version_in d sid seq \<longleftrightarrow> seq \<in> set (seqs_of sid d)"
  by (auto simp: version_in_def seqs_of_def)

section \<open>Applications and Environments\<close>

lemma create_application_ok:
  assumes "create_application i name ts d = Inr d'" "bundle_ok d"
  shows "bundle_ok d'"
proof (rule bundle_okI)
  define a where "a = \<lparr>ap_id = i, ap_name = name, ap_created = ts\<rparr>"
  with assms(1) have d': "d' = d\<lparr>t_apps := t_apps d @ [a]\<rparr>"
    and a: "\<forall>x \<in> set (t_apps d). ap_id x \<noteq> ap_id a"
    by (auto simp: create_application_def create_application_q_def split: if_splits)
  note ok = bundle_okD [OF assms(2)]
  show "keys_ok d'" using ok(1) a by (auto simp: keys_ok_def d')
  show "owners_ok d'" using ok(2) unfolding owners_ok_def env_in_def d' by simp
  show "contents_ok d'" using ok(3) by (simp add: contents_ok_def d' version_in_def secret_in_def)
  show "total_ok d'" using ok(4) by (simp add: total_ok_def d' seqs_of_def)
qed

lemma env_in_mono: "env_in d env app \<Longrightarrow> set (t_envs d) \<subseteq> set (t_envs d') \<Longrightarrow> env_in d' env app"
  by (auto simp: env_in_def)

lemma create_environment_ok:
  assumes "create_environment i app name ts d = Inr d'" "bundle_ok d"
  shows "bundle_ok d'"
proof (rule bundle_okI)
  define r where "r = \<lparr>en_id = i, en_app = app, en_name = name, en_created = ts, en_protection = ''standard''\<rparr>"
  with assms(1) have d': "d' = d\<lparr>t_envs := t_envs d @ [r]\<rparr>"
    and r: "\<forall>x \<in> set (t_envs d). en_id x \<noteq> en_id r" "\<exists>a \<in> set (t_apps d). ap_id a = en_app r"
    by (auto simp: create_environment_def create_environment_q_def split: if_splits)
  note ok = bundle_okD [OF assms(2)]
  show "keys_ok d'" using ok(1) r by (auto simp: keys_ok_def d')
  have "env_in d e a \<Longrightarrow> env_in d' e a" for e a
    by (auto simp: d' intro: env_in_mono)
  with ok(2) r show "owners_ok d'"
    by (simp add: owners_ok_def d' del: One_nat_def)
  show "contents_ok d'" using ok(3) by (simp add: contents_ok_def d' version_in_def secret_in_def)
  show "total_ok d'" using ok(4) by (simp add: total_ok_def d' seqs_of_def)
qed

section \<open>Creating a Secret\<close>

lemma insert_draft_ok:
  assumes "insert_draft_q fresh app env d = Inr d'"
  obtains r where "r \<in> set (t_drafts d')" "dr_app r = app" "dr_env r = env"
    "d' = d\<lparr>t_drafts := t_drafts d'\<rparr>" "set (t_drafts d) \<subseteq> set (t_drafts d')"
    "set (t_drafts d') \<subseteq> insert r (set (t_drafts d))" "keys_ok d \<Longrightarrow> keys_ok d'"
proof (cases "exists_row (\<lambda>r. dr_app r = app \<and> dr_env r = env) (t_drafts d)")
  case True
  with assms have "d' = d" by (simp add: insert_draft_q_def)
  with True show ?thesis using that by (auto simp: insert_absorb)
next
  case False
  with assms have d': "d' = d\<lparr>t_drafts := t_drafts d @ [\<lparr>dr_id = fresh, dr_app = app, dr_env = env, dr_version = 0\<rparr>]\<rparr>"
    and fresh: "\<forall>r \<in> set (t_drafts d). dr_id r \<noteq> fresh"
    by (auto simp: insert_draft_q_def split: if_splits)
  have "keys_ok d \<Longrightarrow> keys_ok d'"
    using fresh False by (auto simp: d' keys_ok_def)
  then show ?thesis
    using that [of "\<lparr>dr_id = fresh, dr_app = app, dr_env = env, dr_version = 0\<rparr>"] d' by auto
qed

lemma bump_draft_Inr:
  assumes "bump_draft app env d = Inr (n, d')"
  obtains r where "select_draft_q app env d = Inr r" "n = dr_version r + 1 \<or> \<not> keys_ok d"
    "d' = d\<lparr>t_drafts := upd (\<lambda>x. dr_id x = dr_id r) (\<lambda>x. x\<lparr>dr_version := dr_version x + 1\<rparr>) (t_drafts d)\<rparr>"
proof -
  from assms obtain r r' where r: "select_draft_q app env d = Inr r"
    "row_of (\<lambda>x. dr_id x = dr_id r) (t_drafts d) = Inr r'" "n = dr_version r' + 1"
    and d': "d' = d\<lparr>t_drafts := upd (\<lambda>x. dr_id x = dr_id r) (\<lambda>x. x\<lparr>dr_version := dr_version x + 1\<rparr>) (t_drafts d)\<rparr>"
    by (auto simp: bump_draft_def bump_draft_tx_def bump_draft_q_def)
  have "keys_ok d \<Longrightarrow> r' = r"
    using r select_draft_Inr [OF r(1)] distinct_key_eq [of dr_id "t_drafts d" r' r] row_of_Inr [OF r(2)]
    by (auto simp: keys_ok_def)
  with r d' show ?thesis using that by blast
qed

lemma bump_draft_exists:
  assumes "keys_ok d" "r \<in> set (t_drafts d)" "dr_app r = app" "dr_env r = env"
  shows "bump_draft app env d = Inr (dr_version r + 1, d\<lparr>t_drafts :=
     upd (\<lambda>x. dr_id x = dr_id r) (\<lambda>x. x\<lparr>dr_version := dr_version x + 1\<rparr>) (t_drafts d)\<rparr>)"
proof -
  have "row_of (\<lambda>x. dr_id x = dr_id r) (t_drafts d) = Inr r"
    using one_Some_unique [of dr_id "t_drafts d" r "dr_id r"] assms by (simp add: row_of_def keys_ok_def)
  then show ?thesis
    using select_draft_eq [OF assms(1,2)] assms(3,4)
    by (simp add: bump_draft_def bump_draft_tx_def bump_draft_q_def)
qed

text \<open>The version of a Draft is no part of the invariant.\<close>

lemma bump_keeps_ok:
  "bundle_ok (d\<lparr>t_drafts := upd p (\<lambda>x. x\<lparr>dr_version := dr_version x + 1\<rparr>) (t_drafts d)\<rparr>) \<longleftrightarrow> bundle_ok d"
proof -
  let ?d' = "d\<lparr>t_drafts := upd p (\<lambda>x. x\<lparr>dr_version := dr_version x + 1\<rparr>) (t_drafts d)\<rparr>"
  have "keys_ok ?d' \<longleftrightarrow> keys_ok d"
    by (simp add: keys_ok_def map_upd_same)
  moreover have "owners_ok ?d' \<longleftrightarrow> owners_ok d"
    by (simp add: owners_ok_def lookup_defs)
  moreover have "contents_ok ?d' \<longleftrightarrow> contents_ok d"
    by (simp add: contents_ok_def lookup_defs)
  moreover have "total_ok ?d' \<longleftrightarrow> total_ok d"
    by (simp add: total_ok_def seqs_of_def)
  ultimately show ?thesis by (simp add: bundle_ok_def refs_ok_def)
qed

text \<open>The result of the first steps of \<open>CreateSecretWithValue\<close>: the rows every new Secret comes with.\<close>

definition with_new_secret ::
    "uuid \<Rightarrow> uuid \<Rightarrow> uuid \<Rightarrow> uuid \<Rightarrow> string \<Rightarrow> bytes \<Rightarrow> bytes \<Rightarrow> bytes \<Rightarrow> db \<Rightarrow> db" where
  "with_new_secret sid vid app env name w n c d =
     d\<lparr>t_secrets := t_secrets d @
         [\<lparr>sc_id = sid, sc_app = app, sc_env = env, sc_name = name, sc_retired = None\<rparr>],
       t_versions := t_versions d @
         [\<lparr>sv_id = vid, sv_secret = sid, sv_seq = 1, sv_wrapped = w, sv_nonce = n, sv_cipher = c\<rparr>],
       t_bindings := t_bindings d @
         [\<lparr>fb_secret = sid, fb_path = name, fb_uid = 0, fb_gid = 0, fb_mode = 256\<rparr>]\<rparr>"

lemma create_secret_Inr:
  assumes "create_secret_with_value fresh sid vid app env name w n c d = Inr d'"
    and keys: "keys_ok d" and owners: "owners_ok d" and contents: "contents_ok d"
  obtains r ds where
    "\<forall>s \<in> set (t_secrets d). sc_id s \<noteq> sid"
    "\<forall>v \<in> set (t_versions d). sv_secret v \<noteq> sid"
    "r \<in> set ds" "dr_app r = app" "dr_env r = env" "set (t_drafts d) \<subseteq> set ds" "set ds \<subseteq> insert r (set (t_drafts d))"
    "keys_ok (d\<lparr>t_drafts := ds\<rparr>)"
    "d' = (with_new_secret sid vid app env name w n c d)\<lparr>
        t_drafts := upd (\<lambda>x. dr_id x = dr_id r) (\<lambda>x. x\<lparr>dr_version := dr_version x + 1\<rparr>) ds,
        t_selections := t_selections d @ [\<lparr>ds_draft = dr_id r, ds_secret = sid, ds_seq = 1\<rparr>]\<rparr>"
proof -
  let ?d3 = "with_new_secret sid vid app env name w n c d"
  from assms(1) obtain d4 m d5 where
    sid: "\<forall>s \<in> set (t_secrets d). sc_id s \<noteq> sid"
    and ver: "\<forall>v \<in> set (t_versions d). \<not> (sv_secret v = sid \<and> sv_seq v = 1)"
    and d4: "insert_draft_q fresh app env ?d3 = Inr d4"
    and d5: "bump_draft app env d4 = Inr (m, d5)"
    and fin: "insert_selection_for_new_secret_q sid app env d5 = Inr d'"
    by (auto simp: create_secret_with_value_def insert_secret_q_def insert_version_first_q_def
        insert_version_q_def insert_default_binding_q_def ensure_draft_and_bump_def with_new_secret_def
        split: if_splits)
  have nov: "\<forall>v \<in> set (t_versions d). sv_secret v \<noteq> sid"
    and nob: "\<forall>b \<in> set (t_bindings d). fb_secret b \<noteq> sid"
    using owners sid by (auto simp: owners_ok_def)
  have nosel: "\<forall>x \<in> set (t_selections d). ds_secret x \<noteq> sid"
    using contents sid by (auto simp: contents_ok_def secret_in_def)
  have keys3: "keys_ok ?d3"
    using keys sid nov nob by (auto simp: keys_ok_def with_new_secret_def)
  from insert_draft_ok [OF d4] obtain r where
    r: "r \<in> set (t_drafts d4)" "dr_app r = app" "dr_env r = env" "d4 = ?d3\<lparr>t_drafts := t_drafts d4\<rparr>"
      "set (t_drafts ?d3) \<subseteq> set (t_drafts d4)" "set (t_drafts d4) \<subseteq> insert r (set (t_drafts ?d3))"
      "keys_ok ?d3 \<Longrightarrow> keys_ok d4"
    by blast
  note keys4 = r(7) [OF keys3]
  have d5': "d5 = d4\<lparr>t_drafts := upd (\<lambda>x. dr_id x = dr_id r) (\<lambda>x. x\<lparr>dr_version := dr_version x + 1\<rparr>) (t_drafts d4)\<rparr>"
    using d5 bump_draft_exists [OF keys4 r(1-3)] by simp
  let ?r' = "r\<lparr>dr_version := dr_version r + 1\<rparr>"
  have keys5: "keys_ok d5"
    using keys4 by (simp add: d5' keys_ok_def map_upd_same)
  have r': "?r' \<in> set (t_drafts d5)"
    using r(1) by (auto simp: d5' set_upd)
  have sel: "upsert_selection_q (dr_id r) sid 1 d5 = Inr d'"
    using fin drafts_filter_single [OF keys5 r'] r(2,3)
    by (auto simp: insert_selection_for_new_secret_q_def)
  have sel_eq: "t_selections d5 = t_selections d"
    by (subst d5', subst r(4)) (simp add: with_new_secret_def)
  have d': "d' = d5\<lparr>t_selections := t_selections d @ [\<lparr>ds_draft = dr_id r, ds_secret = sid, ds_seq = 1\<rparr>]\<rparr>"
    using sel nosel by (auto simp: upsert_selection_q_def sel_eq split: if_splits)
  have ds3: "t_drafts ?d3 = t_drafts d" by (simp add: with_new_secret_def)
  have "keys_ok (d\<lparr>t_drafts := t_drafts d4\<rparr>)"
    using keys keys4 by (simp add: keys_ok_def)
  moreover have "d' = ?d3\<lparr>
        t_drafts := upd (\<lambda>x. dr_id x = dr_id r) (\<lambda>x. x\<lparr>dr_version := dr_version x + 1\<rparr>) (t_drafts d4),
        t_selections := t_selections d @ [\<lparr>ds_draft = dr_id r, ds_secret = sid, ds_seq = 1\<rparr>]\<rparr>"
    unfolding d' d5' by (subst r(4)) simp
  ultimately show ?thesis
    using that [of r "t_drafts d4"] sid nov r ds3 by simp
qed

lemma create_secret_with_value_ok:
  assumes create: "create_secret_with_value fresh sid vid app env name w n c d = Inr d'"
    and ok: "bundle_ok d" and env: "env_in d env app"
  shows "bundle_ok d'"
proof -
  note okd = bundle_okD [OF ok]
  from create_secret_Inr [OF create okd(1-3)] obtain r ds where
    sid: "\<forall>s \<in> set (t_secrets d). sc_id s \<noteq> sid" and nov: "\<forall>v \<in> set (t_versions d). sv_secret v \<noteq> sid"
    and r: "r \<in> set ds" "dr_app r = app" "dr_env r = env" "set (t_drafts d) \<subseteq> set ds"
      "set ds \<subseteq> insert r (set (t_drafts d))"
    and kds: "keys_ok (d\<lparr>t_drafts := ds\<rparr>)"
    and d': "d' = (with_new_secret sid vid app env name w n c d)\<lparr>
        t_drafts := upd (\<lambda>x. dr_id x = dr_id r) (\<lambda>x. x\<lparr>dr_version := dr_version x + 1\<rparr>) ds,
        t_selections := t_selections d @ [\<lparr>ds_draft = dr_id r, ds_secret = sid, ds_seq = 1\<rparr>]\<rparr>"
    by blast
  have nob: "\<forall>b \<in> set (t_bindings d). fb_secret b \<noteq> sid"
    using okd(2) sid by (auto simp: owners_ok_def)
  have nosel: "\<forall>x \<in> set (t_selections d). ds_secret x \<noteq> sid"
    using okd(3) sid by (auto simp: contents_ok_def secret_in_def)
  show ?thesis
  proof (rule bundle_okI)
    show "keys_ok d'"
      using kds sid nov nob nosel
      by (auto simp: keys_ok_def d' with_new_secret_def map_upd_same)
    show "owners_ok d'"
      using okd(2) env r by (auto simp: owners_ok_def env_in_def d' with_new_secret_def)
    have ver: "version_in d x q \<Longrightarrow> version_in d' x q" "version_in d' sid 1" for x q
      by (auto simp: version_in_def d' with_new_secret_def)
    have sec: "secret_in d x a e \<Longrightarrow> secret_in d' x a e" "secret_in d' sid app env" for x a e
      by (auto simp: secret_in_def d' with_new_secret_def)
    have drafts: "(\<exists>x \<in> set (t_drafts d'). P (dr_id x) (dr_app x) (dr_env x)) \<longleftrightarrow>
        (\<exists>x \<in> set ds. P (dr_id x) (dr_app x) (dr_env x))" for P
      by (simp add: d')
    have sels: "set (t_selections d') = insert \<lparr>ds_draft = dr_id r, ds_secret = sid, ds_seq = 1\<rparr> (set (t_selections d))"
      "t_files d' = t_files d" "t_revisions d' = t_revisions d"
      by (simp_all add: d' with_new_secret_def)
    show "contents_ok d'"
      using okd(3) ver sec r
      unfolding contents_ok_def sels
      by (auto simp: drafts [of "\<lambda>i a e. i = ds_draft x \<and> secret_in d' (ds_secret x) a e" for x])
        (metis subsetD)+
    have tot: "\<exists>x \<in> set (t_drafts d'). dr_app x = dr_app y \<and> dr_env x = dr_env y"
      if "y \<in> set ds" for y
      using drafts [of "\<lambda>i a e. a = dr_app y \<and> e = dr_env y"] that by auto
    have seqs: "seqs_of x d' = seqs_of x d" if "x \<noteq> sid" for x
      using that by (simp add: seqs_of_def d' with_new_secret_def)
    have seq1: "seqs_of sid d' = [1..1]"
      using nov by (simp add: seqs_of_def d' with_new_secret_def filter_empty_conv)
    show "total_ok d'"
      unfolding total_ok_def
    proof (intro ballI conjI)
      fix s assume s: "s \<in> set (t_secrets d')"
      then consider "s \<in> set (t_secrets d)" | "sc_id s = sid" "sc_app s = app" "sc_env s = env"
        by (auto simp: d' with_new_secret_def)
      then have "(\<exists>b \<in> set (t_bindings d'). fb_secret b = sc_id s) \<and>
        (\<exists>x \<in> set (t_drafts d'). dr_app x = sc_app s \<and> dr_env x = sc_env s) \<and>
        (\<exists>n \<ge> 1. seqs_of (sc_id s) d' = [1..n])"
      proof cases
        case 1
        with okd(4) obtain b x n where
          "b \<in> set (t_bindings d)" "fb_secret b = sc_id s" "x \<in> set (t_drafts d)" "dr_app x = sc_app s"
          "dr_env x = sc_env s" "n \<ge> 1" "seqs_of (sc_id s) d = [1..n]"
          by (auto simp: total_ok_def)
        with 1 sid seqs [of "sc_id s"] tot [of x] r(4) show ?thesis
          by (auto simp: d' with_new_secret_def)
      next
        case 2
        with tot [OF r(1)] r(2,3) seq1 show ?thesis
          by (auto simp: d' with_new_secret_def)
      qed
      then show "\<exists>b \<in> set (t_bindings d'). fb_secret b = sc_id s"
        "\<exists>x \<in> set (t_drafts d'). dr_app x = sc_app s \<and> dr_env x = sc_env s"
        "\<exists>n \<ge> 1. seqs_of (sc_id s) d' = [1..n]"
        by blast+
    qed
  qed
qed

section \<open>New versions and File Bindings\<close>

lemma secret_app_env_Inr:
  "select_secret_app_env_q sid d = Inr (app, env) \<Longrightarrow> secret_in d sid app env"
  by (auto simp: select_secret_app_env_q_def secret_in_def dest!: row_of_Inr)

lemma seqs_of_total:
  "total_ok d \<Longrightarrow> secret_in d sid app env \<Longrightarrow> \<exists>n \<ge> 1. seqs_of sid d = [1..n]"
  unfolding total_ok_def secret_in_def by metis

lemma insert_version_next_Inr:
  assumes "insert_version_next_q vid sid w n c d = Inr (seq, d')"
  shows "seq = max_seq sid d + 1"
    "d' = d\<lparr>t_versions := t_versions d @
       [\<lparr>sv_id = vid, sv_secret = sid, sv_seq = seq, sv_wrapped = w, sv_nonce = n, sv_cipher = c\<rparr>]\<rparr>"
    "\<not> version_in d sid seq" "\<exists>s \<in> set (t_secrets d). sc_id s = sid"
  using assms
  by (auto simp: insert_version_next_q_def insert_version_q_def version_in_def Let_def split: if_splits)

lemma insert_version_next_ok:
  assumes ins: "insert_version_next_q vid sid w n c d = Inr (seq, d')" and ok: "bundle_ok d"
  shows "bundle_ok d'" "seqs_of sid d' = [1..seq]" "version_in d' sid seq" "1 \<le> seq"
proof -
  note okd = bundle_okD [OF ok] and i = insert_version_next_Inr [OF ins]
  from i(4) obtain m where m: "1 \<le> m" "seqs_of sid d = [1..m]"
    using okd(4) unfolding total_ok_def by metis
  have seq: "seq = m + 1" using i(1) max_seq_upto [OF m(2,1)] by simp
  have seqs: "seqs_of sid d' = [1..seq]" "x \<noteq> sid \<Longrightarrow> seqs_of x d' = seqs_of x d" for x
    using m by (simp_all add: i(2) seqs_of_def seq upto_rec2)
  have ver: "version_in d x q \<Longrightarrow> version_in d' x q" for x q
    by (auto simp: i(2) version_in_def)
  show "bundle_ok d'"
  proof (rule bundle_okI)
    show "keys_ok d'" using okd(1) i(3) by (auto simp: keys_ok_def i(2) version_in_def)
    show "owners_ok d'" using okd(2) i(4) by (auto simp: owners_ok_def i(2) env_in_def)
    show "contents_ok d'"
      using okd(3) ver by (simp add: contents_ok_def i(2) secret_in_def)
    show "total_ok d'"
      unfolding total_ok_def
    proof
      fix s assume "s \<in> set (t_secrets d')"
      then have s: "s \<in> set (t_secrets d)" by (simp add: i(2))
      have "\<exists>n \<ge> 1. seqs_of (sc_id s) d' = [1..n]"
      proof (cases "sc_id s = sid")
        case True
        with seqs(1) seq m(1) show ?thesis by (intro exI [of _ seq]) simp
      next
        case False
        with s okd(4) seqs(2) show ?thesis by (simp add: total_ok_def)
      qed
      with s okd(4) show "(\<exists>b \<in> set (t_bindings d'). fb_secret b = sc_id s) \<and>
          (\<exists>r \<in> set (t_drafts d'). dr_app r = sc_app s \<and> dr_env r = sc_env s) \<and>
          (\<exists>n \<ge> 1. seqs_of (sc_id s) d' = [1..n])"
        by (simp add: total_ok_def i(2))
    qed
  qed
  show "seqs_of sid d' = [1..seq]" by (rule seqs)
  show "version_in d' sid seq" by (simp add: version_in_def i(2))
  show "1 \<le> seq" using seq m by simp
qed

lemma select_version_keeps_ok:
  assumes "bundle_ok d" "version_in d sid seq" "\<And>x. p x \<Longrightarrow> ds_secret x = sid"
  shows "bundle_ok (d\<lparr>t_selections := upd p (\<lambda>x. x\<lparr>ds_seq := seq\<rparr>) (t_selections d)\<rparr>)"
proof -
  note okd = bundle_okD [OF assms(1)]
  let ?d' = "d\<lparr>t_selections := upd p (\<lambda>x. x\<lparr>ds_seq := seq\<rparr>) (t_selections d)\<rparr>"
  show ?thesis
  proof (rule bundle_okI)
    show "keys_ok ?d'" using okd(1) by (simp add: keys_ok_def map_upd_same)
    show "owners_ok ?d'" using okd(2) by (simp add: owners_ok_def env_in_def)
    show "total_ok ?d'" using okd(4) by (simp add: total_ok_def seqs_of_def)
    have "version_in ?d' = version_in d" "secret_in ?d' = secret_in d"
      by (simp_all add: fun_eq_iff version_in_def secret_in_def)
    moreover have "p x \<Longrightarrow> version_in d (ds_secret x) seq" for x
      using assms(2,3) by metis
    ultimately show "contents_ok ?d'"
      using okd(3) by (auto simp: contents_ok_def set_upd)
  qed
qed

lemma add_secret_version_ok:
  assumes "add_secret_version vid sid w n c d = Inr (seq, v, d')" "bundle_ok d"
  shows "bundle_ok d'"
proof -
  from assms(1) obtain app env d1 where
    1: "insert_version_next_q vid sid w n c d = Inr (seq, d1)"
    and 2: "bump_draft app env (update_selection_version_q seq app env sid d1) = Inr (v, d')"
    by (auto simp: add_secret_version_def)
  have "bundle_ok (update_selection_version_q seq app env sid d1)"
    unfolding update_selection_version_q_def
    by (rule select_version_keeps_ok) (use insert_version_next_ok [OF 1 assms(2)] in auto)
  with 2 show ?thesis by (auto elim!: bump_draft_Inr simp: bump_keeps_ok)
qed

lemma update_binding_ok:
  assumes "update_binding sid path uid gid mode d = Inr (v, d')" "bundle_ok d"
  shows "bundle_ok d'"
proof -
  note okd = bundle_okD [OF assms(2)]
  let ?d1 = "update_file_binding_q sid path uid gid mode d"
  have "keys_ok ?d1" "owners_ok ?d1" "contents_ok ?d1" "total_ok ?d1"
    using okd by (simp_all add: update_file_binding_q_def keys_ok_def map_upd_same parts_ok_defs lookup_defs
        seqs_of_def)
  then have "bundle_ok ?d1" by (rule bundle_okI)
  with assms(1) show ?thesis
    by (auto simp: update_binding_def bump_keeps_ok elim!: bump_draft_Inr)
qed

section \<open>Draft selections\<close>

lemma selection_exists_iff:
  assumes "keys_ok d" "r \<in> set (t_drafts d)"
  shows "selection_exists_q (dr_id r) sid seq d \<longleftrightarrow>
     version_in d sid seq \<and> secret_in d sid (dr_app r) (dr_env r)"
proof -
  have "x = r" if "x \<in> set (t_drafts d)" "dr_id x = dr_id r" for x
    using that assms distinct_key_eq [of dr_id "t_drafts d" x r] by (simp add: keys_ok_def)
  with assms(2) show ?thesis
    by (fastforce simp: selection_exists_q_def version_in_def secret_in_def)
qed

lemma upsert_selection_Inr:
  assumes "upsert_selection_q i sid seq d = Inr d'"
  shows "d' = d\<lparr>t_selections := t_selections d'\<rparr>"
    "set (t_selections d') = {x \<in> set (t_selections d). ds_draft x \<noteq> i \<or> ds_secret x \<noteq> sid}
       \<union> {\<lparr>ds_draft = i, ds_secret = sid, ds_seq = seq\<rparr>}"
    "keys_ok d \<Longrightarrow> keys_ok d'"
proof -
  let ?p = "\<lambda>s. ds_draft s = i \<and> ds_secret s = sid"
  show "d' = d\<lparr>t_selections := t_selections d'\<rparr>"
    using assms by (auto simp: upsert_selection_q_def split: if_splits)
  show "keys_ok d'" if keys: "keys_ok d"
  proof (cases "\<exists>x \<in> set (t_selections d). ?p x")
    case True
    with assms have "d' = d\<lparr>t_selections := upd ?p (\<lambda>s. s\<lparr>ds_seq := seq\<rparr>) (t_selections d)\<rparr>"
      by (simp add: upsert_selection_q_def)
    with keys show ?thesis by (simp add: keys_ok_def map_upd_same)
  next
    case False
    then have "(i, sid) \<notin> (\<lambda>s. (ds_draft s, ds_secret s)) ` set (t_selections d)"
      by auto
    moreover have "d' = d\<lparr>t_selections := t_selections d @ [\<lparr>ds_draft = i, ds_secret = sid, ds_seq = seq\<rparr>]\<rparr>"
      using assms False by (simp add: upsert_selection_q_def split: if_splits)
    ultimately show ?thesis using keys by (simp add: keys_ok_def)
  qed
  have upd: "x\<lparr>ds_seq := seq\<rparr> = \<lparr>ds_draft = i, ds_secret = sid, ds_seq = seq\<rparr>"
    if "?p x" for x :: selection_row using that by (cases x) simp
  show "set (t_selections d') = {x \<in> set (t_selections d). ds_draft x \<noteq> i \<or> ds_secret x \<noteq> sid}
       \<union> {\<lparr>ds_draft = i, ds_secret = sid, ds_seq = seq\<rparr>}"
  proof (cases "\<exists>x \<in> set (t_selections d). ?p x")
    case True
    then have "t_selections d' = upd ?p (\<lambda>s. s\<lparr>ds_seq := seq\<rparr>) (t_selections d)"
      using assms by (auto simp: upsert_selection_q_def)
    moreover have "(\<lambda>s. s\<lparr>ds_seq := seq\<rparr>) ` {x \<in> set (t_selections d). ?p x} =
        {\<lparr>ds_draft = i, ds_secret = sid, ds_seq = seq\<rparr>}"
      using True upd by (auto simp: image_iff)
    ultimately show ?thesis by (auto simp: set_upd_split)
  next
    case False
    then show ?thesis
      using assms by (auto simp: upsert_selection_q_def split: if_splits)
  qed
qed

definition selections_of :: "uuid \<Rightarrow> (uuid \<times> int) list \<Rightarrow> selection_row set" where
  "selections_of i xs = (\<lambda>(sid, seq). \<lparr>ds_draft = i, ds_secret = sid, ds_seq = seq\<rparr>) ` set xs"

lemma upsert_all_Inr:
  assumes "upsert_all i xs d = Inr d'" "distinct (map fst xs)"
  shows "d' = d\<lparr>t_selections := t_selections d'\<rparr>"
    "set (t_selections d') = {x \<in> set (t_selections d). ds_draft x \<noteq> i \<or> ds_secret x \<notin> fst ` set xs}
       \<union> selections_of i xs"
    "keys_ok d \<Longrightarrow> keys_ok d'"
proof -
  have "d' = d\<lparr>t_selections := t_selections d'\<rparr> \<and>
    set (t_selections d') = {x \<in> set (t_selections d). ds_draft x \<noteq> i \<or> ds_secret x \<notin> fst ` set xs}
       \<union> selections_of i xs \<and> (keys_ok d \<longrightarrow> keys_ok d')"
    using assms
  proof (induction xs arbitrary: d)
    case Nil
    then show ?case by (simp add: selections_of_def)
  next
    case (Cons x xs)
    obtain sid seq where x: "x = (sid, seq)" by fastforce
    from Cons.prems(1) obtain d1 where
      d1: "upsert_selection_q i sid seq d = Inr d1" and d': "upsert_all i xs d1 = Inr d'"
      by (auto simp: x)
    note u = upsert_selection_Inr [OF d1]
    have fresh: "sid \<notin> fst ` set xs" using Cons.prems(2) by (simp add: x)
    from Cons.IH [OF d'] Cons.prems(2) have ih: "d' = d1\<lparr>t_selections := t_selections d'\<rparr>"
      "set (t_selections d') = {x \<in> set (t_selections d1). ds_draft x \<noteq> i \<or> ds_secret x \<notin> fst ` set xs}
         \<union> selections_of i xs" "keys_ok d1 \<longrightarrow> keys_ok d'"
      by simp_all
    have 1: "d' = d\<lparr>t_selections := t_selections d'\<rparr>"
      by (subst ih(1), subst u(1)) simp
    have 2: "set (t_selections d') =
        {y \<in> set (t_selections d). ds_draft y \<noteq> i \<or> ds_secret y \<notin> fst ` set (x # xs)} \<union> selections_of i (x # xs)"
      unfolding ih(2) u(2) using fresh by (auto simp: x selections_of_def rev_image_eqI)
    show ?case using 1 2 ih(3) u(3) by blast
  qed
  then show "d' = d\<lparr>t_selections := t_selections d'\<rparr>"
    "set (t_selections d') = {x \<in> set (t_selections d). ds_draft x \<noteq> i \<or> ds_secret x \<notin> fst ` set xs}
       \<union> selections_of i xs"
    "keys_ok d \<Longrightarrow> keys_ok d'"
    by blast+
qed

lemma update_draft_selections_Inr:
  assumes "update_draft_selections app env expected checks writes d = Inr (v, d')"
    and keys: "keys_ok d"
  obtains r d1 where "select_draft_q app env d = Inr r" "r \<in> set (t_drafts d)" "dr_app r = app" "dr_env r = env"
    "dr_version r = expected" "v = expected + 1"
    "\<forall>(sid, seq) \<in> set checks. version_in d sid seq \<and> secret_in d sid app env"
    "upsert_all (dr_id r) writes d = Inr d1"
    "d' = d1\<lparr>t_drafts := upd (\<lambda>x. dr_id x = dr_id r) (\<lambda>x. x\<lparr>dr_version := dr_version x + 1\<rparr>) (t_drafts d1)\<rparr>"
    "t_drafts d1 = t_drafts d"
proof -
  from assms(1) obtain r d1 version where
    r: "select_draft_q app env d = Inr r" "select_draft_version_q (dr_id r) d = Inr version"
      "version = expected" "\<not> list_ex (\<lambda>(sid, seq). \<not> selection_exists_q (dr_id r) sid seq d) checks"
    and d1: "upsert_all (dr_id r) writes d = Inr d1" and b: "bump_draft_q (dr_id r) d1 = Inr (v, d')"
    by (auto simp: update_draft_selections_def bump_draft_tx_def split: if_splits)
  note sel = select_draft_Inr [OF r(1)]
  have uniq: "x = r" if "x \<in> set (t_drafts d)" "dr_id x = dr_id r" for x
    using that sel keys distinct_key_eq [of dr_id "t_drafts d" x r] by (simp add: keys_ok_def)
  have ver: "dr_version r = expected"
    using r(2,3) uniq by (auto simp: select_draft_version_q_def dest!: row_of_Inr)
  have drafts: "t_drafts d1 = t_drafts d"
    using d1
  proof (induction writes arbitrary: d)
    case (Cons x xs)
    obtain sid seq where x: "x = (sid, seq)" by fastforce
    from Cons.prems obtain d2 where
      "upsert_selection_q (dr_id r) sid seq d = Inr d2" "upsert_all (dr_id r) xs d2 = Inr d1"
      by (auto simp: x)
    moreover from this(1) have "t_drafts d2 = t_drafts d"
      by (auto simp: upsert_selection_q_def split: if_splits)
    ultimately show ?case using Cons.IH by simp
  qed simp
  from b drafts obtain r' where r': "row_of (\<lambda>x. dr_id x = dr_id r) (t_drafts d) = Inr r'"
    "v = dr_version r' + 1"
    and d': "d' = d1\<lparr>t_drafts := upd (\<lambda>x. dr_id x = dr_id r) (\<lambda>x. x\<lparr>dr_version := dr_version x + 1\<rparr>) (t_drafts d1)\<rparr>"
    by (auto simp: bump_draft_q_def)
  have "v = expected + 1" using r' uniq ver by (auto dest!: row_of_Inr)
  moreover have "\<forall>(sid, seq) \<in> set checks. version_in d sid seq \<and> secret_in d sid app env"
    using r(4) sel selection_exists_iff [OF keys, of r] by (auto simp: list_ex_iff)
  ultimately show ?thesis using that r(1) sel ver d1 d' drafts by blast
qed

lemma update_draft_selections_ok:
  assumes upd: "update_draft_selections app env expected checks writes d = Inr (v, d')"
    and ok: "bundle_ok d" and same: "set writes = set checks" "distinct (map fst writes)"
  shows "bundle_ok d'"
proof -
  note okd = bundle_okD [OF ok]
  obtain r d1 where "select_draft_q app env d = Inr r"
    and r: "r \<in> set (t_drafts d)" "dr_app r = app" "dr_env r = env"
    and "dr_version r = expected" "v = expected + 1"
    and checks: "\<forall>(sid, seq) \<in> set checks. version_in d sid seq \<and> secret_in d sid app env"
    and d1: "upsert_all (dr_id r) writes d = Inr d1"
    and d': "d' = d1\<lparr>t_drafts := upd (\<lambda>x. dr_id x = dr_id r) (\<lambda>x. x\<lparr>dr_version := dr_version x + 1\<rparr>) (t_drafts d1)\<rparr>"
    and "t_drafts d1 = t_drafts d"
    by (rule update_draft_selections_Inr [OF upd okd(1)])
  note u = upsert_all_Inr [OF d1 same(2)]
  have eqs: "t_drafts d1 = t_drafts d" "t_files d1 = t_files d" "t_revisions d1 = t_revisions d"
    "version_in d1 = version_in d" "secret_in d1 = secret_in d"
    by (subst u(1), simp add: fun_eq_iff version_in_def secret_in_def)+
  have "bundle_ok d1"
  proof (rule bundle_okI)
    show "keys_ok d1" using u(3) okd(1) .
    show "owners_ok d1" using okd(2) by (subst u(1)) (simp add: owners_ok_def env_in_def)
    show "total_ok d1" using okd(4) by (subst u(1)) (simp add: total_ok_def seqs_of_def)
    have new: "version_in d (ds_secret x) (ds_seq x) \<and>
        (\<exists>r \<in> set (t_drafts d). dr_id r = ds_draft x \<and> secret_in d (ds_secret x) (dr_app r) (dr_env r))"
      if "x \<in> selections_of (dr_id r) writes" for x
      using that checks r same(1) by (auto simp: selections_of_def intro!: bexI [of _ r])
    show "contents_ok d1"
      using okd(3) unfolding contents_ok_def eqs u(2) by (auto dest!: new)
  qed
  then show ?thesis by (simp add: d' bump_keeps_ok)
qed

section \<open>Publish and Rollback\<close>

lemma insert_revision_Inr:
  assumes "insert_revision_q rid app env dv actor reason ts d = Inr d'"
  obtains rw where "d' = d\<lparr>t_revisions := t_revisions d @ [rw]\<rparr>"
    "br_id rw = rid" "br_app rw = app" "br_env rw = env" "br_draft_version rw = dv"
    "\<forall>x \<in> set (t_revisions d). br_id x \<noteq> rid"
  using assms that [of "\<lparr>br_id = rid, br_app = app, br_env = env, br_draft_version = dv, br_created = ts,
     br_by = actor, br_category = or_category reason, br_explanation = or_explanation reason,
     br_external = or_external reason\<rparr>"]
  by (auto simp: insert_revision_q_def split: if_splits)

lemma insert_files_Inr:
  assumes "insert_files fs d = Inr d'"
  shows "d' = d\<lparr>t_files := t_files d @ fs\<rparr>" "keys_ok d \<Longrightarrow> keys_ok d'"
proof -
  from assms have fs: "distinct (map file_key fs)" "\<forall>f \<in> set fs. \<forall>g \<in> set (t_files d). file_key g \<noteq> file_key f"
    and d': "d' = d\<lparr>t_files := t_files d @ fs\<rparr>"
    by (auto simp: insert_files_def list_ex_iff split: if_splits)
  then show "d' = d\<lparr>t_files := t_files d @ fs\<rparr>" by simp
  have "file_key ` set fs \<inter> file_key ` set (t_files d) = {}" using fs(2) by force
  with fs(1) show "keys_ok d \<Longrightarrow> keys_ok d'" by (auto simp: keys_ok_def d')
qed

text \<open>A new Bundle Revision whose files are Secrets of its Application and Environment keeps the invariant.\<close>

lemma new_revision_ok:
  assumes ok: "bundle_ok d" and env: "env_in d env app"
    and ins: "insert_revision_q rid app env dv actor reason ts d = Inr d1"
    and files: "insert_files fs d1 = Inr d2"
    and fs: "\<And>f. f \<in> set fs \<Longrightarrow>
       rf_rev f = rid \<and> version_in d (rf_secret f) (rf_seq f) \<and> secret_in d (rf_secret f) app env"
  shows "bundle_ok d2"
proof -
  note okd = bundle_okD [OF ok]
  from insert_revision_Inr [OF ins] obtain rw where
    d1: "d1 = d\<lparr>t_revisions := t_revisions d @ [rw]\<rparr>"
    and rw: "br_id rw = rid" "br_app rw = app" "br_env rw = env" "\<forall>x \<in> set (t_revisions d). br_id x \<noteq> rid"
    by blast
  note d2 = insert_files_Inr [OF files]
  have keys1: "keys_ok d1" using okd(1) rw by (auto simp: keys_ok_def d1)
  have eqs: "version_in d2 = version_in d" "secret_in d2 = secret_in d"
    by (simp_all add: fun_eq_iff version_in_def secret_in_def d2(1) d1)
  show ?thesis
  proof (rule bundle_okI)
    show "keys_ok d2" using d2(2) keys1 .
    show "owners_ok d2" using okd(2) env rw by (auto simp: owners_ok_def env_in_def d2(1) d1)
    show "total_ok d2" using okd(4) by (simp add: total_ok_def seqs_of_def d2(1) d1)
    show "contents_ok d2"
      using okd(3) fs rw(1-3) unfolding contents_ok_def eqs by (auto simp: d2(1) d1)
  qed
qed

lemma draft_files_iff:
  "f \<in> set (draft_files rid draft d) \<longleftrightarrow>
     (\<exists>x \<in> set (t_selections d). \<exists>b \<in> set (t_bindings d). ds_draft x = draft \<and> fb_secret b = ds_secret x \<and>
       f = \<lparr>rf_rev = rid, rf_secret = ds_secret x, rf_path = fb_path b, rf_uid = fb_uid b,
             rf_gid = fb_gid b, rf_mode = fb_mode b, rf_seq = ds_seq x\<rparr>)"
  by (auto simp: draft_files_def)

lemma publish_Inr:
  assumes "publish rid app env actor reason ts now d = Inr (v, d')"
  obtains r d1 where "select_draft_q app env d = Inr r" "r \<in> set (t_drafts d)" "dr_app r = app" "dr_env r = env"
    "0 < count_draft_selections_q (dr_id r) d"
    "insert_revision_q rid app env (dr_version r) actor reason ts d = Inr d1"
    "insert_files (draft_files rid (dr_id r) d) d1 = Inr d'"
    "v = \<lparr>rev_id = rid, rev_draft = dr_version r, rev_files = count_draft_selections_q (dr_id r) d,
          rev_by = actor, rev_created = whole_seconds now, rev_reason = reason\<rparr>"
proof -
  from assms obtain r d1 where 1: "select_draft_q app env d = Inr r"
    "0 < count_draft_selections_q (dr_id r) d"
    "insert_revision_q rid app env (dr_version r) actor reason ts d = Inr d1"
    "insert_files_from_draft_q rid (dr_id r) d1 = Inr d'"
    "v = \<lparr>rev_id = rid, rev_draft = dr_version r, rev_files = count_draft_selections_q (dr_id r) d,
          rev_by = actor, rev_created = whole_seconds now, rev_reason = reason\<rparr>"
    by (auto simp: publish_def Let_def split: if_splits simp del: cnt_0 cnt_pos)
  moreover obtain rw where "d1 = d\<lparr>t_revisions := t_revisions d @ [rw]\<rparr>"
    using insert_revision_Inr [OF 1(3)] by blast
  then have "draft_files rid (dr_id r) d1 = draft_files rid (dr_id r) d"
    by (simp add: draft_files_def cong: if_cong)
  ultimately show ?thesis
    using that [of r d1] select_draft_Inr [OF 1(1)] by (simp add: insert_files_from_draft_q_def)
qed

lemma publish_ok:
  assumes "publish rid app env actor reason ts now d = Inr (v, d')" and ok: "bundle_ok d"
  shows "bundle_ok d'"
proof -
  note okd = bundle_okD [OF ok]
  from publish_Inr [OF assms(1)] obtain r d1 where
    r: "r \<in> set (t_drafts d)" "dr_app r = app" "dr_env r = env"
    and ins: "insert_revision_q rid app env (dr_version r) actor reason ts d = Inr d1"
    and files: "insert_files (draft_files rid (dr_id r) d) d1 = Inr d'"
    by blast
  have uniq: "x = r" if "x \<in> set (t_drafts d)" "dr_id x = dr_id r" for x
    using that r okd(1) distinct_key_eq [of dr_id "t_drafts d" x r] by (simp add: keys_ok_def)
  show ?thesis
  proof (rule new_revision_ok [OF ok _ ins files])
    show "env_in d env app" using okd(2) r by (auto simp: owners_ok_def)
    fix f assume "f \<in> set (draft_files rid (dr_id r) d)"
    then show "rf_rev f = rid \<and> version_in d (rf_secret f) (rf_seq f) \<and> secret_in d (rf_secret f) app env"
      using okd(3) uniq r by (fastforce simp: draft_files_iff contents_ok_def)
  qed
qed

lemma rollback_Inr:
  assumes "rollback rid app env source actor reason ts now d = Inr (v, d')"
  obtains sr d1 where "sr \<in> set (t_revisions d)" "br_id sr = source" "br_app sr = app" "br_env sr = env"
    "0 < count_revision_files_q source d"
    "insert_revision_q rid app env (br_draft_version sr) actor reason ts d = Inr d1"
    "insert_files (map (\<lambda>f. f\<lparr>rf_rev := rid\<rparr>) (filter (\<lambda>f. rf_rev f = source) (t_files d))) d1 = Inr d'"
    "v = \<lparr>rev_id = rid, rev_draft = br_draft_version sr, rev_files = count_revision_files_q source d,
          rev_by = actor, rev_created = whole_seconds now, rev_reason = reason\<rparr>"
proof -
  from assms obtain sr d1 where 1:
    "row_of (\<lambda>r. br_id r = source \<and> br_app r = app \<and> br_env r = env) (t_revisions d) = Inr sr"
    "0 < count_revision_files_q source d"
    "insert_revision_q rid app env (br_draft_version sr) actor reason ts d = Inr d1"
    "insert_files_copy_q rid source d1 = Inr d'"
    "v = \<lparr>rev_id = rid, rev_draft = br_draft_version sr, rev_files = count_revision_files_q source d,
          rev_by = actor, rev_created = whole_seconds now, rev_reason = reason\<rparr>"
    by (auto simp: rollback_def select_revision_draft_version_q_def Let_def split: if_splits
        simp del: cnt_0 cnt_pos)
  moreover obtain rw where "d1 = d\<lparr>t_revisions := t_revisions d @ [rw]\<rparr>"
    using insert_revision_Inr [OF 1(3)] by blast
  then have "t_files d1 = t_files d" by simp
  ultimately show ?thesis
    using that [of sr d1] row_of_Inr [OF 1(1)] by (simp add: insert_files_copy_q_def)
qed

lemma rollback_ok:
  assumes "rollback rid app env source actor reason ts now d = Inr (v, d')" and ok: "bundle_ok d"
  shows "bundle_ok d'"
proof -
  note okd = bundle_okD [OF ok]
  from rollback_Inr [OF assms(1)] obtain sr d1 where
    sr: "sr \<in> set (t_revisions d)" "br_id sr = source" "br_app sr = app" "br_env sr = env"
    and ins: "insert_revision_q rid app env (br_draft_version sr) actor reason ts d = Inr d1"
    and files: "insert_files (map (\<lambda>f. f\<lparr>rf_rev := rid\<rparr>) (filter (\<lambda>f. rf_rev f = source) (t_files d))) d1 = Inr d'"
    by blast
  have uniq: "x = sr" if "x \<in> set (t_revisions d)" "br_id x = br_id sr" for x
    using that sr okd(1) distinct_key_eq [of br_id "t_revisions d" x sr] by (simp add: keys_ok_def)
  show ?thesis
  proof (rule new_revision_ok [OF ok _ ins files])
    show "env_in d env app" using okd(2) sr by (auto simp: owners_ok_def)
    fix f assume "f \<in> set (map (\<lambda>f. f\<lparr>rf_rev := rid\<rparr>) (filter (\<lambda>f. rf_rev f = source) (t_files d)))"
    then show "rf_rev f = rid \<and> version_in d (rf_secret f) (rf_seq f) \<and> secret_in d (rf_secret f) app env"
      using okd(3) uniq sr by (fastforce simp: contents_ok_def)
  qed
qed

section \<open>Deletion\<close>

text \<open>
  A deletion keeps a part of each table. The part is closed when what a kept row names is kept, and
  the Secret of a version or a File Binding is kept exactly when the row is.
\<close>

lemma filtered_ok:
  assumes ok: "bundle_ok d"
    and tables: "t_apps d' = filter ka (t_apps d)" "t_envs d' = filter ke (t_envs d)"
      "t_secrets d' = filter ks (t_secrets d)" "t_versions d' = filter kv (t_versions d)"
      "t_bindings d' = filter kb (t_bindings d)" "t_drafts d' = filter kd (t_drafts d)"
      "t_selections d' = filter kx (t_selections d)" "t_revisions d' = filter kr (t_revisions d)"
      "t_files d' = filter kf (t_files d)"
    and apps: "\<And>e a. e \<in> set (t_envs d) \<Longrightarrow> ke e \<Longrightarrow> a \<in> set (t_apps d) \<Longrightarrow> ap_id a = en_app e \<Longrightarrow> ka a"
    and envs: "\<And>s e. s \<in> set (t_secrets d) \<Longrightarrow> ks s \<Longrightarrow> e \<in> set (t_envs d) \<Longrightarrow> en_id e = sc_env s \<Longrightarrow>
        en_app e = sc_app s \<Longrightarrow> ke e"
      "\<And>r e. r \<in> set (t_drafts d) \<Longrightarrow> kd r \<Longrightarrow> e \<in> set (t_envs d) \<Longrightarrow> en_id e = dr_env r \<Longrightarrow>
        en_app e = dr_app r \<Longrightarrow> ke e"
      "\<And>r e. r \<in> set (t_revisions d) \<Longrightarrow> kr r \<Longrightarrow> e \<in> set (t_envs d) \<Longrightarrow> en_id e = br_env r \<Longrightarrow>
        en_app e = br_app r \<Longrightarrow> ke e"
    and secrets: "\<And>v s. v \<in> set (t_versions d) \<Longrightarrow> s \<in> set (t_secrets d) \<Longrightarrow> sc_id s = sv_secret v \<Longrightarrow> kv v = ks s"
      "\<And>b s. b \<in> set (t_bindings d) \<Longrightarrow> s \<in> set (t_secrets d) \<Longrightarrow> sc_id s = fb_secret b \<Longrightarrow> kb b = ks s"
    and drafts: "\<And>s r. s \<in> set (t_secrets d) \<Longrightarrow> ks s \<Longrightarrow> r \<in> set (t_drafts d) \<Longrightarrow> dr_app r = sc_app s \<Longrightarrow>
        dr_env r = sc_env s \<Longrightarrow> kd r"
    and sels: "\<And>x r s. x \<in> set (t_selections d) \<Longrightarrow> kx x \<Longrightarrow> r \<in> set (t_drafts d) \<Longrightarrow> dr_id r = ds_draft x \<Longrightarrow>
        s \<in> set (t_secrets d) \<Longrightarrow> sc_id s = ds_secret x \<Longrightarrow> sc_app s = dr_app r \<Longrightarrow> sc_env s = dr_env r \<Longrightarrow>
        kd r \<and> ks s"
    and files: "\<And>f r s. f \<in> set (t_files d) \<Longrightarrow> kf f \<Longrightarrow> r \<in> set (t_revisions d) \<Longrightarrow> br_id r = rf_rev f \<Longrightarrow>
        s \<in> set (t_secrets d) \<Longrightarrow> sc_id s = rf_secret f \<Longrightarrow> sc_app s = br_app r \<Longrightarrow> sc_env s = br_env r \<Longrightarrow>
        kr r \<and> ks s"
  shows "bundle_ok d'"
proof -
  note okd = bundle_okD [OF ok]
  have ver: "version_in d' sid q" if "version_in d sid q" "s \<in> set (t_secrets d)" "sc_id s = sid" "ks s" for s sid q
    using that secrets(1) by (fastforce simp: version_in_def tables)
  have sec: "secret_in d' sid a e" if "s \<in> set (t_secrets d)" "sc_id s = sid" "sc_app s = a" "sc_env s = e" "ks s"
    for s sid a e using that by (auto simp: secret_in_def tables)
  show ?thesis
  proof (rule bundle_okI)
    show "keys_ok d'" using okd(1) by (simp add: keys_ok_def tables distinct_map_filter)
    show "owners_ok d'"
      using okd(2) apps envs secrets unfolding owners_ok_def tables env_in_def
      by (intro conjI ballI; clarsimp) (metis (no_types, lifting))+
    show "contents_ok d'"
      unfolding contents_ok_def
    proof (intro conjI ballI)
      fix x assume x: "x \<in> set (t_selections d')"
      then obtain r s where rs: "r \<in> set (t_drafts d)" "dr_id r = ds_draft x" "s \<in> set (t_secrets d)"
        "sc_id s = ds_secret x" "sc_app s = dr_app r" "sc_env s = dr_env r" "version_in d (ds_secret x) (ds_seq x)"
        using okd(3) by (auto simp: contents_ok_def tables secret_in_def)
      have k: "kd r" "ks s" using sels [OF _ _ rs(1-6)] x by (auto simp: tables)
      show "version_in d' (ds_secret x) (ds_seq x)" by (rule ver [OF rs(7,3,4) k(2)])
      show "\<exists>r \<in> set (t_drafts d'). dr_id r = ds_draft x \<and> secret_in d' (ds_secret x) (dr_app r) (dr_env r)"
        using rs k sec [OF rs(3-6) k(2)] by (intro bexI [of _ r]) (simp_all add: tables)
    next
      fix f assume f: "f \<in> set (t_files d')"
      then obtain r s where rs: "r \<in> set (t_revisions d)" "br_id r = rf_rev f" "s \<in> set (t_secrets d)"
        "sc_id s = rf_secret f" "sc_app s = br_app r" "sc_env s = br_env r" "version_in d (rf_secret f) (rf_seq f)"
        using okd(3) by (auto simp: contents_ok_def tables secret_in_def)
      have k: "kr r" "ks s" using files [OF _ _ rs(1-6)] f by (auto simp: tables)
      show "version_in d' (rf_secret f) (rf_seq f)" by (rule ver [OF rs(7,3,4) k(2)])
      show "\<exists>r \<in> set (t_revisions d'). br_id r = rf_rev f \<and> secret_in d' (rf_secret f) (br_app r) (br_env r)"
        using rs k sec [OF rs(3-6) k(2)] by (intro bexI [of _ r]) (simp_all add: tables)
    qed
    show "total_ok d'"
      unfolding total_ok_def
    proof
      fix s assume "s \<in> set (t_secrets d')"
      then have s: "s \<in> set (t_secrets d)" "ks s" by (simp_all add: tables)
      with okd(4) obtain b r n where
        b: "b \<in> set (t_bindings d)" "fb_secret b = sc_id s" and
        r: "r \<in> set (t_drafts d)" "dr_app r = sc_app s" "dr_env r = sc_env s" and
        n: "1 \<le> n" "seqs_of (sc_id s) d = [1..n]"
        unfolding total_ok_def by metis
      have "filter (\<lambda>v. sv_secret v = sc_id s) (filter kv (t_versions d)) =
          filter (\<lambda>v. sv_secret v = sc_id s) (t_versions d)"
        using s secrets(1) by (simp add: filter_filter) (rule filter_cong; force)
      then have "seqs_of (sc_id s) d' = seqs_of (sc_id s) d"
        by (simp add: seqs_of_def tables)
      with b r n s drafts secrets(2) show "(\<exists>b \<in> set (t_bindings d'). fb_secret b = sc_id s) \<and>
          (\<exists>r \<in> set (t_drafts d'). dr_app r = sc_app s \<and> dr_env r = sc_env s) \<and>
          (\<exists>n \<ge> 1. seqs_of (sc_id s) d' = [1..n])"
        by (auto simp: tables)
    qed
  qed
qed

lemma cnt_key_1:
  assumes "distinct (map key t)" "cnt (\<lambda>r. key r = k) t = 1"
  shows "map key (filter (\<lambda>r. key r = k) t) = [k]"
proof -
  from assms(2) obtain r where "filter (\<lambda>r. key r = k) t = [r]"
    by (auto simp: cnt_def length_Suc_conv)
  moreover then have "r \<in> set (filter (\<lambda>r. key r = k) t)" by simp
  then have "key r = k" by simp
  ultimately show ?thesis by simp
qed

lemma delete_secret_Inr:
  assumes "delete_secret sid d = Inr d'" "keys_ok d"
  shows "d' = drop_secrets (\<lambda>s. sc_id s = sid) (delete_files_for_secret_q sid d)"
    "map sc_id (filter (\<lambda>s. sc_id s = sid) (t_secrets d)) = [sid]"
    "count_active_for_secret_q sid d = 0"
proof -
  from assms(1) have c: "cnt (\<lambda>s. sc_id s = sid) (t_secrets d) = 1"
    and d': "d' = drop_secrets (\<lambda>s. sc_id s = sid) (delete_files_for_secret_q sid d)"
    and n: "count_active_for_secret_q sid d = 0"
    by (auto simp: delete_secret_def delete_secret_by_id_q_def delete_files_for_secret_q_def
        split: if_splits simp del: cnt_0 cnt_pos)
  show "d' = drop_secrets (\<lambda>s. sc_id s = sid) (delete_files_for_secret_q sid d)" by (rule d')
  show "map sc_id (filter (\<lambda>s. sc_id s = sid) (t_secrets d)) = [sid]"
    using cnt_key_1 [OF _ c] assms(2) by (simp add: keys_ok_def)
  show "count_active_for_secret_q sid d = 0" by (rule n)
qed

lemma delete_secret_ok:
  assumes "delete_secret sid d = Inr d'" and ok: "bundle_ok d"
  shows "bundle_ok d'"
proof -
  note okd = bundle_okD [OF ok] and del = delete_secret_Inr [OF assms(1) bundle_okD(1) [OF ok]]
  show ?thesis
    by (rule filtered_ok [OF ok, where ka = "\<lambda>_. True" and ke = "\<lambda>_. True" and ks = "\<lambda>s. sc_id s \<noteq> sid"
          and kv = "\<lambda>v. sv_secret v \<noteq> sid" and kb = "\<lambda>b. fb_secret b \<noteq> sid" and kd = "\<lambda>_. True"
          and kx = "\<lambda>x. ds_secret x \<noteq> sid" and kr = "\<lambda>_. True" and kf = "\<lambda>f. rf_secret f \<noteq> sid"])
      (simp_all add: del(1) drop_secrets_def delete_files_for_secret_q_def Let_def del(2) del_def)
qed

lemma delete_environment_Inr:
  assumes "delete_environment env app d = Inr d'" "keys_ok d"
  shows "d' = drop_environments (\<lambda>e. en_id e = env \<and> en_app e = app) (delete_files_for_environment_q app env d)"
    "map en_id (filter (\<lambda>e. en_id e = env \<and> en_app e = app) (t_envs d)) = [env]"
    "count_active_for_environment_q app env d = 0"
proof -
  from assms(1) have c: "cnt (\<lambda>e. en_id e = env \<and> en_app e = app) (t_envs d) = 1"
    and d': "d' = drop_environments (\<lambda>e. en_id e = env \<and> en_app e = app) (delete_files_for_environment_q app env d)"
    and n: "count_active_for_environment_q app env d = 0"
    by (auto simp: delete_environment_def delete_environment_by_id_q_def delete_files_for_environment_q_def
        Let_def split: if_splits simp del: cnt_0 cnt_pos)
  show "d' = drop_environments (\<lambda>e. en_id e = env \<and> en_app e = app) (delete_files_for_environment_q app env d)"
    by (rule d')
  from c obtain r where "filter (\<lambda>e. en_id e = env \<and> en_app e = app) (t_envs d) = [r]"
    by (auto simp: cnt_def length_Suc_conv)
  moreover then have "r \<in> set (filter (\<lambda>e. en_id e = env \<and> en_app e = app) (t_envs d))" by simp
  then have "en_id r = env" by simp
  ultimately show "map en_id (filter (\<lambda>e. en_id e = env \<and> en_app e = app) (t_envs d)) = [env]" by simp
  show "count_active_for_environment_q app env d = 0" by (rule n)
qed

lemma env_app_unique:
  "keys_ok d \<Longrightarrow> env_in d env app \<Longrightarrow> env_in d env app' \<Longrightarrow> app' = app"
  by (auto simp: keys_ok_def env_in_def dest: distinct_key_eq)

lemma owner_facts:
  assumes "owners_ok d"
  shows "s \<in> set (t_secrets d) \<Longrightarrow> env_in d (sc_env s) (sc_app s)"
    "r \<in> set (t_drafts d) \<Longrightarrow> env_in d (dr_env r) (dr_app r)"
    "v \<in> set (t_revisions d) \<Longrightarrow> env_in d (br_env v) (br_app v)"
    "e \<in> set (t_envs d) \<Longrightarrow> env_in d (en_id e) (en_app e)"
  using assms by (auto simp: owners_ok_def) (auto simp: env_in_def)

lemma delete_environment_tables:
  assumes "d' = drop_environments p (delete_files_for_environment_q app env d)"
    and gone: "map en_id (filter p (t_envs d)) = [env]"
  shows "t_apps d' = filter (\<lambda>_. True) (t_apps d)" "t_envs d' = filter (\<lambda>e. \<not> p e) (t_envs d)"
    "t_secrets d' = filter (\<lambda>s. sc_env s \<noteq> env) (t_secrets d)"
    "t_versions d' = filter (\<lambda>v. sv_secret v \<notin> sc_id ` {s \<in> set (t_secrets d). sc_env s = env}) (t_versions d)"
    "t_bindings d' = filter (\<lambda>b. fb_secret b \<notin> sc_id ` {s \<in> set (t_secrets d). sc_env s = env}) (t_bindings d)"
    "t_drafts d' = filter (\<lambda>r. dr_env r \<noteq> env) (t_drafts d)"
    "t_selections d' = filter (\<lambda>x. ds_draft x \<notin> dr_id ` {r \<in> set (t_drafts d). dr_env r = env} \<and>
        ds_secret x \<notin> sc_id ` {s \<in> set (t_secrets d). sc_env s = env}) (t_selections d)"
    "t_revisions d' = filter (\<lambda>r. br_env r \<noteq> env) (t_revisions d)"
    "t_files d' = filter (\<lambda>f. rf_rev f \<notin> br_id ` {r \<in> set (t_revisions d). br_env r = env} \<and>
        rf_rev f \<notin> br_id ` {r \<in> set (t_revisions d). br_app r = app \<and> br_env r = env}) (t_files d)"
    "t_assignments d' = filter (\<lambda>a. as_rev a \<notin> br_id ` {r \<in> set (t_revisions d). br_env r = env}) (t_assignments d)"
  by (simp_all add: assms(1) drop_environments_def delete_files_for_environment_q_def Let_def gone del_def
      conj_commute)

lemma delete_environment_ok:
  assumes "delete_environment env app d = Inr d'" and ok: "bundle_ok d"
  shows "bundle_ok d'"
proof -
  note okd = bundle_okD [OF ok]
  note del = delete_environment_Inr [OF assms(1) okd(1)]
  note tables = delete_environment_tables [OF del(1,2)]
  have in_env: "env_in d env app"
  proof -
    have "env \<in> set (map en_id (filter (\<lambda>e. en_id e = env \<and> en_app e = app) (t_envs d)))"
      unfolding del(2) by simp
    then show ?thesis by (auto simp: env_in_def)
  qed
  have same: "sc_id s = sc_id s' \<Longrightarrow> s \<in> set (t_secrets d) \<Longrightarrow> s' \<in> set (t_secrets d) \<Longrightarrow> s = s'" for s s'
    using okd(1) by (auto simp: keys_ok_def dest: distinct_key_eq)
  show ?thesis
  proof (rule filtered_ok [OF ok tables(1-9)])
    fix s e
    assume "s \<in> set (t_secrets d)" "sc_env s \<noteq> env" "en_id e = sc_env s"
    then show "\<not> (en_id e = env \<and> en_app e = app)" by simp
  qed (auto dest: same intro: rev_image_eqI)
qed

lemma delete_application_Inr:
  assumes "delete_application app d = Inr d'" "keys_ok d"
  shows "d' = drop_applications (\<lambda>a. ap_id a = app) (delete_files_for_application_q app d)"
    "map ap_id (filter (\<lambda>a. ap_id a = app) (t_apps d)) = [app]"
    "count_active_for_application_q app d = 0"
proof -
  from assms(1) have c: "cnt (\<lambda>a. ap_id a = app) (t_apps d) = 1"
    and d': "d' = drop_applications (\<lambda>a. ap_id a = app) (delete_files_for_application_q app d)"
    and n: "count_active_for_application_q app d = 0"
    by (auto simp: delete_application_def delete_application_by_id_q_def delete_files_for_application_q_def
        Let_def split: if_splits simp del: cnt_0 cnt_pos)
  show "d' = drop_applications (\<lambda>a. ap_id a = app) (delete_files_for_application_q app d)" by (rule d')
  show "map ap_id (filter (\<lambda>a. ap_id a = app) (t_apps d)) = [app]"
    using cnt_key_1 [OF _ c] assms(2) by (simp add: keys_ok_def)
  show "count_active_for_application_q app d = 0" by (rule n)
qed

lemma delete_application_tables:
  fixes app d
  assumes "d' = drop_applications p (delete_files_for_application_q app d)"
    and gone: "map ap_id (filter p (t_apps d)) = [app]"
  defines "E \<equiv> en_id ` {e \<in> set (t_envs d). en_app e = app}"
  defines "S1 \<equiv> sc_id ` {s \<in> set (t_secrets d). sc_env s \<in> E}"
    and "S2 \<equiv> sc_id ` {s \<in> set (t_secrets d). sc_env s \<notin> E \<and> sc_app s = app}"
  defines "D1 \<equiv> dr_id ` {r \<in> set (t_drafts d). dr_env r \<in> E}"
    and "D2 \<equiv> dr_id ` {r \<in> set (t_drafts d). dr_env r \<notin> E \<and> dr_app r = app}"
  defines "R1 \<equiv> br_id ` {r \<in> set (t_revisions d). br_env r \<in> E}"
    and "R2 \<equiv> br_id ` {r \<in> set (t_revisions d). br_env r \<notin> E \<and> br_app r = app}"
    and "R0 \<equiv> br_id ` {r \<in> set (t_revisions d). br_app r = app}"
  shows "t_apps d' = filter (\<lambda>a. \<not> p a) (t_apps d)"
    "t_envs d' = filter (\<lambda>e. en_app e \<noteq> app) (t_envs d)"
    "t_secrets d' = filter (\<lambda>s. sc_env s \<notin> E \<and> sc_app s \<noteq> app) (t_secrets d)"
    "t_versions d' = filter (\<lambda>v. sv_secret v \<notin> S1 \<and> sv_secret v \<notin> S2) (t_versions d)"
    "t_bindings d' = filter (\<lambda>b. fb_secret b \<notin> S1 \<and> fb_secret b \<notin> S2) (t_bindings d)"
    "t_drafts d' = filter (\<lambda>r. dr_env r \<notin> E \<and> dr_app r \<noteq> app) (t_drafts d)"
    "t_selections d' = filter (\<lambda>x. ds_secret x \<notin> S1 \<and> ds_draft x \<notin> D1 \<and> ds_secret x \<notin> S2 \<and> ds_draft x \<notin> D2)
       (t_selections d)"
    "t_revisions d' = filter (\<lambda>r. br_env r \<notin> E \<and> br_app r \<noteq> app) (t_revisions d)"
    "t_files d' = filter (\<lambda>f. rf_rev f \<notin> R0 \<and> rf_rev f \<notin> R1 \<and> rf_rev f \<notin> R2) (t_files d)"
    "t_assignments d' = filter (\<lambda>a. as_rev a \<notin> R1 \<and> as_rev a \<notin> R2) (t_assignments d)"
  by (simp_all add: assms drop_applications_def drop_environments_def delete_files_for_application_q_def Let_def
      gone del_def)

lemma delete_application_tables_ok:
  assumes del: "d' = drop_applications p (delete_files_for_application_q app d)"
      "map ap_id (filter p (t_apps d)) = [app]"
    and keys: "keys_ok d" and owners: "owners_ok d"
  shows "t_apps d' = filter (\<lambda>a. \<not> p a) (t_apps d)"
    "t_envs d' = filter (\<lambda>e. en_app e \<noteq> app) (t_envs d)"
    "t_secrets d' = filter (\<lambda>s. sc_app s \<noteq> app) (t_secrets d)"
    "t_versions d' = filter (\<lambda>v. sv_secret v \<notin> sc_id ` {s \<in> set (t_secrets d). sc_app s = app}) (t_versions d)"
    "t_bindings d' = filter (\<lambda>b. fb_secret b \<notin> sc_id ` {s \<in> set (t_secrets d). sc_app s = app}) (t_bindings d)"
    "t_drafts d' = filter (\<lambda>r. dr_app r \<noteq> app) (t_drafts d)"
    "t_selections d' = filter (\<lambda>x. ds_draft x \<notin> dr_id ` {r \<in> set (t_drafts d). dr_app r = app} \<and>
        ds_secret x \<notin> sc_id ` {s \<in> set (t_secrets d). sc_app s = app}) (t_selections d)"
    "t_revisions d' = filter (\<lambda>r. br_app r \<noteq> app) (t_revisions d)"
    "t_files d' = filter (\<lambda>f. rf_rev f \<notin> br_id ` {r \<in> set (t_revisions d). br_app r = app}) (t_files d)"
    "t_assignments d' = filter (\<lambda>a. as_rev a \<notin> br_id ` {r \<in> set (t_revisions d). br_app r = app}) (t_assignments d)"
proof -
  note tables = delete_application_tables [OF del]
  let ?E = "en_id ` {e \<in> set (t_envs d). en_app e = app}"
  have "env \<in> ?E \<longleftrightarrow> env_in d env app" for env
    by (auto simp: env_in_def)
  then have E: "env \<in> ?E \<longleftrightarrow> a = app" if "env_in d env a" for env a
    using that env_app_unique [OF keys that] by blast
  note own = owner_facts [OF owners]
  have sets: "{s \<in> set (t_secrets d). sc_env s \<in> ?E} = {s \<in> set (t_secrets d). sc_app s = app}"
    "{s \<in> set (t_secrets d). sc_env s \<notin> ?E \<and> sc_app s = app} = {}"
    "{r \<in> set (t_drafts d). dr_env r \<in> ?E} = {r \<in> set (t_drafts d). dr_app r = app}"
    "{r \<in> set (t_drafts d). dr_env r \<notin> ?E \<and> dr_app r = app} = {}"
    "{r \<in> set (t_revisions d). br_env r \<in> ?E} = {r \<in> set (t_revisions d). br_app r = app}"
    "{r \<in> set (t_revisions d). br_env r \<notin> ?E \<and> br_app r = app} = {}"
    using E own by blast+
  show "t_apps d' = filter (\<lambda>a. \<not> p a) (t_apps d)" by (rule tables(1))
  show "t_envs d' = filter (\<lambda>e. en_app e \<noteq> app) (t_envs d)" by (rule tables(2))
  show "t_secrets d' = filter (\<lambda>s. sc_app s \<noteq> app) (t_secrets d)"
    unfolding tables(3) using E own(1) by (intro filter_cong) blast+
  show "t_drafts d' = filter (\<lambda>r. dr_app r \<noteq> app) (t_drafts d)"
    unfolding tables(6) using E own(2) by (intro filter_cong) blast+
  show "t_revisions d' = filter (\<lambda>r. br_app r \<noteq> app) (t_revisions d)"
    unfolding tables(8) using E own(3) by (intro filter_cong) blast+
  show "t_versions d' = filter (\<lambda>v. sv_secret v \<notin> sc_id ` {s \<in> set (t_secrets d). sc_app s = app}) (t_versions d)"
    unfolding tables(4) sets by (simp only: image_empty empty_iff not_False_eq_True simp_thms)
  show "t_bindings d' = filter (\<lambda>b. fb_secret b \<notin> sc_id ` {s \<in> set (t_secrets d). sc_app s = app}) (t_bindings d)"
    unfolding tables(5) sets by (simp only: image_empty empty_iff not_False_eq_True simp_thms)
  show "t_selections d' = filter (\<lambda>x. ds_draft x \<notin> dr_id ` {r \<in> set (t_drafts d). dr_app r = app} \<and>
        ds_secret x \<notin> sc_id ` {s \<in> set (t_secrets d). sc_app s = app}) (t_selections d)"
    unfolding tables(7) sets by (simp only: image_empty empty_iff not_False_eq_True simp_thms conj_commute)
  show "t_files d' = filter (\<lambda>f. rf_rev f \<notin> br_id ` {r \<in> set (t_revisions d). br_app r = app}) (t_files d)"
    unfolding tables(9) sets by (simp only: image_empty empty_iff not_False_eq_True simp_thms)
  show "t_assignments d' = filter (\<lambda>a. as_rev a \<notin> br_id ` {r \<in> set (t_revisions d). br_app r = app}) (t_assignments d)"
    unfolding tables(10) sets by (simp only: image_empty empty_iff not_False_eq_True simp_thms)
qed

lemma delete_application_ok:
  assumes "delete_application app d = Inr d'" and ok: "bundle_ok d"
  shows "bundle_ok d'"
proof -
  note okd = bundle_okD [OF ok]
  note del = delete_application_Inr [OF assms(1) okd(1)]
  have same: "sc_id s = sc_id s' \<Longrightarrow> s \<in> set (t_secrets d) \<Longrightarrow> s' \<in> set (t_secrets d) \<Longrightarrow> s = s'" for s s'
    using okd(1) by (auto simp: keys_ok_def dest: distinct_key_eq)
  show ?thesis
    by (rule filtered_ok [OF ok delete_application_tables_ok(1-9) [OF del(1,2) okd(1,2)]])
      (auto dest: same intro: rev_image_eqI)
qed

end
