(* ===== verification/BundleLaws.thy ===== *)
theory BundleLaws
  imports BundleInvariants
begin

text \<open>
  What the operations of the Secret Bundle store do, on well-formed tables: the exact outcome of the
  three deletions (the restricting foreign key never fires), the content of a published and of a
  rolled back Bundle Revision, the optimistic lock of the Draft, and the values of Secret Versions.
\<close>

section \<open>Deletions answer conflict, not found, or succeed\<close>

lemma cnt_not_1:
  "distinct (map key t) \<Longrightarrow> cnt (\<lambda>r. key r = k) t \<noteq> 1 \<longleftrightarrow> (\<forall>r \<in> set t. key r \<noteq> k)"
  using cnt_key_le_1 [of key t k] cnt_0 [of "\<lambda>r. key r = k" t] by linarith

lemma file_owner:
  assumes "contents_ok d" "f \<in> set (t_files d)"
  obtains r s where "r \<in> set (t_revisions d)" "br_id r = rf_rev f" "s \<in> set (t_secrets d)"
    "sc_id s = rf_secret f" "sc_app s = br_app r" "sc_env s = br_env r"
  using assms by (fastforce simp: contents_ok_def secret_in_def)

lemma delete_secret_eq:
  assumes "bundle_ok d"
  shows "delete_secret sid d =
    (if count_active_for_secret_q sid d \<noteq> 0 then Inl ErrConflict
     else if \<forall>s \<in> set (t_secrets d). sc_id s \<noteq> sid then Inl ErrNotFound
     else Inr (drop_secrets (\<lambda>s. sc_id s = sid) (delete_files_for_secret_q sid d)))"
  using cnt_not_1 [of sc_id "t_secrets d" sid] bundle_okD(1) [OF assms]
  by (auto simp: delete_secret_def delete_secret_by_id_q_def delete_files_for_secret_q_def files_block_def
      keys_ok_def simp del: cnt_0 cnt_pos)

lemma secret_of_env_app:
  assumes "keys_ok d" "owners_ok d" "s \<in> set (t_secrets d)" "env_in d (sc_env s) app"
  shows "sc_app s = app"
  using env_app_unique [OF assms(1) owner_facts(1) [OF assms(2,3)] assms(4)] by simp

lemma no_block_application:
  assumes ok: "bundle_ok d"
  shows "\<not> files_block (\<lambda>s. sc_app s = app \<or> sc_env s \<in> set (map en_id (filter (\<lambda>e. en_app e = app) (t_envs d))))
    (delete_files_for_application_q app d)"
proof -
  note okd = bundle_okD [OF ok]
  { fix s f
    assume s: "s \<in> set (t_secrets d)"
      "sc_app s = app \<or> sc_env s \<in> set (map en_id (filter (\<lambda>e. en_app e = app) (t_envs d)))"
      and f: "f \<in> set (t_files (delete_files_for_application_q app d))" "rf_secret f = sc_id s"
    have app: "sc_app s = app"
    proof (cases "sc_app s = app")
      case False
      with s(2) have "env_in d (sc_env s) app" by (auto simp: env_in_def)
      then show ?thesis by (rule secret_of_env_app [OF okd(1,2) s(1)])
    qed
    from f(1) have f': "f \<in> set (t_files d)"
      "rf_rev f \<notin> set (map br_id (filter (\<lambda>r. br_app r = app) (t_revisions d)))"
      by (simp_all add: delete_files_for_application_q_def)
    from file_owner [OF okd(3) f'(1)] obtain r s' where
      r: "r \<in> set (t_revisions d)" "br_id r = rf_rev f" "s' \<in> set (t_secrets d)" "sc_id s' = rf_secret f"
        "sc_app s' = br_app r"
      by blast
    have "s' = s" using okd(1) r(3,4) f(2) s(1) by (auto simp: keys_ok_def dest: distinct_key_eq)
    with r f'(2) app have False by (auto intro: rev_image_eqI) }
  then show ?thesis
    unfolding files_block_def Let_def exists_row_iff
    by (auto simp: delete_files_for_application_q_def)
qed

lemma delete_application_eq:
  assumes "bundle_ok d"
  shows "delete_application app d =
    (if count_active_for_application_q app d \<noteq> 0 then Inl ErrConflict
     else if \<forall>a \<in> set (t_apps d). ap_id a \<noteq> app then Inl ErrNotFound
     else Inr (drop_applications (\<lambda>a. ap_id a = app) (delete_files_for_application_q app d)))"
proof -
  have "cnt (\<lambda>a. ap_id a = app) (t_apps d) \<noteq> 1 \<longleftrightarrow> (\<forall>a \<in> set (t_apps d). ap_id a \<noteq> app)"
    using cnt_not_1 [of ap_id "t_apps d" app] bundle_okD(1) [OF assms] by (simp add: keys_ok_def)
  moreover have "t_apps (delete_files_for_application_q app d) = t_apps d"
    "t_envs (delete_files_for_application_q app d) = t_envs d"
    by (simp_all add: delete_files_for_application_q_def)
  ultimately show ?thesis
    using no_block_application [OF assms, of app]
    by (simp add: delete_application_def delete_application_by_id_q_def Let_def del: cnt_0 cnt_pos set_map set_filter)
qed

lemma no_block_environment:
  assumes ok: "bundle_ok d" and env: "env_in d env app"
  shows "\<not> files_block (\<lambda>s. sc_env s = env) (delete_files_for_environment_q app env d)"
proof -
  note okd = bundle_okD [OF ok]
  { fix s f
    assume s: "s \<in> set (t_secrets d)" "sc_env s = env"
      and f: "f \<in> set (t_files (delete_files_for_environment_q app env d))" "rf_secret f = sc_id s"
    have app: "sc_app s = app" using secret_of_env_app [OF okd(1,2) s(1)] env s(2) by simp
    from f(1) have f': "f \<in> set (t_files d)"
      "rf_rev f \<notin> set (map br_id (filter (\<lambda>r. br_app r = app \<and> br_env r = env) (t_revisions d)))"
      by (simp_all add: delete_files_for_environment_q_def)
    from file_owner [OF okd(3) f'(1)] obtain r s' where
      r: "r \<in> set (t_revisions d)" "br_id r = rf_rev f" "s' \<in> set (t_secrets d)" "sc_id s' = rf_secret f"
        "sc_app s' = br_app r" "sc_env s' = br_env r"
      by blast
    have "s' = s" using okd(1) r(3,4) f(2) s(1) by (auto simp: keys_ok_def dest: distinct_key_eq)
    with r f'(2) app s(2) have False by (auto intro: rev_image_eqI) }
  then show ?thesis
    unfolding files_block_def Let_def exists_row_iff
    by (auto simp: delete_files_for_environment_q_def)
qed

lemma delete_environment_eq:
  assumes "bundle_ok d"
  shows "delete_environment env app d =
    (if count_active_for_environment_q app env d \<noteq> 0 then Inl ErrConflict
     else if \<not> env_in d env app then Inl ErrNotFound
     else Inr (drop_environments (\<lambda>e. en_id e = env \<and> en_app e = app) (delete_files_for_environment_q app env d)))"
proof -
  let ?p = "\<lambda>e. en_id e = env \<and> en_app e = app"
  have le: "cnt ?p t \<le> cnt (\<lambda>e. en_id e = env) t" for t
    by (induction t) (auto simp: cnt_def)
  have "cnt (\<lambda>e. en_id e = env) (t_envs d) \<le> 1"
    using bundle_okD(1) [OF assms] by (intro cnt_key_le_1) (simp add: keys_ok_def)
  with le [of "t_envs d"] have "cnt ?p (t_envs d) = 0 \<or> cnt ?p (t_envs d) = 1" by linarith
  moreover have "cnt ?p (t_envs d) = 0 \<longleftrightarrow> \<not> env_in d env app" by (auto simp: env_in_def)
  moreover have "n = 0 \<or> n = 1 \<Longrightarrow> (n = 0 \<longleftrightarrow> b) \<Longrightarrow> (n \<noteq> 1 \<longleftrightarrow> b)" for n :: nat and b by auto
  ultimately have "cnt ?p (t_envs d) \<noteq> 1 \<longleftrightarrow> \<not> env_in d env app" by blast
  moreover have "t_envs (delete_files_for_environment_q app env d) = t_envs d"
    by (simp add: delete_files_for_environment_q_def)
  moreover have "exists_row ?p (t_envs d) \<longleftrightarrow> env_in d env app" by (simp add: env_in_def)
  ultimately show ?thesis
    using no_block_environment [OF assms, of env app]
    by (simp add: delete_environment_def delete_environment_by_id_q_def Let_def del: cnt_0 cnt_pos exists_row_iff)
qed

section \<open>Publish and Rollback\<close>

text \<open>The files of a Bundle Revision.\<close>

definition files_of :: "uuid \<Rightarrow> db \<Rightarrow> file_row list" where
  "files_of rid d = filter (\<lambda>f. rf_rev f = rid) (t_files d)"

lemma count_files: "count_revision_files_q rid d = length (files_of rid d)"
  by (simp add: count_revision_files_q_def cnt_def files_of_def)

lemma binding_single:
  assumes ok: "bundle_ok d" and s: "secret_in d sid app env"
  obtains b where "b \<in> set (t_bindings d)" "fb_secret b = sid" "filter (\<lambda>b. fb_secret b = sid) (t_bindings d) = [b]"
proof -
  note okd = bundle_okD [OF ok]
  from s okd(4) obtain b where b: "b \<in> set (t_bindings d)" "fb_secret b = sid"
    by (auto simp: secret_in_def total_ok_def)
  then show thesis
    using that filter_key_single [of fb_secret "t_bindings d" b] okd(1) by (simp add: keys_ok_def)
qed

lemma draft_files_concat:
  "draft_files rid draft d = concat (map (\<lambda>x. map (\<lambda>b. \<lparr>rf_rev = rid, rf_secret = ds_secret x, rf_path = fb_path b,
     rf_uid = fb_uid b, rf_gid = fb_gid b, rf_mode = fb_mode b, rf_seq = ds_seq x\<rparr>)
       (filter (\<lambda>b. fb_secret b = ds_secret x) (t_bindings d)))
     (filter (\<lambda>x. ds_draft x = draft) (t_selections d)))"
  by (simp add: draft_files_def concat_if_single concat_if cong: if_cong)

text \<open>On well-formed tables every selected Secret gives exactly one file.\<close>

lemma draft_files_secrets:
  assumes ok: "bundle_ok d"
  shows "map rf_secret (draft_files rid draft d) = map ds_secret (filter (\<lambda>x. ds_draft x = draft) (t_selections d))"
proof -
  have one: "map rf_secret (map (\<lambda>b. \<lparr>rf_rev = rid, rf_secret = ds_secret x, rf_path = fb_path b,
       rf_uid = fb_uid b, rf_gid = fb_gid b, rf_mode = fb_mode b, rf_seq = ds_seq x\<rparr>)
       (filter (\<lambda>b. fb_secret b = ds_secret x) (t_bindings d))) = [ds_secret x]"
    if "x \<in> set (t_selections d)" for x
  proof -
    from that bundle_okD(3) [OF ok] obtain app env where "secret_in d (ds_secret x) app env"
      by (auto simp: contents_ok_def)
    from binding_single [OF ok this] show ?thesis by fastforce
  qed
  then show ?thesis
    unfolding draft_files_concat by (intro map_concat_single) simp
qed

lemma publish_succeeds:
  assumes ok: "bundle_ok d" and r: "r \<in> set (t_drafts d)" "dr_app r = app" "dr_env r = env"
    and some: "x \<in> set (t_selections d)" "ds_draft x = dr_id r"
    and fresh: "\<forall>v \<in> set (t_revisions d). br_id v \<noteq> rid"
  shows "\<exists>v d'. publish rid app env actor reason ts now d = Inr (v, d')"
proof -
  note okd = bundle_okD [OF ok]
  have sel: "select_draft_q app env d = Inr r" using select_draft_eq [OF okd(1) r(1)] r by simp
  have "count_draft_selections_q (dr_id r) d \<noteq> 0"
    using some by (auto simp: count_draft_selections_q_def)
  moreover have env: "env_in d env app" using okd(2) r by (auto simp: owners_ok_def)
  have app: "\<exists>a \<in> set (t_apps d). ap_id a = app" using env okd(2) by (auto simp: env_in_def owners_ok_def)
  define rw where "rw = \<lparr>br_id = rid, br_app = app, br_env = env, br_draft_version = dr_version r, br_created = ts,
     br_by = actor, br_category = or_category reason, br_explanation = or_explanation reason,
     br_external = or_external reason\<rparr>"
  have ins: "insert_revision_q rid app env (dr_version r) actor reason ts d = Inr (d\<lparr>t_revisions := t_revisions d @ [rw]\<rparr>)"
    using fresh app env by (auto simp: insert_revision_q_def env_in_def rw_def)
  let ?fs = "draft_files rid (dr_id r) d"
  have same: "draft_files rid (dr_id r) (d\<lparr>t_revisions := t_revisions d @ [rw]\<rparr>) = ?fs"
    by (simp add: draft_files_concat)
  have "distinct (map rf_secret ?fs)"
  proof -
    have "distinct (map (\<lambda>s. (ds_draft s, ds_secret s)) (filter (\<lambda>x. ds_draft x = dr_id r) (t_selections d)))"
      using okd(1) by (simp add: keys_ok_def distinct_map_filter)
    then show ?thesis
      unfolding draft_files_secrets [OF ok] by (auto simp: distinct_map inj_on_def)
  qed
  then have "distinct (map file_key ?fs)"
    by (auto simp: distinct_map inj_on_def file_key_def)
  moreover have "rf_rev f = rid \<and> (\<exists>s \<in> set (t_secrets d). sc_id s = rf_secret f)" if "f \<in> set ?fs" for f
    using that okd(3) by (fastforce simp: draft_files_iff contents_ok_def secret_in_def)
  moreover have "\<forall>g \<in> set (t_files d). rf_rev g \<noteq> rid"
    using okd(3) fresh by (metis contents_ok_def)
  ultimately have "insert_files ?fs (d\<lparr>t_revisions := t_revisions d @ [rw]\<rparr>) =
      Inr (d\<lparr>t_revisions := t_revisions d @ [rw], t_files := t_files d @ ?fs\<rparr>)"
    by (fastforce simp: insert_files_def list_ex_iff file_key_def rw_def)
  with \<open>count_draft_selections_q (dr_id r) d \<noteq> 0\<close> show ?thesis
    by (simp add: publish_def sel Let_def ins insert_files_from_draft_q_def same del: cnt_0 cnt_pos)
qed

lemma new_revision_content:
  assumes ok: "bundle_ok d"
    and ins: "insert_revision_q rid app env dv actor reason ts d = Inr d1"
    and files: "insert_files fs d1 = Inr d'"
    and fs: "\<And>f. f \<in> set fs \<Longrightarrow> rf_rev f = rid"
  shows "files_of rid d' = fs" "rid' \<noteq> rid \<Longrightarrow> files_of rid' d' = files_of rid' d"
    "set (t_revisions d) \<subseteq> set (t_revisions d')" "\<forall>r \<in> set (t_revisions d). br_id r \<noteq> rid"
    "d' = d\<lparr>t_revisions := t_revisions d', t_files := t_files d @ fs\<rparr>"
proof -
  obtain rw where d1: "d1 = d\<lparr>t_revisions := t_revisions d @ [rw]\<rparr>"
    and fresh: "\<forall>x \<in> set (t_revisions d). br_id x \<noteq> rid"
    using insert_revision_Inr [OF ins] by blast
  have d': "d' = d\<lparr>t_revisions := t_revisions d @ [rw], t_files := t_files d @ fs\<rparr>"
    using insert_files_Inr(1) [OF files] by (simp add: d1)
  have "\<forall>f \<in> set (t_files d). rf_rev f \<noteq> rid"
    using bundle_okD(3) [OF ok] fresh by (metis contents_ok_def)
  with fs show "files_of rid d' = fs"
    by (simp add: files_of_def d' filter_empty_conv filter_id_conv)
  from fs show "rid' \<noteq> rid \<Longrightarrow> files_of rid' d' = files_of rid' d"
    by (auto simp: files_of_def d' filter_empty_conv)
  show "set (t_revisions d) \<subseteq> set (t_revisions d')" by (simp add: d' subset_insertI)
  show "\<forall>r \<in> set (t_revisions d). br_id r \<noteq> rid" by (rule fresh)
  show "d' = d\<lparr>t_revisions := t_revisions d', t_files := t_files d @ fs\<rparr>" by (simp add: d')
qed

lemma publish_content:
  assumes pub: "publish rid app env actor reason ts now d = Inr (v, d')" and ok: "bundle_ok d"
  obtains r where "r \<in> set (t_drafts d)" "dr_app r = app" "dr_env r = env"
    "files_of rid d' = draft_files rid (dr_id r) d" "rev_files v = length (files_of rid d')"
    "rev_id v = rid" "rev_draft v = dr_version r" "0 < rev_files v"
    "d' = d\<lparr>t_revisions := t_revisions d', t_files := t_files d @ draft_files rid (dr_id r) d\<rparr>"
    "\<And>rid'. rid' \<noteq> rid \<Longrightarrow> files_of rid' d' = files_of rid' d"
    "set (t_revisions d) \<subseteq> set (t_revisions d')" "\<forall>r \<in> set (t_revisions d). br_id r \<noteq> rid"
proof -
  obtain r d1 where "select_draft_q app env d = Inr r"
    and r: "r \<in> set (t_drafts d)" "dr_app r = app" "dr_env r = env"
    and n: "0 < count_draft_selections_q (dr_id r) d"
    and ins: "insert_revision_q rid app env (dr_version r) actor reason ts d = Inr d1"
    and files: "insert_files (draft_files rid (dr_id r) d) d1 = Inr d'"
    and v: "v = \<lparr>rev_id = rid, rev_draft = dr_version r, rev_files = count_draft_selections_q (dr_id r) d,
          rev_by = actor, rev_created = whole_seconds now, rev_reason = reason\<rparr>"
    by (rule publish_Inr [OF pub])
  have fs: "f \<in> set (draft_files rid (dr_id r) d) \<Longrightarrow> rf_rev f = rid" for f
    by (auto simp: draft_files_iff)
  note c = new_revision_content [OF ok ins files fs]
  have "length (draft_files rid (dr_id r) d) = count_draft_selections_q (dr_id r) d"
    using arg_cong [OF draft_files_secrets [OF ok, of rid "dr_id r"], of length]
    by (simp add: count_draft_selections_q_def cnt_def)
  with n r c v show thesis by (intro that [of r]) simp_all
qed

lemma rollback_content:
  assumes rb: "rollback rid app env source actor reason ts now d = Inr (v, d')" and ok: "bundle_ok d"
  obtains sr where "sr \<in> set (t_revisions d)" "br_id sr = source" "br_app sr = app" "br_env sr = env"
    "files_of rid d' = map (\<lambda>f. f\<lparr>rf_rev := rid\<rparr>) (files_of source d)" "rev_files v = length (files_of rid d')"
    "rev_id v = rid" "rev_draft v = br_draft_version sr" "0 < rev_files v"
    "d' = d\<lparr>t_revisions := t_revisions d', t_files := t_files d @ files_of rid d'\<rparr>"
    "\<And>rid'. rid' \<noteq> rid \<Longrightarrow> files_of rid' d' = files_of rid' d"
    "set (t_revisions d) \<subseteq> set (t_revisions d')" "\<forall>r \<in> set (t_revisions d). br_id r \<noteq> rid"
proof -
  obtain sr d1 where sr: "sr \<in> set (t_revisions d)" "br_id sr = source" "br_app sr = app" "br_env sr = env"
    and n: "0 < count_revision_files_q source d"
    and ins: "insert_revision_q rid app env (br_draft_version sr) actor reason ts d = Inr d1"
    and files: "insert_files (map (\<lambda>f. f\<lparr>rf_rev := rid\<rparr>) (filter (\<lambda>f. rf_rev f = source) (t_files d))) d1 = Inr d'"
    and v: "v = \<lparr>rev_id = rid, rev_draft = br_draft_version sr, rev_files = count_revision_files_q source d,
          rev_by = actor, rev_created = whole_seconds now, rev_reason = reason\<rparr>"
    by (rule rollback_Inr [OF rb])
  have fs: "f \<in> set (map (\<lambda>f. f\<lparr>rf_rev := rid\<rparr>) (filter (\<lambda>f. rf_rev f = source) (t_files d))) \<Longrightarrow> rf_rev f = rid" for f
    by auto
  note c = new_revision_content [OF ok ins files fs]
  have fo: "files_of rid d' = map (\<lambda>f. f\<lparr>rf_rev := rid\<rparr>) (files_of source d)"
    using c(1) by (simp add: files_of_def)
  have d': "d' = d\<lparr>t_revisions := t_revisions d', t_files := t_files d @ files_of rid d'\<rparr>"
    using c(1,5) by simp
  show thesis
    by (rule that [OF sr fo _ _ _ _ d' c(2-4)])
      (use n v fo in \<open>simp_all add: count_files del: cnt_0 cnt_pos\<close>)
qed

section \<open>The optimistic lock of the Draft\<close>

lemma update_draft_locks:
  assumes upd: "update_draft_selections app env expected checks writes d = Inr (v, d')" and keys: "keys_ok d"
  shows "v = expected + 1" "update_draft_selections app env expected checks' writes' d' = Inl ErrConflict"
proof -
  obtain r d1 where "select_draft_q app env d = Inr r"
    and r: "r \<in> set (t_drafts d)" "dr_app r = app" "dr_env r = env"
    and ver: "dr_version r = expected" and v: "v = expected + 1"
    and "\<forall>(sid, seq) \<in> set checks. version_in d sid seq \<and> secret_in d sid app env"
    and "upsert_all (dr_id r) writes d = Inr d1"
    and d': "d' = d1\<lparr>t_drafts := upd (\<lambda>x. dr_id x = dr_id r) (\<lambda>x. x\<lparr>dr_version := dr_version x + 1\<rparr>) (t_drafts d1)\<rparr>"
    and same: "t_drafts d1 = t_drafts d"
    by (rule update_draft_selections_Inr [OF upd keys])
  let ?r' = "r\<lparr>dr_version := expected + 1\<rparr>"
  have "?r' \<in> set (t_drafts d')"
    using r(1) ver by (auto simp: d' same set_upd)
  moreover have "distinct (map (\<lambda>r. (dr_app r, dr_env r)) (t_drafts d'))" "distinct (map dr_id (t_drafts d'))"
    using keys by (simp_all add: d' same map_upd_same keys_ok_def)
  ultimately have "one (\<lambda>x. (dr_app x, dr_env x) = (app, env)) (t_drafts d') = Some ?r'"
    "one (\<lambda>x. dr_id x = dr_id r) (t_drafts d') = Some ?r'"
    using r by (intro one_Some_unique; simp)+
  then show "update_draft_selections app env expected checks' writes' d' = Inl ErrConflict"
    by (simp add: update_draft_selections_def select_draft_q_def select_draft_version_q_def row_of_def)
  show "v = expected + 1" by (rule v)
qed

text \<open>The result does not depend on the order in which the entries of the map are visited.\<close>

lemma upsert_all_succeeds:
  assumes "\<exists>r \<in> set (t_drafts d). dr_id r = i" "\<forall>(sid, seq) \<in> set xs. \<exists>s \<in> set (t_secrets d). sc_id s = sid"
  shows "\<exists>d'. upsert_all i xs d = Inr d'"
  using assms
proof (induction xs arbitrary: d)
  case (Cons x xs)
  obtain sid seq where x: "x = (sid, seq)" by fastforce
  from Cons.prems have "\<exists>d1. upsert_selection_q i sid seq d = Inr d1"
    by (auto simp: x upsert_selection_q_def)
  then obtain d1 where d1: "upsert_selection_q i sid seq d = Inr d1" by blast
  then have "t_drafts d1 = t_drafts d" "t_secrets d1 = t_secrets d"
    by (auto simp: upsert_selection_q_def split: if_splits)
  with Cons.IH [of d1] Cons.prems d1 show ?case by (simp add: x)
qed simp

lemma update_draft_order:
  assumes ok: "bundle_ok d" and same: "mset checks' = mset checks" "mset writes' = mset writes" "set writes = set checks"
    and dist: "distinct (map fst writes)"
    and upd: "update_draft_selections app env expected checks writes d = Inr (v, d')"
  shows "\<exists>d''. update_draft_selections app env expected checks' writes' d = Inr (v, d'') \<and>
     set (t_selections d'') = set (t_selections d') \<and> d'' = d'\<lparr>t_selections := t_selections d''\<rparr>"
proof -
  note keys = bundle_okD(1) [OF ok]
  have sets: "set checks' = set checks" "set writes' = set writes" "distinct (map fst writes')"
    using mset_eq_setD [OF same(1)] mset_eq_setD [OF same(2)]
      mset_eq_imp_distinct_iff [of "map fst writes'" "map fst writes"] same(2) dist by simp_all
  obtain r d1 where sel: "select_draft_q app env d = Inr r"
    and r: "r \<in> set (t_drafts d)" "dr_app r = app" "dr_env r = env"
    and ver: "dr_version r = expected" and v: "v = expected + 1"
    and chk: "\<forall>(sid, seq) \<in> set checks. version_in d sid seq \<and> secret_in d sid app env"
    and d1: "upsert_all (dr_id r) writes d = Inr d1"
    and d': "d' = d1\<lparr>t_drafts := upd (\<lambda>x. dr_id x = dr_id r) (\<lambda>x. x\<lparr>dr_version := dr_version x + 1\<rparr>) (t_drafts d1)\<rparr>"
    and same_drafts: "t_drafts d1 = t_drafts d"
    by (rule update_draft_selections_Inr [OF upd keys])
  have "\<forall>(sid, seq) \<in> set writes'. \<exists>s \<in> set (t_secrets d). sc_id s = sid"
    using chk sets same(3) by (auto simp: secret_in_def)
  with upsert_all_succeeds [of d "dr_id r" writes'] r(1) obtain d2 where
    d2: "upsert_all (dr_id r) writes' d = Inr d2" by blast
  note u1 = upsert_all_Inr [OF d1 dist] and u2 = upsert_all_Inr [OF d2 sets(3)]
  have "t_drafts d2 = t_drafts d" by (subst u2(1)) simp
  moreover have one: "row_of (\<lambda>x. dr_id x = dr_id r) (t_drafts d) = Inr r"
    using one_Some_unique [of dr_id "t_drafts d" r "dr_id r"] keys r(1) by (simp add: row_of_def keys_ok_def)
  moreover have "\<not> list_ex (\<lambda>(sid, seq). \<not> selection_exists_q (dr_id r) sid seq d) checks'"
    using chk sets(1) selection_exists_iff [OF keys r(1)] r(2,3) by (auto simp: list_ex_iff)
  ultimately have run: "update_draft_selections app env expected checks' writes' d = Inr (v,
      d2\<lparr>t_drafts := upd (\<lambda>x. dr_id x = dr_id r) (\<lambda>x. x\<lparr>dr_version := dr_version x + 1\<rparr>) (t_drafts d2)\<rparr>)"
    by (simp add: update_draft_selections_def sel select_draft_version_q_def ver d2 bump_draft_tx_def
        bump_draft_q_def v)
  define s1 s2 D where "s1 = t_selections d1" and "s2 = t_selections d2"
    and "D = upd (\<lambda>x. dr_id x = dr_id r) (\<lambda>x. x\<lparr>dr_version := dr_version x + 1\<rparr>) (t_drafts d)"
  have forms: "d1 = d\<lparr>t_selections := s1\<rparr>" "d2 = d\<lparr>t_selections := s2\<rparr>"
    using u1(1) u2(1) by (simp_all only: s1_def s2_def)
  have "set s2 = set s1" unfolding s1_def s2_def u1(2) u2(2) by (simp add: sets selections_of_def)
  moreover have "d' = d\<lparr>t_selections := s1, t_drafts := D\<rparr>"
    unfolding d' by (simp add: forms D_def)
  moreover have "update_draft_selections app env expected checks' writes' d = Inr (v, d\<lparr>t_selections := s2, t_drafts := D\<rparr>)"
    using run by (simp add: forms D_def)
  ultimately show ?thesis by simp
qed

section \<open>Secret values\<close>

lemma blob_of_version:
  assumes "keys_ok d" "v \<in> set (t_versions d)"
  shows "secret_version_blob (sv_secret v) (sv_seq v) d = Inr (sv_wrapped v, sv_nonce v, sv_cipher v)"
  using one_Some_unique [of "\<lambda>v. (sv_secret v, sv_seq v)" "t_versions d" v "(sv_secret v, sv_seq v)"] assms
  by (simp add: secret_version_blob_def secret_version_blob_q_def row_of_def keys_ok_def)

lemma add_secret_version_value:
  assumes add: "add_secret_version vid sid w n c d = Inr (seq, v, d')" and ok: "bundle_ok d"
  shows "secret_version_blob sid seq d' = Inr (w, n, c)" "seq = max_seq sid d + 1"
    "secret_version_blob sid' q d = Inr blob \<Longrightarrow> secret_version_blob sid' q d' = Inr blob"
    "t_files d' = t_files d" "t_revisions d' = t_revisions d"
proof -
  from add obtain app env d1 where
    1: "insert_version_next_q vid sid w n c d = Inr (seq, d1)"
    and 2: "bump_draft app env (update_selection_version_q seq app env sid d1) = Inr (v, d')"
    by (auto simp: add_secret_version_def)
  note i = insert_version_next_Inr [OF 1]
  obtain dd where d': "d' = (update_selection_version_q seq app env sid d1)\<lparr>t_drafts := dd\<rparr>"
    by (rule bump_draft_Inr [OF 2]) (rule that)
  have tab: "t_versions d' = t_versions d @
      [\<lparr>sv_id = vid, sv_secret = sid, sv_seq = seq, sv_wrapped = w, sv_nonce = n, sv_cipher = c\<rparr>]"
    "t_files d' = t_files d" "t_revisions d' = t_revisions d"
    by (simp_all add: d' update_selection_version_q_def i(2))
  have keys: "keys_ok d'" using add_secret_version_ok [OF add ok] by (rule bundle_okD)
  show "secret_version_blob sid seq d' = Inr (w, n, c)"
    using blob_of_version [OF keys, of "\<lparr>sv_id = vid, sv_secret = sid, sv_seq = seq, sv_wrapped = w,
        sv_nonce = n, sv_cipher = c\<rparr>"] by (simp add: tab(1))
  show "seq = max_seq sid d + 1" by (rule i(1))
  show "secret_version_blob sid' q d' = Inr blob" if old: "secret_version_blob sid' q d = Inr blob"
  proof -
    from old obtain x where "x \<in> set (t_versions d)" "sv_secret x = sid'" "sv_seq x = q"
      "blob = (sv_wrapped x, sv_nonce x, sv_cipher x)"
      by (auto simp: secret_version_blob_def secret_version_blob_q_def dest!: row_of_Inr)
    with blob_of_version [OF keys, of x] show ?thesis by (simp add: tab(1))
  qed
  show "t_files d' = t_files d" "t_revisions d' = t_revisions d" by (rule tab)+
qed

end
