(* ===== verification/GoInts.thy ===== *)
theory GoInts
  imports Main "HOL-Library.Word"
begin

text \<open>
  Go's fixed-width integers as the program converts between them: \<open>int\<close> is 64 bits wide on the
  supported platforms, and \<open>int32(n)\<close> keeps the low 32 bits, read as a signed number.
\<close>

definition to_int32 :: "int \<Rightarrow> int" where
  "to_int32 n = sint (word_of_int n :: 32 word)"

definition to_int64 :: "int \<Rightarrow> int" where
  "to_int64 n = sint (word_of_int n :: 64 word)"

lemma to_int32_id: "- (2 ^ 31) \<le> n \<Longrightarrow> n < 2 ^ 31 \<Longrightarrow> to_int32 n = n"
  by (simp add: to_int32_def int_word_sint)

lemma to_int64_id: "- (2 ^ 63) \<le> n \<Longrightarrow> n < 2 ^ 63 \<Longrightarrow> to_int64 n = n"
  by (simp add: to_int64_def int_word_sint)

lemma to_int32_range: "- (2 ^ 31) \<le> to_int32 n \<and> to_int32 n < 2 ^ 31"
  using sint_range_size [of "word_of_int n :: 32 word"] by (simp add: to_int32_def word_size)

end
