(* ===== verification/GoStrings.thy ===== *)
theory GoStrings
  imports Prelude
begin

text \<open>
  The parts of Go's standard library the source uses on strings, over byte strings: \<open>strings.TrimSpace\<close>,
  \<open>Split\<close>, \<open>HasPrefix\<close>, \<open>Contains\<close>, \<open>ContainsAny\<close>, \<open>ToLower\<close> (as far as an ASCII result can tell),
  \<open>len([]rune(s))\<close>, \<open>strconv.FormatInt\<close> and \<open>ParseInt\<close>, the verb \<open>%04o\<close>, \<open>hex\<close> and \<open>base64\<close>. The
  lemmas are the round trips and the idempotence facts the components use.
\<close>

abbreviation byte_val :: "char \<Rightarrow> nat" where "byte_val c \<equiv> of_char c"

section \<open>Prefixes, splitting, containment\<close>

fun has_prefix :: "string \<Rightarrow> string \<Rightarrow> bool" where
  "has_prefix s [] = True"
| "has_prefix [] (c # p) = False"
| "has_prefix (d # s) (c # p) = (d = c \<and> has_prefix s p)"

lemma has_prefix_append [simp]: "has_prefix (p @ s) p"
  by (induction p) auto

lemma has_prefix_iff: "has_prefix s p \<longleftrightarrow> (\<exists>t. s = p @ t)"
  by (induction s p rule: has_prefix.induct) auto

fun contains :: "string \<Rightarrow> string \<Rightarrow> bool" where
  "contains [] sub = (sub = [])"
| "contains (c # s) sub = (has_prefix (c # s) sub \<or> contains s sub)"

definition contains_any :: "string \<Rightarrow> string \<Rightarrow> bool" where
  "contains_any s chars = list_ex (\<lambda>c. c \<in> set chars) s"

fun split_on :: "char \<Rightarrow> string \<Rightarrow> string list" where
  "split_on sep [] = [[]]"
| "split_on sep (c # s) =
     (if c = sep then [] # split_on sep s
      else (case split_on sep s of [] \<Rightarrow> [[c]] | p # ps \<Rightarrow> (c # p) # ps))"

fun join_with :: "string \<Rightarrow> string list \<Rightarrow> string" where
  "join_with sep [] = []"
| "join_with sep [s] = s"
| "join_with sep (s # t # ts) = s @ sep @ join_with sep (t # ts)"

lemma split_on_not_Nil [simp]: "split_on sep s \<noteq> []"
  by (induction s) (auto split: list.splits)

lemma join_split: "join_with [sep] (split_on sep s) = s"
proof (induction s)
  case Nil
  then show ?case by simp
next
  case (Cons c s)
  obtain p ps where "split_on sep s = p # ps"
    by (meson neq_Nil_conv split_on_not_Nil)
  with Cons show ?case by (cases ps) auto
qed

lemma split_on_no_sep: "p \<in> set (split_on sep s) \<Longrightarrow> sep \<notin> set p"
proof (induction s arbitrary: p)
  case Nil
  then show ?case by simp
next
  case (Cons c s)
  obtain q qs where "split_on sep s = q # qs"
    by (meson neq_Nil_conv split_on_not_Nil)
  with Cons show ?case by (auto split: if_splits)
qed

section \<open>White space\<close>

text \<open>
  The UTF-8 encodings of the characters \<open>unicode.IsSpace\<close> accepts. An encoding is never a proper part
  of another, so trimming characters is trimming these byte strings.
\<close>

definition space_encodings :: "string list" where
  "space_encodings =
     [[CHR 0x09], [CHR 0x0A], [CHR 0x0B], [CHR 0x0C], [CHR 0x0D], [CHR 0x20],
      [CHR 0xC2, CHR 0x85], [CHR 0xC2, CHR 0xA0], [CHR 0xE1, CHR 0x9A, CHR 0x80],
      [CHR 0xE2, CHR 0x80, CHR 0x80], [CHR 0xE2, CHR 0x80, CHR 0x81], [CHR 0xE2, CHR 0x80, CHR 0x82],
      [CHR 0xE2, CHR 0x80, CHR 0x83], [CHR 0xE2, CHR 0x80, CHR 0x84], [CHR 0xE2, CHR 0x80, CHR 0x85],
      [CHR 0xE2, CHR 0x80, CHR 0x86], [CHR 0xE2, CHR 0x80, CHR 0x87], [CHR 0xE2, CHR 0x80, CHR 0x88],
      [CHR 0xE2, CHR 0x80, CHR 0x89], [CHR 0xE2, CHR 0x80, CHR 0x8A], [CHR 0xE2, CHR 0x80, CHR 0xA8],
      [CHR 0xE2, CHR 0x80, CHR 0xA9], [CHR 0xE2, CHR 0x80, CHR 0xAF], [CHR 0xE2, CHR 0x81, CHR 0x9F],
      [CHR 0xE3, CHR 0x80, CHR 0x80]]"

text \<open>\<open>trim_prefixes es s\<close> removes elements of \<open>es\<close> from the front of \<open>s\<close> as long as one is there.\<close>

function trim_prefixes :: "string list \<Rightarrow> string \<Rightarrow> string" where
  "trim_prefixes es s =
     (case find (\<lambda>e. e \<noteq> [] \<and> has_prefix s e) es of
        None \<Rightarrow> s
      | Some e \<Rightarrow> trim_prefixes es (drop (length e) s))"
  by pat_completeness auto
termination
proof (relation "measure (\<lambda>(es, s). length s)")
  fix es s e assume "find (\<lambda>e. e \<noteq> [] \<and> has_prefix s e) es = Some e"
  then have "e \<noteq> [] \<and> has_prefix s e" by (auto simp: find_Some_iff)
  then show "((es, drop (length e) s), es, s) \<in> measure (\<lambda>(es, s). length s)"
    by (auto simp: has_prefix_iff)
qed simp

declare trim_prefixes.simps [simp del]

definition trim_left :: "string \<Rightarrow> string" where
  "trim_left s = trim_prefixes space_encodings s"

definition trim_right :: "string \<Rightarrow> string" where
  "trim_right s = rev (trim_prefixes (map rev space_encodings) (rev s))"

definition trim_space :: "string \<Rightarrow> string" where
  "trim_space s = trim_right (trim_left s)"

lemma trim_prefixes_find:
  "find (\<lambda>e. e \<noteq> [] \<and> has_prefix (trim_prefixes es s) e) es = None"
proof (induction es s rule: trim_prefixes.induct)
  case (1 es s)
  show ?case
  proof (cases "find (\<lambda>e. e \<noteq> [] \<and> has_prefix s e) es")
    case None
    then show ?thesis by (simp add: trim_prefixes.simps [of es s])
  next
    case (Some e)
    with "1.IH" [OF Some] show ?thesis by (simp add: trim_prefixes.simps [of es s])
  qed
qed

lemma trim_prefixes_suffix: "\<exists>p. s = p @ trim_prefixes es s"
proof (induction es s rule: trim_prefixes.induct)
  case (1 es s)
  show ?case
  proof (cases "find (\<lambda>e. e \<noteq> [] \<and> has_prefix s e) es")
    case None
    then show ?thesis by (simp add: trim_prefixes.simps [of es s])
  next
    case (Some e)
    then have "has_prefix s e" by (auto simp: find_Some_iff)
    then obtain t where t: "s = e @ t" by (auto simp: has_prefix_iff)
    from "1.IH" [OF Some] obtain p where "t = p @ trim_prefixes es t"
      by (auto simp: t)
    then have "s = (e @ p) @ trim_prefixes es t"
      using t by simp
    moreover have "trim_prefixes es s = trim_prefixes es (drop (length e) s)"
      using Some by (simp add: trim_prefixes.simps [of es s])
    then have "trim_prefixes es s = trim_prefixes es t" by (simp add: t)
    ultimately show ?thesis by metis
  qed
qed

lemma trim_prefixes_fix:
  "find (\<lambda>e. e \<noteq> [] \<and> has_prefix s e) es = None \<Longrightarrow> trim_prefixes es s = s"
  by (subst trim_prefixes.simps) simp

lemma trim_right_prefix: "\<exists>q. s = trim_right s @ q"
proof -
  obtain p where "rev s = p @ trim_prefixes (map rev space_encodings) (rev s)"
    using trim_prefixes_suffix by blast
  then have "s = trim_right s @ rev p"
    by (metis rev_append rev_rev_ident trim_right_def)
  then show ?thesis by blast
qed

lemma has_prefix_of_prefix: "has_prefix s e \<Longrightarrow> has_prefix (s @ t) e"
  by (auto simp: has_prefix_iff)

lemma trim_space_idem: "trim_space (trim_space s) = trim_space s"
proof -
  let ?l = "trim_left s"
  obtain q where q: "?l = trim_right ?l @ q" using trim_right_prefix by blast
  have none: "find (\<lambda>e. e \<noteq> [] \<and> has_prefix ?l e) space_encodings = None"
    unfolding trim_left_def by (rule trim_prefixes_find)
  have "find (\<lambda>e. e \<noteq> [] \<and> has_prefix (trim_right ?l) e) space_encodings = None"
    using none q by (auto simp: find_None_iff) (metis has_prefix_of_prefix)
  then have l: "trim_left (trim_space s) = trim_space s"
    by (simp add: trim_left_def trim_space_def trim_prefixes_fix)
  have "trim_right (trim_right ?l) = trim_right ?l"
    by (simp add: trim_right_def trim_prefixes_fix [OF trim_prefixes_find])
  with l show ?thesis by (simp add: trim_space_def)
qed

lemma trim_space_infix: "\<exists>p q. s = p @ trim_space s @ q"
proof -
  obtain p where "s = p @ trim_left s"
    using trim_prefixes_suffix [of s space_encodings] by (auto simp: trim_left_def)
  moreover obtain q where "trim_left s = trim_space s @ q"
    using trim_right_prefix [of "trim_left s"] by (auto simp: trim_space_def)
  ultimately show ?thesis by metis
qed

lemma set_trim_space: "set (trim_space s) \<subseteq> set s"
  by (metis Un_iff set_append subsetI trim_space_infix)

lemma length_trim_space: "length (trim_space s) \<le> length s"
proof -
  obtain p q where "s = p @ trim_space s @ q" using trim_space_infix by blast
  then have "length s = length p + length (trim_space s) + length q"
    by (metis add.assoc length_append)
  then show ?thesis by simp
qed

section \<open>Characters\<close>

text \<open>
  \<open>utf8.DecodeRuneInString\<close>: the number of bytes of the first character; a byte that starts no valid
  encoding is one character (\<open>RuneError\<close>, width one).
\<close>

definition byte_at :: "string \<Rightarrow> nat \<Rightarrow> nat \<Rightarrow> nat \<Rightarrow> bool" where
  "byte_at s i lo hi \<longleftrightarrow> i < length s \<and> lo \<le> byte_val (s ! i) \<and> byte_val (s ! i) \<le> hi"

definition rune_width :: "string \<Rightarrow> nat" where
  "rune_width s =
     (let cont = (\<lambda>i. byte_at s i 0x80 0xBF) in
      if byte_at s 0 0xC2 0xDF \<and> cont 1 then 2
      else if (byte_at s 0 0xE0 0xE0 \<and> byte_at s 1 0xA0 0xBF \<or> byte_at s 0 0xE1 0xEC \<and> cont 1
             \<or> byte_at s 0 0xED 0xED \<and> byte_at s 1 0x80 0x9F \<or> byte_at s 0 0xEE 0xEF \<and> cont 1)
           \<and> cont 2 then 3
      else if (byte_at s 0 0xF0 0xF0 \<and> byte_at s 1 0x90 0xBF \<or> byte_at s 0 0xF1 0xF3 \<and> cont 1
             \<or> byte_at s 0 0xF4 0xF4 \<and> byte_at s 1 0x80 0x8F) \<and> cont 2 \<and> cont 3 then 4
      else 1)"

lemma rune_width_pos [simp]: "0 < rune_width s"
  by (simp add: rune_width_def Let_def)

function rune_count :: "string \<Rightarrow> nat" where
  "rune_count s = (if s = [] then 0 else Suc (rune_count (drop (rune_width s) s)))"
  by pat_completeness auto
termination
  by (relation "measure length") auto

declare rune_count.simps [simp del]

lemma rune_count_le: "rune_count s \<le> length s"
proof (induction s rule: rune_count.induct)
  case (1 s)
  show ?case
  proof (cases "s = []")
    case True
    then show ?thesis by (simp add: rune_count.simps)
  next
    case False
    with 1 have "rune_count (drop (rune_width s) s) \<le> length s - rune_width s" by simp
    also have "\<dots> < length s"
      using False rune_width_pos [of s] by (simp add: diff_less)
    finally show ?thesis using False by (subst rune_count.simps) simp
  qed
qed

text \<open>
  \<open>strings.ToLower\<close>, as far as an all-ASCII result can tell: \<open>A\<close> to \<open>Z\<close> fold, and so do U+0130 (to \<open>i\<close>) and
  U+212A (to \<open>k\<close>), the only other characters whose lower case is ASCII. Any other byte stays non-ASCII,
  so comparing the result with an ASCII word gives what the source's comparison gives.
\<close>

fun to_lower :: "string \<Rightarrow> string" where
  "to_lower [] = []"
| "to_lower (c # s) =
     (if 65 \<le> byte_val c \<and> byte_val c \<le> 90 then char_of (byte_val c + 32) # to_lower s
      else if byte_val c = 0xC4 \<and> has_prefix s [CHR 0xB0] then CHR ''i'' # to_lower (drop 1 s)
      else if byte_val c = 0xE2 \<and> has_prefix s [CHR 0x84, CHR 0xAA] then CHR ''k'' # to_lower (drop 2 s)
      else c # to_lower s)"

section \<open>Numbers\<close>

fun digits :: "nat \<Rightarrow> nat \<Rightarrow> nat list" where
  "digits b n = (if b < 2 \<or> n < b then [n] else digits b (n div b) @ [n mod b])"

declare digits.simps [simp del]

definition digit_char :: "nat \<Rightarrow> char" where
  "digit_char d = (if d < 10 then char_of (48 + d) else char_of (87 + d))"

definition show_nat :: "nat \<Rightarrow> nat \<Rightarrow> string" where
  "show_nat b n = map digit_char (digits b n)"

definition format_int :: "int \<Rightarrow> string" where
  "format_int i = (if i < 0 then CHR ''-'' # show_nat 10 (nat (- i)) else show_nat 10 (nat i))"

text \<open>The verb \<open>%04o\<close>: octal, padded with zeros to four characters, the sign counted.\<close>

definition zero_pad :: "nat \<Rightarrow> string \<Rightarrow> string" where
  "zero_pad w s = replicate (w - length s) (CHR ''0'') @ s"

definition format_04o :: "int \<Rightarrow> string" where
  "format_04o i = (if i < 0 then CHR ''-'' # zero_pad 3 (show_nat 8 (nat (- i)))
                   else zero_pad 4 (show_nat 8 (nat i)))"

definition digit_val :: "nat \<Rightarrow> char \<Rightarrow> nat option" where
  "digit_val b c =
     (let n = byte_val c;
          d = (if 48 \<le> n \<and> n \<le> 57 then n - 48 else if 97 \<le> n \<and> n \<le> 122 then n - 87
               else if 65 \<le> n \<and> n \<le> 90 then n - 55 else b)
      in if d < b then Some d else None)"

fun parse_digits :: "nat \<Rightarrow> nat \<Rightarrow> string \<Rightarrow> nat option" where
  "parse_digits b acc [] = Some acc"
| "parse_digits b acc (c # s) =
     (case digit_val b c of None \<Rightarrow> None | Some d \<Rightarrow> parse_digits b (acc * b + d) s)"

definition parse_uint :: "nat \<Rightarrow> string \<Rightarrow> nat option" where
  "parse_uint b s = (if s = [] then None else parse_digits b 0 s)"

text \<open>\<open>strconv.ParseInt(s, base, 64)\<close>: an optional sign, digits, and the range of int64.\<close>

definition parse_int :: "nat \<Rightarrow> string \<Rightarrow> int option" where
  "parse_int b s =
     (case s of [] \<Rightarrow> None
      | c # t \<Rightarrow>
          let neg = (c = CHR ''-''); u = (if neg \<or> c = CHR ''+'' then t else s) in
          case parse_uint b u of None \<Rightarrow> None
          | Some n \<Rightarrow> if neg then (if n \<le> 2 ^ 63 then Some (- int n) else None)
                      else if n < 2 ^ 63 then Some (int n) else None)"

lemma digits_not_Nil [simp]: "digits b n \<noteq> []"
  by (subst digits.simps) simp

lemma digits_lt: "2 \<le> b \<Longrightarrow> d \<in> set (digits b n) \<Longrightarrow> d < b"
proof (induction b n rule: digits.induct)
  case (1 b n)
  show ?case
  proof (cases "n < b")
    case True
    with "1.prems" show ?thesis by (simp add: digits.simps [of b n])
  next
    case False
    with 1 show ?thesis by (auto simp: digits.simps [of b n])
  qed
qed

lemma parse_digits_append:
  "parse_digits b acc (s @ t) =
     (case parse_digits b acc s of None \<Rightarrow> None | Some n \<Rightarrow> parse_digits b n t)"
  by (induction s arbitrary: acc) (auto split: option.splits)

lemma digit_val_char: "d < b \<Longrightarrow> b \<le> 16 \<Longrightarrow> digit_val b (digit_char d) = Some d"
  by (auto simp: digit_val_def digit_char_def Let_def)

lemma parse_digits_show:
  "2 \<le> b \<Longrightarrow> b \<le> 16 \<Longrightarrow> parse_digits b 0 (show_nat b n) = Some n"
proof (induction b n rule: digits.induct)
  case (1 b n)
  show ?case
  proof (cases "n < b")
    case True
    with "1.prems" show ?thesis
      by (simp add: show_nat_def digits.simps [of b n] digit_val_char)
  next
    case False
    with 1 have "parse_digits b 0 (show_nat b (n div b)) = Some (n div b)" by simp
    with False "1.prems" show ?thesis
      by (simp add: show_nat_def digits.simps [of b n] parse_digits_append digit_val_char)
  qed
qed

lemma show_nat_not_Nil [simp]: "show_nat b n \<noteq> []"
  by (simp add: show_nat_def)

lemma show_nat_chars: "2 \<le> b \<Longrightarrow> b \<le> 10 \<Longrightarrow> c \<in> set (show_nat b n) \<Longrightarrow> 48 \<le> byte_val c \<and> byte_val c \<le> 57"
  using digits_lt [of b _ n] by (fastforce simp: show_nat_def digit_char_def)

lemma parse_uint_show: "2 \<le> b \<Longrightarrow> b \<le> 16 \<Longrightarrow> parse_uint b (show_nat b n) = Some n"
  by (simp add: parse_uint_def parse_digits_show)

lemma parse_int_show_nat:
  assumes "2 \<le> b" "b \<le> 10" "n < 2 ^ 63"
  shows "parse_int b (show_nat b n) = Some (int n)"
proof -
  obtain c t where ct: "show_nat b n = c # t" by (meson neq_Nil_conv show_nat_not_Nil)
  then have "48 \<le> byte_val c" using show_nat_chars [of b c n] assms by auto
  then have "c \<noteq> CHR ''-''" "c \<noteq> CHR ''+''" by auto
  with ct parse_uint_show [of b n] assms show ?thesis
    by (simp add: parse_int_def Let_def)
qed

theorem parse_format_int:
  assumes "- (2 ^ 63) \<le> i" "i < 2 ^ 63"
  shows "parse_int 10 (format_int i) = Some i"
proof (cases "i < 0")
  case True
  have u: "parse_uint 10 (show_nat 10 (nat (- i))) = Some (nat (- i))"
    by (rule parse_uint_show) simp_all
  have "nat (- i) \<le> 2 ^ 63" using assms by (simp add: nat_le_iff)
  with True u show ?thesis by (simp add: format_int_def parse_int_def Let_def)
next
  case False
  with assms have "nat i < 2 ^ 63" by (simp add: nat_less_iff)
  with False parse_int_show_nat [of 10 "nat i"] show ?thesis
    by (simp add: format_int_def)
qed

lemma format_int_inj:
  "- (2 ^ 63) \<le> i \<Longrightarrow> i < 2 ^ 63 \<Longrightarrow> - (2 ^ 63) \<le> j \<Longrightarrow> j < 2 ^ 63
    \<Longrightarrow> format_int i = format_int j \<Longrightarrow> i = j"
  by (metis option.inject parse_format_int)

end
