(* ===== verification/FleetStore.thy ===== *)
theory FleetStore
  imports FleetQueries BundleLaws GoInts GoStrings
begin

text \<open>
  The store operations of the fleet domain: the second half of \<open>core/internal/database/domain.go\<close> (Node
  Groups, Assignments, Managed Nodes, Enrollment Tokens), \<open>unassignment.go\<close> and \<open>convergence.go\<close>. One
  definition per method. The formatted creation time of an Assignment shows whole seconds.
\<close>

section \<open>Node Groups\<close>

record node_group =
  grp_id :: uuid
  grp_name :: string
  grp_created :: "time option"
  grp_members :: "uuid list"

text \<open>\<open>ListNodeGroups\<close> leaves \<open>CreatedAt\<close> at its zero value.\<close>

definition list_node_groups :: "(string \<Rightarrow> string) \<Rightarrow> db \<Rightarrow> node_group list" where
  "list_node_groups coll d =
     map (\<lambda>(g, ms). \<lparr>grp_id = ng_id g, grp_name = ng_name g, grp_created = None, grp_members = ms\<rparr>)
       (list_node_groups_q coll d)"

definition create_node_group :: "uuid \<Rightarrow> string \<Rightarrow> time \<Rightarrow> db \<Rightarrow> db result" where
  "create_node_group i name ts d = on_err dup_or_pg (create_node_group_q i name ts d)"

definition delete_node_group :: "uuid \<Rightarrow> db \<Rightarrow> db result" where
  "delete_node_group g d =
     (if 0 < count_active_for_group_q g d then Inl ErrConflict
      else case delete_node_group_by_id_q g d of (n, d') \<Rightarrow> if n \<noteq> 1 then Inl ErrNotFound else Inr d')"

fun fk_not_found :: "pg_error \<Rightarrow> store_error" where
  "fk_not_found ForeignKeyViolation = ErrNotFound"
| "fk_not_found e = ErrPg e"

definition add_group_member :: "uuid \<Rightarrow> uuid \<Rightarrow> db \<Rightarrow> db result" where
  "add_group_member g n d =
     and_then (on_err fk_not_found (insert_group_member_q g n d)) (\<lambda>d'.
     if group_member_conflict_q g n d' then Inl ErrConflict else Inr d')"

definition remove_group_member :: "uuid \<Rightarrow> uuid \<Rightarrow> db \<Rightarrow> db result" where
  "remove_group_member g n d = Inr (remove_group_member_q g n d)"

section \<open>Assignments\<close>

record assignment =
  asg_id :: uuid
  asg_group :: uuid
  asg_group_name :: string
  asg_app :: uuid
  asg_env :: uuid
  asg_rev :: uuid
  asg_status :: assignment_status
  asg_created :: time

definition assignment_of :: "assignment_row \<times> group_row \<Rightarrow> assignment" where
  "assignment_of ag = (case ag of (a, g) \<Rightarrow>
     \<lparr>asg_id = as_id a, asg_group = as_group a, asg_group_name = ng_name g, asg_app = as_app a,
      asg_env = as_env a, asg_rev = as_rev a, asg_status = as_status a,
      asg_created = whole_seconds (as_created a)\<rparr>)"

definition list_assignments :: "db \<Rightarrow> assignment list" where
  "list_assignments d = map assignment_of (list_assignments_q d)"

definition create_assignment ::
    "uuid \<Rightarrow> uuid \<Rightarrow> uuid \<Rightarrow> uuid \<Rightarrow> time \<Rightarrow> db \<Rightarrow> (assignment \<times> db) result" where
  "create_assignment i g app env ts d =
     and_then (on_err map_no_rows (select_node_group_name_q g d)) (\<lambda>name.
     if \<not> environment_exists_q env app d then Inl ErrNotFound
     else
       and_then (on_err (\<lambda>e. if e = NoRows then ErrBadPayload else ErrPg e) (select_latest_revision_q app env d))
         (\<lambda>rid.
       if assignment_conflict_q app env g d then Inl ErrConflict
       else
         and_then (on_err dup_or_pg (insert_assignment_q i g app env rid ts d)) (\<lambda>(created, d').
         Inr (\<lparr>asg_id = i, asg_group = g, asg_group_name = name, asg_app = app, asg_env = env,
               asg_rev = rid, asg_status = Active, asg_created = created\<rparr>, d'))))"

definition advance_desired_revision :: "uuid \<Rightarrow> uuid \<Rightarrow> uuid \<Rightarrow> db \<Rightarrow> db result" where
  "advance_desired_revision app env rid d = on_err ErrPg (advance_desired_revision_q app env rid d)"

definition assignment_by_id :: "uuid \<Rightarrow> db \<Rightarrow> assignment result" where
  "assignment_by_id i d =
     and_then (on_err map_no_rows (assignment_by_id_q i d)) (\<lambda>ag. Inr (assignment_of ag))"

definition assignment_for_node_revision :: "uuid \<Rightarrow> uuid \<Rightarrow> db \<Rightarrow> assignment result" where
  "assignment_for_node_revision n rid d =
     and_then (on_err map_no_rows (assignment_for_node_revision_q n rid d)) (\<lambda>ag. Inr (assignment_of ag))"

section \<open>Unassignment\<close>

definition unassign :: "uuid \<Rightarrow> time \<Rightarrow> db \<Rightarrow> (task_row list \<times> db) result" where
  "unassign i ts d =
     (case mark_assignment_removing_q i d of (n, d1) \<Rightarrow>
      if n \<noteq> 1 then Inl ErrConflict
      else and_then (on_err ErrPg (insert_unassignment_tasks_q i ts d1)) (\<lambda>d2.
        Inr (list_unassignment_tasks_q i d2, d2)))"

definition list_unassignment_tasks :: "uuid \<Rightarrow> db \<Rightarrow> task_row list" where
  "list_unassignment_tasks i d = list_unassignment_tasks_q i d"

text \<open>The two results an Agent may report; the store compares the text.\<close>

definition cleanup_status :: "string \<Rightarrow> task_status option" where
  "cleanup_status result =
     (if result = ''cleaned'' then Some Cleaned else if result = ''failed'' then Some Failed else None)"

definition report_cleanup_task :: "uuid \<Rightarrow> uuid \<Rightarrow> string \<Rightarrow> string \<Rightarrow> time \<Rightarrow> db \<Rightarrow> db result" where
  "report_cleanup_task i n result err ts d =
     (case cleanup_status result of
        None \<Rightarrow> Inl ErrBadPayload
      | Some status \<Rightarrow>
          (case report_cleanup_task_q i n status err ts d of (k, d') \<Rightarrow>
             if k \<noteq> 1 then Inl ErrNotFound else Inr d'))"

definition abandon_cleanup_confirmation :: "uuid \<Rightarrow> time \<Rightarrow> db \<Rightarrow> db result" where
  "abandon_cleanup_confirmation i ts d =
     (case abandon_cleanup_confirmation_q i ts d of (n, d') \<Rightarrow> if n = 0 then Inl ErrConflict else Inr d')"

record cleanup_instruction =
  ci_asg :: uuid
  ci_app :: uuid
  ci_env :: uuid
  ci_units :: "string list"

definition pending_cleanup_instructions :: "uuid \<Rightarrow> db \<Rightarrow> cleanup_instruction list" where
  "pending_cleanup_instructions n d =
     map (\<lambda>(i, app, env). \<lparr>ci_asg = i, ci_app = app, ci_env = env,
           ci_units = (case get_activation_policy env d of Inl _ \<Rightarrow> [] | Inr p \<Rightarrow> pol_units p)\<rparr>)
       (pending_cleanup_q n d)"

section \<open>Convergence\<close>

definition record_convergence :: "convergence_row \<Rightarrow> time \<Rightarrow> db \<Rightarrow> db result" where
  "record_convergence c ts d = on_err ErrPg (record_convergence_q c ts d)"

definition node_convergence :: "uuid \<Rightarrow> db \<Rightarrow> convergence_row list" where
  "node_convergence n d = node_convergence_q n d"

text \<open>The Go maps as functions of the key; a missing key reads as the zero value.\<close>

definition all_node_convergence :: "db \<Rightarrow> uuid \<Rightarrow> convergence_row list" where
  "all_node_convergence d n = filter (\<lambda>c. cv_node c = n) (all_node_convergence_q d)"

definition node_assignment_counts :: "db \<Rightarrow> uuid \<Rightarrow> nat" where
  "node_assignment_counts d n = (case map_of (node_assignment_counts_q d) n of None \<Rightarrow> 0 | Some k \<Rightarrow> k)"

section \<open>Managed Nodes\<close>

definition pending_serial_prefix :: string where
  "pending_serial_prefix = ''pending:''"

definition pending_serial :: "uuid \<Rightarrow> string" where
  "pending_serial i = pending_serial_prefix @ i"

definition is_pending_serial :: "string \<Rightarrow> bool" where
  "is_pending_serial serial = has_prefix pending_serial_prefix serial"

definition public_serial :: "string \<Rightarrow> string" where
  "public_serial serial = (if is_pending_serial serial then [] else serial)"

record node =
  node_id :: uuid
  node_name :: string
  node_serial :: string
  node_age :: string
  node_created :: time
  node_last_seen :: "time option"
  node_etag :: string
  node_observed :: string
  node_result :: string
  node_poll :: int
  node_dir :: string
  node_enrolled :: bool

definition node_from_list :: "node_row \<Rightarrow> node" where
  "node_from_list r =
     \<lparr>node_id = nd_id r, node_name = nd_name r, node_serial = public_serial (nd_serial r), node_age = [],
      node_created = nd_created r, node_last_seen = nd_last_seen r, node_etag = nd_etag r,
      node_observed = nd_observed r, node_result = nd_result r, node_poll = nd_poll r,
      node_dir = nd_bundle_dir r, node_enrolled = (\<not> is_pending_serial (nd_serial r))\<rparr>"

definition list_node :: "(string \<Rightarrow> string) \<Rightarrow> db \<Rightarrow> node list" where
  "list_node coll d = map node_from_list (list_node_q coll d)"

definition node_by_serial :: "string \<Rightarrow> db \<Rightarrow> node result" where
  "node_by_serial serial d =
     and_then (on_err map_no_rows (node_by_serial_q serial d))
       (\<lambda>r. Inr ((node_from_list r)\<lparr>node_age := nd_age r\<rparr>))"

definition get_node :: "uuid \<Rightarrow> db \<Rightarrow> node result" where
  "get_node i d = and_then (on_err map_no_rows (get_node_q i d)) (\<lambda>r. Inr (node_from_list r))"

definition touch_node :: "uuid \<Rightarrow> string \<Rightarrow> string \<Rightarrow> time \<Rightarrow> db \<Rightarrow> db result" where
  "touch_node i observed result at d = Inr (touch_node_q i observed result at d)"

definition set_node_desired :: "uuid \<Rightarrow> string \<Rightarrow> db \<Rightarrow> db result" where
  "set_node_desired i etag d = Inr (set_node_desired_q i etag d)"

definition set_node_poll_interval :: "uuid \<Rightarrow> int \<Rightarrow> db \<Rightarrow> db result" where
  "set_node_poll_interval i secs d =
     and_then (on_err ErrPg (set_node_poll_interval_q i (to_int32 secs) d))
       (\<lambda>(n, d'). if n = 0 then Inl ErrNotFound else Inr d')"

definition rename_node :: "uuid \<Rightarrow> string \<Rightarrow> db \<Rightarrow> db result" where
  "rename_node i name d =
     (case rename_node_q i name d of (n, d') \<Rightarrow> if n = 0 then Inl ErrNotFound else Inr d')"

definition set_node_bundle_dir :: "uuid \<Rightarrow> string \<Rightarrow> db \<Rightarrow> db result" where
  "set_node_bundle_dir i dir d =
     (case set_node_bundle_dir_q i dir d of (n, d') \<Rightarrow> if n = 0 then Inl ErrNotFound else Inr d')"

definition delete_node :: "uuid \<Rightarrow> db \<Rightarrow> db result" where
  "delete_node i d = (case delete_node_q i d of (n, d') \<Rightarrow> if n = 0 then Inl ErrNotFound else Inr d')"

text \<open>\<open>CreatePendingNode\<close> stamps the certificate expiry with the current time.\<close>

definition create_pending_node :: "uuid \<Rightarrow> string \<Rightarrow> string \<Rightarrow> time \<Rightarrow> time \<Rightarrow> db \<Rightarrow> db result" where
  "create_pending_node i name dir now ts d =
     on_err ErrPg (register_node_q i name (pending_serial i) [] [] now dir ts d)"

definition register_node ::
    "uuid \<Rightarrow> string \<Rightarrow> string \<Rightarrow> string \<Rightarrow> string \<Rightarrow> time \<Rightarrow> time \<Rightarrow> db \<Rightarrow> db result" where
  "register_node i name serial age cert expires ts d =
     on_err ErrPg (register_node_q i name serial age cert expires [] ts d)"

definition activate_pending_node ::
    "uuid \<Rightarrow> string \<Rightarrow> string \<Rightarrow> string \<Rightarrow> time \<Rightarrow> db \<Rightarrow> db result" where
  "activate_pending_node i serial age cert expires d =
     and_then (on_err ErrPg (activate_pending_node_q i serial age cert expires d))
       (\<lambda>(n, d'). if n = 0 then Inl ErrNotFound else Inr d')"

section \<open>Enrollment Tokens\<close>

definition create_enrollment_token :: "string \<Rightarrow> string \<Rightarrow> time \<Rightarrow> time \<Rightarrow> db \<Rightarrow> db result" where
  "create_enrollment_token hash name expires ts d =
     on_err ErrPg (create_enrollment_token_q hash name expires ts d)"

definition create_node_enrollment_token ::
    "string \<Rightarrow> string \<Rightarrow> uuid \<Rightarrow> time \<Rightarrow> time \<Rightarrow> db \<Rightarrow> db result" where
  "create_node_enrollment_token hash name node expires ts d =
     on_err ErrPg (create_node_enrollment_token_q hash name expires (Some node) ts d)"

definition consume_enrollment_token :: "string \<Rightarrow> time \<Rightarrow> db \<Rightarrow> (token_row \<times> db) result" where
  "consume_enrollment_token hash now d =
     and_then (on_err map_no_rows (select_enrollment_token_q hash d)) (\<lambda>t.
     if \<not> now < et_expires t then Inl ErrConflict
     else
       and_then (on_err ErrPg (select_enrollment_token_used_at_q hash d)) (\<lambda>used.
       if used \<noteq> None then Inl ErrConflict
       else Inr (t, mark_enrollment_token_used_q hash now d)))"

definition assigned_revisions :: "uuid \<Rightarrow> db \<Rightarrow> uuid list" where
  "assigned_revisions n d = assigned_revisions_q n d"

end
