(* ===== verification/FleetInvariants.thy ===== *)
theory FleetInvariants
  imports FleetStore
begin

text \<open>
  The well-formedness of the fleet tables and the proof that every fleet operation keeps it.
  \<open>fleet_keys\<close> is the primary keys and unique constraints; \<open>fleet_refs\<close> is the foreign keys, with the
  Bundle Revision of an Assignment one of its own Application and Environment; \<open>exclusive\<close> is the rule of
  ADR-0018 that a Managed Node receives a Secret Bundle from at most one active Assignment;
  \<open>tasks_ok\<close> is that a cleanup task belongs to an Assignment being removed.
\<close>

section \<open>The invariant\<close>

definition member :: "db \<Rightarrow> uuid \<Rightarrow> uuid \<Rightarrow> bool" where
  "member d g n \<longleftrightarrow> (\<exists>m \<in> set (t_members d). gm_group m = g \<and> gm_node m = n)"

definition revision_in :: "db \<Rightarrow> uuid \<Rightarrow> uuid \<Rightarrow> uuid \<Rightarrow> bool" where
  "revision_in d rid app env \<longleftrightarrow> (\<exists>r \<in> set (t_revisions d). br_id r = rid \<and> br_app r = app \<and> br_env r = env)"

definition actives :: "db \<Rightarrow> assignment_row set" where
  "actives d = {a \<in> set (t_assignments d). as_status a = Active}"

definition same_bundle :: "assignment_row \<Rightarrow> assignment_row \<Rightarrow> bool" where
  "same_bundle a b \<longleftrightarrow> as_app a = as_app b \<and> as_env a = as_env b"

definition unique_active :: "db \<Rightarrow> bool" where
  "unique_active d \<longleftrightarrow>
     (\<forall>a \<in> actives d. \<forall>b \<in> actives d. same_bundle a b \<longrightarrow> as_group a = as_group b \<longrightarrow> as_id a = as_id b)"

definition fleet_keys :: "db \<Rightarrow> bool" where
  "fleet_keys d \<longleftrightarrow>
     distinct (map nd_id (t_nodes d)) \<and> distinct (map nd_serial (t_nodes d)) \<and>
     distinct (map ng_id (t_groups d)) \<and> distinct (t_members d) \<and> distinct (map as_id (t_assignments d)) \<and>
     distinct (map et_hash (t_tokens d)) \<and> distinct (map (\<lambda>t. (ut_asg t, ut_node t)) (t_tasks d)) \<and>
     unique_active d"

definition fleet_refs :: "db \<Rightarrow> bool" where
  "fleet_refs d \<longleftrightarrow>
     (\<forall>m \<in> set (t_members d). (\<exists>g \<in> set (t_groups d). ng_id g = gm_group m) \<and>
        (\<exists>n \<in> set (t_nodes d). nd_id n = gm_node m)) \<and>
     (\<forall>a \<in> set (t_assignments d). (\<exists>g \<in> set (t_groups d). ng_id g = as_group a) \<and>
        revision_in d (as_rev a) (as_app a) (as_env a)) \<and>
     (\<forall>n \<in> set (t_nodes d). 5 \<le> nd_poll n \<and> nd_poll n \<le> 86400)"

definition exclusive :: "db \<Rightarrow> bool" where
  "exclusive d \<longleftrightarrow>
     (\<forall>a \<in> actives d. \<forall>b \<in> actives d. \<forall>n. same_bundle a b \<longrightarrow> member d (as_group a) n \<longrightarrow>
        member d (as_group b) n \<longrightarrow> as_id a = as_id b)"

definition tasks_ok :: "db \<Rightarrow> bool" where
  "tasks_ok d \<longleftrightarrow>
     (\<forall>t \<in> set (t_tasks d). ut_status t \<noteq> Offline \<and> (\<exists>n \<in> set (t_nodes d). nd_id n = ut_node t) \<and>
        (\<exists>a \<in> set (t_assignments d). as_id a = ut_asg t \<and> as_status a = Removing))"

definition fleet_ok :: "db \<Rightarrow> bool" where
  "fleet_ok d \<longleftrightarrow> fleet_keys d \<and> fleet_refs d \<and> exclusive d \<and> tasks_ok d"

lemma fleet_okI: "fleet_keys d \<Longrightarrow> fleet_refs d \<Longrightarrow> exclusive d \<Longrightarrow> tasks_ok d \<Longrightarrow> fleet_ok d"
  by (simp add: fleet_ok_def)

lemma fleet_okD:
  assumes "fleet_ok d"
  shows "fleet_keys d" "fleet_refs d" "exclusive d" "tasks_ok d"
  using assms by (simp_all add: fleet_ok_def)

lemmas fleet_defs = fleet_ok_def fleet_keys_def fleet_refs_def exclusive_def tasks_ok_def unique_active_def

lemma fleet_ok_empty: "fleet_ok empty_db"
  by (simp add: fleet_defs actives_def empty_db_def)

lemma member_cong: "t_members d' = t_members d \<Longrightarrow> member d' = member d"
  by (simp add: fun_eq_iff member_def)

lemma revision_in_cong: "t_revisions d' = t_revisions d \<Longrightarrow> revision_in d' = revision_in d"
  by (simp add: fun_eq_iff revision_in_def)

lemma revision_in_mono:
  "revision_in d rid app env \<Longrightarrow> set (t_revisions d) \<subseteq> set (t_revisions d') \<Longrightarrow> revision_in d' rid app env"
  by (auto simp: revision_in_def)

lemma unique_active_mono:
  "unique_active d \<Longrightarrow> actives d' \<subseteq> actives d \<Longrightarrow> unique_active d'"
  unfolding unique_active_def by blast

lemma exclusive_mono:
  "exclusive d \<Longrightarrow> actives d' \<subseteq> actives d \<Longrightarrow> (\<And>g n. member d' g n \<Longrightarrow> member d g n) \<Longrightarrow> exclusive d'"
  unfolding exclusive_def by blast

text \<open>A change of the active Assignments row by row that keeps what identifies them.\<close>

lemma same_actives:
  assumes act: "actives d' = h ` actives d"
    and h: "\<And>a. as_id (h a) = as_id a" "\<And>a. as_group (h a) = as_group a" "\<And>a. as_app (h a) = as_app a"
      "\<And>a. as_env (h a) = as_env a"
  shows "unique_active d \<Longrightarrow> unique_active d'" "exclusive d \<Longrightarrow> member d' = member d \<Longrightarrow> exclusive d'"
proof -
  have sb: "same_bundle (h a) (h b) \<longleftrightarrow> same_bundle a b" for a b by (simp add: same_bundle_def h)
  show "unique_active d'" if u: "unique_active d"
    unfolding unique_active_def act
  proof (intro ballI impI)
    fix x y assume "x \<in> h ` actives d" "y \<in> h ` actives d" and xy: "same_bundle x y" "as_group x = as_group y"
    then obtain a b where ab: "a \<in> actives d" "b \<in> actives d" "x = h a" "y = h b" by blast
    with u xy have "as_id a = as_id b" unfolding unique_active_def by (metis sb h(2))
    then show "as_id x = as_id y" by (simp only: ab(3,4) h(1))
  qed
  show "exclusive d'" if e: "exclusive d" and m: "member d' = member d"
    unfolding exclusive_def act m
  proof (intro ballI allI impI)
    fix x y n assume "x \<in> h ` actives d" "y \<in> h ` actives d" and xy: "same_bundle x y"
      "member d (as_group x) n" "member d (as_group y) n"
    then obtain a b where ab: "a \<in> actives d" "b \<in> actives d" "x = h a" "y = h b" by blast
    with e xy have "as_id a = as_id b" unfolding exclusive_def by (metis sb h(2))
    then show "as_id x = as_id y" by (simp only: ab(3,4) h(1))
  qed
qed

text \<open>An operation that only adds Bundle Revisions, and leaves the fleet tables, keeps the invariant.\<close>

lemma fleet_ok_bundle_change:
  assumes "fleet_ok d" "t_nodes d' = t_nodes d" "t_groups d' = t_groups d" "t_members d' = t_members d"
    "t_assignments d' = t_assignments d" "t_tokens d' = t_tokens d" "t_tasks d' = t_tasks d"
    "set (t_revisions d) \<subseteq> set (t_revisions d')"
  shows "fleet_ok d'"
  using assms(1)
  by (simp add: fleet_defs actives_def assms(2-7) member_cong [OF assms(4)] revision_in_mono [OF _ assms(8)])

text \<open>An operation that removes rows, and with a row all rows that name it, keeps the invariant.\<close>

lemma fleet_ok_filtered:
  assumes ok: "fleet_ok d"
    and tables: "t_nodes d' = filter kn (t_nodes d)" "t_groups d' = filter kg (t_groups d)"
      "t_members d' = filter km (t_members d)" "t_assignments d' = filter ka (t_assignments d)"
      "t_tokens d' = filter ke (t_tokens d)" "t_tasks d' = filter kt (t_tasks d)"
      "t_revisions d' = filter kr (t_revisions d)"
    and members: "\<And>m g. m \<in> set (t_members d) \<Longrightarrow> km m \<Longrightarrow> g \<in> set (t_groups d) \<Longrightarrow> ng_id g = gm_group m \<Longrightarrow> kg g"
      "\<And>m n. m \<in> set (t_members d) \<Longrightarrow> km m \<Longrightarrow> n \<in> set (t_nodes d) \<Longrightarrow> nd_id n = gm_node m \<Longrightarrow> kn n"
    and asgs: "\<And>a g. a \<in> set (t_assignments d) \<Longrightarrow> ka a \<Longrightarrow> g \<in> set (t_groups d) \<Longrightarrow> ng_id g = as_group a \<Longrightarrow> kg g"
      "\<And>a r. a \<in> set (t_assignments d) \<Longrightarrow> ka a \<Longrightarrow> r \<in> set (t_revisions d) \<Longrightarrow> br_id r = as_rev a \<Longrightarrow> kr r"
    and tasks: "\<And>t a. t \<in> set (t_tasks d) \<Longrightarrow> kt t \<Longrightarrow> a \<in> set (t_assignments d) \<Longrightarrow> as_id a = ut_asg t \<Longrightarrow> ka a"
      "\<And>t n. t \<in> set (t_tasks d) \<Longrightarrow> kt t \<Longrightarrow> n \<in> set (t_nodes d) \<Longrightarrow> nd_id n = ut_node t \<Longrightarrow> kn n"
  shows "fleet_ok d'"
proof -
  note okd = fleet_okD [OF ok]
  have sub: "a \<in> actives d' \<Longrightarrow> a \<in> actives d" "member d' g n \<Longrightarrow> member d g n" for a g n
    by (auto simp: actives_def member_def tables)
  show ?thesis
  proof (rule fleet_okI)
    have "unique_active d'"
    proof (rule unique_active_mono)
      show "unique_active d" using okd(1) by (simp add: fleet_keys_def)
    qed (use sub(1) in blast)
    then show "fleet_keys d'" using okd(1) by (simp add: fleet_keys_def tables distinct_map_filter)
    show "exclusive d'" by (rule exclusive_mono [OF okd(3)]) (use sub in blast)+
    show "tasks_ok d'"
      using okd(4) tasks unfolding tasks_ok_def tables by simp (metis (no_types, lifting))
    show "fleet_refs d'"
      using okd(2) members asgs unfolding fleet_refs_def tables revision_in_def
      by (intro conjI ballI; simp) (metis (no_types, lifting))+
  qed
qed

section \<open>Node Groups\<close>

lemma create_node_group_ok:
  assumes "create_node_group i name ts d = Inr d'" "fleet_ok d"
  shows "fleet_ok d'"
proof -
  define g where "g = \<lparr>ng_id = i, ng_name = name, ng_created = ts\<rparr>"
  with assms(1) have d': "d' = d\<lparr>t_groups := t_groups d @ [g]\<rparr>"
    and g: "\<forall>x \<in> set (t_groups d). ng_id x \<noteq> ng_id g"
    by (auto simp: create_node_group_def create_node_group_q_def split: if_splits)
  note okd = fleet_okD [OF assms(2)]
  have mem: "member d' = member d" "actives d' = actives d" "revision_in d' = revision_in d"
    by (rule member_cong, simp add: d') (simp add: d' actives_def, rule revision_in_cong, simp add: d')
  show ?thesis
  proof (rule fleet_okI)
    have "unique_active d' = unique_active d" by (simp add: unique_active_def mem)
    then show "fleet_keys d'" using okd(1) g by (auto simp: fleet_keys_def d')
    show "fleet_refs d'" using okd(2) unfolding fleet_refs_def mem by (simp add: d')
    show "exclusive d'" using okd(3) unfolding exclusive_def mem .
    show "tasks_ok d'" using okd(4) by (simp add: tasks_ok_def d')
  qed
qed

lemma add_group_member_Inr:
  assumes "add_group_member g n d = Inr d'"
  shows "\<not> group_member_conflict_q g n d'"
    "member d' x y \<longleftrightarrow> member d x y \<or> (x = g \<and> y = n)"
    "d' = d\<lparr>t_members := t_members d'\<rparr>" "distinct (t_members d) \<Longrightarrow> distinct (t_members d')"
    "set (t_members d') = insert \<lparr>gm_group = g, gm_node = n\<rparr> (set (t_members d))"
    "fleet_refs d \<Longrightarrow> (\<exists>r \<in> set (t_groups d). ng_id r = g) \<and> (\<exists>r \<in> set (t_nodes d). nd_id r = n)"
proof -
  from assms have conf: "\<not> group_member_conflict_q g n d'"
    and ins: "insert_group_member_q g n d = Inr d'"
    by (auto simp: add_group_member_def split: if_splits)
  show "\<not> group_member_conflict_q g n d'" by (rule conf)
  have *: "d' = d\<lparr>t_members := t_members d'\<rparr> \<and> (distinct (t_members d) \<longrightarrow> distinct (t_members d')) \<and>
    set (t_members d') = insert \<lparr>gm_group = g, gm_node = n\<rparr> (set (t_members d)) \<and>
    (fleet_refs d \<longrightarrow> (\<exists>r \<in> set (t_groups d). ng_id r = g) \<and> (\<exists>r \<in> set (t_nodes d). nd_id r = n))"
  proof (cases "exists_row (\<lambda>m. gm_group m = g \<and> gm_node m = n) (t_members d)")
    case True
    then obtain m where m: "m \<in> set (t_members d)" "gm_group m = g" "gm_node m = n" by auto
    from m(2,3) have "m = \<lparr>gm_group = g, gm_node = n\<rparr>" by (cases m) simp
    with m ins True show ?thesis
      by (auto simp: insert_group_member_q_def insert_absorb fleet_refs_def)
  next
    case False
    then have "\<lparr>gm_group = g, gm_node = n\<rparr> \<notin> set (t_members d)" by auto
    with False ins show ?thesis
      by (auto simp: insert_group_member_q_def split: if_splits)
  qed
  then show "d' = d\<lparr>t_members := t_members d'\<rparr>" "distinct (t_members d) \<Longrightarrow> distinct (t_members d')"
    and set_eq: "set (t_members d') = insert \<lparr>gm_group = g, gm_node = n\<rparr> (set (t_members d))"
    and "fleet_refs d \<Longrightarrow> (\<exists>r \<in> set (t_groups d). ng_id r = g) \<and> (\<exists>r \<in> set (t_nodes d). nd_id r = n)"
    by blast+
  show "member d' x y \<longleftrightarrow> member d x y \<or> (x = g \<and> y = n)"
    unfolding member_def set_eq by auto
qed

lemma add_group_member_ok:
  assumes add: "add_group_member g n d = Inr d'" and ok: "fleet_ok d"
  shows "fleet_ok d'"
proof -
  note okd = fleet_okD [OF ok] and i = add_group_member_Inr [OF add]
  have same: "t_assignments d' = t_assignments d" "t_groups d' = t_groups d" "t_nodes d' = t_nodes d"
    "t_tasks d' = t_tasks d" "t_revisions d' = t_revisions d" "t_tokens d' = t_tokens d"
    by (subst i(3), simp)+
  then have act: "actives d' = actives d" "revision_in d' = revision_in d"
    by (simp add: actives_def) (rule revision_in_cong, rule same)
  have no_conflict: "as_group b = g"
    if "a \<in> actives d" "as_group a = g" "b \<in> actives d" "same_bundle a b" "member d' (as_group b) n" for a b
    using that i(1) same(1)
    by (force simp: group_member_conflict_q_def actives_def same_bundle_def member_def)
  have uniq: "as_id a = as_id b" if "a \<in> actives d" "b \<in> actives d" "same_bundle a b" "as_group a = as_group b" for a b
    using okd(1) that unfolding fleet_keys_def unique_active_def by blast
  have sym: "same_bundle a b \<Longrightarrow> same_bundle b a" for a b by (simp add: same_bundle_def)
  show ?thesis
  proof (rule fleet_okI)
    have "unique_active d' = unique_active d" by (simp add: unique_active_def act)
    then show "fleet_keys d'" using okd(1) i(4) unfolding fleet_keys_def same by blast
    show "fleet_refs d'" using okd(2) i(6) [OF okd(2)] unfolding fleet_refs_def act same i(5) by simp
    show "tasks_ok d'" using okd(4) unfolding tasks_ok_def same .
    show "exclusive d'"
      unfolding exclusive_def act
    proof (intro ballI allI impI)
      fix a b k
      assume ab: "a \<in> actives d" "b \<in> actives d" "same_bundle a b"
        and k: "member d' (as_group a) k" "member d' (as_group b) k"
      show "as_id a = as_id b"
      proof (cases "k = n \<and> (as_group a = g \<or> as_group b = g)")
        case True
        with no_conflict [OF ab(1) _ ab(2,3)] no_conflict [OF ab(2) _ ab(1) sym [OF ab(3)]] k
        have "as_group a = as_group b" by auto
        then show ?thesis by (rule uniq [OF ab])
      next
        case False
        then have "member d (as_group a) k" "member d (as_group b) k" using k i(2) by auto
        with okd(3) ab show ?thesis unfolding exclusive_def by blast
      qed
    qed
  qed
qed

lemma remove_group_member_ok:
  assumes "remove_group_member g n d = Inr d'" "fleet_ok d"
  shows "fleet_ok d'"
  by (rule fleet_ok_filtered [OF assms(2), where kn = "\<lambda>_. True" and kg = "\<lambda>_. True" and ka = "\<lambda>_. True"
        and km = "\<lambda>m. \<not> (gm_group m = g \<and> gm_node m = n)" and ke = "\<lambda>_. True" and kt = "\<lambda>_. True"
        and kr = "\<lambda>_. True"])
    (use assms(1) in \<open>auto simp: remove_group_member_def remove_group_member_q_def del_def\<close>)

lemma delete_node_group_Inr:
  assumes "delete_node_group g d = Inr d'" "fleet_keys d"
  shows "d' = drop_groups (\<lambda>r. ng_id r = g) d" "count_active_for_group_q g d = 0"
    "\<exists>r \<in> set (t_groups d). ng_id r = g"
proof -
  from assms(1) have n: "cnt (\<lambda>r. ng_id r = g) (t_groups d) = 1"
    and d': "d' = drop_groups (\<lambda>r. ng_id r = g) d" "count_active_for_group_q g d = 0"
    by (simp_all add: delete_node_group_def delete_node_group_by_id_q_def split: if_splits del: cnt_0 cnt_pos)
  show "d' = drop_groups (\<lambda>r. ng_id r = g) d" "count_active_for_group_q g d = 0" by (rule d')+
  from n have "\<not> cnt (\<lambda>r. ng_id r = g) (t_groups d) = 0" by simp
  then show "\<exists>r \<in> set (t_groups d). ng_id r = g" by simp
qed

text \<open>Without an active Assignment, what goes with a Node Group is its members and its tombstones.\<close>

lemma delete_node_group_ok:
  assumes "delete_node_group g d = Inr d'" and ok: "fleet_ok d"
  shows "fleet_ok d'"
proof -
  note okd = fleet_okD [OF ok]
  note del = delete_node_group_Inr [OF assms(1) okd(1)]
  have ids: "as_id a = as_id b \<Longrightarrow> a \<in> set (t_assignments d) \<Longrightarrow> b \<in> set (t_assignments d) \<Longrightarrow> a = b" for a b
    using okd(1) by (auto simp: fleet_keys_def dest: distinct_key_eq)
  have grp: "(\<lambda>x. g) ` {r \<in> set (t_groups d). ng_id r = g} = {g}" using del(3) by auto
  have t: "t_tasks d' = filter (\<lambda>t. ut_asg t \<notin> as_id ` {a \<in> set (t_assignments d). as_group a = g}) (t_tasks d)"
    "t_members d' = filter (\<lambda>m. gm_group m \<noteq> g) (t_members d)"
    "t_assignments d' = filter (\<lambda>a. as_group a \<noteq> g) (t_assignments d)"
    "t_groups d' = filter (\<lambda>r. ng_id r \<noteq> g) (t_groups d)"
    by (simp_all add: del(1) drop_groups_def Let_def grp del_def)
  show ?thesis
    by (rule fleet_ok_filtered [OF ok _ t(4,2,3) _ t(1), where kn = "\<lambda>_. True" and ke = "\<lambda>_. True" and kr = "\<lambda>_. True"])
      (auto simp: del(1) dest: ids intro: rev_image_eqI)
qed

section \<open>Assignments\<close>

lemma select_latest_revision_Inr:
  assumes "select_latest_revision_q app env d = Inr rid"
  shows "revision_in d rid app env"
proof -
  let ?rs = "filter (\<lambda>r. br_app r = app \<and> br_env r = env) (t_revisions d)"
  from assms obtain r rs where eq: "newest_first ?rs = r # rs" and rid: "rid = br_id r"
    by (auto simp: select_latest_revision_q_def split: list.splits)
  have "set (newest_first ?rs) = set ?rs" by (simp add: newest_first_def)
  then have "r \<in> set ?rs" unfolding eq by auto
  with rid show ?thesis by (auto simp: revision_in_def)
qed

lemma create_assignment_Inr:
  assumes "create_assignment i g app env ts d = Inr (v, d')"
  obtains a where "d' = d\<lparr>t_assignments := t_assignments d @ [a]\<rparr>" "as_id a = i" "as_group a = g"
    "as_app a = app" "as_env a = env" "as_status a = Active" "revision_in d (as_rev a) app env"
    "\<exists>r \<in> set (t_groups d). ng_id r = g" "\<forall>x \<in> set (t_assignments d). as_id x \<noteq> i"
    "\<forall>b \<in> actives d. as_group b = g \<longrightarrow> \<not> (as_app b = app \<and> as_env b = env)"
    "\<not> assignment_conflict_q app env g d" "select_latest_revision_q app env d = Inr (as_rev a)"
proof -
  from assms obtain name rid c where
    latest: "select_latest_revision_q app env d = Inr rid" and conf: "\<not> assignment_conflict_q app env g d"
    and ins: "insert_assignment_q i g app env rid ts d = Inr (c, d')"
    by (auto simp: create_assignment_def split: if_splits)
  let ?a = "\<lparr>as_id = i, as_group = g, as_rev = rid, as_created = ts, as_app = app, as_env = env, as_status = Active\<rparr>"
  from ins have "d' = d\<lparr>t_assignments := t_assignments d @ [?a]\<rparr>"
    "\<exists>r \<in> set (t_groups d). ng_id r = g" "\<forall>x \<in> set (t_assignments d). as_id x \<noteq> i"
    "\<forall>b \<in> actives d. as_group b = g \<longrightarrow> \<not> (as_app b = app \<and> as_env b = env)"
    by (auto simp: insert_assignment_q_def actives_def split: if_splits)
  then show thesis
    using that [of ?a] latest conf select_latest_revision_Inr [OF latest] by simp
qed

lemma create_assignment_ok:
  assumes create: "create_assignment i g app env ts d = Inr (v, d')" and ok: "fleet_ok d"
  shows "fleet_ok d'"
proof -
  note okd = fleet_okD [OF ok]
  obtain a where d': "d' = d\<lparr>t_assignments := t_assignments d @ [a]\<rparr>"
    and a: "as_id a = i" "as_group a = g" "as_app a = app" "as_env a = env" "as_status a = Active"
    and rid: "revision_in d (as_rev a) app env" and grp: "\<exists>r \<in> set (t_groups d). ng_id r = g"
    and fresh: "\<forall>x \<in> set (t_assignments d). as_id x \<noteq> i"
    and uniq: "\<forall>b \<in> actives d. as_group b = g \<longrightarrow> \<not> (as_app b = app \<and> as_env b = env)"
    and conf: "\<not> assignment_conflict_q app env g d" and "select_latest_revision_q app env d = Inr (as_rev a)"
    by (rule create_assignment_Inr [OF create])
  have mem: "member d' = member d" by (rule member_cong) (simp add: d')
  have act: "actives d' = insert a (actives d)" using a(5) by (auto simp: actives_def d')
  have rev: "revision_in d' = revision_in d" by (rule revision_in_cong) (simp add: d')
  have clash: False if "b \<in> actives d" "as_app b = app" "as_env b = env" "member d (as_group b) n" "member d g n" for b n
  proof (cases "as_group b = g")
    case True
    with uniq that show False by blast
  next
    case False
    from that(4) obtain m where "m \<in> set (t_members d)" "gm_group m = as_group b" "gm_node m = n"
      by (auto simp: member_def)
    moreover have "n \<in> set (members_of g d)" using that(5) by (auto simp: member_def members_of_def)
    ultimately have "assignment_conflict_q app env g d"
      using that(1-3) False unfolding assignment_conflict_q_def exists_row_iff actives_def
      by (intro bexI [of _ m] conjI bexI [of _ b]) auto
    with conf show False by blast
  qed
  show ?thesis
  proof (rule fleet_okI)
    have "distinct (map as_id (t_assignments d'))"
      using okd(1) fresh a by (auto simp: d' fleet_keys_def)
    moreover have "unique_active d'"
      using okd(1) uniq a unfolding act fleet_keys_def unique_active_def same_bundle_def
      by (intro ballI impI) (metis insertE)
    ultimately show "fleet_keys d'" using okd(1) unfolding fleet_keys_def by (simp add: d')
    show "fleet_refs d'" using okd(2) rid grp a unfolding fleet_refs_def rev by (auto simp: d')
    show "tasks_ok d'" using okd(4) by (auto simp: tasks_ok_def d')
    show "exclusive d'"
      using okd(3) clash a unfolding exclusive_def act mem same_bundle_def
      by (intro ballI allI impI) (metis insertE)
  qed
qed

lemma advance_desired_revision_ok:
  assumes adv: "advance_desired_revision app env rid d = Inr d'" and ok: "fleet_ok d"
    and rid: "revision_in d rid app env"
  shows "fleet_ok d'"
proof -
  note okd = fleet_okD [OF ok]
  let ?p = "\<lambda>a. as_app a = app \<and> as_env a = env \<and> as_status a = Active"
  let ?f = "\<lambda>a. a\<lparr>as_rev := rid\<rparr>"
  have d': "d' = d\<lparr>t_assignments := upd ?p ?f (t_assignments d)\<rparr>"
    using adv by (auto simp: advance_desired_revision_def advance_desired_revision_q_def Let_def split: if_splits)
  have mem: "member d' = member d" by (rule member_cong) (simp add: d')
  have rev: "revision_in d' = revision_in d" by (rule revision_in_cong) (simp add: d')
  define h :: "assignment_row \<Rightarrow> assignment_row" where "h = (\<lambda>a. if ?p a then ?f a else a)"
  have h: "as_id (h a) = as_id a" "as_group (h a) = as_group a" "as_app (h a) = as_app a" "as_env (h a) = as_env a"
    "as_status (h a) = as_status a" for a
    by (simp_all add: h_def)
  have asgs: "set (t_assignments d') = h ` set (t_assignments d)" by (simp add: d' set_upd h_def)
  then have act: "actives d' = h ` actives d"
    by (auto simp: actives_def h)
  show ?thesis
  proof (rule fleet_okI)
    have "map as_id (t_assignments d') = map as_id (t_assignments d)" by (simp add: d' map_upd_same)
    with same_actives(1) [OF act h(1-4)] show "fleet_keys d'"
      using okd(1) by (simp add: fleet_keys_def d')
    have hrev: "revision_in d (as_rev (h a)) (as_app a) (as_env a)"
      if "revision_in d (as_rev a) (as_app a) (as_env a)" for a
      using that rid by (simp add: h_def)
    have "\<forall>a \<in> set (t_assignments d'). (\<exists>g \<in> set (t_groups d). ng_id g = as_group a) \<and>
        revision_in d (as_rev a) (as_app a) (as_env a)"
      using okd(2) hrev unfolding asgs fleet_refs_def by (simp add: h)
    then show "fleet_refs d'" using okd(2) unfolding fleet_refs_def rev by (simp add: d')
    show "tasks_ok d'" using okd(4) by (simp add: tasks_ok_def d')
    show "exclusive d'" by (rule same_actives(2) [OF act h(1-4) okd(3) mem])
  qed
qed

section \<open>Unassignment\<close>

lemma members_of_iff: "n \<in> set (members_of g d) \<longleftrightarrow> member d g n"
  by (auto simp: members_of_def member_def)

lemma distinct_members_of: "distinct (t_members d) \<Longrightarrow> distinct (members_of g d)"
proof -
  assume "distinct (t_members d)"
  moreover have "inj_on gm_node (set (filter (\<lambda>m. gm_group m = g) ms))" for ms :: "member_row list"
    by (auto simp: inj_on_def intro: member_row.equality)
  ultimately show ?thesis by (simp add: members_of_def distinct_map)
qed

lemma unassign_Inr:
  assumes un: "unassign i ts d = Inr (tasks, d')" and ok: "fleet_keys d"
  obtains a where "a \<in> set (t_assignments d)" "as_id a = i" "as_status a = Active"
    "d' = d\<lparr>t_assignments := upd (\<lambda>x. as_id x = i) (\<lambda>x. x\<lparr>as_status := Removing\<rparr>) (t_assignments d),
      t_tasks := t_tasks d @ map (\<lambda>n. \<lparr>ut_asg = i, ut_node = n, ut_status = Pending, ut_error = [],
        ut_updated = ts\<rparr>) (members_of (as_group a) d)\<rparr>"
    "tasks = list_unassignment_tasks_q i d'" "\<forall>t \<in> set (t_tasks d). \<not> (ut_asg t = i \<and> member d (as_group a) (ut_node t))"
proof -
  let ?p = "\<lambda>a. as_id a = i \<and> as_status a = Active"
  let ?d1 = "d\<lparr>t_assignments := upd ?p (\<lambda>x. x\<lparr>as_status := Removing\<rparr>) (t_assignments d)\<rparr>"
  from un have n: "cnt ?p (t_assignments d) = 1" and ins: "insert_unassignment_tasks_q i ts ?d1 = Inr d'"
    and tasks: "tasks = list_unassignment_tasks_q i d'"
    by (auto simp: unassign_def mark_assignment_removing_q_def Let_def split: if_splits simp del: cnt_0 cnt_pos)
  from n have "\<not> cnt ?p (t_assignments d) = 0" by simp
  then obtain a where a: "a \<in> set (t_assignments d)" "as_id a = i" "as_status a = Active" by auto
  have only: "x = a" if "x \<in> set (t_assignments d)" "as_id x = i" for x
    using that a ok by (auto simp: fleet_keys_def dest: distinct_key_eq)
  have upd_eq: "upd ?p (\<lambda>x. x\<lparr>as_status := Removing\<rparr>) (t_assignments d) =
      upd (\<lambda>x. as_id x = i) (\<lambda>x. x\<lparr>as_status := Removing\<rparr>) (t_assignments d)"
    unfolding upd_def
  proof (rule map_cong [OF refl])
    fix x assume "x \<in> set (t_assignments d)"
    then have "as_id x = i \<Longrightarrow> as_status x = Active" using only [of x] a(3) by simp
    then show "(if ?p x then x\<lparr>as_status := Removing\<rparr> else x) = (if as_id x = i then x\<lparr>as_status := Removing\<rparr> else x)"
      by simp
  qed
  have "a\<lparr>as_status := Removing\<rparr> \<in> set (t_assignments ?d1)" using a by (auto simp: set_upd)
  moreover have "distinct (map as_id (t_assignments ?d1))"
    using ok by (simp add: fleet_keys_def map_upd_same)
  ultimately have one: "one (\<lambda>x. as_id x = i) (t_assignments ?d1) = Some (a\<lparr>as_status := Removing\<rparr>)"
    using a(2) by (intro one_Some_unique) simp_all
  have mem: "members_of g ?d1 = members_of g d" for g by (simp add: members_of_def)
  from ins one mem have d': "d' = ?d1\<lparr>t_tasks := t_tasks d @ map (\<lambda>n. \<lparr>ut_asg = i, ut_node = n,
      ut_status = Pending, ut_error = [], ut_updated = ts\<rparr>) (members_of (as_group a) d)\<rparr>"
    and new: "\<forall>t \<in> set (t_tasks d). \<not> (ut_asg t = i \<and> member d (as_group a) (ut_node t))"
    by (auto simp: insert_unassignment_tasks_q_def Let_def members_of_iff split: if_splits)
  show thesis by (rule that [OF a _ tasks new]) (simp add: d' upd_eq)
qed

lemma unassign_ok:
  assumes un: "unassign i ts d = Inr (tasks, d')" and ok: "fleet_ok d"
  shows "fleet_ok d'"
proof -
  note okd = fleet_okD [OF ok]
  obtain a where a: "a \<in> set (t_assignments d)" "as_id a = i" "as_status a = Active"
    and d': "d' = d\<lparr>t_assignments := upd (\<lambda>x. as_id x = i) (\<lambda>x. x\<lparr>as_status := Removing\<rparr>) (t_assignments d),
      t_tasks := t_tasks d @ map (\<lambda>n. \<lparr>ut_asg = i, ut_node = n, ut_status = Pending, ut_error = [],
        ut_updated = ts\<rparr>) (members_of (as_group a) d)\<rparr>"
    and "tasks = list_unassignment_tasks_q i d'"
    and new: "\<forall>t \<in> set (t_tasks d). \<not> (ut_asg t = i \<and> member d (as_group a) (ut_node t))"
    by (rule unassign_Inr [OF un okd(1)])
  have act: "actives d' \<subseteq> actives d"
    by (auto simp: actives_def d' set_upd_split)
  have mem: "member d' = member d" by (rule member_cong) (simp add: d')
  have rev: "revision_in d' = revision_in d" by (rule revision_in_cong) (simp add: d')
  show ?thesis
  proof (rule fleet_okI)
    have "unique_active d'"
      using okd(1) act by (blast intro: unique_active_mono [of d] dest: fleet_keys_def [THEN iffD1])
    moreover have "distinct (map (\<lambda>t. (ut_asg t, ut_node t)) (t_tasks d'))"
      using okd(1) new distinct_members_of [of d "as_group a"]
      by (auto simp: d' fleet_keys_def distinct_map inj_on_def members_of_iff)
    moreover have "map as_id (t_assignments d') = map as_id (t_assignments d)" by (simp add: d' map_upd_same)
    ultimately show "fleet_keys d'" using okd(1) by (simp add: fleet_keys_def d')
    show "fleet_refs d'" using okd(2) unfolding fleet_refs_def rev by (simp add: d')
    show "exclusive d'" by (rule exclusive_mono [OF okd(3) act]) (simp add: mem)
    have nodes: "\<exists>n \<in> set (t_nodes d). nd_id n = k" if "member d g k" for g k
      using that okd(2) by (auto simp: member_def fleet_refs_def)
    have asg: "\<exists>x \<in> set (t_assignments d'). as_id x = i \<and> as_status x = Removing"
      using a by (intro bexI [of _ "a\<lparr>as_status := Removing\<rparr>"]) (auto simp: d' set_upd_split)
    have old: "\<exists>x \<in> set (t_assignments d'). as_id x = k \<and> as_status x = Removing"
      if "x \<in> set (t_assignments d)" "as_id x = k" "as_status x = Removing" for k x
      using that asg by (cases "k = i") (auto simp: d' set_upd_split)
    show "tasks_ok d'"
      unfolding tasks_ok_def
    proof
      fix t assume "t \<in> set (t_tasks d')"
      then consider "t \<in> set (t_tasks d)"
        | "ut_asg t = i" "ut_status t = Pending" "member d (as_group a) (ut_node t)"
        by (auto simp: d' members_of_iff)
      then show "ut_status t \<noteq> Offline \<and> (\<exists>n \<in> set (t_nodes d'). nd_id n = ut_node t) \<and>
          (\<exists>x \<in> set (t_assignments d'). as_id x = ut_asg t \<and> as_status x = Removing)"
      proof cases
        case 1
        with okd(4) obtain x where "x \<in> set (t_assignments d)" "as_id x = ut_asg t" "as_status x = Removing"
          unfolding tasks_ok_def by blast
        with 1 okd(4) old show ?thesis by (auto simp: tasks_ok_def d')
      next
        case 2
        with nodes asg show ?thesis by (simp add: d')
      qed
    qed
  qed
qed

lemma task_update_ok:
  assumes ok: "fleet_ok d" and f: "\<And>t. ut_asg (f t) = ut_asg t" "\<And>t. ut_node (f t) = ut_node t"
    "\<And>t. ut_status (f t) \<noteq> Offline"
  shows "fleet_ok (d\<lparr>t_tasks := upd p f (t_tasks d)\<rparr>)"
proof -
  let ?d' = "d\<lparr>t_tasks := upd p f (t_tasks d)\<rparr>"
  note okd = fleet_okD [OF ok]
  have mem: "member ?d' = member d" by (rule member_cong) simp
  have rev: "revision_in ?d' = revision_in d" by (rule revision_in_cong) simp
  have act: "actives ?d' = actives d" by (simp add: actives_def)
  have un: "unique_active ?d' = unique_active d" by (simp only: unique_active_def act)
  show ?thesis
  proof (rule fleet_okI)
    show "fleet_keys ?d'" using okd(1) un by (simp add: fleet_keys_def map_upd_same f)
    show "fleet_refs ?d'" using okd(2) unfolding fleet_refs_def rev by simp
    show "exclusive ?d'" using okd(3) unfolding exclusive_def act mem .
    show "tasks_ok ?d'" using okd(4) f by (auto simp: tasks_ok_def set_upd_split)
  qed
qed

lemma report_cleanup_task_ok:
  assumes "report_cleanup_task i n result err ts d = Inr d'" "fleet_ok d"
  shows "fleet_ok d'"
proof -
  from assms(1) obtain status p where "cleanup_status result = Some status"
    and d': "d' = d\<lparr>t_tasks := upd p (\<lambda>t. t\<lparr>ut_status := status, ut_error := err, ut_updated := ts\<rparr>) (t_tasks d)\<rparr>"
    by (auto simp: report_cleanup_task_def report_cleanup_task_q_def Let_def split: option.splits if_splits)
  then have "status \<noteq> Offline" by (auto simp: cleanup_status_def split: if_splits)
  then show ?thesis unfolding d' by (intro task_update_ok [OF assms(2)]) simp_all
qed

lemma abandon_cleanup_confirmation_ok:
  assumes "abandon_cleanup_confirmation i ts d = Inr d'" "fleet_ok d"
  shows "fleet_ok d'"
proof -
  from assms(1) obtain p where
    d': "d' = d\<lparr>t_tasks := upd p (\<lambda>t. t\<lparr>ut_status := CleanupUnconfirmed, ut_updated := ts\<rparr>) (t_tasks d)\<rparr>"
    by (auto simp: abandon_cleanup_confirmation_def abandon_cleanup_confirmation_q_def Let_def split: if_splits)
  then show ?thesis unfolding d' by (intro task_update_ok [OF assms(2)]) simp_all
qed

section \<open>Managed Nodes\<close>

text \<open>An update of a Managed Node that keeps the ids, the serials distinct and the interval in its bounds.\<close>

lemma node_update_ok:
  assumes ok: "fleet_ok d" and nodes: "map nd_id ns = map nd_id (t_nodes d)" "distinct (map nd_serial ns)"
    "\<And>n. n \<in> set ns \<Longrightarrow> 5 \<le> nd_poll n \<and> nd_poll n \<le> 86400"
  shows "fleet_ok (d\<lparr>t_nodes := ns\<rparr>)"
proof -
  let ?d' = "d\<lparr>t_nodes := ns\<rparr>"
  note okd = fleet_okD [OF ok]
  have mem: "member ?d' = member d" by (rule member_cong) simp
  have rev: "revision_in ?d' = revision_in d" by (rule revision_in_cong) simp
  have act: "actives ?d' = actives d" by (simp add: actives_def)
  have un: "unique_active ?d' = unique_active d" by (simp only: unique_active_def act)
  have ids: "(\<exists>n \<in> set ns. nd_id n = k) \<longleftrightarrow> (\<exists>n \<in> set (t_nodes d). nd_id n = k)" for k
    using arg_cong [OF nodes(1), of set] by (metis (mono_tags, lifting) image_iff list.set_map)
  show ?thesis
  proof (rule fleet_okI)
    show "fleet_keys ?d'" using okd(1) un nodes(1,2) by (simp add: fleet_keys_def)
    show "fleet_refs ?d'" using okd(2) nodes(3) unfolding fleet_refs_def rev by (simp add: ids)
    show "exclusive ?d'" using okd(3) unfolding exclusive_def act mem .
    show "tasks_ok ?d'" using okd(4) unfolding tasks_ok_def by (simp add: ids)
  qed
qed

lemma node_field_update_ok:
  assumes ok: "fleet_ok d" and f: "\<And>n. nd_id (f n) = nd_id n" "\<And>n. nd_serial (f n) = nd_serial n"
    "\<And>n. nd_poll (f n) = nd_poll n"
  shows "fleet_ok (d\<lparr>t_nodes := upd p f (t_nodes d)\<rparr>)"
  by (rule node_update_ok [OF ok])
    (use fleet_okD(1,2) [OF ok] f in \<open>auto simp: map_upd_same fleet_keys_def fleet_refs_def set_upd_split\<close>)

lemma touch_node_ok: "touch_node i ob res at d = Inr d' \<Longrightarrow> fleet_ok d \<Longrightarrow> fleet_ok d'"
  by (auto simp: touch_node_def touch_node_q_def intro: node_field_update_ok)

lemma set_node_desired_ok: "set_node_desired i etag d = Inr d' \<Longrightarrow> fleet_ok d \<Longrightarrow> fleet_ok d'"
  by (auto simp: set_node_desired_def set_node_desired_q_def intro: node_field_update_ok)

lemma rename_node_ok: "rename_node i name d = Inr d' \<Longrightarrow> fleet_ok d \<Longrightarrow> fleet_ok d'"
  by (auto simp: rename_node_def rename_node_q_def Let_def split: if_splits intro!: node_field_update_ok)

lemma set_node_bundle_dir_ok: "set_node_bundle_dir i dir d = Inr d' \<Longrightarrow> fleet_ok d \<Longrightarrow> fleet_ok d'"
  by (auto simp: set_node_bundle_dir_def set_node_bundle_dir_q_def Let_def split: if_splits
      intro!: node_field_update_ok)

lemma set_node_poll_interval_ok:
  assumes "set_node_poll_interval i secs d = Inr d'" "fleet_ok d"
  shows "fleet_ok d'"
proof -
  from assms(1) have ex: "\<exists>n \<in> set (t_nodes d). nd_id n = i" and range: "5 \<le> to_int32 secs" "to_int32 secs \<le> 86400"
    and d': "d' = d\<lparr>t_nodes := upd (\<lambda>n. nd_id n = i) (\<lambda>n. n\<lparr>nd_poll := to_int32 secs\<rparr>) (t_nodes d)\<rparr>"
    by (auto simp: set_node_poll_interval_def set_node_poll_interval_q_def Let_def split: if_splits)
  show ?thesis
    unfolding d' by (rule node_update_ok [OF assms(2)])
      (use fleet_okD(1,2) [OF assms(2)] range in
        \<open>auto simp: map_upd_same fleet_keys_def fleet_refs_def set_upd_split\<close>)
qed

lemma register_node_q_ok:
  assumes "register_node_q i name serial age cert expires dir ts d = Inr d'" and ok: "fleet_ok d"
  shows "fleet_ok d'"
proof -
  define n where "n = \<lparr>nd_id = i, nd_name = name, nd_serial = serial, nd_age = age, nd_cert = cert,
    nd_cert_expires = expires, nd_created = ts, nd_last_seen = None, nd_etag = [], nd_observed = [],
    nd_result = [], nd_poll = 15, nd_bundle_dir = dir\<rparr>"
  with assms(1) have d': "d' = d\<lparr>t_nodes := t_nodes d @ [n]\<rparr>"
    and fresh: "\<forall>x \<in> set (t_nodes d). nd_id x \<noteq> nd_id n \<and> nd_serial x \<noteq> nd_serial n" and poll: "nd_poll n = 15"
    by (auto simp: register_node_q_def split: if_splits)
  note okd = fleet_okD [OF ok]
  have mem: "member d' = member d" by (rule member_cong) (simp add: d')
  have rev: "revision_in d' = revision_in d" by (rule revision_in_cong) (simp add: d')
  have act: "actives d' = actives d" by (simp add: actives_def d')
  have un: "unique_active d' = unique_active d" by (simp only: unique_active_def act)
  show ?thesis
  proof (rule fleet_okI)
    show "fleet_keys d'" using okd(1) un fresh by (auto simp: fleet_keys_def d')
    show "fleet_refs d'" using okd(2) poll unfolding fleet_refs_def rev by (simp add: d')
    show "exclusive d'" using okd(3) unfolding exclusive_def act mem .
    show "tasks_ok d'" using okd(4) by (simp add: tasks_ok_def d')
  qed
qed

lemma activate_pending_node_ok:
  assumes "activate_pending_node i serial age cert expires d = Inr d'" and ok: "fleet_ok d"
  shows "fleet_ok d'"
proof -
  let ?f = "\<lambda>n. n\<lparr>nd_serial := serial, nd_age := age, nd_cert := cert, nd_cert_expires := expires\<rparr>"
  from assms(1) have ex: "\<exists>n \<in> set (t_nodes d). nd_id n = i"
    and new: "\<forall>n \<in> set (t_nodes d). nd_serial n = serial \<longrightarrow> nd_id n = i"
    and d': "d' = d\<lparr>t_nodes := upd (\<lambda>n. nd_id n = i) ?f (t_nodes d)\<rparr>"
    by (auto simp: activate_pending_node_def activate_pending_node_q_def Let_def split: if_splits)
  let ?g = "\<lambda>n. if nd_id n = i then serial else nd_serial n"
  have keys: "distinct (map nd_id (t_nodes d))" "distinct (map nd_serial (t_nodes d))"
    using fleet_okD(1) [OF ok] by (simp_all add: fleet_keys_def)
  have inj: "inj_on ?g (set (t_nodes d))"
  proof (rule inj_onI)
    fix x y assume xy: "x \<in> set (t_nodes d)" "y \<in> set (t_nodes d)" "?g x = ?g y"
    have "nd_id x = nd_id y \<or> nd_serial x = nd_serial y"
      using xy new by (auto split: if_splits)
    with xy keys show "x = y" by (auto dest: distinct_key_eq)
  qed
  have eq: "map nd_serial (upd (\<lambda>n. nd_id n = i) ?f (t_nodes d)) = map ?g (t_nodes d)"
    by (simp add: upd_def)
  have "distinct (map nd_serial (upd (\<lambda>n. nd_id n = i) ?f (t_nodes d)))"
    unfolding eq using keys(2) inj by (simp only: distinct_map)
  then show ?thesis
    unfolding d' by (rule node_update_ok [OF ok, rotated])
      (use fleet_okD(2) [OF ok] in \<open>auto simp: map_upd_same fleet_refs_def set_upd_split\<close>)
qed

lemma delete_node_ok:
  assumes "delete_node i d = Inr d'" and ok: "fleet_ok d"
  shows "fleet_ok d'"
proof -
  from assms(1) have d': "d' = drop_nodes (\<lambda>n. nd_id n = i) d" and ex: "\<exists>n \<in> set (t_nodes d). nd_id n = i"
    by (auto simp: delete_node_def delete_node_q_def split: if_splits)
  have one: "(\<lambda>x. i) ` {n \<in> set (t_nodes d). nd_id n = i} = {i}" using ex by auto
  have t: "t_nodes d' = filter (\<lambda>n. nd_id n \<noteq> i) (t_nodes d)" "t_members d' = filter (\<lambda>m. gm_node m \<noteq> i) (t_members d)"
    "t_tasks d' = filter (\<lambda>t. ut_node t \<noteq> i) (t_tasks d)"
    "t_tokens d' = filter (\<lambda>t. \<not> (case et_node t of None \<Rightarrow> False | Some n \<Rightarrow> n = i)) (t_tokens d)"
    by (simp_all add: d' drop_nodes_def Let_def one del_def cong: option.case_cong)
  show ?thesis
    by (rule fleet_ok_filtered [OF ok t(1) _ t(2) _ t(4,3), where kg = "\<lambda>_. True" and ka = "\<lambda>_. True" and kr = "\<lambda>_. True"])
      (auto simp: d')
qed

section \<open>Enrollment Tokens and Convergence\<close>

lemma tokens_ok:
  assumes "fleet_ok d" "distinct (map et_hash ts)"
  shows "fleet_ok (d\<lparr>t_tokens := ts\<rparr>)"
proof -
  have "member (d\<lparr>t_tokens := ts\<rparr>) = member d" by (rule member_cong) simp
  moreover have "revision_in (d\<lparr>t_tokens := ts\<rparr>) = revision_in d" by (rule revision_in_cong) simp
  ultimately show ?thesis
    using assms by (simp add: fleet_ok_def fleet_keys_def fleet_refs_def exclusive_def tasks_ok_def
        unique_active_def actives_def)
qed

lemma create_node_enrollment_token_ok:
  assumes "create_node_enrollment_token hash name node expires ts d = Inr d'" "fleet_ok d"
  shows "fleet_ok d'"
proof -
  define t where "t = \<lparr>et_hash = hash, et_name = name, et_created = ts, et_expires = expires, et_used = None,
    et_node = Some node\<rparr>"
  with assms(1) have d': "d' = d\<lparr>t_tokens := t_tokens d @ [t]\<rparr>" and "\<forall>x \<in> set (t_tokens d). et_hash x \<noteq> et_hash t"
    by (auto simp: create_node_enrollment_token_def create_node_enrollment_token_q_def split: if_splits)
  then show ?thesis
    unfolding d' using fleet_okD(1) [OF assms(2)] by (intro tokens_ok [OF assms(2)]) (auto simp: fleet_keys_def)
qed

lemma consume_enrollment_token_ok:
  assumes "consume_enrollment_token hash now d = Inr (t, d')" "fleet_ok d"
  shows "fleet_ok d'"
proof -
  from assms(1) have d': "d' = d\<lparr>t_tokens := upd (\<lambda>t. et_hash t = hash) (\<lambda>t. t\<lparr>et_used := Some now\<rparr>) (t_tokens d)\<rparr>"
    by (auto simp: consume_enrollment_token_def mark_enrollment_token_used_q_def split: if_splits)
  show ?thesis
    unfolding d' using fleet_okD(1) [OF assms(2)]
    by (intro tokens_ok [OF assms(2)]) (simp add: fleet_keys_def map_upd_same)
qed

lemma record_convergence_ok:
  assumes "record_convergence c ts d = Inr d'" "fleet_ok d"
  shows "fleet_ok d'"
proof -
  from assms(1) obtain cs where "d' = d\<lparr>t_convergence := cs\<rparr>"
    by (auto simp: record_convergence_def record_convergence_q_def Let_def split: if_splits)
  then show ?thesis by (auto intro: fleet_ok_bundle_change [OF assms(2)])
qed

end
