(* ===== verification/Scenario.thy ===== *)
theory Scenario
  imports FleetStore
begin

text \<open>
  A run of the store on concrete data, from the empty database to an Assignment being removed. The
  witnesses of the properties evaluate the operations on its states.
\<close>

fun is_ok :: "'e + 'a \<Rightarrow> bool" where
  "is_ok (Inr _) = True"
| "is_ok (Inl _) = False"

lemma is_okE:
  assumes "is_ok r"
  obtains x where "r = Inr x"
  using assms by (cases r) auto

definition demo_reason :: operation_reason where
  "demo_reason = \<lparr>or_category = ''maintenance'', or_explanation = ''first release'', or_external = []\<rparr>"

definition demo_env :: db where
  "demo_env = empty_db\<lparr>
     t_apps := [\<lparr>ap_id = ''app'', ap_name = ''shop'', ap_created = 1\<rparr>],
     t_envs := [\<lparr>en_id = ''env'', en_app = ''app'', en_name = ''prod'', en_created = 2,
                 en_protection = ''standard''\<rparr>]\<rparr>"

definition demo_secret :: db where
  "demo_secret = demo_env\<lparr>
     t_secrets := [\<lparr>sc_id = ''sec'', sc_app = ''app'', sc_env = ''env'', sc_name = ''password'', sc_retired = None\<rparr>],
     t_versions := [\<lparr>sv_id = ''v1'', sv_secret = ''sec'', sv_seq = 1, sv_wrapped = ''w'', sv_nonce = ''n'', sv_cipher = ''c''\<rparr>],
     t_bindings := [\<lparr>fb_secret = ''sec'', fb_path = ''password'', fb_uid = 0, fb_gid = 0, fb_mode = 256\<rparr>],
     t_drafts := [\<lparr>dr_id = ''dft'', dr_app = ''app'', dr_env = ''env'', dr_version = 1\<rparr>],
     t_selections := [\<lparr>ds_draft = ''dft'', ds_secret = ''sec'', ds_seq = 1\<rparr>]\<rparr>"

definition demo_published :: db where
  "demo_published = demo_secret\<lparr>
     t_revisions := [\<lparr>br_id = ''rev1'', br_app = ''app'', br_env = ''env'', br_draft_version = 1, br_created = 5,
       br_by = ''admin'', br_category = ''maintenance'', br_explanation = ''first release'', br_external = []\<rparr>],
     t_files := [\<lparr>rf_rev = ''rev1'', rf_secret = ''sec'', rf_path = ''password'', rf_uid = 0, rf_gid = 0,
       rf_mode = 256, rf_seq = 1\<rparr>]\<rparr>"

definition demo_fleet :: db where
  "demo_fleet = demo_published\<lparr>
     t_groups := [\<lparr>ng_id = ''grp'', ng_name = ''web'', ng_created = 6\<rparr>],
     t_nodes := [\<lparr>nd_id = ''node'', nd_name = ''host'', nd_serial = ''pending:node'', nd_age = [], nd_cert = [],
       nd_cert_expires = 7, nd_created = 7, nd_last_seen = None, nd_etag = [], nd_observed = [],
       nd_result = [], nd_poll = 15, nd_bundle_dir = []\<rparr>],
     t_members := [\<lparr>gm_group = ''grp'', gm_node = ''node''\<rparr>]\<rparr>"

definition demo_assigned :: db where
  "demo_assigned = demo_fleet\<lparr>
     t_assignments := [\<lparr>as_id = ''asg'', as_group = ''grp'', as_rev = ''rev1'', as_created = 8, as_app = ''app'',
       as_env = ''env'', as_status = Active\<rparr>]\<rparr>"

definition demo_removing :: db where
  "demo_removing = demo_fleet\<lparr>
     t_assignments := [\<lparr>as_id = ''asg'', as_group = ''grp'', as_rev = ''rev1'', as_created = 8, as_app = ''app'',
       as_env = ''env'', as_status = Removing\<rparr>],
     t_tasks := [\<lparr>ut_asg = ''asg'', ut_node = ''node'', ut_status = Pending, ut_error = [], ut_updated = 9\<rparr>]\<rparr>"

lemmas demo_defs = demo_env_def demo_secret_def demo_published_def demo_fleet_def demo_assigned_def
  demo_removing_def empty_db_def

lemma demo_run:
  "create_application ''app'' ''shop'' 1 empty_db
     = Inr (empty_db\<lparr>t_apps := [\<lparr>ap_id = ''app'', ap_name = ''shop'', ap_created = 1\<rparr>]\<rparr>)"
  "create_environment ''env'' ''app'' ''prod'' 2
     (empty_db\<lparr>t_apps := [\<lparr>ap_id = ''app'', ap_name = ''shop'', ap_created = 1\<rparr>]\<rparr>) = Inr demo_env"
  "create_secret_with_value ''dft'' ''sec'' ''v1'' ''app'' ''env'' ''password'' ''w'' ''n'' ''c'' demo_env
     = Inr demo_secret"
  "publish ''rev1'' ''app'' ''env'' ''admin'' demo_reason 5 5 demo_secret =
     Inr (\<lparr>rev_id = ''rev1'', rev_draft = 1, rev_files = 1, rev_by = ''admin'', rev_created = 0,
           rev_reason = demo_reason\<rparr>, demo_published)"
  by code_simp+

lemma demo_run_fleet:
  "create_node_group ''grp'' ''web'' 6 demo_published
     = Inr (demo_published\<lparr>t_groups := t_groups demo_fleet\<rparr>)"
  "create_pending_node ''node'' ''host'' [] 7 7 (demo_published\<lparr>t_groups := t_groups demo_fleet\<rparr>)
     = Inr (demo_fleet\<lparr>t_members := []\<rparr>)"
  "add_group_member ''grp'' ''node'' (demo_fleet\<lparr>t_members := []\<rparr>) = Inr demo_fleet"
  "create_assignment ''asg'' ''grp'' ''app'' ''env'' 8 demo_fleet =
     Inr (\<lparr>asg_id = ''asg'', asg_group = ''grp'', asg_group_name = ''web'', asg_app = ''app'', asg_env = ''env'',
           asg_rev = ''rev1'', asg_status = Active, asg_created = 0\<rparr>, demo_assigned)"
  "unassign ''asg'' 9 demo_assigned =
     Inr ([\<lparr>ut_asg = ''asg'', ut_node = ''node'', ut_status = Pending, ut_error = [], ut_updated = 9\<rparr>], demo_removing)"
  by code_simp+

end
