(* ===== verification/CoreSystem.thy ===== *)
theory CoreSystem
  imports FleetInvariants Scenario
begin

text \<open>
  The Secret Bundle and the fleet domains as one system: a step is one transaction of the store that
  changes state, with the check its handler makes first. The locale \<open>step_system\<close> is invariance by rule
  induction; its interpretation on this system says that every reachable database is well-formed.
\<close>

section \<open>Invariants of a step relation\<close>

locale step_system =
  fixes init :: "'s \<Rightarrow> bool" and step :: "'s \<Rightarrow> 's \<Rightarrow> bool" and inv :: "'s \<Rightarrow> bool"
  assumes init_inv: "init s \<Longrightarrow> inv s"
    and step_inv: "inv s \<Longrightarrow> step s t \<Longrightarrow> inv t"
begin

lemma steps_inv: "step\<^sup>*\<^sup>* s t \<Longrightarrow> inv s \<Longrightarrow> inv t"
  by (induction rule: rtranclp_induct) (auto intro: step_inv)

lemma reachable_inv: "init s \<Longrightarrow> step\<^sup>*\<^sup>* s t \<Longrightarrow> inv t"
  by (auto intro: steps_inv init_inv)

end

section \<open>Fleet operations and the Secret Bundle tables, and the other way round\<close>

lemma bundle_ok_cong:
  assumes "bundle_ok d" "t_apps d' = t_apps d" "t_envs d' = t_envs d" "t_secrets d' = t_secrets d"
    "t_versions d' = t_versions d" "t_bindings d' = t_bindings d" "t_drafts d' = t_drafts d"
    "t_selections d' = t_selections d" "t_revisions d' = t_revisions d" "t_files d' = t_files d"
  shows "bundle_ok d'"
  using assms by (simp add: bundle_ok_def refs_ok_def keys_ok_def parts_ok_defs lookup_defs seqs_of_def)

text \<open>The tables of the Secret Bundle domain are the same in two databases.\<close>

definition same_bundle_tables :: "db \<Rightarrow> db \<Rightarrow> bool" where
  "same_bundle_tables d d' \<longleftrightarrow> t_apps d' = t_apps d \<and> t_envs d' = t_envs d \<and> t_secrets d' = t_secrets d \<and>
     t_versions d' = t_versions d \<and> t_bindings d' = t_bindings d \<and> t_drafts d' = t_drafts d \<and>
     t_selections d' = t_selections d \<and> t_revisions d' = t_revisions d \<and> t_files d' = t_files d"

lemma same_tables_ok: "same_bundle_tables d d' \<Longrightarrow> bundle_ok d \<Longrightarrow> bundle_ok d'"
  unfolding same_bundle_tables_def by (rule bundle_ok_cong) simp_all

named_theorems fleet_op_defs \<open>the definitions of the fleet operations\<close>

lemmas [fleet_op_defs] =
  create_node_group_def create_node_group_q_def delete_node_group_def delete_node_group_by_id_q_def
  add_group_member_def insert_group_member_q_def remove_group_member_def remove_group_member_q_def
  create_assignment_def insert_assignment_q_def advance_desired_revision_def advance_desired_revision_q_def
  unassign_def mark_assignment_removing_q_def insert_unassignment_tasks_q_def
  report_cleanup_task_def report_cleanup_task_q_def
  abandon_cleanup_confirmation_def abandon_cleanup_confirmation_q_def
  record_convergence_def record_convergence_q_def
  touch_node_def touch_node_q_def set_node_desired_def set_node_desired_q_def
  set_node_poll_interval_def set_node_poll_interval_q_def rename_node_def rename_node_q_def
  set_node_bundle_dir_def set_node_bundle_dir_q_def delete_node_def delete_node_q_def
  create_pending_node_def register_node_def register_node_q_def
  activate_pending_node_def activate_pending_node_q_def
  create_node_enrollment_token_def create_node_enrollment_token_q_def
  create_enrollment_token_def create_enrollment_token_q_def
  consume_enrollment_token_def mark_enrollment_token_used_q_def

section \<open>Steps\<close>

text \<open>
  Three operations are steps only under what their callers in the handlers have made sure of, which the store does not check: a
  desired revision is one of the Secret Bundle (\<open>Advance\<close>: the handlers pass the revision they have just made), a Secret is created
  in an Environment of its Application (\<open>NewSecret\<close>: the handler has read the Environment of that Application), and the two orders in
  which a Draft update ranges over its map have the same entries, with distinct keys (\<open>Select\<close>). That the handlers do make sure of it
  is part of the invariant of the server (\<open>core_well_formed\<close> of Startup).
\<close>

inductive fleet_step :: "db \<Rightarrow> db \<Rightarrow> bool" where
  NewGroup: "create_node_group i name ts d = Inr d' \<Longrightarrow> fleet_step d d'"
| DropGroup: "delete_node_group g d = Inr d' \<Longrightarrow> fleet_step d d'"
| Join: "add_group_member g n d = Inr d' \<Longrightarrow> fleet_step d d'"
| Leave: "remove_group_member g n d = Inr d' \<Longrightarrow> fleet_step d d'"
| Assign: "create_assignment i g app env ts d = Inr (v, d') \<Longrightarrow> fleet_step d d'"
| Advance: "revision_in d rid app env \<Longrightarrow> advance_desired_revision app env rid d = Inr d' \<Longrightarrow> fleet_step d d'"
| Unassign: "unassign i ts d = Inr (tasks, d') \<Longrightarrow> fleet_step d d'"
| Report: "report_cleanup_task i n result err ts d = Inr d' \<Longrightarrow> fleet_step d d'"
| Abandon: "abandon_cleanup_confirmation i ts d = Inr d' \<Longrightarrow> fleet_step d d'"
| Converge: "record_convergence c ts d = Inr d' \<Longrightarrow> fleet_step d d'"
| Touch: "touch_node i ob res at d = Inr d' \<Longrightarrow> fleet_step d d'"
| SetDesired: "set_node_desired i etag d = Inr d' \<Longrightarrow> fleet_step d d'"
| SetPoll: "set_node_poll_interval i secs d = Inr d' \<Longrightarrow> fleet_step d d'"
| Rename: "rename_node i name d = Inr d' \<Longrightarrow> fleet_step d d'"
| SetDir: "set_node_bundle_dir i dir d = Inr d' \<Longrightarrow> fleet_step d d'"
| DropNode: "delete_node i d = Inr d' \<Longrightarrow> fleet_step d d'"
| Reserve: "create_pending_node i name dir now ts d = Inr d' \<Longrightarrow> fleet_step d d'"
| Register: "register_node i name serial age cert expires ts d = Inr d' \<Longrightarrow> fleet_step d d'"
| Activate: "activate_pending_node i serial age cert expires d = Inr d' \<Longrightarrow> fleet_step d d'"
| NewToken: "create_node_enrollment_token hash name node expires ts d = Inr d' \<Longrightarrow> fleet_step d d'"
| UseToken: "consume_enrollment_token hash now d = Inr (t, d') \<Longrightarrow> fleet_step d d'"

inductive bundle_step :: "db \<Rightarrow> db \<Rightarrow> bool" where
  NewApp: "create_application i name ts d = Inr d' \<Longrightarrow> bundle_step d d'"
| DropApp: "delete_application i d = Inr d' \<Longrightarrow> bundle_step d d'"
| NewEnv: "create_environment i app name ts d = Inr d' \<Longrightarrow> bundle_step d d'"
| DropEnv: "delete_environment env app d = Inr d' \<Longrightarrow> bundle_step d d'"
| NewSecret: "env_in d env app \<Longrightarrow>
    create_secret_with_value fresh sid vid app env name w n c d = Inr d' \<Longrightarrow> bundle_step d d'"
| DropSecret: "delete_secret sid d = Inr d' \<Longrightarrow> bundle_step d d'"
| NewVersion: "add_secret_version vid sid w n c d = Inr (seq, v, d') \<Longrightarrow> bundle_step d d'"
| Bind: "update_binding sid path uid gid mode d = Inr (v, d') \<Longrightarrow> bundle_step d d'"
| Select: "set writes = set checks \<Longrightarrow> distinct (map fst writes) \<Longrightarrow>
    update_draft_selections app env expected checks writes d = Inr (v, d') \<Longrightarrow> bundle_step d d'"
| Publish: "publish rid app env actor reason ts now d = Inr (v, d') \<Longrightarrow> bundle_step d d'"
| Rollback: "rollback rid app env source actor reason ts now d = Inr (v, d') \<Longrightarrow> bundle_step d d'"
| Policy: "save_activation_policy p d = Inr d' \<Longrightarrow> bundle_step d d'"

definition core_step :: "db \<Rightarrow> db \<Rightarrow> bool" where
  "core_step d d' \<longleftrightarrow> bundle_step d d' \<or> fleet_step d d'"

lemma fleet_step_same: "fleet_step d d' \<Longrightarrow> same_bundle_tables d d'"
  by (induction rule: fleet_step.induct)
    (auto simp: same_bundle_tables_def fleet_op_defs Let_def split: if_splits option.splits)

lemma fleet_step_ok: "fleet_step d d' \<Longrightarrow> fleet_ok d \<Longrightarrow> fleet_ok d'"
  by (induction rule: fleet_step.induct)
    (auto intro: create_node_group_ok delete_node_group_ok add_group_member_ok remove_group_member_ok
      create_assignment_ok advance_desired_revision_ok unassign_ok report_cleanup_task_ok
      abandon_cleanup_confirmation_ok record_convergence_ok touch_node_ok set_node_desired_ok
      set_node_poll_interval_ok rename_node_ok set_node_bundle_dir_ok delete_node_ok register_node_q_ok
      activate_pending_node_ok create_node_enrollment_token_ok consume_enrollment_token_ok
      simp: create_pending_node_def register_node_def)

text \<open>Saving an Activation Policy changes only the two tables of the policies.\<close>

lemma insert_units_Inr: "insert_units env pos us d = Inr d' \<Longrightarrow> \<exists>x. d' = d\<lparr>t_units := x\<rparr>"
proof (induction us arbitrary: pos d)
  case Nil
  then show ?case by (intro exI [of _ "t_units d"]) simp
next
  case (Cons u us)
  then obtain d1 where d1: "insert_policy_unit_q env pos u d = Inr d1" and rest: "insert_units env (pos + 1) us d1 = Inr d'"
    by auto
  from d1 obtain y where "d1 = d\<lparr>t_units := y\<rparr>" by (auto simp: insert_policy_unit_q_def split: if_splits)
  with Cons.IH [OF rest] show ?case by auto
qed

lemma save_activation_policy_Inr:
  assumes "save_activation_policy p d = Inr d'"
  obtains ps us where "d' = d\<lparr>t_policies := ps, t_units := us\<rparr>"
proof -
  from assms obtain d1 where d1: "upsert_activation_policy_q (pol_env p) (pol_action p) d = Inr d1"
    and d': "insert_units (pol_env p) 1 (pol_units p) (delete_policy_units_q (pol_env p) d1) = Inr d'"
    by (auto simp: save_activation_policy_def)
  from d1 obtain ps where ps: "d1 = d\<lparr>t_policies := ps\<rparr>"
  proof (cases "exists_row (\<lambda>r. po_env r = pol_env p) (t_policies d)")
    case True
    with d1 show ?thesis
      by (intro that) (auto simp: upsert_activation_policy_q_def split: if_splits)
  next
    case False
    with d1 show ?thesis
      by (intro that) (auto simp: upsert_activation_policy_q_def split: if_splits)
  qed
  from insert_units_Inr [OF d'] obtain us where "d' = (delete_policy_units_q (pol_env p) d1)\<lparr>t_units := us\<rparr>" by blast
  then show thesis by (intro that) (simp add: delete_policy_units_q_def ps)
qed

lemma bundle_step_ok: "bundle_step d d' \<Longrightarrow> bundle_ok d \<Longrightarrow> bundle_ok d'"
proof (induction rule: bundle_step.induct)
  case (Policy p d d')
  from Policy(1) have "same_bundle_tables d d'"
    by (rule save_activation_policy_Inr) (simp add: same_bundle_tables_def)
  with Policy(2) show ?case by (rule same_tables_ok [rotated])
qed (auto intro: create_application_ok create_environment_ok delete_application_ok delete_environment_ok
    create_secret_with_value_ok delete_secret_ok add_secret_version_ok update_binding_ok
    update_draft_selections_ok publish_ok rollback_ok)

section \<open>Cascades keep the fleet well-formed\<close>

lemma drop_assignments_fleet: "fleet_ok d \<Longrightarrow> fleet_ok (drop_assignments p d)"
  by (erule fleet_ok_filtered [where kn = "\<lambda>_. True" and kg = "\<lambda>_. True" and km = "\<lambda>_. True" and ke = "\<lambda>_. True"
        and kr = "\<lambda>_. True" and ka = "\<lambda>a. \<not> p a" and kt = "\<lambda>t. ut_asg t \<notin> as_id ` {a \<in> set (t_assignments d). p a}"])
    (auto simp: del_def intro: rev_image_eqI)

lemma drop_revisions_fleet:
  assumes ok: "fleet_ok d"
  shows "fleet_ok (drop_revisions p d)"
proof -
  let ?R = "br_id ` {r \<in> set (t_revisions d). p r}"
  have "t_tasks (drop_revisions p d) = filter (\<lambda>t. ut_asg t \<notin> as_id ` {a \<in> set (t_assignments d). as_rev a \<in> ?R}) (t_tasks d)"
    by (simp add: drop_revisions_def Let_def del_def)
  then show ?thesis
    by (rule fleet_ok_filtered [OF ok, where kn = "\<lambda>_. True" and kg = "\<lambda>_. True" and km = "\<lambda>_. True" and ke = "\<lambda>_. True"
          and kr = "\<lambda>r. \<not> p r" and ka = "\<lambda>a. as_rev a \<notin> ?R", rotated 5])
      (auto simp: del_def intro: rev_image_eqI)
qed

lemma fleet_ok_same:
  assumes "fleet_ok d" "t_nodes d' = t_nodes d" "t_groups d' = t_groups d" "t_members d' = t_members d"
    "t_assignments d' = t_assignments d" "t_tokens d' = t_tokens d" "t_tasks d' = t_tasks d" "t_revisions d' = t_revisions d"
  shows "fleet_ok d'"
  by (rule fleet_ok_bundle_change [OF assms(1-7)]) (simp add: assms(8))

lemma drop_secrets_fleet: "fleet_ok d \<Longrightarrow> fleet_ok (drop_secrets p d)"
  by (erule fleet_ok_same) simp_all

lemma drop_drafts_fleet: "fleet_ok d \<Longrightarrow> fleet_ok (drop_drafts p d)"
  by (erule fleet_ok_same) simp_all

lemma drop_convergence_fleet: "fleet_ok d \<Longrightarrow> fleet_ok (drop_convergence p d)"
  by (erule fleet_ok_same) simp_all

lemma drop_environments_fleet: "fleet_ok d \<Longrightarrow> fleet_ok (drop_environments p d)"
  unfolding drop_environments_def Let_def
  by (intro drop_convergence_fleet drop_revisions_fleet drop_drafts_fleet drop_secrets_fleet)
    (erule fleet_ok_same, simp_all)

lemma drop_applications_fleet: "fleet_ok d \<Longrightarrow> fleet_ok (drop_applications p d)"
  unfolding drop_applications_def Let_def
  by (intro drop_convergence_fleet drop_revisions_fleet drop_drafts_fleet drop_secrets_fleet
      drop_environments_fleet) (erule fleet_ok_same, simp_all)

lemma delete_files_fleet:
  "fleet_ok d \<Longrightarrow> fleet_ok (delete_files_for_application_q app d)"
  "fleet_ok d \<Longrightarrow> fleet_ok (delete_files_for_environment_q app env d)"
  "fleet_ok d \<Longrightarrow> fleet_ok (delete_files_for_secret_q sid d)"
  by (erule fleet_ok_same,
      simp_all add: delete_files_for_application_q_def delete_files_for_environment_q_def delete_files_for_secret_q_def)+

text \<open>The operations of the Secret Bundle domain that delete nothing leave the fleet tables alone.\<close>

definition fleet_same :: "db \<Rightarrow> db \<Rightarrow> bool" where
  "fleet_same d d' \<longleftrightarrow> t_nodes d' = t_nodes d \<and> t_groups d' = t_groups d \<and> t_members d' = t_members d \<and>
     t_assignments d' = t_assignments d \<and> t_tokens d' = t_tokens d \<and> t_tasks d' = t_tasks d \<and>
     t_convergence d' = t_convergence d \<and> t_audit d' = t_audit d \<and> audit_seq d' = audit_seq d \<and>
     set (t_revisions d) \<subseteq> set (t_revisions d')"

lemma fleet_same_ok: "fleet_same d d' \<Longrightarrow> fleet_ok d \<Longrightarrow> fleet_ok d'"
  unfolding fleet_same_def by (elim conjE) (rule fleet_ok_bundle_change)

lemma bump_draft_fleet: "bump_draft app env d = Inr (n, d') \<Longrightarrow> fleet_same d d'"
  by (auto simp: bump_draft_def bump_draft_tx_def bump_draft_q_def fleet_same_def)

lemma fleet_same_trans: "fleet_same d d' \<Longrightarrow> fleet_same d' d'' \<Longrightarrow> fleet_same d d''"
  by (auto simp: fleet_same_def)

lemma insert_draft_fleet: "insert_draft_q fresh app env d = Inr d' \<Longrightarrow> fleet_same d d'"
  by (auto simp: insert_draft_q_def fleet_same_def split: if_splits)

lemma upsert_selection_fleet: "upsert_selection_q i sid seq d = Inr d' \<Longrightarrow> fleet_same d d'"
  by (auto simp: upsert_selection_q_def fleet_same_def split: if_splits)

lemma fleet_same_refl: "fleet_same d d"
  by (simp add: fleet_same_def)

lemma upsert_all_fleet: "upsert_all i xs d = Inr d' \<Longrightarrow> fleet_same d d'"
  by (induction i xs d rule: upsert_all.induct)
    (auto intro: fleet_same_refl fleet_same_trans dest: upsert_selection_fleet)

lemma upsert_selections_for_fleet: "upsert_selections_for rs sid d = Inr d' \<Longrightarrow> fleet_same d d'"
  by (induction rs sid d rule: upsert_selections_for.induct)
    (auto intro: fleet_same_refl fleet_same_trans dest: upsert_selection_fleet)

lemma create_secret_fleet:
  assumes "create_secret_with_value fresh sid vid app env name w n c d = Inr d'"
  shows "fleet_same d d'"
proof -
  from assms obtain d1 d2 d3 d4 m d5 where
    "insert_secret_q sid app env name d = Inr d1" "insert_version_first_q vid sid w n c d1 = Inr d2"
    "insert_default_binding_q sid name d2 = Inr d3" and d4: "insert_draft_q fresh app env d3 = Inr d4"
    and d5: "bump_draft app env d4 = Inr (m, d5)" and fin: "insert_selection_for_new_secret_q sid app env d5 = Inr d'"
    by (auto simp: create_secret_with_value_def ensure_draft_and_bump_def)
  then have "fleet_same d d3"
    by (auto simp: insert_secret_q_def insert_version_first_q_def insert_version_q_def insert_default_binding_q_def
        fleet_same_def split: if_splits)
  with insert_draft_fleet [OF d4] bump_draft_fleet [OF d5] show ?thesis
    using fin unfolding insert_selection_for_new_secret_q_def
    by (blast intro: fleet_same_trans dest: upsert_selections_for_fleet)
qed

lemma new_revision_fleet:
  assumes "insert_revision_q rid app env dv actor reason ts d = Inr d1" "insert_files fs d1 = Inr d2"
  shows "fleet_same d d2"
  using assms by (auto simp: insert_revision_q_def insert_files_def fleet_same_def split: if_splits)

text \<open>A step of the Secret Bundle domain leaves the fleet tables alone, or is one of the three deletions.\<close>

definition bundle_deletion :: "db \<Rightarrow> db \<Rightarrow> bool" where
  "bundle_deletion d d' \<longleftrightarrow> (\<exists>i. delete_application i d = Inr d') \<or>
     (\<exists>env app. delete_environment env app d = Inr d') \<or> (\<exists>sid. delete_secret sid d = Inr d')"

lemma bundle_step_cases_fleet:
  "bundle_step d d' \<Longrightarrow> bundle_ok d \<Longrightarrow> fleet_same d d' \<or> bundle_deletion d d'"
proof (induction rule: bundle_step.induct)
  case (NewApp i name ts d d')
  then have "fleet_same d d'"
    by (auto simp: create_application_def create_application_q_def fleet_same_def split: if_splits)
  with NewApp show ?case by blast
next
  case (NewEnv i app name ts d d')
  then have "fleet_same d d'"
    by (auto simp: create_environment_def create_environment_q_def fleet_same_def split: if_splits)
  with NewEnv show ?case by blast
next
  case (NewSecret d env app fresh sid vid name w n c d')
  then show ?case by (blast dest: create_secret_fleet)
next
  case (NewVersion vid sid w n c d seq v d')
  then obtain app env d1 where
    1: "insert_version_next_q vid sid w n c d = Inr (seq, d1)"
    and 2: "bump_draft app env (update_selection_version_q seq app env sid d1) = Inr (v, d')"
    by (auto simp: add_secret_version_def)
  have "fleet_same d (update_selection_version_q seq app env sid d1)"
    using insert_version_next_Inr(2) [OF 1] by (simp add: update_selection_version_q_def fleet_same_def)
  with NewVersion bump_draft_fleet [OF 2] show ?case by (blast intro: fleet_same_trans)
next
  case (Bind sid path uid gid mode d v d')
  then obtain app env where "bump_draft app env (update_file_binding_q sid path uid gid mode d) = Inr (v, d')"
    by (auto simp: update_binding_def)
  from bump_draft_fleet [OF this] have "fleet_same d d'" by (simp add: fleet_same_def update_file_binding_q_def)
  with Bind show ?case by blast
next
  case (Select writes checks app env expected d v d')
  from Select(3) bundle_okD(1) [OF Select(4)] have "fleet_same d d'"
    by (rule update_draft_selections_Inr) (use upsert_all_fleet in \<open>auto simp: fleet_same_def\<close>)
  with Select show ?case by blast
next
  case (Publish rid app env actor reason ts now d v d')
  from Publish(1) have "fleet_same d d'"
    by (rule publish_Inr) (rule new_revision_fleet)
  with Publish show ?case by blast
next
  case (Rollback rid app env source actor reason ts now d v d')
  from Rollback(1) have "fleet_same d d'"
    by (rule rollback_Inr) (rule new_revision_fleet)
  with Rollback show ?case by blast
next
  case (Policy p d d')
  from Policy(1) have "fleet_same d d'"
    by (rule save_activation_policy_Inr) (simp add: fleet_same_def)
  with Policy show ?case by blast
qed (auto simp: bundle_deletion_def)

text \<open>What a cascade of the Secret Bundle domain does to the fleet tables.\<close>

definition fleet_shrinks :: "db \<Rightarrow> db \<Rightarrow> bool" where
  "fleet_shrinks d d' \<longleftrightarrow> set (t_tasks d') \<subseteq> set (t_tasks d) \<and>
     set (t_assignments d') \<subseteq> set (t_assignments d) \<and> t_members d' = t_members d \<and>
     set (t_convergence d') \<subseteq> set (t_convergence d) \<and> t_nodes d' = t_nodes d \<and>
     t_groups d' = t_groups d \<and> t_tokens d' = t_tokens d"

lemma fleet_shrinks_trans: "fleet_shrinks d d1 \<Longrightarrow> fleet_shrinks d1 d2 \<Longrightarrow> fleet_shrinks d d2"
  by (auto simp: fleet_shrinks_def)

lemma drops_shrink:
  "fleet_shrinks d (drop_revisions p1 d)" "fleet_shrinks d (drop_secrets p2 d)"
  "fleet_shrinks d (drop_drafts p3 d)" "fleet_shrinks d (drop_convergence p4 d)"
  by (auto simp: fleet_shrinks_def drop_revisions_def drop_convergence_def drop_assignments_def Let_def del_def)

lemma drop_environments_shrink: "fleet_shrinks d (drop_environments p d)"
  unfolding drop_environments_def Let_def
  by (intro fleet_shrinks_trans [OF _ drops_shrink(1)] fleet_shrinks_trans [OF _ drops_shrink(2)]
      fleet_shrinks_trans [OF _ drops_shrink(3)] fleet_shrinks_trans [OF _ drops_shrink(4)])
    (simp add: fleet_shrinks_def)

lemma drop_applications_shrink: "fleet_shrinks d (drop_applications p d)"
  unfolding drop_applications_def Let_def
  by (intro fleet_shrinks_trans [OF _ drops_shrink(1)] fleet_shrinks_trans [OF _ drops_shrink(2)]
      fleet_shrinks_trans [OF _ drops_shrink(3)] fleet_shrinks_trans [OF _ drops_shrink(4)]
      fleet_shrinks_trans [OF _ drop_environments_shrink]) (simp add: fleet_shrinks_def)

lemma bundle_deletion_fleet:
  assumes "bundle_deletion d d'" "bundle_ok d"
  shows "fleet_ok d \<Longrightarrow> fleet_ok d'" "fleet_shrinks d d'"
proof -
  have keys: "keys_ok d" using assms(2) by (rule bundle_okD)
  have files: "fleet_shrinks d (delete_files_for_application_q app d)"
    "fleet_shrinks d (delete_files_for_environment_q app env d)"
    "fleet_shrinks d (delete_files_for_secret_q sid d)" for app env sid
    by (simp_all add: fleet_shrinks_def delete_files_for_application_q_def delete_files_for_environment_q_def
        delete_files_for_secret_q_def)
  from assms(1) consider i where "delete_application i d = Inr d'"
    | env app where "delete_environment env app d = Inr d'" | sid where "delete_secret sid d = Inr d'"
    unfolding bundle_deletion_def by blast
  then have "(fleet_ok d \<longrightarrow> fleet_ok d') \<and> fleet_shrinks d d'"
  proof cases
    case 1
    show ?thesis
      unfolding delete_application_Inr(1) [OF 1 keys]
      by (intro conjI impI drop_applications_fleet delete_files_fleet
          fleet_shrinks_trans [OF files(1) drop_applications_shrink])
  next
    case 2
    show ?thesis
      unfolding delete_environment_Inr(1) [OF 2 keys]
      by (intro conjI impI drop_environments_fleet delete_files_fleet
          fleet_shrinks_trans [OF files(2) drop_environments_shrink])
  next
    case 3
    show ?thesis
      unfolding delete_secret_Inr(1) [OF 3 keys]
      by (intro conjI impI drop_secrets_fleet delete_files_fleet fleet_shrinks_trans [OF files(3) drops_shrink(2)])
  qed
  then show "fleet_ok d \<Longrightarrow> fleet_ok d'" "fleet_shrinks d d'" by simp_all
qed

lemma bundle_step_fleet: "bundle_step d d' \<Longrightarrow> fleet_ok d \<Longrightarrow> bundle_ok d \<Longrightarrow> fleet_ok d'"
  using bundle_step_cases_fleet bundle_deletion_fleet(1) fleet_same_ok by blast

lemma bundle_step_shrinks:
  assumes "bundle_step d d'" "bundle_ok d"
  shows "fleet_shrinks d d'"
  using bundle_step_cases_fleet [OF assms] bundle_deletion_fleet(2) [OF _ assms(2)]
  by (auto simp: fleet_same_def fleet_shrinks_def)

section \<open>Every reachable database is well-formed\<close>

text \<open>No step of the two domains touches the audit log.\<close>

lemma drops_audit:
  "t_audit (drop_environments p d) = t_audit d" "audit_seq (drop_environments p d) = audit_seq d"
  "t_audit (drop_applications q d) = t_audit d" "audit_seq (drop_applications q d) = audit_seq d"
  by (simp_all add: drop_environments_def drop_applications_def Let_def)

lemma bundle_deletion_audit: "bundle_deletion d d' \<Longrightarrow> t_audit d' = t_audit d \<and> audit_seq d' = audit_seq d"
  by (auto simp: bundle_deletion_def delete_application_def delete_environment_def delete_secret_def
      delete_application_by_id_q_def delete_environment_by_id_q_def delete_secret_by_id_q_def drops_audit
      delete_files_for_application_q_def delete_files_for_environment_q_def delete_files_for_secret_q_def Let_def split: if_splits)

lemma core_step_audit:
  assumes "core_step d d'" "bundle_ok d"
  shows "t_audit d' = t_audit d \<and> audit_seq d' = audit_seq d"
  using assms unfolding core_step_def
proof (elim disjE)
  assume "bundle_step d d'"
  from bundle_step_cases_fleet [OF this assms(2)] show ?thesis
    by (auto simp: fleet_same_def dest: bundle_deletion_audit)
next
  assume "fleet_step d d'"
  then show ?thesis
    by (induction rule: fleet_step.induct) (auto simp: fleet_op_defs Let_def drop_nodes_def drop_groups_def split: if_splits option.splits)
qed

interpretation core: step_system "\<lambda>d. d = empty_db" core_step "\<lambda>d. bundle_ok d \<and> fleet_ok d"
proof
  show "bundle_ok d \<and> fleet_ok d" if "d = empty_db" for d
    by (simp add: that bundle_ok_empty fleet_ok_empty)
  show "bundle_ok d' \<and> fleet_ok d'" if "bundle_ok d \<and> fleet_ok d" "core_step d d'" for d d'
    using that unfolding core_step_def
    by (blast intro: bundle_step_ok bundle_step_fleet fleet_step_ok same_tables_ok fleet_step_same)
qed

lemma demo_reachable: "core_step\<^sup>*\<^sup>* empty_db demo_assigned" "core_step\<^sup>*\<^sup>* empty_db demo_removing"
proof -
  let ?a = "empty_db\<lparr>t_apps := [\<lparr>ap_id = ''app'', ap_name = ''shop'', ap_created = 1\<rparr>]\<rparr>"
  let ?g = "demo_published\<lparr>t_groups := t_groups demo_fleet\<rparr>"
  have env: "env_in demo_env ''env'' ''app''" by (simp add: env_in_def demo_env_def)
  have "core_step empty_db ?a" "core_step ?a demo_env"
    unfolding core_step_def using demo_run(1,2) by (blast intro: bundle_step.intros)+
  moreover have "core_step demo_env demo_secret" "core_step demo_secret demo_published"
    unfolding core_step_def using demo_run(3,4) env by (blast intro: bundle_step.intros)+
  moreover have "core_step demo_published ?g" "core_step ?g (demo_fleet\<lparr>t_members := []\<rparr>)"
    "core_step (demo_fleet\<lparr>t_members := []\<rparr>) demo_fleet" "core_step demo_fleet demo_assigned"
    "core_step demo_assigned demo_removing"
    unfolding core_step_def using demo_run_fleet by (blast intro: fleet_step.intros)+
  ultimately show "core_step\<^sup>*\<^sup>* empty_db demo_assigned" "core_step\<^sup>*\<^sup>* empty_db demo_removing"
    by (meson converse_rtranclp_into_rtranclp rtranclp.rtrancl_refl)+
qed

text \<open>C2: whatever sequence of operations of the Secret Bundle and the fleet stores has run, called as the handlers call them, the
  database is well-formed: the foreign keys hold with the owner each row should have, every Secret has its File
  Binding, its Draft and gapless versions, and no Managed Node receives a Secret Bundle from two active
  Assignments. Called as the handlers call them means: a Secret is created only in an Environment of its Application, a desired
  revision advances only to a revision of the Secret Bundle, and a Draft update has one entry per Secret; the store checks none of the three.\<close>

theorem reachable_well_formed:
  assumes "core_step\<^sup>*\<^sup>* empty_db d"
  shows "bundle_ok d \<and> fleet_ok d"
  by (rule core.reachable_inv [OF refl assms])

theorem reachable_well_formed_witness: "bundle_ok demo_removing \<and> fleet_ok demo_removing"
  by (rule reachable_well_formed [OF demo_reachable(2)])

text \<open>The condition on the creation of a Secret is needed: the store takes an Environment of another Application.\<close>

lemma foreign_environment:
  "\<exists>d'. create_secret_with_value ''draft'' ''sec'' ''v1'' ''other'' ''env'' ''key'' ''w'' ''n'' ''c''
       (demo_env\<lparr>t_apps := t_apps demo_env @ [\<lparr>ap_id = ''other'', ap_name = ''bank'', ap_created = 1\<rparr>]\<rparr>) = Inr d' \<and>
     \<not> owners_ok d'"
proof -
  let ?d = "demo_env\<lparr>t_apps := t_apps demo_env @ [\<lparr>ap_id = ''other'', ap_name = ''bank'', ap_created = 1\<rparr>]\<rparr>"
  let ?run = "create_secret_with_value ''draft'' ''sec'' ''v1'' ''other'' ''env'' ''key'' ''w'' ''n'' ''c'' ?d"
  have "case ?run of Inl e \<Rightarrow> False | Inr d' \<Rightarrow> (\<exists>s \<in> set (t_secrets d'). sc_app s = ''other'' \<and> sc_env s = ''env'') \<and>
      \<not> (\<exists>e \<in> set (t_envs d'). en_id e = ''env'' \<and> en_app e = ''other'')"
    by code_simp
  then obtain d' s where "?run = Inr d'" "s \<in> set (t_secrets d')" "sc_app s = ''other''" "sc_env s = ''env''"
    "\<not> (\<exists>e \<in> set (t_envs d'). en_id e = ''env'' \<and> en_app e = ''other'')"
    by (auto split: sum.splits)
  then have "\<not> owners_ok d'" unfolding owners_ok_def env_in_def by metis
  with \<open>?run = Inr d'\<close> show ?thesis by blast
qed

section \<open>Bundle Revisions do not change\<close>

lemma file_secret_exists:
  assumes "contents_ok d" "f \<in> set (files_of rid d)"
  shows "rf_secret f \<in> sc_id ` set (t_secrets d)"
proof -
  from assms obtain s where "s \<in> set (t_secrets d)" "sc_id s = rf_secret f"
    by (fastforce simp: files_of_def contents_ok_def secret_in_def)
  then show ?thesis by (metis image_eqI)
qed

lemma frozenI:
  assumes "contents_ok d'" "files_of rid d' = files_of rid d"
  shows "files_of rid d' = filter (\<lambda>f. rf_secret f \<in> sc_id ` set (t_secrets d')) (files_of rid d)"
  unfolding assms(2) [symmetric] using file_secret_exists [OF assms(1)]
  by (metis (mono_tags, lifting) filter_True)

lemma files_of_same: "t_files d' = t_files d \<Longrightarrow> files_of rid d' = files_of rid d"
  by (simp add: files_of_def)

lemma dropped_files:
  assumes "t_files d' = filter (\<lambda>f. rf_rev f \<notin> br_id ` {r \<in> set (t_revisions d). p r}) (t_files d)"
    and "t_revisions d' = filter (\<lambda>r. \<not> p r) (t_revisions d)" "keys_ok d" "rid \<in> br_id ` set (t_revisions d')"
  shows "files_of rid d' = files_of rid d"
proof -
  from assms(4) obtain r where r: "r \<in> set (t_revisions d)" "\<not> p r" "br_id r = rid" by (auto simp: assms(2))
  have "rid \<notin> br_id ` {r \<in> set (t_revisions d). p r}"
    using r assms(3) by (auto simp: keys_ok_def dest: distinct_key_eq)
  then show ?thesis unfolding files_of_def assms(1) by (auto intro: filter_cong)
qed

lemma bundle_step_frozen:
  assumes "bundle_step d d'" "bundle_ok d"
    and "rid \<in> br_id ` set (t_revisions d)" "rid \<in> br_id ` set (t_revisions d')"
  shows "files_of rid d' = filter (\<lambda>f. rf_secret f \<in> sc_id ` set (t_secrets d')) (files_of rid d)"
proof -
  have ok': "contents_ok d'" using bundle_step_ok [OF assms(1,2)] by (rule bundle_okD)
  have keys: "keys_ok d" and owners: "owners_ok d" using assms(2) by (rule bundle_okD)+
  from assms(1) show ?thesis
  proof cases
    case (DropSecret sid)
    note del = delete_secret_Inr [OF DropSecret(1) keys]
    have "files_of rid d' = filter (\<lambda>f. rf_secret f \<noteq> sid) (files_of rid d)"
      by (simp add: del(1) delete_files_for_secret_q_def files_of_def del_def conj_commute)
    moreover have "rf_secret f \<noteq> sid \<longleftrightarrow> rf_secret f \<in> sc_id ` set (t_secrets d')" if "f \<in> set (files_of rid d)" for f
      using file_secret_exists [OF bundle_okD(3) [OF assms(2)] that]
      by (auto simp: del(1) delete_files_for_secret_q_def)
    then have "filter (\<lambda>f. rf_secret f \<noteq> sid) (files_of rid d) =
        filter (\<lambda>f. rf_secret f \<in> sc_id ` set (t_secrets d')) (files_of rid d)"
      by (rule filter_cong [OF refl])
    ultimately show ?thesis by simp
  next
    case (DropEnv env app)
    note tables = delete_environment_tables [OF delete_environment_Inr(1,2) [OF DropEnv(1) keys]]
    show ?thesis
      by (rule frozenI [OF ok' dropped_files [where p = "\<lambda>r. br_env r = env"]])
        (use tables(8,9) keys assms(4) in \<open>auto intro!: filter_cong simp: tables(8,9)\<close>)
  next
    case (DropApp app)
    note tables = delete_application_tables_ok [OF delete_application_Inr(1,2) [OF DropApp(1) keys] keys owners]
    show ?thesis
      by (rule frozenI [OF ok' dropped_files [OF tables(9,8) keys assms(4)]])
  next
    case (Publish r app env actor reason ts now v)
    from Publish(1) assms(2) show ?thesis
    proof (rule publish_content)
      assume "\<And>rid'. rid' \<noteq> r \<Longrightarrow> files_of rid' d' = files_of rid' d" "\<forall>x \<in> set (t_revisions d). br_id x \<noteq> r"
      with assms(3) show ?thesis by (intro frozenI [OF ok']) auto
    qed
  next
    case (Rollback r app env source actor reason ts now v)
    from Rollback(1) assms(2) show ?thesis
    proof (rule rollback_content)
      assume "\<And>rid'. rid' \<noteq> r \<Longrightarrow> files_of rid' d' = files_of rid' d" "\<forall>x \<in> set (t_revisions d). br_id x \<noteq> r"
      with assms(3) show ?thesis by (intro frozenI [OF ok']) auto
    qed
  next
    case (NewVersion vid sid w n c seq v)
    from add_secret_version_value(4) [OF NewVersion(1) assms(2)] show ?thesis
      by (intro frozenI [OF ok'] files_of_same)
  next
    case (NewSecret env app fresh sid vid name w n c)
    have "t_files d' = t_files d"
      by (rule create_secret_Inr [OF NewSecret(2) bundle_okD(1-3) [OF assms(2)]]) (simp add: with_new_secret_def)
    then show ?thesis by (intro frozenI [OF ok'] files_of_same)
  next
    case (NewApp i name ts)
    then have "t_files d' = t_files d"
      by (auto simp: create_application_def create_application_q_def split: if_splits)
    then show ?thesis by (intro frozenI [OF ok'] files_of_same)
  next
    case (NewEnv i app name ts)
    then have "t_files d' = t_files d"
      by (auto simp: create_environment_def create_environment_q_def split: if_splits)
    then show ?thesis by (intro frozenI [OF ok'] files_of_same)
  next
    case (Bind sid path uid gid mode v)
    then have "t_files d' = t_files d"
      by (auto simp: update_binding_def bump_draft_def bump_draft_tx_def bump_draft_q_def update_file_binding_q_def)
    then show ?thesis by (intro frozenI [OF ok'] files_of_same)
  next
    case (Select writes checks app env expected v)
    from Select(3) keys have "t_files d' = t_files d"
    proof (rule update_draft_selections_Inr)
      fix r d1
      assume up: "upsert_all (dr_id r) writes d = Inr d1"
        and d': "d' = d1\<lparr>t_drafts := upd (\<lambda>x. dr_id x = dr_id r) (\<lambda>x. x\<lparr>dr_version := dr_version x + 1\<rparr>) (t_drafts d1)\<rparr>"
      have "t_files d1 = t_files d" by (subst upsert_all_Inr(1) [OF up Select(2)]) simp
      then show ?thesis by (simp add: d')
    qed
    then show ?thesis by (intro frozenI [OF ok'] files_of_same)
  next
    case (Policy p)
    then have "t_files d' = t_files d" by (rule save_activation_policy_Inr) simp
    then show ?thesis by (intro frozenI [OF ok'] files_of_same)
  qed
qed

text \<open>C3: a Bundle Revision is immutable. Whatever operation runs, a revision that is still there has the
  files it had, in their order and with every field unchanged, except those of a Secret that the
  operation deleted.\<close>

theorem revision_immutable:
  assumes "core_step\<^sup>*\<^sup>* empty_db d" "core_step d d'"
    and "rid \<in> br_id ` set (t_revisions d)" "rid \<in> br_id ` set (t_revisions d')"
  shows "files_of rid d' = filter (\<lambda>f. rf_secret f \<in> sc_id ` set (t_secrets d')) (files_of rid d)"
proof -
  have ok: "bundle_ok d" using core.reachable_inv [OF refl assms(1)] by blast
  from assms(2) show ?thesis
    unfolding core_step_def
  proof
    assume "bundle_step d d'"
    then show ?thesis by (rule bundle_step_frozen [OF _ ok assms(3,4)])
  next
    assume "fleet_step d d'"
    then have same: "same_bundle_tables d d'" by (rule fleet_step_same)
    then have "contents_ok d'" using same_tables_ok [OF _ ok] bundle_okD(3) by blast
    then show ?thesis using same by (intro frozenI files_of_same) (simp_all add: same_bundle_tables_def)
  qed
qed

theorem revision_immutable_witness:
  "files_of ''rev1'' demo_removing =
     filter (\<lambda>f. rf_secret f \<in> sc_id ` set (t_secrets demo_removing)) (files_of ''rev1'' demo_assigned)"
proof (rule revision_immutable [OF demo_reachable(1)])
  show "core_step demo_assigned demo_removing"
    unfolding core_step_def using demo_run_fleet(5) by (blast intro: fleet_step.intros)
qed (simp_all add: demo_defs)

end
