(* ===== verification/BundleProperties.thy ===== *)
theory BundleProperties
  imports CoreSystem
begin

text \<open>
  The properties of the Secret Bundle store on well-formed databases: the exact outcome of Publish,
  Rollback and the deletions, the Draft's optimistic lock, and the life of a Secret's value. Every
  reachable database is well-formed, so they hold throughout a run.
\<close>

lemma demo_ok: "bundle_ok demo_assigned" "fleet_ok demo_assigned" "bundle_ok demo_removing" "fleet_ok demo_removing"
  using core.reachable_inv [OF refl demo_reachable(1)] core.reachable_inv [OF refl demo_reachable(2)] by blast+

lemma demo_published_ok: "bundle_ok demo_published" "bundle_ok demo_secret" "fleet_ok demo_fleet" "bundle_ok demo_fleet"
proof -
  have "seqs_of ''sec'' demo_secret = [1..1]" by (simp add: seqs_of_def demo_defs)
  then have "total_ok demo_secret"
    unfolding total_ok_def by (intro ballI conjI exI [of _ 1]) (simp_all add: demo_defs)
  moreover have "keys_ok demo_secret" "owners_ok demo_secret" "contents_ok demo_secret"
    by (simp_all add: keys_ok_def parts_ok_defs lookup_defs demo_defs)
  ultimately show secret: "bundle_ok demo_secret" by (intro bundle_okI)
  show published: "bundle_ok demo_published" by (rule publish_ok [OF demo_run(4) secret])
  have pub: "fleet_ok demo_published"
    by (simp add: fleet_defs actives_def demo_defs)
  note group = create_node_group_ok [OF demo_run_fleet(1) pub]
  have "fleet_ok (demo_fleet\<lparr>t_members := []\<rparr>)"
    using register_node_q_ok [OF _ group] demo_run_fleet(2) by (auto simp: create_pending_node_def)
  then show "fleet_ok demo_fleet" by (rule add_group_member_ok [OF demo_run_fleet(3)])
  show "bundle_ok demo_fleet"
    by (rule bundle_ok_cong [OF published]) (simp_all add: demo_defs)
qed

section \<open>Publish and Rollback\<close>

text \<open>C7: on a well-formed database a successful Publish makes a new Bundle Revision that holds exactly one
  file for each selection of the Draft, at the selected version and with the Secret's File Binding; the
  count it reports is the number of those files, and no other revision's files change.\<close>

theorem publish_snapshot:
  assumes "bundle_ok d" "publish rid app env actor reason ts now d = Inr (v, d')"
  shows "(\<exists>r \<in> set (t_drafts d). dr_app r = app \<and> dr_env r = env \<and> rev_draft v = dr_version r \<and>
      (\<forall>f. f \<in> set (files_of rid d') \<longleftrightarrow>
        (\<exists>x \<in> set (t_selections d). \<exists>b \<in> set (t_bindings d). ds_draft x = dr_id r \<and> fb_secret b = ds_secret x \<and>
          f = \<lparr>rf_rev = rid, rf_secret = ds_secret x, rf_path = fb_path b, rf_uid = fb_uid b, rf_gid = fb_gid b,
                rf_mode = fb_mode b, rf_seq = ds_seq x\<rparr>)) \<and>
      map rf_secret (files_of rid d') = map ds_secret (filter (\<lambda>x. ds_draft x = dr_id r) (t_selections d))) \<and>
    rev_files v = length (files_of rid d') \<and> rev_files v \<noteq> 0 \<and>
    (\<forall>rid'. rid' \<noteq> rid \<longrightarrow> files_of rid' d' = files_of rid' d)"
    (is "?content \<and> ?count \<and> ?some \<and> ?others")
proof -
  from assms(2,1) obtain r where r: "r \<in> set (t_drafts d)" "dr_app r = app" "dr_env r = env"
    and f: "files_of rid d' = draft_files rid (dr_id r) d" and n: "rev_files v = length (files_of rid d')" "0 < rev_files v"
    and v: "rev_draft v = dr_version r" and other: "\<And>rid'. rid' \<noteq> rid \<Longrightarrow> files_of rid' d' = files_of rid' d"
    by (rule publish_content) (rule that, assumption+)
  have ?content
    using r v draft_files_secrets [OF assms(1), of rid "dr_id r"]
    by (intro bexI [of _ r]) (simp_all add: f draft_files_iff)
  moreover have ?others using other by blast
  ultimately show ?thesis using n by blast
qed

theorem publish_snapshot_witness:
  "map rf_secret (files_of ''rev1'' demo_published) = [''sec''] \<and>
   length (files_of ''rev1'' demo_published) = 1 \<and> files_of ''rev0'' demo_published = files_of ''rev0'' demo_secret"
  using publish_snapshot [OF demo_published_ok(2) demo_run(4)]
  by (simp add: demo_secret_def demo_env_def empty_db_def)

text \<open>C8: Publish never fails for another reason than these: without a Draft it answers not found, with an
  empty Draft it answers that there are no Secrets, and otherwise, with a fresh id, it succeeds.\<close>

theorem publish_total:
  assumes "bundle_ok d" "rid \<notin> br_id ` set (t_revisions d)"
  shows "(\<nexists>r. r \<in> set (t_drafts d) \<and> dr_app r = app \<and> dr_env r = env) \<and>
       publish rid app env actor reason ts now d = Inl ErrNotFound
    \<or> (\<exists>r \<in> set (t_drafts d). dr_app r = app \<and> dr_env r = env \<and> dr_id r \<notin> ds_draft ` set (t_selections d)) \<and>
       publish rid app env actor reason ts now d = Inl ErrNoSecrets
    \<or> (\<exists>r \<in> set (t_drafts d). dr_app r = app \<and> dr_env r = env \<and> dr_id r \<in> ds_draft ` set (t_selections d)) \<and>
       (\<exists>v d'. publish rid app env actor reason ts now d = Inr (v, d'))"
proof (cases "\<exists>r \<in> set (t_drafts d). dr_app r = app \<and> dr_env r = env")
  case True
  then obtain r where r: "r \<in> set (t_drafts d)" "dr_app r = app" "dr_env r = env" by blast
  show ?thesis
  proof (cases "dr_id r \<in> ds_draft ` set (t_selections d)")
    case True
    then obtain x where "x \<in> set (t_selections d)" "ds_draft x = dr_id r" by auto
    then have "\<exists>v d'. publish rid app env actor reason ts now d = Inr (v, d')"
      by (rule publish_succeeds [OF assms(1) r]) (use assms(2) in auto)
    then show ?thesis using r True by blast
  next
    case False
    then have "count_draft_selections_q (dr_id r) d = 0"
      by (auto simp: count_draft_selections_q_def intro: rev_image_eqI)
    then have "publish rid app env actor reason ts now d = Inl ErrNoSecrets"
      using select_draft_eq [OF bundle_okD(1) [OF assms(1)] r(1)] r(2,3) by (simp add: publish_def)
    then show ?thesis using r False by blast
  qed
next
  case False
  then have "select_draft_q app env d = Inl NoRows"
    by (auto simp: select_draft_q_def row_of_Inl)
  then have "publish rid app env actor reason ts now d = Inl ErrNotFound" by (simp add: publish_def)
  then show ?thesis using False by blast
qed

theorem publish_total_witness:
  "\<exists>v d'. publish ''rev2'' ''app'' ''env'' ''admin'' demo_reason 9 9 demo_assigned = Inr (v, d')"
proof -
  have "''rev2'' \<notin> br_id ` set (t_revisions demo_assigned)" by (simp add: demo_defs)
  from publish_total [OF demo_ok(1) this, of "''app''" "''env''" "''admin''" demo_reason 9 9]
  show ?thesis by (auto simp: demo_defs)
qed

text \<open>C9: Rollback makes a new Bundle Revision out of a source revision of the same Application and Environment: the table of the
  revisions gains one row, with the Draft version of the source, the caller and the reason, and the table of the files gains a
  copy of the files of the source under the new id. Nothing else of the database changes: the Draft, its
  selections and every other revision stay as they were.\<close>

theorem rollback_snapshot:
  assumes "bundle_ok d" "rollback rid app env source actor reason ts now d = Inr (v, d')"
  shows "\<exists>sr \<in> set (t_revisions d). br_id sr = source \<and> br_app sr = app \<and> br_env sr = env \<and>
    d' = d\<lparr>t_revisions := t_revisions d @ [\<lparr>br_id = rid, br_app = app, br_env = env, br_draft_version = br_draft_version sr,
        br_created = ts, br_by = actor, br_category = or_category reason, br_explanation = or_explanation reason,
        br_external = or_external reason\<rparr>],
      t_files := t_files d @ map (\<lambda>f. f\<lparr>rf_rev := rid\<rparr>) (files_of source d)\<rparr> \<and>
    v = \<lparr>rev_id = rid, rev_draft = br_draft_version sr, rev_files = length (files_of source d), rev_by = actor,
      rev_created = whole_seconds now, rev_reason = reason\<rparr> \<and>
    rid \<notin> br_id ` set (t_revisions d) \<and> files_of source d \<noteq> [] \<and>
    files_of rid d' = map (\<lambda>f. f\<lparr>rf_rev := rid\<rparr>) (files_of source d) \<and>
    (\<forall>rid'. rid' \<noteq> rid \<longrightarrow> files_of rid' d' = files_of rid' d)"
proof -
  obtain sr d1 where sr: "sr \<in> set (t_revisions d)" "br_id sr = source" "br_app sr = app" "br_env sr = env"
    and n: "0 < count_revision_files_q source d"
    and ins: "insert_revision_q rid app env (br_draft_version sr) actor reason ts d = Inr d1"
    and files: "insert_files (map (\<lambda>f. f\<lparr>rf_rev := rid\<rparr>) (filter (\<lambda>f. rf_rev f = source) (t_files d))) d1 = Inr d'"
    and v: "v = \<lparr>rev_id = rid, rev_draft = br_draft_version sr, rev_files = count_revision_files_q source d,
          rev_by = actor, rev_created = whole_seconds now, rev_reason = reason\<rparr>"
    by (rule rollback_Inr [OF assms(2)])
  have fs: "f \<in> set (map (\<lambda>f. f\<lparr>rf_rev := rid\<rparr>) (filter (\<lambda>f. rf_rev f = source) (t_files d))) \<Longrightarrow> rf_rev f = rid" for f
    by auto
  note c = new_revision_content [OF assms(1) ins files fs]
  have "d' = d\<lparr>t_revisions := t_revisions d @ [\<lparr>br_id = rid, br_app = app, br_env = env, br_draft_version = br_draft_version sr,
        br_created = ts, br_by = actor, br_category = or_category reason, br_explanation = or_explanation reason,
        br_external = or_external reason\<rparr>],
      t_files := t_files d @ map (\<lambda>f. f\<lparr>rf_rev := rid\<rparr>) (files_of source d)\<rparr>"
    using ins insert_files_Inr(1) [OF files] by (auto simp: insert_revision_q_def files_of_def split: if_splits)
  moreover have "count_revision_files_q source d = length (files_of source d)"
    by (simp add: count_files del: cnt_0 cnt_pos)
  moreover have "rid \<notin> br_id ` set (t_revisions d)" using c(4) by auto
  moreover have "files_of rid d' = map (\<lambda>f. f\<lparr>rf_rev := rid\<rparr>) (files_of source d)"
    using c(1) by (simp add: files_of_def)
  ultimately show ?thesis using sr v n c(2) by (intro bexI [OF _ sr(1)] conjI) auto
qed

lemma demo_rollback:
  "is_ok (rollback ''rev2'' ''app'' ''env'' ''rev1'' ''admin'' demo_reason 9 9 demo_assigned)"
  by code_simp

theorem rollback_snapshot_witness:
  "\<exists>v d'. rollback ''rev2'' ''app'' ''env'' ''rev1'' ''admin'' demo_reason 9 9 demo_assigned = Inr (v, d') \<and>
     rev_files v = 1 \<and> rev_draft v = 1 \<and> files_of ''rev1'' d' = files_of ''rev1'' demo_assigned"
proof -
  obtain v d' where run: "rollback ''rev2'' ''app'' ''env'' ''rev1'' ''admin'' demo_reason 9 9 demo_assigned = Inr (v, d')"
    using is_okE [OF demo_rollback] by (metis surj_pair)
  from rollback_snapshot [OF demo_ok(1) run] run show ?thesis
    by (auto simp: files_of_def demo_defs)
qed

section \<open>The Draft\<close>

text \<open>C10: the Draft's version is an optimistic lock. An update that succeeds against an expected version
  returns its successor, and a second update that still expects the old version is a conflict, whatever it
  selects.\<close>

theorem draft_lock:
  assumes "keys_ok d" "update_draft_selections app env expected checks writes d = Inr (v, d')"
  shows "v = expected + 1 \<and> update_draft_selections app env expected checks' writes' d' = Inl ErrConflict"
  using update_draft_locks [OF assms(2,1)] by blast

lemma demo_update: "is_ok (update_draft_selections ''app'' ''env'' 1 [(''sec'', 1)] [(''sec'', 1)] demo_assigned)"
  by code_simp

theorem draft_lock_witness:
  "\<exists>v d'. update_draft_selections ''app'' ''env'' 1 [(''sec'', 1)] [(''sec'', 1)] demo_assigned = Inr (v, d') \<and>
     v = 2 \<and> update_draft_selections ''app'' ''env'' 1 [(''sec'', 1)] [(''sec'', 1)] d' = Inl ErrConflict"
proof -
  obtain v d' where run: "update_draft_selections ''app'' ''env'' 1 [(''sec'', 1)] [(''sec'', 1)] demo_assigned = Inr (v, d')"
    using is_okE [OF demo_update] by (metis surj_pair)
  with draft_lock [OF bundle_okD(1) [OF demo_ok(1)] run] show ?thesis by auto
qed

text \<open>The two loops over the map of selections may visit it in any order. Another order of the same
  entries gives the same version and the same database, up to the order of the selection rows.\<close>

theorem draft_update_order_irrelevant:
  assumes "bundle_ok d" "mset checks' = mset checks" "mset writes' = mset writes" "set writes = set checks"
    and "distinct (map fst writes)"
    and "update_draft_selections app env expected checks writes d = Inr (v, d')"
  shows "\<exists>d''. update_draft_selections app env expected checks' writes' d = Inr (v, d'') \<and>
     set (t_selections d'') = set (t_selections d') \<and> d'' = d'\<lparr>t_selections := t_selections d''\<rparr>"
  by (rule update_draft_order [OF assms])

theorem draft_update_order_irrelevant_witness:
  "\<exists>v d''. update_draft_selections ''app'' ''env'' 1 [(''sec'', 1)] [(''sec'', 1)] demo_assigned = Inr (v, d'')"
proof -
  obtain v d' where run: "update_draft_selections ''app'' ''env'' 1 [(''sec'', 1)] [(''sec'', 1)] demo_assigned = Inr (v, d')"
    using is_okE [OF demo_update] by (metis surj_pair)
  from draft_update_order_irrelevant [OF demo_ok(1) refl refl refl _ run] show ?thesis by auto
qed

section \<open>Secret values\<close>

text \<open>C11: a new Secret Version takes the next sequence number and holds the sealed value it was given; every selection of the
  Secret by its Draft moves to the new version and no other selection changes, none is lost and none is made; the files and the
  revisions stay, and every older version of every Secret keeps its value.\<close>

theorem version_append_only:
  assumes "bundle_ok d" "add_secret_version vid sid w n c d = Inr (seq, v, d')"
  shows "seq = max_seq sid d + 1 \<and> secret_version_blob sid seq d' = Inr (w, n, c) \<and>
    t_versions d' = t_versions d @ [\<lparr>sv_id = vid, sv_secret = sid, sv_seq = seq, sv_wrapped = w, sv_nonce = n, sv_cipher = c\<rparr>] \<and>
    t_selections d' = map (\<lambda>x. if ds_secret x = sid then x\<lparr>ds_seq := seq\<rparr> else x) (t_selections d) \<and>
    t_files d' = t_files d \<and> t_revisions d' = t_revisions d \<and>
    (\<forall>sid' q blob. secret_version_blob sid' q d = Inr blob \<longrightarrow> secret_version_blob sid' q d' = Inr blob)"
proof -
  note val = add_secret_version_value [OF assms(2,1)]
  note okd = bundle_okD [OF assms(1)]
  from assms(2) obtain app env d1 where sec: "select_secret_app_env_q sid d = Inr (app, env)"
    and 1: "insert_version_next_q vid sid w n c d = Inr (seq, d1)"
    and 2: "bump_draft app env (update_selection_version_q seq app env sid d1) = Inr (v, d')"
    by (auto simp: add_secret_version_def)
  obtain ds where d': "d' = (update_selection_version_q seq app env sid d1)\<lparr>t_drafts := ds\<rparr>"
    by (rule bump_draft_Inr [OF 2]) (rule that)
  have own: "secret_in d sid app env" by (rule secret_app_env_Inr [OF sec])
  have sel: "\<exists>r \<in> set (t_drafts d). dr_id r = ds_draft x \<and> dr_app r = app \<and> dr_env r = env"
    if "x \<in> set (t_selections d)" "ds_secret x = sid" for x
  proof -
    from that okd(3) obtain r where r: "r \<in> set (t_drafts d)" "dr_id r = ds_draft x"
      "secret_in d sid (dr_app r) (dr_env r)" by (auto simp: contents_ok_def)
    from own r(3) okd(1) have "dr_app r = app \<and> dr_env r = env"
      by (auto simp: secret_in_def keys_ok_def dest: distinct_key_eq)
    with r show ?thesis by blast
  qed
  have tsel: "t_selections d' = upd (\<lambda>x. ds_secret x = sid \<and>
      (\<exists>r \<in> set (t_drafts d). dr_id r = ds_draft x \<and> dr_app r = app \<and> dr_env r = env))
      (\<lambda>x. x\<lparr>ds_seq := seq\<rparr>) (t_selections d)"
    by (simp add: d' update_selection_version_q_def insert_version_next_Inr(2) [OF 1])
  have "t_selections d' = map (\<lambda>x. if ds_secret x = sid then x\<lparr>ds_seq := seq\<rparr> else x) (t_selections d)"
    unfolding tsel upd_def by (rule map_cong [OF refl]) (use sel in auto)
  moreover have "t_versions d' = t_versions d @
      [\<lparr>sv_id = vid, sv_secret = sid, sv_seq = seq, sv_wrapped = w, sv_nonce = n, sv_cipher = c\<rparr>]"
    by (simp add: d' update_selection_version_q_def insert_version_next_Inr(2) [OF 1])
  ultimately show ?thesis using val by blast
qed

lemma demo_version: "is_ok (add_secret_version ''v2'' ''sec'' ''w2'' ''n2'' ''c2'' demo_assigned)"
  by code_simp

theorem version_append_only_witness:
  "\<exists>v d'. add_secret_version ''v2'' ''sec'' ''w2'' ''n2'' ''c2'' demo_assigned = Inr (2, v, d') \<and>
     secret_version_blob ''sec'' 2 d' = Inr (''w2'', ''n2'', ''c2'') \<and>
     secret_version_blob ''sec'' 1 d' = Inr (''w'', ''n'', ''c'') \<and> map ds_seq (t_selections d') = [2]"
proof -
  obtain seq v d' where run: "add_secret_version ''v2'' ''sec'' ''w2'' ''n2'' ''c2'' demo_assigned = Inr (seq, v, d')"
    using is_okE [OF demo_version] by (metis surj_pair)
  have old: "secret_version_blob ''sec'' 1 demo_assigned = Inr (''w'', ''n'', ''c'')" by code_simp
  have max: "max_seq ''sec'' demo_assigned = 1" by code_simp
  from version_append_only [OF demo_ok(1) run] run old max show ?thesis by (auto simp: demo_defs)
qed

section \<open>Deletion\<close>

text \<open>C12: deleting an Application, an Environment or a Secret answers conflict while an active Assignment
  uses it, not found when there is no such row, and otherwise deletes the row with everything below it: the
  foreign key from the files of a Bundle Revision to their Secret never makes it fail.\<close>

theorem deletions_guarded:
  assumes "bundle_ok d"
  shows "delete_application app d =
      (if \<exists>a \<in> set (t_assignments d). as_app a = app \<and> as_status a = Active then Inl ErrConflict
       else if app \<notin> ap_id ` set (t_apps d) then Inl ErrNotFound
       else Inr (drop_applications (\<lambda>a. ap_id a = app) (delete_files_for_application_q app d))) \<and>
    delete_environment env app d =
      (if \<exists>a \<in> set (t_assignments d). as_app a = app \<and> as_env a = env \<and> as_status a = Active then Inl ErrConflict
       else if \<not> env_in d env app then Inl ErrNotFound
       else Inr (drop_environments (\<lambda>e. en_id e = env \<and> en_app e = app) (delete_files_for_environment_q app env d))) \<and>
    delete_secret sid d =
      (if \<exists>a \<in> set (t_assignments d). as_status a = Active \<and> secret_in d sid (as_app a) (as_env a) then Inl ErrConflict
       else if sid \<notin> sc_id ` set (t_secrets d) then Inl ErrNotFound
       else Inr (drop_secrets (\<lambda>s. sc_id s = sid) (delete_files_for_secret_q sid d)))"
  (is "?app \<and> ?env \<and> ?secret")
proof (intro conjI)
  show ?app
    unfolding delete_application_eq [OF assms] by (auto simp: count_active_for_application_q_def)
  show ?env
    unfolding delete_environment_eq [OF assms] by (auto simp: count_active_for_environment_q_def)
  have "count_active_for_secret_q sid d \<noteq> 0 \<longleftrightarrow>
      (\<exists>a \<in> set (t_assignments d). as_status a = Active \<and> secret_in d sid (as_app a) (as_env a))"
    unfolding count_active_for_secret_q_def length_0_conv by (auto simp: secret_in_def)
  then show ?secret
    unfolding delete_secret_eq [OF assms] by auto
qed

theorem deletions_guarded_witness:
  "delete_application ''app'' demo_assigned = Inl ErrConflict \<and>
   delete_environment ''env'' ''app'' demo_assigned = Inl ErrConflict \<and>
   delete_secret ''sec'' demo_assigned = Inl ErrConflict \<and> delete_secret ''other'' demo_assigned = Inl ErrNotFound"
  using deletions_guarded [OF demo_ok(1)] by (simp add: demo_defs secret_in_def)

end
