(* ===== verification/Unassignment.thy ===== *)
theory Unassignment
  imports CoreSystem
begin

text \<open>
  Two-phase Unassignment (ADR-0022): \<open>task_step\<close> is the state machine of one node's cleanup task, and every
  step of the store moves a task along it; \<open>assignment_retires\<close> is the same for the Assignment itself,
  whose status only goes from active to removing. The rest is what \<open>Unassign\<close> does to delivery, and what delivery
  is: the Bundle Revisions a Managed Node is assigned.
\<close>

section \<open>The state machine of a cleanup task\<close>

inductive task_step :: "task_status \<Rightarrow> task_status \<Rightarrow> bool" where
  Confirm: "s \<in> {Pending, Failed, CleanupUnconfirmed} \<Longrightarrow> task_step s Cleaned"
| Fail: "s \<in> {Pending, Failed, CleanupUnconfirmed} \<Longrightarrow> task_step s Failed"
| GiveUp: "s \<in> {Pending, Failed, Offline} \<Longrightarrow> task_step s CleanupUnconfirmed"

inductive_cases cleaned_stepE: "task_step Cleaned s"
inductive_simps task_step_Cleaned: "task_step s Cleaned"

text \<open>Nothing leaves \<open>Cleaned\<close>, and \<open>Offline\<close>, a status the table allows, is never entered.\<close>

interpretation task: step_system "\<lambda>s. s = Pending" task_step "\<lambda>s. s \<noteq> Offline"
  by unfold_locales (auto elim: task_step.cases)

lemma cleaned_absorbing: "task_step\<^sup>*\<^sup>* Cleaned s \<Longrightarrow> s = Cleaned"
  by (erule converse_rtranclpE) (auto elim: cleaned_stepE)

text \<open>The key of a task, and the tasks the rows of a database record.\<close>

definition task_key :: "task_row \<Rightarrow> uuid \<times> uuid" where
  "task_key t = (ut_asg t, ut_node t)"

lemma task_upd_row:
  assumes t: "t \<in> set ts" and t': "t' \<in> set (upd p f ts)" and key: "task_key t = task_key t'"
    and dist: "distinct (map task_key ts)" and f: "\<And>t. task_key (f t) = task_key t"
  shows "t' = (if p t then f t else t)"
proof -
  from t' obtain x where x: "x \<in> set ts" "t' = (if p x then f x else x)" by (auto simp: set_upd)
  then have "task_key t' = task_key x" by (simp add: f)
  with key dist t x(1) have "x = t" by (metis distinct_key_eq)
  with x(2) show ?thesis by simp
qed

text \<open>What the two operations on a task did to it: the report of its node, and the abandonment of its Assignment.\<close>

definition reported :: "db \<Rightarrow> db \<Rightarrow> task_row \<Rightarrow> task_row \<Rightarrow> bool" where
  "reported d d' t t' \<longleftrightarrow>
     (\<exists>result err ts. report_cleanup_task (ut_asg t) (ut_node t) result err ts d = Inr d' \<and>
        ut_status t \<in> {Pending, Failed, CleanupUnconfirmed} \<and>
        (result = ''cleaned'' \<and> ut_status t' = Cleaned \<or> result = ''failed'' \<and> ut_status t' = Failed))"

definition abandoned :: "db \<Rightarrow> db \<Rightarrow> task_row \<Rightarrow> task_row \<Rightarrow> bool" where
  "abandoned d d' t t' \<longleftrightarrow>
     (\<exists>ts. abandon_cleanup_confirmation (ut_asg t) ts d = Inr d' \<and>
        ut_status t \<in> {Pending, Failed, Offline} \<and> ut_status t' = CleanupUnconfirmed)"

lemma reported_step: "reported d d' t t' \<Longrightarrow> task_step (ut_status t) (ut_status t')"
  by (auto simp: reported_def intro: task_step.intros)

lemma abandoned_step: "abandoned d d' t t' \<Longrightarrow> task_step (ut_status t) (ut_status t')"
  by (auto simp: abandoned_def intro: task_step.intros)

lemma report_row:
  assumes run: "report_cleanup_task i n result err ts d = Inr d'" and keys: "fleet_keys d"
    and t: "t \<in> set (t_tasks d)" "t' \<in> set (t_tasks d')" "task_key t = task_key t'"
  shows "if ut_asg t = i \<and> ut_node t = n then reported d d' t t' \<and> ut_status t' = (if result = ''cleaned'' then Cleaned else Failed)
    else t' = t"
proof -
  let ?p = "\<lambda>t. ut_asg t = i \<and> ut_node t = n \<and> ut_status t \<in> {Pending, Failed, CleanupUnconfirmed}"
  have dist: "distinct (map task_key (t_tasks d))"
    using keys unfolding fleet_keys_def task_key_def [abs_def] by blast
  from run obtain st where st: "cleanup_status result = Some st" and one: "cnt ?p (t_tasks d) = 1"
    and d': "d' = d\<lparr>t_tasks := upd ?p (\<lambda>t. t\<lparr>ut_status := st, ut_error := err, ut_updated := ts\<rparr>) (t_tasks d)\<rparr>"
    by (auto simp: report_cleanup_task_def report_cleanup_task_q_def Let_def split: option.splits if_splits)
  have row: "t' = (if ?p t then t\<lparr>ut_status := st, ut_error := err, ut_updated := ts\<rparr> else t)"
    by (rule task_upd_row [OF t(1) _ t(3) dist]) (use t(2) in \<open>simp_all add: d' task_key_def\<close>)
  have hit: "?p t" if own: "ut_asg t = i" "ut_node t = n"
  proof -
    from one have "filter ?p (t_tasks d) \<noteq> []" unfolding cnt_def by (metis list.size(3) zero_neq_one)
    then obtain x where x: "x \<in> set (t_tasks d)" "?p x" unfolding filter_empty_conv by blast
    then have "task_key x = task_key t" by (simp add: task_key_def own)
    with dist t(1) x(1) have "x = t" by (metis distinct_key_eq)
    with x(2) show ?thesis by simp
  qed
  have "result = ''cleaned'' \<and> st = Cleaned \<or> result = ''failed'' \<and> st = Failed"
    using st by (auto simp: cleanup_status_def split: if_splits)
  with row hit run show ?thesis by (auto simp: reported_def)
qed

lemma abandon_row:
  assumes run: "abandon_cleanup_confirmation i ts d = Inr d'" and keys: "fleet_keys d"
    and t: "t \<in> set (t_tasks d)" "t' \<in> set (t_tasks d')" "task_key t = task_key t'"
  shows "if ut_asg t = i \<and> ut_status t \<in> {Pending, Failed, Offline} then abandoned d d' t t' \<and> ut_status t' = CleanupUnconfirmed else t' = t"
proof -
  let ?p = "\<lambda>t. ut_asg t = i \<and> ut_status t \<in> {Pending, Failed, Offline}"
  have dist: "distinct (map task_key (t_tasks d))"
    using keys unfolding fleet_keys_def task_key_def [abs_def] by blast
  from run have d': "d' = d\<lparr>t_tasks := upd ?p (\<lambda>t. t\<lparr>ut_status := CleanupUnconfirmed, ut_updated := ts\<rparr>) (t_tasks d)\<rparr>"
    by (auto simp: abandon_cleanup_confirmation_def abandon_cleanup_confirmation_q_def Let_def split: if_splits)
  have "t' = (if ?p t then t\<lparr>ut_status := CleanupUnconfirmed, ut_updated := ts\<rparr> else t)"
    by (rule task_upd_row [OF t(1) _ t(3) dist]) (use t(2) in \<open>simp_all add: d' task_key_def\<close>)
  with run show ?thesis by (auto simp: abandoned_def)
qed

lemma fleet_step_task:
  assumes "fleet_step d d'" and ok: "fleet_ok d"
    and t: "t \<in> set (t_tasks d)" "t' \<in> set (t_tasks d')" "task_key t = task_key t'"
  shows "ut_status t' = ut_status t \<or> reported d d' t t' \<or> abandoned d d' t t'"
proof -
  have dist: "distinct (map task_key (t_tasks d))"
    using fleet_okD(1) [OF ok] unfolding fleet_keys_def task_key_def [abs_def] by blast
  have same: "ut_status t' = ut_status t" if "set (t_tasks d') \<subseteq> set (t_tasks d)"
    using that t dist by (metis distinct_key_eq subsetD)
  from assms(1) show ?thesis
  proof cases
    case (Report i n result err ts)
    from report_row [OF Report fleet_okD(1) [OF ok] t] show ?thesis by (auto split: if_splits)
  next
    case (Abandon i ts)
    from abandon_row [OF Abandon fleet_okD(1) [OF ok] t] show ?thesis by (auto split: if_splits)
  next
    case (Unassign i ts tasks)
    obtain a where a: "a \<in> set (t_assignments d)" "as_id a = i" "as_status a = Active"
      and d': "d' = d\<lparr>t_assignments := upd (\<lambda>x. as_id x = i) (\<lambda>x. x\<lparr>as_status := Removing\<rparr>) (t_assignments d),
      t_tasks := t_tasks d @ map (\<lambda>n. \<lparr>ut_asg = i, ut_node = n, ut_status = Pending, ut_error = [],
        ut_updated = ts\<rparr>) (members_of (as_group a) d)\<rparr>"
      and "tasks = list_unassignment_tasks_q i d'"
      and new: "\<forall>t \<in> set (t_tasks d). \<not> (ut_asg t = i \<and> member d (as_group a) (ut_node t))"
      by (rule unassign_Inr [OF Unassign fleet_okD(1) [OF ok]])
    have "t' \<in> set (t_tasks d)"
      using t new by (auto simp: d' task_key_def members_of_iff)
    with t dist show ?thesis by (metis distinct_key_eq)
  qed (use same in \<open>auto simp: fleet_op_defs Let_def drop_groups_def drop_nodes_def split: if_splits option.splits\<close>)
qed

lemma core_step_task:
  assumes "core_step d d'" and ok: "bundle_ok d" "fleet_ok d"
    and t: "t \<in> set (t_tasks d)" "t' \<in> set (t_tasks d')" "task_key t = task_key t'"
  shows "ut_status t' = ut_status t \<or> reported d d' t t' \<or> abandoned d d' t t'"
  using assms(1) unfolding core_step_def
proof
  assume "fleet_step d d'"
  then show ?thesis using ok(2) t by (rule fleet_step_task)
next
  assume "bundle_step d d'"
  then have "t' \<in> set (t_tasks d)"
    using bundle_step_shrinks [OF _ ok(1)] t(2) by (auto simp: fleet_shrinks_def)
  moreover have "distinct (map task_key (t_tasks d))"
    using fleet_okD(1) [OF ok(2)] unfolding fleet_keys_def task_key_def [abs_def] by blast
  ultimately show ?thesis using t by (metis distinct_key_eq)
qed

text \<open>C13: whatever operation of the stores runs, the cleanup task of a Managed Node keeps its status, unless the operation is the
  report of that node on that Assignment, which moves a task that is pending, failed or given up to cleaned when it says
  ''cleaned'' and to failed when it says ''failed'', or the abandonment of that Assignment, which moves a task that is pending or failed
  to unconfirmed. These two always do so when they succeed, so no operation moves a cleaned task, and none sets
  \<open>offline\<close>.\<close>

theorem cleanup_task_transitions:
  assumes "core_step\<^sup>*\<^sup>* empty_db d" "core_step d d'"
    and "t \<in> set (t_tasks d)" "t' \<in> set (t_tasks d')" "task_key t = task_key t'"
  shows "(ut_status t' = ut_status t \<or>
      (\<exists>result err ts. report_cleanup_task (ut_asg t) (ut_node t) result err ts d = Inr d' \<and>
         ut_status t \<in> {Pending, Failed, CleanupUnconfirmed} \<and>
         (result = ''cleaned'' \<and> ut_status t' = Cleaned \<or> result = ''failed'' \<and> ut_status t' = Failed)) \<or>
      (\<exists>ts. abandon_cleanup_confirmation (ut_asg t) ts d = Inr d' \<and>
         ut_status t \<in> {Pending, Failed} \<and> ut_status t' = CleanupUnconfirmed)) \<and>
    (\<forall>result err ts. report_cleanup_task (ut_asg t) (ut_node t) result err ts d = Inr d' \<longrightarrow>
       ut_status t \<in> {Pending, Failed, CleanupUnconfirmed} \<and>
       (result = ''cleaned'' \<and> ut_status t' = Cleaned \<or> result = ''failed'' \<and> ut_status t' = Failed)) \<and>
    (\<forall>ts. abandon_cleanup_confirmation (ut_asg t) ts d = Inr d' \<longrightarrow>
       ut_status t' = (if ut_status t \<in> {Pending, Failed} then CleanupUnconfirmed else ut_status t)) \<and>
    (ut_status t = Cleaned \<longrightarrow> ut_status t' = Cleaned) \<and> ut_status t' \<noteq> Offline"
proof -
  have ok: "bundle_ok d" "fleet_ok d" using core.reachable_inv [OF refl assms(1)] by blast+
  have "fleet_ok d'" using core.step_inv assms(2) ok by blast
  then have online: "ut_status t \<noteq> Offline" "ut_status t' \<noteq> Offline"
    using assms(3,4) ok(2) fleet_okD(4) tasks_ok_def by blast+
  note moved = core_step_task [OF assms(2) ok assms(3-5)]
  then have cleaned: "ut_status t = Cleaned \<longrightarrow> ut_status t' = Cleaned"
    by (metis cleaned_stepE reported_step abandoned_step)
  have rep: "ut_status t \<in> {Pending, Failed, CleanupUnconfirmed} \<and>
      (result = ''cleaned'' \<and> ut_status t' = Cleaned \<or> result = ''failed'' \<and> ut_status t' = Failed)"
    if "report_cleanup_task (ut_asg t) (ut_node t) result err ts d = Inr d'" for result err ts
  proof -
    have "result = ''cleaned'' \<or> result = ''failed''"
      using that by (auto simp: report_cleanup_task_def cleanup_status_def split: option.splits if_splits)
    with report_row [OF that fleet_okD(1) [OF ok(2)] assms(3-5)] show ?thesis by (auto simp: reported_def)
  qed
  have ab: "ut_status t' = (if ut_status t \<in> {Pending, Failed} then CleanupUnconfirmed else ut_status t)"
    if "abandon_cleanup_confirmation (ut_asg t) ts d = Inr d'" for ts
    using abandon_row [OF that fleet_okD(1) [OF ok(2)] assms(3-5)] online(1) by (auto split: if_splits)
  from moved online(1) have "ut_status t' = ut_status t \<or>
      (\<exists>result err ts. report_cleanup_task (ut_asg t) (ut_node t) result err ts d = Inr d' \<and>
         ut_status t \<in> {Pending, Failed, CleanupUnconfirmed} \<and>
         (result = ''cleaned'' \<and> ut_status t' = Cleaned \<or> result = ''failed'' \<and> ut_status t' = Failed)) \<or>
      (\<exists>ts. abandon_cleanup_confirmation (ut_asg t) ts d = Inr d' \<and>
         ut_status t \<in> {Pending, Failed} \<and> ut_status t' = CleanupUnconfirmed)"
    unfolding reported_def abandoned_def by blast
  with rep ab cleaned online(2) show ?thesis by blast
qed

lemma demo_report:
  "report_cleanup_task ''asg'' ''node'' ''cleaned'' [] 10 demo_removing =
     Inr (demo_removing\<lparr>t_tasks := [\<lparr>ut_asg = ''asg'', ut_node = ''node'', ut_status = Cleaned, ut_error = [],
       ut_updated = 10\<rparr>]\<rparr>)"
  by code_simp

theorem cleanup_task_transitions_witness:
  "core_step demo_removing (demo_removing\<lparr>t_tasks := [\<lparr>ut_asg = ''asg'', ut_node = ''node'', ut_status = Cleaned,
     ut_error = [], ut_updated = 10\<rparr>]\<rparr>) \<and>
   (\<exists>result err ts. report_cleanup_task ''asg'' ''node'' result err ts demo_removing =
     Inr (demo_removing\<lparr>t_tasks := [\<lparr>ut_asg = ''asg'', ut_node = ''node'', ut_status = Cleaned, ut_error = [],
       ut_updated = 10\<rparr>]\<rparr>) \<and> result = ''cleaned'')"
proof -
  let ?t = "\<lparr>ut_asg = ''asg'', ut_node = ''node'', ut_status = Pending, ut_error = [], ut_updated = 9\<rparr>"
  let ?t' = "\<lparr>ut_asg = ''asg'', ut_node = ''node'', ut_status = Cleaned, ut_error = [], ut_updated = 10\<rparr>"
  have step: "core_step demo_removing (demo_removing\<lparr>t_tasks := [?t']\<rparr>)"
    unfolding core_step_def using demo_report by (blast intro: fleet_step.intros)
  have "?t \<in> set (t_tasks demo_removing)" "?t' \<in> set (t_tasks (demo_removing\<lparr>t_tasks := [?t']\<rparr>))" "task_key ?t = task_key ?t'"
    by (simp_all add: demo_removing_def task_key_def)
  from cleanup_task_transitions [OF demo_reachable(2) step this] step show ?thesis by auto
qed

section \<open>The status of an Assignment\<close>

text \<open>The two statuses are ordered by the phases of an Unassignment; no operation of the stores takes an
  Assignment back, or moves it to another Node Group or another Secret Bundle.\<close>

instantiation assignment_status :: linorder
begin

definition less_eq_assignment_status :: "assignment_status \<Rightarrow> assignment_status \<Rightarrow> bool" where
  "less_eq_assignment_status s s' \<longleftrightarrow> s = Active \<or> s' = Removing"

definition less_assignment_status :: "assignment_status \<Rightarrow> assignment_status \<Rightarrow> bool" where
  "less_assignment_status s s' \<longleftrightarrow> s = Active \<and> s' = Removing"

instance
proof
  show "s < s' \<longleftrightarrow> s \<le> s' \<and> \<not> s' \<le> s" for s s' :: assignment_status
    by (cases s; cases s') (simp_all add: less_eq_assignment_status_def less_assignment_status_def)
  show "s \<le> s' \<Longrightarrow> s' \<le> s \<Longrightarrow> s = s'" for s s' :: assignment_status
    by (cases s; cases s') (simp_all add: less_eq_assignment_status_def)
qed (auto simp: less_eq_assignment_status_def intro: assignment_status.exhaust)

end

lemma removing_top [simp]: "s \<le> Removing" by (simp add: less_eq_assignment_status_def)

definition retires :: "assignment_row \<Rightarrow> assignment_row \<Rightarrow> bool" where
  "retires a a' \<longleftrightarrow> as_group a' = as_group a \<and> as_app a' = as_app a \<and> as_env a' = as_env a \<and>
     as_status a \<le> as_status a'"

lemma assignment_upd_retires:
  assumes a: "a \<in> set as" and a': "a' \<in> set (upd p f as)" and key: "as_id a = as_id a'"
    and dist: "distinct (map as_id as)" and f: "\<And>a. as_id (f a) = as_id a" "\<And>a. p a \<Longrightarrow> retires a (f a)"
  shows "retires a a'"
proof -
  from a' obtain x where x: "x \<in> set as" "a' = (if p x then f x else x)" by (auto simp: set_upd)
  then have "as_id a' = as_id x" by (simp add: f)
  with key dist a x(1) have "x = a" by (metis distinct_key_eq)
  with x(2) f(2) show ?thesis by (cases "p a") (auto simp: retires_def)
qed

lemma fleet_step_retires:
  assumes "fleet_step d d'" and ok: "fleet_ok d"
    and a: "a \<in> set (t_assignments d)" "a' \<in> set (t_assignments d')" "as_id a = as_id a'"
  shows "retires a a'"
proof -
  have dist: "distinct (map as_id (t_assignments d))"
    using fleet_okD(1) [OF ok] by (simp add: fleet_keys_def)
  have same: "retires a a'" if "set (t_assignments d') \<subseteq> set (t_assignments d)"
  proof -
    from that a dist have "a' = a" by (metis distinct_key_eq subsetD)
    then show ?thesis by (simp add: retires_def)
  qed
  from assms(1) show ?thesis
  proof cases
    case (Assign i g app env ts v)
    obtain b where "d' = d\<lparr>t_assignments := t_assignments d @ [b]\<rparr>"
      "\<forall>x \<in> set (t_assignments d). as_id x \<noteq> as_id b"
      by (rule create_assignment_Inr [OF Assign]) simp
    with a have "a' \<in> set (t_assignments d)" by auto
    with a dist have "a' = a" by (metis distinct_key_eq)
    then show ?thesis by (simp add: retires_def)
  next
    case (Advance rid app env)
    then have "t_assignments d' = upd (\<lambda>a. as_app a = app \<and> as_env a = env \<and> as_status a = Active)
        (\<lambda>a. a\<lparr>as_rev := rid\<rparr>) (t_assignments d)"
      by (auto simp: advance_desired_revision_def advance_desired_revision_q_def Let_def split: if_splits)
    from assignment_upd_retires [OF a(1) a(2) [unfolded this] a(3) dist] show ?thesis by (simp add: retires_def)
  next
    case (Unassign i ts tasks)
    have "t_assignments d' = upd (\<lambda>x. as_id x = i) (\<lambda>x. x\<lparr>as_status := Removing\<rparr>) (t_assignments d)"
      by (rule unassign_Inr [OF Unassign fleet_okD(1) [OF ok]]) simp
    from assignment_upd_retires [OF a(1) a(2) [unfolded this] a(3) dist] show ?thesis by (simp add: retires_def)
  qed (use same in \<open>auto simp: fleet_op_defs Let_def drop_groups_def drop_nodes_def split: if_splits option.splits\<close>)
qed

lemma assignment_retires:
  assumes "core_step\<^sup>*\<^sup>* empty_db d" "core_step d d'"
    and a: "a \<in> set (t_assignments d)" "a' \<in> set (t_assignments d')" "as_id a = as_id a'"
  shows "retires a a'"
proof -
  have ok: "bundle_ok d" "fleet_ok d" using core.reachable_inv [OF refl assms(1)] by blast+
  from assms(2) show ?thesis
    unfolding core_step_def
  proof
    assume "fleet_step d d'"
    then show ?thesis using ok(2) a by (rule fleet_step_retires)
  next
    assume "bundle_step d d'"
    then have "a' \<in> set (t_assignments d)"
      using bundle_step_shrinks [OF _ ok(1)] a(2) by (auto simp: fleet_shrinks_def)
    moreover have "distinct (map as_id (t_assignments d))"
      using fleet_okD(1) [OF ok(2)] by (simp add: fleet_keys_def)
    ultimately have "a' = a" using a by (metis distinct_key_eq)
    then show ?thesis by (simp add: retires_def)
  qed
qed

section \<open>Unassignment\<close>

lemma members_of_distinct: "fleet_keys d \<Longrightarrow> distinct (members_of g d)"
  by (auto simp: members_of_def fleet_keys_def distinct_map inj_on_def)

lemma unassign_refused:
  "\<forall>a \<in> set (t_assignments d). as_id a = i \<longrightarrow> as_status a \<noteq> Active \<Longrightarrow> unassign i ts d = Inl ErrConflict"
proof -
  assume "\<forall>a \<in> set (t_assignments d). as_id a = i \<longrightarrow> as_status a \<noteq> Active"
  then have "cnt (\<lambda>a. as_id a = i \<and> as_status a = Active) (t_assignments d) = 0" by auto
  then show ?thesis by (simp add: unassign_def mark_assignment_removing_q_def Let_def del: cnt_0)
qed

lemma unassign_succeeds:
  assumes ok: "fleet_ok d" and a: "a \<in> set (t_assignments d)" "as_status a = Active"
  obtains d' where "unassign (as_id a) ts d = Inr (list_unassignment_tasks_q (as_id a) d', d')"
    "d' = d\<lparr>t_assignments := upd (\<lambda>x. as_id x = as_id a) (\<lambda>x. x\<lparr>as_status := Removing\<rparr>) (t_assignments d),
      t_tasks := t_tasks d @ map (\<lambda>n. \<lparr>ut_asg = as_id a, ut_node = n, ut_status = Pending, ut_error = [],
        ut_updated = ts\<rparr>) (members_of (as_group a) d)\<rparr>"
    "\<forall>t \<in> set (t_tasks d). ut_asg t \<noteq> as_id a"
proof -
  let ?i = "as_id a"
  let ?as = "upd (\<lambda>x. as_id x = ?i) (\<lambda>x. x\<lparr>as_status := Removing\<rparr>) (t_assignments d)"
  have keys: "fleet_keys d" by (rule fleet_okD [OF ok])
  then have dist: "distinct (map as_id (t_assignments d))" by (simp add: fleet_keys_def)
  have eq: "x = a" if "x \<in> set (t_assignments d)" "as_id x = ?i" for x
    using distinct_key_eq [OF dist that(1) a(1) that(2)] .
  have no: "\<forall>t \<in> set (t_tasks d). ut_asg t \<noteq> ?i"
  proof
    fix t assume "t \<in> set (t_tasks d)"
    with fleet_okD(4) [OF ok] obtain b where b: "b \<in> set (t_assignments d)" "as_id b = ut_asg t" "as_status b = Removing"
      unfolding tasks_ok_def by blast
    with eq [OF b(1)] a(2) show "ut_asg t \<noteq> ?i" by auto
  qed
  have sel: "filter (\<lambda>x. as_id x = ?i \<and> as_status x = Active) (t_assignments d) = [a]"
  proof -
    have "filter (\<lambda>x. as_id x = ?i \<and> as_status x = Active) (t_assignments d) = filter (\<lambda>x. as_id x = ?i) (t_assignments d)"
      using eq a(2) by (intro filter_cong) auto
    then show ?thesis using filter_key_single [OF dist a(1)] by simp
  qed
  have upd_eq: "upd (\<lambda>x. as_id x = ?i \<and> as_status x = Active) (\<lambda>x. x\<lparr>as_status := Removing\<rparr>) (t_assignments d) = ?as"
    using eq a(2) unfolding upd_def by (intro map_cong) auto
  have mark: "mark_assignment_removing_q ?i d = (1, d\<lparr>t_assignments := ?as\<rparr>)"
    by (simp add: mark_assignment_removing_q_def Let_def cnt_def sel upd_eq)
  have "one (\<lambda>x. as_id x = ?i) ?as = Some (a\<lparr>as_status := Removing\<rparr>)"
  proof (rule one_Some_unique)
    show "distinct (map as_id ?as)" using dist by (simp add: map_upd_same)
    show "a\<lparr>as_status := Removing\<rparr> \<in> set ?as" using a(1) by (auto simp: set_upd_split)
  qed simp
  moreover have "members_of g (d\<lparr>t_assignments := ?as\<rparr>) = members_of g d" for g by (simp add: members_of_def)
  ultimately show thesis
    using no members_of_distinct [OF keys]
    by (intro that [OF _ refl no]) (simp add: unassign_def mark insert_unassignment_tasks_q_def)
qed

text \<open>C14: \<open>Unassign\<close> of an active Assignment always succeeds: it records one pending cleanup task for each
  Managed Node of the Node Group, in the order of the node ids, and nothing for any other node; the Assignment is then
  no longer active, so a second call is a conflict. Any other id is a conflict at once.\<close>

theorem unassign_tasks:
  assumes "core_step\<^sup>*\<^sup>* empty_db d"
  shows "if \<exists>a \<in> set (t_assignments d). as_id a = i \<and> as_status a = Active
    then \<exists>a tasks d'. a \<in> set (t_assignments d) \<and> as_id a = i \<and> unassign i ts d = Inr (tasks, d') \<and>
      map ut_node tasks = sort (members_of (as_group a) d) \<and> distinct (map ut_node tasks) \<and>
      (\<forall>t \<in> set tasks. ut_asg t = i \<and> ut_status t = Pending \<and> ut_error t = []) \<and>
      set (t_tasks d') = set (t_tasks d) \<union> set tasks \<and>
      list_unassignment_tasks i d' = tasks \<and> (\<forall>ts'. unassign i ts' d' = Inl ErrConflict)
    else unassign i ts d = Inl ErrConflict"
proof -
  have ok: "fleet_ok d" using core.reachable_inv [OF refl assms] by blast
  have keys: "fleet_keys d" by (rule fleet_okD [OF ok])
  show ?thesis
  proof (cases "\<exists>a \<in> set (t_assignments d). as_id a = i \<and> as_status a = Active")
    case True
    then obtain a where a: "a \<in> set (t_assignments d)" "as_status a = Active" and i: "as_id a = i" by blast
    define mk where "mk = (\<lambda>n. \<lparr>ut_asg = i, ut_node = n, ut_status = Pending, ut_error = [], ut_updated = ts\<rparr>)"
    obtain d' where d': "unassign i ts d = Inr (list_unassignment_tasks_q i d', d')"
      "d' = d\<lparr>t_assignments := upd (\<lambda>x. as_id x = i) (\<lambda>x. x\<lparr>as_status := Removing\<rparr>) (t_assignments d),
        t_tasks := t_tasks d @ map mk (members_of (as_group a) d)\<rparr>" "\<forall>t \<in> set (t_tasks d). ut_asg t \<noteq> i"
      unfolding mk_def by (rule unassign_succeeds [OF ok a, of ts, unfolded i])
    let ?ts = "list_unassignment_tasks_q i d'"
    have asg: "ut_asg (mk n) = i" for n by (simp add: mk_def)
    have ts: "?ts = sort_key ut_node (map mk (members_of (as_group a) d))"
      using d'(3) by (simp add: list_unassignment_tasks_q_def d'(2) filter_empty_conv asg)
    have nodes: "map ut_node ?ts = sort (members_of (as_group a) d)"
      by (simp add: ts map_key_sort comp_def mk_def)
    have all: "set (t_tasks d') = set (t_tasks d) \<union> set ?ts" unfolding ts by (simp add: d'(2))
    have pend: "\<forall>t \<in> set ?ts. ut_asg t = i \<and> ut_status t = Pending \<and> ut_error t = []"
      unfolding ts by (auto simp: mk_def)
    have again: "\<forall>ts'. unassign i ts' d' = Inl ErrConflict"
      by (intro allI unassign_refused, subst d'(2)) (simp add: set_upd_split ball_Un)
    have dist: "distinct (map ut_node ?ts)" unfolding nodes using members_of_distinct [OF keys] by simp
    have lst: "list_unassignment_tasks i d' = ?ts" by (simp only: list_unassignment_tasks_def)
    have "\<exists>tasks d'. unassign i ts d = Inr (tasks, d') \<and> map ut_node tasks = sort (members_of (as_group a) d) \<and>
        distinct (map ut_node tasks) \<and> (\<forall>t \<in> set tasks. ut_asg t = i \<and> ut_status t = Pending \<and> ut_error t = []) \<and>
        set (t_tasks d') = set (t_tasks d) \<union> set tasks \<and> list_unassignment_tasks i d' = tasks \<and>
        (\<forall>ts'. unassign i ts' d' = Inl ErrConflict)"
      by (rule exI [of _ ?ts], rule exI [of _ d'])
        (rule conjI [OF d'(1) conjI [OF nodes conjI [OF dist conjI [OF pend conjI [OF all conjI [OF lst again]]]]]])
    with a(1) i True show ?thesis by (simp only: if_True) blast
  next
    case False
    then have "unassign i ts d = Inl ErrConflict" by (intro unassign_refused) auto
    with False show ?thesis by simp
  qed
qed

theorem unassign_tasks_witness:
  "\<exists>tasks d'. unassign ''asg'' 9 demo_assigned = Inr (tasks, d') \<and> map ut_node tasks = [''node''] \<and>
     unassign ''asg'' 10 d' = Inl ErrConflict"
proof -
  have act: "(\<exists>a \<in> set (t_assignments demo_assigned). as_id a = ''asg'' \<and> as_status a = Active) = True"
    by (simp add: demo_assigned_def)
  from unassign_tasks [OF demo_reachable(1), of "''asg''" 9, unfolded act if_True] obtain a tasks d' where
    a: "a \<in> set (t_assignments demo_assigned)" and un: "unassign ''asg'' 9 demo_assigned = Inr (tasks, d')"
      "map ut_node tasks = sort (members_of (as_group a) demo_assigned)" "unassign ''asg'' 10 d' = Inl ErrConflict"
    by blast
  from a have "members_of (as_group a) demo_assigned = [''node'']" by (simp add: demo_defs members_of_def)
  with un show ?thesis by auto
qed

end
