(* ===== verification/Deliveries.thy ===== *)
theory Deliveries
  imports Unassignment
begin

text \<open>
  What reaches a Managed Node: \<open>AssignedRevisions\<close>, and how each fleet operation changes it. Creating an
  Assignment adds the latest Bundle Revision for the members of its Node Group; a publication replaces
  the revision of its Secret Bundle for every node that is assigned it; an Unassignment takes it away.
\<close>

section \<open>Assigned revisions\<close>

lemma assigned_iff:
  "rid \<in> set (assigned_revisions n d) \<longleftrightarrow> (\<exists>a \<in> actives d. member d (as_group a) n \<and> as_rev a = rid)"
  by (auto simp: assigned_revisions_def assigned_revisions_q_def actives_def member_def)

lemma assigned_sorted: "sorted (assigned_revisions n d)" "distinct (assigned_revisions n d)"
  by (simp_all add: assigned_revisions_def assigned_revisions_q_def)

lemma assigned_eqI:
  assumes "sorted xs" "distinct xs"
    and "\<And>rid. rid \<in> set xs \<longleftrightarrow> (\<exists>a \<in> actives d. member d (as_group a) n \<and> as_rev a = rid)"
  shows "assigned_revisions n d = xs"
proof (rule sorted_distinct_set_unique [OF assigned_sorted assms(1,2)])
  show "set (assigned_revisions n d) = set xs" by (rule set_eqI) (rule trans [OF assigned_iff assms(3) [symmetric]])
qed

lemma revision_in_unique:
  "keys_ok d \<Longrightarrow> revision_in d rid app env \<Longrightarrow> revision_in d rid app' env' \<Longrightarrow> app' = app \<and> env' = env"
  unfolding revision_in_def keys_ok_def
  using distinct_key_eq [of br_id "t_revisions d"] by metis

lemma active_revision:
  "fleet_refs d \<Longrightarrow> a \<in> actives d \<Longrightarrow> revision_in d (as_rev a) (as_app a) (as_env a)"
  by (simp add: fleet_refs_def actives_def)

text \<open>The Secret Bundle of an active Assignment is that of its revision.\<close>

lemma active_bundle:
  assumes "keys_ok d" "fleet_refs d" "a \<in> actives d" "revision_in d (as_rev a) app env"
  shows "as_app a = app" "as_env a = env"
  using revision_in_unique [OF assms(1) assms(4) active_revision [OF assms(2,3)]] by simp_all

text \<open>C15: what a Managed Node is assigned is exactly the revisions of the active Assignments of its Node Groups,
  in ascending order and each once, and two of them are never revisions of one Secret Bundle: a Managed Node
  receives every Secret Bundle from one source only.\<close>

theorem exclusive_delivery:
  assumes "core_step\<^sup>*\<^sup>* empty_db d"
  shows "sorted (assigned_revisions n d) \<and> distinct (assigned_revisions n d) \<and>
    set (assigned_revisions n d) = {as_rev a | a. a \<in> set (t_assignments d) \<and> as_status a = Active \<and> member d (as_group a) n} \<and>
    (\<forall>r1 \<in> set (assigned_revisions n d). \<forall>r2 \<in> set (assigned_revisions n d). \<forall>app env.
       revision_in d r1 app env \<longrightarrow> revision_in d r2 app env \<longrightarrow> r1 = r2)"
proof -
  have ok: "bundle_ok d" "fleet_ok d" using core.reachable_inv [OF refl assms] by blast+
  note keys = bundle_okD(1) [OF ok(1)] and f = fleet_okD [OF ok(2)]
  have "r1 = r2"
    if r: "r1 \<in> set (assigned_revisions n d)" "r2 \<in> set (assigned_revisions n d)"
      and rin: "revision_in d r1 app env" "revision_in d r2 app env" for r1 r2 app env
  proof -
    from r obtain a b where a: "a \<in> actives d" "member d (as_group a) n" "as_rev a = r1"
      and b: "b \<in> actives d" "member d (as_group b) n" "as_rev b = r2"
      unfolding assigned_iff by blast
    have "same_bundle a b"
      using active_bundle [OF keys f(2) a(1)] active_bundle [OF keys f(2) b(1)] rin a(3) b(3)
      by (simp add: same_bundle_def)
    with f(3) a(1,2) b(1,2) have "as_id a = as_id b" unfolding exclusive_def by blast
    moreover have "distinct (map as_id (t_assignments d))" using f(1) by (simp add: fleet_keys_def)
    moreover have "a \<in> set (t_assignments d)" "b \<in> set (t_assignments d)"
      using a(1) b(1) by (simp_all add: actives_def)
    ultimately have "a = b" by (metis distinct_key_eq)
    with a(3) b(3) show "r1 = r2" by simp
  qed
  moreover have "set (assigned_revisions n d) =
      {as_rev a | a. a \<in> set (t_assignments d) \<and> as_status a = Active \<and> member d (as_group a) n}"
    unfolding set_eq_iff assigned_iff by (auto simp: actives_def)
  ultimately show ?thesis using assigned_sorted by simp
qed

theorem exclusive_delivery_witness:
  "assigned_revisions ''node'' demo_assigned = [''rev1''] \<and> sorted (assigned_revisions ''node'' demo_assigned)"
proof -
  have "assigned_revisions ''node'' demo_assigned = [''rev1'']"
    by (simp add: assigned_revisions_def assigned_revisions_q_def demo_defs)
  with exclusive_delivery [OF demo_reachable(1), of "''node''"] show ?thesis by simp
qed

section \<open>Unassignment stops delivery\<close>

text \<open>From the moment \<open>Unassign\<close> commits, the members of the Node Group are no longer assigned any revision of
  the Assignment's Secret Bundle, while every other assigned revision, and every other Managed Node, is
  unaffected.\<close>

theorem unassign_stops_delivery:
  assumes "core_step\<^sup>*\<^sup>* empty_db d" "a \<in> set (t_assignments d)" "unassign (as_id a) ts d = Inr (tasks, d')"
  shows "assigned_revisions n d' =
    filter (\<lambda>rid. \<not> (member d (as_group a) n \<and> revision_in d rid (as_app a) (as_env a))) (assigned_revisions n d)"
proof (rule assigned_eqI)
  have ok: "bundle_ok d" "fleet_ok d" using core.reachable_inv [OF refl assms(1)] by blast+
  note keys = bundle_okD(1) [OF ok(1)] and f = fleet_okD [OF ok(2)]
  have dist: "distinct (map as_id (t_assignments d))" using f(1) by (simp add: fleet_keys_def)
  obtain a' where a': "a' \<in> set (t_assignments d)" "as_id a' = as_id a" "as_status a' = Active"
    and d': "d' = d\<lparr>t_assignments := upd (\<lambda>x. as_id x = as_id a) (\<lambda>x. x\<lparr>as_status := Removing\<rparr>) (t_assignments d),
      t_tasks := t_tasks d @ map (\<lambda>n. \<lparr>ut_asg = as_id a, ut_node = n, ut_status = Pending, ut_error = [],
        ut_updated = ts\<rparr>) (members_of (as_group a') d)\<rparr>"
    by (rule unassign_Inr [OF assms(3) f(1)])
  have "a' = a" using distinct_key_eq [OF dist a'(1) assms(2) a'(2)] .
  with a'(3) have a: "a \<in> actives d" using assms(2) by (simp add: actives_def)
  have act: "actives d' = {b \<in> actives d. as_id b \<noteq> as_id a}"
    by (auto simp: d' actives_def set_upd_split)
  have mem: "member d' = member d" by (rule member_cong) (simp add: d')
  have one: "as_id b = as_id a \<longleftrightarrow> member d (as_group a) n \<and> revision_in d (as_rev b) (as_app a) (as_env a)"
    if b: "b \<in> actives d" "member d (as_group b) n" for b
  proof
    assume "as_id b = as_id a"
    then have "b = a" using distinct_key_eq [OF dist, of b a] a b(1) by (simp add: actives_def)
    with b active_revision [OF f(2) a] show "member d (as_group a) n \<and> revision_in d (as_rev b) (as_app a) (as_env a)" by simp
  next
    assume "member d (as_group a) n \<and> revision_in d (as_rev b) (as_app a) (as_env a)"
    moreover from this have "same_bundle b a"
      using active_bundle [OF keys f(2) b(1)] unfolding same_bundle_def by blast
    ultimately show "as_id b = as_id a" using f(3) b a unfolding exclusive_def by blast
  qed
  show "rid \<in> set (filter (\<lambda>rid. \<not> (member d (as_group a) n \<and> revision_in d rid (as_app a) (as_env a)))
      (assigned_revisions n d)) \<longleftrightarrow> (\<exists>b \<in> actives d'. member d' (as_group b) n \<and> as_rev b = rid)" for rid
    unfolding set_filter mem_Collect_eq assigned_iff act mem using one by blast
qed (simp_all add: assigned_sorted sorted_wrt_filter)

theorem unassign_stops_delivery_witness: "assigned_revisions ''node'' demo_removing = []"
proof -
  let ?a = "\<lparr>as_id = ''asg'', as_group = ''grp'', as_rev = ''rev1'', as_created = 8, as_app = ''app'',
    as_env = ''env'', as_status = Active\<rparr>"
  have "?a \<in> set (t_assignments demo_assigned)" by (simp add: demo_assigned_def)
  moreover have "unassign (as_id ?a) 9 demo_assigned = Inr
      ([\<lparr>ut_asg = ''asg'', ut_node = ''node'', ut_status = Pending, ut_error = [], ut_updated = 9\<rparr>], demo_removing)"
    using demo_run_fleet(5) by simp
  ultimately have "assigned_revisions ''node'' demo_removing = filter (\<lambda>rid. \<not> (member demo_assigned (as_group ?a) ''node'' \<and>
      revision_in demo_assigned rid (as_app ?a) (as_env ?a))) (assigned_revisions ''node'' demo_assigned)"
    by (rule unassign_stops_delivery [OF demo_reachable(1)])
  then show ?thesis
    by (simp add: assigned_revisions_def assigned_revisions_q_def demo_defs member_def revision_in_def)
qed

section \<open>Publication and rollback advance the Desired State\<close>

lemma advance_revision_eq:
  "\<exists>r \<in> set (t_revisions d). br_id r = rid \<Longrightarrow>
   advance_desired_revision app env rid d = Inr (d\<lparr>t_assignments :=
     upd (\<lambda>a. as_app a = app \<and> as_env a = env \<and> as_status a = Active) (\<lambda>a. a\<lparr>as_rev := rid\<rparr>) (t_assignments d)\<rparr>)"
  by (auto simp: advance_desired_revision_def advance_desired_revision_q_def Let_def)

text \<open>Moving the active Assignments of a Secret Bundle to a revision of it, as publication and rollback do,
  cannot fail, and replaces for every Managed Node the revision it was assigned of that Secret Bundle, if
  any, by the new one: the other Secret Bundles are unaffected and no node gains one.\<close>

theorem advance_replaces_revision:
  assumes "core_step\<^sup>*\<^sup>* empty_db d" "revision_in d rid app env"
  shows "\<exists>d'. advance_desired_revision app env rid d = Inr d' \<and>
    (\<forall>n. assigned_revisions n d' =
       sort (remdups (map (\<lambda>r. if revision_in d r app env then rid else r) (assigned_revisions n d))))"
proof -
  have ok: "bundle_ok d" "fleet_ok d" using core.reachable_inv [OF refl assms(1)] by blast+
  note keys = bundle_okD(1) [OF ok(1)] and f = fleet_okD [OF ok(2)]
  let ?p = "\<lambda>a. as_app a = app \<and> as_env a = env \<and> as_status a = Active"
  define h :: "assignment_row \<Rightarrow> assignment_row" where "h = (\<lambda>a. if ?p a then a\<lparr>as_rev := rid\<rparr> else a)"
  define g where "g = (\<lambda>r. if revision_in d r app env then rid else r)"
  define d' where "d' = d\<lparr>t_assignments := upd ?p (\<lambda>a. a\<lparr>as_rev := rid\<rparr>) (t_assignments d)\<rparr>"
  have adv: "advance_desired_revision app env rid d = Inr d'"
    unfolding d'_def using assms(2) by (intro advance_revision_eq) (auto simp: revision_in_def)
  have act: "actives d' = h ` actives d" by (auto simp: d'_def actives_def set_upd h_def)
  have mem: "member d' = member d" by (rule member_cong) (simp add: d'_def)
  have rev: "as_rev (h a) = g (as_rev a) \<and> as_group (h a) = as_group a" if a: "a \<in> actives d" for a
  proof (cases "as_app a = app \<and> as_env a = env")
    case True
    moreover have "as_status a = Active" using a by (simp add: actives_def)
    ultimately show ?thesis using active_revision [OF f(2) a] by (simp add: h_def g_def)
  next
    case False
    then have "\<not> revision_in d (as_rev a) app env" using active_bundle [OF keys f(2) a] by blast
    with False show ?thesis by (auto simp: h_def g_def)
  qed
  have "assigned_revisions n d' = sort (remdups (map g (assigned_revisions n d)))" for n
  proof (rule assigned_eqI)
    show "r \<in> set (sort (remdups (map g (assigned_revisions n d)))) \<longleftrightarrow>
        (\<exists>a \<in> actives d'. member d' (as_group a) n \<and> as_rev a = r)" for r
    proof
      assume "r \<in> set (sort (remdups (map g (assigned_revisions n d))))"
      then obtain a where "a \<in> actives d" "member d (as_group a) n" "r = g (as_rev a)"
        by (auto simp: assigned_iff)
      then show "\<exists>a \<in> actives d'. member d' (as_group a) n \<and> as_rev a = r"
        unfolding act mem using rev by force
    next
      assume "\<exists>a \<in> actives d'. member d' (as_group a) n \<and> as_rev a = r"
      then obtain a where a: "a \<in> actives d" "member d (as_group (h a)) n" "r = as_rev (h a)"
        unfolding act mem by blast
      then have "as_rev a \<in> set (assigned_revisions n d)" unfolding assigned_iff using rev by metis
      with a rev show "r \<in> set (sort (remdups (map g (assigned_revisions n d))))" by force
    qed
  qed simp_all
  with adv show ?thesis unfolding g_def by blast
qed

theorem advance_replaces_revision_witness:
  "\<exists>d'. advance_desired_revision ''app'' ''env'' ''rev1'' demo_assigned = Inr d' \<and>
     assigned_revisions ''node'' d' = [''rev1'']"
proof -
  have "revision_in demo_assigned ''rev1'' ''app'' ''env''" by (simp add: revision_in_def demo_defs)
  moreover have "assigned_revisions ''node'' demo_assigned = [''rev1'']"
    by (simp add: assigned_revisions_def assigned_revisions_q_def demo_defs)
  ultimately show ?thesis
    using advance_replaces_revision [OF demo_reachable(1)] by fastforce
qed

section \<open>Assignment\<close>

text \<open>The revision a new Assignment starts from.\<close>

lemma latest_revision_in:
  "select_latest_revision_q app env d = Inr rid \<Longrightarrow> revision_in d rid app env"
proof -
  assume "select_latest_revision_q app env d = Inr rid"
  then obtain r rs where "newest_first (filter (\<lambda>r. br_app r = app \<and> br_env r = env) (t_revisions d)) = r # rs"
    and "rid = br_id r"
    by (auto simp: select_latest_revision_q_def split: list.splits)
  then have "r \<in> set (newest_first (filter (\<lambda>r. br_app r = app \<and> br_env r = env) (t_revisions d)))" by simp
  then have "r \<in> set (t_revisions d) \<and> br_app r = app \<and> br_env r = env"
    by (simp add: newest_first_def)
  with \<open>rid = br_id r\<close> show ?thesis by (auto simp: revision_in_def)
qed

lemma latest_revision_none:
  "select_latest_revision_q app env d = Inl e \<longleftrightarrow> e = NoRows \<and> (\<nexists>rid. revision_in d rid app env)"
proof -
  have "newest_first rs = [] \<longleftrightarrow> rs = []" for rs by (simp add: newest_first_def flip: length_0_conv)
  then have "(\<exists>rid. revision_in d rid app env) \<longleftrightarrow>
      newest_first (filter (\<lambda>r. br_app r = app \<and> br_env r = env) (t_revisions d)) \<noteq> []"
    by (auto simp: revision_in_def filter_empty_conv)
  then show ?thesis by (auto simp: select_latest_revision_q_def split: list.splits)
qed

lemma assignment_conflict_iff:
  "assignment_conflict_q app env g d \<longleftrightarrow>
    (\<exists>n. \<exists>a \<in> actives d. member d g n \<and> member d (as_group a) n \<and> as_group a \<noteq> g \<and> as_app a = app \<and> as_env a = env)"
proof
  assume "assignment_conflict_q app env g d"
  then obtain m a where m: "m \<in> set (t_members d)" "member d g (gm_node m)" and a: "a \<in> set (t_assignments d)"
    "as_group a = gm_group m" "as_app a = app" "as_env a = env" "as_status a = Active" "as_group a \<noteq> g"
    unfolding assignment_conflict_q_def exists_row_iff members_of_iff by blast
  moreover from m a have "member d (as_group a) (gm_node m)" by (auto simp: member_def)
  ultimately show "\<exists>n. \<exists>a \<in> actives d. member d g n \<and> member d (as_group a) n \<and> as_group a \<noteq> g \<and>
      as_app a = app \<and> as_env a = env"
    by (intro exI [of _ "gm_node m"] bexI [of _ a]) (simp_all add: actives_def)
next
  assume "\<exists>n. \<exists>a \<in> actives d. member d g n \<and> member d (as_group a) n \<and> as_group a \<noteq> g \<and>
      as_app a = app \<and> as_env a = env"
  then obtain n a where a: "a \<in> actives d" "member d g n" "member d (as_group a) n" "as_group a \<noteq> g"
    "as_app a = app" "as_env a = env" by blast
  from a(3) obtain m where m: "m \<in> set (t_members d)" "gm_group m = as_group a" "gm_node m = n"
    by (auto simp: member_def)
  with a show "assignment_conflict_q app env g d"
    unfolding assignment_conflict_q_def exists_row_iff members_of_iff
    by (intro bexI [OF _ m(1)] conjI bexI [of _ a]) (simp_all add: actives_def)
qed

lemma group_name_eq:
  "select_node_group_name_q g d =
     (case one (\<lambda>r. ng_id r = g) (t_groups d) of None \<Rightarrow> Inl NoRows | Some r \<Rightarrow> Inr (ng_name r))"
  by (cases "one (\<lambda>r. ng_id r = g) (t_groups d)")
    (simp_all add: select_node_group_name_q_def row_of_def del: one_None)

text \<open>A successful \<open>CreateAssignment\<close> gives the members of the Node Group the revision it returns.\<close>

lemma create_assignment_delivers:
  assumes "create_assignment i g app env ts d = Inr (v, d')"
  shows "set (assigned_revisions n d') = set (assigned_revisions n d) \<union> (if member d g n then {asg_rev v} else {})"
    "select_latest_revision_q app env d = Inr (asg_rev v)" "asg_status v = Active"
proof -
  obtain a where a: "d' = d\<lparr>t_assignments := t_assignments d @ [a]\<rparr>" "as_group a = g" "as_status a = Active"
    "select_latest_revision_q app env d = Inr (as_rev a)"
    using assms by (rule create_assignment_Inr)
  have v: "asg_rev v = as_rev a" "asg_status v = Active"
    using assms a(4) by (auto simp: create_assignment_def split: if_splits prod.splits)
  have act: "actives d' = insert a (actives d)" using a(3) by (auto simp: a(1) actives_def)
  have mem: "member d' = member d" by (rule member_cong) (simp add: a(1))
  show "set (assigned_revisions n d') = set (assigned_revisions n d) \<union> (if member d g n then {asg_rev v} else {})"
    unfolding set_eq_iff Un_iff assigned_iff act mem v using a(2) by auto
  show "select_latest_revision_q app env d = Inr (asg_rev v)" "asg_status v = Active" using a(4) v by simp_all
qed

lemma create_assignment_no_group:
  "\<nexists>r. r \<in> set (t_groups d) \<and> ng_id r = g \<Longrightarrow> create_assignment i g app env ts d = Inl ErrNotFound"
proof -
  assume "\<nexists>r. r \<in> set (t_groups d) \<and> ng_id r = g"
  then have "one (\<lambda>r. ng_id r = g) (t_groups d) = None" by auto
  then have "select_node_group_name_q g d = Inl NoRows" by (simp add: group_name_eq del: one_None)
  then show ?thesis by (simp add: create_assignment_def)
qed

lemma create_assignment_eq:
  assumes "one (\<lambda>r. ng_id r = g) (t_groups d) = Some r"
  shows "create_assignment i g app env ts d = (if \<not> environment_exists_q env app d then Inl ErrNotFound
     else and_then (on_err (\<lambda>e. if e = NoRows then ErrBadPayload else ErrPg e) (select_latest_revision_q app env d))
       (\<lambda>rid. if assignment_conflict_q app env g d then Inl ErrConflict
         else and_then (on_err dup_or_pg (insert_assignment_q i g app env rid ts d)) (\<lambda>(created, d').
           Inr (\<lparr>asg_id = i, asg_group = g, asg_group_name = ng_name r, asg_app = app, asg_env = env,
                 asg_rev = rid, asg_status = Active, asg_created = created\<rparr>, d'))))"
  by (simp add: create_assignment_def group_name_eq assms)

text \<open>Creating an Assignment answers with the first condition that fails, in the order Node Group, Environment,
  published revision, exclusive source, duplicate; when none fails it succeeds, its revision is the latest
  one, the members of the Node Group are assigned that revision, and no other node's deliveries change.\<close>

theorem create_assignment_outcome:
  assumes "core_step\<^sup>*\<^sup>* empty_db d"
  shows "if (\<nexists>r. r \<in> set (t_groups d) \<and> ng_id r = g) then create_assignment i g app env ts d = Inl ErrNotFound
    else if \<not> environment_exists_q env app d then create_assignment i g app env ts d = Inl ErrNotFound
    else if \<nexists>rid. revision_in d rid app env then create_assignment i g app env ts d = Inl ErrBadPayload
    else if \<exists>n a. a \<in> actives d \<and> member d g n \<and> member d (as_group a) n \<and> as_group a \<noteq> g \<and>
           as_app a = app \<and> as_env a = env then create_assignment i g app env ts d = Inl ErrConflict
    else if \<exists>a. a \<in> set (t_assignments d) \<and> (as_id a = i \<or> as_group a = g \<and> as_app a = app \<and>
           as_env a = env \<and> as_status a = Active) then create_assignment i g app env ts d = Inl ErrDuplicate
    else \<exists>v d'. create_assignment i g app env ts d = Inr (v, d') \<and>
           select_latest_revision_q app env d = Inr (asg_rev v) \<and> asg_status v = Active \<and>
           (\<forall>n. set (assigned_revisions n d') = set (assigned_revisions n d) \<union>
              (if member d g n then {asg_rev v} else {}))"
    (is "if ?grp then _ else if ?env then _ else if ?rev then _ else if ?src then _ else if ?dup then _ else _")
proof -
  let ?c = "create_assignment i g app env ts d"
  have conf: "assignment_conflict_q app env g d \<longleftrightarrow> ?src" unfolding assignment_conflict_iff by blast
  show ?thesis
  proof (cases ?grp)
    case True
    then show ?thesis by (simp add: create_assignment_no_group)
  next
    case grp: False
    then obtain r where r: "one (\<lambda>r. ng_id r = g) (t_groups d) = Some r"
      by (cases "one (\<lambda>r. ng_id r = g) (t_groups d)") auto
    note c = create_assignment_eq [OF r, of i app env ts]
    show ?thesis
    proof (cases "select_latest_revision_q app env d")
      case (Inl e)
      then have ?rev "e = NoRows" unfolding latest_revision_none by blast+
      with grp Inl show ?thesis by (simp add: c)
    next
      case (Inr rid)
      note rin = latest_revision_in [OF Inr]
      then have rev: "\<not> ?rev" by blast
      have fk: "exists_row (\<lambda>r. ng_id r = g) (t_groups d)" "exists_row (\<lambda>r. br_id r = rid) (t_revisions d)"
        using grp rin by (auto simp: revision_in_def)
      have ins: "insert_assignment_q i g app env rid ts d = Inl UniqueViolation" if ?dup
        using that by (auto simp: insert_assignment_q_def)
      have ok: "\<exists>v d'. ?c = Inr (v, d')" if "environment_exists_q env app d" "\<not> ?src" "\<not> ?dup"
      proof -
        have "\<not> exists_row (\<lambda>a. as_id a = i \<or> as_group a = g \<and> as_app a = app \<and> as_env a = env \<and> as_status a = Active)
            (t_assignments d)"
          using that(3) by auto
        then show ?thesis
          unfolding c Inr insert_assignment_q_def using fk conf that by simp
      qed
      show ?thesis
      proof (cases "environment_exists_q env app d \<and> \<not> ?src \<and> \<not> ?dup")
        case True
        then obtain v d' where v: "?c = Inr (v, d')" using ok by blast
        with create_assignment_delivers [OF v] True grp rev show ?thesis by simp
      next
        case False
        with grp rev conf ins show ?thesis by (auto simp: c Inr dup_or_pg_def)
      qed
    qed
  qed
qed

theorem create_assignment_outcome_witness:
  "create_assignment ''other'' ''grp'' ''app'' ''env'' 9 demo_assigned = Inl ErrDuplicate"
proof -
  have c: "(\<nexists>r. r \<in> set (t_groups demo_assigned) \<and> ng_id r = ''grp'') = False"
    "(\<not> environment_exists_q ''env'' ''app'' demo_assigned) = False"
    "(\<nexists>rid. revision_in demo_assigned rid ''app'' ''env'') = False"
    "(\<exists>n a. a \<in> actives demo_assigned \<and> member demo_assigned ''grp'' n \<and> member demo_assigned (as_group a) n \<and>
       as_group a \<noteq> ''grp'' \<and> as_app a = ''app'' \<and> as_env a = ''env'') = False"
    "(\<exists>a. a \<in> set (t_assignments demo_assigned) \<and> (as_id a = ''other'' \<or> as_group a = ''grp'' \<and>
       as_app a = ''app'' \<and> as_env a = ''env'' \<and> as_status a = Active)) = True"
    by (simp_all add: demo_defs environment_exists_q_def revision_in_def actives_def)
  show ?thesis
    using create_assignment_outcome [OF demo_reachable(1), where g = "''grp''" and env = "''env''" and app = "''app''"
        and i = "''other''" and ts = 9]
    unfolding c by simp
qed

section \<open>Membership of a Node Group\<close>

lemma group_member_conflict_iff:
  "group_member_conflict_q g n d \<longleftrightarrow>
    (\<exists>a \<in> actives d. \<exists>b \<in> actives d. as_group a = g \<and> same_bundle a b \<and> as_group b \<noteq> g \<and> member d (as_group b) n)"
proof
  assume "group_member_conflict_q g n d"
  then obtain a b m where "a \<in> set (t_assignments d)" "as_group a = g" "as_status a = Active"
    "b \<in> set (t_assignments d)" "as_status b = Active" "as_app b = as_app a" "as_env b = as_env a"
    "as_group b \<noteq> as_group a" "m \<in> set (t_members d)" "gm_group m = as_group b" "gm_node m = n"
    unfolding group_member_conflict_q_def exists_row_iff by blast
  then show "\<exists>a \<in> actives d. \<exists>b \<in> actives d. as_group a = g \<and> same_bundle a b \<and> as_group b \<noteq> g \<and> member d (as_group b) n"
    by (intro bexI [of _ a] bexI [of _ b]) (auto simp: actives_def same_bundle_def member_def)
next
  assume "\<exists>a \<in> actives d. \<exists>b \<in> actives d. as_group a = g \<and> same_bundle a b \<and> as_group b \<noteq> g \<and> member d (as_group b) n"
  then obtain a b m where "a \<in> actives d" "b \<in> actives d" "as_group a = g" "same_bundle a b" "as_group b \<noteq> g"
    "m \<in> set (t_members d)" "gm_group m = as_group b" "gm_node m = n"
    unfolding member_def by blast
  then show "group_member_conflict_q g n d"
    unfolding group_member_conflict_q_def exists_row_iff actives_def same_bundle_def
    by (intro bexI [of _ a] conjI bexI [of _ b] bexI [of _ m]) simp_all
qed

lemma add_group_member_eq:
  "add_group_member g n d =
     (if member d g n then if group_member_conflict_q g n d then Inl ErrConflict else Inr d
      else if \<not> (\<exists>r \<in> set (t_groups d). ng_id r = g) \<or> \<not> (\<exists>r \<in> set (t_nodes d). nd_id r = n) then Inl ErrNotFound
      else let d' = d\<lparr>t_members := t_members d @ [\<lparr>gm_group = g, gm_node = n\<rparr>]\<rparr> in
        if group_member_conflict_q g n d' then Inl ErrConflict else Inr d')"
proof -
  have "(\<exists>m \<in> set (t_members d). gm_group m = g \<and> gm_node m = n) \<longleftrightarrow> member d g n" by (simp add: member_def)
  then show ?thesis by (simp add: add_group_member_def insert_group_member_q_def Let_def)
qed

text \<open>Adding a Managed Node to a Node Group it is in changes nothing; an unknown group or node is not found; a
  node that would receive a Secret Bundle from a second active Assignment is refused; otherwise the node
  is assigned the revisions of the group's active Assignments besides its own, and no other node's
  deliveries change.\<close>

theorem add_group_member_outcome:
  assumes "core_step\<^sup>*\<^sup>* empty_db d"
  shows "if member d g n then add_group_member g n d = Inr d
    else if (\<nexists>r. r \<in> set (t_groups d) \<and> ng_id r = g) \<or> (\<nexists>r. r \<in> set (t_nodes d) \<and> nd_id r = n)
    then add_group_member g n d = Inl ErrNotFound
    else if \<exists>a b. a \<in> actives d \<and> b \<in> actives d \<and> as_group a = g \<and> same_bundle a b \<and> as_group b \<noteq> g \<and>
           member d (as_group b) n then add_group_member g n d = Inl ErrConflict
    else \<exists>d'. add_group_member g n d = Inr d' \<and>
      (\<forall>k. set (assigned_revisions k d') = set (assigned_revisions k d) \<union>
         {as_rev a | a. a \<in> actives d \<and> as_group a = g \<and> k = n})"
    (is "if ?in then _ else if ?none then _ else if ?src then _ else _")
proof -
  have ok: "fleet_ok d" using core.reachable_inv [OF refl assms] by blast
  let ?d = "d\<lparr>t_members := t_members d @ [\<lparr>gm_group = g, gm_node = n\<rparr>]\<rparr>"
  have act: "actives ?d = actives d" by (simp add: actives_def)
  have mem: "member ?d x y \<longleftrightarrow> member d x y \<or> (x = g \<and> y = n)" for x y by (auto simp: member_def)
  have src: "group_member_conflict_q g n ?d \<longleftrightarrow> ?src"
    unfolding group_member_conflict_iff act mem by blast
  show ?thesis
  proof (cases ?in)
    case True
    have "\<not> group_member_conflict_q g n d"
    proof
      assume "group_member_conflict_q g n d"
      then obtain a b where ab: "a \<in> actives d" "b \<in> actives d" "as_group a = g" "same_bundle a b"
        "as_group b \<noteq> g" "member d (as_group b) n"
        unfolding group_member_conflict_iff by blast
      with True fleet_okD(3) [OF ok] have "as_id a = as_id b" unfolding exclusive_def by blast
      moreover have "distinct (map as_id (t_assignments d))" using fleet_okD(1) [OF ok] by (simp add: fleet_keys_def)
      ultimately have "a = b" using ab(1,2) by (auto simp: actives_def dest: distinct_key_eq)
      with ab(3,5) show False by simp
    qed
    with True show ?thesis by (simp add: add_group_member_eq)
  next
    case False
    show ?thesis
    proof (cases "?none \<or> ?src")
      case True
      with False src show ?thesis by (auto simp: add_group_member_eq Let_def)
    next
      case no: False
      with False src have "add_group_member g n d = Inr ?d" by (auto simp: add_group_member_eq Let_def)
      moreover have "set (assigned_revisions k ?d) = set (assigned_revisions k d) \<union>
          {as_rev a | a. a \<in> actives d \<and> as_group a = g \<and> k = n}" for k
        unfolding set_eq_iff Un_iff assigned_iff act mem by blast
      ultimately have "\<exists>d'. add_group_member g n d = Inr d' \<and> (\<forall>k. set (assigned_revisions k d') =
          set (assigned_revisions k d) \<union> {as_rev a | a. a \<in> actives d \<and> as_group a = g \<and> k = n})"
        by (intro exI [of _ ?d] conjI allI)
      with False no show ?thesis by simp blast
    qed
  qed
qed

theorem add_group_member_outcome_witness:
  "add_group_member ''grp'' ''ghost'' demo_assigned = Inl ErrNotFound"
proof -
  have c: "member demo_assigned ''grp'' ''ghost'' = False"
    "((\<nexists>r. r \<in> set (t_groups demo_assigned) \<and> ng_id r = ''grp'') \<or>
      (\<nexists>r. r \<in> set (t_nodes demo_assigned) \<and> nd_id r = ''ghost'')) = True"
    by (simp_all add: demo_defs member_def)
  show ?thesis
    using add_group_member_outcome [OF demo_reachable(1), of "''grp''" "''ghost''"] unfolding c by simp
qed

end
