(* ===== verification/OneShot.thy ===== *)
theory OneShot
  imports Prelude
begin

text \<open>
  Single-use credentials. The locale \<open>one_shot\<close> is the contract: using a credential spends it, and no other step of
  the system brings it back, so it is used at most once. \<open>one_shot_rows\<close> is how the store gives the contract: a
  credential is a row of a table, found by its key, that an operation marks; no step frees a row. Each table of credentials
  interprets it: Enrollment Tokens, Bootstrap Codes, Recovery Codes, TOTP counters, login challenges and OIDC transactions.
\<close>

locale one_shot =
  fixes spend :: "'k \<Rightarrow> 's \<Rightarrow> 's \<Rightarrow> bool" and spent :: "'k \<Rightarrow> 's \<Rightarrow> bool" and other :: "'k \<Rightarrow> 's \<Rightarrow> 's \<Rightarrow> bool"
  assumes spend_unspent: "spend k s t \<Longrightarrow> \<not> spent k s"
    and spend_spends: "spend k s t \<Longrightarrow> spent k t"
    and spent_stays: "spent k s \<Longrightarrow> other k s t \<Longrightarrow> spent k t"
begin

lemma spent_forever: "(other k)\<^sup>*\<^sup>* s t \<Longrightarrow> spent k s \<Longrightarrow> spent k t"
  by (induction rule: rtranclp_induct) (auto intro: spent_stays)

lemma at_most_once: "spend k s t \<Longrightarrow> (other k)\<^sup>*\<^sup>* t u \<Longrightarrow> \<not> spend k u v"
  using spend_spends spent_forever spend_unspent by blast

end

text \<open>No row with this key is free; and a step that brings no new row with this key.\<close>

definition spent_row :: "('s \<Rightarrow> 'r list) \<Rightarrow> ('r \<Rightarrow> 'k) \<Rightarrow> ('r \<Rightarrow> bool) \<Rightarrow> 'k \<Rightarrow> 's \<Rightarrow> bool" where
  "spent_row rows key free k s \<longleftrightarrow> (\<forall>r \<in> set (rows s). key r = k \<longrightarrow> \<not> free r)"

definition no_new_row ::
    "('s \<Rightarrow> 's \<Rightarrow> bool) \<Rightarrow> ('s \<Rightarrow> 'r list) \<Rightarrow> ('r \<Rightarrow> 'k) \<Rightarrow> 'k \<Rightarrow> 's \<Rightarrow> 's \<Rightarrow> bool" where
  "no_new_row step rows key k s t \<longleftrightarrow>
     step s t \<and> (\<forall>r \<in> set (rows t). key r = k \<longrightarrow> (\<exists>x \<in> set (rows s). key x = k))"

locale one_shot_rows =
  fixes spend :: "'k \<Rightarrow> 's \<Rightarrow> 's \<Rightarrow> bool" and step :: "'s \<Rightarrow> 's \<Rightarrow> bool" and rows :: "'s \<Rightarrow> 'r list"
    and key :: "'r \<Rightarrow> 'k" and free :: "'r \<Rightarrow> bool"
  assumes spend_free: "spend k s t \<Longrightarrow> \<exists>r \<in> set (rows s). key r = k \<and> free r"
    and spend_marks: "spend k s t \<Longrightarrow> spent_row rows key free k t"
    and step_frees_none: "step s t \<Longrightarrow> r \<in> set (rows t) \<Longrightarrow> free r \<Longrightarrow> x \<in> set (rows s) \<Longrightarrow> key x = key r \<Longrightarrow>
      \<exists>y \<in> set (rows s). key y = key r \<and> free y"

sublocale one_shot_rows \<subseteq> one_shot spend "spent_row rows key free" "no_new_row step rows key"
proof
  show "\<not> spent_row rows key free k s" if "spend k s t" for k s t
    using spend_free [OF that] by (auto simp: spent_row_def)
  show "spent_row rows key free k t" if "spend k s t" for k s t
    using that by (rule spend_marks)
  show "spent_row rows key free k t" if "spent_row rows key free k s" "no_new_row step rows key k s t" for k s t
    unfolding spent_row_def
  proof (intro ballI impI notI)
    fix r assume r: "r \<in> set (rows t)" "key r = k" "free r"
    with that(2) obtain x where "step s t" "x \<in> set (rows s)" "key x = key r" unfolding no_new_row_def by blast
    from step_frees_none [OF this(1) r(1,3) this(2,3)] that(1) r(2) show False unfolding spent_row_def by blast
  qed
qed

text \<open>The usual way a step treats such a table: every row after the step was there before, with its key and no less used,
  or is new.\<close>

lemma frees_none_by_rows:
  assumes "\<And>r. r \<in> set ts \<Longrightarrow> r \<in> set ss \<or> \<not> free r \<or> key r \<notin> key ` set ss"
    and "r \<in> set ts" "free r" "x \<in> set ss" "key x = key r"
  shows "\<exists>y \<in> set ss. key y = key r \<and> free y"
  using assms by (metis image_eqI)

end
