(* ===== verification/Enrollment.thy ===== *)
theory Enrollment
  imports CoreSystem OneShot
begin

text \<open>
  Enrollment Tokens as single-use credentials: the interpretation of \<open>one_shot_rows\<close> on the token table of the store, under
  every operation of the Secret Bundle and the fleet domains.
\<close>

section \<open>Enrollment Tokens\<close>

text \<open>A row is free while it is not used; expiry is a matter of the clock. The hash is the SHA-256 of 32 random bytes.\<close>

definition token_free :: "token_row \<Rightarrow> bool" where
  "token_free t \<longleftrightarrow> et_used t = None"

definition token_consumed :: "string \<Rightarrow> db \<Rightarrow> db \<Rightarrow> bool" where
  "token_consumed h d d' \<longleftrightarrow> (\<exists>t now. consume_enrollment_token h now d = Inr (t, d'))"

definition ok_step :: "db \<Rightarrow> db \<Rightarrow> bool" where
  "ok_step d d' \<longleftrightarrow> bundle_ok d \<and> core_step d d'"

lemma consume_token_eq:
  "consume_enrollment_token h now d =
     (case one (\<lambda>t. et_hash t = h) (t_tokens d) of
        None \<Rightarrow> Inl ErrNotFound
      | Some t \<Rightarrow> if \<not> now < et_expires t \<or> et_used t \<noteq> None then Inl ErrConflict
          else Inr (t, d\<lparr>t_tokens := upd (\<lambda>t. et_hash t = h) (\<lambda>t. t\<lparr>et_used := Some now\<rparr>) (t_tokens d)\<rparr>))"
  by (cases "one (\<lambda>t. et_hash t = h) (t_tokens d)")
    (simp_all add: consume_enrollment_token_def select_enrollment_token_q_def row_of_def
      select_enrollment_token_used_at_q_def mark_enrollment_token_used_q_def del: one_None)

lemma consume_token_Inr:
  assumes "consume_enrollment_token h now d = Inr (t, d')"
  shows "one (\<lambda>t. et_hash t = h) (t_tokens d) = Some t" "et_used t = None" "now < et_expires t"
    "d' = d\<lparr>t_tokens := upd (\<lambda>t. et_hash t = h) (\<lambda>t. t\<lparr>et_used := Some now\<rparr>) (t_tokens d)\<rparr>"
  using assms
  by (cases "one (\<lambda>t. et_hash t = h) (t_tokens d)"; simp add: consume_token_eq del: one_None split: if_splits)+

lemma bundle_step_tokens:
  assumes "bundle_step d d'" "bundle_ok d"
  shows "t_tokens d' = t_tokens d"
  using bundle_step_shrinks [OF assms] by (simp add: fleet_shrinks_def)

lemma fleet_step_tokens:
  assumes "fleet_step d d'" "t \<in> set (t_tokens d')"
  shows "t \<in> set (t_tokens d) \<or> \<not> token_free t \<or> et_hash t \<notin> et_hash ` set (t_tokens d)"
  using assms(1)
proof cases
  case (NewToken hash name node expires ts)
  then show ?thesis using assms(2)
    by (auto simp: create_node_enrollment_token_def create_node_enrollment_token_q_def split: if_splits)
next
  case (UseToken hash now u)
  then have "t_tokens d' = upd (\<lambda>t. et_hash t = hash) (\<lambda>t. t\<lparr>et_used := Some now\<rparr>) (t_tokens d)"
    by (subst consume_token_Inr(4)) simp_all
  then show ?thesis using assms(2) by (auto simp: token_free_def set_upd_split)
next
  case (DropNode i)
  then have "set (t_tokens d') \<subseteq> set (t_tokens d)"
    by (auto simp: delete_node_def delete_node_q_def drop_nodes_def Let_def split: if_splits)
  with assms(2) show ?thesis by blast
qed (use assms(2) in \<open>auto simp: fleet_op_defs Let_def drop_groups_def
    split: if_splits option.splits prod.splits\<close>)

lemma ok_step_tokens:
  assumes "ok_step d d'" "t \<in> set (t_tokens d')"
  shows "t \<in> set (t_tokens d) \<or> \<not> token_free t \<or> et_hash t \<notin> et_hash ` set (t_tokens d)"
proof (cases "fleet_step d d'")
  case True
  then show ?thesis using assms(2) by (rule fleet_step_tokens)
next
  case False
  with assms(1) have "bundle_step d d'" "bundle_ok d" by (simp_all add: ok_step_def core_step_def)
  then have "t_tokens d' = t_tokens d" by (rule bundle_step_tokens)
  with assms(2) show ?thesis by simp
qed

interpretation token: one_shot_rows token_consumed ok_step t_tokens et_hash token_free
proof
  fix h d d' assume "token_consumed h d d'"
  then obtain t now where c: "consume_enrollment_token h now d = Inr (t, d')" by (auto simp: token_consumed_def)
  from one_Some [OF consume_token_Inr(1) [OF c]] consume_token_Inr(2) [OF c]
  show "\<exists>t \<in> set (t_tokens d). et_hash t = h \<and> token_free t" by (auto simp: token_free_def)
  from consume_token_Inr(4) [OF c] show "spent_row t_tokens et_hash token_free h d'"
    by (simp add: spent_row_def token_free_def set_upd_split ball_Un)
next
  fix d d' t x assume "ok_step d d'" "t \<in> set (t_tokens d')" "token_free t" "x \<in> set (t_tokens d)" "et_hash x = et_hash t"
  then show "\<exists>y \<in> set (t_tokens d). et_hash y = et_hash t \<and> token_free y"
    by - (rule frees_none_by_rows [of "t_tokens d'"], rule ok_step_tokens)
qed

text \<open>C16: consuming an Enrollment Token answers not found for an unknown hash, and a conflict for a token that is used
  or whose expiry is not after now; otherwise it returns the row and marks it used, and from then on, whatever
  operations of the store run that do not insert a token with that hash, no call with it succeeds again.\<close>

theorem enrollment_token_once:
  "case one (\<lambda>t. et_hash t = h) (t_tokens d) of
     None \<Rightarrow> consume_enrollment_token h now d = Inl ErrNotFound
   | Some t \<Rightarrow> if et_expires t \<le> now \<or> et_used t \<noteq> None then consume_enrollment_token h now d = Inl ErrConflict
       else \<exists>d'. consume_enrollment_token h now d = Inr (t, d') \<and>
         (\<forall>d2 now2. (no_new_row ok_step t_tokens et_hash h)\<^sup>*\<^sup>* d' d2 \<longrightarrow> \<not> (\<exists>v. consume_enrollment_token h now2 d2 = Inr v))"
proof (cases "one (\<lambda>t. et_hash t = h) (t_tokens d)")
  case None
  then show ?thesis by (simp add: consume_token_eq del: one_None)
next
  case (Some t)
  show ?thesis
  proof (cases "et_expires t \<le> now \<or> et_used t \<noteq> None")
    case True
    with Some show ?thesis by (simp add: consume_token_eq not_less)
  next
    case False
    with Some obtain d' where d': "consume_enrollment_token h now d = Inr (t, d')"
      by (simp add: consume_token_eq)
    then have "token_consumed h d d'" by (auto simp: token_consumed_def)
    from token.at_most_once [OF this] have "\<not> (\<exists>v. consume_enrollment_token h now2 d2 = Inr v)"
      if "(no_new_row ok_step t_tokens et_hash h)\<^sup>*\<^sup>* d' d2" for d2 now2
      using that unfolding token_consumed_def by auto
    with Some False d' show ?thesis by auto
  qed
qed

theorem enrollment_token_once_witness:
  "\<exists>d'. consume_enrollment_token ''h'' 3 (empty_db\<lparr>t_tokens := [\<lparr>et_hash = ''h'', et_name = ''host'', et_created = 1,
     et_expires = 9, et_used = None, et_node = None\<rparr>]\<rparr>) =
     Inr (\<lparr>et_hash = ''h'', et_name = ''host'', et_created = 1, et_expires = 9, et_used = None, et_node = None\<rparr>, d') \<and>
     \<not> (\<exists>v. consume_enrollment_token ''h'' 4 d' = Inr v)"
proof -
  let ?t = "\<lparr>et_hash = ''h'', et_name = ''host'', et_created = 1, et_expires = 9, et_used = None, et_node = None\<rparr>"
  have "one (\<lambda>t. et_hash t = ''h'') (t_tokens (empty_db\<lparr>t_tokens := [?t]\<rparr>)) = Some ?t" by (simp add: one_def)
  with enrollment_token_once [where h = "''h''" and d = "empty_db\<lparr>t_tokens := [?t]\<rparr>" and now = 3] show ?thesis by auto
qed

end
