(* ===== verification/Encodings.thy ===== *)
theory Encodings
  imports GoStrings
begin

text \<open>
  Go's \<open>encoding/hex\<close> and \<open>encoding/base64\<close> over byte strings: \<open>hex.EncodeToString\<close>,
  \<open>base64.StdEncoding\<close> (padded) and \<open>base64.RawURLEncoding\<close> (unpadded, URL alphabet). Decoding ignores CR
  and LF and does not check the unused low bits of the last character, as the library does. The main
  facts are that decoding undoes encoding for both alphabets.
\<close>

section \<open>Hexadecimal\<close>

definition hex_encode :: "bytes \<Rightarrow> string" where
  "hex_encode bs = concat (map (\<lambda>c. [digit_char (byte_val c div 16), digit_char (byte_val c mod 16)]) bs)"

lemma length_hex_encode: "length (hex_encode bs) = 2 * length bs"
  by (induction bs) (simp_all add: hex_encode_def)

section \<open>Sextets\<close>

fun sextets :: "nat list \<Rightarrow> nat list" where
  "sextets [] = []"
| "sextets [a] = [a div 4, (a mod 4) * 16]"
| "sextets [a, b] = [a div 4, (a mod 4) * 16 + b div 16, (b mod 16) * 4]"
| "sextets (a # b # c # r) =
     [a div 4, (a mod 4) * 16 + b div 16, (b mod 16) * 4 + c div 64, c mod 64] @ sextets r"

fun unsextets :: "nat list \<Rightarrow> nat list option" where
  "unsextets [] = Some []"
| "unsextets [p] = None"
| "unsextets [p, q] = Some [p * 4 + q div 16]"
| "unsextets [p, q, r] = Some [p * 4 + q div 16, (q mod 16) * 16 + r div 4]"
| "unsextets (p # q # r # s # t) =
     (case unsextets t of None \<Rightarrow> None
      | Some bs \<Rightarrow> Some ([p * 4 + q div 16, (q mod 16) * 16 + r div 4, (r mod 4) * 64 + s] @ bs))"

lemma sextets_lt: "\<forall>x \<in> set bs. x < 256 \<Longrightarrow> \<forall>x \<in> set (sextets bs). x < 64"
proof (induction bs rule: sextets.induct)
  case (4 a b c r)
  then have "a < 256" "b < 256" "c < 256" by simp_all
  then have "a div 4 < 64" "(a mod 4) * 16 + b div 16 < 64" "(b mod 16) * 4 + c div 64 < 64"
    by linarith+
  with 4 show ?case by simp
next
  case (3 a b)
  then have "a < 256" "b < 256" by simp_all
  then have "a div 4 < 64" "(a mod 4) * 16 + b div 16 < 64" "(b mod 16) * 4 < 64" by linarith+
  then show ?case by simp
qed auto

lemma unsextets_sextets: "\<forall>x \<in> set bs. x < 256 \<Longrightarrow> unsextets (sextets bs) = Some bs"
proof (induction bs rule: sextets.induct)
  case (2 a)
  then have "a div 4 * 4 + (a mod 4) * 16 div 16 = a" by simp
  then show ?case by simp
next
  case (3 a b)
  then have b: "b < 256" by simp
  have "((a mod 4) * 16 + b div 16) div 16 = a mod 4" "((a mod 4) * 16 + b div 16) mod 16 = b div 16"
    using b by (simp_all add: less_mult_imp_div_less)
  then show ?case by simp
next
  case (4 a b c r)
  then have b: "b < 256" and c: "c < 256" by simp_all
  have "((a mod 4) * 16 + b div 16) div 16 = a mod 4" "((a mod 4) * 16 + b div 16) mod 16 = b div 16"
    using b by (simp_all add: less_mult_imp_div_less)
  moreover have "((b mod 16) * 4 + c div 64) div 4 = b mod 16" "((b mod 16) * 4 + c div 64) mod 4 = c div 64"
    using c by (simp_all add: less_mult_imp_div_less)
  ultimately show ?case using 4 by simp
qed simp

section \<open>The two alphabets\<close>

definition b64_char :: "bool \<Rightarrow> nat \<Rightarrow> char" where
  "b64_char url n =
     (if n < 26 then char_of (65 + n) else if n < 52 then char_of (71 + n)
      else if n < 62 then char_of (n - 4)
      else if n = 62 then (if url then CHR ''-'' else CHR ''+'')
      else (if url then CHR ''_'' else CHR ''/''))"

definition b64_val :: "bool \<Rightarrow> char \<Rightarrow> nat option" where
  "b64_val url c =
     (let n = byte_val c in
      if 65 \<le> n \<and> n \<le> 90 then Some (n - 65) else if 97 \<le> n \<and> n \<le> 122 then Some (n - 71)
      else if 48 \<le> n \<and> n \<le> 57 then Some (n + 4)
      else if c = (if url then CHR ''-'' else CHR ''+'') then Some 62
      else if c = (if url then CHR ''_'' else CHR ''/'') then Some 63 else None)"

lemma byte_val_b64_char:
  "n < 64 \<Longrightarrow> byte_val (b64_char url n) =
    (if n < 26 then 65 + n else if n < 52 then 71 + n else if n < 62 then n - 4
     else if n = 62 then (if url then 45 else 43) else (if url then 95 else 47))"
  by (auto simp: b64_char_def)

lemma b64_val_char: "n < 64 \<Longrightarrow> b64_val url (b64_char url n) = Some n"
  unfolding b64_val_def Let_def byte_val_b64_char by (auto simp: b64_char_def)

definition b64_special :: "char \<Rightarrow> bool" where
  "b64_special c \<longleftrightarrow> c \<in> {CHR 0x0D, CHR 0x0A, CHR ''=''}"

lemma b64_special_val: "b64_special c \<Longrightarrow> byte_val c \<in> {13, 10, 61}"
  by (auto simp: b64_special_def)

lemma b64_char_not_special: "n < 64 \<Longrightarrow> \<not> b64_special (b64_char url n)"
  by (auto dest!: b64_special_val simp: byte_val_b64_char split: if_splits)

fun b64_vals :: "bool \<Rightarrow> string \<Rightarrow> nat list option" where
  "b64_vals url [] = Some []"
| "b64_vals url (c # s) =
     (case b64_val url c of None \<Rightarrow> None
      | Some v \<Rightarrow> (case b64_vals url s of None \<Rightarrow> None | Some vs \<Rightarrow> Some (v # vs)))"

lemma b64_vals_chars: "\<forall>x \<in> set vs. x < 64 \<Longrightarrow> b64_vals url (map (b64_char url) vs) = Some vs"
  by (induction vs) (simp_all add: b64_val_char)

definition encode_sextets :: "bool \<Rightarrow> bytes \<Rightarrow> string" where
  "encode_sextets url bs = map (b64_char url) (sextets (map byte_val bs))"

definition decode_sextets :: "bool \<Rightarrow> string \<Rightarrow> bytes option" where
  "decode_sextets url s =
     (case b64_vals url s of None \<Rightarrow> None
      | Some vs \<Rightarrow> (case unsextets vs of None \<Rightarrow> None | Some ns \<Rightarrow> Some (map char_of ns)))"

lemma byte_vals_lt: "\<forall>x \<in> set (map byte_val bs). x < (256::nat)"
  by simp

lemma decode_encode_sextets: "decode_sextets url (encode_sextets url bs) = Some bs"
proof -
  have "b64_vals url (encode_sextets url bs) = Some (sextets (map byte_val bs))"
    unfolding encode_sextets_def by (rule b64_vals_chars) (rule sextets_lt [OF byte_vals_lt])
  then show ?thesis
    by (simp add: decode_sextets_def unsextets_sextets [OF byte_vals_lt] comp_def)
qed

lemma encode_sextets_not_special: "c \<in> set (encode_sextets url bs) \<Longrightarrow> \<not> b64_special c"
  using sextets_lt [OF byte_vals_lt, of bs] by (auto simp: encode_sextets_def b64_char_not_special)

section \<open>The library's entry points\<close>

definition strip_newlines :: "string \<Rightarrow> string" where
  "strip_newlines s = filter (\<lambda>c. c \<noteq> CHR 0x0D \<and> c \<noteq> CHR 0x0A) s"

lemma strip_newlines_id: "(\<And>c. c \<in> set s \<Longrightarrow> c \<noteq> CHR 0x0D \<and> c \<noteq> CHR 0x0A) \<Longrightarrow> strip_newlines s = s"
  by (simp add: strip_newlines_def filter_id_conv)

text \<open>\<open>base64.RawURLEncoding\<close>.\<close>

definition raw_url_encode :: "bytes \<Rightarrow> string" where
  "raw_url_encode bs = encode_sextets True bs"

definition raw_url_decode :: "string \<Rightarrow> bytes option" where
  "raw_url_decode s = decode_sextets True (strip_newlines s)"

theorem raw_url_roundtrip: "raw_url_decode (raw_url_encode bs) = Some bs"
proof -
  have "strip_newlines (encode_sextets True bs) = encode_sextets True bs"
    by (rule strip_newlines_id) (drule encode_sextets_not_special, simp add: b64_special_def)
  then show ?thesis
    by (simp add: raw_url_decode_def raw_url_encode_def decode_encode_sextets)
qed

text \<open>
  \<open>base64.StdEncoding\<close>: the encoded text is padded with \<open>=\<close> to a multiple of four characters; decoding
  accepts padding only where it completes the last group of four.
\<close>

definition std_pad :: "nat \<Rightarrow> string" where
  "std_pad n = replicate ((4 - n mod 4) mod 4) (CHR ''='')"

definition std_encode :: "bytes \<Rightarrow> string" where
  "std_encode bs = (let s = encode_sextets False bs in s @ std_pad (length s))"

definition std_decode :: "string \<Rightarrow> bytes option" where
  "std_decode s =
     (let t = strip_newlines s; d = takeWhile (\<lambda>c. c \<noteq> CHR ''='') t; p = dropWhile (\<lambda>c. c \<noteq> CHR ''='') t
      in if p = std_pad (length d) then decode_sextets False d else None)"

theorem std_roundtrip: "std_decode (std_encode bs) = Some bs"
proof -
  let ?s = "encode_sextets False bs"
  have plain: "c \<noteq> CHR 0x0D \<and> c \<noteq> CHR 0x0A \<and> c \<noteq> CHR ''=''" if "c \<in> set ?s" for c
    using encode_sextets_not_special [OF that] by (simp add: b64_special_def)
  have pad: "c = CHR ''=''" if "c \<in> set (std_pad n)" for c n
    using that by (simp add: std_pad_def split: if_splits)
  have strip: "strip_newlines (?s @ std_pad (length ?s)) = ?s @ std_pad (length ?s)"
    by (rule strip_newlines_id) (use plain pad in auto)
  have tw: "takeWhile (\<lambda>c. c \<noteq> CHR ''='') (?s @ std_pad (length ?s)) = ?s"
    using plain by (subst takeWhile_append2) (auto simp: std_pad_def takeWhile_eq_Nil_iff)
  have dw: "dropWhile (\<lambda>c. c \<noteq> CHR ''='') (?s @ std_pad (length ?s)) = std_pad (length ?s)"
    using plain by (subst dropWhile_append2) (auto simp: std_pad_def dropWhile_eq_self_iff)
  show ?thesis
    by (simp only: std_decode_def std_encode_def Let_def strip tw dw decode_encode_sextets) simp
qed

end
