(* ===== verification/Pagination.thy ===== *)
theory Pagination
  imports Scenario Encodings
begin

text \<open>
  Paginated lists: \<open>core/internal/database/pagination.go\<close> with the queries of \<open>queries/pagination.sql\<close>.
  A page is asked for by an opaque cursor, the sort key of a row, or by a page number, and comes with the cursor
  of the next page. The locale \<open>keyset\<close> is a table with a unique sort key; it is interpreted on
  Applications, Node Groups and Assignments.
\<close>

section \<open>Cursors\<close>

record cursor =
  cu_at :: time
  cu_id :: string

text \<open>The zero value of a Go \<open>time.Time\<close> is the first instant of the year 1.\<close>

definition zero_time :: time where
  "zero_time = - 62135596800 * second"

definition no_cursor :: cursor where
  "no_cursor = \<lparr>cu_at = zero_time, cu_id = []\<rparr>"

definition encode_cursor :: "time \<times> string \<Rightarrow> string" where
  "encode_cursor k = raw_url_encode (format_int (to_int64 (fst k)) @ ''|'' @ snd k)"

datatype cursor_error = CorruptBase64 | MalformedCursor | BadNumber

text \<open>\<open>strings.SplitN(s, "|", 2)\<close>: the parts around the first bar, when there is one.\<close>

definition cut_bar :: "string \<Rightarrow> (string \<times> string) option" where
  "cut_bar s = (case dropWhile (\<lambda>c. c \<noteq> CHR ''|'') s of
     [] \<Rightarrow> None | _ # t \<Rightarrow> Some (takeWhile (\<lambda>c. c \<noteq> CHR ''|'') s, t))"

definition decode_cursor :: "string \<Rightarrow> cursor_error + cursor" where
  "decode_cursor v =
     (if v = [] then Inr no_cursor
      else case raw_url_decode v of
        None \<Rightarrow> Inl CorruptBase64
      | Some raw \<Rightarrow> (case cut_bar raw of
          None \<Rightarrow> Inl MalformedCursor
        | Some (n, i) \<Rightarrow> (case parse_int 10 n of
            None \<Rightarrow> Inl BadNumber
          | Some nanos \<Rightarrow> Inr \<lparr>cu_at = nanos, cu_id = i\<rparr>)))"

lemma cut_bar_append: "CHR ''|'' \<notin> set s \<Longrightarrow> cut_bar (s @ CHR ''|'' # t) = Some (s, t)"
  by (simp add: cut_bar_def dropWhile_append takeWhile_append dropWhile_eq_Nil_conv[THEN iffD2] takeWhile_eq_all_conv[THEN iffD2])

section \<open>Limits and offsets\<close>

definition clamp_limit :: "int \<Rightarrow> int" where
  "clamp_limit limit = (if limit \<le> 0 \<or> 100 < limit then 25 else limit)"

definition use_offset :: "cursor \<Rightarrow> int \<Rightarrow> bool" where
  "use_offset c page \<longleftrightarrow> 1 < page \<and> cu_id c = []"

definition page_offset :: "int \<Rightarrow> int \<Rightarrow> int" where
  "page_offset page limit = (if page \<le> 1 then 0 else to_int64 ((page - 1) * limit))"

lemma clamp_limit_range: "1 \<le> clamp_limit l \<and> clamp_limit l \<le> 100"
  by (simp add: clamp_limit_def)

text \<open>\<open>LIMIT\<close> and \<open>OFFSET\<close> refuse a negative count.\<close>

definition sql_limit :: "int \<Rightarrow> 'r list \<Rightarrow> 'r list query" where
  "sql_limit n rs = (if n < 0 then Inl InvalidRowCount else Inr (take (nat n) rs))"

definition sql_offset :: "int \<Rightarrow> 'r list \<Rightarrow> 'r list query" where
  "sql_offset n rs = (if n < 0 then Inl InvalidRowCount else Inr (drop (nat n) rs))"

section \<open>Queries\<close>

definition count_applications_q :: "db \<Rightarrow> nat" where
  "count_applications_q d = length (t_apps d)"

definition count_node_groups_q :: "db \<Rightarrow> nat" where
  "count_node_groups_q d = length (t_groups d)"

definition count_assignments_q :: "db \<Rightarrow> nat" where
  "count_assignments_q d = length (t_assignments d)"

abbreviation app_key :: "application_row \<Rightarrow> time \<times> uuid" where
  "app_key a \<equiv> (ap_created a, ap_id a)"

abbreviation group_key :: "group_row \<Rightarrow> time \<times> uuid" where
  "group_key g \<equiv> (ng_created g, ng_id g)"

abbreviation asg_key :: "assignment_row \<times> group_row \<Rightarrow> time \<times> uuid" where
  "asg_key ag \<equiv> (as_created (fst ag), as_id (fst ag))"

text \<open>The condition \<open>created_at < $1 OR (created_at = $1 AND id < $2)\<close> of a keyset page.\<close>

definition key_before :: "time \<Rightarrow> uuid \<Rightarrow> time \<times> uuid \<Rightarrow> bool" where
  "key_before at i k \<longleftrightarrow> fst k < at \<or> (fst k = at \<and> snd k < i)"

lemma key_before_less: "key_before at i k \<longleftrightarrow> k < (at, i)"
  by (cases k) (simp add: key_before_def less_prod_def')

definition list_applications_first_q :: "int \<Rightarrow> db \<Rightarrow> application_row list query" where
  "list_applications_first_q limit d = sql_limit limit (order_desc app_key (t_apps d))"

definition list_applications_next_q :: "time \<Rightarrow> uuid \<Rightarrow> int \<Rightarrow> db \<Rightarrow> application_row list query" where
  "list_applications_next_q at i limit d =
     sql_limit limit (order_desc app_key (filter (\<lambda>a. key_before at i (app_key a)) (t_apps d)))"

definition list_applications_offset_q :: "int \<Rightarrow> int \<Rightarrow> db \<Rightarrow> application_row list query" where
  "list_applications_offset_q limit off d =
     and_then (sql_offset off (order_desc app_key (t_apps d))) (sql_limit limit)"

definition with_members :: "db \<Rightarrow> group_row \<Rightarrow> group_row \<times> uuid list" where
  "with_members d g = (g, members_of (ng_id g) d)"

definition list_node_groups_first_q :: "int \<Rightarrow> db \<Rightarrow> (group_row \<times> uuid list) list query" where
  "list_node_groups_first_q limit d =
     sql_limit limit (map (with_members d) (order_desc group_key (t_groups d)))"

definition list_node_groups_next_q :: "time \<Rightarrow> uuid \<Rightarrow> int \<Rightarrow> db \<Rightarrow> (group_row \<times> uuid list) list query" where
  "list_node_groups_next_q at i limit d =
     sql_limit limit (map (with_members d)
       (order_desc group_key (filter (\<lambda>g. key_before at i (group_key g)) (t_groups d))))"

definition list_node_groups_offset_q :: "int \<Rightarrow> int \<Rightarrow> db \<Rightarrow> (group_row \<times> uuid list) list query" where
  "list_node_groups_offset_q limit off d =
     and_then (sql_offset off (map (with_members d) (order_desc group_key (t_groups d)))) (sql_limit limit)"

text \<open>The join of the Assignments with their Node Groups, newest first.\<close>

definition joined_assignments :: "db \<Rightarrow> (assignment_row \<times> group_row) list" where
  "joined_assignments d = concat (map (with_group d) (t_assignments d))"

definition list_assignments_first_q :: "int \<Rightarrow> db \<Rightarrow> (assignment_row \<times> group_row) list query" where
  "list_assignments_first_q limit d = sql_limit limit (order_desc asg_key (joined_assignments d))"

definition list_assignments_next_q :: "time \<Rightarrow> uuid \<Rightarrow> int \<Rightarrow> db \<Rightarrow> (assignment_row \<times> group_row) list query" where
  "list_assignments_next_q at i limit d =
     sql_limit limit (order_desc asg_key (filter (\<lambda>ag. key_before at i (asg_key ag)) (joined_assignments d)))"

definition list_assignments_offset_q :: "int \<Rightarrow> int \<Rightarrow> db \<Rightarrow> (assignment_row \<times> group_row) list query" where
  "list_assignments_offset_q limit off d =
     and_then (sql_offset off (order_desc asg_key (joined_assignments d))) (sql_limit limit)"

section \<open>Pages\<close>

definition trim_page :: "'r list \<Rightarrow> int \<Rightarrow> ('r \<Rightarrow> time \<times> string) \<Rightarrow> 'r list \<times> string" where
  "trim_page items limit key =
     (if int (length items) \<le> limit then (items, [])
      else (take (nat limit) items, encode_cursor (key (items ! nat limit))))"

definition list_applications_page ::
    "cursor \<Rightarrow> int \<Rightarrow> int \<Rightarrow> db \<Rightarrow> (application_row list \<times> string \<times> nat) result" where
  "list_applications_page c limit0 page d =
     (let limit = clamp_limit limit0 in
      and_then (on_err ErrPg
        (if use_offset c page
         then list_applications_offset_q (to_int32 (limit + 1)) (to_int32 (page_offset page limit)) d
         else if cu_id c = [] then list_applications_first_q (to_int32 (limit + 1)) d
         else list_applications_next_q (cu_at c) (cu_id c) (to_int32 (limit + 1)) d))
      (\<lambda>rows. case trim_page rows limit (\<lambda>a. (ap_created a, ap_id a)) of
         (items, next) \<Rightarrow> Inr (items, next, count_applications_q d)))"

definition node_group_of :: "group_row \<times> uuid list \<Rightarrow> node_group" where
  "node_group_of gm = (case gm of (g, ms) \<Rightarrow>
     \<lparr>grp_id = ng_id g, grp_name = ng_name g, grp_created = Some (ng_created g), grp_members = ms\<rparr>)"

text \<open>The key of a Node Group; its creation time is set in every row of a page.\<close>

definition node_group_key :: "node_group \<Rightarrow> time \<times> string" where
  "node_group_key g = (case grp_created g of None \<Rightarrow> zero_time | Some t \<Rightarrow> t, grp_id g)"

definition list_node_groups_page ::
    "cursor \<Rightarrow> int \<Rightarrow> int \<Rightarrow> db \<Rightarrow> (node_group list \<times> string \<times> nat) result" where
  "list_node_groups_page c limit0 page d =
     (let limit = clamp_limit limit0 in
      and_then (on_err ErrPg
        (if use_offset c page
         then list_node_groups_offset_q (to_int32 (limit + 1)) (to_int32 (page_offset page limit)) d
         else if cu_id c = [] then list_node_groups_first_q (to_int32 (limit + 1)) d
         else list_node_groups_next_q (cu_at c) (cu_id c) (to_int32 (limit + 1)) d))
      (\<lambda>rows. case trim_page (map node_group_of rows) limit node_group_key of
         (items, next) \<Rightarrow> Inr (items, next, count_node_groups_q d)))"

text \<open>The key of an Assignment is read back from its formatted creation time, which has whole seconds.\<close>

definition list_assignments_page ::
    "cursor \<Rightarrow> int \<Rightarrow> int \<Rightarrow> db \<Rightarrow> (assignment list \<times> string \<times> nat) result" where
  "list_assignments_page c limit0 page d =
     (let limit = clamp_limit limit0 in
      and_then (on_err ErrPg
        (if use_offset c page
         then list_assignments_offset_q (to_int32 (limit + 1)) (to_int32 (page_offset page limit)) d
         else if cu_id c = [] then list_assignments_first_q (to_int32 (limit + 1)) d
         else list_assignments_next_q (cu_at c) (cu_id c) (to_int32 (limit + 1)) d))
      (\<lambda>rows. case trim_page (map assignment_of rows) limit (\<lambda>a. (asg_created a, asg_id a)) of
         (items, next) \<Rightarrow> Inr (items, next, count_assignments_q d)))"

section \<open>Keyset pages\<close>

lemma filter_order_desc: "filter P (order_desc key xs) = order_desc key (filter P xs)"
  by (simp add: order_desc_def filter_sort rev_filter [symmetric])

lemma sorted_strict:
  "sorted_wrt (\<lambda>x y. key y \<le> (key x :: 'k::linorder)) ys \<Longrightarrow> distinct (map key ys) \<Longrightarrow>
   sorted_wrt (\<lambda>x y. key y < key x) ys"
proof (induction ys)
  case (Cons y ys)
  have "key x < key y" if "x \<in> set ys" for x
  proof -
    have "key x \<le> key y" "key x \<noteq> key y" using Cons.prems that by (simp, metis image_eqI distinct.simps(2) list.set_map list.simps(9))
    then show ?thesis by simp
  qed
  with Cons show ?case by simp
qed simp

lemma sorted_desc_strict:
  "distinct (map key xs) \<Longrightarrow> sorted_wrt (\<lambda>x y. key y < key x) (order_desc key xs)"
  by (intro sorted_strict sorted_order_desc) (simp add: map_order_desc)

lemma filter_below_nth:
  "sorted_wrt (\<lambda>x y. key y < (key x :: 'k::linorder)) xs \<Longrightarrow> n < length xs \<Longrightarrow>
   filter (\<lambda>x. key x < key (xs ! n)) xs = drop (Suc n) xs"
proof (induction xs arbitrary: n)
  case (Cons x xs)
  show ?case
  proof (cases n)
    case 0
    with Cons.prems show ?thesis by (auto simp: filter_id_conv)
  next
    case (Suc m)
    with Cons.prems have "key (xs ! m) < key x" by simp
    then have "\<not> key x < key (xs ! m)" by (simp add: not_less less_imp_le)
    with Suc Cons show ?thesis by simp
  qed
qed simp

text \<open>A table with a unique sort key, under an invariant of the database.\<close>

locale keyset =
  fixes wf :: "'d \<Rightarrow> bool" and table :: "'d \<Rightarrow> 'r list" and key :: "'r \<Rightarrow> 'k::linorder"
  assumes unique_keys: "wf d \<Longrightarrow> distinct (map key (table d))"
begin

text \<open>The rows below a row of the sorted table, in the order of the page, are the rest of the table.\<close>

lemma rows_below:
  assumes "wf d" "n < length (table d)"
  shows "order_desc key (filter (\<lambda>r. key r < key (order_desc key (table d) ! n)) (table d)) =
    drop (Suc n) (order_desc key (table d))"
  unfolding filter_order_desc [symmetric]
  by (rule filter_below_nth [OF sorted_desc_strict [OF unique_keys [OF assms(1)]]]) (use assms(2) in simp)

end

interpretation apps: keyset "\<lambda>d. distinct (map ap_id (t_apps d))" t_apps app_key
  by unfold_locales (auto simp: distinct_map inj_on_def)

interpretation groups: keyset "\<lambda>d. distinct (map ng_id (t_groups d))" t_groups group_key
  by unfold_locales (auto simp: distinct_map inj_on_def)

section \<open>Round trip of a cursor\<close>

lemma encode_cursor_nonempty: "encode_cursor k \<noteq> []"
proof
  assume "encode_cursor k = []"
  then have "raw_url_decode [] = Some (format_int (to_int64 (fst k)) @ ''|'' @ snd k)"
    using raw_url_roundtrip by (metis encode_cursor_def)
  then show False by (simp add: raw_url_decode_def strip_newlines_def decode_sextets_def)
qed

lemma show_nat_no_bar: "CHR ''|'' \<notin> set (show_nat 10 n)"
proof
  assume "CHR ''|'' \<in> set (show_nat 10 n)"
  then have "byte_val (CHR ''|'') \<le> 57" using show_nat_chars [of 10 "CHR ''|''" n] by simp
  then show False by simp
qed

lemma format_int_no_bar: "CHR ''|'' \<notin> set (format_int n)"
  by (simp add: format_int_def show_nat_no_bar)

lemma cursor_roundtrip_eq:
  assumes "- (2 ^ 63) \<le> at" "at < 2 ^ 63"
  shows "decode_cursor (encode_cursor (at, i)) = Inr \<lparr>cu_at = at, cu_id = i\<rparr>"
proof -
  have "parse_int 10 (format_int at) = Some at" by (rule parse_format_int [OF assms])
  then show ?thesis
    using cut_bar_append [OF format_int_no_bar]
    by (simp add: decode_cursor_def encode_cursor_nonempty)
      (simp add: encode_cursor_def raw_url_roundtrip to_int64_id [OF assms])
qed

text \<open>C17: decoding a cursor undoes encoding it, for every instant that fits 64 bits of nanoseconds and every id, a
  bar in the id included; no cursor at all decodes to the zero cursor.\<close>

theorem cursor_roundtrip:
  assumes "- (2 ^ 63) \<le> at" "at < 2 ^ 63"
  shows "decode_cursor (encode_cursor (at, i)) = Inr \<lparr>cu_at = at, cu_id = i\<rparr> \<and> decode_cursor [] = Inr no_cursor"
  using cursor_roundtrip_eq [OF assms] by (simp add: decode_cursor_def)

theorem cursor_roundtrip_witness:
  "decode_cursor (encode_cursor (1700000000000000001, ''a|b'')) = Inr \<lparr>cu_at = 1700000000000000001, cu_id = ''a|b''\<rparr>"
  using cursor_roundtrip [of 1700000000000000001 "''a|b''"] by simp

section \<open>Pages by number and pages by cursor\<close>

lemma trim_page_take:
  "0 \<le> limit \<Longrightarrow> fst (trim_page (take (Suc (nat limit)) rs) limit key) = take (nat limit) rs"
  by (auto simp: trim_page_def min_def split: if_splits)

lemma trim_page_next:
  "0 \<le> limit \<Longrightarrow> snd (trim_page (take (Suc (nat limit)) rs) limit key) =
    (if nat limit < length rs then encode_cursor (key (rs ! nat limit)) else [])"
  by (auto simp: trim_page_def min_def split: if_splits)

lemma limit_plus_one: "1 \<le> l \<Longrightarrow> l \<le> 100 \<Longrightarrow> nat (to_int32 (l + 1)) = Suc (nat l) \<and> \<not> to_int32 (l + 1) < 0"
  by (simp add: to_int32_id nat_add_distrib)

lemma clamp_limit_id: "1 \<le> l \<Longrightarrow> l \<le> 100 \<Longrightarrow> clamp_limit l = l"
  by (simp add: clamp_limit_def)

lemma offset_small:
  assumes "1 \<le> page" "0 \<le> l" "(page - 1) * l < 2 ^ 31"
  shows "to_int32 (page_offset page l) = (page - 1) * l" "0 \<le> (page - 1) * l"
proof -
  show pos: "0 \<le> (page - 1) * l" using assms(1,2) by simp
  have "to_int64 ((page - 1) * l) = (page - 1) * l" "to_int32 ((page - 1) * l) = (page - 1) * l"
    using pos assms(3) by (simp_all add: to_int64_id to_int32_id)
  with assms(1) show "to_int32 (page_offset page l) = (page - 1) * l"
    by (cases "page = 1") (simp_all add: page_offset_def)
qed

text \<open>The page of a query that answers the first rows of a list.\<close>

lemma applications_page_eq:
  assumes "1 \<le> l" "l \<le> 100"
    and "(if use_offset c page then list_applications_offset_q (to_int32 (l + 1)) (to_int32 (page_offset page l)) d
      else if cu_id c = [] then list_applications_first_q (to_int32 (l + 1)) d
      else list_applications_next_q (cu_at c) (cu_id c) (to_int32 (l + 1)) d) = Inr (take (Suc (nat l)) rs)"
  shows "list_applications_page c l page d = Inr (take (nat l) rs,
      if nat l < length rs then encode_cursor (app_key (rs ! nat l)) else [], length (t_apps d))"
proof -
  have "trim_page (take (Suc (nat l)) rs) l app_key =
      (take (nat l) rs, if nat l < length rs then encode_cursor (app_key (rs ! nat l)) else [])"
    using assms(1) by (intro prod_eqI) (simp_all add: trim_page_take trim_page_next)
  then show ?thesis
    unfolding list_applications_page_def Let_def clamp_limit_id [OF assms(1,2)] assms(3)
    by (simp add: count_applications_q_def)
qed

text \<open>C18: page numbers partition the table. Page \<open>p\<close> of the Applications holds the rows from \<open>(p - 1) * limit\<close> on, newest
  first and at most \<open>limit\<close> of them, as long as that offset fits the query's 32 bits, and a next cursor exactly
  when a further row exists; so the first \<open>k\<close> pages together are the first \<open>k * limit\<close> rows.\<close>

theorem offset_pages_cover:
  assumes "1 \<le> l" "l \<le> 100"
  shows "(\<forall>p \<ge> 1. (p - 1) * l < 2 ^ 31 \<longrightarrow>
      (\<exists>next. list_applications_page no_cursor l p d =
         Inr (take (nat l) (drop (nat ((p - 1) * l)) (order_desc app_key (t_apps d))), next, length (t_apps d)) \<and>
       (next = [] \<longleftrightarrow> int (length (t_apps d)) \<le> p * l))) \<and>
    concat (map (\<lambda>p. take (nat l) (drop (p * nat l) (order_desc app_key (t_apps d)))) [0..<k]) =
      take (k * nat l) (order_desc app_key (t_apps d))"
proof (intro conjI allI impI)
  let ?s = "order_desc app_key (t_apps d)"
  fix p :: int assume p: "1 \<le> p" "(p - 1) * l < 2 ^ 31"
  let ?off = "(p - 1) * l"
  have off: "to_int32 (page_offset p l) = ?off" "0 \<le> ?off" using offset_small [OF p(1) _ p(2)] assms by simp_all
  have lim: "nat (to_int32 (l + 1)) = Suc (nat l)" "\<not> to_int32 (l + 1) < 0" using limit_plus_one [OF assms] by simp_all
  have rows: "(if use_offset no_cursor p then list_applications_offset_q (to_int32 (l + 1)) (to_int32 (page_offset p l)) d
      else if cu_id no_cursor = [] then list_applications_first_q (to_int32 (l + 1)) d
      else list_applications_next_q (cu_at no_cursor) (cu_id no_cursor) (to_int32 (l + 1)) d) =
      Inr (take (Suc (nat l)) (drop (nat ?off) ?s))"
    using p(1) off lim
    by (cases "p = 1") (simp_all add: use_offset_def no_cursor_def list_applications_offset_q_def
        list_applications_first_q_def sql_offset_def sql_limit_def)
  have page: "list_applications_page no_cursor l p d = Inr (take (nat l) (drop (nat ?off) ?s),
      if nat l < length (drop (nat ?off) ?s) then encode_cursor (app_key (drop (nat ?off) ?s ! nat l)) else [],
      length (t_apps d))"
    by (rule applications_page_eq [OF assms rows])
  have "nat l < length (drop (nat ?off) ?s) \<longleftrightarrow> \<not> int (length (t_apps d)) \<le> p * l"
  proof -
    have "nat l < length (drop (nat ?off) ?s) \<longleftrightarrow> \<not> int (length (t_apps d)) \<le> ?off + l"
      using off(2) assms(1) by auto
    then show ?thesis by (simp add: algebra_simps)
  qed
  then show "\<exists>next. list_applications_page no_cursor l p d =
      Inr (take (nat l) (drop (nat ?off) ?s), next, length (t_apps d)) \<and> (next = [] \<longleftrightarrow> int (length (t_apps d)) \<le> p * l)"
    using page by (auto simp: encode_cursor_nonempty)
next
  show "concat (map (\<lambda>p. take (nat l) (drop (p * nat l) (order_desc app_key (t_apps d)))) [0..<k]) =
      take (k * nat l) (order_desc app_key (t_apps d))"
    by (induction k) (simp_all add: take_add [symmetric] add.commute)
qed

theorem offset_pages_cover_witness:
  "\<exists>next. list_applications_page no_cursor 1 1 demo_assigned =
     Inr ([\<lparr>ap_id = ''app'', ap_name = ''shop'', ap_created = 1\<rparr>], next, 1) \<and> next = []"
proof -
  have "order_desc app_key (t_apps demo_assigned) = [\<lparr>ap_id = ''app'', ap_name = ''shop'', ap_created = 1\<rparr>]"
    by (simp add: demo_defs order_desc_def)
  moreover have "length (t_apps demo_assigned) = 1" by (simp add: demo_defs)
  ultimately show ?thesis
    using offset_pages_cover [of 1 demo_assigned 0, THEN conjunct1, rule_format, of 1] by simp
qed

text \<open>Past 32 bits the offset wraps: the page number that makes it negative is refused by the database.\<close>

lemma page_offset_overflow:
  "list_applications_page no_cursor 25 85899347 d = Inl (ErrPg InvalidRowCount)"
proof -
  have "to_int32 (page_offset 85899347 25) < 0"
    by (simp add: page_offset_def to_int64_id) (simp add: to_int32_def int_word_sint)
  then show ?thesis
    by (simp add: list_applications_page_def clamp_limit_def use_offset_def no_cursor_def
        list_applications_offset_q_def sql_offset_def)
qed

text \<open>A cursor skips a row. Where the table of Applications has more rows than the first page shows, the cursor of
  that page is the key of the first row it does not show, and the page at that cursor starts after that row:
  the row is on neither page.\<close>

theorem cursor_page_skips:
  assumes "distinct (map ap_id (t_apps d))" "1 \<le> l" "l \<le> 100" "nat l < length (t_apps d)"
    and "\<forall>a \<in> set (t_apps d). ap_id a \<noteq> [] \<and> - (2 ^ 63) \<le> ap_created a \<and> ap_created a < 2 ^ 63"
  shows "\<exists>next c next2.
    list_applications_page no_cursor l 1 d = Inr (take (nat l) (order_desc app_key (t_apps d)), next, length (t_apps d)) \<and>
    decode_cursor next = Inr c \<and> (cu_at c, cu_id c) = app_key (order_desc app_key (t_apps d) ! nat l) \<and>
    list_applications_page c l page d =
      Inr (take (nat l) (drop (Suc (nat l)) (order_desc app_key (t_apps d))), next2, length (t_apps d))"
proof -
  let ?s = "order_desc app_key (t_apps d)"
  let ?a = "?s ! nat l"
  have "?a \<in> set ?s" using assms(4) by (intro nth_mem) simp
  then have a: "ap_id ?a \<noteq> []" "- (2 ^ 63) \<le> ap_created ?a" "ap_created ?a < 2 ^ 63" using assms(5) by auto
  let ?c = "\<lparr>cu_at = ap_created ?a, cu_id = ap_id ?a\<rparr>"
  have lim: "nat (to_int32 (l + 1)) = Suc (nat l)" "\<not> to_int32 (l + 1) < 0" using limit_plus_one [OF assms(2,3)] by simp_all
  have first: "list_applications_first_q (to_int32 (l + 1)) d = Inr (take (Suc (nat l)) ?s)"
    by (simp add: list_applications_first_q_def sql_limit_def lim)
  have second: "list_applications_next_q (cu_at ?c) (cu_id ?c) (to_int32 (l + 1)) d =
      Inr (take (Suc (nat l)) (drop (Suc (nat l)) ?s))"
    using apps.rows_below [OF assms(1,4)]
    by (simp add: list_applications_next_q_def sql_limit_def lim key_before_less)
  have "list_applications_page no_cursor l 1 d =
      Inr (take (nat l) ?s, if nat l < length ?s then encode_cursor (app_key ?a) else [], length (t_apps d))"
    by (rule applications_page_eq [OF assms(2,3)]) (simp add: use_offset_def no_cursor_def first)
  then have one: "list_applications_page no_cursor l 1 d = Inr (take (nat l) ?s, encode_cursor (app_key ?a), length (t_apps d))"
    using assms(4) by simp
  have two: "\<exists>next2. list_applications_page ?c l page d =
      Inr (take (nat l) (drop (Suc (nat l)) ?s), next2, length (t_apps d))"
    by (rule exI, rule applications_page_eq [OF assms(2,3)]) (use a(1) second in \<open>simp add: use_offset_def\<close>)
  have dec: "decode_cursor (encode_cursor (app_key ?a)) = Inr ?c"
    using a(2,3) by (intro cursor_roundtrip_eq)
  show ?thesis using one two dec by auto
qed

theorem cursor_page_skips_witness:
  "\<exists>next c next2.
     list_applications_page no_cursor 1 1 (empty_db\<lparr>t_apps := [\<lparr>ap_id = ''a'', ap_name = ''x'', ap_created = 1\<rparr>,
       \<lparr>ap_id = ''b'', ap_name = ''y'', ap_created = 2\<rparr>, \<lparr>ap_id = ''c'', ap_name = ''z'', ap_created = 3\<rparr>]\<rparr>) =
       Inr ([\<lparr>ap_id = ''c'', ap_name = ''z'', ap_created = 3\<rparr>], next, 3) \<and> decode_cursor next = Inr c \<and>
     list_applications_page c 1 1 (empty_db\<lparr>t_apps := [\<lparr>ap_id = ''a'', ap_name = ''x'', ap_created = 1\<rparr>,
       \<lparr>ap_id = ''b'', ap_name = ''y'', ap_created = 2\<rparr>, \<lparr>ap_id = ''c'', ap_name = ''z'', ap_created = 3\<rparr>]\<rparr>) =
       Inr ([\<lparr>ap_id = ''a'', ap_name = ''x'', ap_created = 1\<rparr>], next2, 3)"
proof -
  let ?t = "[\<lparr>ap_id = ''a'', ap_name = ''x'', ap_created = 1\<rparr>,
       \<lparr>ap_id = ''b'', ap_name = ''y'', ap_created = 2\<rparr>, \<lparr>ap_id = ''c'', ap_name = ''z'', ap_created = 3\<rparr>]"
  have "order_desc app_key ?t = rev ?t" by (simp add: order_desc_def)
  with cursor_page_skips [of "empty_db\<lparr>t_apps := ?t\<rparr>" 1 1] show ?thesis by auto
qed

end
