(* ===== verification/AuditLog.thy ===== *)
theory AuditLog
  imports Pagination
begin

text \<open>
  The Audit Events of \<open>core/internal/database/store.go\<close> and the queries of \<open>queries/store.sql\<close> on them:
  appending an event, and the filtered pages of the log. The definitions read and write only the audit table, so they
  are stated for any extension of the database record.
\<close>

section \<open>Appending\<close>

record audit_event =
  ev_actor :: string
  ev_action :: string
  ev_resource :: string
  ev_result :: string
  ev_correlation :: string
  ev_actor_type :: string
  ev_actor_id :: string
  ev_actor_display :: string
  ev_resource_type :: string
  ev_resource_id :: string
  ev_resource_display :: string
  ev_outcome :: string
  ev_category :: string
  ev_explanation :: string
  ev_external :: string

definition split_part :: "string \<Rightarrow> nat \<Rightarrow> string" where
  "split_part s n = (let ps = split_on (CHR '':'') s in if 1 \<le> n \<and> n \<le> length ps then ps ! (n - 1) else [])"

text \<open>\<open>COALESCE(NULLIF(x, ''), y)\<close>.\<close>

definition or_default :: "string \<Rightarrow> string \<Rightarrow> string" where
  "or_default x y = (if x = [] then y else x)"

definition insert_audit_event_q :: "audit_event \<Rightarrow> time \<Rightarrow> 'a db_scheme \<Rightarrow> 'a db_scheme" where
  "insert_audit_event_q e ts d =
     d\<lparr>t_audit := t_audit d @ [\<lparr>ae_id = audit_seq d + 1, ae_actor = ev_actor e, ae_action = ev_action e,
         ae_resource = ev_resource e, ae_result = ev_result e, ae_correlation = ev_correlation e, ae_created = ts,
         ae_actor_type = or_default (ev_actor_type e) (split_part (ev_actor e) 1),
         ae_actor_id = or_default (ev_actor_id e) (split_part (ev_actor e) 2),
         ae_actor_display = or_default (ev_actor_display e) (ev_actor e),
         ae_resource_type = or_default (ev_resource_type e) (split_part (ev_resource e) 1),
         ae_resource_id = or_default (ev_resource_id e) (split_part (ev_resource e) 2),
         ae_resource_display = or_default (ev_resource_display e) (ev_resource e),
         ae_outcome = or_default (ev_outcome e) (ev_result e), ae_category = ev_category e,
         ae_explanation = ev_explanation e, ae_external = ev_external e\<rparr>],
       audit_seq := audit_seq d + 1\<rparr>"

text \<open>The insertion the transactions of the identity domain use leaves the structured columns at their default.\<close>

definition insert_audit_event_legacy_q :: "audit_event \<Rightarrow> time \<Rightarrow> 'a db_scheme \<Rightarrow> 'a db_scheme" where
  "insert_audit_event_legacy_q e ts d =
     d\<lparr>t_audit := t_audit d @ [\<lparr>ae_id = audit_seq d + 1, ae_actor = ev_actor e, ae_action = ev_action e,
         ae_resource = ev_resource e, ae_result = ev_result e, ae_correlation = ev_correlation e, ae_created = ts,
         ae_actor_type = [], ae_actor_id = [], ae_actor_display = [], ae_resource_type = [], ae_resource_id = [],
         ae_resource_display = [], ae_outcome = [], ae_category = [], ae_explanation = [], ae_external = []\<rparr>],
       audit_seq := audit_seq d + 1\<rparr>"

definition append_audit :: "audit_event \<Rightarrow> time \<Rightarrow> 'a db_scheme \<Rightarrow> 'a db_scheme" where
  "append_audit e ts d = insert_audit_event_q e ts d"

definition append_audit_tx :: "audit_event \<Rightarrow> time \<Rightarrow> 'a db_scheme \<Rightarrow> 'a db_scheme" where
  "append_audit_tx e ts d =
     insert_audit_event_legacy_q (if ev_actor e = [] then e\<lparr>ev_actor := ''system''\<rparr> else e) ts d"

text \<open>An event with the first five fields, the others empty.\<close>

definition event :: "string \<Rightarrow> string \<Rightarrow> string \<Rightarrow> string \<Rightarrow> string \<Rightarrow> audit_event" where
  "event actor action resource result corr =
     \<lparr>ev_actor = actor, ev_action = action, ev_resource = resource, ev_result = result, ev_correlation = corr,
      ev_actor_type = [], ev_actor_id = [], ev_actor_display = [], ev_resource_type = [], ev_resource_id = [],
      ev_resource_display = [], ev_outcome = [], ev_category = [], ev_explanation = [], ev_external = []\<rparr>"

section \<open>Listing\<close>

record audit_params =
  pa_actor :: "string option"
  pa_action :: "string option"
  pa_resource :: "string option"
  pa_outcome :: "string option"
  pa_category :: "string option"
  pa_from :: "time option"
  pa_to :: "time option"

text \<open>\<open>x = $1 OR $1 IS NULL\<close>.\<close>

definition opt_matches :: "'b option \<Rightarrow> 'b \<Rightarrow> bool" where
  "opt_matches p x \<longleftrightarrow> (case p of None \<Rightarrow> True | Some y \<Rightarrow> x = y)"

definition audit_matches :: "audit_params \<Rightarrow> audit_row \<Rightarrow> bool" where
  "audit_matches p r \<longleftrightarrow> opt_matches (pa_actor p) (ae_actor r) \<and> opt_matches (pa_action p) (ae_action r) \<and>
     opt_matches (pa_resource p) (ae_resource r) \<and> opt_matches (pa_outcome p) (ae_outcome r) \<and>
     opt_matches (pa_category p) (ae_category r) \<and>
     (case pa_from p of None \<Rightarrow> True | Some t \<Rightarrow> t \<le> ae_created r) \<and>
     (case pa_to p of None \<Rightarrow> True | Some t \<Rightarrow> ae_created r \<le> t)"

definition count_audit_events_q :: "audit_params \<Rightarrow> 'a db_scheme \<Rightarrow> nat" where
  "count_audit_events_q p d = cnt (audit_matches p) (t_audit d)"

text \<open>The creation time is formatted to whole seconds.\<close>

definition shown_event :: "audit_row \<Rightarrow> audit_row" where
  "shown_event r = r\<lparr>ae_created := whole_seconds (ae_created r)\<rparr>"

definition list_audit_q :: "string option \<Rightarrow> string option \<Rightarrow> int \<Rightarrow> 'a db_scheme \<Rightarrow> audit_row list query" where
  "list_audit_q actor action limit d =
     sql_limit limit (map shown_event (order_desc ae_id
       (filter (\<lambda>r. opt_matches actor (ae_actor r) \<and> opt_matches action (ae_action r)) (t_audit d))))"

definition list_audit_page_q :: "int option \<Rightarrow> audit_params \<Rightarrow> int \<Rightarrow> 'a db_scheme \<Rightarrow> audit_row list query" where
  "list_audit_page_q after p limit d =
     sql_limit limit (map shown_event (order_desc ae_id
       (filter (\<lambda>r. (case after of None \<Rightarrow> True | Some i \<Rightarrow> ae_id r < i) \<and> audit_matches p r) (t_audit d))))"

definition list_audit_offset_page_q :: "audit_params \<Rightarrow> int \<Rightarrow> int \<Rightarrow> 'a db_scheme \<Rightarrow> audit_row list query" where
  "list_audit_offset_page_q p off limit d =
     and_then (sql_offset off (map shown_event (order_desc ae_id (filter (audit_matches p) (t_audit d)))))
       (sql_limit limit)"

record audit_filter =
  fl_actor :: string
  fl_action :: string
  fl_resource :: string
  fl_outcome :: string
  fl_category :: string
  fl_from :: time
  fl_to :: time
  fl_limit :: int
  fl_page :: int

definition text_filter :: "string \<Rightarrow> string option" where
  "text_filter s = (if s = [] then None else Some s)"

definition time_filter :: "time \<Rightarrow> time option" where
  "time_filter t = (if t = zero_time then None else Some t)"

text \<open>The columns \<open>ListAudit\<close> does not read stay empty.\<close>

definition plain_event :: "audit_row \<Rightarrow> audit_row" where
  "plain_event r = r\<lparr>ae_actor_type := [], ae_actor_id := [], ae_actor_display := [], ae_resource_type := [],
     ae_resource_id := [], ae_resource_display := [], ae_outcome := [], ae_category := [], ae_explanation := [],
     ae_external := []\<rparr>"

definition list_audit :: "audit_filter \<Rightarrow> 'a db_scheme \<Rightarrow> audit_row list result" where
  "list_audit f d =
     (let limit = (if fl_limit f \<le> 0 \<or> 500 < fl_limit f then 100 else fl_limit f) in
      and_then (on_err ErrPg (list_audit_q (text_filter (fl_actor f)) (text_filter (fl_action f)) (to_int32 limit) d))
        (\<lambda>rows. Inr (map plain_event rows)))"

definition audit_params_of :: "audit_filter \<Rightarrow> audit_params" where
  "audit_params_of f =
     \<lparr>pa_actor = text_filter (fl_actor f), pa_action = text_filter (fl_action f),
      pa_resource = text_filter (fl_resource f), pa_outcome = text_filter (fl_outcome f),
      pa_category = text_filter (fl_category f), pa_from = time_filter (fl_from f), pa_to = time_filter (fl_to f)\<rparr>"

definition trim_audit :: "int \<Rightarrow> audit_row list \<Rightarrow> audit_row list \<times> string" where
  "trim_audit limit out =
     (if int (length out) \<le> limit then (out, []) else (take (nat limit) out, format_int (ae_id (out ! nat limit))))"

definition list_audit_page ::
    "audit_filter \<Rightarrow> int \<Rightarrow> 'a db_scheme \<Rightarrow> (audit_row list \<times> string \<times> nat) result" where
  "list_audit_page f after d =
     (let limit = clamp_limit (fl_limit f); p = audit_params_of f in
      and_then (on_err ErrPg
        (if 1 < fl_page f \<and> after = 0
         then list_audit_offset_page_q p (to_int32 (to_int64 ((fl_page f - 1) * limit))) (to_int32 (limit + 1)) d
         else list_audit_page_q (if 0 < after then Some after else None) p (to_int32 (limit + 1)) d))
      (\<lambda>out. case trim_audit limit out of (items, next) \<Rightarrow> Inr (items, next, count_audit_events_q p d)))"

section \<open>The log only grows\<close>

text \<open>The ids of the log ascend and end at the sequence.\<close>

definition audit_ok :: "'a db_scheme \<Rightarrow> bool" where
  "audit_ok d \<longleftrightarrow> sorted_wrt (<) (map ae_id (t_audit d)) \<and> (\<forall>r \<in> set (t_audit d). 1 \<le> ae_id r \<and> ae_id r \<le> audit_seq d)"

lemma append_audit_grows:
  "\<exists>r. t_audit (append_audit e ts d) = t_audit d @ [r] \<and> ae_id r = audit_seq d + 1 \<and> ae_action r = ev_action e"
  "\<exists>r. t_audit (append_audit_tx e ts d) = t_audit d @ [r] \<and> ae_id r = audit_seq d + 1 \<and> ae_action r = ev_action e"
  by (simp_all add: append_audit_def insert_audit_event_q_def append_audit_tx_def insert_audit_event_legacy_q_def)

lemma append_audit_seq [simp]:
  "audit_seq (append_audit e ts d) = audit_seq d + 1" "audit_seq (append_audit_tx e ts d) = audit_seq d + 1"
  by (simp_all add: append_audit_def insert_audit_event_q_def append_audit_tx_def insert_audit_event_legacy_q_def)

lemma audit_ok_append:
  assumes "audit_ok d" "0 \<le> audit_seq d" "t_audit d' = t_audit d @ [r]" "ae_id r = audit_seq d + 1"
    "audit_seq d' = audit_seq d + 1"
  shows "audit_ok d'"
  using assms by (fastforce simp: audit_ok_def sorted_wrt_append)

section \<open>Pages of the log\<close>

lemma audit_ids_distinct: "audit_ok d \<Longrightarrow> distinct (map ae_id (t_audit d))"
  by (simp add: audit_ok_def strict_sorted_iff)

interpretation audit: keyset audit_ok "\<lambda>d. filter (audit_matches p) (t_audit d)" ae_id for p
  by unfold_locales (simp add: audit_ids_distinct distinct_map_filter)

lemma shown_event_id [simp]: "ae_id (shown_event r) = ae_id r"
  by (simp add: shown_event_def)

lemma audit_page_eq:
  assumes "1 \<le> fl_limit f" "fl_limit f \<le> 100"
    and "(if 1 < fl_page f \<and> after = 0
         then list_audit_offset_page_q (audit_params_of f) (to_int32 (to_int64 ((fl_page f - 1) * fl_limit f)))
           (to_int32 (fl_limit f + 1)) d
         else list_audit_page_q (if 0 < after then Some after else None) (audit_params_of f) (to_int32 (fl_limit f + 1)) d) =
      Inr (take (Suc (nat (fl_limit f))) rs)"
  shows "list_audit_page f after d = Inr (take (nat (fl_limit f)) rs,
      if nat (fl_limit f) < length rs then format_int (ae_id (rs ! nat (fl_limit f))) else [],
      cnt (audit_matches (audit_params_of f)) (t_audit d))"
proof -
  have "trim_audit (fl_limit f) (take (Suc (nat (fl_limit f))) rs) = (take (nat (fl_limit f)) rs,
      if nat (fl_limit f) < length rs then format_int (ae_id (rs ! nat (fl_limit f))) else [])"
    using assms(1) by (auto simp: trim_audit_def min_def split: if_splits)
  then show ?thesis
    unfolding list_audit_page_def Let_def clamp_limit_id [OF assms(1,2)] assms(3)
    by (simp add: count_audit_events_q_def)
qed

text \<open>
  The comment of \<open>ListAuditPage\<close> has the id of the last visible event as the cursor; the code answers that of the first
  event that is not shown, and the page at that cursor begins after it, so a client that follows it misses one event.
\<close>

lemma audit_next_cursor:
  assumes "1 \<le> fl_limit f" "fl_limit f \<le> 100" "fl_page f \<le> 1"
    and "shown = map shown_event (order_desc ae_id (filter (\<lambda>r. (c \<le> 0 \<or> ae_id r < c) \<and> audit_matches (audit_params_of f) r) (t_audit d)))"
  shows "list_audit_page f c d = Inr (take (nat (fl_limit f)) shown,
      if nat (fl_limit f) < length shown then format_int (ae_id (shown ! nat (fl_limit f))) else [],
      cnt (audit_matches (audit_params_of f)) (t_audit d))"
proof (rule audit_page_eq [OF assms(1,2)])
  have lim: "nat (to_int32 (fl_limit f + 1)) = Suc (nat (fl_limit f))" "\<not> to_int32 (fl_limit f + 1) < 0"
    using limit_plus_one [OF assms(1,2)] by simp_all
  have p: "(case if 0 < c then Some c else None of None \<Rightarrow> True | Some i \<Rightarrow> ae_id r < i) \<longleftrightarrow> c \<le> 0 \<or> ae_id r < c" for r
    by auto
  show "(if 1 < fl_page f \<and> c = 0
      then list_audit_offset_page_q (audit_params_of f) (to_int32 (to_int64 ((fl_page f - 1) * fl_limit f)))
        (to_int32 (fl_limit f + 1)) d
      else list_audit_page_q (if 0 < c then Some c else None) (audit_params_of f) (to_int32 (fl_limit f + 1)) d) =
      Inr (take (Suc (nat (fl_limit f))) shown)"
    using assms(3) lim unfolding list_audit_page_q_def p by (simp add: sql_limit_def assms(4) take_map [symmetric])
qed


definition demo_filter :: audit_filter where
  "demo_filter = \<lparr>fl_actor = ''u'', fl_action = [], fl_resource = [], fl_outcome = [], fl_category = [],
     fl_from = zero_time, fl_to = zero_time, fl_limit = 1, fl_page = 0\<rparr>"

definition demo_log :: db where
  "demo_log = append_audit (event ''u'' ''b'' [] [] []) 2 (append_audit (event ''u'' ''a'' [] [] []) 1 empty_db)"

lemma demo_log_rows:
  "map ae_id (filter (audit_matches (audit_params_of demo_filter)) (t_audit demo_log)) = [1, 2]"
  by code_simp


end
