(* ===== verification/IdentitySchema.thy ===== *)
theory IdentitySchema
  imports AuditLog
begin

text \<open>
  The tables of the identity domain (\<open>core/migrations/\<close> 0001, 0003, 0011, 0013 and 0015), as an extension of the
  database record: the Administrator, the organization's login policy, Sessions with their Step-up Grants, TOTP
  enrollments and Recovery Codes, login challenges, OIDC transactions, the two External Identity
  Bindings, and Bootstrap Codes. Columns no query reads are left out.
\<close>

datatype member_role = RoleAdministrator | RoleViewer
datatype member_status = MemberPending | MemberActive | MemberDeactivated
datatype auth_method = AuthLocal | AuthOidc | AuthOAuth

record admin_row =
  ad_id :: uuid
  ad_username :: string
  ad_password :: string
  ad_created :: time
  ad_role :: member_role
  ad_status :: member_status
  ad_activated :: "time option"
  ad_deactivated :: "time option"
  ad_totp :: "int option"

record organization_row =
  og_name :: string
  og_totp :: bool
  og_password :: bool

record mfa_row =
  mf_token :: string
  mf_admin :: uuid
  mf_wrapped :: bytes
  mf_nonces :: bytes
  mf_cipher :: bytes
  mf_confirmation :: "string option"
  mf_expires :: time
  mf_verified :: "time option"
  mf_confirmed :: "time option"

record recovery_row =
  rc_admin :: uuid
  rc_code :: string
  rc_used :: "time option"

record session_row =
  ss_id :: string
  ss_admin :: uuid
  ss_csrf :: string
  ss_expires :: time
  ss_activity :: time
  ss_idle :: time
  ss_method :: auth_method

record grant_row =
  gr_session :: string
  gr_granted :: time
  gr_expires :: time

record challenge_row =
  lc_token :: string
  lc_admin :: uuid
  lc_source :: string
  lc_expires :: time
  lc_used :: "time option"

record external_row =
  xb_admin :: uuid
  xb_issuer :: string
  xb_subject :: string
  xb_display :: string
  xb_created :: time

record transaction_row =
  ot_state :: string
  ot_purpose :: string
  ot_admin :: "uuid option"
  ot_nonce :: string
  ot_verifier :: string
  ot_return :: string
  ot_expires :: time
  ot_used :: "time option"

record bootstrap_row =
  bc_hash :: string
  bc_expires :: time
  bc_used :: "time option"

record invitation_row =
  iv_admin :: uuid
  iv_used :: "time option"
  iv_revoked :: "time option"

record core_db = db +
  t_admins :: "admin_row list"
  t_org :: "organization_row list"
  t_mfa :: "mfa_row list"
  t_recovery :: "recovery_row list"
  t_sessions :: "session_row list"
  t_grants :: "grant_row list"
  t_challenges :: "challenge_row list"
  t_external :: "external_row list"
  t_oauth :: "external_row list"
  t_transactions :: "transaction_row list"
  t_bootstrap :: "bootstrap_row list"
  t_invitations :: "invitation_row list"

definition empty_core :: core_db where
  "empty_core = db.extend empty_db \<lparr>t_admins = [], t_org = [], t_mfa = [], t_recovery = [], t_sessions = [],
     t_grants = [], t_challenges = [], t_external = [], t_oauth = [], t_transactions = [], t_bootstrap = [],
     t_invitations = []\<rparr>"

text \<open>Deleting Sessions deletes their Step-up Grants.\<close>

definition drop_sessions :: "(session_row \<Rightarrow> bool) \<Rightarrow> core_db \<Rightarrow> core_db" where
  "drop_sessions p d =
     (let gone = map ss_id (filter p (t_sessions d)) in
      d\<lparr>t_sessions := del p (t_sessions d), t_grants := del (\<lambda>g. gr_session g \<in> set gone) (t_grants d)\<rparr>)"

end
