(* ===== verification/IdentityQueries.thy ===== *)
theory IdentityQueries
  imports IdentitySchema
begin

text \<open>
  The SQL of \<open>queries/identity.sql\<close> and the identity part of \<open>queries/store.sql\<close>, as
  \<open>core/internal/database/gen/\<close> runs it: one definition per query.
\<close>

definition exists_admin :: "uuid \<Rightarrow> core_db \<Rightarrow> bool" where
  "exists_admin i d \<longleftrightarrow> exists_row (\<lambda>a. ad_id a = i) (t_admins d)"

section \<open>Members and the organization\<close>

definition admin_count_q :: "core_db \<Rightarrow> nat" where
  "admin_count_q d = length (t_admins d)"

definition human_identity_count_q :: "core_db \<Rightarrow> nat" where
  "human_identity_count_q d = length (t_admins d)"

definition organization_q :: "core_db \<Rightarrow> organization_row query" where
  "organization_q d = row_of (\<lambda>_. True) (t_org d)"

definition active_admin_count_q :: "member_role \<Rightarrow> member_status \<Rightarrow> core_db \<Rightarrow> nat" where
  "active_admin_count_q role status d = cnt (\<lambda>a. ad_role a = role \<and> ad_status a = status) (t_admins d)"

definition member_by_username_q :: "string \<Rightarrow> core_db \<Rightarrow> admin_row query" where
  "member_by_username_q u d = row_of (\<lambda>a. ad_username a = u) (t_admins d)"

definition member_by_id_q :: "uuid \<Rightarrow> core_db \<Rightarrow> admin_row query" where
  "member_by_id_q i d = row_of (\<lambda>a. ad_id a = i) (t_admins d)"

definition insert_organization_config_q :: "string \<Rightarrow> core_db \<Rightarrow> core_db query" where
  "insert_organization_config_q name d =
     (if t_org d \<noteq> [] then Inl UniqueViolation
      else Inr (d\<lparr>t_org := [\<lparr>og_name = name, og_totp = False, og_password = True\<rparr>]\<rparr>))"

definition insert_admin_row_q :: "admin_row \<Rightarrow> core_db \<Rightarrow> core_db query" where
  "insert_admin_row_q a d =
     (if exists_row (\<lambda>x. ad_id x = ad_id a \<or> ad_username x = ad_username a) (t_admins d) then Inl UniqueViolation
      else Inr (d\<lparr>t_admins := t_admins d @ [a]\<rparr>))"

definition insert_admin_active_q ::
    "uuid \<Rightarrow> string \<Rightarrow> string \<Rightarrow> member_role \<Rightarrow> member_status \<Rightarrow> time \<Rightarrow> time \<Rightarrow> core_db \<Rightarrow> core_db query" where
  "insert_admin_active_q i u p role status activated ts d =
     insert_admin_row_q \<lparr>ad_id = i, ad_username = u, ad_password = p, ad_created = ts, ad_role = role,
       ad_status = status, ad_activated = Some activated, ad_deactivated = None, ad_totp = None\<rparr> d"

definition create_admin_q ::
    "uuid \<Rightarrow> string \<Rightarrow> string \<Rightarrow> member_role \<Rightarrow> member_status \<Rightarrow> time \<Rightarrow> core_db \<Rightarrow> core_db query" where
  "create_admin_q i u p role status ts d =
     insert_admin_row_q \<lparr>ad_id = i, ad_username = u, ad_password = p, ad_created = ts, ad_role = role,
       ad_status = status, ad_activated = Some ts, ad_deactivated = None, ad_totp = None\<rparr> d"

definition update_password_q :: "uuid \<Rightarrow> string \<Rightarrow> core_db \<Rightarrow> core_db" where
  "update_password_q i p d = d\<lparr>t_admins := upd (\<lambda>a. ad_id a = i) (\<lambda>a. a\<lparr>ad_password := p\<rparr>) (t_admins d)\<rparr>"

definition update_username_q :: "uuid \<Rightarrow> string \<Rightarrow> core_db \<Rightarrow> core_db query" where
  "update_username_q i u d =
     (if exists_row (\<lambda>a. ad_id a = i) (t_admins d) \<and> exists_row (\<lambda>a. ad_username a = u \<and> ad_id a \<noteq> i) (t_admins d)
      then Inl UniqueViolation
      else Inr (d\<lparr>t_admins := upd (\<lambda>a. ad_id a = i) (\<lambda>a. a\<lparr>ad_username := u\<rparr>) (t_admins d)\<rparr>))"

definition select_member_role_status_q :: "uuid \<Rightarrow> core_db \<Rightarrow> (member_role \<times> member_status) query" where
  "select_member_role_status_q i d =
     and_then (row_of (\<lambda>a. ad_id a = i) (t_admins d)) (\<lambda>a. Inr (ad_role a, ad_status a))"

definition count_other_active_administrators_q :: "member_role \<Rightarrow> member_status \<Rightarrow> uuid \<Rightarrow> core_db \<Rightarrow> nat" where
  "count_other_active_administrators_q role status i d =
     cnt (\<lambda>a. ad_role a = role \<and> ad_status a = status \<and> ad_id a \<noteq> i) (t_admins d)"

definition deactivate_member_row_q :: "uuid \<Rightarrow> member_status \<Rightarrow> time \<Rightarrow> core_db \<Rightarrow> core_db" where
  "deactivate_member_row_q i status ts d =
     d\<lparr>t_admins := upd (\<lambda>a. ad_id a = i) (\<lambda>a. a\<lparr>ad_status := status, ad_deactivated := Some ts\<rparr>) (t_admins d)\<rparr>"

definition revoke_member_invitations_q :: "uuid \<Rightarrow> time \<Rightarrow> core_db \<Rightarrow> core_db" where
  "revoke_member_invitations_q i ts d =
     d\<lparr>t_invitations := upd (\<lambda>v. iv_admin v = i \<and> iv_used v = None \<and> iv_revoked v = None)
         (\<lambda>v. v\<lparr>iv_revoked := Some ts\<rparr>) (t_invitations d)\<rparr>"

definition enable_totp_login_policy_q :: "core_db \<Rightarrow> core_db" where
  "enable_totp_login_policy_q d = d\<lparr>t_org := upd (\<lambda>_. True) (\<lambda>g. g\<lparr>og_totp := True\<rparr>) (t_org d)\<rparr>"

definition disable_totp_login_policy_q :: "core_db \<Rightarrow> core_db" where
  "disable_totp_login_policy_q d = d\<lparr>t_org := upd (\<lambda>_. True) (\<lambda>g. g\<lparr>og_totp := False\<rparr>) (t_org d)\<rparr>"

definition set_password_login_enabled_q :: "bool \<Rightarrow> core_db \<Rightarrow> core_db" where
  "set_password_login_enabled_q b d = d\<lparr>t_org := upd (\<lambda>_. True) (\<lambda>g. g\<lparr>og_password := b\<rparr>) (t_org d)\<rparr>"

section \<open>Bootstrap Codes\<close>

definition save_bootstrap_code_q :: "string \<Rightarrow> time \<Rightarrow> core_db \<Rightarrow> core_db query" where
  "save_bootstrap_code_q h expires d =
     (if exists_row (\<lambda>b. bc_hash b = h) (t_bootstrap d) then Inl UniqueViolation
      else Inr (d\<lparr>t_bootstrap := t_bootstrap d @ [\<lparr>bc_hash = h, bc_expires = expires, bc_used = None\<rparr>]\<rparr>))"

definition consume_bootstrap_code_q :: "string \<Rightarrow> time \<Rightarrow> core_db \<Rightarrow> nat \<times> core_db" where
  "consume_bootstrap_code_q h now d =
     (let p = (\<lambda>b. bc_hash b = h \<and> bc_used b = None \<and> now < bc_expires b) in
      (cnt p (t_bootstrap d), d\<lparr>t_bootstrap := upd p (\<lambda>b. b\<lparr>bc_used := Some now\<rparr>) (t_bootstrap d)\<rparr>))"

section \<open>TOTP enrollment and Recovery Codes\<close>

definition insert_mfa_enrollment_q ::
    "string \<Rightarrow> uuid \<Rightarrow> bytes \<Rightarrow> bytes \<Rightarrow> bytes \<Rightarrow> time \<Rightarrow> core_db \<Rightarrow> core_db query" where
  "insert_mfa_enrollment_q token i w n c expires d =
     (if exists_row (\<lambda>m. mf_token m = token \<or> mf_admin m = i) (t_mfa d) then Inl UniqueViolation
      else if \<not> exists_admin i d then Inl ForeignKeyViolation
      else Inr (d\<lparr>t_mfa := t_mfa d @ [\<lparr>mf_token = token, mf_admin = i, mf_wrapped = w, mf_nonces = n, mf_cipher = c,
             mf_confirmation = None, mf_expires = expires, mf_verified = None, mf_confirmed = None\<rparr>]\<rparr>))"

definition mfa_enrollment_by_token_q :: "string \<Rightarrow> time \<Rightarrow> core_db \<Rightarrow> mfa_row query" where
  "mfa_enrollment_by_token_q token now d = row_of (\<lambda>m. mf_token m = token \<and> now < mf_expires m) (t_mfa d)"

definition select_mfa_for_verify_q :: "string \<Rightarrow> time \<Rightarrow> core_db \<Rightarrow> uuid query" where
  "select_mfa_for_verify_q token now d =
     and_then (row_of (\<lambda>m. mf_token m = token \<and> now < mf_expires m \<and> mf_verified m = None) (t_mfa d))
       (\<lambda>m. Inr (mf_admin m))"

definition mark_mfa_verified_q :: "string \<Rightarrow> time \<Rightarrow> string \<Rightarrow> core_db \<Rightarrow> core_db query" where
  "mark_mfa_verified_q token now conf d =
     (if exists_row (\<lambda>m. mf_token m = token) (t_mfa d) \<and>
         exists_row (\<lambda>m. mf_token m \<noteq> token \<and> mf_confirmation m = Some conf) (t_mfa d)
      then Inl UniqueViolation
      else Inr (d\<lparr>t_mfa := upd (\<lambda>m. mf_token m = token)
             (\<lambda>m. m\<lparr>mf_verified := Some now, mf_confirmation := Some conf\<rparr>) (t_mfa d)\<rparr>))"

definition insert_recovery_code_q :: "uuid \<Rightarrow> string \<Rightarrow> core_db \<Rightarrow> core_db query" where
  "insert_recovery_code_q i h d =
     (if exists_row (\<lambda>r. rc_admin r = i \<and> rc_code r = h) (t_recovery d) then Inl UniqueViolation
      else if \<not> exists_admin i d then Inl ForeignKeyViolation
      else Inr (d\<lparr>t_recovery := t_recovery d @ [\<lparr>rc_admin = i, rc_code = h, rc_used = None\<rparr>]\<rparr>))"

definition select_mfa_for_confirm_q :: "string \<Rightarrow> time \<Rightarrow> core_db \<Rightarrow> uuid query" where
  "select_mfa_for_confirm_q conf now d =
     and_then (row_of (\<lambda>m. mf_confirmation m = Some conf \<and> now < mf_expires m \<and> mf_verified m \<noteq> None \<and>
         mf_confirmed m = None) (t_mfa d))
       (\<lambda>m. Inr (mf_admin m))"

definition mark_mfa_confirmed_q :: "string \<Rightarrow> time \<Rightarrow> core_db \<Rightarrow> core_db" where
  "mark_mfa_confirmed_q conf now d =
     d\<lparr>t_mfa := upd (\<lambda>m. mf_confirmation m = Some conf) (\<lambda>m. m\<lparr>mf_confirmed := Some now\<rparr>) (t_mfa d)\<rparr>"

definition pending_mfa_enrollment_q :: "member_status \<Rightarrow> core_db \<Rightarrow> bool" where
  "pending_mfa_enrollment_q status d = exists_row (\<lambda>a. ad_status a = status) (t_admins d)"

definition resume_mfa_enrollment_q :: "uuid \<Rightarrow> string \<Rightarrow> string \<Rightarrow> time \<Rightarrow> core_db \<Rightarrow> (nat \<times> core_db) query" where
  "resume_mfa_enrollment_q i old new expires d =
     (let p = (\<lambda>m. mf_admin m = i \<and> mf_token m = old \<and> mf_verified m = None \<and> mf_confirmed m = None) in
      if exists_row p (t_mfa d) \<and> exists_row (\<lambda>m. mf_token m = new \<and> \<not> p m) (t_mfa d) then Inl UniqueViolation
      else Inr (cnt p (t_mfa d),
        d\<lparr>t_mfa := upd p (\<lambda>m. m\<lparr>mf_token := new, mf_expires := expires\<rparr>) (t_mfa d)\<rparr>))"

definition has_confirmed_mfa_q :: "uuid \<Rightarrow> core_db \<Rightarrow> bool" where
  "has_confirmed_mfa_q i d =
     exists_row (\<lambda>m. mf_admin m = i \<and> mf_verified m \<noteq> None \<and> mf_confirmed m \<noteq> None) (t_mfa d)"

definition has_any_confirmed_mfa_q :: "uuid \<Rightarrow> core_db \<Rightarrow> bool" where
  "has_any_confirmed_mfa_q i d = exists_row (\<lambda>m. mf_admin m = i \<and> mf_confirmed m \<noteq> None) (t_mfa d)"

definition delete_mfa_enrollments_q :: "uuid \<Rightarrow> core_db \<Rightarrow> core_db" where
  "delete_mfa_enrollments_q i d = d\<lparr>t_mfa := del (\<lambda>m. mf_admin m = i) (t_mfa d)\<rparr>"

definition consume_recovery_code_q :: "uuid \<Rightarrow> string \<Rightarrow> time \<Rightarrow> core_db \<Rightarrow> nat \<times> core_db" where
  "consume_recovery_code_q i h now d =
     (let p = (\<lambda>r. rc_admin r = i \<and> rc_code r = h \<and> rc_used r = None) in
      (cnt p (t_recovery d), d\<lparr>t_recovery := upd p (\<lambda>r. r\<lparr>rc_used := Some now\<rparr>) (t_recovery d)\<rparr>))"

definition delete_recovery_codes_q :: "uuid \<Rightarrow> core_db \<Rightarrow> core_db" where
  "delete_recovery_codes_q i d = d\<lparr>t_recovery := del (\<lambda>r. rc_admin r = i) (t_recovery d)\<rparr>"

definition use_totp_q :: "uuid \<Rightarrow> int \<Rightarrow> core_db \<Rightarrow> nat \<times> core_db" where
  "use_totp_q i counter d =
     (let p = (\<lambda>a. ad_id a = i \<and> (case ad_totp a of None \<Rightarrow> True | Some used \<Rightarrow> used < counter)) in
      (cnt p (t_admins d), d\<lparr>t_admins := upd p (\<lambda>a. a\<lparr>ad_totp := Some counter\<rparr>) (t_admins d)\<rparr>))"

definition totp_enrollment_for_member_q :: "uuid \<Rightarrow> core_db \<Rightarrow> mfa_row query" where
  "totp_enrollment_for_member_q i d = row_of (\<lambda>m. mf_admin m = i) (t_mfa d)"

section \<open>Sessions, Step-up Grants and login challenges\<close>

definition create_bounded_session_q ::
    "string \<Rightarrow> uuid \<Rightarrow> string \<Rightarrow> time \<Rightarrow> time \<Rightarrow> auth_method \<Rightarrow> time \<Rightarrow> core_db \<Rightarrow> core_db query" where
  "create_bounded_session_q h i csrf expires idle m ts d =
     (if exists_row (\<lambda>s. ss_id s = h) (t_sessions d) then Inl UniqueViolation
      else if \<not> exists_admin i d then Inl ForeignKeyViolation
      else Inr (d\<lparr>t_sessions := t_sessions d @ [\<lparr>ss_id = h, ss_admin = i, ss_csrf = csrf, ss_expires = expires,
             ss_activity = ts, ss_idle = idle, ss_method = m\<rparr>]\<rparr>))"

definition session_by_id_q :: "string \<Rightarrow> time \<Rightarrow> member_status \<Rightarrow> core_db \<Rightarrow> (session_row \<times> admin_row) query" where
  "session_by_id_q h now status d =
     row_of (\<lambda>(s, a). ss_id s = h \<and> now < ss_expires s \<and> now < ss_idle s \<and> ad_status a = status)
       [(s, a). s \<leftarrow> t_sessions d, a \<leftarrow> t_admins d, ad_id a = ss_admin s]"

definition delete_session_q :: "string \<Rightarrow> core_db \<Rightarrow> core_db" where
  "delete_session_q h d = drop_sessions (\<lambda>s. ss_id s = h) d"

definition touch_session_activity_q :: "string \<Rightarrow> time \<Rightarrow> time \<Rightarrow> core_db \<Rightarrow> core_db" where
  "touch_session_activity_q h now idle d =
     d\<lparr>t_sessions := upd (\<lambda>s. ss_id s = h)
         (\<lambda>s. s\<lparr>ss_activity := now, ss_idle := min (ss_expires s) idle\<rparr>) (t_sessions d)\<rparr>"

definition delete_member_sessions_q :: "uuid \<Rightarrow> core_db \<Rightarrow> core_db" where
  "delete_member_sessions_q i d = drop_sessions (\<lambda>s. ss_admin s = i) d"

definition delete_other_member_sessions_q :: "uuid \<Rightarrow> string \<Rightarrow> core_db \<Rightarrow> core_db" where
  "delete_other_member_sessions_q i h d = drop_sessions (\<lambda>s. ss_admin s = i \<and> ss_id s \<noteq> h) d"

definition upsert_step_up_grant_q :: "string \<Rightarrow> time \<Rightarrow> time \<Rightarrow> core_db \<Rightarrow> core_db query" where
  "upsert_step_up_grant_q h granted expires d =
     (if exists_row (\<lambda>g. gr_session g = h) (t_grants d)
      then Inr (d\<lparr>t_grants := upd (\<lambda>g. gr_session g = h)
             (\<lambda>g. g\<lparr>gr_granted := granted, gr_expires := expires\<rparr>) (t_grants d)\<rparr>)
      else if \<not> exists_row (\<lambda>s. ss_id s = h) (t_sessions d) then Inl ForeignKeyViolation
      else Inr (d\<lparr>t_grants := t_grants d @ [\<lparr>gr_session = h, gr_granted = granted, gr_expires = expires\<rparr>]\<rparr>))"

definition has_valid_step_up_grant_q :: "string \<Rightarrow> time \<Rightarrow> core_db \<Rightarrow> bool" where
  "has_valid_step_up_grant_q h now d = exists_row (\<lambda>g. gr_session g = h \<and> now < gr_expires g) (t_grants d)"

definition delete_member_step_up_grants_q :: "uuid \<Rightarrow> core_db \<Rightarrow> core_db" where
  "delete_member_step_up_grants_q i d =
     d\<lparr>t_grants := del (\<lambda>g. exists_row (\<lambda>s. ss_id s = gr_session g \<and> ss_admin s = i) (t_sessions d)) (t_grants d)\<rparr>"

definition insert_login_challenge_q :: "string \<Rightarrow> uuid \<Rightarrow> string \<Rightarrow> time \<Rightarrow> core_db \<Rightarrow> core_db query" where
  "insert_login_challenge_q token i source expires d =
     (if exists_row (\<lambda>c. lc_token c = token) (t_challenges d) then Inl UniqueViolation
      else if \<not> exists_admin i d then Inl ForeignKeyViolation
      else Inr (d\<lparr>t_challenges := t_challenges d @ [\<lparr>lc_token = token, lc_admin = i, lc_source = source,
             lc_expires = expires, lc_used = None\<rparr>]\<rparr>))"

text \<open>\<open>UPDATE ... RETURNING\<close>: the row matched before the update, and the table after it.\<close>

definition consume_login_challenge_q :: "string \<Rightarrow> string \<Rightarrow> time \<Rightarrow> core_db \<Rightarrow> (uuid \<times> core_db) query" where
  "consume_login_challenge_q token source now d =
     (let p = (\<lambda>c. lc_token c = token \<and> lc_source c = source \<and> lc_used c = None \<and> now < lc_expires c) in
      and_then (row_of p (t_challenges d)) (\<lambda>c.
        Inr (lc_admin c, d\<lparr>t_challenges := upd p (\<lambda>c. c\<lparr>lc_used := Some now\<rparr>) (t_challenges d)\<rparr>)))"

definition delete_expired_login_challenges_q :: "time \<Rightarrow> core_db \<Rightarrow> core_db" where
  "delete_expired_login_challenges_q now d =
     d\<lparr>t_challenges := del (\<lambda>c. lc_expires c \<le> now \<or> lc_used c \<noteq> None) (t_challenges d)\<rparr>"

section \<open>External identities\<close>

definition external_identity_binding_q :: "core_db \<Rightarrow> external_row query" where
  "external_identity_binding_q d = row_of (\<lambda>_. True) (t_external d)"

definition insert_external_identity_binding_q ::
    "uuid \<Rightarrow> string \<Rightarrow> string \<Rightarrow> string \<Rightarrow> time \<Rightarrow> core_db \<Rightarrow> (nat \<times> core_db) query" where
  "insert_external_identity_binding_q i issuer subject display ts d =
     (if t_external d \<noteq> [] then Inr (0, d)
      else if \<not> exists_admin i d then Inl ForeignKeyViolation
      else Inr (1, d\<lparr>t_external := [\<lparr>xb_admin = i, xb_issuer = issuer, xb_subject = subject, xb_display = display,
             xb_created = ts\<rparr>]\<rparr>))"

definition delete_external_identity_binding_q :: "uuid \<Rightarrow> core_db \<Rightarrow> core_db" where
  "delete_external_identity_binding_q i d = d\<lparr>t_external := del (\<lambda>x. xb_admin x = i) (t_external d)\<rparr>"

definition oauth_identity_binding_q :: "core_db \<Rightarrow> external_row query" where
  "oauth_identity_binding_q d = row_of (\<lambda>_. True) (t_oauth d)"

definition insert_oauth_identity_binding_q ::
    "uuid \<Rightarrow> string \<Rightarrow> string \<Rightarrow> string \<Rightarrow> time \<Rightarrow> core_db \<Rightarrow> (nat \<times> core_db) query" where
  "insert_oauth_identity_binding_q i issuer subject display ts d =
     (if t_oauth d \<noteq> [] then Inr (0, d)
      else if \<not> exists_admin i d then Inl ForeignKeyViolation
      else Inr (1, d\<lparr>t_oauth := [\<lparr>xb_admin = i, xb_issuer = issuer, xb_subject = subject, xb_display = display,
             xb_created = ts\<rparr>]\<rparr>))"

definition delete_oauth_identity_binding_q :: "uuid \<Rightarrow> core_db \<Rightarrow> core_db" where
  "delete_oauth_identity_binding_q i d = d\<lparr>t_oauth := del (\<lambda>x. xb_admin x = i) (t_oauth d)\<rparr>"

definition insert_oidc_transaction_q ::
    "string \<Rightarrow> string \<Rightarrow> uuid option \<Rightarrow> string \<Rightarrow> string \<Rightarrow> string \<Rightarrow> time \<Rightarrow> core_db \<Rightarrow> core_db query" where
  "insert_oidc_transaction_q state purpose admin nonce verifier ret expires d =
     (if purpose \<noteq> ''login'' \<and> purpose \<noteq> ''bind'' then Inl CheckViolation
      else if exists_row (\<lambda>t. ot_state t = state) (t_transactions d) then Inl UniqueViolation
      else if (case admin of None \<Rightarrow> False | Some i \<Rightarrow> \<not> exists_admin i d) then Inl ForeignKeyViolation
      else Inr (d\<lparr>t_transactions := t_transactions d @ [\<lparr>ot_state = state, ot_purpose = purpose, ot_admin = admin,
             ot_nonce = nonce, ot_verifier = verifier, ot_return = ret, ot_expires = expires, ot_used = None\<rparr>]\<rparr>))"

definition consume_oidc_transaction_q :: "string \<Rightarrow> time \<Rightarrow> core_db \<Rightarrow> (transaction_row \<times> core_db) query" where
  "consume_oidc_transaction_q state now d =
     (let p = (\<lambda>t. ot_state t = state \<and> ot_used t = None \<and> now < ot_expires t) in
      and_then (row_of p (t_transactions d)) (\<lambda>t.
        Inr (t, d\<lparr>t_transactions := upd p (\<lambda>t. t\<lparr>ot_used := Some now\<rparr>) (t_transactions d)\<rparr>)))"

end
