(* ===== verification/IdentityStore.thy ===== *)
theory IdentityStore
  imports IdentityQueries
begin

text \<open>
  The store operations of the identity domain: \<open>core/internal/database/identity.go\<close> and the identity methods of
  \<open>store.go\<close>, one definition per method. A method that runs in a transaction answers the database after it, or an error and
  no database. The argument \<open>ts\<close> is the database clock, \<open>now()\<close>.
\<close>

section \<open>Organization and members\<close>

definition organization :: "core_db \<Rightarrow> organization_row result" where
  "organization d = on_err map_no_rows (organization_q d)"

definition human_identity_count :: "core_db \<Rightarrow> nat" where
  "human_identity_count d = human_identity_count_q d"

text \<open>The check Core makes at start; the error is the number of identities found.\<close>

definition validate_single_administrator :: "core_db \<Rightarrow> nat + unit" where
  "validate_single_administrator d =
     (if 1 < human_identity_count d then Inl (human_identity_count d) else Inr ())"

definition admin_count :: "core_db \<Rightarrow> nat" where
  "admin_count d = admin_count_q d"

definition active_admin_count :: "core_db \<Rightarrow> nat" where
  "active_admin_count d = active_admin_count_q RoleAdministrator MemberActive d"

definition member_by_username :: "string \<Rightarrow> core_db \<Rightarrow> admin_row result" where
  "member_by_username u d = on_err map_no_rows (member_by_username_q u d)"

definition member_by_id :: "uuid \<Rightarrow> core_db \<Rightarrow> admin_row result" where
  "member_by_id i d = on_err map_no_rows (member_by_id_q i d)"

definition create_admin :: "uuid \<Rightarrow> string \<Rightarrow> string \<Rightarrow> time \<Rightarrow> core_db \<Rightarrow> core_db result" where
  "create_admin i u p ts d = on_err dup_or_pg (create_admin_q i u p RoleAdministrator MemberActive ts d)"

definition save_bootstrap_code :: "string \<Rightarrow> time \<Rightarrow> core_db \<Rightarrow> core_db result" where
  "save_bootstrap_code h expires d = on_err ErrPg (save_bootstrap_code_q h expires d)"

definition consume_bootstrap_code :: "string \<Rightarrow> time \<Rightarrow> core_db \<Rightarrow> bool \<times> core_db" where
  "consume_bootstrap_code h now d = (case consume_bootstrap_code_q h now d of (n, d') \<Rightarrow> (n = 1, d'))"

text \<open>The advisory lock serialises bootstraps; here each transaction is one step.\<close>

definition bootstrap_administrator ::
    "string \<Rightarrow> string \<Rightarrow> uuid \<Rightarrow> string \<Rightarrow> string \<Rightarrow> time \<Rightarrow> audit_event \<Rightarrow> time \<Rightarrow> core_db \<Rightarrow> core_db result" where
  "bootstrap_administrator code org i u p now audit ts d =
     (if 0 < admin_count_q d then Inl ErrConflict
      else case consume_bootstrap_code_q code now d of (n, d1) \<Rightarrow>
        if n \<noteq> 1 then Inl ErrNotFound
        else
          and_then (on_err ErrPg (insert_organization_config_q org d1)) (\<lambda>d2.
          and_then (on_err dup_or_pg (insert_admin_active_q i u p RoleAdministrator MemberActive now ts d2)) (\<lambda>d3.
          Inr (append_audit_tx audit ts d3))))"

section \<open>TOTP enrollment\<close>

definition mfa_enrollment_by_token :: "string \<Rightarrow> time \<Rightarrow> core_db \<Rightarrow> mfa_row result" where
  "mfa_enrollment_by_token token now d = on_err map_no_rows (mfa_enrollment_by_token_q token now d)"

fun insert_recovery_codes :: "uuid \<Rightarrow> string list \<Rightarrow> core_db \<Rightarrow> core_db result" where
  "insert_recovery_codes i [] d = Inr d"
| "insert_recovery_codes i (h # hs) d =
     and_then (on_err ErrPg (insert_recovery_code_q i h d)) (insert_recovery_codes i hs)"

definition complete_mfa_enrollment ::
    "string \<Rightarrow> string \<Rightarrow> string list \<Rightarrow> time \<Rightarrow> audit_event \<Rightarrow> time \<Rightarrow> core_db \<Rightarrow> core_db result" where
  "complete_mfa_enrollment token conf hashes now audit ts d =
     and_then (on_err map_no_rows (select_mfa_for_verify_q token now d)) (\<lambda>i.
     and_then (on_err ErrPg (mark_mfa_verified_q token now conf d)) (\<lambda>d1.
     and_then (insert_recovery_codes i hashes d1) (\<lambda>d2.
     Inr (append_audit_tx audit ts d2))))"

definition confirm_mfa_enrollment ::
    "string \<Rightarrow> string \<Rightarrow> time \<Rightarrow> audit_event \<Rightarrow> time \<Rightarrow> core_db \<Rightarrow> (admin_row \<times> core_db) result" where
  "confirm_mfa_enrollment conf session now audit ts d =
     and_then (on_err map_no_rows (select_mfa_for_confirm_q conf now d)) (\<lambda>i.
       let d' = append_audit_tx audit ts (delete_other_member_sessions_q i session
         (delete_member_step_up_grants_q i (enable_totp_login_policy_q (mark_mfa_confirmed_q conf now d)))) in
       and_then (member_by_id i d') (\<lambda>m. Inr (m, d')))"

definition pending_mfa_enrollment :: "core_db \<Rightarrow> bool" where
  "pending_mfa_enrollment d = pending_mfa_enrollment_q MemberPending d"

definition resume_mfa_enrollment :: "uuid \<Rightarrow> string \<Rightarrow> string \<Rightarrow> time \<Rightarrow> core_db \<Rightarrow> core_db result" where
  "resume_mfa_enrollment i old new expires d =
     and_then (on_err ErrPg (resume_mfa_enrollment_q i old new expires d))
       (\<lambda>(n, d'). if n \<noteq> 1 then Inl ErrConflict else Inr d')"

definition create_enrollment_for_member ::
    "uuid \<Rightarrow> string \<Rightarrow> bytes \<Rightarrow> bytes \<Rightarrow> bytes \<Rightarrow> time \<Rightarrow> core_db \<Rightarrow> core_db result" where
  "create_enrollment_for_member i token w n c expires d =
     (if has_any_confirmed_mfa_q i d then Inl ErrConflict
      else on_err ErrPg (insert_mfa_enrollment_q token i w n c expires (delete_mfa_enrollments_q i d)))"

definition has_confirmed_mfa :: "uuid \<Rightarrow> core_db \<Rightarrow> bool" where
  "has_confirmed_mfa i d = has_confirmed_mfa_q i d"

definition consume_recovery_code :: "uuid \<Rightarrow> string \<Rightarrow> time \<Rightarrow> core_db \<Rightarrow> bool \<times> core_db" where
  "consume_recovery_code i h now d = (case consume_recovery_code_q i h now d of (n, d') \<Rightarrow> (n = 1, d'))"

definition replace_recovery_codes :: "uuid \<Rightarrow> string list \<Rightarrow> audit_event \<Rightarrow> time \<Rightarrow> core_db \<Rightarrow> core_db result" where
  "replace_recovery_codes i hashes audit ts d =
     and_then (insert_recovery_codes i hashes (delete_recovery_codes_q i d)) (\<lambda>d'. Inr (append_audit_tx audit ts d'))"

definition use_totp :: "uuid \<Rightarrow> int \<Rightarrow> core_db \<Rightarrow> bool \<times> core_db" where
  "use_totp i counter d = (case use_totp_q i counter d of (n, d') \<Rightarrow> (n = 1, d'))"

definition totp_enrollment_for_member :: "uuid \<Rightarrow> core_db \<Rightarrow> mfa_row result" where
  "totp_enrollment_for_member i d = on_err map_no_rows (totp_enrollment_for_member_q i d)"

section \<open>Sessions\<close>

definition create_bounded_session ::
    "string \<Rightarrow> uuid \<Rightarrow> string \<Rightarrow> time \<Rightarrow> time \<Rightarrow> auth_method \<Rightarrow> time \<Rightarrow> core_db \<Rightarrow> core_db result" where
  "create_bounded_session h i csrf expires idle m ts d =
     on_err ErrPg (create_bounded_session_q h i csrf expires idle m ts d)"

text \<open>\<open>CreateSession\<close> reads the clock for the idle limit.\<close>

definition create_session :: "string \<Rightarrow> uuid \<Rightarrow> string \<Rightarrow> time \<Rightarrow> time \<Rightarrow> core_db \<Rightarrow> core_db result" where
  "create_session h i csrf expires now d =
     (let idle = now + 30 * minute in
      create_bounded_session h i csrf expires (if expires < idle then expires else idle) AuthLocal now d)"

record session_state =
  se_admin :: uuid
  se_username :: string
  se_role :: member_role
  se_csrf :: string
  se_hash :: string
  se_expires :: time
  se_idle :: time
  se_method :: auth_method

definition session_by_id :: "string \<Rightarrow> time \<Rightarrow> core_db \<Rightarrow> session_state result" where
  "session_by_id h now d =
     and_then (on_err map_no_rows (session_by_id_q h now MemberActive d)) (\<lambda>(s, a).
       Inr \<lparr>se_admin = ss_admin s, se_username = ad_username a, se_role = ad_role a, se_csrf = ss_csrf s,
            se_hash = ss_id s, se_expires = ss_expires s, se_idle = ss_idle s, se_method = ss_method s\<rparr>)"

definition delete_session :: "string \<Rightarrow> core_db \<Rightarrow> core_db" where
  "delete_session h d = delete_session_q h d"

definition touch_session_activity :: "string \<Rightarrow> time \<Rightarrow> time \<Rightarrow> core_db \<Rightarrow> core_db" where
  "touch_session_activity h now idle d = touch_session_activity_q h now idle d"

definition delete_member_sessions :: "uuid \<Rightarrow> core_db \<Rightarrow> core_db" where
  "delete_member_sessions i d = delete_member_sessions_q i d"

definition create_login_challenge :: "string \<Rightarrow> uuid \<Rightarrow> string \<Rightarrow> time \<Rightarrow> time \<Rightarrow> core_db \<Rightarrow> core_db result" where
  "create_login_challenge token i source expires now d =
     on_err ErrPg (insert_login_challenge_q token i source expires (delete_expired_login_challenges_q now d))"

definition consume_login_challenge :: "string \<Rightarrow> string \<Rightarrow> time \<Rightarrow> core_db \<Rightarrow> (uuid \<times> core_db) result" where
  "consume_login_challenge token source now d = on_err map_no_rows (consume_login_challenge_q token source now d)"

definition upsert_step_up_grant :: "string \<Rightarrow> time \<Rightarrow> time \<Rightarrow> core_db \<Rightarrow> core_db result" where
  "upsert_step_up_grant h granted expires d = on_err ErrPg (upsert_step_up_grant_q h granted expires d)"

definition has_valid_step_up_grant :: "string \<Rightarrow> time \<Rightarrow> core_db \<Rightarrow> bool" where
  "has_valid_step_up_grant h now d = has_valid_step_up_grant_q h now d"

section \<open>Login policy\<close>

text \<open>Revoking the other Sessions of a member, in the two orders the code has.\<close>

definition disable_totp :: "uuid \<Rightarrow> string \<Rightarrow> audit_event \<Rightarrow> time \<Rightarrow> core_db \<Rightarrow> core_db result" where
  "disable_totp i session audit ts d =
     Inr (append_audit_tx audit ts (delete_other_member_sessions_q i session (delete_member_step_up_grants_q i
       (delete_recovery_codes_q i (delete_mfa_enrollments_q i (disable_totp_login_policy_q d))))))"

definition set_password_login_enabled ::
    "uuid \<Rightarrow> string \<Rightarrow> bool \<Rightarrow> audit_event \<Rightarrow> time \<Rightarrow> core_db \<Rightarrow> core_db result" where
  "set_password_login_enabled i session enabled audit ts d =
     (let d1 = set_password_login_enabled_q enabled d;
          d2 = (if enabled then d1
                else delete_other_member_sessions_q i session (delete_member_step_up_grants_q i d1)) in
      Inr (append_audit_tx audit ts d2))"

section \<open>External identities\<close>

definition external_identity_binding :: "core_db \<Rightarrow> external_row result" where
  "external_identity_binding d = on_err map_no_rows (external_identity_binding_q d)"

definition oauth_identity_binding :: "core_db \<Rightarrow> external_row result" where
  "oauth_identity_binding d = on_err map_no_rows (oauth_identity_binding_q d)"

text \<open>An empty member id is stored as \<open>NULL\<close>.\<close>

definition create_oidc_transaction ::
    "string \<Rightarrow> string \<Rightarrow> uuid \<Rightarrow> string \<Rightarrow> string \<Rightarrow> string \<Rightarrow> time \<Rightarrow> core_db \<Rightarrow> core_db result" where
  "create_oidc_transaction state purpose i nonce verifier ret expires d =
     on_err ErrPg (insert_oidc_transaction_q state purpose (if i = [] then None else Some i) nonce verifier ret expires d)"

record oidc_transaction =
  tx_purpose :: string
  tx_member :: string
  tx_nonce :: string
  tx_verifier :: string
  tx_return :: string

definition consume_oidc_transaction :: "string \<Rightarrow> time \<Rightarrow> core_db \<Rightarrow> (oidc_transaction \<times> core_db) result" where
  "consume_oidc_transaction state now d =
     and_then (on_err map_no_rows (consume_oidc_transaction_q state now d)) (\<lambda>(t, d').
       Inr (\<lparr>tx_purpose = ot_purpose t, tx_member = (case ot_admin t of None \<Rightarrow> [] | Some i \<Rightarrow> i),
             tx_nonce = ot_nonce t, tx_verifier = ot_verifier t, tx_return = ot_return t\<rparr>, d'))"

definition bind_external_identity ::
    "uuid \<Rightarrow> string \<Rightarrow> string \<Rightarrow> string \<Rightarrow> string \<Rightarrow> audit_event \<Rightarrow> time \<Rightarrow> core_db \<Rightarrow> core_db result" where
  "bind_external_identity i issuer subject display session audit ts d =
     and_then (on_err ErrPg (insert_external_identity_binding_q i issuer subject display ts d)) (\<lambda>(n, d1).
       if n \<noteq> 1 then Inl ErrConflict
       else Inr (append_audit_tx audit ts (delete_member_step_up_grants_q i
         (delete_other_member_sessions_q i session d1))))"

definition unbind_external_identity :: "uuid \<Rightarrow> string \<Rightarrow> audit_event \<Rightarrow> time \<Rightarrow> core_db \<Rightarrow> core_db result" where
  "unbind_external_identity i session audit ts d =
     Inr (append_audit_tx audit ts (delete_member_step_up_grants_q i
       (delete_other_member_sessions_q i session (delete_external_identity_binding_q i d))))"

definition bind_oauth_identity ::
    "uuid \<Rightarrow> string \<Rightarrow> string \<Rightarrow> string \<Rightarrow> string \<Rightarrow> audit_event \<Rightarrow> time \<Rightarrow> core_db \<Rightarrow> core_db result" where
  "bind_oauth_identity i issuer subject display session audit ts d =
     and_then (on_err ErrPg (insert_oauth_identity_binding_q i issuer subject display ts d)) (\<lambda>(n, d1).
       if n \<noteq> 1 then Inl ErrConflict
       else Inr (append_audit_tx audit ts (delete_member_step_up_grants_q i
         (delete_other_member_sessions_q i session d1))))"

definition unbind_oauth_identity :: "uuid \<Rightarrow> string \<Rightarrow> audit_event \<Rightarrow> time \<Rightarrow> core_db \<Rightarrow> core_db result" where
  "unbind_oauth_identity i session audit ts d =
     Inr (append_audit_tx audit ts (delete_member_step_up_grants_q i
       (delete_other_member_sessions_q i session (delete_oauth_identity_binding_q i d))))"

section \<open>Changes of a member\<close>

definition change_password :: "uuid \<Rightarrow> string \<Rightarrow> audit_event \<Rightarrow> time \<Rightarrow> core_db \<Rightarrow> core_db result" where
  "change_password i p audit ts d =
     Inr (append_audit_tx audit ts (delete_member_sessions_q i (update_password_q i p d)))"

definition change_username :: "uuid \<Rightarrow> string \<Rightarrow> audit_event \<Rightarrow> time \<Rightarrow> core_db \<Rightarrow> core_db result" where
  "change_username i u audit ts d =
     and_then (on_err dup_or_pg (update_username_q i u d)) (\<lambda>d1.
       Inr (append_audit_tx audit ts (delete_member_sessions_q i d1)))"

definition deactivate_member :: "uuid \<Rightarrow> audit_event \<Rightarrow> time \<Rightarrow> core_db \<Rightarrow> core_db result" where
  "deactivate_member i audit ts d =
     and_then (on_err map_no_rows (select_member_role_status_q i d)) (\<lambda>(role, status).
       if status = MemberDeactivated then Inl ErrConflict
       else if role = RoleAdministrator \<and>
         count_other_active_administrators_q RoleAdministrator MemberActive i d = 0 then Inl ErrConflict
       else Inr (append_audit_tx audit ts (revoke_member_invitations_q i ts
         (delete_member_sessions_q i (deactivate_member_row_q i MemberDeactivated ts d)))))"

end
