(* ===== verification/IdentitySystem.thy ===== *)
theory IdentitySystem
  imports IdentityStore OneShot CoreSystem
begin

text \<open>
  The identity domain as a system: a step is one transaction of the store, as the identity service calls it.
  \<open>identity_ok\<close> is its invariant, the single Administrator of ADR-0026 in it; the credentials are single-use.
\<close>

section \<open>The invariant\<close>

definition admin_in :: "core_db \<Rightarrow> uuid \<Rightarrow> bool" where
  "admin_in d i \<longleftrightarrow> i \<in> ad_id ` set (t_admins d)"

definition single_admin :: "core_db \<Rightarrow> bool" where
  "single_admin d \<longleftrightarrow> length (t_admins d) \<le> 1 \<and> length (t_org d) = length (t_admins d) \<and>
     (\<forall>a \<in> set (t_admins d). ad_role a = RoleAdministrator \<and> ad_status a = MemberActive)"

definition sessions_ok :: "core_db \<Rightarrow> bool" where
  "sessions_ok d \<longleftrightarrow> distinct (map ss_id (t_sessions d)) \<and>
     (\<forall>s \<in> set (t_sessions d). admin_in d (ss_admin s) \<and> ss_idle s \<le> ss_expires s) \<and>
     distinct (map gr_session (t_grants d)) \<and> gr_session ` set (t_grants d) \<subseteq> ss_id ` set (t_sessions d)"

definition factors_ok :: "core_db \<Rightarrow> bool" where
  "factors_ok d \<longleftrightarrow> distinct (map mf_token (t_mfa d)) \<and> distinct (map mf_admin (t_mfa d)) \<and>
     (\<forall>m \<in> set (t_mfa d). admin_in d (mf_admin m) \<and> (mf_confirmed m \<noteq> None \<longrightarrow> mf_verified m \<noteq> None) \<and>
        (mf_confirmation m \<noteq> None \<longrightarrow> mf_verified m \<noteq> None)) \<and>
     distinct (map (\<lambda>r. (rc_admin r, rc_code r)) (t_recovery d)) \<and> (\<forall>r \<in> set (t_recovery d). admin_in d (rc_admin r))"

definition externals_ok :: "core_db \<Rightarrow> bool" where
  "externals_ok d \<longleftrightarrow> length (t_external d) \<le> 1 \<and> length (t_oauth d) \<le> 1 \<and>
     (\<forall>x \<in> set (t_external d) \<union> set (t_oauth d). admin_in d (xb_admin x)) \<and>
     distinct (map lc_token (t_challenges d)) \<and> (\<forall>c \<in> set (t_challenges d). admin_in d (lc_admin c)) \<and>
     distinct (map ot_state (t_transactions d)) \<and> (\<forall>t \<in> set (t_transactions d). ot_purpose t \<in> {''login'', ''bind''}) \<and>
     distinct (map bc_hash (t_bootstrap d))"

definition log_ok :: "core_db \<Rightarrow> bool" where
  "log_ok d \<longleftrightarrow> audit_ok d \<and> 0 \<le> audit_seq d"

definition identity_ok :: "core_db \<Rightarrow> bool" where
  "identity_ok d \<longleftrightarrow> single_admin d \<and> sessions_ok d \<and> factors_ok d \<and> externals_ok d \<and> log_ok d"

lemma identity_okI:
  "single_admin d \<Longrightarrow> sessions_ok d \<Longrightarrow> factors_ok d \<Longrightarrow> externals_ok d \<Longrightarrow> log_ok d \<Longrightarrow> identity_ok d"
  by (simp add: identity_ok_def)

lemma identity_okD:
  assumes "identity_ok d"
  shows "single_admin d" "sessions_ok d" "factors_ok d" "externals_ok d" "log_ok d"
  using assms by (simp_all add: identity_ok_def)

named_theorems identity_parts \<open>the parts of the identity invariant\<close>
lemmas [identity_parts] = single_admin_def sessions_ok_def factors_ok_def externals_ok_def admin_in_def

lemma identity_ok_empty: "identity_ok empty_core"
  by (simp add: identity_ok_def identity_parts log_ok_def audit_ok_def empty_core_def db.defs empty_db_def)

section \<open>The building blocks of the transactions keep it\<close>

lemma append_audit_tables [simp]:
  "t_admins (append_audit_tx e ts d) = t_admins d" "t_org (append_audit_tx e ts d) = t_org d"
  "t_mfa (append_audit_tx e ts d) = t_mfa d" "t_recovery (append_audit_tx e ts d) = t_recovery d"
  "t_sessions (append_audit_tx e ts d) = t_sessions d" "t_grants (append_audit_tx e ts d) = t_grants d"
  "t_challenges (append_audit_tx e ts d) = t_challenges d" "t_external (append_audit_tx e ts d) = t_external d"
  "t_oauth (append_audit_tx e ts d) = t_oauth d" "t_transactions (append_audit_tx e ts d) = t_transactions d"
  "t_bootstrap (append_audit_tx e ts d) = t_bootstrap d"
  by (simp_all add: append_audit_tx_def insert_audit_event_legacy_q_def)

lemma append_audit_plain [simp]:
  "t_admins (append_audit e ts d) = t_admins d" "t_org (append_audit e ts d) = t_org d"
  "t_mfa (append_audit e ts d) = t_mfa d" "t_recovery (append_audit e ts d) = t_recovery d"
  "t_sessions (append_audit e ts d) = t_sessions d" "t_grants (append_audit e ts d) = t_grants d"
  "t_challenges (append_audit e ts d) = t_challenges d" "t_external (append_audit e ts d) = t_external d"
  "t_oauth (append_audit e ts d) = t_oauth d" "t_transactions (append_audit e ts d) = t_transactions d"
  "t_bootstrap (append_audit e ts d) = t_bootstrap d"
  by (simp_all add: append_audit_def insert_audit_event_q_def)

lemma append_audit_ok:
  "identity_ok d \<Longrightarrow> identity_ok (append_audit_tx e ts d)" "identity_ok d \<Longrightarrow> identity_ok (append_audit e ts d)"
proof -
  have ok: "log_ok d'" if log: "log_ok d" and rows: "\<exists>r. t_audit d' = t_audit d @ [r] \<and> ae_id r = audit_seq d + 1 \<and> P r"
    and seq: "audit_seq d' = audit_seq d + 1" for d' :: core_db and P
  proof -
    from rows obtain r where r: "t_audit d' = t_audit d @ [r]" "ae_id r = audit_seq d + 1" by blast
    have "audit_ok d'" by (rule audit_ok_append [OF _ _ r seq]) (use log in \<open>simp_all add: log_ok_def\<close>)
    with log seq show ?thesis by (simp add: log_ok_def)
  qed
  show "identity_ok d \<Longrightarrow> identity_ok (append_audit_tx e ts d)"
    using ok [OF _ append_audit_grows(2)] by (simp add: identity_ok_def identity_parts)
  show "identity_ok d \<Longrightarrow> identity_ok (append_audit e ts d)"
    using ok [OF _ append_audit_grows(1)] by (simp add: identity_ok_def identity_parts)
qed

text \<open>A change of the identity tables that leaves the audit log alone.\<close>

lemma identity_ok_change:
  assumes "identity_ok d" "t_audit d' = t_audit d" "audit_seq d' = audit_seq d"
    and "single_admin d'" "sessions_ok d'" "factors_ok d'" "externals_ok d'"
  shows "identity_ok d'"
  using assms by (simp add: identity_ok_def log_ok_def audit_ok_def)

lemma change_sessions:
  "identity_ok d \<Longrightarrow> sessions_ok (d\<lparr>t_sessions := ss, t_grants := gs\<rparr>) \<Longrightarrow> identity_ok (d\<lparr>t_sessions := ss, t_grants := gs\<rparr>)"
  by (rule identity_ok_change [of d]) (simp_all add: identity_ok_def identity_parts)

lemma change_factors:
  "identity_ok d \<Longrightarrow> factors_ok (d\<lparr>t_mfa := ms, t_recovery := rs\<rparr>) \<Longrightarrow> identity_ok (d\<lparr>t_mfa := ms, t_recovery := rs\<rparr>)"
  by (rule identity_ok_change [of d]) (simp_all add: identity_ok_def identity_parts)

lemma change_externals:
  assumes "identity_ok d" "externals_ok d'" and "d' = d\<lparr>t_challenges := cs, t_external := xs, t_oauth := os,
    t_transactions := ts, t_bootstrap := bs\<rparr>"
  shows "identity_ok d'"
  using assms(1)
proof (rule identity_ok_change)
  show "externals_ok d'" by (rule assms(2))
qed (use assms(1) in \<open>simp_all add: identity_ok_def identity_parts assms(3)\<close>)

lemma drop_sessions_ok:
  assumes "identity_ok d"
  shows "identity_ok (drop_sessions p d)"
proof -
  note ok = identity_okD(2) [OF assms, unfolded sessions_ok_def]
  have "gr_session g \<in> ss_id ` {s \<in> set (t_sessions d). \<not> p s}"
    if g: "g \<in> set (t_grants d)" "gr_session g \<notin> ss_id ` {s \<in> set (t_sessions d). p s}" for g
  proof -
    have "gr_session g \<in> ss_id ` set (t_sessions d)" using ok g(1) by blast
    then obtain s where "s \<in> set (t_sessions d)" "ss_id s = gr_session g" by auto
    with g(2) show ?thesis by (metis (mono_tags, lifting) imageI mem_Collect_eq)
  qed
  then show ?thesis
    unfolding drop_sessions_def Let_def using assms ok
    by (intro change_sessions) (simp_all add: sessions_ok_def admin_in_def image_subset_iff)
qed

lemma delete_grants_ok:
  assumes "identity_ok d"
  shows "identity_ok (delete_member_step_up_grants_q i d)"
proof -
  have "identity_ok (d\<lparr>t_sessions := t_sessions d, t_grants := del (\<lambda>g. exists_row (\<lambda>s. ss_id s = gr_session g \<and> ss_admin s = i)
      (t_sessions d)) (t_grants d)\<rparr>)"
    using assms identity_okD(2) [OF assms, unfolded sessions_ok_def]
    by (intro change_sessions) (simp_all add: sessions_ok_def admin_in_def image_subset_iff)
  then show ?thesis by (simp add: delete_member_step_up_grants_q_def)
qed

text \<open>Changes of the policy, and of a member that keep its id, role and status.\<close>

lemma policy_ok:
  "identity_ok d \<Longrightarrow> identity_ok (enable_totp_login_policy_q d)"
  "identity_ok d \<Longrightarrow> identity_ok (disable_totp_login_policy_q d)"
  "identity_ok d \<Longrightarrow> identity_ok (set_password_login_enabled_q b d)"
  by (simp_all add: identity_ok_def identity_parts log_ok_def audit_ok_def enable_totp_login_policy_q_def
      disable_totp_login_policy_q_def set_password_login_enabled_q_def)

lemma members_change_ok:
  assumes "identity_ok d" "d' = d\<lparr>t_admins := upd p f (t_admins d)\<rparr>"
    and f: "\<And>a. ad_id (f a) = ad_id a" "\<And>a. ad_role (f a) = ad_role a" "\<And>a. ad_status (f a) = ad_status a"
  shows "identity_ok d'"
proof -
  have "ad_id ` set (upd p f (t_admins d)) = ad_id ` set (t_admins d)"
    by (simp add: map_upd_same f flip: set_map)
  with assms(1) show ?thesis
    unfolding assms(2)
    by (simp add: identity_ok_def identity_parts log_ok_def audit_ok_def f)
qed

section \<open>Steps\<close>

inductive identity_step :: "core_db \<Rightarrow> core_db \<Rightarrow> bool" where
  SaveCode: "save_bootstrap_code h expires d = Inr d' \<Longrightarrow> identity_step d d'"
| Bootstrap: "bootstrap_administrator code org i u p now e ts d = Inr d' \<Longrightarrow> identity_step d d'"
| Enroll: "create_enrollment_for_member i token w n c expires d = Inr d' \<Longrightarrow> identity_step d d'"
| Verify: "complete_mfa_enrollment token conf hashes now e ts d = Inr d' \<Longrightarrow> identity_step d d'"
| Confirm: "confirm_mfa_enrollment conf session now e ts d = Inr (m, d') \<Longrightarrow> identity_step d d'"
| UseRecovery: "consume_recovery_code i h now d = (b, d') \<Longrightarrow> identity_step d d'"
| UseTotp: "use_totp i counter d = (b, d') \<Longrightarrow> identity_step d d'"
| DisableTotp: "disable_totp i session e ts d = Inr d' \<Longrightarrow> identity_step d d'"
| OpenSession: "idle \<le> expires \<Longrightarrow> create_bounded_session h i csrf expires idle m ts d = Inr d' \<Longrightarrow> identity_step d d'"
| CloseSession: "identity_step d (delete_session h d)"
| TouchSession: "identity_step d (touch_session_activity h now idle d)"
| StepUp: "upsert_step_up_grant h granted expires d = Inr d' \<Longrightarrow> identity_step d d'"
| Challenge: "create_login_challenge token i source expires now d = Inr d' \<Longrightarrow> identity_step d d'"
| Answer: "consume_login_challenge token source now d = Inr (i, d') \<Longrightarrow> identity_step d d'"
| PasswordPolicy: "set_password_login_enabled i session b e ts d = Inr d' \<Longrightarrow> identity_step d d'"
| Begin: "create_oidc_transaction state purpose i nonce verifier ret expires d = Inr d' \<Longrightarrow> identity_step d d'"
| Callback: "consume_oidc_transaction state now d = Inr (t, d') \<Longrightarrow> identity_step d d'"
| BindOidc: "bind_external_identity i issuer subject display session e ts d = Inr d' \<Longrightarrow> identity_step d d'"
| UnbindOidc: "unbind_external_identity i session e ts d = Inr d' \<Longrightarrow> identity_step d d'"
| BindOAuth: "bind_oauth_identity i issuer subject display session e ts d = Inr d' \<Longrightarrow> identity_step d d'"
| UnbindOAuth: "unbind_oauth_identity i session e ts d = Inr d' \<Longrightarrow> identity_step d d'"
| NewPassword: "change_password i p e ts d = Inr d' \<Longrightarrow> identity_step d d'"
| NewUsername: "change_username i u e ts d = Inr d' \<Longrightarrow> identity_step d d'"
| Record: "identity_step d (append_audit e ts d)"

named_theorems identity_op_defs \<open>the definitions of the identity transactions that are one or two statements\<close>

lemmas [identity_op_defs] =
  save_bootstrap_code_def save_bootstrap_code_q_def
  create_enrollment_for_member_def insert_mfa_enrollment_q_def delete_mfa_enrollments_q_def
  confirm_mfa_enrollment_def select_mfa_for_confirm_q_def mark_mfa_confirmed_q_def
  consume_recovery_code_def consume_recovery_code_q_def use_totp_def use_totp_q_def disable_totp_def
  delete_recovery_codes_q_def create_bounded_session_def create_bounded_session_q_def
  delete_session_def delete_session_q_def touch_session_activity_def touch_session_activity_q_def
  upsert_step_up_grant_def upsert_step_up_grant_q_def create_login_challenge_def insert_login_challenge_q_def
  delete_expired_login_challenges_q_def consume_login_challenge_def consume_login_challenge_q_def
  set_password_login_enabled_def create_oidc_transaction_def insert_oidc_transaction_q_def
  consume_oidc_transaction_def consume_oidc_transaction_q_def
  bind_external_identity_def insert_external_identity_binding_q_def
  unbind_external_identity_def delete_external_identity_binding_q_def
  bind_oauth_identity_def insert_oauth_identity_binding_q_def
  unbind_oauth_identity_def delete_oauth_identity_binding_q_def
  change_password_def update_password_q_def change_username_def update_username_q_def

section \<open>Every step keeps the invariant\<close>

lemma externals_bootstrap:
  "identity_ok d \<Longrightarrow> distinct (map bc_hash bs) \<Longrightarrow> identity_ok (d\<lparr>t_bootstrap := bs\<rparr>)"
  by (rule change_externals [where d = d and cs = "t_challenges d" and xs = "t_external d" and os = "t_oauth d"
        and ts = "t_transactions d" and bs = bs])
    (simp_all add: identity_ok_def externals_ok_def admin_in_def)

lemma save_bootstrap_code_ok:
  assumes "save_bootstrap_code h expires d = Inr d'" "identity_ok d"
  shows "identity_ok d'"
proof -
  from assms(1) have d': "d' = d\<lparr>t_bootstrap := t_bootstrap d @ [\<lparr>bc_hash = h, bc_expires = expires, bc_used = None\<rparr>]\<rparr>"
    and new: "\<forall>b \<in> set (t_bootstrap d). bc_hash b \<noteq> h"
    by (auto simp: identity_op_defs split: if_splits)
  show ?thesis
    unfolding d' using new identity_okD(4) [OF assms(2)]
    by (intro externals_bootstrap [OF assms(2)]) (auto simp: externals_ok_def)
qed

lemma consume_bootstrap_ok:
  assumes "identity_ok d"
  shows "identity_ok (snd (consume_bootstrap_code_q code now d))"
  unfolding consume_bootstrap_code_q_def Let_def snd_conv using identity_okD(4) [OF assms]
  by (intro externals_bootstrap [OF assms]) (simp add: externals_ok_def map_upd_same)

lemma bootstrap_Inr:
  assumes "bootstrap_administrator code org i u p now e ts d = Inr d'"
  obtains d1 a where "t_admins d = []" "d1 = snd (consume_bootstrap_code_q code now d)" "ad_id a = i" "ad_username a = u"
    "ad_role a = RoleAdministrator" "ad_status a = MemberActive" "t_org d1 = []"
    "d' = append_audit_tx e ts (d1\<lparr>t_org := [\<lparr>og_name = org, og_totp = False, og_password = True\<rparr>], t_admins := [a]\<rparr>)"
    "fst (consume_bootstrap_code_q code now d) = 1"
proof -
  obtain n d1 where c: "consume_bootstrap_code_q code now d = (n, d1)" by (cases "consume_bootstrap_code_q code now d")
  then have adm: "t_admins d1 = t_admins d" by (auto simp: consume_bootstrap_code_q_def Let_def)
  from assms c have e: "t_admins d = []" "n = 1" "t_org d1 = []"
    by (auto simp: bootstrap_administrator_def admin_count_q_def insert_organization_config_q_def split: if_splits)
  let ?a = "\<lparr>ad_id = i, ad_username = u, ad_password = p, ad_created = ts, ad_role = RoleAdministrator,
       ad_status = MemberActive, ad_activated = Some now, ad_deactivated = None, ad_totp = None\<rparr>"
  have "d' = append_audit_tx e ts (d1\<lparr>t_org := [\<lparr>og_name = org, og_totp = False, og_password = True\<rparr>], t_admins := [?a]\<rparr>)"
    using assms c e adm by (simp add: bootstrap_administrator_def admin_count_q_def insert_organization_config_q_def
        insert_admin_active_q_def insert_admin_row_q_def)
  with c e show thesis by (intro that [of d1 ?a]) simp_all
qed

lemma bootstrap_ok:
  assumes "bootstrap_administrator code org i u p now e ts d = Inr d'" "identity_ok d"
  shows "identity_ok d'"
  using assms(1)
proof (rule bootstrap_Inr)
  fix d1 a
  assume a: "t_admins d = []" "d1 = snd (consume_bootstrap_code_q code now d)" "ad_role a = RoleAdministrator"
    "ad_status a = MemberActive"
    and d': "d' = append_audit_tx e ts (d1\<lparr>t_org := [\<lparr>og_name = org, og_totp = False, og_password = True\<rparr>], t_admins := [a]\<rparr>)"
  have adm: "t_admins d1 = []" using a(1,2) by (simp add: consume_bootstrap_code_q_def Let_def)
  have "identity_ok d1" unfolding a(2) by (rule consume_bootstrap_ok [OF assms(2)])
  then have "identity_ok (d1\<lparr>t_org := [\<lparr>og_name = org, og_totp = False, og_password = True\<rparr>], t_admins := [a]\<rparr>)"
  proof (rule identity_ok_change)
    note ok = identity_okD [OF \<open>identity_ok d1\<close>]
    show "sessions_ok (d1\<lparr>t_org := [\<lparr>og_name = org, og_totp = False, og_password = True\<rparr>], t_admins := [a]\<rparr>)"
    proof -
      have "t_sessions d1 = []" using ok(2) adm by (cases "t_sessions d1") (auto simp: sessions_ok_def admin_in_def)
      moreover from this have "t_grants d1 = []" using ok(2) by (cases "t_grants d1") (auto simp: sessions_ok_def)
      ultimately show ?thesis by (simp add: sessions_ok_def)
    qed
    show "factors_ok (d1\<lparr>t_org := [\<lparr>og_name = org, og_totp = False, og_password = True\<rparr>], t_admins := [a]\<rparr>)"
      using ok(3) adm by (simp add: factors_ok_def admin_in_def)
    show "externals_ok (d1\<lparr>t_org := [\<lparr>og_name = org, og_totp = False, og_password = True\<rparr>], t_admins := [a]\<rparr>)"
      using ok(4) adm by (auto simp: externals_ok_def admin_in_def)
  qed (use a(3,4) in \<open>simp_all add: single_admin_def\<close>)
  then show ?thesis unfolding d' by (rule append_audit_ok)
qed

lemma factors_mfa:
  assumes "identity_ok d" "distinct (map mf_token ms)" "distinct (map mf_admin ms)"
    and "\<And>m. m \<in> set ms \<Longrightarrow> admin_in d (mf_admin m) \<and> (mf_confirmed m \<noteq> None \<longrightarrow> mf_verified m \<noteq> None) \<and>
        (mf_confirmation m \<noteq> None \<longrightarrow> mf_verified m \<noteq> None)"
  shows "identity_ok (d\<lparr>t_mfa := ms\<rparr>)"
proof -
  have "identity_ok (d\<lparr>t_mfa := ms, t_recovery := t_recovery d\<rparr>)"
    using identity_okD(3) [OF assms(1)] assms(2-4)
    by (intro change_factors [OF assms(1)]) (simp add: factors_ok_def admin_in_def)
  then show ?thesis by simp
qed

lemma factors_recovery:
  assumes "identity_ok d" "distinct (map (\<lambda>r. (rc_admin r, rc_code r)) rs)" "\<And>r. r \<in> set rs \<Longrightarrow> admin_in d (rc_admin r)"
  shows "identity_ok (d\<lparr>t_recovery := rs\<rparr>)"
proof -
  have "identity_ok (d\<lparr>t_mfa := t_mfa d, t_recovery := rs\<rparr>)"
    using identity_okD(3) [OF assms(1)] assms(2,3)
    by (intro change_factors [OF assms(1)]) (simp add: factors_ok_def admin_in_def)
  then show ?thesis by simp
qed

lemma delete_mfa_ok: "identity_ok d \<Longrightarrow> identity_ok (delete_mfa_enrollments_q i d)"
  unfolding delete_mfa_enrollments_q_def using identity_okD(3) [of d]
  by (intro factors_mfa) (simp_all add: factors_ok_def)

lemma delete_recovery_ok: "identity_ok d \<Longrightarrow> identity_ok (delete_recovery_codes_q i d)"
  unfolding delete_recovery_codes_q_def using identity_okD(3) [of d]
  by (intro factors_recovery) (simp_all add: factors_ok_def)

lemma exists_admin_in: "exists_admin i d \<longleftrightarrow> admin_in d i"
  by (auto simp: exists_admin_def admin_in_def)

lemma enroll_ok:
  assumes "create_enrollment_for_member i token w n c expires d = Inr d'" "identity_ok d"
  shows "identity_ok d'"
proof -
  define d1 where "d1 = delete_mfa_enrollments_q i d"
  have ok: "identity_ok d1" unfolding d1_def by (rule delete_mfa_ok [OF assms(2)])
  let ?m = "\<lparr>mf_token = token, mf_admin = i, mf_wrapped = w, mf_nonces = n, mf_cipher = c,
             mf_confirmation = None, mf_expires = expires, mf_verified = None, mf_confirmed = None\<rparr>"
  from assms(1) have new: "\<forall>m \<in> set (t_mfa d1). mf_token m \<noteq> token \<and> mf_admin m \<noteq> i" "admin_in d1 i"
    and d': "d' = d1\<lparr>t_mfa := t_mfa d1 @ [?m]\<rparr>"
    by (auto simp: create_enrollment_for_member_def insert_mfa_enrollment_q_def exists_admin_in d1_def split: if_splits)
  show ?thesis
    unfolding d' using new identity_okD(3) [OF ok]
    by (intro factors_mfa [OF ok]) (auto simp: factors_ok_def)
qed

lemma mark_verified_ok:
  assumes "mark_mfa_verified_q token now conf d = Inr d'" "identity_ok d"
  shows "identity_ok d'"
proof -
  from assms(1) have d': "d' = d\<lparr>t_mfa := upd (\<lambda>m. mf_token m = token)
      (\<lambda>m. m\<lparr>mf_verified := Some now, mf_confirmation := Some conf\<rparr>) (t_mfa d)\<rparr>"
    by (auto simp: mark_mfa_verified_q_def split: if_splits)
  show ?thesis
    unfolding d' using identity_okD(3) [OF assms(2)]
    by (intro factors_mfa [OF assms(2)]) (auto simp: factors_ok_def map_upd_same set_upd_split)
qed

lemma mark_confirmed_ok:
  assumes "identity_ok d"
  shows "identity_ok (mark_mfa_confirmed_q conf now d)"
  unfolding mark_mfa_confirmed_q_def using identity_okD(3) [OF assms]
  by (intro factors_mfa [OF assms]) (auto simp: factors_ok_def map_upd_same set_upd_split)

lemma insert_recovery_codes_ok:
  "insert_recovery_codes i hs d = Inr d' \<Longrightarrow> identity_ok d \<Longrightarrow> identity_ok d'"
proof (induction i hs d rule: insert_recovery_codes.induct)
  case (2 i h hs d)
  then obtain d1 where d1: "insert_recovery_code_q i h d = Inr d1" "insert_recovery_codes i hs d1 = Inr d'" by auto
  then have eq: "d1 = d\<lparr>t_recovery := t_recovery d @ [\<lparr>rc_admin = i, rc_code = h, rc_used = None\<rparr>]\<rparr>"
    and new: "admin_in d i" "\<forall>r \<in> set (t_recovery d). \<not> (rc_admin r = i \<and> rc_code r = h)"
    by (auto simp: insert_recovery_code_q_def exists_admin_in split: if_splits)
  have "identity_ok d1"
    unfolding eq using new identity_okD(3) [OF 2(3)]
    by (intro factors_recovery [OF 2(3)]) (auto simp: factors_ok_def)
  with 2(1) d1 show ?case by blast
qed simp

lemma complete_mfa_ok:
  "complete_mfa_enrollment token conf hashes now e ts d = Inr d' \<Longrightarrow> identity_ok d \<Longrightarrow> identity_ok d'"
  by (auto simp: complete_mfa_enrollment_def intro: append_audit_ok insert_recovery_codes_ok mark_verified_ok)

lemma confirm_mfa_ok:
  "confirm_mfa_enrollment conf session now e ts d = Inr (m, d') \<Longrightarrow> identity_ok d \<Longrightarrow> identity_ok d'"
  by (auto simp: confirm_mfa_enrollment_def Let_def delete_other_member_sessions_q_def
      intro!: append_audit_ok drop_sessions_ok delete_grants_ok policy_ok mark_confirmed_ok)

lemma change_admins:
  "identity_ok d \<Longrightarrow> (\<And>a. ad_id (f a) = ad_id a) \<Longrightarrow> (\<And>a. ad_role (f a) = ad_role a) \<Longrightarrow>
   (\<And>a. ad_status (f a) = ad_status a) \<Longrightarrow> identity_ok (d\<lparr>t_admins := upd p f (t_admins d)\<rparr>)"
  by (rule members_change_ok [OF _ refl])

lemma consume_recovery_code_ok:
  assumes "consume_recovery_code i h now d = (b, d')" "identity_ok d"
  shows "identity_ok d'"
proof -
  from assms(1) have d': "d' = d\<lparr>t_recovery := upd (\<lambda>r. rc_admin r = i \<and> rc_code r = h \<and> rc_used r = None)
      (\<lambda>r. r\<lparr>rc_used := Some now\<rparr>) (t_recovery d)\<rparr>"
    by (auto simp: consume_recovery_code_def consume_recovery_code_q_def Let_def)
  show ?thesis
    unfolding d' using identity_okD(3) [OF assms(2)]
    by (intro factors_recovery [OF assms(2)]) (auto simp: factors_ok_def map_upd_same set_upd_split)
qed

lemma use_totp_ok:
  assumes "use_totp i counter d = (b, d')" "identity_ok d"
  shows "identity_ok d'"
proof -
  from assms(1) have d': "d' = d\<lparr>t_admins := upd (\<lambda>a. ad_id a = i \<and> (case ad_totp a of None \<Rightarrow> True | Some used \<Rightarrow> used < counter))
      (\<lambda>a. a\<lparr>ad_totp := Some counter\<rparr>) (t_admins d)\<rparr>"
    by (auto simp: use_totp_def use_totp_q_def Let_def)
  show ?thesis unfolding d' by (rule change_admins [OF assms(2)]) simp_all
qed

lemma disable_totp_ok: "disable_totp i session e ts d = Inr d' \<Longrightarrow> identity_ok d \<Longrightarrow> identity_ok d'"
  by (auto simp: disable_totp_def delete_other_member_sessions_q_def
      intro!: append_audit_ok drop_sessions_ok delete_grants_ok delete_recovery_ok delete_mfa_ok policy_ok)

lemma create_session_ok:
  assumes "create_bounded_session h i csrf expires idle m ts d = Inr d'" "idle \<le> expires" "identity_ok d"
  shows "identity_ok d'"
proof -
  let ?s = "\<lparr>ss_id = h, ss_admin = i, ss_csrf = csrf, ss_expires = expires, ss_activity = ts, ss_idle = idle, ss_method = m\<rparr>"
  from assms(1) have new: "\<forall>s \<in> set (t_sessions d). ss_id s \<noteq> h" "admin_in d i"
    and d': "d' = d\<lparr>t_sessions := t_sessions d @ [?s], t_grants := t_grants d\<rparr>"
    by (auto simp: create_bounded_session_def create_bounded_session_q_def exists_admin_in split: if_splits)
  show ?thesis
    unfolding d' using new assms(2) identity_okD(2) [OF assms(3)]
    by (intro change_sessions [OF assms(3)]) (auto simp: sessions_ok_def admin_in_def)
qed

lemma touch_session_ok:
  assumes "identity_ok d"
  shows "identity_ok (touch_session_activity h now idle d)"
proof -
  define ss where "ss = upd (\<lambda>s. ss_id s = h) (\<lambda>s. s\<lparr>ss_activity := now, ss_idle := min (ss_expires s) idle\<rparr>) (t_sessions d)"
  have ids: "map ss_id ss = map ss_id (t_sessions d)" unfolding ss_def by (rule map_upd_same) simp
  then have ids': "ss_id ` set ss = ss_id ` set (t_sessions d)" by (metis set_map)
  have "\<forall>s \<in> set ss. admin_in d (ss_admin s) \<and> ss_idle s \<le> ss_expires s"
    using identity_okD(2) [OF assms] by (auto simp: ss_def sessions_ok_def set_upd_split)
  with ids ids' identity_okD(2) [OF assms] have "identity_ok (d\<lparr>t_sessions := ss, t_grants := t_grants d\<rparr>)"
    by (intro change_sessions [OF assms]) (simp add: sessions_ok_def admin_in_def)
  then show ?thesis by (simp add: touch_session_activity_def touch_session_activity_q_def ss_def)
qed

lemma step_up_ok:
  assumes "upsert_step_up_grant h granted expires d = Inr d'" "identity_ok d"
  shows "identity_ok d'"
proof -
  note ok = identity_okD(2) [OF assms(2)]
  from assms(1) obtain gs where d': "d' = d\<lparr>t_sessions := t_sessions d, t_grants := gs\<rparr>"
    and gs: "distinct (map gr_session gs)" "gr_session ` set gs \<subseteq> ss_id ` set (t_sessions d)"
  proof (cases "\<exists>g \<in> set (t_grants d). gr_session g = h")
    case True
    let ?gs = "upd (\<lambda>g. gr_session g = h) (\<lambda>g. g\<lparr>gr_granted := granted, gr_expires := expires\<rparr>) (t_grants d)"
    have "map gr_session ?gs = map gr_session (t_grants d)" by (rule map_upd_same) simp
    then have "distinct (map gr_session ?gs)" "gr_session ` set ?gs = gr_session ` set (t_grants d)"
      using ok by (auto simp: sessions_ok_def simp flip: set_map)
    then show thesis using that [of ?gs] True assms(1) ok
      by (simp add: upsert_step_up_grant_def upsert_step_up_grant_q_def sessions_ok_def)
  next
    case False
    let ?gs = "t_grants d @ [\<lparr>gr_session = h, gr_granted = granted, gr_expires = expires\<rparr>]"
    from False assms(1) have "h \<in> ss_id ` set (t_sessions d)" "d' = d\<lparr>t_sessions := t_sessions d, t_grants := ?gs\<rparr>"
      by (auto simp: upsert_step_up_grant_def upsert_step_up_grant_q_def split: if_splits)
    moreover have "h \<notin> gr_session ` set (t_grants d)" using False by auto
    ultimately show thesis using ok by (intro that [of ?gs]) (simp_all add: sessions_ok_def)
  qed
  show ?thesis
    unfolding d' using gs ok by (intro change_sessions [OF assms(2)]) (simp add: sessions_ok_def admin_in_def)
qed

lemma externals_challenges:
  "identity_ok d \<Longrightarrow> distinct (map lc_token cs) \<Longrightarrow> (\<And>c. c \<in> set cs \<Longrightarrow> admin_in d (lc_admin c)) \<Longrightarrow>
   identity_ok (d\<lparr>t_challenges := cs\<rparr>)"
  by (rule change_externals [where d = d and cs = cs and xs = "t_external d" and os = "t_oauth d"
        and ts = "t_transactions d" and bs = "t_bootstrap d"])
    (simp_all add: identity_ok_def externals_ok_def admin_in_def)

lemma externals_transactions:
  "identity_ok d \<Longrightarrow> distinct (map ot_state ts) \<Longrightarrow> (\<And>t. t \<in> set ts \<Longrightarrow> ot_purpose t \<in> {''login'', ''bind''}) \<Longrightarrow>
   identity_ok (d\<lparr>t_transactions := ts\<rparr>)"
  by (rule change_externals [where d = d and cs = "t_challenges d" and xs = "t_external d" and os = "t_oauth d"
        and ts = ts and bs = "t_bootstrap d"])
    (simp_all add: identity_ok_def externals_ok_def admin_in_def)

lemma externals_bindings:
  assumes "identity_ok d" "length xs \<le> 1" "\<And>x. x \<in> set xs \<Longrightarrow> admin_in d (xb_admin x)"
  shows "identity_ok (d\<lparr>t_external := xs\<rparr>)" "identity_ok (d\<lparr>t_oauth := xs\<rparr>)"
proof -
  show "identity_ok (d\<lparr>t_external := xs\<rparr>)"
    by (rule change_externals [where d = d and cs = "t_challenges d" and xs = xs and os = "t_oauth d"
        and ts = "t_transactions d" and bs = "t_bootstrap d"])
      (use assms in \<open>auto simp: identity_ok_def externals_ok_def admin_in_def\<close>)
  show "identity_ok (d\<lparr>t_oauth := xs\<rparr>)"
    by (rule change_externals [where d = d and cs = "t_challenges d" and xs = "t_external d" and os = xs
        and ts = "t_transactions d" and bs = "t_bootstrap d"])
      (use assms in \<open>auto simp: identity_ok_def externals_ok_def admin_in_def\<close>)
qed

lemma create_challenge_ok:
  assumes "create_login_challenge token i source expires now d = Inr d'" "identity_ok d"
  shows "identity_ok d'"
proof -
  define cs where "cs = del (\<lambda>c. lc_expires c \<le> now \<or> lc_used c \<noteq> None) (t_challenges d)"
  let ?c = "\<lparr>lc_token = token, lc_admin = i, lc_source = source, lc_expires = expires, lc_used = None\<rparr>"
  have sub: "distinct (map lc_token cs)" "\<And>c. c \<in> set cs \<Longrightarrow> admin_in d (lc_admin c)"
    using identity_okD(4) [OF assms(2)] by (simp_all add: cs_def externals_ok_def)
  from assms(1) have new: "\<forall>c \<in> set cs. lc_token c \<noteq> token" "admin_in d i" and d': "d' = d\<lparr>t_challenges := cs @ [?c]\<rparr>"
    by (auto simp: create_login_challenge_def insert_login_challenge_q_def delete_expired_login_challenges_q_def
        exists_admin_def admin_in_def cs_def split: if_splits)
  show ?thesis
    unfolding d' using new sub by (intro externals_challenges [OF assms(2)]) auto
qed

lemma consume_challenge_ok:
  assumes "consume_login_challenge token source now d = Inr (i, d')" "identity_ok d"
  shows "identity_ok d'"
proof -
  from assms(1) have d': "d' = d\<lparr>t_challenges := upd (\<lambda>c. lc_token c = token \<and> lc_source c = source \<and> lc_used c = None \<and>
      now < lc_expires c) (\<lambda>c. c\<lparr>lc_used := Some now\<rparr>) (t_challenges d)\<rparr>"
    by (auto simp: consume_login_challenge_def consume_login_challenge_q_def Let_def)
  show ?thesis
    unfolding d' using identity_okD(4) [OF assms(2)]
    by (intro externals_challenges [OF assms(2)]) (auto simp: externals_ok_def map_upd_same set_upd_split)
qed

lemma password_policy_ok: "set_password_login_enabled i session b e ts d = Inr d' \<Longrightarrow> identity_ok d \<Longrightarrow> identity_ok d'"
  by (auto simp: set_password_login_enabled_def Let_def delete_other_member_sessions_q_def split: if_splits
      intro!: append_audit_ok drop_sessions_ok delete_grants_ok policy_ok)

lemma create_transaction_ok:
  assumes "create_oidc_transaction state purpose i nonce verifier ret expires d = Inr d'" "identity_ok d"
  shows "identity_ok d'"
proof -
  let ?t = "\<lparr>ot_state = state, ot_purpose = purpose, ot_admin = (if i = [] then None else Some i), ot_nonce = nonce,
      ot_verifier = verifier, ot_return = ret, ot_expires = expires, ot_used = None\<rparr>"
  from assms(1) have new: "\<forall>t \<in> set (t_transactions d). ot_state t \<noteq> state" "purpose \<in> {''login'', ''bind''}"
    and d': "d' = d\<lparr>t_transactions := t_transactions d @ [?t]\<rparr>"
    by (auto simp: create_oidc_transaction_def insert_oidc_transaction_q_def split: if_splits)
  show ?thesis
    unfolding d' using new identity_okD(4) [OF assms(2)]
    by (intro externals_transactions [OF assms(2)]) (auto simp: externals_ok_def)
qed

lemma consume_transaction_ok:
  assumes "consume_oidc_transaction state now d = Inr (t, d')" "identity_ok d"
  shows "identity_ok d'"
proof -
  from assms(1) have d': "d' = d\<lparr>t_transactions := upd (\<lambda>t. ot_state t = state \<and> ot_used t = None \<and> now < ot_expires t)
      (\<lambda>t. t\<lparr>ot_used := Some now\<rparr>) (t_transactions d)\<rparr>"
    by (auto simp: consume_oidc_transaction_def consume_oidc_transaction_q_def Let_def)
  show ?thesis
    unfolding d' using identity_okD(4) [OF assms(2)]
    by (intro externals_transactions [OF assms(2)]) (auto simp: externals_ok_def map_upd_same set_upd_split)
qed

text \<open>Binding and unbinding end by revoking the other Sessions and every Step-up Grant.\<close>

lemma revoke_ok:
  "identity_ok d \<Longrightarrow> identity_ok (append_audit_tx e ts (delete_member_step_up_grants_q i (delete_other_member_sessions_q i session d)))"
  by (auto simp: delete_other_member_sessions_q_def intro!: append_audit_ok drop_sessions_ok delete_grants_ok)

lemma bind_external_ok:
  "bind_external_identity i issuer subject display session e ts d = Inr d' \<Longrightarrow> identity_ok d \<Longrightarrow> identity_ok d'"
  by (auto simp: bind_external_identity_def insert_external_identity_binding_q_def exists_admin_def admin_in_def split: if_splits
      intro!: revoke_ok externals_bindings(1))

lemma bind_oauth_ok:
  "bind_oauth_identity i issuer subject display session e ts d = Inr d' \<Longrightarrow> identity_ok d \<Longrightarrow> identity_ok d'"
  by (auto simp: bind_oauth_identity_def insert_oauth_identity_binding_q_def exists_admin_def admin_in_def split: if_splits
      intro!: revoke_ok externals_bindings(2))

lemma length_del: "length (del p t) \<le> length t"
  by (simp add: del_def)

lemma unbind_external_ok: "unbind_external_identity i session e ts d = Inr d' \<Longrightarrow> identity_ok d \<Longrightarrow> identity_ok d'"
  using identity_okD(4) [of d] length_del [of "\<lambda>x. xb_admin x = i" "t_external d"]
  by (auto simp: unbind_external_identity_def delete_external_identity_binding_q_def externals_ok_def
      intro!: revoke_ok externals_bindings(1))

lemma unbind_oauth_ok: "unbind_oauth_identity i session e ts d = Inr d' \<Longrightarrow> identity_ok d \<Longrightarrow> identity_ok d'"
  using identity_okD(4) [of d] length_del [of "\<lambda>x. xb_admin x = i" "t_oauth d"]
  by (auto simp: unbind_oauth_identity_def delete_oauth_identity_binding_q_def externals_ok_def
      intro!: revoke_ok externals_bindings(2))

lemma change_password_ok: "change_password i p e ts d = Inr d' \<Longrightarrow> identity_ok d \<Longrightarrow> identity_ok d'"
  by (auto simp: change_password_def update_password_q_def delete_member_sessions_q_def
      intro!: append_audit_ok drop_sessions_ok change_admins)

lemma change_username_ok: "change_username i u e ts d = Inr d' \<Longrightarrow> identity_ok d \<Longrightarrow> identity_ok d'"
  by (auto simp: change_username_def update_username_q_def delete_member_sessions_q_def split: if_splits
      intro!: append_audit_ok drop_sessions_ok change_admins)

lemmas identity_ops_ok =
  save_bootstrap_code_ok bootstrap_ok enroll_ok complete_mfa_ok confirm_mfa_ok consume_recovery_code_ok use_totp_ok
  disable_totp_ok create_session_ok touch_session_ok step_up_ok create_challenge_ok consume_challenge_ok
  password_policy_ok create_transaction_ok consume_transaction_ok bind_external_ok unbind_external_ok bind_oauth_ok
  unbind_oauth_ok change_password_ok change_username_ok append_audit_ok

interpretation identity: step_system "\<lambda>d. d = empty_core" identity_step identity_ok
proof
  show "identity_ok d" if "d = empty_core" for d by (simp add: that identity_ok_empty)
  show "identity_ok d'" if "identity_ok d" "identity_step d d'" for d d'
    using that(2,1) by (cases rule: identity_step.cases)
      (simp_all add: delete_session_def delete_session_q_def drop_sessions_ok identity_ops_ok)
qed

end
