(* ===== verification/Credentials.thy ===== *)
theory Credentials
  imports IdentitySystem
begin

text \<open>
  The single-use credentials of the identity domain and the lifetime of Sessions: what each step of the system does to
  the tables that hold them, and the interpretations of \<open>one_shot\<close> and \<open>step_system\<close> on them.
\<close>

section \<open>What a step does to each table of credentials\<close>

definition ident_step :: "core_db \<Rightarrow> core_db \<Rightarrow> bool" where
  "ident_step d d' \<longleftrightarrow> identity_ok d \<and> identity_step d d'"

lemma insert_recovery_codes_tables:
  "insert_recovery_codes i hs d = Inr d' \<Longrightarrow>
     t_bootstrap d' = t_bootstrap d \<and> t_admins d' = t_admins d \<and> t_challenges d' = t_challenges d \<and>
     t_transactions d' = t_transactions d \<and> t_sessions d' = t_sessions d \<and> t_grants d' = t_grants d"
proof (induction i hs d rule: insert_recovery_codes.induct)
  case (2 i h hs d)
  then show ?case by (fastforce simp: insert_recovery_code_q_def split: if_splits)
qed simp

lemma insert_recovery_codes_rows:
  "insert_recovery_codes i hs d = Inr d' \<Longrightarrow> r \<in> set (t_recovery d') \<Longrightarrow>
     r \<in> set (t_recovery d) \<or> (rc_admin r, rc_code r) \<notin> (\<lambda>r. (rc_admin r, rc_code r)) ` set (t_recovery d)"
proof (induction i hs d rule: insert_recovery_codes.induct)
  case (2 i h hs d)
  then obtain d1 where d1: "insert_recovery_code_q i h d = Inr d1" "insert_recovery_codes i hs d1 = Inr d'" by auto
  with 2 have "r \<in> set (t_recovery d1) \<or> (rc_admin r, rc_code r) \<notin> (\<lambda>r. (rc_admin r, rc_code r)) ` set (t_recovery d1)"
    by blast
  with d1(1) show ?case by (auto simp: insert_recovery_code_q_def split: if_splits)
qed simp

lemmas revoke_defs = delete_other_member_sessions_q_def delete_member_sessions_q_def delete_member_step_up_grants_q_def
  drop_sessions_def Let_def enable_totp_login_policy_q_def disable_totp_login_policy_q_def set_password_login_enabled_q_def

lemma verify_tables:
  "complete_mfa_enrollment token conf hashes now e ts d = Inr d' \<Longrightarrow>
     t_bootstrap d' = t_bootstrap d \<and> t_admins d' = t_admins d \<and> t_challenges d' = t_challenges d \<and>
     t_transactions d' = t_transactions d \<and> t_sessions d' = t_sessions d \<and> t_grants d' = t_grants d"
  by (auto simp: complete_mfa_enrollment_def mark_mfa_verified_q_def split: if_splits dest!: insert_recovery_codes_tables)

lemma verify_recovery:
  assumes "complete_mfa_enrollment token conf hashes now e ts d = Inr d'" "r \<in> set (t_recovery d')"
  shows "r \<in> set (t_recovery d) \<or> (rc_admin r, rc_code r) \<notin> (\<lambda>r. (rc_admin r, rc_code r)) ` set (t_recovery d)"
proof -
  from assms(1) obtain i d1 d2 where "mark_mfa_verified_q token now conf d = Inr d1" "insert_recovery_codes i hashes d1 = Inr d2"
    "d' = append_audit_tx e ts d2" unfolding complete_mfa_enrollment_def by auto
  moreover from this(1) have "t_recovery d1 = t_recovery d" by (auto simp: mark_mfa_verified_q_def split: if_splits)
  ultimately show ?thesis using assms(2) insert_recovery_codes_rows [of i hashes d1 d2 r] by simp
qed

lemma bootstrap_tables:
  assumes "bootstrap_administrator code org i u p now e ts d = Inr d'"
  shows "t_admins d = []" "t_recovery d' = t_recovery d" "t_challenges d' = t_challenges d"
    "t_transactions d' = t_transactions d" "t_sessions d' = t_sessions d"
    "t_bootstrap d' = upd (\<lambda>b. bc_hash b = code \<and> bc_used b = None \<and> now < bc_expires b)
        (\<lambda>b. b\<lparr>bc_used := Some now\<rparr>) (t_bootstrap d)"
  by (rule bootstrap_Inr [OF assms]; simp add: consume_bootstrap_code_q_def Let_def)+

definition recovery_key :: "recovery_row \<Rightarrow> uuid \<times> string" where
  "recovery_key r = (rc_admin r, rc_code r)"

definition recovery_free :: "recovery_row \<Rightarrow> bool" where
  "recovery_free r \<longleftrightarrow> rc_used r = None"

definition transaction_free :: "transaction_row \<Rightarrow> bool" where
  "transaction_free t \<longleftrightarrow> ot_used t = None"

lemma step_recovery_rows:
  assumes "identity_step d d'" "r \<in> set (t_recovery d')"
  shows "r \<in> set (t_recovery d) \<or> \<not> recovery_free r \<or> recovery_key r \<notin> recovery_key ` set (t_recovery d)"
  using assms(1)
proof cases
  case Verify
  then show ?thesis using assms(2) verify_recovery by (fastforce simp: recovery_key_def)
next
  case Bootstrap
  then show ?thesis using assms(2) by (simp add: bootstrap_tables)
qed (use assms(2) in \<open>auto simp: recovery_free_def transaction_free_def identity_op_defs revoke_defs set_upd_split split: if_splits option.splits\<close>)

lemma step_transaction_rows:
  assumes "identity_step d d'" "t \<in> set (t_transactions d')"
  shows "t \<in> set (t_transactions d) \<or> \<not> transaction_free t \<or> ot_state t \<notin> ot_state ` set (t_transactions d)"
  using assms(1)
proof cases
  case Verify
  then show ?thesis using assms(2) by (simp add: verify_tables)
next
  case Bootstrap
  then show ?thesis using assms(2) by (simp add: bootstrap_tables)
qed (use assms(2) in \<open>auto simp: recovery_free_def transaction_free_def identity_op_defs revoke_defs set_upd_split split: if_splits option.splits\<close>)

text \<open>The TOTP counter of a member never goes back.\<close>

definition totp_below :: "int \<Rightarrow> admin_row \<Rightarrow> bool" where
  "totp_below c a \<longleftrightarrow> (case ad_totp a of None \<Rightarrow> True | Some used \<Rightarrow> used < c)"

lemma use_totp_eq:
  "use_totp i c d = (cnt (\<lambda>a. ad_id a = i \<and> totp_below c a) (t_admins d) = 1,
     d\<lparr>t_admins := upd (\<lambda>a. ad_id a = i \<and> totp_below c a) (\<lambda>a. a\<lparr>ad_totp := Some c\<rparr>) (t_admins d)\<rparr>)"
  by (simp add: use_totp_def use_totp_q_def totp_below_def Let_def)

lemma step_admin_rows:
  assumes "identity_step d d'" "a \<in> set (t_admins d')"
  shows "a \<in> set (t_admins d) \<or> ad_id a \<notin> ad_id ` set (t_admins d) \<or>
    (\<exists>x \<in> set (t_admins d). ad_id x = ad_id a \<and> (\<forall>c. totp_below c a \<longrightarrow> totp_below c x))"
  using assms(1)
proof cases
  case Verify
  then show ?thesis using assms(2) by (simp add: verify_tables)
next
  case Bootstrap
  then show ?thesis by (simp add: bootstrap_tables)
next
  case (UseTotp i c b)
  then have "t_admins d' = upd (\<lambda>a. ad_id a = i \<and> totp_below c a) (\<lambda>a. a\<lparr>ad_totp := Some c\<rparr>) (t_admins d)"
    by (auto simp: use_totp_eq)
  with assms(2) consider "a \<in> set (t_admins d)" | x where "x \<in> set (t_admins d)" "totp_below c x" "a = x\<lparr>ad_totp := Some c\<rparr>"
    by (auto simp: set_upd_split)
  then show ?thesis by cases (force simp: totp_below_def split: option.splits)+
next
  case (NewPassword i p e ts)
  then show ?thesis using assms(2)
    by (force simp: change_password_def update_password_q_def revoke_defs set_upd_split totp_below_def)
next
  case (NewUsername i u e ts)
  then show ?thesis using assms(2)
    by (force simp: change_username_def update_username_q_def revoke_defs set_upd_split totp_below_def split: if_splits)
qed (use assms(2) in \<open>auto simp: identity_op_defs revoke_defs set_upd_split split: if_splits option.splits\<close>)

text \<open>Only issuing a challenge brings an unused one.\<close>

lemma step_challenge_rows:
  assumes "identity_step d d'" "c \<in> set (t_challenges d')"
  shows "c \<in> set (t_challenges d) \<or> lc_used c \<noteq> None \<or>
    (\<exists>i source expires now. create_login_challenge (lc_token c) i source expires now d = Inr d')"
  using assms(1)
proof cases
  case Verify
  then show ?thesis using assms(2) by (simp add: verify_tables)
next
  case Bootstrap
  then show ?thesis using assms(2) by (simp add: bootstrap_tables)
next
  case (Challenge token i source expires now)
  then have "c \<in> set (t_challenges d) \<or> lc_token c = token" using assms(2)
    by (auto simp: create_login_challenge_def insert_login_challenge_q_def delete_expired_login_challenges_q_def split: if_splits)
  with Challenge show ?thesis by blast
qed (use assms(2) in \<open>auto simp: identity_op_defs revoke_defs set_upd_split split: if_splits option.splits\<close>)

text \<open>A Session keeps its member and its absolute limit.\<close>

lemma step_session_rows:
  assumes "identity_step d d'" "s \<in> set (t_sessions d')"
  shows "s \<in> set (t_sessions d) \<or> ss_id s \<notin> ss_id ` set (t_sessions d) \<or>
    (\<exists>x \<in> set (t_sessions d). \<exists>activity idle. s = x\<lparr>ss_activity := activity, ss_idle := idle\<rparr>)"
  using assms(1)
proof cases
  case Verify
  then show ?thesis using assms(2) by (simp add: verify_tables)
next
  case Bootstrap
  then show ?thesis using assms(2) by (simp add: bootstrap_tables)
next
  case (OpenSession idle expires h i csrf m ts)
  then show ?thesis using assms(2)
    by (cases "ss_id s = h") (auto simp: create_bounded_session_def create_bounded_session_q_def split: if_splits)
next
  case (TouchSession h now idle)
  then show ?thesis using assms(2)
    by (fastforce simp: touch_session_activity_def touch_session_activity_q_def set_upd_split)
qed (use assms(2) in \<open>auto simp: identity_op_defs revoke_defs set_upd_split split: if_splits option.splits\<close>)

text \<open>Once there is an Administrator, the identities never change again.\<close>

lemma step_admin_ids:
  assumes "identity_step d d'" "t_admins d \<noteq> []"
  shows "map ad_id (t_admins d') = map ad_id (t_admins d)"
  using assms(1)
proof cases
  case Verify
  then show ?thesis by (simp add: verify_tables)
next
  case Bootstrap
  then show ?thesis using assms(2) by (simp add: bootstrap_tables)
qed (auto simp: identity_op_defs revoke_defs map_upd_same split: if_splits option.splits)

lemma steps_admin_ids:
  "identity_step\<^sup>*\<^sup>* d d' \<Longrightarrow> t_admins d \<noteq> [] \<Longrightarrow> map ad_id (t_admins d') = map ad_id (t_admins d)"
proof (induction rule: rtranclp_induct)
  case (step d1 d2)
  then have "map ad_id (t_admins d1) = map ad_id (t_admins d)" by blast
  moreover from this step.prems have "t_admins d1 \<noteq> []" by auto
  ultimately show ?case using step_admin_ids [OF step.hyps(2)] by simp
qed simp

lemma ident_steps:
  assumes "identity_step\<^sup>*\<^sup>* d d'" "identity_ok d" "t_admins d \<noteq> []"
  shows "(no_new_row ident_step t_admins ad_id i)\<^sup>*\<^sup>* d d'"
  using assms
proof (induction rule: rtranclp_induct)
  case (step d1 d2)
  have "identity_ok d1" by (rule identity.steps_inv [OF step.hyps(1) step.prems(1)])
  moreover have "t_admins d1 \<noteq> []" using steps_admin_ids [OF step.hyps(1) step.prems(2)] step.prems(2) by auto
  then have "map ad_id (t_admins d2) = map ad_id (t_admins d1)" by (rule step_admin_ids [OF step.hyps(2)])
  then have "ad_id ` set (t_admins d2) = ad_id ` set (t_admins d1)" by (metis set_map)
  then have "\<forall>r \<in> set (t_admins d2). ad_id r = i \<longrightarrow> (\<exists>x \<in> set (t_admins d1). ad_id x = i)" by (metis imageE imageI)
  ultimately have "no_new_row ident_step t_admins ad_id i d1 d2"
    using step.hyps(2) by (simp add: no_new_row_def ident_step_def)
  with step.IH [OF step.prems] show ?case by (rule rtranclp.rtrancl_into_rtrancl)
qed simp

section \<open>Counting rows by key\<close>

lemma cnt_key_and_1:
  assumes "distinct (map key t)"
  shows "cnt (\<lambda>r. key r = k \<and> p r) t = 1 \<longleftrightarrow> (\<exists>r \<in> set t. key r = k \<and> p r)"
proof -
  have "cnt (\<lambda>r. key r = k \<and> p r) t \<le> cnt (\<lambda>r. key r = k) t" by (induction t) (simp_all add: cnt_def)
  also have "\<dots> \<le> 1" by (rule cnt_key_le_1 [OF assms])
  finally show ?thesis using cnt_pos [of "\<lambda>r. key r = k \<and> p r" t] by (metis One_nat_def le_antisym less_eq_Suc_le zero_less_one)
qed

lemma distinct_admins: "identity_ok d \<Longrightarrow> distinct (map ad_id (t_admins d))"
proof -
  assume "identity_ok d"
  then have "length (map ad_id (t_admins d)) \<le> 1" by (simp add: identity_ok_def single_admin_def)
  then show ?thesis by (cases "map ad_id (t_admins d)") auto
qed

section \<open>The credentials as instances of the contract\<close>

definition totp_used :: "int \<Rightarrow> uuid \<Rightarrow> core_db \<Rightarrow> core_db \<Rightarrow> bool" where
  "totp_used c i d d' \<longleftrightarrow> identity_ok d \<and> use_totp i c d = (True, d')"

interpretation totp: one_shot_rows "totp_used c" ident_step t_admins ad_id "totp_below c" for c
proof
  fix i d d' assume u: "totp_used c i d d'"
  then have "cnt (\<lambda>a. ad_id a = i \<and> totp_below c a) (t_admins d) = 1" by (simp add: totp_used_def use_totp_eq)
  then show "\<exists>a \<in> set (t_admins d). ad_id a = i \<and> totp_below c a"
    using cnt_pos [of "\<lambda>a. ad_id a = i \<and> totp_below c a" "t_admins d"] by simp
  from u have "d' = d\<lparr>t_admins := upd (\<lambda>a. ad_id a = i \<and> totp_below c a) (\<lambda>a. a\<lparr>ad_totp := Some c\<rparr>) (t_admins d)\<rparr>"
    by (simp add: totp_used_def use_totp_eq)
  moreover have "\<not> totp_below c (a\<lparr>ad_totp := Some c\<rparr>)" for a by (simp add: totp_below_def)
  ultimately show "spent_row t_admins ad_id (totp_below c) i d'"
    by (simp add: spent_row_def set_upd_split ball_Un)
next
  fix d d' a x assume "ident_step d d'" "a \<in> set (t_admins d')" "totp_below c a" "x \<in> set (t_admins d)" "ad_id x = ad_id a"
  note a = this
  have "identity_step d d'" using a(1) by (simp add: ident_step_def)
  from step_admin_rows [OF this a(2)] consider "a \<in> set (t_admins d)" | "ad_id a \<notin> ad_id ` set (t_admins d)"
    | y where "y \<in> set (t_admins d)" "ad_id y = ad_id a" "totp_below c a \<longrightarrow> totp_below c y" by blast
  then show "\<exists>y \<in> set (t_admins d). ad_id y = ad_id a \<and> totp_below c y"
  proof cases
    case 2
    then show ?thesis using imageI [OF a(4), of ad_id] a(5) by simp
  qed (use a(3) in blast)+
qed

definition recovery_used :: "uuid \<times> string \<Rightarrow> core_db \<Rightarrow> core_db \<Rightarrow> bool" where
  "recovery_used k d d' \<longleftrightarrow> (\<exists>now. consume_recovery_code (fst k) (snd k) now d = (True, d'))"

lemma consume_recovery_eq:
  "consume_recovery_code i h now d =
     (cnt (\<lambda>r. recovery_key r = (i, h) \<and> recovery_free r) (t_recovery d) = 1,
      d\<lparr>t_recovery := upd (\<lambda>r. recovery_key r = (i, h) \<and> recovery_free r) (\<lambda>r. r\<lparr>rc_used := Some now\<rparr>) (t_recovery d)\<rparr>)"
  by (simp add: consume_recovery_code_def consume_recovery_code_q_def Let_def recovery_key_def recovery_free_def)

interpretation recovery: one_shot_rows recovery_used ident_step t_recovery recovery_key recovery_free
proof
  fix k d d' assume "recovery_used k d d'"
  then obtain now where c: "consume_recovery_code (fst k) (snd k) now d = (True, d')" by (auto simp: recovery_used_def)
  then show "\<exists>r \<in> set (t_recovery d). recovery_key r = k \<and> recovery_free r"
    using cnt_pos [of "\<lambda>r. recovery_key r = k \<and> recovery_free r" "t_recovery d"] by (simp add: consume_recovery_eq)
  from c show "spent_row t_recovery recovery_key recovery_free k d'"
    by (auto simp: consume_recovery_eq spent_row_def set_upd_split recovery_free_def)
next
  fix d d' r x assume "ident_step d d'" "r \<in> set (t_recovery d')" "recovery_free r" "x \<in> set (t_recovery d)"
    "recovery_key x = recovery_key r"
  then show "\<exists>y \<in> set (t_recovery d). recovery_key y = recovery_key r \<and> recovery_free y"
    by - (rule frees_none_by_rows [where key = recovery_key and free = recovery_free and ts = "t_recovery d'" and x = x],
        rule step_recovery_rows [of d d'], simp_all only: ident_step_def simp_thms)
qed

definition transaction_used :: "string \<Rightarrow> core_db \<Rightarrow> core_db \<Rightarrow> bool" where
  "transaction_used state d d' \<longleftrightarrow> identity_ok d \<and> (\<exists>now t. consume_oidc_transaction state now d = Inr (t, d'))"

text \<open>\<open>UPDATE ... RETURNING\<close> on a unique key: the row answered is the only one marked.\<close>

lemma row_of_unique:
  assumes "distinct (map key t)"
  shows "row_of (\<lambda>r. key r = k \<and> p r) t = Inr r \<longleftrightarrow> r \<in> set t \<and> key r = k \<and> p r"
proof
  show "r \<in> set t \<and> key r = k \<and> p r" if "row_of (\<lambda>r. key r = k \<and> p r) t = Inr r" using row_of_Inr [OF that] .
  assume r: "r \<in> set t \<and> key r = k \<and> p r"
  then obtain x where x: "row_of (\<lambda>r. key r = k \<and> p r) t = Inr x"
    by (cases "row_of (\<lambda>r. key r = k \<and> p r) t") (auto simp: row_of_Inl)
  from distinct_key_eq [OF assms, of x r] row_of_Inr [OF x] r have "x = r" by simp
  with x show "row_of (\<lambda>r. key r = k \<and> p r) t = Inr r" by simp
qed

lemma consume_transaction_Inr:
  assumes "consume_oidc_transaction state now d = Inr (x, d')" "identity_ok d"
  obtains t where "t \<in> set (t_transactions d)" "ot_state t = state" "ot_used t = None" "now < ot_expires t"
    "x = \<lparr>tx_purpose = ot_purpose t, tx_member = (case ot_admin t of None \<Rightarrow> [] | Some i \<Rightarrow> i),
       tx_nonce = ot_nonce t, tx_verifier = ot_verifier t, tx_return = ot_return t\<rparr>"
    "d' = d\<lparr>t_transactions := upd (\<lambda>t. ot_state t = state \<and> ot_used t = None \<and> now < ot_expires t)
       (\<lambda>t. t\<lparr>ot_used := Some now\<rparr>) (t_transactions d)\<rparr>"
  using assms(1) by (auto simp: consume_oidc_transaction_def consume_oidc_transaction_q_def Let_def dest!: row_of_Inr)

interpretation transaction: one_shot_rows transaction_used ident_step t_transactions ot_state transaction_free
proof
  fix k d d' assume "transaction_used k d d'"
  then obtain now x where c: "consume_oidc_transaction k now d = Inr (x, d')" and ok: "identity_ok d"
    by (auto simp: transaction_used_def)
  then show "\<exists>t \<in> set (t_transactions d). ot_state t = k \<and> transaction_free t"
    by (rule consume_transaction_Inr) (auto simp: transaction_free_def)
  from c ok show "spent_row t_transactions ot_state transaction_free k d'"
  proof (rule consume_transaction_Inr)
    fix t assume t: "t \<in> set (t_transactions d)" "ot_state t = k" "ot_used t = None" "now < ot_expires t"
      and d': "d' = d\<lparr>t_transactions := upd (\<lambda>t. ot_state t = k \<and> ot_used t = None \<and> now < ot_expires t)
         (\<lambda>t. t\<lparr>ot_used := Some now\<rparr>) (t_transactions d)\<rparr>"
    have dist: "distinct (map ot_state (t_transactions d))" using identity_okD(4) [OF ok] by (simp add: externals_ok_def)
    have only: "ot_used x = None \<longrightarrow> now < ot_expires x" if "x \<in> set (t_transactions d)" "ot_state x = k" for x
      using distinct_key_eq [OF dist that(1) t(1)] that(2) t(2,4) by simp
    show ?thesis unfolding d' spent_row_def transaction_free_def using only by (simp add: set_upd_split ball_Un) blast
  qed
next
  fix d d' t x assume "ident_step d d'" "t \<in> set (t_transactions d')" "transaction_free t" "x \<in> set (t_transactions d)"
    "ot_state x = ot_state t"
  then show "\<exists>y \<in> set (t_transactions d). ot_state y = ot_state t \<and> transaction_free y"
    by - (rule frees_none_by_rows [where key = ot_state and free = transaction_free and ts = "t_transactions d'" and x = x],
        rule step_transaction_rows [of d d'], simp_all only: ident_step_def simp_thms)
qed

text \<open>
  Issuing a challenge first deletes the used and the expired ones, so a token could be issued anew; what no other step does
  is free it. The token is 32 random bytes.
\<close>

definition challenge_used :: "string \<Rightarrow> core_db \<Rightarrow> core_db \<Rightarrow> bool" where
  "challenge_used token d d' \<longleftrightarrow> identity_ok d \<and> (\<exists>source now i. consume_login_challenge token source now d = Inr (i, d'))"

definition challenge_spent :: "string \<Rightarrow> core_db \<Rightarrow> bool" where
  "challenge_spent token d \<longleftrightarrow> (\<forall>c \<in> set (t_challenges d). lc_token c = token \<longrightarrow> lc_used c \<noteq> None)"

definition not_issuing :: "string \<Rightarrow> core_db \<Rightarrow> core_db \<Rightarrow> bool" where
  "not_issuing token d d' \<longleftrightarrow> ident_step d d' \<and>
     \<not> (\<exists>i source expires now. create_login_challenge token i source expires now d = Inr d')"

lemma consume_challenge_Inr:
  assumes "consume_login_challenge token source now d = Inr (i, d')"
  obtains c where "c \<in> set (t_challenges d)" "lc_token c = token" "lc_source c = source" "lc_used c = None"
    "now < lc_expires c" "i = lc_admin c"
    "d' = d\<lparr>t_challenges := upd (\<lambda>c. lc_token c = token \<and> lc_source c = source \<and> lc_used c = None \<and> now < lc_expires c)
       (\<lambda>c. c\<lparr>lc_used := Some now\<rparr>) (t_challenges d)\<rparr>"
  using assms by (auto simp: consume_login_challenge_def consume_login_challenge_q_def Let_def dest!: row_of_Inr)

interpretation challenge: one_shot challenge_used challenge_spent not_issuing
proof
  fix token d d' assume "challenge_used token d d'"
  then obtain source now i where c: "consume_login_challenge token source now d = Inr (i, d')" and ok: "identity_ok d"
    by (auto simp: challenge_used_def)
  then show "\<not> challenge_spent token d"
    by - (rule consume_challenge_Inr, auto simp: challenge_spent_def)
  from c show "challenge_spent token d'"
  proof (rule consume_challenge_Inr)
    fix c assume c: "c \<in> set (t_challenges d)" "lc_token c = token" "lc_source c = source" "lc_used c = None" "now < lc_expires c"
      and d': "d' = d\<lparr>t_challenges := upd (\<lambda>c. lc_token c = token \<and> lc_source c = source \<and> lc_used c = None \<and>
         now < lc_expires c) (\<lambda>c. c\<lparr>lc_used := Some now\<rparr>) (t_challenges d)\<rparr>"
    have dist: "distinct (map lc_token (t_challenges d))" using identity_okD(4) [OF ok] by (simp add: externals_ok_def)
    have only: "lc_source x = source \<and> now < lc_expires x" if "x \<in> set (t_challenges d)" "lc_token x = token" for x
      using distinct_key_eq [OF dist that(1) c(1)] that(2) c(2,3,5) by simp
    show ?thesis unfolding d' challenge_spent_def using only by (simp add: set_upd_split ball_Un) blast
  qed
next
  fix token d d' assume spent: "challenge_spent token d" and step: "not_issuing token d d'"
  show "challenge_spent token d'"
    unfolding challenge_spent_def
  proof (intro ballI impI)
    fix c assume c: "c \<in> set (t_challenges d')" "lc_token c = token"
    from step have "identity_step d d'" by (simp add: not_issuing_def ident_step_def)
    from step_challenge_rows [OF this c(1)] step spent c(2) show "lc_used c \<noteq> None"
      unfolding not_issuing_def challenge_spent_def by blast
  qed
qed

section \<open>The lifetime of a Session\<close>

definition session_until :: "string \<Rightarrow> uuid \<Rightarrow> time \<Rightarrow> string \<Rightarrow> core_db \<Rightarrow> bool" where
  "session_until h i e csrf d \<longleftrightarrow>
     (\<forall>s \<in> set (t_sessions d). ss_id s = h \<longrightarrow> ss_expires s = e \<and> ss_admin s = i \<and> ss_csrf s = csrf)"

lemma create_session_Inr:
  assumes "create_bounded_session h i csrf e idle m ts d = Inr d'"
  obtains "d' = d\<lparr>t_sessions := t_sessions d @ [\<lparr>ss_id = h, ss_admin = i, ss_csrf = csrf, ss_expires = e, ss_activity = ts,
    ss_idle = idle, ss_method = m\<rparr>]\<rparr>" "\<forall>s \<in> set (t_sessions d). ss_id s \<noteq> h" "admin_in d i"
  using assms by (auto simp: create_bounded_session_def create_bounded_session_q_def exists_admin_in split: if_splits)

interpretation lifetime: step_system "\<lambda>d. \<exists>d0 idle m ts. create_bounded_session h i csrf e idle m ts d0 = Inr d"
  "no_new_row identity_step t_sessions ss_id h" "session_until h i e csrf" for h i e csrf
proof
  show "session_until h i e csrf d" if "\<exists>d0 idle m ts. create_bounded_session h i csrf e idle m ts d0 = Inr d" for d
    using that by (elim exE create_session_Inr) (simp add: session_until_def)
next
  fix d d' assume inv: "session_until h i e csrf d" and step: "no_new_row identity_step t_sessions ss_id h d d'"
  show "session_until h i e csrf d'"
    unfolding session_until_def
  proof (intro ballI impI)
    fix s assume s: "s \<in> set (t_sessions d')" "ss_id s = h"
    from step have st: "identity_step d d'" by (simp add: no_new_row_def)
    from step s obtain y where y: "y \<in> set (t_sessions d)" "ss_id y = h" unfolding no_new_row_def by blast
    from imageI [OF y(1), of ss_id] y(2) s(2) have "ss_id s \<in> ss_id ` set (t_sessions d)" by simp
    with step_session_rows [OF st s(1)] consider "s \<in> set (t_sessions d)"
      | x a n where "x \<in> set (t_sessions d)" "s = x\<lparr>ss_activity := a, ss_idle := n\<rparr>" by blast
    then show "ss_expires s = e \<and> ss_admin s = i \<and> ss_csrf s = csrf"
    proof cases
      case 2
      then have "ss_id x = h" using s(2) by simp
      with 2 inv show ?thesis by (simp add: session_until_def)
    qed (use inv s(2) in \<open>simp add: session_until_def\<close>)
  qed
qed

lemma session_by_id_Inr:
  assumes "session_by_id h now d = Inr v"
  obtains s a where "s \<in> set (t_sessions d)" "a \<in> set (t_admins d)" "ad_id a = ss_admin s" "ss_id s = h"
    "now < ss_expires s" "now < ss_idle s" "ad_status a = MemberActive"
    "v = \<lparr>se_admin = ss_admin s, se_username = ad_username a, se_role = ad_role a, se_csrf = ss_csrf s,
       se_hash = ss_id s, se_expires = ss_expires s, se_idle = ss_idle s, se_method = ss_method s\<rparr>"
proof -
  from assms obtain s a where r: "session_by_id_q h now MemberActive d = Inr (s, a)"
    and v: "v = \<lparr>se_admin = ss_admin s, se_username = ad_username a, se_role = ad_role a, se_csrf = ss_csrf s,
       se_hash = ss_id s, se_expires = ss_expires s, se_idle = ss_idle s, se_method = ss_method s\<rparr>"
    by (auto simp: session_by_id_def)
  from row_of_Inr [OF r [unfolded session_by_id_q_def]] have "s \<in> set (t_sessions d)" "a \<in> set (t_admins d)"
    "ad_id a = ss_admin s" "ss_id s = h" "now < ss_expires s" "now < ss_idle s" "ad_status a = MemberActive"
    by auto
  then show thesis using v by (rule that)
qed

lemma session_by_id_none:
  "(\<And>s. s \<in> set (t_sessions d) \<Longrightarrow> ss_id s = h \<Longrightarrow> now < ss_expires s \<Longrightarrow> now < ss_idle s \<Longrightarrow> False) \<Longrightarrow>
     session_by_id h now d = Inl ErrNotFound"
proof -
  assume none: "\<And>s. s \<in> set (t_sessions d) \<Longrightarrow> ss_id s = h \<Longrightarrow> now < ss_expires s \<Longrightarrow> now < ss_idle s \<Longrightarrow> False"
  have "session_by_id_q h now MemberActive d = Inl NoRows"
    unfolding session_by_id_q_def row_of_Inl using none by auto
  then show ?thesis by (simp add: session_by_id_def)
qed

end
