(* ===== verification/IdentityProperties.thy ===== *)
theory IdentityProperties
  imports Credentials
begin

text \<open>
  The properties of the identity store: the single Administrator, the single use of every credential, the lifetime of a
  Session, and the revocation a change of credentials brings.
\<close>

definition demo_core :: core_db where
  "demo_core = empty_core\<lparr>t_admins := [\<lparr>ad_id = ''adm'', ad_username = ''root'', ad_password = ''hash'', ad_created = 1,
     ad_role = RoleAdministrator, ad_status = MemberActive, ad_activated = Some 1, ad_deactivated = None,
     ad_totp = Some 4\<rparr>], t_org := [\<lparr>og_name = ''org'', og_totp = True, og_password = True\<rparr>],
     t_recovery := [\<lparr>rc_admin = ''adm'', rc_code = ''code'', rc_used = None\<rparr>],
     t_sessions := [\<lparr>ss_id = ''s'', ss_admin = ''adm'', ss_csrf = ''c'', ss_expires = 90, ss_activity = 1, ss_idle = 30,
       ss_method = AuthLocal\<rparr>],
     t_challenges := [\<lparr>lc_token = ''ch'', lc_admin = ''adm'', lc_source = ''ip'', lc_expires = 50, lc_used = None\<rparr>],
     t_transactions := [\<lparr>ot_state = ''st'', ot_purpose = ''login'', ot_admin = None, ot_nonce = ''n'', ot_verifier = ''v'',
       ot_return = ''/'', ot_expires = 50, ot_used = None\<rparr>]\<rparr>"

lemma demo_core_ok: "identity_ok demo_core"
  by (simp add: demo_core_def identity_ok_def identity_parts log_ok_def audit_ok_def empty_core_def db.defs empty_db_def)

lemma demo_core_tables [simp]:
  "t_sessions demo_core = [\<lparr>ss_id = ''s'', ss_admin = ''adm'', ss_csrf = ''c'', ss_expires = 90, ss_activity = 1, ss_idle = 30,
     ss_method = AuthLocal\<rparr>]"
  "map ad_id (t_admins demo_core) = [''adm'']" "t_grants demo_core = []"
  by (simp_all add: demo_core_def empty_core_def db.defs)

lemma admin_in_demo: "admin_in demo_core ''adm''"
  by (simp add: admin_in_def demo_core_def)

section \<open>One Administrator\<close>

lemma bootstrap_outcome:
  "bootstrap_administrator code org i u p now e ts d =
     (if t_admins d \<noteq> [] then Inl ErrConflict
      else if cnt (\<lambda>b. bc_hash b = code \<and> bc_used b = None \<and> now < bc_expires b) (t_bootstrap d) \<noteq> 1 then Inl ErrNotFound
      else if t_org d \<noteq> [] then Inl (ErrPg UniqueViolation)
      else Inr (append_audit_tx e ts (d\<lparr>t_bootstrap := upd (\<lambda>b. bc_hash b = code \<and> bc_used b = None \<and> now < bc_expires b)
          (\<lambda>b. b\<lparr>bc_used := Some now\<rparr>) (t_bootstrap d), t_org := [\<lparr>og_name = org, og_totp = False, og_password = True\<rparr>],
        t_admins := [\<lparr>ad_id = i, ad_username = u, ad_password = p, ad_created = ts, ad_role = RoleAdministrator,
          ad_status = MemberActive, ad_activated = Some now, ad_deactivated = None, ad_totp = None\<rparr>]\<rparr>)))"
  by (auto simp: bootstrap_administrator_def admin_count_q_def consume_bootstrap_code_q_def insert_organization_config_q_def
      insert_admin_active_q_def insert_admin_row_q_def Let_def)

text \<open>In every database the identity operations reach from the empty one the invariant of the identity tables
  holds: there is at most one identity, it is an active Administrator, the start-up check accepts it, every Session,
  second factor, login challenge and external binding belongs to it, an idle limit never exceeds the absolute one, at
  most one OIDC and one OAuth identity are bound, and the audit log is numbered without repetition.\<close>

theorem identity_well_formed:
  assumes "identity_step\<^sup>*\<^sup>* empty_core d"
  shows "identity_ok d \<and> validate_single_administrator d = Inr () \<and> active_admin_count d = human_identity_count d"
proof -
  have ok: "identity_ok d" by (rule identity.reachable_inv [OF refl assms])
  then have one: "length (t_admins d) \<le> 1" and act: "\<forall>a \<in> set (t_admins d). ad_role a = RoleAdministrator \<and> ad_status a = MemberActive"
    by (simp_all add: identity_ok_def single_admin_def)
  from act have "active_admin_count d = human_identity_count d"
    by (simp add: active_admin_count_def active_admin_count_q_def human_identity_count_def human_identity_count_q_def cnt_def)
  with ok one show ?thesis by (simp add: validate_single_administrator_def human_identity_count_def human_identity_count_q_def)
qed

theorem identity_well_formed_witness:
  "validate_single_administrator (append_audit (event ''adm'' ''act'' [] [] []) 1 empty_core) = Inr ()"
proof -
  have "identity_step\<^sup>*\<^sup>* empty_core (append_audit (event ''adm'' ''act'' [] [] []) 1 empty_core)"
    by (blast intro: identity_step.Record)
  then show ?thesis using identity_well_formed by blast
qed

text \<open>C20: the bootstrap of the Administrator. With an identity present it answers a conflict; with no unused, unexpired
  Bootstrap Code of that hash, not found, and nothing is written. Otherwise it writes the organization, with
  password login open and TOTP off, and exactly one active Administrator; and whatever identity operations follow, that
  identity stays the only one and every later bootstrap, with whatever code, answers a conflict.\<close>

theorem bootstrap_once:
  assumes "identity_ok d"
  shows "if t_admins d \<noteq> [] then bootstrap_administrator code org i u p now e ts d = Inl ErrConflict
    else if \<forall>b \<in> set (t_bootstrap d). bc_hash b = code \<longrightarrow> bc_used b \<noteq> None \<or> bc_expires b \<le> now
    then bootstrap_administrator code org i u p now e ts d = Inl ErrNotFound
    else \<exists>d'. bootstrap_administrator code org i u p now e ts d = Inr d' \<and> map ad_id (t_admins d') = [i] \<and>
      t_org d' = [\<lparr>og_name = org, og_totp = False, og_password = True\<rparr>] \<and> identity_ok d' \<and>
      (\<forall>d2. identity_step\<^sup>*\<^sup>* d' d2 \<longrightarrow> map ad_id (t_admins d2) = [i] \<and>
        (\<forall>code2 org2 i2 u2 p2 now2 e2 ts2. bootstrap_administrator code2 org2 i2 u2 p2 now2 e2 ts2 d2 = Inl ErrConflict))"
proof -
  let ?p = "\<lambda>b. bc_hash b = code \<and> bc_used b = None \<and> now < bc_expires b"
  have cnt: "cnt ?p (t_bootstrap d) = 1 \<longleftrightarrow> (\<exists>b \<in> set (t_bootstrap d). ?p b)"
    by (rule cnt_key_and_1) (use identity_okD(4) [OF assms] in \<open>simp add: externals_ok_def\<close>)
  show ?thesis
  proof (cases "t_admins d = [] \<and> (\<exists>b \<in> set (t_bootstrap d). ?p b)")
    case False
    with cnt show ?thesis by (auto simp: bootstrap_outcome not_less)
  next
    case True
    moreover from this have "t_org d = []" using identity_okD(1) [OF assms] by (simp add: single_admin_def)
    ultimately obtain d' where d': "bootstrap_administrator code org i u p now e ts d = Inr d'" "map ad_id (t_admins d') = [i]"
      "t_org d' = [\<lparr>og_name = org, og_totp = False, og_password = True\<rparr>]"
      using cnt by (auto simp: bootstrap_outcome)
    have "map ad_id (t_admins d2) = [i] \<and>
        (\<forall>code2 org2 i2 u2 p2 now2 e2 ts2. bootstrap_administrator code2 org2 i2 u2 p2 now2 e2 ts2 d2 = Inl ErrConflict)"
      if "identity_step\<^sup>*\<^sup>* d' d2" for d2
    proof -
      have "map ad_id (t_admins d2) = [i]" using steps_admin_ids [OF that] d'(2) by auto
      moreover from this have "t_admins d2 \<noteq> []" by auto
      ultimately show ?thesis by (simp add: bootstrap_outcome)
    qed
    with d' bootstrap_ok [OF d'(1) assms] True show ?thesis by (auto simp: not_le)
  qed
qed

theorem bootstrap_once_witness:
  "\<exists>d'. bootstrap_administrator ''b'' ''org'' ''i'' ''u'' ''p'' 3 (event ''adm'' ''act'' [] [] []) 3
      (empty_core\<lparr>t_bootstrap := [\<lparr>bc_hash = ''b'', bc_expires = 9, bc_used = None\<rparr>]\<rparr>) = Inr d'"
proof -
  let ?d = "empty_core\<lparr>t_bootstrap := [\<lparr>bc_hash = ''b'', bc_expires = 9, bc_used = None\<rparr>]\<rparr>"
  have "identity_ok ?d" by (rule externals_bootstrap) (simp_all add: identity_ok_empty)
  from bootstrap_once [OF this, where code = "''b''" and now = 3 and org = "''org''" and i = "''i''" and u = "''u''"
      and p = "''p''" and e = "(event ''adm'' ''act'' [] [] [])" and ts = 3] show ?thesis
    by (auto simp: empty_core_def db.defs)
qed

section \<open>Credentials are used once\<close>

text \<open>C21: a TOTP time step is accepted exactly when it is later than the last one the member used, and once it is
  accepted, no identity operations can make it, or an earlier one, acceptable again.\<close>

theorem totp_no_replay:
  assumes "identity_ok d"
  shows "(fst (use_totp i c d) \<longleftrightarrow> (\<exists>a \<in> set (t_admins d). ad_id a = i \<and> (\<forall>used. ad_totp a = Some used \<longrightarrow> used < c))) \<and>
    (\<forall>d' d2 c2. use_totp i c d = (True, d') \<and> identity_step\<^sup>*\<^sup>* d' d2 \<and> c2 \<le> c \<longrightarrow> \<not> fst (use_totp i c2 d2))"
proof (intro conjI allI impI)
  have below: "totp_below c a \<longleftrightarrow> (\<forall>used. ad_totp a = Some used \<longrightarrow> used < c)" for a
    by (simp add: totp_below_def split: option.split)
  show iff: "fst (use_totp i c d) \<longleftrightarrow> (\<exists>a \<in> set (t_admins d). ad_id a = i \<and> (\<forall>used. ad_totp a = Some used \<longrightarrow> used < c))"
    using cnt_key_and_1 [OF distinct_admins [OF assms], of i "totp_below c"] by (simp add: use_totp_eq below)
  fix d' d2 c2 assume u: "use_totp i c d = (True, d') \<and> identity_step\<^sup>*\<^sup>* d' d2 \<and> c2 \<le> c"
  then have used: "totp_used c i d d'" using assms by (simp add: totp_used_def)
  have ok: "identity_ok d'" by (rule use_totp_ok [OF _ assms]) (use u in blast)
  have "t_admins d' \<noteq> []" using u iff by (auto simp: use_totp_eq upd_def)
  then have steps: "(no_new_row ident_step t_admins ad_id i)\<^sup>*\<^sup>* d' d2" using ident_steps ok u by blast
  from totp.spent_forever [OF steps totp.spend_spends [OF used]]
  have "\<forall>a \<in> set (t_admins d2). ad_id a = i \<longrightarrow> \<not> totp_below c2 a"
    using u by (auto simp: spent_row_def totp_below_def split: option.splits)
  then have "cnt (\<lambda>a. ad_id a = i \<and> totp_below c2 a) (t_admins d2) = 0" by simp
  then show "\<not> fst (use_totp i c2 d2)" by (simp add: use_totp_eq del: cnt_0)
qed

theorem totp_no_replay_witness:
  "fst (use_totp ''adm'' 5 demo_core) \<and> \<not> fst (use_totp ''adm'' 5 (snd (use_totp ''adm'' 5 demo_core)))"
proof -
  have "fst (use_totp ''adm'' 5 demo_core)"
    using totp_no_replay [OF demo_core_ok, of "''adm''" 5] by (auto simp: demo_core_def)
  then have "use_totp ''adm'' 5 demo_core = (True, snd (use_totp ''adm'' 5 demo_core))" by (metis prod.collapse)
  from conjunct2 [OF totp_no_replay [OF demo_core_ok], rule_format, OF conjI [OF this conjI [OF rtranclp.rtrancl_refl order_refl]]]
  show ?thesis using \<open>fst (use_totp ''adm'' 5 demo_core)\<close> by blast
qed

text \<open>C22: a Recovery Code is accepted exactly when the member has it and it is not used; accepting it leaves every other
  code as it was; and afterwards, as long as no code with the same hash is issued to the member anew, it is never
  accepted again.\<close>

theorem recovery_code_once:
  assumes "identity_ok d"
  shows "(fst (consume_recovery_code i h now d) \<longleftrightarrow>
      (\<exists>r \<in> set (t_recovery d). rc_admin r = i \<and> rc_code r = h \<and> rc_used r = None)) \<and>
    (\<forall>d'. consume_recovery_code i h now d = (True, d') \<longrightarrow>
      filter (\<lambda>r. recovery_key r \<noteq> (i, h)) (t_recovery d') = filter (\<lambda>r. recovery_key r \<noteq> (i, h)) (t_recovery d) \<and>
      (\<forall>d2 now2. (no_new_row ident_step t_recovery recovery_key (i, h))\<^sup>*\<^sup>* d' d2 \<longrightarrow>
        \<not> fst (consume_recovery_code i h now2 d2)))"
proof (intro conjI allI impI)
  have "distinct (map recovery_key (t_recovery d))"
    using identity_okD(3) [OF assms] by (simp add: factors_ok_def recovery_key_def [abs_def])
  from cnt_key_and_1 [OF this, of "(i, h)" recovery_free]
  show "fst (consume_recovery_code i h now d) \<longleftrightarrow>
      (\<exists>r \<in> set (t_recovery d). rc_admin r = i \<and> rc_code r = h \<and> rc_used r = None)"
    by (simp add: consume_recovery_eq recovery_key_def recovery_free_def)
  fix d' assume c: "consume_recovery_code i h now d = (True, d')"
  have "filter (\<lambda>r. recovery_key r \<noteq> (i, h)) (upd (\<lambda>r. recovery_key r = (i, h) \<and> recovery_free r) f rs) =
      filter (\<lambda>r. recovery_key r \<noteq> (i, h)) rs" if "\<And>r. recovery_key (f r) = recovery_key r" for f rs
    by (induction rs) (simp_all add: upd_def that)
  then show "filter (\<lambda>r. recovery_key r \<noteq> (i, h)) (t_recovery d') = filter (\<lambda>r. recovery_key r \<noteq> (i, h)) (t_recovery d)"
    using c by (auto simp: consume_recovery_eq recovery_key_def)
  fix d2 now2 assume steps: "(no_new_row ident_step t_recovery recovery_key (i, h))\<^sup>*\<^sup>* d' d2"
  have "recovery_used (i, h) d d'" using c by (auto simp: recovery_used_def)
  from recovery.at_most_once [OF this steps] have "\<not> recovery_used (i, h) d2 v" for v by blast
  then show "\<not> fst (consume_recovery_code i h now2 d2)"
    unfolding recovery_used_def by (metis fst_conv snd_conv prod.collapse)
qed

theorem recovery_code_once_witness:
  "fst (consume_recovery_code ''adm'' ''code'' 3 demo_core) \<and>
   \<not> fst (consume_recovery_code ''adm'' ''code'' 4 (snd (consume_recovery_code ''adm'' ''code'' 3 demo_core)))"
proof -
  have "fst (consume_recovery_code ''adm'' ''code'' 3 demo_core)"
    using recovery_code_once [OF demo_core_ok, of "''adm''" "''code''" 3] by (auto simp: demo_core_def)
  then have "consume_recovery_code ''adm'' ''code'' 3 demo_core = (True, snd (consume_recovery_code ''adm'' ''code'' 3 demo_core))"
    by (metis prod.collapse)
  from conjunct2 [OF conjunct2 [OF recovery_code_once [OF demo_core_ok], rule_format, OF this], rule_format,
      OF rtranclp.rtrancl_refl, of 4]
  show ?thesis using \<open>fst (consume_recovery_code ''adm'' ''code'' 3 demo_core)\<close> by blast
qed

text \<open>C23: a login challenge answers exactly for its token, its network source, before its expiry and while it is not
  used, with the member it was issued to; anything else answers not found and writes nothing. After it has answered it
  does not answer again, from whatever source, as long as that token is not issued anew.\<close>

theorem login_challenge_once:
  assumes "identity_ok d"
  shows "((\<exists>d'. consume_login_challenge token source now d = Inr (i, d')) \<longleftrightarrow>
      (\<exists>c \<in> set (t_challenges d). lc_token c = token \<and> lc_source c = source \<and> lc_used c = None \<and> now < lc_expires c \<and>
        lc_admin c = i)) \<and>
    ((\<forall>c \<in> set (t_challenges d). lc_token c = token \<longrightarrow> lc_source c \<noteq> source \<or> lc_used c \<noteq> None \<or> lc_expires c \<le> now) \<longrightarrow>
      consume_login_challenge token source now d = Inl ErrNotFound) \<and>
    (\<forall>d' d2 source2 now2. consume_login_challenge token source now d = Inr (i, d') \<and> (not_issuing token)\<^sup>*\<^sup>* d' d2 \<longrightarrow>
      (\<forall>v. consume_login_challenge token source2 now2 d2 \<noteq> Inr v))"
proof (intro conjI allI impI)
  let ?p = "\<lambda>c. lc_source c = source \<and> lc_used c = None \<and> now < lc_expires c"
  have dist: "distinct (map lc_token (t_challenges d))" using identity_okD(4) [OF assms] by (simp add: externals_ok_def)
  show "(\<exists>d'. consume_login_challenge token source now d = Inr (i, d')) \<longleftrightarrow>
      (\<exists>c \<in> set (t_challenges d). lc_token c = token \<and> lc_source c = source \<and> lc_used c = None \<and> now < lc_expires c \<and>
        lc_admin c = i)"
    using row_of_unique [OF dist, of token ?p]
    by (auto simp: consume_login_challenge_def consume_login_challenge_q_def Let_def)
  show "consume_login_challenge token source now d = Inl ErrNotFound"
    if "\<forall>c \<in> set (t_challenges d). lc_token c = token \<longrightarrow> lc_source c \<noteq> source \<or> lc_used c \<noteq> None \<or> lc_expires c \<le> now"
  proof -
    have "row_of (\<lambda>c. lc_token c = token \<and> ?p c) (t_challenges d) = Inl NoRows"
      unfolding row_of_Inl using that by (auto simp: not_less)
    then show ?thesis by (simp add: consume_login_challenge_def consume_login_challenge_q_def Let_def)
  qed
  fix d' d2 source2 now2 v
  assume a: "consume_login_challenge token source now d = Inr (i, d') \<and> (not_issuing token)\<^sup>*\<^sup>* d' d2"
  then have "challenge_used token d d'" using assms by (auto simp: challenge_used_def)
  from challenge.spent_forever [OF _ challenge.spend_spends [OF this]] a have "challenge_spent token d2" by blast
  then show "consume_login_challenge token source2 now2 d2 \<noteq> Inr v"
    by (cases v) (auto simp: challenge_spent_def elim!: consume_challenge_Inr)
qed

theorem login_challenge_once_witness:
  "consume_login_challenge ''ch'' ''elsewhere'' 3 demo_core = Inl ErrNotFound"
  using login_challenge_once [OF demo_core_ok, of "''ch''" "''elsewhere''" 3] by (simp add: demo_core_def)

text \<open>An OIDC or OAuth transaction answers exactly for its state, before its expiry and while it is not used; it says
  whether it was begun for a login or a binding and for which member; and after it has answered, as long as no
  transaction with that state is begun anew, it never answers again.\<close>

theorem oidc_transaction_once:
  assumes "identity_ok d"
  shows "((\<exists>x d'. consume_oidc_transaction state now d = Inr (x, d') \<and> tx_purpose x = purpose \<and> tx_nonce x = nonce) \<longleftrightarrow>
      (\<exists>t \<in> set (t_transactions d). ot_state t = state \<and> ot_used t = None \<and> now < ot_expires t \<and> ot_purpose t = purpose \<and>
        ot_nonce t = nonce)) \<and>
    (\<forall>x d'. consume_oidc_transaction state now d = Inr (x, d') \<longrightarrow> tx_purpose x \<in> {''login'', ''bind''} \<and>
      (\<forall>d2 now2 v. (no_new_row ident_step t_transactions ot_state state)\<^sup>*\<^sup>* d' d2 \<longrightarrow>
        consume_oidc_transaction state now2 d2 \<noteq> Inr v))"
proof (intro conjI allI impI)
  have dist: "distinct (map ot_state (t_transactions d))" using identity_okD(4) [OF assms] by (simp add: externals_ok_def)
  show "(\<exists>x d'. consume_oidc_transaction state now d = Inr (x, d') \<and> tx_purpose x = purpose \<and> tx_nonce x = nonce) \<longleftrightarrow>
      (\<exists>t \<in> set (t_transactions d). ot_state t = state \<and> ot_used t = None \<and> now < ot_expires t \<and> ot_purpose t = purpose \<and>
        ot_nonce t = nonce)"
    using row_of_unique [OF dist, of state "\<lambda>t. ot_used t = None \<and> now < ot_expires t"]
    by (auto simp: consume_oidc_transaction_def consume_oidc_transaction_q_def Let_def)
  fix x d' assume c: "consume_oidc_transaction state now d = Inr (x, d')"
  from c show "tx_purpose x \<in> {''login'', ''bind''}"
    by (rule consume_transaction_Inr [OF _ assms]) (use identity_okD(4) [OF assms] in \<open>auto simp: externals_ok_def\<close>)
  fix d2 now2 v assume steps: "(no_new_row ident_step t_transactions ot_state state)\<^sup>*\<^sup>* d' d2"
  have "transaction_used state d d'" using c assms by (auto simp: transaction_used_def)
  from transaction.spent_forever [OF steps transaction.spend_spends [OF this]]
  have spent: "\<forall>t \<in> set (t_transactions d2). ot_state t = state \<longrightarrow> ot_used t \<noteq> None"
    by (simp add: spent_row_def transaction_free_def)
  show "consume_oidc_transaction state now2 d2 \<noteq> Inr v"
    using spent by (cases v) (auto simp: consume_oidc_transaction_def consume_oidc_transaction_q_def Let_def dest!: row_of_Inr)
qed

theorem oidc_transaction_once_witness:
  "\<exists>x d'. consume_oidc_transaction ''st'' 3 demo_core = Inr (x, d') \<and> tx_purpose x = ''login'' \<and> tx_nonce x = ''n''"
  using oidc_transaction_once [OF demo_core_ok, of "''st''" 3 "''login''" "''n''"] by (simp add: demo_core_def)

section \<open>Sessions\<close>

text \<open>Whatever identity operations follow the opening of a Session, as long as no Session is opened under the same id,
  looking it up answers not found, or the member it was opened for, who is active, with the absolute limit it was
  opened with; and then neither the absolute nor the idle limit has passed. Activity moves the idle limit only.\<close>

theorem session_lifetime:
  assumes "create_bounded_session h i csrf e idle m ts d0 = Inr d"
    and "(no_new_row identity_step t_sessions ss_id h)\<^sup>*\<^sup>* d d2"
  shows "case session_by_id h now d2 of
      Inl err \<Rightarrow> err = ErrNotFound
    | Inr s \<Rightarrow> now < e \<and> now < se_idle s \<and> se_expires s = e \<and> se_admin s = i \<and> se_hash s = h \<and>
        (\<exists>a \<in> set (t_admins d2). ad_id a = i \<and> ad_username a = se_username s \<and> ad_status a = MemberActive)"
proof -
  have inv: "session_until h i e csrf d2" using lifetime.reachable_inv [OF _ assms(2)] assms(1) by blast
  show ?thesis
  proof (cases "session_by_id h now d2")
    case (Inl err)
    then have "err = ErrNotFound"
      by (auto simp: session_by_id_def session_by_id_q_def and_then_Inl on_err_Inl row_of_Inl)
    with Inl show ?thesis by simp
  next
    case (Inr s)
    then show ?thesis
    proof (rule session_by_id_Inr)
      fix r a assume r: "r \<in> set (t_sessions d2)" "a \<in> set (t_admins d2)" "ad_id a = ss_admin r" "ss_id r = h"
        "now < ss_expires r" "now < ss_idle r" "ad_status a = MemberActive"
        and s: "s = \<lparr>se_admin = ss_admin r, se_username = ad_username a, se_role = ad_role a, se_csrf = ss_csrf r,
          se_hash = ss_id r, se_expires = ss_expires r, se_idle = ss_idle r, se_method = ss_method r\<rparr>"
      have "ss_expires r = e" "ss_admin r = i" using inv r(1,4) by (simp_all add: session_until_def)
      with Inr r s show ?thesis by auto
    qed
  qed
qed

theorem session_lifetime_witness:
  "\<exists>d. create_bounded_session ''t'' ''adm'' ''c'' 90 30 AuthLocal 1 demo_core = Inr d \<and>
     \<not> (\<exists>v. session_by_id ''t'' 90 (touch_session_activity ''t'' 20 500 d) = Inr v)"
proof -
  obtain d where d: "create_bounded_session ''t'' ''adm'' ''c'' 90 30 AuthLocal 1 demo_core = Inr d"
    and s: "\<exists>s \<in> set (t_sessions d). ss_id s = ''t''"
    by (simp add: create_bounded_session_def create_bounded_session_q_def exists_admin_in admin_in_demo)
  have "(no_new_row identity_step t_sessions ss_id ''t'')\<^sup>*\<^sup>* d (touch_session_activity ''t'' 20 500 d)"
    by (rule r_into_rtranclp) (use s in \<open>simp add: no_new_row_def identity_step.TouchSession\<close>)
  from session_lifetime [OF d this, of 90] d show ?thesis by (auto split: sum.splits)
qed

definition sessions_of :: "uuid \<Rightarrow> core_db \<Rightarrow> string list" where
  "sessions_of i d = map ss_id (filter (\<lambda>s. ss_admin s = i) (t_sessions d))"

definition grants_of :: "uuid \<Rightarrow> core_db \<Rightarrow> grant_row list" where
  "grants_of i d = filter (\<lambda>g. \<exists>s \<in> set (t_sessions d). ss_id s = gr_session g \<and> ss_admin s = i) (t_grants d)"

lemma revoked_others:
  "set (sessions_of i (delete_other_member_sessions_q i session d)) \<subseteq> {session}"
  "grants_of i d = [] \<Longrightarrow> grants_of i (delete_other_member_sessions_q i session d) = []"
  by (auto simp: sessions_of_def grants_of_def delete_other_member_sessions_q_def drop_sessions_def Let_def filter_empty_conv)

lemma revoked_grants:
  "sessions_of i (delete_member_step_up_grants_q i d) = sessions_of i d" "grants_of i (delete_member_step_up_grants_q i d) = []"
  by (auto simp: sessions_of_def grants_of_def delete_member_step_up_grants_q_def filter_empty_conv)

lemma revoked_all: "sessions_of i (delete_member_sessions_q i d) = []" "grants_of i (delete_member_sessions_q i d) = []"
  by (auto simp: sessions_of_def grants_of_def delete_member_sessions_q_def drop_sessions_def Let_def filter_empty_conv)

lemma revoked_audit [simp]: "sessions_of i (append_audit_tx e ts d) = sessions_of i d" "grants_of i (append_audit_tx e ts d) = grants_of i d"
  by (simp_all add: sessions_of_def grants_of_def)

text \<open>The two orders in which the code revokes.\<close>

lemma revoked_both:
  "set (sessions_of i (delete_other_member_sessions_q i session (delete_member_step_up_grants_q i d))) \<subseteq> {session}"
  "grants_of i (delete_other_member_sessions_q i session (delete_member_step_up_grants_q i d)) = []"
  "set (sessions_of i (delete_member_step_up_grants_q i (delete_other_member_sessions_q i session d))) \<subseteq> {session}"
  "grants_of i (delete_member_step_up_grants_q i (delete_other_member_sessions_q i session d)) = []"
  unfolding revoked_grants by (rule revoked_others revoked_others(2) [OF revoked_grants(2)] refl)+

text \<open>C24: changing the password or the username of a member closes every Session of the member. Disabling TOTP, closing
  password login, and binding or unbinding an OIDC or an OAuth identity leave the member no Session but the one
  that asked, and no Step-up Grant.\<close>

theorem credential_change_revokes:
  "(change_password i p e ts d = Inr d' \<or> change_username i u e ts d = Inr d' \<longrightarrow> sessions_of i d' = [] \<and> grants_of i d' = []) \<and>
   (disable_totp i session e ts d = Inr d' \<or> set_password_login_enabled i session False e ts d = Inr d' \<or>
    bind_external_identity i issuer subject display session e ts d = Inr d' \<or> unbind_external_identity i session e ts d = Inr d' \<or>
    bind_oauth_identity i issuer subject display session e ts d = Inr d' \<or> unbind_oauth_identity i session e ts d = Inr d'
      \<longrightarrow> set (sessions_of i d') \<subseteq> {session} \<and> grants_of i d' = [])"
  (is "(?whole \<longrightarrow> _) \<and> (?others \<longrightarrow> _)")
proof (intro conjI impI)
  assume ?whole
  then show "sessions_of i d' = []" "grants_of i d' = []"
    by (auto simp: change_password_def change_username_def revoked_all)
next
  assume ?others
  then have "\<exists>d1. d' = append_audit_tx e ts (delete_other_member_sessions_q i session (delete_member_step_up_grants_q i d1)) \<or>
      d' = append_audit_tx e ts (delete_member_step_up_grants_q i (delete_other_member_sessions_q i session d1))"
    unfolding disable_totp_def set_password_login_enabled_def bind_external_identity_def unbind_external_identity_def
      bind_oauth_identity_def unbind_oauth_identity_def Let_def
    by (elim disjE; clarsimp split: if_splits; blast)
  then show "set (sessions_of i d') \<subseteq> {session}" "grants_of i d' = []"
    by (elim exE disjE; simp only: revoked_audit revoked_both)+
qed

theorem credential_change_revokes_witness:
  "\<exists>d'. change_password ''adm'' ''new'' (event ''adm'' ''act'' [] [] []) 5 demo_core = Inr d' \<and> sessions_of ''adm'' d' = []"
  by (rule exI, rule conjI, simp only: change_password_def,
    rule conjunct1 [OF mp [OF conjunct1 [OF credential_change_revokes [of "''adm''" "''new''" "(event ''adm'' ''act'' [] [] [])" 5 demo_core]]]],
    simp add: change_password_def)

end
