(* ===== verification/CryptoCore.thy ===== *)
theory CryptoCore
  imports GoStrings Encodings GoInts "HOL-Library.Signed_Division"
begin

unbundle bit_operations_syntax

text \<open>
  \<open>core/internal/crypto/crypto.go\<close>: the envelope encryption of secret values, password and token hashing, one-time
  passwords and Recovery Codes. The primitives (AES-GCM, Argon2id, SHA-256, HMAC-SHA-1) are arguments, with their documented
  behaviour as hypotheses; random bytes are arguments. Certificates and key files are in the theory of the Agent CA.
\<close>

datatype crypto_error = BadKeySize | TruncatedNonce | TruncatedDataNonce | AuthenticationFailed | MalformedHash
  | CorruptEncoding | ArgonPanic | EmptySecret | KeyFileSize | KeyFileError

section \<open>The master key\<close>

text \<open>What \<open>os.ReadFile\<close> finds at the path of the key; the answer is the key and the file after the call.\<close>

datatype key_file = NoFile | Unreadable | FileBytes bytes

definition load_or_create_master_key :: "key_file \<Rightarrow> bytes \<Rightarrow> crypto_error + (bytes \<times> key_file)" where
  "load_or_create_master_key file random =
     (case file of
        NoFile \<Rightarrow> Inr (take 32 random, FileBytes (take 32 random))
      | Unreadable \<Rightarrow> Inl KeyFileError
      | FileBytes key \<Rightarrow> if length key \<noteq> 32 then Inl KeyFileSize else Inr (key, file))"

section \<open>Envelope encryption\<close>

text \<open>\<open>gcm_seal key nonce plaintext\<close> and \<open>gcm_open key nonce ciphertext\<close> are \<open>cipher.AEAD\<close> over AES, with no additional data.\<close>

type_synonym gcm_seal = "bytes \<Rightarrow> bytes \<Rightarrow> bytes \<Rightarrow> bytes"
type_synonym gcm_open = "bytes \<Rightarrow> bytes \<Rightarrow> bytes \<Rightarrow> bytes option"

definition aes_key :: "bytes \<Rightarrow> bool" where
  "aes_key k \<longleftrightarrow> length k \<in> {16, 24, 32}"

definition nonce_size :: nat where
  "nonce_size = 12"

record sealed =
  sl_wrapped :: bytes
  sl_nonces :: bytes
  sl_cipher :: bytes

text \<open>The random bytes are the data key and the two nonces, in the order the code draws them.\<close>

definition seal :: "gcm_seal \<Rightarrow> bytes \<Rightarrow> bytes \<Rightarrow> bytes \<Rightarrow> bytes \<Rightarrow> bytes \<Rightarrow> crypto_error + sealed" where
  "seal gs master data_key wrap_nonce data_nonce v =
     (if \<not> aes_key master then Inl BadKeySize
      else if \<not> aes_key data_key then Inl BadKeySize
      else Inr \<lparr>sl_wrapped = gs master wrap_nonce data_key, sl_nonces = wrap_nonce @ data_nonce,
                sl_cipher = gs data_key data_nonce v\<rparr>)"

definition open_sealed :: "gcm_open \<Rightarrow> bytes \<Rightarrow> bytes \<Rightarrow> bytes \<Rightarrow> bytes \<Rightarrow> crypto_error + bytes" where
  "open_sealed go master wrapped nonces ciphertext =
     (if \<not> aes_key master then Inl BadKeySize
      else if length nonces < nonce_size then Inl TruncatedNonce
      else case go master (take nonce_size nonces) wrapped of
        None \<Rightarrow> Inl AuthenticationFailed
      | Some data_key \<Rightarrow>
          if \<not> aes_key data_key then Inl BadKeySize
          else if length (drop nonce_size nonces) \<noteq> nonce_size then Inl TruncatedDataNonce
          else (case go data_key (drop nonce_size nonces) ciphertext of
              None \<Rightarrow> Inl AuthenticationFailed
            | Some v \<Rightarrow> Inr v))"

text \<open>The documented behaviour of an AEAD: it opens what it sealed, and nothing else.\<close>

definition aead :: "gcm_seal \<Rightarrow> gcm_open \<Rightarrow> bool" where
  "aead gs go \<longleftrightarrow> (\<forall>k n c v. aes_key k \<longrightarrow> length n = nonce_size \<longrightarrow> (go k n c = Some v \<longleftrightarrow> c = gs k n v))"

section \<open>Passwords and tokens\<close>

type_synonym argon2 = "bytes \<Rightarrow> bytes \<Rightarrow> nat \<Rightarrow> nat \<Rightarrow> nat \<Rightarrow> nat \<Rightarrow> bytes"

text \<open>\<open>base64.RawStdEncoding\<close>.\<close>

definition raw_std_encode :: "bytes \<Rightarrow> string" where
  "raw_std_encode bs = encode_sextets False bs"

definition raw_std_decode :: "string \<Rightarrow> bytes option" where
  "raw_std_decode s = decode_sextets False (strip_newlines s)"

text \<open>
  \<open>argon2.IDKey(password, salt, time, memory, threads, keyLen)\<close>; the version of the algorithm is 0x13. It panics with no
  iteration or no thread.
\<close>

definition argon_phc :: "nat \<Rightarrow> nat \<Rightarrow> nat \<Rightarrow> bytes \<Rightarrow> bytes \<Rightarrow> string" where
  "argon_phc memory iterations threads salt key =
     ''$argon2id$v='' @ show_nat 10 19 @ ''$m='' @ show_nat 10 memory @ '',t='' @ show_nat 10 iterations @ '',p='' @
     show_nat 10 threads @ ''$'' @ raw_std_encode salt @ ''$'' @ raw_std_encode key"

definition hash_password :: "argon2 \<Rightarrow> bytes \<Rightarrow> string \<Rightarrow> string" where
  "hash_password argon salt password =
     argon_phc (64 * 1024) 1 4 salt (argon password salt 1 (64 * 1024) 4 32)"

text \<open>
  The pieces of \<open>fmt.Sscanf\<close> the code uses: a literal that must match, and \<open>%d\<close>, which skips spaces but no newline, takes
  an optional sign for a signed target, and the longest run of digits, in the range of the target. What is left of the
  input when the format ends is ignored.
\<close>

fun scan_literal :: "string \<Rightarrow> string \<Rightarrow> string option" where
  "scan_literal [] s = Some s"
| "scan_literal (c # l) (x # s) = (if x = c then scan_literal l s else None)"
| "scan_literal (c # l) [] = None"

definition skip_space :: "string \<Rightarrow> string option" where
  "skip_space s =
     (let t = trim_prefixes (filter (\<lambda>e. e \<noteq> [CHR 0x0A]) space_encodings) s in
      if has_prefix t [CHR 0x0A] then None else Some t)"

definition scan_digits :: "string \<Rightarrow> (nat \<times> string) option" where
  "scan_digits s =
     (let ds = takeWhile (\<lambda>c. 48 \<le> byte_val c \<and> byte_val c \<le> 57) s in
      map_option (\<lambda>n. (n, drop (length ds) s)) (parse_uint 10 ds))"

definition scan_uint :: "nat \<Rightarrow> string \<Rightarrow> (nat \<times> string) option" where
  "scan_uint w s =
     Option.bind (skip_space s) (\<lambda>t. Option.bind (scan_digits t) (\<lambda>(n, u). if n < 2 ^ w then Some (n, u) else None))"

definition scan_int :: "string \<Rightarrow> string option" where
  "scan_int s =
     Option.bind (skip_space s) (\<lambda>t.
       let neg = has_prefix t ''-''; signed = neg \<or> has_prefix t ''+'' in
       Option.bind (scan_digits (if signed then drop 1 t else t)) (\<lambda>(n, u).
         if n < 2 ^ 63 \<or> (neg \<and> n = 2 ^ 63) then Some u else None))"

definition scan_params :: "string \<Rightarrow> (nat \<times> nat \<times> nat) option" where
  "scan_params s =
     Option.bind (scan_literal ''m='' s) (\<lambda>a. Option.bind (scan_uint 32 a) (\<lambda>(memory, b).
     Option.bind (scan_literal '',t='' b) (\<lambda>c. Option.bind (scan_uint 32 c) (\<lambda>(iterations, e).
     Option.bind (scan_literal '',p='' e) (\<lambda>f. Option.bind (scan_uint 8 f) (\<lambda>(threads, _).
     Some (memory, iterations, threads)))))))"

definition byte_word :: "char \<Rightarrow> 8 word" where
  "byte_word c = word_of_nat (byte_val c)"

fun xor_all :: "8 word \<Rightarrow> bytes \<Rightarrow> bytes \<Rightarrow> 8 word" where
  "xor_all v (x # xs) (y # ys) = xor_all (v OR (byte_word x XOR byte_word y)) xs ys"
| "xor_all v _ _ = v"

definition subtle_constant_time_equal :: "bytes \<Rightarrow> bytes \<Rightarrow> bool" where
  "subtle_constant_time_equal a b = (if length a \<noteq> length b then False else xor_all 0 a b = 0)"

definition verify_password :: "argon2 \<Rightarrow> string \<Rightarrow> string \<Rightarrow> crypto_error + bool" where
  "verify_password argon password phc =
     (let parts = split_on (CHR ''$'') phc in
      if length parts \<noteq> 6 \<or> parts ! 1 \<noteq> ''argon2id'' then Inl MalformedHash
      else if Option.bind (scan_literal ''v='' (parts ! 2)) scan_int = None then Inl MalformedHash
      else case scan_params (parts ! 3) of
        None \<Rightarrow> Inl MalformedHash
      | Some (memory, iterations, threads) \<Rightarrow>
          (case raw_std_decode (parts ! 4) of
            None \<Rightarrow> Inl CorruptEncoding
          | Some salt \<Rightarrow> (case raw_std_decode (parts ! 5) of
              None \<Rightarrow> Inl CorruptEncoding
            | Some want \<Rightarrow>
                if iterations < 1 \<or> threads < 1 then Inl ArgonPanic
                else Inr (subtle_constant_time_equal (argon password salt iterations memory threads (length want)) want))))"

definition hash_token :: "(bytes \<Rightarrow> bytes) \<Rightarrow> string \<Rightarrow> string" where
  "hash_token sha256 token = hex_encode (sha256 token)"

definition new_secret :: "nat \<Rightarrow> bytes \<Rightarrow> string" where
  "new_secret bits random = raw_url_encode (take (bits div 8) random)"

definition common_passwords :: "string list" where
  "common_passwords = [''password'', ''password123'', ''123456789012'', ''qwertyuiop'', ''letmeinletmein'', ''autosecrets'',
     ''changemechangeme'', ''administrator'', ''correcthorsebattery'']"

definition password_valid :: "string \<Rightarrow> bool" where
  "password_valid p =
     (if rune_count p < 12 \<or> 128 < rune_count p then False else to_lower p \<notin> set common_passwords)"

section \<open>One-time passwords\<close>

text \<open>
  \<open>base32.StdEncoding\<close> without padding: eight characters of five bits are five bytes; a last group of 2, 4, 5 or 7
  characters is 1 to 4 bytes, and one of 1, 3 or 6 is dropped.
\<close>

definition b32_val :: "char \<Rightarrow> nat option" where
  "b32_val c = (let n = byte_val c in
     if 65 \<le> n \<and> n \<le> 90 then Some (n - 65) else if 50 \<le> n \<and> n \<le> 55 then Some (n - 24) else None)"

definition b32_char :: "nat \<Rightarrow> char" where
  "b32_char n = (if n < 26 then char_of (65 + n) else char_of (24 + n))"

fun b32_vals :: "string \<Rightarrow> nat list option" where
  "b32_vals [] = Some []"
| "b32_vals (c # s) = Option.bind (b32_val c) (\<lambda>v. map_option (\<lambda>vs. v # vs) (b32_vals s))"

definition quintets :: "nat \<Rightarrow> nat \<Rightarrow> nat \<Rightarrow> nat \<Rightarrow> nat \<Rightarrow> nat list" where
  "quintets a b c d e =
     [a div 8, (a mod 8) * 4 + b div 64, (b div 2) mod 32, (b mod 2) * 16 + c div 16, (c mod 16) * 2 + d div 128,
      (d div 4) mod 32, (d mod 4) * 8 + e div 32, e mod 32]"

fun b32_encode :: "nat list \<Rightarrow> nat list" where
  "b32_encode (a # b # c # d # e # r) = quintets a b c d e @ b32_encode r"
| "b32_encode [a, b, c, d] = take 7 (quintets a b c d 0)"
| "b32_encode [a, b, c] = take 5 (quintets a b c 0 0)"
| "b32_encode [a, b] = take 4 (quintets a b 0 0 0)"
| "b32_encode [a] = take 2 (quintets a 0 0 0 0)"
| "b32_encode [] = []"

definition unquintets :: "nat \<Rightarrow> nat \<Rightarrow> nat \<Rightarrow> nat \<Rightarrow> nat \<Rightarrow> nat \<Rightarrow> nat \<Rightarrow> nat \<Rightarrow> nat list" where
  "unquintets p q r s t u v w =
     [p * 8 + q div 4, (q mod 4) * 64 + r * 2 + s div 16, (s mod 16) * 16 + t div 2,
      (t mod 2) * 128 + u * 4 + v div 8, (v mod 8) * 32 + w]"

fun b32_bytes :: "nat list \<Rightarrow> nat list" where
  "b32_bytes (p # q # r # s # t # u # v # w # rest) = unquintets p q r s t u v w @ b32_bytes rest"
| "b32_bytes [p, q, r, s, t, u, v] = take 4 (unquintets p q r s t u v 0)"
| "b32_bytes [p, q, r, s, t] = take 3 (unquintets p q r s t 0 0 0)"
| "b32_bytes [p, q, r, s] = take 2 (unquintets p q r s 0 0 0 0)"
| "b32_bytes [p, q] = take 1 (unquintets p q 0 0 0 0 0 0)"
| "b32_bytes _ = []"

definition base32_encode :: "bytes \<Rightarrow> string" where
  "base32_encode bs = map b32_char (b32_encode (map byte_val bs))"

definition base32_decode :: "string \<Rightarrow> bytes option" where
  "base32_decode s = map_option (\<lambda>vs. map char_of (b32_bytes vs)) (b32_vals (strip_newlines s))"

text \<open>
  \<open>strings.ToUpper\<close>, as far as an all-ASCII result can tell: besides \<open>a\<close> to \<open>z\<close>, U+0131 folds to \<open>I\<close> and U+017F to \<open>S\<close>;
  what else is not ASCII stays so.
\<close>

fun to_upper :: "string \<Rightarrow> string" where
  "to_upper [] = []"
| "to_upper (c # s) =
     (if 97 \<le> byte_val c \<and> byte_val c \<le> 122 then char_of (byte_val c - 32) # to_upper s
      else if byte_val c = 0xC4 \<and> has_prefix s [CHR 0xB1] then CHR ''I'' # to_upper (drop 1 s)
      else if byte_val c = 0xC5 \<and> has_prefix s [CHR 0xBF] then CHR ''S'' # to_upper (drop 1 s)
      else c # to_upper s)"

definition new_totp_secret :: "bytes \<Rightarrow> string" where
  "new_totp_secret random = base32_encode (take 20 random)"

text \<open>
  \<open>url.PathEscape\<close> and \<open>url.QueryEscape\<close>; \<open>url.Values.Encode\<close> writes the keys in their order.
\<close>

definition unreserved :: "char \<Rightarrow> bool" where
  "unreserved c \<longleftrightarrow> (let n = byte_val c in 48 \<le> n \<and> n \<le> 57 \<or> 65 \<le> n \<and> n \<le> 90 \<or> 97 \<le> n \<and> n \<le> 122) \<or> c \<in> set ''-_.~''"

definition percent :: "char \<Rightarrow> string" where
  "percent c = CHR ''%'' # to_upper (hex_encode [c])"

definition path_escape :: "string \<Rightarrow> string" where
  "path_escape s = concat (map (\<lambda>c. if unreserved c \<or> c \<in> set ''$&+:=@'' then [c] else percent c) s)"

definition query_escape :: "string \<Rightarrow> string" where
  "query_escape s = concat (map (\<lambda>c. if unreserved c then [c] else if c = CHR '' '' then ''+'' else percent c) s)"

definition totp_uri :: "string \<Rightarrow> string \<Rightarrow> string \<Rightarrow> string" where
  "totp_uri issuer username secret =
     ''otpauth://totp/'' @ path_escape (issuer @ '':'' @ username) @ ''?algorithm=SHA1&digits=6&issuer='' @ query_escape issuer @
     ''&period=30&secret='' @ query_escape secret"

text \<open>\<open>Time.Unix\<close> is the floor to seconds; the division by the period truncates towards zero.\<close>

definition totp_counter :: "time \<Rightarrow> int" where
  "totp_counter at = (at div second) sdiv 30"

definition counter_bytes :: "int \<Rightarrow> bytes" where
  "counter_bytes c = (let n = uint (word_of_int c :: 64 word) in
     map (\<lambda>i. char_of (nat (n div 256 ^ (7 - i) mod 256))) [0..<8])"

definition dynamic_truncation :: "bytes \<Rightarrow> nat" where
  "dynamic_truncation digest =
     (let offset = byte_val (last digest) mod 16; at = (\<lambda>i. byte_val (digest ! (offset + i))) in
      (at 0 mod 128) * 2 ^ 24 + at 1 * 2 ^ 16 + at 2 * 2 ^ 8 + at 3)"

definition totp_code :: "(bytes \<Rightarrow> bytes \<Rightarrow> bytes) \<Rightarrow> string \<Rightarrow> time \<Rightarrow> crypto_error + string" where
  "totp_code hmac_sha1 secret at =
     (case base32_decode (to_upper (trim_space secret)) of
        None \<Rightarrow> Inl CorruptEncoding
      | Some key \<Rightarrow>
          if key = [] then Inl EmptySecret
          else Inr (zero_pad 6 (show_nat 10
            (dynamic_truncation (hmac_sha1 key (counter_bytes (totp_counter at))) mod 1000000))))"

text \<open>The candidates in the order the code tries them.\<close>

definition totp_matching_counter :: "(bytes \<Rightarrow> bytes \<Rightarrow> bytes) \<Rightarrow> string \<Rightarrow> string \<Rightarrow> time \<Rightarrow> int option" where
  "totp_matching_counter hmac_sha1 secret code at =
     (if length code \<noteq> 6 then None
      else map_option totp_counter
        (find (\<lambda>candidate. case totp_code hmac_sha1 secret candidate of
             Inl _ \<Rightarrow> False | Inr want \<Rightarrow> subtle_constant_time_equal want code)
          [at - 30 * second, at, at + 30 * second]))"

definition verify_totp :: "(bytes \<Rightarrow> bytes \<Rightarrow> bytes) \<Rightarrow> string \<Rightarrow> string \<Rightarrow> time \<Rightarrow> bool" where
  "verify_totp hmac_sha1 secret code at \<longleftrightarrow> totp_matching_counter hmac_sha1 secret code at \<noteq> None"

section \<open>Recovery Codes\<close>

definition recovery_alphabet :: string where
  "recovery_alphabet = ''ABCDEFGHJKLMNPQRSTUVWXYZ23456789''"

definition recovery_char :: "char \<Rightarrow> char" where
  "recovery_char b = recovery_alphabet ! (byte_val b mod length recovery_alphabet)"

text \<open>One code from twelve random bytes, with a separator before the fifth and the ninth character.\<close>

definition recovery_code :: "bytes \<Rightarrow> string" where
  "recovery_code random =
     concat (map (\<lambda>j. (if j = 4 \<or> j = 8 then ''-'' else []) @ [recovery_char (random ! j)]) [0..<12])"

definition new_recovery_codes :: "int \<Rightarrow> bytes list \<Rightarrow> string list" where
  "new_recovery_codes n random = (if n \<le> 0 then [] else map recovery_code (take (nat n) random))"

definition normalize_recovery_code :: "string \<Rightarrow> string" where
  "normalize_recovery_code code = to_upper (filter (\<lambda>c. c \<noteq> CHR ''-'') (trim_space code))"

end
