(* ===== verification/IdentityService.thy ===== *)
theory IdentityService
  imports IdentitySystem CryptoCore
begin

text \<open>
  The identity service, \<open>core/internal/identity/service.go\<close>: one definition per use case, over the database of the store and
  the primitives of the crypto package. A use case answers an error or a result, and the database after it in
  both cases: what it wrote before it failed stays. The clock is read once per call, random bytes are arguments, and
  appending to the audit log, whose error the code ignores, succeeds.
\<close>

section \<open>Configuration, context and results\<close>

record service =
  sv_sha256 :: "bytes \<Rightarrow> bytes"
  sv_argon :: argon2
  sv_hmac :: "bytes \<Rightarrow> bytes \<Rightarrow> bytes"
  sv_seal :: gcm_seal
  sv_open :: gcm_open
  sv_master :: bytes
  sv_oidc_ready :: bool
  sv_oauth_ready :: bool

text \<open>The clock given to the service, the wall clock the database and \<open>time.Now\<close> read, and the correlation id of the request.\<close>

record call_context =
  cx_now :: time
  cx_db :: time
  cx_corr :: string

datatype service_error = InvalidCredentials | SecondFactorRequired | AlreadyEnrolled | EnrollmentNotPending | ChallengeExpired
  | PasswordLoginDisabled | ExternalLoginRequired | LastExternalLogin | FromStore store_error | FromCrypto crypto_error

record session_out =
  so_id :: string
  so_csrf :: string
  so_username :: string
  so_member :: uuid
  so_role :: member_role
  so_expires :: time

type_synonym 'a answer = "(service_error + 'a) \<times> core_db"

definition denied :: "service_error \<Rightarrow> core_db \<Rightarrow> 'a answer" where
  "denied e d = (Inl e, d)"

text \<open>A store operation whose error is returned as it is, and the same on a changed database.\<close>

definition with_store :: "core_db \<Rightarrow> 'a result \<Rightarrow> ('a \<Rightarrow> 'b answer) \<Rightarrow> 'b answer" where
  "with_store d m f = (case m of Inl e \<Rightarrow> (Inl (FromStore e), d) | Inr x \<Rightarrow> f x)"

definition hash :: "service \<Rightarrow> string \<Rightarrow> string" where
  "hash sv token = hash_token (sv_sha256 sv) token"

definition audit_event_of :: "call_context \<Rightarrow> string \<Rightarrow> string \<Rightarrow> string \<Rightarrow> string \<Rightarrow> audit_event" where
  "audit_event_of cx actor action resource result = event actor action resource result (cx_corr cx)"

definition record_audit :: "call_context \<Rightarrow> string \<Rightarrow> string \<Rightarrow> string \<Rightarrow> string \<Rightarrow> core_db \<Rightarrow> core_db" where
  "record_audit cx actor action resource result d =
     append_audit (audit_event_of cx actor action resource result) (cx_db cx) d"

definition username_ok :: "string \<Rightarrow> bool" where
  "username_ok s \<longleftrightarrow> 2 \<le> length s \<and> length s \<le> 64 \<and>
     (\<forall>c \<in> set s. (let n = byte_val c in 97 \<le> n \<and> n \<le> 122 \<or> 65 \<le> n \<and> n \<le> 90 \<or> 48 \<le> n \<and> n \<le> 57) \<or> c \<in> set ''._-'')"

definition valid_organization_name :: "string \<Rightarrow> bool" where
  "valid_organization_name v \<longleftrightarrow> 0 < length (trim_space v) \<and> length (trim_space v) \<le> 128"

section \<open>Which logins are open\<close>

definition external_login_available :: "service \<Rightarrow> core_db \<Rightarrow> bool result" where
  "external_login_available sv d =
     (case (if sv_oidc_ready sv then external_identity_binding d else Inl ErrNotFound) of
        Inr _ \<Rightarrow> Inr True
      | Inl e \<Rightarrow> if e \<noteq> ErrNotFound then Inl e
          else (case (if sv_oauth_ready sv then oauth_identity_binding d else Inl ErrNotFound) of
              Inr _ \<Rightarrow> Inr True
            | Inl e2 \<Rightarrow> if e2 \<noteq> ErrNotFound then Inl e2 else Inr False))"

definition password_login_available :: "service \<Rightarrow> organization_row \<Rightarrow> core_db \<Rightarrow> bool result" where
  "password_login_available sv org d =
     (if og_password org then Inr True
      else and_then (external_login_available sv d) (\<lambda>external. Inr (\<not> external)))"

definition password_login_state :: "service \<Rightarrow> core_db \<Rightarrow> (bool \<times> bool) result" where
  "password_login_state sv d =
     and_then (organization d) (\<lambda>org.
     and_then (password_login_available sv org d) (\<lambda>available. Inr (og_password org, available)))"

definition reject_last_external_unbind :: "bool \<Rightarrow> external_row result \<Rightarrow> core_db \<Rightarrow> service_error + unit" where
  "reject_last_external_unbind ready remaining d =
     (case organization d of
        Inl e \<Rightarrow> Inl (FromStore e)
      | Inr org \<Rightarrow>
          if og_password org then Inr ()
          else if ready
          then (case remaining of
              Inr _ \<Rightarrow> Inr ()
            | Inl e \<Rightarrow> if e \<noteq> ErrNotFound then Inl (FromStore e) else Inl LastExternalLogin)
          else Inl LastExternalLogin)"

section \<open>Sessions and second factors\<close>

definition session_absolute_ttl :: duration where
  "session_absolute_ttl = 12 * hour"

definition session_idle_ttl :: duration where
  "session_idle_ttl = 30 * minute"

definition issue_session ::
    "service \<Rightarrow> call_context \<Rightarrow> bytes \<Rightarrow> bytes \<Rightarrow> admin_row \<Rightarrow> auth_method \<Rightarrow> core_db \<Rightarrow> session_out answer" where
  "issue_session sv cx random1 random2 m auth d =
     (let sid = new_secret 256 random1; csrf = new_secret 128 random2;
          absolute = cx_now cx + session_absolute_ttl; idle = cx_now cx + session_idle_ttl in
      with_store d (create_bounded_session (hash sv sid) (ad_id m) csrf absolute idle auth (cx_db cx) d) (\<lambda>d'.
        (Inr \<lparr>so_id = sid, so_csrf = csrf, so_username = ad_username m, so_member = ad_id m, so_role = ad_role m,
              so_expires = absolute\<rparr>, d')))"

text \<open>A Recovery Code, when one is given, else the password of the confirmed TOTP enrollment, each spent by its use.\<close>

definition verify_second_factor ::
    "service \<Rightarrow> call_context \<Rightarrow> admin_row \<Rightarrow> string \<Rightarrow> string \<Rightarrow> core_db \<Rightarrow> bool \<times> core_db" where
  "verify_second_factor sv cx m totp recovery d =
     (if recovery \<noteq> [] then consume_recovery_code (ad_id m) (hash sv (normalize_recovery_code recovery)) (cx_now cx) d
      else case totp_enrollment_for_member (ad_id m) d of
        Inl _ \<Rightarrow> (False, d)
      | Inr en \<Rightarrow>
          if mf_verified en = None \<or> mf_confirmed en = None then (False, d)
          else (case open_sealed (sv_open sv) (sv_master sv) (mf_wrapped en) (mf_nonces en) (mf_cipher en) of
              Inl _ \<Rightarrow> (False, d)
            | Inr secret \<Rightarrow> (case totp_matching_counter (sv_hmac sv) secret totp (cx_now cx) of
                None \<Rightarrow> (False, d)
              | Some counter \<Rightarrow> use_totp (ad_id m) counter d)))"

definition policy_proof_valid ::
    "service \<Rightarrow> call_context \<Rightarrow> admin_row \<Rightarrow> string \<Rightarrow> string \<Rightarrow> bool \<Rightarrow> core_db \<Rightarrow> bool \<times> core_db" where
  "policy_proof_valid sv cx m totp recovery allow_recovery d =
     (case organization d of
        Inl _ \<Rightarrow> (False, d)
      | Inr org \<Rightarrow>
          if \<not> og_totp org then (True, d)
          else verify_second_factor sv cx m totp (if allow_recovery then recovery else []) d)"

definition password_matches :: "service \<Rightarrow> string \<Rightarrow> admin_row \<Rightarrow> bool" where
  "password_matches sv password m \<longleftrightarrow> verify_password (sv_argon sv) password (ad_password m) = Inr True"

text \<open>\<open>err != nil || !passwordOK || !s.policyProofValid(...)\<close>: the second factor is only tried after the password.\<close>

definition proof_of ::
    "service \<Rightarrow> call_context \<Rightarrow> string \<Rightarrow> string \<Rightarrow> string \<Rightarrow> bool \<Rightarrow> admin_row \<Rightarrow> core_db \<Rightarrow> bool \<times> core_db" where
  "proof_of sv cx password totp recovery allow m d =
     (if \<not> password_matches sv password m then (False, d) else policy_proof_valid sv cx m totp recovery allow d)"

section \<open>Bootstrap and TOTP enrollment\<close>

definition new_member :: "uuid \<Rightarrow> string \<Rightarrow> admin_row" where
  "new_member i u = \<lparr>ad_id = i, ad_username = u, ad_password = [], ad_created = zero_time, ad_role = RoleAdministrator,
     ad_status = MemberActive, ad_activated = None, ad_deactivated = None, ad_totp = None\<rparr>"

definition bootstrap ::
    "service \<Rightarrow> call_context \<Rightarrow> string \<Rightarrow> string \<Rightarrow> string \<Rightarrow> string \<Rightarrow> bytes \<Rightarrow> uuid \<Rightarrow> bytes \<Rightarrow> bytes \<Rightarrow> core_db \<Rightarrow>
     session_out answer" where
  "bootstrap sv cx code org username password salt i random1 random2 d =
     (let refused = record_audit cx ''bootstrap'' ''administrator.bootstrapped'' [] ''denied'' d in
      if \<not> valid_organization_name org \<or> \<not> username_ok username \<or> \<not> password_valid password
      then denied InvalidCredentials refused
      else case bootstrap_administrator (hash sv code) (trim_space org) i username
          (hash_password (sv_argon sv) (take 16 salt) password) (cx_now cx)
          (audit_event_of cx ''bootstrap'' ''administrator.bootstrapped'' i ''active'') (cx_db cx) d of
        Inl e \<Rightarrow> denied (FromStore e) refused
      | Inr d1 \<Rightarrow> issue_session sv cx random1 random2 (new_member i username) AuthLocal d1)"

definition start_totp_enrollment ::
    "service \<Rightarrow> call_context \<Rightarrow> uuid \<Rightarrow> string \<Rightarrow> bytes \<Rightarrow> bytes \<Rightarrow> bytes \<Rightarrow> bytes \<Rightarrow> bytes \<Rightarrow> core_db \<Rightarrow>
     (string \<times> string \<times> string) answer" where
  "start_totp_enrollment sv cx i password random_secret data_key nonce1 nonce2 random_token d =
     (let act = ''administrator.totp_enabled'' in
      case member_by_id i d of
        Inl _ \<Rightarrow> denied InvalidCredentials (record_audit cx (''administrator:'' @ i) act i ''denied'' d)
      | Inr m \<Rightarrow>
          if ad_status m \<noteq> MemberActive
          then denied InvalidCredentials (record_audit cx (''administrator:'' @ i) act i ''denied'' d)
          else if \<not> password_matches sv password m
          then denied InvalidCredentials (record_audit cx (''administrator:'' @ ad_username m) act (ad_id m) ''denied'' d)
          else with_store d (organization d) (\<lambda>org.
            if og_totp org then denied AlreadyEnrolled d
            else
              let secret = new_totp_secret random_secret; token = new_secret 192 random_token in
              (case seal (sv_seal sv) (sv_master sv) data_key nonce1 nonce2 secret of
                Inl e \<Rightarrow> denied (FromCrypto e) d
              | Inr sl \<Rightarrow>
                  with_store d (create_enrollment_for_member (ad_id m) (hash sv token) (sl_wrapped sl) (sl_nonces sl)
                      (sl_cipher sl) (cx_now cx + 30 * minute) d) (\<lambda>d1.
                    (Inr (ad_username m, token, totp_uri ''AutoSecrets'' (ad_username m) secret), d1)))))"

definition verify_mfa_enrollment ::
    "service \<Rightarrow> call_context \<Rightarrow> string \<Rightarrow> string \<Rightarrow> bytes list \<Rightarrow> bytes \<Rightarrow> core_db \<Rightarrow> (string \<times> string list) answer" where
  "verify_mfa_enrollment sv cx token totp random_codes random_conf d =
     (let act = ''administrator.totp_enabled'' in
      case mfa_enrollment_by_token (hash sv token) (cx_now cx) d of
        Inl e \<Rightarrow> denied (FromStore e) (record_audit cx ''authentication'' act [] ''denied'' d)
      | Inr en \<Rightarrow>
          let ok = (case open_sealed (sv_open sv) (sv_master sv) (mf_wrapped en) (mf_nonces en) (mf_cipher en) of
              Inl _ \<Rightarrow> False
            | Inr secret \<Rightarrow> verify_totp (sv_hmac sv) secret totp (cx_now cx)) in
          if \<not> ok
          then denied InvalidCredentials (record_audit cx (''administrator:'' @ mf_admin en) act (mf_admin en) ''denied'' d)
          else
            let codes = new_recovery_codes 10 random_codes; conf = new_secret 192 random_conf in
            (case complete_mfa_enrollment (hash sv token) (hash sv conf)
                (map (\<lambda>c. hash sv (normalize_recovery_code c)) codes) (cx_now cx)
                (audit_event_of cx (''member:'' @ mf_admin en) ''member.mfa_verified'' (mf_admin en)
                  ''pending_recovery_confirmation'') (cx_db cx) d of
              Inl _ \<Rightarrow> denied EnrollmentNotPending d
            | Inr d1 \<Rightarrow> (Inr (conf, codes), d1)))"

definition confirm_enrollment ::
    "service \<Rightarrow> call_context \<Rightarrow> uuid \<Rightarrow> string \<Rightarrow> string \<Rightarrow> core_db \<Rightarrow> admin_row answer" where
  "confirm_enrollment sv cx i session conf d =
     (case confirm_mfa_enrollment (hash sv conf) session (cx_now cx)
         (audit_event_of cx (''administrator:'' @ i) ''administrator.totp_enabled'' i ''ok'') (cx_db cx) d of
        Inl _ \<Rightarrow> denied EnrollmentNotPending
          (record_audit cx (''administrator:'' @ i) ''administrator.totp_enabled'' i ''denied'' d)
      | Inr (m, d1) \<Rightarrow> (Inr m, d1))"

section \<open>Password login\<close>

datatype login_out = LoggedIn session_out | Challenged string

definition login ::
    "service \<Rightarrow> call_context \<Rightarrow> string \<Rightarrow> string \<Rightarrow> string \<Rightarrow> bytes \<Rightarrow> bytes \<Rightarrow> core_db \<Rightarrow> login_out answer" where
  "login sv cx username password source random1 random2 d =
     with_store d (organization d) (\<lambda>org.
     with_store d (password_login_available sv org d) (\<lambda>allowed.
       if \<not> allowed
       then denied PasswordLoginDisabled
         (record_audit cx ''authentication'' ''auth.login'' [] ''password_login_disabled'' d)
       else case member_by_username username d of
         Inl _ \<Rightarrow> denied InvalidCredentials (record_audit cx ''authentication'' ''auth.login'' [] ''denied'' d)
       | Inr m \<Rightarrow>
           if ad_status m \<noteq> MemberActive
           then denied InvalidCredentials (record_audit cx ''authentication'' ''auth.login'' [] ''denied'' d)
           else if \<not> password_matches sv password m
           then denied InvalidCredentials (record_audit cx (''member:'' @ ad_username m) ''auth.login'' (ad_id m) ''denied'' d)
           else if \<not> og_totp org
           then (case issue_session sv cx random1 random2 m AuthLocal d of
               (Inl e, d1) \<Rightarrow> (Inl e, d1)
             | (Inr s, d1) \<Rightarrow>
                 (Inr (LoggedIn s), record_audit cx (''member:'' @ ad_username m) ''auth.login'' (ad_id m) ''local'' d1))
           else
             let challenge = new_secret 192 random1 in
             with_store d (create_login_challenge (hash sv challenge) (ad_id m) source (cx_now cx + 5 * minute) (cx_db cx) d)
               (\<lambda>d1. (Inr (Challenged challenge), d1))))"

definition complete_login ::
    "service \<Rightarrow> call_context \<Rightarrow> string \<Rightarrow> string \<Rightarrow> string \<Rightarrow> string \<Rightarrow> bytes \<Rightarrow> bytes \<Rightarrow> core_db \<Rightarrow> session_out answer" where
  "complete_login sv cx challenge source totp recovery random1 random2 d =
     with_store d (organization d) (\<lambda>org.
     with_store d (password_login_available sv org d) (\<lambda>allowed.
       if \<not> allowed
       then denied PasswordLoginDisabled
         (record_audit cx ''authentication'' ''auth.second_factor'' [] ''password_login_disabled'' d)
       else case consume_login_challenge (hash sv challenge) source (cx_now cx) d of
         Inl _ \<Rightarrow> denied ChallengeExpired (record_audit cx ''authentication'' ''auth.second_factor'' [] ''denied'' d)
       | Inr (i, d1) \<Rightarrow>
           (case member_by_id i d1 of
             Inl _ \<Rightarrow> denied InvalidCredentials (record_audit cx ''authentication'' ''auth.login'' [] ''denied''
               (record_audit cx ''authentication'' ''auth.second_factor'' [] ''denied'' d1))
           | Inr m \<Rightarrow>
               let who = ''member:'' @ ad_username m;
                   (ok, d2) = (if ad_status m \<noteq> MemberActive then (False, d1)
                               else verify_second_factor sv cx m totp recovery d1) in
               if \<not> ok
               then denied InvalidCredentials (record_audit cx who ''auth.login'' (ad_id m) ''denied''
                 (record_audit cx who ''auth.second_factor'' (ad_id m) ''denied'' d2))
               else (case issue_session sv cx random1 random2 m AuthLocal d2 of
                   (Inl e, d3) \<Rightarrow> (Inl e, d3)
                 | (Inr s, d3) \<Rightarrow> (Inr s, record_audit cx who ''auth.login'' (ad_id m) ''local''
                     (record_audit cx who ''auth.second_factor'' (ad_id m)
                       (if recovery \<noteq> [] then ''recovery_code'' else ''totp'') d3))))))"

section \<open>Operations of a member on the own account\<close>

definition renew_session ::
    "service \<Rightarrow> call_context \<Rightarrow> string \<Rightarrow> uuid \<Rightarrow> string \<Rightarrow> string \<Rightarrow> string \<Rightarrow> bytes \<Rightarrow> bytes \<Rightarrow> core_db \<Rightarrow> session_out answer"
  where
  "renew_session sv cx old i password totp recovery random1 random2 d =
     (case member_by_id i d of
        Inl _ \<Rightarrow> denied InvalidCredentials (record_audit cx (''administrator:'' @ i) ''auth.renew'' i ''denied'' d)
      | Inr m \<Rightarrow>
          let who = ''member:'' @ ad_username m; (ok, d1) = proof_of sv cx password totp recovery True m d in
          if \<not> ok then denied InvalidCredentials (record_audit cx who ''auth.renew'' (ad_id m) ''denied'' d1)
          else (case issue_session sv cx random1 random2 m AuthLocal (delete_session old d1) of
              (Inl e, d2) \<Rightarrow> (Inl e, d2)
            | (Inr s, d2) \<Rightarrow> (Inr s, record_audit cx who ''auth.renew'' (ad_id m) ''local'' d2)))"

definition step_up ::
    "service \<Rightarrow> call_context \<Rightarrow> string \<Rightarrow> uuid \<Rightarrow> string \<Rightarrow> string \<Rightarrow> string \<Rightarrow> core_db \<Rightarrow> time answer" where
  "step_up sv cx session i password totp recovery d =
     (case member_by_id i d of
        Inl _ \<Rightarrow> denied InvalidCredentials (record_audit cx ''authentication'' ''auth.step_up'' [] ''denied'' d)
      | Inr m \<Rightarrow>
          let who = ''member:'' @ ad_username m; (ok, d1) = proof_of sv cx password totp recovery True m d;
              expires = cx_now cx + 10 * minute in
          if \<not> ok then denied InvalidCredentials (record_audit cx who ''auth.step_up'' (ad_id m) ''denied'' d1)
          else with_store d1 (upsert_step_up_grant session (cx_now cx) expires d1) (\<lambda>d2.
            (Inr expires, record_audit cx who ''auth.step_up'' (ad_id m) ''ok'' d2)))"

definition change_own_password ::
    "service \<Rightarrow> call_context \<Rightarrow> uuid \<Rightarrow> string \<Rightarrow> string \<Rightarrow> string \<Rightarrow> bytes \<Rightarrow> bytes \<Rightarrow> bytes \<Rightarrow> core_db \<Rightarrow> session_out answer" where
  "change_own_password sv cx i current new totp salt random1 random2 d =
     (let act = ''member.password_changed''; refused = record_audit cx (''administrator:'' @ i) act i ''denied'' d in
      if \<not> password_valid new then denied InvalidCredentials refused
      else case member_by_id i d of
        Inl _ \<Rightarrow> denied InvalidCredentials refused
      | Inr m \<Rightarrow>
          let who = ''member:'' @ ad_username m; (ok, d1) = proof_of sv cx current totp [] False m d in
          if \<not> ok then denied InvalidCredentials (record_audit cx who act (ad_id m) ''denied'' d1)
          else with_store d1 (change_password (ad_id m) (hash_password (sv_argon sv) (take 16 salt) new)
              (audit_event_of cx who act (ad_id m) ''ok'') (cx_db cx) d1)
            (issue_session sv cx random1 random2 m AuthLocal))"

definition change_own_username ::
    "service \<Rightarrow> call_context \<Rightarrow> uuid \<Rightarrow> string \<Rightarrow> string \<Rightarrow> string \<Rightarrow> bytes \<Rightarrow> bytes \<Rightarrow> core_db \<Rightarrow> session_out answer" where
  "change_own_username sv cx i username current totp random1 random2 d =
     (let act = ''member.username_changed''; refused = record_audit cx (''administrator:'' @ i) act i ''denied'' d in
      if \<not> username_ok username then denied InvalidCredentials refused
      else case member_by_id i d of
        Inl _ \<Rightarrow> denied InvalidCredentials refused
      | Inr m \<Rightarrow>
          let who = ''member:'' @ ad_username m in
          if username = ad_username m then denied InvalidCredentials (record_audit cx who act (ad_id m) ''denied'' d)
          else
            let (ok, d1) = proof_of sv cx current totp [] False m d in
            if \<not> ok then denied InvalidCredentials (record_audit cx who act (ad_id m) ''denied'' d1)
            else with_store d1 (change_username (ad_id m) username (audit_event_of cx who act (ad_id m) ''ok'') (cx_db cx) d1)
              (issue_session sv cx random1 random2 (m\<lparr>ad_username := username\<rparr>) AuthLocal))"

definition logout :: "call_context \<Rightarrow> string \<Rightarrow> uuid \<Rightarrow> string \<Rightarrow> core_db \<Rightarrow> core_db" where
  "logout cx session i username d =
     (if session = [] then d
      else record_audit cx (''member:'' @ username) ''auth.logout'' i ''ok'' (delete_session session d))"

definition disable_own_totp ::
    "service \<Rightarrow> call_context \<Rightarrow> uuid \<Rightarrow> string \<Rightarrow> string \<Rightarrow> string \<Rightarrow> core_db \<Rightarrow> unit answer" where
  "disable_own_totp sv cx i session password totp d =
     (let act = ''administrator.totp_disabled'' in
      case member_by_id i d of
        Inl _ \<Rightarrow> denied InvalidCredentials (record_audit cx (''administrator:'' @ i) act i ''denied'' d)
      | Inr m \<Rightarrow>
          let who = ''administrator:'' @ ad_username m;
              (ok, d1) = (if \<not> password_matches sv password m then (False, d) else verify_second_factor sv cx m totp [] d) in
          if \<not> ok then denied InvalidCredentials (record_audit cx who act (ad_id m) ''denied'' d1)
          else with_store d1 (disable_totp i session (audit_event_of cx who act i ''ok'') (cx_db cx) d1) (\<lambda>d2. (Inr (), d2)))"

definition set_password_login ::
    "service \<Rightarrow> call_context \<Rightarrow> uuid \<Rightarrow> string \<Rightarrow> string \<Rightarrow> string \<Rightarrow> bool \<Rightarrow> core_db \<Rightarrow> unit answer" where
  "set_password_login sv cx i session password totp enabled d =
     (let act = (if enabled then ''administrator.password_login_enabled'' else ''administrator.password_login_disabled'') in
      case member_by_id i d of
        Inl _ \<Rightarrow> denied InvalidCredentials (record_audit cx (''administrator:'' @ i) act i ''denied'' d)
      | Inr m \<Rightarrow>
          let who = ''administrator:'' @ ad_username m; (ok, d1) = proof_of sv cx password totp [] False m d in
          if \<not> ok then denied InvalidCredentials (record_audit cx who act (ad_id m) ''denied'' d1)
          else with_store d1 (organization d1) (\<lambda>org.
            if og_password org = enabled then (Inr (), d1)
            else with_store d1 (if enabled then Inr True else external_login_available sv d1) (\<lambda>usable.
              if \<not> usable then denied ExternalLoginRequired (record_audit cx who act (ad_id m) ''denied'' d1)
              else with_store d1 (set_password_login_enabled i session enabled (audit_event_of cx who act (ad_id m) ''ok'')
                  (cx_db cx) d1) (\<lambda>d2. (Inr (), d2)))))"

section \<open>External logins\<close>

text \<open>What a provider asserted of the person who logged in there.\<close>

record oidc_identity =
  oi_issuer :: string
  oi_subject :: string
  oi_display :: string

record oidc_start =
  os_state :: string
  os_nonce :: string
  os_verifier :: string

definition begin_transaction ::
    "service \<Rightarrow> call_context \<Rightarrow> string \<Rightarrow> uuid \<Rightarrow> string \<Rightarrow> bytes \<Rightarrow> bytes \<Rightarrow> bytes \<Rightarrow> core_db \<Rightarrow> oidc_start answer" where
  "begin_transaction sv cx purpose i ret random1 random2 random3 d =
     (let state = new_secret 192 random1; nonce = new_secret 192 random2; verifier = new_secret 256 random3 in
      with_store d (create_oidc_transaction (hash sv state) purpose i nonce verifier ret (cx_now cx + 5 * minute) d) (\<lambda>d1.
        (Inr \<lparr>os_state = state, os_nonce = nonce, os_verifier = verifier\<rparr>, d1)))"

definition finish_transaction :: "service \<Rightarrow> call_context \<Rightarrow> string \<Rightarrow> core_db \<Rightarrow> oidc_transaction answer" where
  "finish_transaction sv cx state d =
     (case consume_oidc_transaction (hash sv state) (cx_now cx) d of
        Inl _ \<Rightarrow> (Inl InvalidCredentials, d)
      | Inr (t, d1) \<Rightarrow> (Inr t, d1))"

text \<open>The start of a login and of a binding, of one provider: the source has each twice, for OIDC and for OAuth.\<close>

definition start_login_with ::
    "external_row result \<Rightarrow> service \<Rightarrow> call_context \<Rightarrow> string \<Rightarrow> bytes \<Rightarrow> bytes \<Rightarrow> bytes \<Rightarrow> core_db \<Rightarrow> oidc_start answer" where
  "start_login_with bound sv cx ret random1 random2 random3 d =
     (case bound of
        Inl _ \<Rightarrow> denied InvalidCredentials (record_audit cx ''authentication'' ''auth.login'' [] ''denied'' d)
      | Inr _ \<Rightarrow> begin_transaction sv cx ''login'' [] ret random1 random2 random3 d)"

definition start_binding_with ::
    "(core_db \<Rightarrow> external_row result) \<Rightarrow> string \<Rightarrow> service \<Rightarrow> call_context \<Rightarrow> uuid \<Rightarrow> string \<Rightarrow> string \<Rightarrow> string \<Rightarrow>
     bytes \<Rightarrow> bytes \<Rightarrow> bytes \<Rightarrow> core_db \<Rightarrow> oidc_start answer" where
  "start_binding_with bound act sv cx i password totp ret random1 random2 random3 d =
     (case member_by_id i d of
        Inl _ \<Rightarrow> denied InvalidCredentials (record_audit cx (''administrator:'' @ i) act i ''denied'' d)
      | Inr m \<Rightarrow>
          let who = ''administrator:'' @ ad_username m; (ok, d1) = proof_of sv cx password totp [] False m d in
          if \<not> ok then denied InvalidCredentials (record_audit cx who act (ad_id m) ''denied'' d1)
          else case bound d1 of
            Inr _ \<Rightarrow> denied (FromStore ErrConflict) (record_audit cx who act (ad_id m) ''conflict'' d1)
          | Inl e \<Rightarrow>
              if e \<noteq> ErrNotFound then denied (FromStore e) d1
              else begin_transaction sv cx ''bind'' i ret random1 random2 random3 d1)"

text \<open>A callback comes with the transaction it answers and the identity the provider asserted, when there is one.\<close>

definition complete_login_with ::
    "external_row result \<Rightarrow> auth_method \<Rightarrow> string \<Rightarrow> service \<Rightarrow> call_context \<Rightarrow> oidc_transaction option \<Rightarrow> oidc_identity option \<Rightarrow>
     bytes \<Rightarrow> bytes \<Rightarrow> core_db \<Rightarrow> session_out answer" where
  "complete_login_with bound auth result sv cx transaction identity random1 random2 d =
     (let refused = denied InvalidCredentials (record_audit cx ''authentication'' ''auth.login'' [] ''denied'' d) in
      case (transaction, identity) of
        (Some t, Some x) \<Rightarrow>
          if tx_purpose t \<noteq> ''login'' then refused
          else (case bound of
              Inl _ \<Rightarrow> refused
            | Inr b \<Rightarrow>
                if xb_issuer b \<noteq> oi_issuer x \<or> xb_subject b \<noteq> oi_subject x then refused
                else (case member_by_id (xb_admin b) d of
                    Inl _ \<Rightarrow> refused
                  | Inr m \<Rightarrow>
                      if ad_status m \<noteq> MemberActive then refused
                      else (case issue_session sv cx random1 random2 m auth d of
                          (Inl e, d1) \<Rightarrow> (Inl e, d1)
                        | (Inr s, d1) \<Rightarrow>
                            (Inr s, record_audit cx (''member:'' @ ad_username m) ''auth.login'' (ad_id m) result d1))))
      | _ \<Rightarrow> refused)"

definition complete_binding_with ::
    "(uuid \<Rightarrow> string \<Rightarrow> string \<Rightarrow> string \<Rightarrow> string \<Rightarrow> audit_event \<Rightarrow> time \<Rightarrow> core_db \<Rightarrow> core_db result) \<Rightarrow> string \<Rightarrow> call_context \<Rightarrow>
     oidc_transaction option \<Rightarrow> oidc_identity option \<Rightarrow> string \<Rightarrow> core_db \<Rightarrow> unit answer" where
  "complete_binding_with bind_op act cx transaction identity session d =
     (let refused = denied InvalidCredentials (record_audit cx ''authentication'' act [] ''denied'' d) in
      case (transaction, identity) of
        (Some t, Some x) \<Rightarrow>
          if tx_purpose t \<noteq> ''bind'' \<or> tx_member t = [] then refused
          else
            let nobody = denied InvalidCredentials
              (record_audit cx (''administrator:'' @ tx_member t) act (tx_member t) ''denied'' d) in
            (case member_by_id (tx_member t) d of
              Inl _ \<Rightarrow> nobody
            | Inr m \<Rightarrow>
                if ad_status m \<noteq> MemberActive then nobody
                else with_store d (bind_op (tx_member t) (oi_issuer x) (oi_subject x) (oi_display x) session
                    (audit_event_of cx (''administrator:'' @ ad_username m) act (ad_id m) ''ok'') (cx_db cx) d)
                  (\<lambda>d1. (Inr (), d1)))
      | _ \<Rightarrow> refused)"

definition unbind_with ::
    "(core_db \<Rightarrow> external_row result) \<Rightarrow> bool \<Rightarrow> (core_db \<Rightarrow> external_row result) \<Rightarrow>
     (uuid \<Rightarrow> string \<Rightarrow> audit_event \<Rightarrow> time \<Rightarrow> core_db \<Rightarrow> core_db result) \<Rightarrow> string \<Rightarrow> service \<Rightarrow> call_context \<Rightarrow> uuid \<Rightarrow>
     string \<Rightarrow> string \<Rightarrow> string \<Rightarrow> core_db \<Rightarrow> unit answer" where
  "unbind_with bound other_ready other unbind_op act sv cx i session password totp d =
     (case member_by_id i d of
        Inl _ \<Rightarrow> denied InvalidCredentials (record_audit cx (''administrator:'' @ i) act i ''denied'' d)
      | Inr m \<Rightarrow>
          let who = ''administrator:'' @ ad_username m; (ok, d1) = proof_of sv cx password totp [] False m d;
              refused = record_audit cx who act (ad_id m) ''denied'' d1 in
          if \<not> ok then denied InvalidCredentials refused
          else case bound d1 of
            Inl _ \<Rightarrow> denied (FromStore ErrNotFound) refused
          | Inr _ \<Rightarrow> (case reject_last_external_unbind other_ready (other d1) d1 of
                Inl e \<Rightarrow> denied e refused
              | Inr _ \<Rightarrow> with_store d1 (unbind_op i session (audit_event_of cx who act (ad_id m) ''ok'') (cx_db cx) d1)
                  (\<lambda>d2. (Inr (), d2))))"

definition start_oidc_login where
  "start_oidc_login sv cx ret random1 random2 random3 d =
     start_login_with (external_identity_binding d) sv cx ret random1 random2 random3 d"

definition start_oauth_login where
  "start_oauth_login sv cx ret random1 random2 random3 d =
     start_login_with (oauth_identity_binding d) sv cx ret random1 random2 random3 d"

definition start_oidc_binding where
  "start_oidc_binding = start_binding_with external_identity_binding ''administrator.oidc_bound''"

definition start_oauth_binding where
  "start_oauth_binding = start_binding_with oauth_identity_binding ''administrator.oauth_bound''"

definition complete_oidc_login where
  "complete_oidc_login sv cx transaction identity random1 random2 d =
     complete_login_with (external_identity_binding d) AuthOidc ''oidc'' sv cx transaction identity random1 random2 d"

definition complete_oauth_login where
  "complete_oauth_login sv cx transaction identity random1 random2 d =
     complete_login_with (oauth_identity_binding d) AuthOAuth ''oauth'' sv cx transaction identity random1 random2 d"

definition complete_oidc_binding where
  "complete_oidc_binding = complete_binding_with bind_external_identity ''administrator.oidc_bound''"

definition complete_oauth_binding where
  "complete_oauth_binding = complete_binding_with bind_oauth_identity ''administrator.oauth_bound''"

definition unbind_oidc where
  "unbind_oidc sv = unbind_with external_identity_binding (sv_oauth_ready sv) oauth_identity_binding unbind_external_identity
     ''administrator.oidc_unbound'' sv"

definition unbind_oauth where
  "unbind_oauth sv = unbind_with oauth_identity_binding (sv_oidc_ready sv) external_identity_binding unbind_oauth_identity
     ''administrator.oauth_unbound'' sv"

definition audit_external_callback_denied :: "call_context \<Rightarrow> string \<Rightarrow> uuid \<Rightarrow> string \<Rightarrow> core_db \<Rightarrow> core_db" where
  "audit_external_callback_denied cx purpose i act d =
     (if purpose = ''bind'' then record_audit cx (''administrator:'' @ i) act i ''denied'' d
      else record_audit cx ''authentication'' ''auth.login'' i ''denied'' d)"

definition audit_oidc_callback_denied where
  "audit_oidc_callback_denied cx purpose i d = audit_external_callback_denied cx purpose i ''administrator.oidc_bound'' d"

definition audit_oauth_callback_denied where
  "audit_oauth_callback_denied cx purpose i d = audit_external_callback_denied cx purpose i ''administrator.oauth_bound'' d"

end
