(* ===== verification/ServiceRefinement.thy ===== *)
theory ServiceRefinement
  imports IdentityService Credentials
begin

text \<open>
  The identity service refines the identity store: whatever a use case answers, the database after it is reached from the one
  before it by steps of the store. So the invariant and the single-use properties of the store hold of every
  history of use cases. The use cases that can close a login are the three that write the password policy or remove a
  binding; all others are made of steps that keep every login open (\<open>keep_step\<close>).
\<close>

section \<open>Steps that close no login\<close>

definition keeps :: "core_db \<Rightarrow> core_db \<Rightarrow> bool" where
  "keeps d d' \<longleftrightarrow> (\<forall>g \<in> set (t_org d'). og_password g \<or> (\<exists>h \<in> set (t_org d). \<not> og_password h)) \<and>
     (length (t_org d) \<le> 1 \<longrightarrow> length (t_org d') \<le> 1) \<and> (t_external d \<noteq> [] \<longrightarrow> t_external d' \<noteq> []) \<and> (t_oauth d \<noteq> [] \<longrightarrow> t_oauth d' \<noteq> [])"

definition keep_step :: "core_db \<Rightarrow> core_db \<Rightarrow> bool" where
  "keep_step d d' \<longleftrightarrow> identity_step d d' \<and> keeps d d'"

lemma keeps_same: "t_org d' = t_org d \<Longrightarrow> t_external d' = t_external d \<Longrightarrow> t_oauth d' = t_oauth d \<Longrightarrow> keeps d d'"
  by (auto simp: keeps_def)

lemma revoke_logins [simp]:
  "t_org (delete_other_member_sessions_q i h d) = t_org d" "t_external (delete_other_member_sessions_q i h d) = t_external d"
  "t_oauth (delete_other_member_sessions_q i h d) = t_oauth d" "t_org (delete_member_sessions_q i d) = t_org d"
  "t_external (delete_member_sessions_q i d) = t_external d" "t_oauth (delete_member_sessions_q i d) = t_oauth d"
  "t_org (delete_member_step_up_grants_q i d) = t_org d" "t_external (delete_member_step_up_grants_q i d) = t_external d"
  "t_oauth (delete_member_step_up_grants_q i d) = t_oauth d"
  by (simp_all add: delete_other_member_sessions_q_def delete_member_sessions_q_def delete_member_step_up_grants_q_def
      drop_sessions_def Let_def)

lemma insert_recovery_codes_logins:
  "insert_recovery_codes i hs d = Inr d' \<Longrightarrow> t_org d' = t_org d \<and> t_external d' = t_external d \<and> t_oauth d' = t_oauth d"
proof (induction i hs d rule: insert_recovery_codes.induct)
  case (2 i h hs d)
  then show ?case by (fastforce simp: insert_recovery_code_q_def split: if_splits)
qed simp

lemma keep_bootstrap: "bootstrap_administrator code org i u p now e ts d = Inr d' \<Longrightarrow> keeps d d'"
  by (erule bootstrap_Inr) (simp add: keeps_def consume_bootstrap_code_q_def Let_def)

lemma keep_verify: "complete_mfa_enrollment token conf hashes now e ts d = Inr d' \<Longrightarrow> keeps d d'"
  by (auto simp: complete_mfa_enrollment_def mark_mfa_verified_q_def split: if_splits dest!: insert_recovery_codes_logins
      intro!: keeps_same)

lemma keep_confirm: "confirm_mfa_enrollment conf session now e ts d = Inr (m, d') \<Longrightarrow> keeps d d'"
  by (auto simp: confirm_mfa_enrollment_def Let_def keeps_def enable_totp_login_policy_q_def mark_mfa_confirmed_q_def set_upd_split)

lemma keep_bind:
  "bind_external_identity i issuer subject display session e ts d = Inr d' \<Longrightarrow> keeps d d'"
  "bind_oauth_identity i issuer subject display session e ts d = Inr d' \<Longrightarrow> keeps d d'"
  by (auto simp: bind_external_identity_def insert_external_identity_binding_q_def bind_oauth_identity_def
      insert_oauth_identity_binding_q_def keeps_def split: if_splits)

lemma keep_disable: "disable_totp i session e ts d = Inr d' \<Longrightarrow> keeps d d'"
  by (auto simp: disable_totp_def delete_recovery_codes_q_def delete_mfa_enrollments_q_def disable_totp_login_policy_q_def
      keeps_def set_upd_split)

lemma keep_simple:
  "save_bootstrap_code h expires d = Inr d' \<Longrightarrow> keeps d d'"
  "create_enrollment_for_member i token w n c expires d = Inr d' \<Longrightarrow> keeps d d'"
  "consume_recovery_code i h now d = (b, d') \<Longrightarrow> keeps d d'"
  "use_totp i counter d = (b, d') \<Longrightarrow> keeps d d'"
  "upsert_step_up_grant h granted expires d = Inr d' \<Longrightarrow> keeps d d'"
  "create_login_challenge token i source expires now d = Inr d' \<Longrightarrow> keeps d d'"
  "consume_login_challenge token source now d = Inr (i, d') \<Longrightarrow> keeps d d'"
  "create_oidc_transaction state purpose i nonce verifier ret expires d = Inr d' \<Longrightarrow> keeps d d'"
  "consume_oidc_transaction state now d = Inr (t, d') \<Longrightarrow> keeps d d'"
  "create_bounded_session h i csrf expires idle m ts d = Inr d' \<Longrightarrow> keeps d d'"
  "change_password i p e ts d = Inr d' \<Longrightarrow> keeps d d'"
  "change_username i u e ts d = Inr d' \<Longrightarrow> keeps d d'"
  by (rule keeps_same; force simp: identity_op_defs Let_def split: if_splits)+

lemma keep_always: "keeps d (delete_session h d)" "keeps d (touch_session_activity h now idle d)" "keeps d (append_audit e ts d)"
  by (rule keeps_same; simp add: delete_session_def delete_session_q_def drop_sessions_def Let_def touch_session_activity_def
      touch_session_activity_q_def append_audit_def insert_audit_event_q_def)+

lemma keep_stepI: "keeps d d' \<Longrightarrow> identity_step d d' \<Longrightarrow> keep_step d d'"
  by (simp add: keep_step_def)

section \<open>Where a login returns to\<close>

text \<open>The locations external logins return to are those of the transactions before, or satisfy \<open>R\<close>.\<close>

definition returns_from :: "(string \<Rightarrow> bool) \<Rightarrow> core_db \<Rightarrow> core_db \<Rightarrow> bool" where
  "returns_from R d d' \<longleftrightarrow> ot_return ` set (t_transactions d') \<subseteq> ot_return ` set (t_transactions d) \<union> Collect R"

lemma returns_same: "t_transactions d' = t_transactions d \<Longrightarrow> returns_from R d d'"
  by (auto simp: returns_from_def)

lemma returns_any [simp]: "returns_from (\<lambda>s. True) d d'"
  by (simp add: returns_from_def)

lemma revoke_transactions [simp]:
  "t_transactions (delete_other_member_sessions_q i h d) = t_transactions d"
  "t_transactions (delete_member_sessions_q i d) = t_transactions d"
  "t_transactions (delete_member_step_up_grants_q i d) = t_transactions d"
  by (simp_all add: delete_other_member_sessions_q_def delete_member_sessions_q_def delete_member_step_up_grants_q_def
      drop_sessions_def Let_def)

lemma insert_recovery_codes_transactions: "insert_recovery_codes i hs d = Inr d' \<Longrightarrow> t_transactions d' = t_transactions d"
proof (induction i hs d rule: insert_recovery_codes.induct)
  case (2 i h hs d)
  then show ?case by (fastforce simp: insert_recovery_code_q_def split: if_splits)
qed simp

lemma returns_bootstrap: "bootstrap_administrator code org i u p now e ts d = Inr d' \<Longrightarrow> returns_from R d d'"
  by (erule bootstrap_Inr) (simp add: returns_from_def consume_bootstrap_code_q_def Let_def)

lemma returns_verify: "complete_mfa_enrollment token conf hashes now e ts d = Inr d' \<Longrightarrow> returns_from R d d'"
  by (auto simp: complete_mfa_enrollment_def mark_mfa_verified_q_def split: if_splits dest!: insert_recovery_codes_transactions
      intro!: returns_same)

lemma returns_begin:
  "create_oidc_transaction state purpose i nonce verifier ret expires d = Inr d' \<Longrightarrow> R ret \<Longrightarrow> returns_from R d d'"
  by (auto simp: create_oidc_transaction_def insert_oidc_transaction_q_def returns_from_def split: if_splits)

lemma returns_finish: "consume_oidc_transaction state now d = Inr (t, d') \<Longrightarrow> returns_from R d d'"
  by (auto simp: consume_oidc_transaction_def consume_oidc_transaction_q_def Let_def returns_from_def set_upd_split)

lemma returns_simple:
  "save_bootstrap_code h expires d = Inr d' \<Longrightarrow> returns_from R d d'"
  "create_enrollment_for_member i token w n c expires d = Inr d' \<Longrightarrow> returns_from R d d'"
  "confirm_mfa_enrollment conf session now e ts d = Inr (m, d') \<Longrightarrow> returns_from R d d'"
  "consume_recovery_code i h now d = (b, d') \<Longrightarrow> returns_from R d d'"
  "use_totp i counter d = (b, d') \<Longrightarrow> returns_from R d d'"
  "disable_totp i session e ts d = Inr d' \<Longrightarrow> returns_from R d d'"
  "upsert_step_up_grant h granted expires d = Inr d' \<Longrightarrow> returns_from R d d'"
  "create_login_challenge token i source expires now d = Inr d' \<Longrightarrow> returns_from R d d'"
  "consume_login_challenge token source now d = Inr (j, d') \<Longrightarrow> returns_from R d d'"
  "bind_external_identity i issuer subject display session e ts d = Inr d' \<Longrightarrow> returns_from R d d'"
  "bind_oauth_identity i issuer subject display session e ts d = Inr d' \<Longrightarrow> returns_from R d d'"
  "create_bounded_session h i csrf expires idle k ts d = Inr d' \<Longrightarrow> returns_from R d d'"
  "change_password i p e ts d = Inr d' \<Longrightarrow> returns_from R d d'"
  "change_username i u e ts d = Inr d' \<Longrightarrow> returns_from R d d'"
  "set_password_login_enabled i session q e ts d = Inr d' \<Longrightarrow> returns_from R d d'"
  "unbind_external_identity i session e ts d = Inr d' \<Longrightarrow> returns_from R d d'"
  "unbind_oauth_identity i session e ts d = Inr d' \<Longrightarrow> returns_from R d d'"
  by (rule returns_same; force simp: identity_op_defs enable_totp_login_policy_q_def disable_totp_login_policy_q_def
      set_password_login_enabled_q_def Let_def split: if_splits)+

lemma returns_always:
  "returns_from R d (delete_session h d)" "returns_from R d (touch_session_activity h now idle d)"
  "returns_from R d (append_audit e ts d)"
  by (rule returns_same; simp add: delete_session_def delete_session_q_def drop_sessions_def Let_def touch_session_activity_def
      touch_session_activity_q_def append_audit_def insert_audit_event_q_def)+

text \<open>The steps of the store that close no login, as rules.\<close>

definition keep_within :: "(string \<Rightarrow> bool) \<Rightarrow> core_db \<Rightarrow> core_db \<Rightarrow> bool" where
  "keep_within R d d' \<longleftrightarrow> keep_step d d' \<and> returns_from R d d'"

lemma keep_withinI: "keeps d d' \<Longrightarrow> identity_step d d' \<Longrightarrow> returns_from R d d' \<Longrightarrow> keep_within R d d'"
  by (simp add: keep_within_def keep_stepI)

lemma keep_steps:
  "save_bootstrap_code h expires d = Inr d' \<Longrightarrow> keep_within R d d'"
  "bootstrap_administrator code org i u p now e ts d = Inr d' \<Longrightarrow> keep_within R d d'"
  "create_enrollment_for_member i token w n c expires d = Inr d' \<Longrightarrow> keep_within R d d'"
  "complete_mfa_enrollment token conf hashes now e ts d = Inr d' \<Longrightarrow> keep_within R d d'"
  "confirm_mfa_enrollment conf session now e ts d = Inr (m, d') \<Longrightarrow> keep_within R d d'"
  "consume_recovery_code i h now d = (b, d') \<Longrightarrow> keep_within R d d'"
  "use_totp i counter d = (b, d') \<Longrightarrow> keep_within R d d'"
  "disable_totp i session e ts d = Inr d' \<Longrightarrow> keep_within R d d'"
  "upsert_step_up_grant h granted expires d = Inr d' \<Longrightarrow> keep_within R d d'"
  "create_login_challenge token i source expires now d = Inr d' \<Longrightarrow> keep_within R d d'"
  "consume_login_challenge token source now d = Inr (j, d') \<Longrightarrow> keep_within R d d'"
  "consume_oidc_transaction state now d = Inr (t, d') \<Longrightarrow> keep_within R d d'"
  "bind_external_identity i issuer subject display session e ts d = Inr d' \<Longrightarrow> keep_within R d d'"
  "bind_oauth_identity i issuer subject display session e ts d = Inr d' \<Longrightarrow> keep_within R d d'"
  "change_password i p e ts d = Inr d' \<Longrightarrow> keep_within R d d'"
  "change_username i u e ts d = Inr d' \<Longrightarrow> keep_within R d d'"
  "create_oidc_transaction state purpose i nonce verifier ret expires d = Inr d' \<Longrightarrow> R ret \<Longrightarrow> keep_within R d d'"
  by (rule keep_withinI; (rule keep_simple keep_bootstrap keep_verify keep_confirm keep_disable keep_bind identity_step.intros
      returns_simple returns_bootstrap returns_verify returns_begin returns_finish; assumption))+

section \<open>Answers reached by steps\<close>

definition reaches :: "(core_db \<Rightarrow> core_db \<Rightarrow> bool) \<Rightarrow> core_db \<Rightarrow> core_db \<Rightarrow> bool" where
  "reaches S d d' \<longleftrightarrow> S\<^sup>*\<^sup>* d d'"

definition good :: "(core_db \<Rightarrow> core_db \<Rightarrow> bool) \<Rightarrow> core_db \<Rightarrow> 'a answer \<Rightarrow> bool" where
  "good S d a \<longleftrightarrow> reaches S d (snd a)"

lemma reaches_refl [simp]: "reaches S d d"
  by (simp add: reaches_def)

lemma reaches_step: "S d1 d2 \<Longrightarrow> reaches S d d1 \<Longrightarrow> reaches S d d2"
  unfolding reaches_def by (rule rtranclp.rtrancl_into_rtrancl)

named_theorems good_intros \<open>the answers of a use case, branch by branch\<close>

lemma good_pair [good_intros]: "reaches S d d' \<Longrightarrow> good S d (r, d')"
  by (simp add: good_def)

lemma good_denied [good_intros]: "reaches S d d' \<Longrightarrow> good S d (denied e d')"
  by (simp add: good_def denied_def)

lemma good_store [good_intros]:
  "reaches S d d1 \<Longrightarrow> (\<And>x. m = Inr x \<Longrightarrow> good S d (f x)) \<Longrightarrow> good S d (with_store d1 m f)"
  by (cases m) (simp_all add: with_store_def good_def)

lemma good_if [good_intros]: "(b \<Longrightarrow> good S d x) \<Longrightarrow> (\<not> b \<Longrightarrow> good S d y) \<Longrightarrow> good S d (if b then x else y)"
  by simp

lemma good_sum [good_intros]:
  "(\<And>e. m = Inl e \<Longrightarrow> good S d (f e)) \<Longrightarrow> (\<And>x. m = Inr x \<Longrightarrow> good S d (g x)) \<Longrightarrow> good S d (case m of Inl e \<Rightarrow> f e | Inr x \<Rightarrow> g x)"
  by (cases m) simp_all

lemma good_option [good_intros]:
  "(m = None \<Longrightarrow> good S d f) \<Longrightarrow> (\<And>x. m = Some x \<Longrightarrow> good S d (g x)) \<Longrightarrow> good S d (case m of None \<Rightarrow> f | Some x \<Rightarrow> g x)"
  by (cases m) simp_all

lemma good_prod [good_intros]: "(\<And>x y. m = (x, y) \<Longrightarrow> good S d (f x y)) \<Longrightarrow> good S d (case m of (x, y) \<Rightarrow> f x y)"
  by (cases m) simp

text \<open>
  The contract of the use cases: \<open>S\<close> is any relation that has the steps that close no login, when the logins they begin return
  to a location in \<open>R\<close>. The use cases that can close a login need the other steps of the store too.
\<close>

locale keeping_steps =
  fixes S :: "core_db \<Rightarrow> core_db \<Rightarrow> bool" and R :: "string \<Rightarrow> bool"
  assumes keep_S: "keep_within R d d' \<Longrightarrow> S d d'"
begin

lemmas reach_keep = keep_steps [THEN keep_S, THEN reaches_step]
lemmas reach_recovery = reach_keep(6) and reach_totp = reach_keep(7)

lemma reaches_always [good_intros]:
  "reaches S d d1 \<Longrightarrow> reaches S d (delete_session h d1)" "reaches S d d1 \<Longrightarrow> reaches S d (touch_session_activity h now idle d1)"
  "reaches S d d1 \<Longrightarrow> reaches S d (record_audit cx actor action resource result d1)"
  unfolding record_audit_def
  by (rule reaches_step; (assumption | rule keep_S keep_withinI keep_always returns_always identity_step.intros)+)+

lemma reach_open:
  "create_bounded_session h i csrf expires idle m ts d1 = Inr d2 \<Longrightarrow> idle \<le> expires \<Longrightarrow> reaches S d d1 \<Longrightarrow> reaches S d d2"
  by (rule reaches_step, rule keep_S, rule keep_withinI, erule keep_simple, erule (1) identity_step.OpenSession, erule returns_simple)

lemma issue_session_reaches:
  "issue_session sv cx r1 r2 m auth d1 = (r, d2) \<Longrightarrow> reaches S d d1 \<Longrightarrow> reaches S d d2"
  by (auto simp: issue_session_def Let_def with_store_def session_absolute_ttl_def session_idle_ttl_def split: sum.splits
      elim: reach_open)

lemma issue_session_good [good_intros]: "reaches S d d1 \<Longrightarrow> good S d (issue_session sv cx r1 r2 m auth d1)"
  unfolding good_def by (cases "issue_session sv cx r1 r2 m auth d1") (simp add: issue_session_reaches)

lemma second_factor_reaches:
  "verify_second_factor sv cx m totp recovery d1 = (ok, d2) \<Longrightarrow> reaches S d d1 \<Longrightarrow> reaches S d d2"
  by (auto simp: verify_second_factor_def split: if_splits sum.splits option.splits elim: reach_recovery reach_totp)

lemma policy_proof_reaches:
  "policy_proof_valid sv cx m totp recovery allow d1 = (ok, d2) \<Longrightarrow> reaches S d d1 \<Longrightarrow> reaches S d d2"
  by (auto simp: policy_proof_valid_def split: if_splits sum.splits elim: second_factor_reaches)

lemma proof_reaches:
  "proof_of sv cx password totp recovery allow m d1 = (ok, d2) \<Longrightarrow> reaches S d d1 \<Longrightarrow> reaches S d d2"
  by (auto simp: proof_of_def split: if_splits elim: policy_proof_reaches)

lemma factor_if_reaches:
  "(if b then (False, d1) else verify_second_factor sv cx m totp recovery d1) = (ok, d2) \<Longrightarrow> reaches S d d1 \<Longrightarrow> reaches S d d2"
  by (auto split: if_splits elim: second_factor_reaches)

text \<open>What a use case finds in the database before it writes, and what it writes.\<close>

lemmas reach_elims = reach_keep issue_session_reaches proof_reaches factor_if_reaches

text \<open>The use cases.\<close>

lemma bootstrap_good: "good S d (bootstrap sv cx code org u p salt i r1 r2 d)"
  unfolding bootstrap_def Let_def
  by (intro good_intros; hypsubst?; (rule reaches_refl reaches_always | assumption | erule reach_elims)+)+

lemma start_totp_good: "good S d (start_totp_enrollment sv cx i p r1 k n1 n2 r2 d)"
  unfolding start_totp_enrollment_def Let_def
  by (intro good_intros; hypsubst?; (rule reaches_refl reaches_always | assumption | erule reach_elims)+)+

lemma verify_mfa_good: "good S d (verify_mfa_enrollment sv cx token totp rs r d)"
  unfolding verify_mfa_enrollment_def Let_def
  by (intro good_intros; hypsubst?; (rule reaches_refl reaches_always | assumption | erule reach_elims)+)+

lemma confirm_good: "good S d (confirm_enrollment sv cx i session conf d)"
  unfolding confirm_enrollment_def
  by (intro good_intros; hypsubst?; (rule reaches_refl reaches_always | assumption | erule reach_elims)+)+

lemma login_good: "good S d (login sv cx u p source r1 r2 d)"
  unfolding login_def Let_def
  by (intro good_intros; hypsubst?; (rule reaches_refl reaches_always | assumption | erule reach_elims)+)+

lemma complete_login_good: "good S d (complete_login sv cx ch source totp recovery r1 r2 d)"
  unfolding complete_login_def Let_def
  by (intro good_intros; hypsubst?; (rule reaches_refl reaches_always | assumption | erule reach_elims)+)+

lemma renew_good: "good S d (renew_session sv cx old i p totp recovery r1 r2 d)"
  unfolding renew_session_def Let_def
  by (intro good_intros; hypsubst?; (rule reaches_refl reaches_always | assumption | erule reach_elims)+)+

lemma step_up_good: "good S d (step_up sv cx session i p totp recovery d)"
  unfolding step_up_def Let_def
  by (intro good_intros; hypsubst?; (rule reaches_refl reaches_always | assumption | erule reach_elims)+)+

lemma change_password_good: "good S d (change_own_password sv cx i current new totp salt r1 r2 d)"
  unfolding change_own_password_def Let_def
  by (intro good_intros; hypsubst?; (rule reaches_refl reaches_always | assumption | erule reach_elims)+)+

lemma change_username_good: "good S d (change_own_username sv cx i u current totp r1 r2 d)"
  unfolding change_own_username_def Let_def
  by (intro good_intros; hypsubst?; (rule reaches_refl reaches_always | assumption | erule reach_elims)+)+

lemma disable_good: "good S d (disable_own_totp sv cx i session p totp d)"
  unfolding disable_own_totp_def Let_def
  by (intro good_intros; hypsubst?; (rule reaches_refl reaches_always | assumption | erule reach_elims)+)+

lemma finish_good: "good S d (finish_transaction sv cx state d)"
  unfolding finish_transaction_def Let_def
  by (intro good_intros; hypsubst?; (rule reaches_refl reaches_always | assumption | erule reach_elims)+)+

lemma begin_good [good_intros]: "reaches S d d1 \<Longrightarrow> R ret \<Longrightarrow> good S d (begin_transaction sv cx purpose i ret r1 r2 r3 d1)"
  unfolding begin_transaction_def Let_def
  by (intro good_intros) (assumption | erule reach_elims)+

lemma start_login_good:
  "R ret \<Longrightarrow> good S d (start_oidc_login sv cx ret r1 r2 r3 d)" "R ret \<Longrightarrow> good S d (start_oauth_login sv cx ret r1 r2 r3 d)"
  unfolding start_oidc_login_def start_oauth_login_def start_login_with_def
  by (intro good_intros; (rule reaches_refl reaches_always | assumption)+)+

lemma start_binding_good:
  "R ret \<Longrightarrow> good S d (start_oidc_binding sv cx i p totp ret r1 r2 r3 d)"
  "R ret \<Longrightarrow> good S d (start_oauth_binding sv cx i p totp ret r1 r2 r3 d)"
  unfolding start_oidc_binding_def start_oauth_binding_def start_binding_with_def Let_def
  by (intro good_intros; hypsubst?; (rule reaches_refl reaches_always | assumption | erule reach_elims)+)+

lemma complete_external_login_good:
  "good S d (complete_oidc_login sv cx t x r1 r2 d)" "good S d (complete_oauth_login sv cx t x r1 r2 d)"
  unfolding complete_oidc_login_def complete_oauth_login_def complete_login_with_def Let_def
  by (intro good_intros; hypsubst?; (rule reaches_refl reaches_always | assumption | erule reach_elims)+)+

lemma complete_external_binding_good:
  "good S d (complete_oidc_binding cx t x session d)" "good S d (complete_oauth_binding cx t x session d)"
  unfolding complete_oidc_binding_def complete_oauth_binding_def complete_binding_with_def Let_def
  by (intro good_intros; hypsubst?; (rule reaches_refl reaches_always | assumption | erule reach_elims)+)+

lemma callback_denied_reaches:
  "reaches S d (audit_oidc_callback_denied cx purpose i d)" "reaches S d (audit_oauth_callback_denied cx purpose i d)"
  by (simp_all add: audit_oidc_callback_denied_def audit_oauth_callback_denied_def audit_external_callback_denied_def
      reaches_always)

lemmas use_cases = bootstrap_good start_totp_good verify_mfa_good confirm_good login_good complete_login_good renew_good
  step_up_good change_password_good change_username_good disable_good start_login_good start_binding_good
  finish_good complete_external_login_good complete_external_binding_good

lemma logout_reaches: "reaches S d (logout cx session i u d)"
  by (simp add: logout_def reaches_always)

end

locale all_steps = keeping_steps +
  assumes all_S: "identity_step d d' \<Longrightarrow> returns_from R d d' \<Longrightarrow> S d d'"
begin

lemma reach_all:
  "set_password_login_enabled i session b e ts d1 = Inr d2 \<Longrightarrow> reaches S d d1 \<Longrightarrow> reaches S d d2"
  "unbind_external_identity i session e ts d1 = Inr d2 \<Longrightarrow> reaches S d d1 \<Longrightarrow> reaches S d d2"
  "unbind_oauth_identity i session e ts d1 = Inr d2 \<Longrightarrow> reaches S d d1 \<Longrightarrow> reaches S d d2"
  by (rule reaches_step, rule all_S; (assumption | rule identity_step.PasswordPolicy identity_step.UnbindOidc
      identity_step.UnbindOAuth returns_simple; assumption))+

lemma set_password_good: "good S d (set_password_login sv cx i session p totp enabled d)"
  unfolding set_password_login_def Let_def
  by (intro good_intros; hypsubst?; (rule reaches_refl reaches_always | assumption | erule reach_elims reach_all)+)+

lemma unbind_good: "good S d (unbind_oidc sv cx i session p totp d)" "good S d (unbind_oauth sv cx i session p totp d)"
  unfolding unbind_oidc_def unbind_oauth_def unbind_with_def Let_def
  by (intro good_intros; hypsubst?; (rule reaches_refl reaches_always | assumption | erule reach_elims reach_all)+)+

end

interpretation keep: keeping_steps keep_step "\<lambda>s. True"
  by unfold_locales (simp add: keep_within_def)

interpretation store: all_steps identity_step "\<lambda>s. True"
  by unfold_locales (simp_all add: keep_within_def keep_step_def)

section \<open>The service as a system\<close>

inductive service_step :: "service \<Rightarrow> core_db \<Rightarrow> core_db \<Rightarrow> bool" for sv where
  Bootstrapping: "service_step sv d (snd (bootstrap sv cx code org u p salt i r1 r2 d))"
| StartTotp: "service_step sv d (snd (start_totp_enrollment sv cx i p r1 k n1 n2 r2 d))"
| VerifyTotp: "service_step sv d (snd (verify_mfa_enrollment sv cx token totp rs r d))"
| ConfirmTotp: "service_step sv d (snd (confirm_enrollment sv cx i session conf d))"
| Login: "service_step sv d (snd (login sv cx u p source r1 r2 d))"
| CompleteLogin: "service_step sv d (snd (complete_login sv cx ch source totp recovery r1 r2 d))"
| Renew: "service_step sv d (snd (renew_session sv cx old i p totp recovery r1 r2 d))"
| SteppingUp: "service_step sv d (snd (step_up sv cx session i p totp recovery d))"
| ChangePassword: "service_step sv d (snd (change_own_password sv cx i current new totp salt r1 r2 d))"
| ChangeUsername: "service_step sv d (snd (change_own_username sv cx i u current totp r1 r2 d))"
| DisablingTotp: "service_step sv d (snd (disable_own_totp sv cx i session p totp d))"
| SetPasswordLogin: "service_step sv d (snd (set_password_login sv cx i session p totp enabled d))"
| StartOidc: "service_step sv d (snd (start_oidc_login sv cx ret r1 r2 r3 d))"
| StartOAuth: "service_step sv d (snd (start_oauth_login sv cx ret r1 r2 r3 d))"
| StartOidcBinding: "service_step sv d (snd (start_oidc_binding sv cx i p totp ret r1 r2 r3 d))"
| StartOAuthBinding: "service_step sv d (snd (start_oauth_binding sv cx i p totp ret r1 r2 r3 d))"
| FinishTransaction: "service_step sv d (snd (finish_transaction sv cx state d))"
| OidcLogin: "service_step sv d (snd (complete_oidc_login sv cx t x r1 r2 d))"
| OAuthLogin: "service_step sv d (snd (complete_oauth_login sv cx t x r1 r2 d))"
| OidcBinding: "service_step sv d (snd (complete_oidc_binding cx t x session d))"
| OAuthBinding: "service_step sv d (snd (complete_oauth_binding cx t x session d))"
| UnbindOidc: "service_step sv d (snd (unbind_oidc sv cx i session p totp d))"
| UnbindOAuth: "service_step sv d (snd (unbind_oauth sv cx i session p totp d))"
| Logout: "service_step sv d (logout cx session i u d)"
| OidcDenied: "service_step sv d (audit_oidc_callback_denied cx purpose i d)"
| OAuthDenied: "service_step sv d (audit_oauth_callback_denied cx purpose i d)"
| Touch: "service_step sv d (touch_session_activity h now idle d)"
| SaveBootstrapCode: "save_bootstrap_code h expires d = Inr d' \<Longrightarrow> service_step sv d d'"

lemma service_step_reaches: "service_step sv d d' \<Longrightarrow> identity_step\<^sup>*\<^sup>* d d'"
  unfolding reaches_def [symmetric]
proof (induction rule: service_step.induct)
  case Touch
  then show ?case by (rule store.reaches_always) simp
next
  case SaveBootstrapCode
  then show ?case by (rule store.reach_keep) simp
qed (simp_all add: store.use_cases [unfolded good_def] store.set_password_good [unfolded good_def]
    store.unbind_good [unfolded good_def] store.logout_reaches store.callback_denied_reaches)

lemma service_steps_reach: "(service_step sv)\<^sup>*\<^sup>* d d' \<Longrightarrow> identity_step\<^sup>*\<^sup>* d d'"
  by (induction rule: rtranclp_induct) (auto dest: service_step_reaches)

end
