(* ===== verification/CryptoProperties.thy ===== *)
theory CryptoProperties
  imports CryptoCore
begin

unbundle bit_operations_syntax

text \<open>The properties of the cryptographic routines, for any primitives with the documented behaviour.\<close>

section \<open>Envelope encryption\<close>

lemma aead_open: "aead gs go \<Longrightarrow> aes_key k \<Longrightarrow> length n = nonce_size \<Longrightarrow> go k n c = Some v \<longleftrightarrow> c = gs k n v"
  by (simp add: aead_def)

lemma open_sealed_Inr:
  assumes "open_sealed go m w ns c = Inr v"
  obtains k where "aes_key m" "nonce_size \<le> length ns" "go m (take nonce_size ns) w = Some k" "aes_key k"
    "length (drop nonce_size ns) = nonce_size" "go k (drop nonce_size ns) c = Some v"
  using assms by (auto simp: open_sealed_def split: if_splits option.splits)

text \<open>C25: for an AEAD that opens exactly what it sealed, opening gives a value exactly when the three stored parts are what
  sealing that value makes, under some data key and two nonces of twelve bytes: what was sealed is read back, and
  nothing that was not sealed under the master key is.\<close>

theorem open_exactly_sealed:
  assumes "aead gs go" "aes_key m"
  shows "open_sealed go m w ns c = Inr v \<longleftrightarrow>
    (\<exists>k n1 n2. aes_key k \<and> length n1 = nonce_size \<and> length n2 = nonce_size \<and>
       seal gs m k n1 n2 v = Inr \<lparr>sl_wrapped = w, sl_nonces = ns, sl_cipher = c\<rparr>)"
proof
  assume "open_sealed go m w ns c = Inr v"
  then show "\<exists>k n1 n2. aes_key k \<and> length n1 = nonce_size \<and> length n2 = nonce_size \<and>
       seal gs m k n1 n2 v = Inr \<lparr>sl_wrapped = w, sl_nonces = ns, sl_cipher = c\<rparr>"
  proof (rule open_sealed_Inr)
    fix k assume k: "aes_key k" "nonce_size \<le> length ns" "go m (take nonce_size ns) w = Some k"
      "length (drop nonce_size ns) = nonce_size" "go k (drop nonce_size ns) c = Some v"
    have n: "length (take nonce_size ns) = nonce_size" using k(2) by simp
    have "w = gs m (take nonce_size ns) k" "c = gs k (drop nonce_size ns) v"
      using aead_open [OF assms(1,2) n] aead_open [OF assms(1) k(1,4)] k(3,5) by blast+
    with k(1,4) n assms(2) show ?thesis
      by (intro exI [of _ k] exI [of _ "take nonce_size ns"] exI [of _ "drop nonce_size ns"]) (simp add: seal_def)
  qed
next
  assume "\<exists>k n1 n2. aes_key k \<and> length n1 = nonce_size \<and> length n2 = nonce_size \<and>
       seal gs m k n1 n2 v = Inr \<lparr>sl_wrapped = w, sl_nonces = ns, sl_cipher = c\<rparr>"
  then obtain k n1 n2 where k: "aes_key k" "length n1 = nonce_size" "length n2 = nonce_size"
    "w = gs m n1 k" "ns = n1 @ n2" "c = gs k n2 v"
    using assms(2) by (auto simp: seal_def)
  have "go m n1 w = Some k" "go k n2 c = Some v"
    using aead_open [OF assms k(2)] aead_open [OF assms(1) k(1,3)] k(4,6) by blast+
  with k assms(2) show "open_sealed go m w ns c = Inr v" by (simp add: open_sealed_def)
qed

text \<open>An AEAD for the witness: the plaintext with the key and the nonce beside it.\<close>

definition toy_seal :: gcm_seal where
  "toy_seal k n v = k @ n @ v"

definition toy_open :: gcm_open where
  "toy_open k n c = (if has_prefix c (k @ n) then Some (drop (length (k @ n)) c) else None)"

lemma toy_aead: "aead toy_seal toy_open"
  by (auto simp: aead_def toy_seal_def toy_open_def has_prefix_iff)

theorem open_exactly_sealed_witness:
  "\<exists>w ns c. open_sealed toy_open (replicate 32 (CHR ''m'')) w ns c = Inr ''value''"
proof -
  let ?m = "replicate 32 (CHR ''m'')" and ?n = "replicate 12 (CHR ''n'')"
  obtain s where s: "seal toy_seal ?m ?m ?n ?n ''value'' = Inr s" "aes_key ?m" "length ?n = nonce_size"
    by (simp add: seal_def aes_key_def nonce_size_def)
  then have "seal toy_seal ?m ?m ?n ?n ''value'' =
      Inr \<lparr>sl_wrapped = sl_wrapped s, sl_nonces = sl_nonces s, sl_cipher = sl_cipher s\<rparr>" by simp
  with open_exactly_sealed [OF toy_aead s(2)] s(2,3) show ?thesis by blast
qed

text \<open>Creating the key file and loading it again gives the same key.\<close>

lemma master_key_stable:
  "32 \<le> length random \<Longrightarrow> load_or_create_master_key NoFile random = Inr (k, file) \<Longrightarrow>
     load_or_create_master_key file other = Inr (k, file) \<and> aes_key k"
  by (auto simp: load_or_create_master_key_def aes_key_def)

section \<open>Constant-time comparison and passwords\<close>

lemma byte_word_inj: "byte_word x = byte_word y \<longleftrightarrow> x = y"
proof -
  have "take_bit 8 (byte_val c) = byte_val c" for c by (simp add: take_bit_nat_eq_self)
  then show ?thesis by (simp add: byte_word_def word_of_nat_eq_iff)
qed

lemma xor_0: "a XOR b = 0 \<longleftrightarrow> a = (b :: 8 word)"
proof
  assume "a XOR b = 0"
  then have "(a XOR b) XOR b = b" by simp
  then show "a = b" by (simp add: xor.assoc)
qed simp

lemma xor_all_0: "length a = length b \<Longrightarrow> xor_all v a b = 0 \<longleftrightarrow> v = 0 \<and> a = b"
  by (induction a b arbitrary: v rule: list_induct2) (simp_all add: or_eq_0_iff xor_0 byte_word_inj)

lemma constant_time_equal: "subtle_constant_time_equal a b \<longleftrightarrow> a = b"
  by (auto simp: subtle_constant_time_equal_def xor_all_0)

lemma raw_std_roundtrip: "raw_std_decode (raw_std_encode bs) = Some bs"
proof -
  have "strip_newlines (encode_sextets False bs) = encode_sextets False bs"
    by (rule strip_newlines_id) (drule encode_sextets_not_special, simp add: b64_special_def)
  then show ?thesis by (simp add: raw_std_decode_def raw_std_encode_def decode_encode_sextets)
qed

lemma split_on_append:
  "sep \<notin> set p \<Longrightarrow> split_on sep (p @ sep # s) = p # split_on sep s"
  by (induction p) (auto split: list.splits)

lemma split_on_plain: "sep \<notin> set p \<Longrightarrow> split_on sep p = [p]"
  by (induction p) auto

lemma raw_std_no_dollar: "CHR ''$'' \<notin> set (raw_std_encode bs)"
proof
  assume "CHR ''$'' \<in> set (raw_std_encode bs)"
  then obtain n where "n < 64" "CHR ''$'' = b64_char False n"
    using sextets_lt [OF byte_vals_lt, of bs] by (auto simp: raw_std_encode_def encode_sextets_def)
  then have n: "n < 64" "byte_val (b64_char False n) = byte_val (CHR ''$'')" by simp_all
  from n(2) show False unfolding byte_val_b64_char [OF n(1)] using n(1) by (auto split: if_splits)
qed

lemma verify_hashed:
  assumes "\<And>p salt t m th n. length (argon p salt t m th n) = n"
  shows "verify_password argon candidate (hash_password argon salt password) =
    Inr (argon candidate salt 1 (64 * 1024) 4 32 = argon password salt 1 (64 * 1024) 4 32)"
proof -
  let ?key = "argon password salt 1 (64 * 1024) 4 32"
  have num: "show_nat 10 19 = ''19''" "show_nat 10 (64 * 1024) = ''65536''" "show_nat 10 1 = ''1''" "show_nat 10 4 = ''4''"
    by (simp_all add: show_nat_def digits.simps digit_char_def char_of_def bit_Suc_0_iff)
  have parts: "split_on (CHR ''$'') (hash_password argon salt password) =
      [[], ''argon2id'', ''v=19'', ''m=65536,t=1,p=4'', raw_std_encode salt, raw_std_encode ?key]"
    unfolding hash_password_def argon_phc_def num
    using split_on_append [OF raw_std_no_dollar, of salt "raw_std_encode ?key"] raw_std_no_dollar
    by (simp add: split_on_plain)
  have scan: "scan_int ''19'' = Some []"
    "scan_params ''m=65536,t=1,p=4'' = Some (65536, 1, 4)"
    by (simp_all add: scan_params_def scan_uint_def scan_int_def skip_space_def scan_digits_def parse_uint_def digit_val_def
        trim_prefixes.simps space_encodings_def Let_def)
  show ?thesis
    unfolding verify_password_def Let_def parts
    by (simp add: scan raw_std_roundtrip constant_time_equal assms)
qed

text \<open>A password hash made by the code is accepted, without error, exactly for the passwords whose key under the same
  salt and cost is the stored one: always for the password it was made from; the comparison is on all the bytes.\<close>

theorem password_hash_roundtrip:
  assumes "\<And>p salt t m th n. length (argon p salt t m th n) = n"
  shows "verify_password argon candidate (hash_password argon salt password) =
    Inr (argon candidate salt 1 (64 * 1024) 4 32 = argon password salt 1 (64 * 1024) 4 32)"
  by (rule verify_hashed) (rule assms)

theorem password_hash_roundtrip_witness:
  "verify_password (\<lambda>p s t m th n. take n (p @ replicate n (CHR 0x00))) ''guess''
     (hash_password (\<lambda>p s t m th n. take n (p @ replicate n (CHR 0x00))) ''salt'' ''secret'') = Inr False"
  using password_hash_roundtrip [where argon = "\<lambda>p s t m th n. take n (p @ replicate n (CHR 0x00))" and candidate = "''guess''"
      and salt = "''salt''" and password = "''secret''"]
  by simp

section \<open>One-time passwords\<close>

lemma totp_counter_nonneg: "0 \<le> at \<Longrightarrow> totp_counter at = at div (30 * second)"
  using zdiv_zmult2_eq [of 30 "at" second] by (simp add: totp_counter_def signed_divide_int_def sgn_if)

lemma totp_counter_next:
  assumes "30 * second \<le> at"
  shows "totp_counter (at - 30 * second) = totp_counter at - 1" "totp_counter (at + 30 * second) = totp_counter at + 1"
  using assms div_add_self2 [of "30 * second" "at - 30 * second"] by (simp_all add: totp_counter_nonneg)

lemma totp_code_counter: "totp_counter t = totp_counter u \<Longrightarrow> totp_code h s t = totp_code h s u"
  by (simp add: totp_code_def split: option.split)

lemma length_digits: "n < 10 ^ Suc k \<Longrightarrow> length (digits 10 n) \<le> Suc k"
proof (induction k arbitrary: n)
  case 0
  then show ?case by (simp add: digits.simps)
next
  case (Suc k)
  then have "length (digits 10 (n div 10)) \<le> Suc k" by (intro Suc.IH) (simp add: less_mult_imp_div_less)
  then show ?case by (subst digits.simps) simp
qed

lemma totp_code_length: "totp_code h s t = Inr code \<Longrightarrow> length code = 6"
proof -
  assume "totp_code h s t = Inr code"
  then obtain n where c: "code = zero_pad 6 (show_nat 10 (n mod 1000000))"
    by (auto simp: totp_code_def split: option.splits if_splits)
  have "length (show_nat 10 (n mod 1000000)) \<le> 6"
    using length_digits [of "n mod 1000000" 5] by (simp add: show_nat_def)
  then show ?thesis by (simp add: c zero_pad_def)
qed

text \<open>C26: from thirty seconds after the epoch on, a one-time password is accepted exactly when it is the code of the current time
  step, the one before or the one after; the counter answered is the earliest of these three steps whose code is the
  password, and there is one exactly when the password is accepted.\<close>

theorem totp_window:
  assumes "30 * second \<le> at"
  shows "(verify_totp h s code at \<longleftrightarrow> (\<exists>t. \<bar>totp_counter t - totp_counter at\<bar> \<le> 1 \<and> totp_code h s t = Inr code)) \<and>
    (\<forall>c. totp_matching_counter h s code at = Some c \<longleftrightarrow>
       \<bar>c - totp_counter at\<bar> \<le> 1 \<and> (\<exists>t. totp_counter t = c \<and> totp_code h s t = Inr code) \<and>
       (\<forall>t. \<bar>totp_counter t - totp_counter at\<bar> \<le> 1 \<and> totp_code h s t = Inr code \<longrightarrow> c \<le> totp_counter t))"
proof -
  define good where "good t \<longleftrightarrow> totp_code h s t = Inr code" for t
  let ?a = "totp_counter at" and ?m = "totp_matching_counter h s code at"
  let ?t1 = "at - 30 * second" and ?t3 = "at + 30 * second"
  have "?m = (if length code \<noteq> 6 then None else map_option totp_counter (find good [?t1, at, ?t3]))"
    unfolding totp_matching_counter_def good_def constant_time_equal
    by (rule if_cong, rule refl, rule refl, rule arg_cong [where f = "map_option totp_counter"], rule find_cong)
      (auto split: sum.splits)
  moreover have "length code = 6" if "good t" for t using that totp_code_length by (auto simp: good_def)
  ultimately have m: "?m = (if good ?t1 then Some (?a - 1) else if good at then Some ?a else if good ?t3 then Some (?a + 1) else None)"
    using totp_counter_next [OF assms] by auto
  have same: "good t \<longleftrightarrow> good u" if "totp_counter t = totp_counter u" for t u
    using totp_code_counter [OF that] by (simp add: good_def)
  have steps: "totp_counter t = ?a - 1 \<and> (good t \<longleftrightarrow> good ?t1) \<or> totp_counter t = ?a \<and> (good t \<longleftrightarrow> good at) \<or>
      totp_counter t = ?a + 1 \<and> (good t \<longleftrightarrow> good ?t3)" if "\<bar>totp_counter t - ?a\<bar> \<le> 1" for t
  proof -
    from that consider "totp_counter t = ?a - 1" | "totp_counter t = ?a" | "totp_counter t = ?a + 1" by linarith
    then show ?thesis using same [of t ?t1] same [of t at] same [of t ?t3] totp_counter_next [OF assms] by cases auto
  qed
  have near: "\<bar>totp_counter u - ?a\<bar> \<le> 1" if "u \<in> {?t1, at, ?t3}" for u
    using that totp_counter_next [OF assms] by auto
  have "?m = Some c \<longleftrightarrow> \<bar>c - ?a\<bar> \<le> 1 \<and> (\<exists>t. totp_counter t = c \<and> good t) \<and>
      (\<forall>t. \<bar>totp_counter t - ?a\<bar> \<le> 1 \<and> good t \<longrightarrow> c \<le> totp_counter t)" for c
  proof
    assume "?m = Some c"
    then consider "good ?t1" "c = ?a - 1" | "\<not> good ?t1" "good at" "c = ?a" | "\<not> good ?t1" "\<not> good at" "good ?t3" "c = ?a + 1"
      by (auto simp: m split: if_splits)
    then show "\<bar>c - ?a\<bar> \<le> 1 \<and> (\<exists>t. totp_counter t = c \<and> good t) \<and>
        (\<forall>t. \<bar>totp_counter t - ?a\<bar> \<le> 1 \<and> good t \<longrightarrow> c \<le> totp_counter t)"
      by cases (use totp_counter_next [OF assms] steps in force)+
  next
    assume c: "\<bar>c - ?a\<bar> \<le> 1 \<and> (\<exists>t. totp_counter t = c \<and> good t) \<and> (\<forall>t. \<bar>totp_counter t - ?a\<bar> \<le> 1 \<and> good t \<longrightarrow> c \<le> totp_counter t)"
    then obtain t where t: "totp_counter t = c" "good t" "\<bar>totp_counter t - ?a\<bar> \<le> 1" by blast
    have "c \<le> totp_counter u" if "good u" "u \<in> {?t1, at, ?t3}" for u using c near [OF that(2)] that(1) by blast
    from this [of ?t1] this [of at] have "good ?t1 \<Longrightarrow> c \<le> ?a - 1" "good at \<Longrightarrow> c \<le> ?a"
      by (simp_all only: totp_counter_next [OF assms]) simp_all
    with steps [OF t(3)] t(1,2) show "?m = Some c" unfolding m by auto
  qed
  moreover have "verify_totp h s code at \<longleftrightarrow> (\<exists>t. \<bar>totp_counter t - ?a\<bar> \<le> 1 \<and> good t)"
    unfolding verify_totp_def m using steps near by auto
  ultimately show ?thesis by (simp add: good_def)
qed

theorem totp_window_witness:
  "\<exists>code. totp_code (\<lambda>k m. replicate 20 (CHR 0x05)) ''MFRGGZDF'' (60 * second) = Inr code \<and>
     verify_totp (\<lambda>k m. replicate 20 (CHR 0x05)) ''MFRGGZDF'' code (61 * second)"
proof -
  obtain code where c: "totp_code (\<lambda>k m. replicate 20 (CHR 0x05)) ''MFRGGZDF'' (60 * second) = Inr code"
    by (simp add: totp_code_def base32_decode_def b32_val_def trim_space_def trim_left_def trim_right_def trim_prefixes.simps
        space_encodings_def strip_newlines_def unquintets_def)
  have "\<bar>totp_counter (60 * second) - totp_counter (61 * second)\<bar> \<le> 1" by (simp add: totp_counter_nonneg)
  with c totp_window [of "61 * second" "\<lambda>k m. replicate 20 (CHR 0x05)" "''MFRGGZDF''" code] show ?thesis by auto
qed

section \<open>Recovery Codes\<close>

text \<open>The characters a code is written in, and their lower case.\<close>

definition code_char :: "char \<Rightarrow> bool" where
  "code_char c \<longleftrightarrow> 48 \<le> byte_val c \<and> byte_val c \<le> 57 \<or> 65 \<le> byte_val c \<and> byte_val c \<le> 90"

definition lower_char :: "char \<Rightarrow> char" where
  "lower_char c = (if 65 \<le> byte_val c \<and> byte_val c \<le> 90 then char_of (byte_val c + 32) else c)"

lemma recovery_alphabet_facts: "length recovery_alphabet = 32" "distinct recovery_alphabet" "\<forall>c \<in> set recovery_alphabet. code_char c"
  by (simp_all add: recovery_alphabet_def code_char_def)

lemma recovery_char_inj: "recovery_char a = recovery_char b \<longleftrightarrow> byte_val a mod 32 = byte_val b mod 32"
  using recovery_alphabet_facts by (simp add: recovery_char_def nth_eq_iff_index_eq)

lemma recovery_char_code: "code_char (recovery_char b)"
  using recovery_alphabet_facts by (simp add: recovery_char_def)

lemma trim_space_plain:
  assumes "\<forall>c \<in> set s. 33 \<le> byte_val c \<and> byte_val c \<le> 126"
  shows "trim_space s = s"
proof (cases "s = []")
  case True
  then show ?thesis using length_trim_space [of s] by simp
next
  case False
  have keep: "trim_prefixes es t = t" if "\<forall>e \<in> set es. e \<noteq> [] \<longrightarrow> byte_val (hd e) < 33 \<or> 126 < byte_val (hd e)"
    and t: "t \<noteq> []" "33 \<le> byte_val (hd t)" "byte_val (hd t) \<le> 126" for es t
  proof -
    have "find (\<lambda>e. e \<noteq> [] \<and> has_prefix t e) es = None"
      unfolding find_None_iff using that by (auto simp: has_prefix_iff neq_Nil_conv)
    then show ?thesis by (simp add: trim_prefixes.simps)
  qed
  have "\<forall>e \<in> set space_encodings. e \<noteq> [] \<longrightarrow> byte_val (hd e) < 33 \<or> 126 < byte_val (hd e)"
    "\<forall>e \<in> set (map rev space_encodings). e \<noteq> [] \<longrightarrow> byte_val (hd e) < 33 \<or> 126 < byte_val (hd e)"
    by (simp_all add: space_encodings_def)
  from keep [OF this(1) False] keep [OF this(2), of "rev s"] assms False show ?thesis
    by (simp add: trim_space_def trim_left_def trim_right_def hd_rev)
qed

lemma to_upper_code: "\<forall>c \<in> set s. code_char c \<Longrightarrow> to_upper s = s"
  by (induction s) (auto simp: code_char_def)

lemma to_upper_lower: "\<forall>c \<in> set s. code_char c \<Longrightarrow> to_upper (map lower_char s) = s"
  by (induction s) (auto simp: code_char_def lower_char_def)

definition typed_char :: "char \<Rightarrow> bool" where
  "typed_char c \<longleftrightarrow> code_char c \<or> c = CHR ''-''"

lemma lower_char_dash: "lower_char c = CHR ''-'' \<longleftrightarrow> c = CHR ''-''"
proof
  assume "lower_char c = CHR ''-''"
  then have "byte_val (lower_char c) = 45" by simp
  then have "lower_char c = c" by (auto simp: lower_char_def split: if_splits)
  with \<open>lower_char c = CHR ''-''\<close> show "c = CHR ''-''" by simp
qed (simp add: lower_char_def)

lemma normalize_typed:
  assumes "\<forall>c \<in> set s. typed_char c"
  shows "normalize_recovery_code s = filter (\<lambda>c. c \<noteq> CHR ''-'') s"
    "normalize_recovery_code (map lower_char s) = filter (\<lambda>c. c \<noteq> CHR ''-'') s"
proof -
  have code: "\<forall>c \<in> set (filter (\<lambda>c. c \<noteq> CHR ''-'') s). code_char c" using assms by (auto simp: typed_char_def)
  have "trim_space s = s" by (rule trim_space_plain) (use assms in \<open>auto simp: typed_char_def code_char_def\<close>)
  with code show "normalize_recovery_code s = filter (\<lambda>c. c \<noteq> CHR ''-'') s"
    by (simp add: normalize_recovery_code_def to_upper_code)
  have "trim_space (map lower_char s) = map lower_char s"
    by (rule trim_space_plain) (use assms in \<open>auto simp: typed_char_def code_char_def lower_char_def\<close>)
  moreover have "filter (\<lambda>c. c \<noteq> CHR ''-'') (map lower_char s) = map lower_char (filter (\<lambda>c. c \<noteq> CHR ''-'') s)"
    by (induction s) (simp_all add: lower_char_dash)
  ultimately show "normalize_recovery_code (map lower_char s) = filter (\<lambda>c. c \<noteq> CHR ''-'') s"
    using code by (simp add: normalize_recovery_code_def to_upper_lower)
qed

lemma recovery_char_not_dash: "recovery_char b \<noteq> CHR ''-''"
  using recovery_char_code [of b] by (auto simp: code_char_def)

lemma recovery_code_facts:
  "length (recovery_code q) = 14" "\<forall>c \<in> set (recovery_code q). typed_char c"
  "filter (\<lambda>c. c \<noteq> CHR ''-'') (recovery_code q) = map (\<lambda>i. recovery_char (q ! i)) [0..<12]"
  by (simp_all add: recovery_code_def upt_rec typed_char_def recovery_char_code recovery_char_not_dash)

text \<open>a new Recovery Code is twelve characters of an alphabet without look-alikes, in groups of four; typing it in lower
  case or without its separators normalises to the same text; and two codes normalise to the same text exactly when
  their random bytes agree modulo 32, so each character carries five random bits.\<close>

theorem recovery_code_normal:
  assumes "length r = 12"
  shows "length (recovery_code r) = 14 \<and>
    normalize_recovery_code (recovery_code r) = map recovery_char r \<and>
    normalize_recovery_code (map lower_char (recovery_code r)) = map recovery_char r \<and>
    normalize_recovery_code (map recovery_char r) = map recovery_char r \<and>
    (normalize_recovery_code (recovery_code q) = map recovery_char r \<longleftrightarrow> (\<forall>i < 12. byte_val (q ! i) mod 32 = byte_val (r ! i) mod 32))"
proof -
  have c: "map (\<lambda>i. recovery_char (r ! i)) [0..<12] = map recovery_char r"
    using assms by (intro nth_equalityI) simp_all
  have typed: "\<forall>x \<in> set (map recovery_char r). typed_char x" by (simp add: typed_char_def recovery_char_code)
  have "filter (\<lambda>c. c \<noteq> CHR ''-'') (map recovery_char r) = map recovery_char r"
    by (simp add: filter_id_conv recovery_char_not_dash)
  moreover have "map (\<lambda>i. recovery_char (q ! i)) [0..<12] = map (\<lambda>i. recovery_char (r ! i)) [0..<12] \<longleftrightarrow>
      (\<forall>i < 12. byte_val (q ! i) mod 32 = byte_val (r ! i) mod 32)"
    by (auto simp: recovery_char_inj)
  ultimately show ?thesis
    unfolding c by (simp add: recovery_code_facts normalize_typed typed c)
qed

theorem recovery_code_normal_witness:
  "normalize_recovery_code (map lower_char (recovery_code ''abcdefghijkl'')) = map recovery_char ''abcdefghijkl''"
  using recovery_code_normal [of "''abcdefghijkl''" "''abcdefghijkl''"] by simp

end
