(* ===== verification/ServiceProperties.thy ===== *)
theory ServiceProperties
  imports ServiceRefinement IdentityProperties CryptoProperties
begin

text \<open>The properties of the identity service.\<close>

section \<open>Password login\<close>

lemma with_store_iff:
  "with_store d m f = (r, d') \<longleftrightarrow> (\<exists>e. m = Inl e \<and> r = Inl (FromStore e) \<and> d' = d) \<or> (\<exists>x. m = Inr x \<and> f x = (r, d'))"
  by (cases m) (auto simp: with_store_def)

lemma record_audit_tables [simp]:
  "t_sessions (record_audit cx a b c r d) = t_sessions d" "t_challenges (record_audit cx a b c r d) = t_challenges d"
  by (simp_all add: record_audit_def)

definition opened_session :: "service \<Rightarrow> call_context \<Rightarrow> auth_method \<Rightarrow> session_out \<Rightarrow> session_row" where
  "opened_session sv cx auth s = \<lparr>ss_id = hash sv (so_id s), ss_admin = so_member s, ss_csrf = so_csrf s, ss_expires = so_expires s,
     ss_activity = cx_db cx, ss_idle = cx_now cx + 30 * minute, ss_method = auth\<rparr>"

lemma issue_session_cases:
  assumes "issue_session sv cx r1 r2 m auth d = (res, d')"
  shows "case res of Inl e \<Rightarrow> d' = d
    | Inr s \<Rightarrow> t_sessions d' = t_sessions d @ [opened_session sv cx auth s] \<and> t_challenges d' = t_challenges d \<and>
        so_member s = ad_id m \<and> so_username s = ad_username m \<and> so_role s = ad_role m \<and> so_expires s = cx_now cx + 12 * hour"
  using assms
  by (auto simp: issue_session_def Let_def with_store_iff opened_session_def session_absolute_ttl_def session_idle_ttl_def
      elim!: create_session_Inr)

text \<open>C29: a password login opens a Session only for the active member of that name whose password verifies, with password
  login available and TOTP not required: the new Session, of twelve hours and thirty minutes idle, is the only change
  of the Sessions. With TOTP required, the same proof opens no Session but a challenge of five minutes, bound to the
  source of the request. A login that fails opens neither.\<close>

theorem login_requirements:
  assumes "login sv cx u p source r1 r2 d = (res, d')"
  shows "case res of
      Inl e \<Rightarrow> t_sessions d' = t_sessions d \<and> t_challenges d' = t_challenges d
    | Inr out \<Rightarrow> (\<exists>org m. organization d = Inr org \<and> password_login_available sv org d = Inr True \<and>
        member_by_username u d = Inr m \<and> ad_status m = MemberActive \<and> password_matches sv p m \<and>
        (case out of
          LoggedIn s \<Rightarrow> \<not> og_totp org \<and> so_member s = ad_id m \<and> so_expires s = cx_now cx + 12 * hour \<and>
            t_sessions d' = t_sessions d @ [opened_session sv cx AuthLocal s] \<and> t_challenges d' = t_challenges d
        | Challenged c \<Rightarrow> og_totp org \<and> t_sessions d' = t_sessions d \<and>
            \<lparr>lc_token = hash sv c, lc_admin = ad_id m, lc_source = source, lc_expires = cx_now cx + 5 * minute,
             lc_used = None\<rparr> \<in> set (t_challenges d')))"
proof -
  let ?proven = "\<lambda>org m. organization d = Inr org \<and> password_login_available sv org d = Inr True \<and>
    member_by_username u d = Inr m \<and> ad_status m = MemberActive \<and> password_matches sv p m"
  show ?thesis
  proof (cases "\<exists>org m. ?proven org m")
    case False
    then have "\<exists>e. res = Inl e \<and> t_sessions d' = t_sessions d \<and> t_challenges d' = t_challenges d"
      using assms by (auto simp: login_def with_store_iff denied_def split: if_splits sum.splits)
    then show ?thesis by auto
  next
    case True
    then obtain org m where proven: "?proven org m" by blast
    then have step: "(if \<not> og_totp org
        then (case issue_session sv cx r1 r2 m AuthLocal d of
            (Inl e, d1) \<Rightarrow> (Inl e, d1)
          | (Inr s, d1) \<Rightarrow> (Inr (LoggedIn s), record_audit cx (''member:'' @ ad_username m) ''auth.login'' (ad_id m) ''local'' d1))
        else with_store d (create_login_challenge (hash sv (new_secret 192 r1)) (ad_id m) source (cx_now cx + 5 * minute)
            (cx_db cx) d) (\<lambda>d1. (Inr (Challenged (new_secret 192 r1)), d1))) = (res, d')"
      using assms [unfolded login_def Let_def] by (simp add: with_store_def)
    show ?thesis
    proof (cases "og_totp org")
      case False
      obtain r d1 where i: "issue_session sv cx r1 r2 m AuthLocal d = (r, d1)" by (cases "issue_session sv cx r1 r2 m AuthLocal d")
      with False step issue_session_cases [OF i] proven show ?thesis by (cases r) auto
    next
      case True
      with step proven show ?thesis
        by (auto simp: with_store_iff create_login_challenge_def insert_login_challenge_q_def
            delete_expired_login_challenges_q_def split: if_splits)
    qed
  qed
qed

text \<open>A service over executable primitives, and a database with password login open, with the member whose password
  is ''pw''.\<close>

definition demo_context :: call_context where
  "demo_context = \<lparr>cx_now = 2, cx_db = 2, cx_corr = ''c''\<rparr>"

definition demo_service :: service where
  "demo_service = \<lparr>sv_sha256 = (\<lambda>b. b), sv_argon = (\<lambda>p s t m th n. take n (p @ replicate n (CHR 0x00))),
     sv_hmac = (\<lambda>k m. take 20 (k @ m @ replicate 20 (CHR 0x00))), sv_seal = toy_seal, sv_open = toy_open,
     sv_master = replicate 32 (CHR ''m''), sv_oidc_ready = True, sv_oauth_ready = False\<rparr>"

definition demo_member :: admin_row where
  "demo_member = \<lparr>ad_id = ''adm'', ad_username = ''root'', ad_password = hash_password (sv_argon demo_service) ''salt'' ''pw'',
     ad_created = 1, ad_role = RoleAdministrator, ad_status = MemberActive, ad_activated = Some 1, ad_deactivated = None,
     ad_totp = None\<rparr>"

definition demo_open :: core_db where
  "demo_open = empty_core\<lparr>t_admins := [demo_member], t_org := [\<lparr>og_name = ''org'', og_totp = False, og_password = True\<rparr>]\<rparr>"

lemma demo_password: "password_matches demo_service ''pw'' demo_member"
proof -
  have "verify_password (sv_argon demo_service) ''pw'' (hash_password (sv_argon demo_service) ''salt'' ''pw'') = Inr True"
    by (subst verify_hashed) (simp_all add: demo_service_def)
  then show ?thesis by (simp add: password_matches_def demo_member_def)
qed

lemma demo_login:
  "\<exists>s. fst (login demo_service demo_context ''root'' ''pw'' ''ip'' ''r1'' ''r2'' demo_open) = Inr (LoggedIn s)"
  using demo_password
  by (auto simp: login_def with_store_def organization_def organization_q_def row_of_def one_def demo_open_def
      password_login_available_def member_by_username_def member_by_username_q_def demo_member_def issue_session_def Let_def
      create_bounded_session_def create_bounded_session_q_def empty_core_def db.defs exists_admin_def)

theorem login_requirements_witness:
  "\<exists>s. fst (login demo_service demo_context ''root'' ''pw'' ''ip'' ''r1'' ''r2'' demo_open) = Inr (LoggedIn s) \<and>
     so_expires s = 2 + 12 * hour"
proof -
  obtain s d' where l: "login demo_service demo_context ''root'' ''pw'' ''ip'' ''r1'' ''r2'' demo_open = (Inr (LoggedIn s), d')"
    using demo_login by (metis prod.collapse)
  from login_requirements [OF l] l show ?thesis by (auto simp: demo_context_def)
qed

section \<open>The second step of a login\<close>

text \<open>The second factor that was given: an unused Recovery Code, or a password of the confirmed enrollment for a time step not
  used before.\<close>

definition factor_given :: "service \<Rightarrow> call_context \<Rightarrow> uuid \<Rightarrow> string \<Rightarrow> string \<Rightarrow> core_db \<Rightarrow> bool" where
  "factor_given sv cx i totp recovery d \<longleftrightarrow>
     (if recovery \<noteq> []
      then \<exists>r \<in> set (t_recovery d). rc_admin r = i \<and> rc_code r = hash sv (normalize_recovery_code recovery) \<and> rc_used r = None
      else \<exists>en secret c. en \<in> set (t_mfa d) \<and> mf_admin en = i \<and> mf_verified en \<noteq> None \<and> mf_confirmed en \<noteq> None \<and>
        open_sealed (sv_open sv) (sv_master sv) (mf_wrapped en) (mf_nonces en) (mf_cipher en) = Inr secret \<and>
        totp_matching_counter (sv_hmac sv) secret totp (cx_now cx) = Some c \<and>
        (\<exists>a \<in> set (t_admins d). ad_id a = i \<and> totp_below c a))"

lemma second_factor_given:
  assumes "verify_second_factor sv cx m totp recovery d = (True, d')"
  shows "factor_given sv cx (ad_id m) totp recovery d"
proof (cases "recovery = []")
  case False
  with assms have "cnt (\<lambda>r. recovery_key r = (ad_id m, hash sv (normalize_recovery_code recovery)) \<and> recovery_free r) (t_recovery d) = 1"
    by (simp add: verify_second_factor_def consume_recovery_eq)
  then have "\<exists>r \<in> set (t_recovery d). recovery_key r = (ad_id m, hash sv (normalize_recovery_code recovery)) \<and> recovery_free r"
    using cnt_pos [of "\<lambda>r. recovery_key r = (ad_id m, hash sv (normalize_recovery_code recovery)) \<and> recovery_free r" "t_recovery d"]
    by simp
  then show ?thesis using False by (auto simp: factor_given_def recovery_key_def recovery_free_def)
next
  case True
  with assms obtain en secret c where f: "totp_enrollment_for_member (ad_id m) d = Inr en" "mf_verified en \<noteq> None"
    "mf_confirmed en \<noteq> None" "open_sealed (sv_open sv) (sv_master sv) (mf_wrapped en) (mf_nonces en) (mf_cipher en) = Inr secret"
    "totp_matching_counter (sv_hmac sv) secret totp (cx_now cx) = Some c" "use_totp (ad_id m) c d = (True, d')"
    by (auto simp: verify_second_factor_def split: if_splits sum.splits option.splits)
  then have "cnt (\<lambda>a. ad_id a = ad_id m \<and> totp_below c a) (t_admins d) = 1" by (simp add: use_totp_eq)
  then have "\<exists>a \<in> set (t_admins d). ad_id a = ad_id m \<and> totp_below c a"
    using cnt_pos [of "\<lambda>a. ad_id a = ad_id m \<and> totp_below c a" "t_admins d"] by simp
  moreover have "en \<in> set (t_mfa d) \<and> mf_admin en = ad_id m"
    using f(1) by (auto simp: totp_enrollment_for_member_def totp_enrollment_for_member_q_def dest: row_of_Inr)
  ultimately show ?thesis unfolding factor_given_def using True f(2-5) by auto
qed

lemma second_factor_challenges:
  "verify_second_factor sv cx m totp recovery d = (ok, d') \<Longrightarrow> t_challenges d' = t_challenges d"
  by (auto simp: verify_second_factor_def consume_recovery_eq use_totp_eq split: if_splits sum.splits option.splits)

lemma complete_login_Inr:
  assumes "complete_login sv cx ch source totp recovery r1 r2 d = (Inr s, d1)"
  obtains i dc m d2 d3 where "consume_login_challenge (hash sv ch) source (cx_now cx) d = Inr (i, dc)" "member_by_id i dc = Inr m"
    "ad_status m = MemberActive" "verify_second_factor sv cx m totp recovery dc = (True, d2)"
    "issue_session sv cx r1 r2 m AuthLocal d2 = (Inr s, d3)" "t_challenges d1 = t_challenges d3" "t_sessions d1 = t_sessions d3"
  using assms
  by (auto simp: complete_login_def with_store_iff denied_def Let_def split: if_splits sum.splits prod.splits)

text \<open>Once the challenge is consumed, whatever is answered, it is spent.\<close>

lemma complete_login_allowed:
  assumes "complete_login sv cx ch source totp recovery r1 r2 d = (res, d1)" "res = Inl InvalidCredentials \<or> (\<exists>s. res = Inr s)"
  obtains org i dc where "organization d = Inr org" "password_login_available sv org d = Inr True"
    "consume_login_challenge (hash sv ch) source (cx_now cx) d = Inr (i, dc)"
proof (cases "consume_login_challenge (hash sv ch) source (cx_now cx) d")
  case (Inl e)
  with assms show thesis by (auto simp: complete_login_def with_store_iff denied_def split: if_splits)
next
  case (Inr v)
  from assms obtain org where "organization d = Inr org" "password_login_available sv org d = Inr True"
    unfolding complete_login_def with_store_iff by (elim disjE exE conjE; simp add: denied_def split: if_splits)
  with Inr show thesis by (cases v) (rule that, simp_all)
qed

lemma complete_login_consumes:
  assumes "complete_login sv cx ch source totp recovery r1 r2 d = (res, d1)" "organization d = Inr org"
    "password_login_available sv org d = Inr True" "consume_login_challenge (hash sv ch) source (cx_now cx) d = Inr (i, dc)"
  shows "t_challenges d1 = t_challenges dc"
proof (cases "member_by_id i dc")
  case (Inl e)
  with assms show ?thesis by (auto simp: complete_login_def with_store_def denied_def)
next
  case m: (Inr m)
  obtain ok d2 where f: "(if ad_status m \<noteq> MemberActive then (False, dc) else verify_second_factor sv cx m totp recovery dc) = (ok, d2)"
    by fastforce
  then have c: "t_challenges d2 = t_challenges dc" by (auto split: if_splits dest: second_factor_challenges)
  obtain r d3 where i: "issue_session sv cx r1 r2 m AuthLocal d2 = (r, d3)" by fastforce
  then have "t_challenges d3 = t_challenges d2" using issue_session_cases [OF i] by (cases r) simp_all
  with c assms show ?thesis
    by (cases r; cases ok) (auto simp: complete_login_def with_store_def denied_def Let_def m f i simp del: if_split)
qed

lemma complete_login_spends:
  assumes "complete_login sv cx ch source totp recovery r1 r2 d = (res, d1)" "res = Inl InvalidCredentials \<or> (\<exists>s. res = Inr s)"
    "identity_ok d"
  shows "challenge_spent (hash sv ch) d1"
proof -
  obtain org i dc where o: "organization d = Inr org" "password_login_available sv org d = Inr True"
    and c1: "consume_login_challenge (hash sv ch) source (cx_now cx) d = Inr (i, dc)"
    by (rule complete_login_allowed [OF assms(1,2)])
  note c = c1 complete_login_consumes [OF assms(1) o c1]
  then have "challenge_used (hash sv ch) d dc" using assms(3) by (auto simp: challenge_used_def)
  from challenge.spend_spends [OF this] c(2) show ?thesis by (simp add: challenge_spent_def)
qed

text \<open>C30: the second step of a login opens a Session only for the member of an unused, unexpired challenge issued to the same
  source, and only with a second factor of that member: an unused Recovery Code, or a one-time password of a time step
  later than any used before. One challenge is good for one attempt: after a Session, or after a wrong factor, no
  further call with it opens a Session, as long as the same challenge is not issued anew.\<close>

theorem second_step_requirements:
  assumes "identity_ok d" "complete_login sv cx ch source totp recovery r1 r2 d = (res, d1)"
  shows "(\<forall>s. res = Inr s \<longrightarrow> factor_given sv cx (so_member s) totp recovery d \<and>
      (\<exists>c \<in> set (t_challenges d). lc_token c = hash sv ch \<and> lc_source c = source \<and> lc_used c = None \<and> cx_now cx < lc_expires c \<and>
        lc_admin c = so_member s) \<and>
      (\<exists>old. t_sessions d1 = old @ [opened_session sv cx AuthLocal s])) \<and>
    (\<forall>d2 cx2 source2 totp2 recovery2 q1 q2 s2. (res = Inl InvalidCredentials \<or> (\<exists>s. res = Inr s)) \<and>
      (not_issuing (hash sv ch))\<^sup>*\<^sup>* d1 d2 \<longrightarrow> fst (complete_login sv cx2 ch source2 totp2 recovery2 q1 q2 d2) \<noteq> Inr s2)"
proof (intro conjI allI impI)
  fix s assume "res = Inr s"
  with assms(2) have l: "complete_login sv cx ch source totp recovery r1 r2 d = (Inr s, d1)" by simp
  then obtain i dc m d2 d3 where p: "consume_login_challenge (hash sv ch) source (cx_now cx) d = Inr (i, dc)"
    "member_by_id i dc = Inr m" "verify_second_factor sv cx m totp recovery dc = (True, d2)"
    "issue_session sv cx r1 r2 m AuthLocal d2 = (Inr s, d3)" "t_sessions d1 = t_sessions d3"
    by (rule complete_login_Inr)
  have i: "ad_id m = i" using p(2) by (auto simp: member_by_id_def member_by_id_q_def dest: row_of_Inr)
  from p(1) obtain c where c: "c \<in> set (t_challenges d)" "lc_token c = hash sv ch" "lc_source c = source" "lc_used c = None"
    "cx_now cx < lc_expires c" "i = lc_admin c" "t_recovery dc = t_recovery d" "t_mfa dc = t_mfa d" "t_admins dc = t_admins d"
    by (rule consume_challenge_Inr) auto
  have s: "so_member s = i" "t_sessions d3 = t_sessions d2 @ [opened_session sv cx AuthLocal s]"
    using issue_session_cases [OF p(4)] i by simp_all
  from second_factor_given [OF p(3)] show "factor_given sv cx (so_member s) totp recovery d"
    unfolding factor_given_def s(1) i c(7) c(8) c(9) .
  show "\<exists>c \<in> set (t_challenges d). lc_token c = hash sv ch \<and> lc_source c = source \<and> lc_used c = None \<and> cx_now cx < lc_expires c \<and>
      lc_admin c = so_member s"
    by (rule bexI [OF _ c(1)]) (simp add: c(2-6) s(1))
  show "\<exists>old. t_sessions d1 = old @ [opened_session sv cx AuthLocal s]" using p(5) s(2) by simp
next
  fix d2 cx2 source2 totp2 recovery2 q1 q2 s2
  assume a: "(res = Inl InvalidCredentials \<or> (\<exists>s. res = Inr s)) \<and> (not_issuing (hash sv ch))\<^sup>*\<^sup>* d1 d2"
  then have "challenge_spent (hash sv ch) d2"
    using challenge.spent_forever complete_login_spends [OF assms(2) _ assms(1)] by blast
  then have spent: "lc_used c \<noteq> None" if "c \<in> set (t_challenges d2)" "lc_token c = hash sv ch" for c
    using that by (simp add: challenge_spent_def)
  show "fst (complete_login sv cx2 ch source2 totp2 recovery2 q1 q2 d2) \<noteq> Inr s2"
  proof
    assume "fst (complete_login sv cx2 ch source2 totp2 recovery2 q1 q2 d2) = Inr s2"
    then obtain d3 where "complete_login sv cx2 ch source2 totp2 recovery2 q1 q2 d2 = (Inr s2, d3)" by (metis prod.collapse)
    then obtain i dc where "consume_login_challenge (hash sv ch) source2 (cx_now cx2) d2 = Inr (i, dc)" by (rule complete_login_Inr)
    then obtain c where "c \<in> set (t_challenges d2)" "lc_token c = hash sv ch" "lc_used c = None" by (rule consume_challenge_Inr)
    with spent show False by blast
  qed
qed

theorem second_step_requirements_witness:
  "fst (complete_login demo_service demo_context ''x'' ''ip'' [] ''code'' ''r1'' ''r2'' demo_core) \<noteq>
     Inr \<lparr>so_id = ''s'', so_csrf = ''c'', so_username = ''root'', so_member = ''nobody'', so_role = RoleAdministrator, so_expires = 0\<rparr>"
proof
  assume "fst (complete_login demo_service demo_context ''x'' ''ip'' [] ''code'' ''r1'' ''r2'' demo_core) =
     Inr \<lparr>so_id = ''s'', so_csrf = ''c'', so_username = ''root'', so_member = ''nobody'', so_role = RoleAdministrator, so_expires = 0\<rparr>"
  then obtain d1 where l: "complete_login demo_service demo_context ''x'' ''ip'' [] ''code'' ''r1'' ''r2'' demo_core =
      (Inr \<lparr>so_id = ''s'', so_csrf = ''c'', so_username = ''root'', so_member = ''nobody'', so_role = RoleAdministrator,
        so_expires = 0\<rparr>, d1)"
    by (metis prod.collapse)
  from second_step_requirements [OF demo_core_ok l] show False by (auto simp: demo_core_def)
qed

section \<open>A login stays open\<close>

definition login_ok :: "service \<Rightarrow> core_db \<Rightarrow> bool" where
  "login_ok sv d \<longleftrightarrow> length (t_org d) \<le> 1 \<and>
     ((\<forall>g \<in> set (t_org d). og_password g) \<or> sv_oidc_ready sv \<and> t_external d \<noteq> [] \<or> sv_oauth_ready sv \<and> t_oauth d \<noteq> [])"

lemma keeps_login: "keeps d d' \<Longrightarrow> login_ok sv d \<Longrightarrow> login_ok sv d'"
  by (auto simp: keeps_def login_ok_def)

definition login_stays :: "service \<Rightarrow> core_db \<Rightarrow> core_db \<Rightarrow> bool" where
  "login_stays sv d d' \<longleftrightarrow> (login_ok sv d \<longrightarrow> login_ok sv d')"

lemma reaches_login: "reaches (login_stays sv) d d' \<Longrightarrow> login_ok sv d \<Longrightarrow> login_ok sv d'"
  unfolding reaches_def by (induction rule: rtranclp_induct) (auto simp: login_stays_def)

interpretation logins: keeping_steps "login_stays sv" "\<lambda>s. True" for sv
  by unfold_locales (auto simp: keep_within_def keep_step_def login_stays_def keeps_login)

lemma organization_rows: "organization d = Inr g \<longleftrightarrow> (\<exists>gs. t_org d = g # gs)"
  by (cases "t_org d") (auto simp: organization_def organization_q_def row_of_def one_def)

lemma external_available_iff:
  "external_login_available sv d = Inr b \<longleftrightarrow>
     b = (sv_oidc_ready sv \<and> t_external d \<noteq> [] \<or> sv_oauth_ready sv \<and> t_oauth d \<noteq> [])"
  by (cases "t_external d"; cases "t_oauth d")
    (auto simp: external_login_available_def external_identity_binding_def external_identity_binding_q_def
      oauth_identity_binding_def oauth_identity_binding_q_def row_of_def one_def)

lemma login_ok_set_password:
  assumes "login_ok sv d"
  shows "login_ok sv (snd (set_password_login sv cx i session p totp enabled d))"
proof -
  have closes: "login_stays sv d1 d2" if "set_password_login_enabled i session enabled e ts d1 = Inr d2"
    and "(if enabled then Inr True else external_login_available sv d1) = Inr True" for e ts d1 d2
  proof (cases enabled)
    case True
    with that(1) have "\<forall>g \<in> set (t_org d2). og_password g" "length (t_org d2) = length (t_org d1)"
      by (auto simp: set_password_login_enabled_def set_password_login_enabled_q_def set_upd_split)
    then show ?thesis by (simp add: login_stays_def login_ok_def)
  next
    case False
    with that have "t_external d2 = t_external d1" "t_oauth d2 = t_oauth d1" "length (t_org d2) = length (t_org d1)"
      "sv_oidc_ready sv \<and> t_external d1 \<noteq> [] \<or> sv_oauth_ready sv \<and> t_oauth d1 \<noteq> []"
      by (auto simp: set_password_login_enabled_def set_password_login_enabled_q_def external_available_iff)
    then show ?thesis by (auto simp: login_stays_def login_ok_def)
  qed
  have "good (login_stays sv) d (set_password_login sv cx i session p totp enabled d)"
    unfolding set_password_login_def Let_def
    by (intro good_intros logins.reaches_always)
      (rule reaches_refl | assumption | erule logins.reach_elims | (rule reaches_step, rule closes, assumption, simp))+
  with assms show ?thesis unfolding good_def by (blast intro: reaches_login)
qed

lemma oauth_binding_rows: "oauth_identity_binding d = Inr x \<Longrightarrow> t_oauth d \<noteq> []"
  and external_binding_rows: "external_identity_binding d = Inr x \<Longrightarrow> t_external d \<noteq> []"
  by (auto simp: oauth_identity_binding_def oauth_identity_binding_q_def external_identity_binding_def
      external_identity_binding_q_def row_of_def one_def)

lemma reject_last_Inr:
  assumes "reject_last_external_unbind ready other d = Inr u"
  shows "(\<exists>g gs. t_org d = g # gs \<and> og_password g) \<or> ready \<and> (\<exists>x. other = Inr x)"
  using assms by (auto simp: reject_last_external_unbind_def organization_rows split: sum.splits if_splits)

lemma login_ok_unbind_oidc:
  assumes "login_ok sv d"
  shows "login_ok sv (snd (unbind_oidc sv cx i session p totp d))"
proof -
  have closes: "login_stays sv d1 d2" if "unbind_external_identity i session e ts d1 = Inr d2"
    and "reject_last_external_unbind (sv_oauth_ready sv) (oauth_identity_binding d1) d1 = Inr u" for e ts d1 d2 u
  proof -
    from that(1) have same: "t_org d2 = t_org d1" "t_oauth d2 = t_oauth d1"
      by (auto simp: unbind_external_identity_def delete_external_identity_binding_q_def)
    from reject_last_Inr [OF that(2)] show ?thesis
      unfolding login_stays_def login_ok_def same using oauth_binding_rows by fastforce
  qed
  have "good (login_stays sv) d (unbind_oidc sv cx i session p totp d)"
    unfolding unbind_oidc_def unbind_with_def Let_def
    by (intro good_intros logins.reaches_always)
      (rule reaches_refl | assumption | erule logins.reach_elims | (rule reaches_step, rule closes, assumption, assumption))+
  with assms show ?thesis unfolding good_def by (blast intro: reaches_login)
qed

lemma login_ok_unbind_oauth:
  assumes "login_ok sv d"
  shows "login_ok sv (snd (unbind_oauth sv cx i session p totp d))"
proof -
  have closes: "login_stays sv d1 d2" if "unbind_oauth_identity i session e ts d1 = Inr d2"
    and "reject_last_external_unbind (sv_oidc_ready sv) (external_identity_binding d1) d1 = Inr u" for e ts d1 d2 u
  proof -
    from that(1) have same: "t_org d2 = t_org d1" "t_external d2 = t_external d1"
      by (auto simp: unbind_oauth_identity_def delete_oauth_identity_binding_q_def)
    from reject_last_Inr [OF that(2)] show ?thesis
      unfolding login_stays_def login_ok_def same using external_binding_rows by fastforce
  qed
  have "good (login_stays sv) d (unbind_oauth sv cx i session p totp d)"
    unfolding unbind_oauth_def unbind_with_def Let_def
    by (intro good_intros logins.reaches_always)
      (rule reaches_refl | assumption | erule logins.reach_elims | (rule reaches_step, rule closes, assumption, assumption))+
  with assms show ?thesis unfolding good_def by (blast intro: reaches_login)
qed

lemma good_login: "login_ok sv d \<Longrightarrow> good (login_stays sv) d a \<Longrightarrow> login_ok sv (snd a)"
  unfolding good_def by (blast intro: reaches_login)

lemma service_step_login:
  assumes "service_step sv d d'" "login_ok sv d"
  shows "login_ok sv d'"
proof -
  note kept = logins.use_cases [THEN good_login [OF assms(2)]] logins.logout_reaches [THEN reaches_login, OF assms(2)]
    logins.callback_denied_reaches [THEN reaches_login, OF assms(2)]
  show ?thesis
    using assms(1)
  proof cases
    case SetPasswordLogin
    then show ?thesis using login_ok_set_password [OF assms(2)] by simp
  next
    case UnbindOidc
    then show ?thesis using login_ok_unbind_oidc [OF assms(2)] by simp
  next
    case UnbindOAuth
    then show ?thesis using login_ok_unbind_oauth [OF assms(2)] by simp
  next
    case Touch
    then have "reaches (login_stays sv) d d'" using logins.reaches_always(2) [OF reaches_refl] by simp
    then show ?thesis using assms(2) by (rule reaches_login)
  next
    case SaveBootstrapCode
    then have "reaches (login_stays sv) d d'" by (rule logins.reach_keep(1)) simp
    then show ?thesis using assms(2) by (rule reaches_login)
  qed (simp_all add: kept)
qed

interpretation login_open: step_system "\<lambda>d. d = empty_core" "service_step sv" "login_ok sv" for sv
proof
  show "login_ok sv d" if "d = empty_core" for d by (simp add: that login_ok_def empty_core_def db.defs)
  show "login_ok sv d'" if "login_ok sv d" "service_step sv d d'" for d d'
    using service_step_login [OF that(2,1)] .
qed

text \<open>C31: in every history of use cases, as long as the configured providers stay ready, password login is closed only while
  a ready provider has the Administrator's identity bound; so the use cases never leave an Administrator without a
  way to log in. And whatever the history, when no ready provider is bound the service accepts passwords even if
  password login is closed.\<close>

theorem never_locked_out:
  assumes "(service_step sv)\<^sup>*\<^sup>* empty_core d" "organization d = Inr org"
  shows "(\<not> og_password org \<longrightarrow> external_login_available sv d = Inr True) \<and>
    (\<forall>sv2. password_login_available sv2 org d = Inr True \<or> external_login_available sv2 d = Inr True)"
proof -
  have "login_ok sv d" by (rule login_open.reachable_inv [OF refl assms(1)])
  then have "\<not> og_password org \<longrightarrow> external_login_available sv d = Inr True"
    using assms(2) by (auto simp: organization_rows login_ok_def external_available_iff)
  moreover have "password_login_available sv2 org d = Inr True \<or> external_login_available sv2 d = Inr True" for sv2
  proof -
    obtain b where "external_login_available sv2 d = Inr b" using external_available_iff by blast
    then show ?thesis by (cases b) (simp_all add: password_login_available_def)
  qed
  ultimately show ?thesis by blast
qed

lemma demo_bootstrap:
  "\<exists>d org. (service_step demo_service)\<^sup>*\<^sup>* empty_core d \<and> organization d = Inr org \<and> og_name org = ''org''"
proof -
  let ?d1 = "empty_core\<lparr>t_bootstrap := [\<lparr>bc_hash = hash demo_service ''code'', bc_expires = 9, bc_used = None\<rparr>]\<rparr>"
  let ?b = "bootstrap demo_service demo_context ''code'' ''org'' ''root'' ''a password of mine'' ''salt'' ''adm'' ''r1'' ''r2'' ?d1"
  have "save_bootstrap_code (hash demo_service ''code'') 9 empty_core = Inr ?d1"
    by (simp add: save_bootstrap_code_def save_bootstrap_code_q_def empty_core_def db.defs)
  then have "service_step demo_service empty_core ?d1" by (rule service_step.SaveBootstrapCode)
  moreover have "service_step demo_service ?d1 (snd ?b)" by (rule service_step.Bootstrapping)
  ultimately have steps: "(service_step demo_service)\<^sup>*\<^sup>* empty_core (snd ?b)" by (meson r_into_rtranclp rtranclp.rtrancl_into_rtrancl)
  have valid: "valid_organization_name ''org''" "username_ok ''root''" "password_valid ''a password of mine''" "trim_space ''org'' = ''org''"
    by code_simp+
  obtain r d2 where i: "?b = (r, d2)" by fastforce
  then have "t_org d2 = [\<lparr>og_name = ''org'', og_totp = False, og_password = True\<rparr>]"
    by (auto simp: bootstrap_def Let_def valid bootstrap_outcome demo_context_def empty_core_def db.defs cnt_def issue_session_def
        with_store_iff elim!: create_session_Inr)
  then have "organization (snd ?b) = Inr \<lparr>og_name = ''org'', og_totp = False, og_password = True\<rparr>"
    by (simp add: i organization_rows)
  with steps show ?thesis by (metis organization_row.select_convs(1))
qed

theorem never_locked_out_witness:
  "\<exists>d org. organization d = Inr org \<and> og_name org = ''org'' \<and>
     (password_login_available demo_service org d = Inr True \<or> external_login_available demo_service d = Inr True)"
proof -
  obtain d org where d: "(service_step demo_service)\<^sup>*\<^sup>* empty_core d" "organization d = Inr org" "og_name org = ''org''"
    using demo_bootstrap by blast
  from never_locked_out [OF d(1,2)] d(2,3) show ?thesis by blast
qed

end
