(* ===== verification/ServiceRefusals.thy ===== *)
theory ServiceRefusals
  imports ServiceProperties
begin

text \<open>What a use case of the identity service that refuses leaves in the database: the record of the refusal.\<close>

section \<open>Refusals\<close>

text \<open>A call of the service that answers an error. The second step of a login, which spends its challenge, is
  \<open>complete_login\<close>; consuming a transaction is part of the callback, whose refusal the use cases after it record.\<close>

inductive refuses :: "service \<Rightarrow> call_context \<Rightarrow> core_db \<Rightarrow> service_error \<Rightarrow> core_db \<Rightarrow> bool" for sv cx where
  NoBootstrap: "bootstrap sv cx code org u p salt i r1 r2 d = (Inl e, d') \<Longrightarrow> refuses sv cx d e d'"
| NoTotpStart: "start_totp_enrollment sv cx i p r1 k n1 n2 r2 d = (Inl e, d') \<Longrightarrow> refuses sv cx d e d'"
| NoTotpCheck: "verify_mfa_enrollment sv cx token totp rs r d = (Inl e, d') \<Longrightarrow> refuses sv cx d e d'"
| NoTotpConfirm: "confirm_enrollment sv cx i session conf d = (Inl e, d') \<Longrightarrow> refuses sv cx d e d'"
| NoLogin: "login sv cx u p source r1 r2 d = (Inl e, d') \<Longrightarrow> refuses sv cx d e d'"
| NoRenewal: "renew_session sv cx old i p totp recovery r1 r2 d = (Inl e, d') \<Longrightarrow> refuses sv cx d e d'"
| NoStepUp: "step_up sv cx session i p totp recovery d = (Inl e, d') \<Longrightarrow> refuses sv cx d e d'"
| NoPassword: "change_own_password sv cx i current new totp salt r1 r2 d = (Inl e, d') \<Longrightarrow> refuses sv cx d e d'"
| NoUsername: "change_own_username sv cx i u current totp r1 r2 d = (Inl e, d') \<Longrightarrow> refuses sv cx d e d'"
| NoTotpEnd: "disable_own_totp sv cx i session p totp d = (Inl e, d') \<Longrightarrow> refuses sv cx d e d'"
| NoPolicy: "set_password_login sv cx i session p totp enabled d = (Inl e, d') \<Longrightarrow> refuses sv cx d e d'"
| NoOidcStart: "start_oidc_login sv cx ret r1 r2 r3 d = (Inl e, d') \<Longrightarrow> refuses sv cx d e d'"
| NoOAuthStart: "start_oauth_login sv cx ret r1 r2 r3 d = (Inl e, d') \<Longrightarrow> refuses sv cx d e d'"
| NoOidcBindingStart: "start_oidc_binding sv cx i p totp ret r1 r2 r3 d = (Inl e, d') \<Longrightarrow> refuses sv cx d e d'"
| NoOAuthBindingStart: "start_oauth_binding sv cx i p totp ret r1 r2 r3 d = (Inl e, d') \<Longrightarrow> refuses sv cx d e d'"
| NoOidcLogin: "complete_oidc_login sv cx t x r1 r2 d = (Inl e, d') \<Longrightarrow> refuses sv cx d e d'"
| NoOAuthLogin: "complete_oauth_login sv cx t x r1 r2 d = (Inl e, d') \<Longrightarrow> refuses sv cx d e d'"
| NoOidcBinding: "complete_oidc_binding cx t x session d = (Inl e, d') \<Longrightarrow> refuses sv cx d e d'"
| NoOAuthBinding: "complete_oauth_binding cx t x session d = (Inl e, d') \<Longrightarrow> refuses sv cx d e d'"
| NoOidcUnbind: "unbind_oidc sv cx i session p totp d = (Inl e, d') \<Longrightarrow> refuses sv cx d e d'"
| NoOAuthUnbind: "unbind_oauth sv cx i session p totp d = (Inl e, d') \<Longrightarrow> refuses sv cx d e d'"

text \<open>The database without the audit log, and without the time step of the last one-time password too.\<close>

definition unlogged :: "core_db \<Rightarrow> core_db" where
  "unlogged d = d\<lparr>t_audit := [], audit_seq := 0\<rparr>"

definition uncounted :: "core_db \<Rightarrow> core_db" where
  "uncounted d = d\<lparr>t_admins := map (\<lambda>a. a\<lparr>ad_totp := None\<rparr>) (t_admins d)\<rparr>"

text \<open>The events of a refusal: those of the call, each a denial, and at least one when credentials were refused.\<close>

definition silent_refusal :: "service_error \<Rightarrow> bool" where
  "silent_refusal e \<longleftrightarrow> e = AlreadyEnrolled \<or> e = EnrollmentNotPending \<or> (\<exists>c. e = FromCrypto c)"

definition denial :: "call_context \<Rightarrow> service_error \<Rightarrow> audit_row \<Rightarrow> bool" where
  "denial cx e ev \<longleftrightarrow> ae_created ev = cx_db cx \<and> ae_correlation ev = cx_corr cx \<and>
     ae_result ev = (if e = PasswordLoginDisabled then ''password_login_disabled'' else ''denied'')"

definition recorded :: "call_context \<Rightarrow> service_error \<Rightarrow> core_db \<Rightarrow> core_db \<Rightarrow> bool" where
  "recorded cx e d d' \<longleftrightarrow> (\<exists>es. t_audit d' = t_audit d @ es \<and> (es = [] \<longrightarrow> silent_refusal e) \<and> (\<forall>ev \<in> set es. denial cx e ev))"

definition turned_away :: "call_context \<Rightarrow> service_error \<Rightarrow> core_db \<Rightarrow> core_db \<Rightarrow> bool" where
  "turned_away cx e d d' \<longleftrightarrow> recorded cx e d d' \<and>
     (if e = ExternalLoginRequired \<or> e = LastExternalLogin then unlogged (uncounted d') = unlogged (uncounted d)
      else unlogged d' = unlogged d)"

lemma unlogged_record [simp]:
  "unlogged (record_audit cx a b c r d) = unlogged d"
  "unlogged (uncounted (record_audit cx a b c r d)) = unlogged (uncounted d)"
  by (simp_all add: unlogged_def uncounted_def record_audit_def append_audit_def insert_audit_event_q_def)

lemma unlogged_counted: "unlogged d' = unlogged d \<Longrightarrow> unlogged (uncounted d') = unlogged (uncounted d)"
proof -
  have "unlogged (uncounted x) = uncounted (unlogged x)" for x by (simp add: unlogged_def uncounted_def)
  then show "unlogged d' = unlogged d \<Longrightarrow> ?thesis" by simp
qed

lemma recorded_one: "t_audit d1 = t_audit d \<Longrightarrow> r = (if e = PasswordLoginDisabled then ''password_login_disabled'' else ''denied'') \<Longrightarrow>
    recorded cx e d (record_audit cx a b c r d1)"
  by (auto simp: recorded_def denial_def record_audit_def append_audit_def insert_audit_event_q_def audit_event_of_def event_def)

lemma recorded_more: "recorded cx e d d1 \<Longrightarrow> r = (if e = PasswordLoginDisabled then ''password_login_disabled'' else ''denied'') \<Longrightarrow>
    recorded cx e d (record_audit cx a b c r d1)"
  by (fastforce simp: recorded_def denial_def record_audit_def append_audit_def insert_audit_event_q_def audit_event_of_def event_def)

lemma turned_record [simp]:
  "e \<noteq> PasswordLoginDisabled \<Longrightarrow> e \<noteq> ExternalLoginRequired \<Longrightarrow> e \<noteq> LastExternalLogin \<Longrightarrow>
    turned_away cx e d (record_audit cx a b c ''denied'' d)"
  "turned_away cx PasswordLoginDisabled d (record_audit cx a b c ''password_login_disabled'' d)"
  by (simp_all add: turned_away_def recorded_one)

lemma turned_silent [simp]: "turned_away cx e d d \<longleftrightarrow> silent_refusal e"
  by (auto simp: turned_away_def recorded_def)

lemma silent_errors [simp]:
  "silent_refusal AlreadyEnrolled" "silent_refusal EnrollmentNotPending" "silent_refusal (FromCrypto c)"
  by (simp_all add: silent_refusal_def)

section \<open>Proofs of identity\<close>

lemma upd_unmatched: "distinct (map key t) \<Longrightarrow> cnt (\<lambda>r. key r = k \<and> p r) t \<noteq> 1 \<Longrightarrow> upd (\<lambda>r. key r = k \<and> p r) f t = t"
  unfolding cnt_key_and_1 by (induction t) (auto simp: upd_def)

definition factors_distinct :: "core_db \<Rightarrow> bool" where
  "factors_distinct d \<longleftrightarrow> distinct (map ad_id (t_admins d)) \<and> distinct (map recovery_key (t_recovery d))"

lemma identity_factors: "identity_ok d \<Longrightarrow> factors_distinct d"
  using identity_okD(3) [of d] distinct_admins [of d] by (simp add: factors_distinct_def factors_ok_def recovery_key_def [abs_def])

text \<open>A factor that is refused is not spent, and a password proof that is accepted advances at most the time step.\<close>

lemma refused_factor:
  assumes "verify_second_factor sv cx m totp recovery d = (False, d')" "factors_distinct d"
  shows "d' = d"
proof -
  have "d2 = d" if "consume_recovery_code i h now d = (False, d2)" for i h now d2
    using that assms(2) upd_unmatched [of recovery_key "t_recovery d" "(i, h)" recovery_free]
    by (auto simp: consume_recovery_eq factors_distinct_def)
  moreover have "d2 = d" if "use_totp i c d = (False, d2)" for i c d2
    using that assms(2) upd_unmatched [of ad_id "t_admins d" i "totp_below c"]
    by (auto simp: use_totp_eq factors_distinct_def)
  ultimately show ?thesis
    using assms(1) by (auto simp: verify_second_factor_def split: if_splits sum.splits option.splits)
qed

lemma refused_proof: "proof_of sv cx p totp recovery allow m d = (False, d') \<Longrightarrow> identity_ok d \<Longrightarrow> d' = d"
  by (auto simp: proof_of_def policy_proof_valid_def split: if_splits sum.splits dest: refused_factor identity_factors)

lemma uncounted_upd: "map (\<lambda>a. a\<lparr>ad_totp := None\<rparr>) (upd p (\<lambda>a. a\<lparr>ad_totp := Some c\<rparr>) t) = map (\<lambda>a. a\<lparr>ad_totp := None\<rparr>) t"
  by (induction t) (auto simp: upd_def)

lemma accepted_proof:
  "proof_of sv cx p totp [] allow m d = (True, d') \<Longrightarrow> t_audit d' = t_audit d \<and> unlogged (uncounted d') = unlogged (uncounted d)"
  by (auto simp: proof_of_def policy_proof_valid_def verify_second_factor_def use_totp_eq unlogged_def uncounted_def uncounted_upd
      split: if_splits sum.splits option.splits)

lemma issue_errors: "issue_session sv cx r1 r2 m auth d = (Inl e, d') \<Longrightarrow> \<exists>s. e = FromStore s"
  by (auto simp: issue_session_def Let_def with_store_iff)

lemma unbind_errors: "reject_last_external_unbind ready other d = Inl e \<Longrightarrow> (\<exists>s. e = FromStore s) \<or> e = LastExternalLogin"
  by (auto simp: reject_last_external_unbind_def split: sum.splits if_splits)

section \<open>The use cases\<close>

lemmas refusal_simps = with_store_iff denied_def Let_def

lemmas refusal_dests = refused_proof issue_errors

lemma turned_accepted:
  "proof_of sv cx p totp [] allow m d = (True, d1) \<Longrightarrow> e = ExternalLoginRequired \<or> e = LastExternalLogin \<Longrightarrow>
    turned_away cx e d (record_audit cx a b c ''denied'' d1)"
  using accepted_proof [of sv cx p totp allow m d d1] by (auto simp: turned_away_def recorded_one)

lemma refused_setup:
  "bootstrap sv cx code org u p salt i r1 r2 d = (Inl e, d') \<Longrightarrow> identity_ok d \<Longrightarrow> \<forall>s. e \<noteq> FromStore s \<Longrightarrow> turned_away cx e d d'"
  "start_totp_enrollment sv cx i p r1 k n1 n2 r2 d = (Inl e, d') \<Longrightarrow> identity_ok d \<Longrightarrow> \<forall>s. e \<noteq> FromStore s \<Longrightarrow> turned_away cx e d d'"
  "verify_mfa_enrollment sv cx token totp rs r d = (Inl e, d') \<Longrightarrow> identity_ok d \<Longrightarrow> \<forall>s. e \<noteq> FromStore s \<Longrightarrow> turned_away cx e d d'"
  "confirm_enrollment sv cx i session conf d = (Inl e, d') \<Longrightarrow> identity_ok d \<Longrightarrow> \<forall>s. e \<noteq> FromStore s \<Longrightarrow> turned_away cx e d d'"
  by (auto simp: bootstrap_def start_totp_enrollment_def verify_mfa_enrollment_def confirm_enrollment_def refusal_simps
      split: if_splits sum.splits prod.splits dest: refusal_dests)

lemma refused_login: "login sv cx u p source r1 r2 d = (Inl e, d') \<Longrightarrow> identity_ok d \<Longrightarrow> \<forall>s. e \<noteq> FromStore s \<Longrightarrow> turned_away cx e d d'"
  by (auto simp: login_def refusal_simps split: if_splits sum.splits prod.splits dest: refusal_dests)

lemma refused_account:
  "renew_session sv cx old i p totp recovery r1 r2 d = (Inl e, d') \<Longrightarrow> identity_ok d \<Longrightarrow> \<forall>s. e \<noteq> FromStore s \<Longrightarrow> turned_away cx e d d'"
  "step_up sv cx session i p totp recovery d = (Inl e, d') \<Longrightarrow> identity_ok d \<Longrightarrow> \<forall>s. e \<noteq> FromStore s \<Longrightarrow> turned_away cx e d d'"
  "change_own_password sv cx i p new totp salt r1 r2 d = (Inl e, d') \<Longrightarrow> identity_ok d \<Longrightarrow> \<forall>s. e \<noteq> FromStore s \<Longrightarrow> turned_away cx e d d'"
  "change_own_username sv cx i u p totp r1 r2 d = (Inl e, d') \<Longrightarrow> identity_ok d \<Longrightarrow> \<forall>s. e \<noteq> FromStore s \<Longrightarrow> turned_away cx e d d'"
  by (auto simp: renew_session_def step_up_def change_own_password_def change_own_username_def refusal_simps
      split: if_splits sum.splits prod.splits dest: refusal_dests)

lemma refused_totp_end: "disable_own_totp sv cx i session p totp d = (Inl e, d') \<Longrightarrow> identity_ok d \<Longrightarrow> \<forall>s. e \<noteq> FromStore s \<Longrightarrow> turned_away cx e d d'"
  by (auto simp: disable_own_totp_def refusal_simps split: if_splits sum.splits prod.splits dest: refused_factor identity_factors)

lemma refused_policy: "set_password_login sv cx i session p totp enabled d = (Inl e, d') \<Longrightarrow> identity_ok d \<Longrightarrow> \<forall>s. e \<noteq> FromStore s \<Longrightarrow> turned_away cx e d d'"
  by (auto simp: set_password_login_def refusal_simps turned_accepted split: if_splits sum.splits prod.splits dest: refusal_dests)

lemma refused_start:
  "start_oidc_login sv cx ret r1 r2 r3 d = (Inl e, d') \<Longrightarrow> identity_ok d \<Longrightarrow> \<forall>s. e \<noteq> FromStore s \<Longrightarrow> turned_away cx e d d'"
  "start_oauth_login sv cx ret r1 r2 r3 d = (Inl e, d') \<Longrightarrow> identity_ok d \<Longrightarrow> \<forall>s. e \<noteq> FromStore s \<Longrightarrow> turned_away cx e d d'"
  "start_oidc_binding sv cx i p totp ret r1 r2 r3 d = (Inl e, d') \<Longrightarrow> identity_ok d \<Longrightarrow> \<forall>s. e \<noteq> FromStore s \<Longrightarrow> turned_away cx e d d'"
  "start_oauth_binding sv cx i p totp ret r1 r2 r3 d = (Inl e, d') \<Longrightarrow> identity_ok d \<Longrightarrow> \<forall>s. e \<noteq> FromStore s \<Longrightarrow> turned_away cx e d d'"
  by (auto simp: start_oidc_login_def start_oauth_login_def start_login_with_def start_oidc_binding_def start_oauth_binding_def
      start_binding_with_def begin_transaction_def refusal_simps split: if_splits sum.splits prod.splits dest: refusal_dests)

lemma refused_complete:
  "complete_oidc_login sv cx t x r1 r2 d = (Inl e, d') \<Longrightarrow> identity_ok d \<Longrightarrow> \<forall>s. e \<noteq> FromStore s \<Longrightarrow> turned_away cx e d d'"
  "complete_oauth_login sv cx t x r1 r2 d = (Inl e, d') \<Longrightarrow> identity_ok d \<Longrightarrow> \<forall>s. e \<noteq> FromStore s \<Longrightarrow> turned_away cx e d d'"
  "complete_oidc_binding cx t x session d = (Inl e, d') \<Longrightarrow> identity_ok d \<Longrightarrow> \<forall>s. e \<noteq> FromStore s \<Longrightarrow> turned_away cx e d d'"
  "complete_oauth_binding cx t x session d = (Inl e, d') \<Longrightarrow> identity_ok d \<Longrightarrow> \<forall>s. e \<noteq> FromStore s \<Longrightarrow> turned_away cx e d d'"
  by (auto simp: complete_oidc_login_def complete_oauth_login_def complete_login_with_def complete_oidc_binding_def
      complete_oauth_binding_def complete_binding_with_def refusal_simps
      split: if_splits sum.splits prod.splits option.splits dest: refusal_dests)

lemma refused_unbind:
  "unbind_oidc sv cx i session p totp d = (Inl e, d') \<Longrightarrow> identity_ok d \<Longrightarrow> \<forall>s. e \<noteq> FromStore s \<Longrightarrow> turned_away cx e d d'"
  "unbind_oauth sv cx i session p totp d = (Inl e, d') \<Longrightarrow> identity_ok d \<Longrightarrow> \<forall>s. e \<noteq> FromStore s \<Longrightarrow> turned_away cx e d d'"
  by (auto simp: unbind_oidc_def unbind_oauth_def unbind_with_def refusal_simps
      split: if_splits sum.splits prod.splits dest: refusal_dests dest!: unbind_errors intro: turned_accepted)

lemma refused_use_case:
  assumes "refuses sv cx d e d'" "identity_ok d" "\<forall>s. e \<noteq> FromStore s"
  shows "turned_away cx e d d'"
  using assms
  by (cases rule: refuses.cases) (rule refused_setup refused_login refused_account refused_totp_end refused_policy refused_start
    refused_complete refused_unbind, assumption+)+

text \<open>A challenge that is looked for with its token and its source, and is neither used nor expired, is marked used.\<close>

definition spend_challenge :: "string \<Rightarrow> string \<Rightarrow> time \<Rightarrow> core_db \<Rightarrow> core_db" where
  "spend_challenge token source now d =
     d\<lparr>t_challenges := upd (\<lambda>c. lc_token c = token \<and> lc_source c = source \<and> lc_used c = None \<and> now < lc_expires c)
       (\<lambda>c. c\<lparr>lc_used := Some now\<rparr>) (t_challenges d)\<rparr>"

lemma turned_twice: "e \<noteq> PasswordLoginDisabled \<Longrightarrow> e \<noteq> ExternalLoginRequired \<Longrightarrow> e \<noteq> LastExternalLogin \<Longrightarrow>
    turned_away cx e d (record_audit cx a b c ''denied'' (record_audit cx a2 b2 c2 ''denied'' d))"
  by (simp add: turned_away_def recorded_more recorded_one)

lemma refused_second_step:
  assumes "complete_login sv cx ch source totp recovery r1 r2 d = (Inl e, d')" "identity_ok d" "\<forall>s. e \<noteq> FromStore s"
  shows "if e = InvalidCredentials then (\<exists>c \<in> set (t_challenges d). lc_token c = hash sv ch \<and> lc_source c = source \<and>
      lc_used c = None \<and> cx_now cx < lc_expires c) \<and> turned_away cx e (spend_challenge (hash sv ch) source (cx_now cx) d) d'
    else turned_away cx e d d'"
proof (cases "consume_login_challenge (hash sv ch) source (cx_now cx) d")
  case (Inl e1)
  with assms show ?thesis by (auto simp: complete_login_def refusal_simps split: if_splits)
next
  case (Inr v)
  obtain i dc where v: "v = (i, dc)" by fastforce
  obtain c where c: "c \<in> set (t_challenges d)" "lc_token c = hash sv ch" "lc_source c = source" "lc_used c = None"
    "cx_now cx < lc_expires c" and dc: "dc = spend_challenge (hash sv ch) source (cx_now cx) d"
    by (rule consume_challenge_Inr [OF Inr [unfolded v]]) (simp add: spend_challenge_def)
  have distinct: "factors_distinct dc"
    using identity_factors [OF assms(2)] by (simp add: dc spend_challenge_def factors_distinct_def)
  have "e = InvalidCredentials \<Longrightarrow> turned_away cx e dc d'" "e \<noteq> InvalidCredentials \<Longrightarrow> turned_away cx e d d'"
    using assms(1,3) distinct
    by (auto simp: complete_login_def refusal_simps Inr v turned_twice split: if_splits sum.splits prod.splits
        dest: refused_factor issue_errors)
  with c show ?thesis by (auto simp: dc)
qed


text \<open>A wrong password at a renewal leaves the Session that was to be renewed.\<close>

definition demo_renewal :: "session_out answer" where
  "demo_renewal = renew_session demo_service demo_context ''s'' ''adm'' ''guess'' [] [] ''r1'' ''r2'' demo_core"

lemma demo_renewal_refused: "fst demo_renewal = Inl InvalidCredentials"
  by (simp add: demo_renewal_def renew_session_def member_by_id_def member_by_id_q_def row_of_def one_def demo_core_def
      proof_of_def password_matches_def verify_password_def denied_def)


end
