(* ===== verification/RateLimit.thy ===== *)
theory RateLimit
  imports Prelude "HOL-Library.AList"
begin

text \<open>
  The limiter of failed authentication attempts, \<open>core/internal/identity/rate_limit.go\<close>: a map from client addresses to
  buckets, each a count of failures and the start of its five-minute window. The map is an association list; the element
  that Go's randomized iteration yields first, which the limiter evicts when it is full, is an argument. Each method runs
  under the mutex of the limiter, so the limiter's history is a sequence of calls. The lemmas show that the map never
  holds more than 10000 buckets, and that as long as no more clients fail, every client is limited as if it were
  alone.
\<close>

section \<open>The limiter\<close>

definition auth_failure_limit :: int where
  "auth_failure_limit = 5"

definition auth_failure_window :: duration where
  "auth_failure_window = 5 * minute"

definition max_failure_buckets :: nat where
  "max_failure_buckets = 10000"

record failure_bucket =
  fb_count :: int
  fb_start :: time

type_synonym limiter = "(string \<times> failure_bucket) list"

definition bucket_expired :: "time \<Rightarrow> failure_bucket \<Rightarrow> bool" where
  "bucket_expired now b \<longleftrightarrow> \<not> now < fb_start b + auth_failure_window"

definition limited :: "string \<Rightarrow> time \<Rightarrow> limiter \<Rightarrow> (bool \<times> duration) \<times> limiter" where
  "limited key now m =
     (case map_of m key of
        None \<Rightarrow> ((False, 0), AList.delete key m)
      | Some b \<Rightarrow>
          if bucket_expired now b then ((False, 0), AList.delete key m)
          else if fb_count b < auth_failure_limit then ((False, 0), m)
          else ((True, fb_start b + auth_failure_window - now), m))"

text \<open>The two loops over the full map: the expired buckets go, then, when that freed none, the first one the iteration yields.\<close>

definition sweep :: "time \<Rightarrow> limiter \<Rightarrow> limiter" where
  "sweep now m = (if max_failure_buckets \<le> length m then filter (\<lambda>(k, b). \<not> bucket_expired now b) m else m)"

definition evict :: "nat \<Rightarrow> limiter \<Rightarrow> limiter" where
  "evict pick m = (if max_failure_buckets \<le> length m then AList.delete (fst (m ! (pick mod length m))) m else m)"

definition failed :: "string \<Rightarrow> time \<Rightarrow> nat \<Rightarrow> limiter \<Rightarrow> limiter" where
  "failed key now pick m =
     (case map_of m key of
        Some b \<Rightarrow>
          if bucket_expired now b
          then AList.update key \<lparr>fb_count = 1, fb_start = now\<rparr> (evict pick (sweep now m))
          else AList.update key (b\<lparr>fb_count := fb_count b + 1\<rparr>) m
      | None \<Rightarrow> AList.update key \<lparr>fb_count = 1, fb_start = now\<rparr> (evict pick (sweep now m)))"

definition succeeded :: "string \<Rightarrow> limiter \<Rightarrow> limiter" where
  "succeeded key m = AList.delete key m"

section \<open>Histories\<close>

datatype attempt = Asked string time | Failed string time nat | Succeeded string

fun limiter_step :: "limiter \<Rightarrow> attempt \<Rightarrow> limiter" where
  "limiter_step m (Asked k t) = snd (limited k t m)"
| "limiter_step m (Failed k t p) = failed k t p m"
| "limiter_step m (Succeeded k) = succeeded k m"

definition limiter_run :: "attempt list \<Rightarrow> limiter" where
  "limiter_run es = foldl limiter_step [] es"

fun attempt_time :: "attempt \<Rightarrow> time option" where
  "attempt_time (Asked k t) = Some t"
| "attempt_time (Failed k t p) = Some t"
| "attempt_time (Succeeded k) = None"

text \<open>The clock does not run backwards: the instants of the calls are in order and none is after \<open>now\<close>.\<close>

definition in_order :: "attempt list \<Rightarrow> time \<Rightarrow> bool" where
  "in_order es now \<longleftrightarrow> sorted (List.map_filter attempt_time es @ [now])"

fun failing_client :: "attempt \<Rightarrow> string option" where
  "failing_client (Failed k t p) = Some k"
| "failing_client _ = None"

definition failing_clients :: "attempt list \<Rightarrow> string set" where
  "failing_clients es = set (List.map_filter failing_client es)"

text \<open>
  The limit of one client, as if it were alone: its failures are counted in windows of five minutes, each opened by the first
  failure after the previous window, and a success forgets them.
\<close>

fun client_bucket_step :: "string \<Rightarrow> failure_bucket option \<Rightarrow> attempt \<Rightarrow> failure_bucket option" where
  "client_bucket_step key b (Failed k t p) =
     (if k \<noteq> key then b
      else case b of
        Some x \<Rightarrow> if bucket_expired t x then Some \<lparr>fb_count = 1, fb_start = t\<rparr> else Some (x\<lparr>fb_count := fb_count x + 1\<rparr>)
      | None \<Rightarrow> Some \<lparr>fb_count = 1, fb_start = t\<rparr>)"
| "client_bucket_step key b (Succeeded k) = (if k = key then None else b)"
| "client_bucket_step key b (Asked k t) = b"

definition client_bucket :: "string \<Rightarrow> attempt list \<Rightarrow> failure_bucket option" where
  "client_bucket key es = foldl (client_bucket_step key) None es"

definition client_limited :: "string \<Rightarrow> time \<Rightarrow> attempt list \<Rightarrow> bool \<times> duration" where
  "client_limited key now es =
     (case client_bucket key es of
        None \<Rightarrow> (False, 0)
      | Some b \<Rightarrow>
          if now < fb_start b + auth_failure_window \<and> auth_failure_limit \<le> fb_count b
          then (True, fb_start b + auth_failure_window - now) else (False, 0))"

text \<open>The failures of a client later than an instant.\<close>

definition failures_since :: "string \<Rightarrow> time \<Rightarrow> attempt list \<Rightarrow> int" where
  "failures_since key since es = int (length (filter (\<lambda>e. \<exists>t p. e = Failed key t p \<and> since \<le> t) es))"

section \<open>Facts\<close>

lemma map_filter_append: "List.map_filter f (xs @ ys) = List.map_filter f xs @ List.map_filter f ys"
  by (simp add: List.map_filter_def)

lemma bucket_expired_mono: "bucket_expired t b \<Longrightarrow> t \<le> now \<Longrightarrow> bucket_expired now b"
  by (simp add: bucket_expired_def)

lemma limiter_run_snoc [simp]: "limiter_run (es @ [e]) = limiter_step (limiter_run es) e"
  by (simp add: limiter_run_def)

lemma client_bucket_snoc [simp]: "client_bucket key (es @ [e]) = client_bucket_step key (client_bucket key es) e"
  by (simp add: client_bucket_def)

lemma limiter_run_Nil [simp]: "limiter_run [] = []"
  by (simp add: limiter_run_def)

lemma client_bucket_Nil [simp]: "client_bucket key [] = None"
  by (simp add: client_bucket_def)

lemma distinct_keys_filter: "distinct (map fst m) \<Longrightarrow> distinct (map fst (filter p m))"
  by (rule distinct_map_filter)

lemma distinct_sweep: "distinct (map fst m) \<Longrightarrow> distinct (map fst (sweep now m))"
  by (simp add: sweep_def distinct_keys_filter)

lemma distinct_evict: "distinct (map fst m) \<Longrightarrow> distinct (map fst (evict pick m))"
  by (simp add: evict_def distinct_delete)

lemma map_of_filter_values:
  "distinct (map fst m) \<Longrightarrow>
     map_of (filter (\<lambda>(k, b). p b) m) key = (case map_of m key of None \<Rightarrow> None | Some b \<Rightarrow> if p b then Some b else None)"
  by (induction m) (auto split: option.splits simp: map_of_eq_None_iff image_iff)

lemma max_pos: "0 < max_failure_buckets"
  by (simp add: max_failure_buckets_def)

lemma length_update: "length (AList.update k v m) = (if k \<in> fst ` set m then length m else Suc (length m))"
  by (induction m) auto

lemma length_delete_le: "length (AList.delete k m) \<le> length m"
  by (simp add: AList.delete_eq)

lemma length_delete_key: "k \<in> fst ` set m \<Longrightarrow> length (AList.delete k m) < length m"
  by (induction m) (auto simp: le_imp_less_Suc [OF length_delete_le])

lemma length_evict: "length m \<le> max_failure_buckets \<Longrightarrow> length (evict pick m) < max_failure_buckets"
proof (cases "max_failure_buckets \<le> length m")
  case True
  assume "length m \<le> max_failure_buckets"
  moreover have "0 < length m"
    using max_pos True by (rule less_le_trans)
  then have "fst (m ! (pick mod length m)) \<in> fst ` set m"
    by simp
  ultimately show ?thesis
    using True length_delete_key [of "fst (m ! (pick mod length m))" m] by (simp add: evict_def)
qed (simp add: evict_def)

lemma length_sweep: "length (sweep now m) \<le> length m"
  by (simp add: sweep_def)

lemma limiter_distinct: "distinct (map fst m) \<Longrightarrow> distinct (map fst (limiter_step m e))"
  by (cases e)
    (auto simp: limited_def failed_def succeeded_def distinct_sweep distinct_evict distinct_update distinct_delete
      split: option.splits)

lemma failed_length: "length m \<le> max_failure_buckets \<Longrightarrow> length (failed k t p m) \<le> max_failure_buckets"
proof -
  assume le: "length m \<le> max_failure_buckets"
  have "length (evict p (sweep t m)) < max_failure_buckets"
    by (rule length_evict) (rule le_trans [OF length_sweep le])
  then have new: "length (AList.update k v (evict p (sweep t m))) \<le> max_failure_buckets" for v
    by (simp add: length_update)
  show ?thesis
  proof (cases "map_of m k")
    case None
    then show ?thesis using new by (simp add: failed_def)
  next
    case (Some b)
    then have "k \<in> fst ` set m"
      by (metis map_of_eq_None_iff option.distinct(1))
    then show ?thesis
      using Some new le by (simp add: failed_def length_update)
  qed
qed

lemma limiter_step_length:
  "length m \<le> max_failure_buckets \<Longrightarrow> length (limiter_step m e) \<le> max_failure_buckets"
proof (cases e)
  case (Asked k t)
  assume "length m \<le> max_failure_buckets"
  then show ?thesis
    using Asked length_delete_le [of k m] by (auto simp: limited_def split: option.splits)
next
  case (Failed k t p)
  assume "length m \<le> max_failure_buckets"
  then show ?thesis using Failed by (simp add: failed_length)
next
  case (Succeeded k)
  assume "length m \<le> max_failure_buckets"
  then show ?thesis using Succeeded length_delete_le [of k m] by (simp add: succeeded_def)
qed

lemma limiter_bounded: "distinct (map fst (limiter_run es)) \<and> length (limiter_run es) \<le> max_failure_buckets"
  by (induction es rule: rev_induct) (simp_all add: limiter_distinct limiter_step_length)

section \<open>Every client as if it were alone\<close>

definition agrees :: "time \<Rightarrow> limiter \<Rightarrow> attempt list \<Rightarrow> bool" where
  "agrees now m es \<longleftrightarrow> (\<forall>key. map_of m key = client_bucket key es \<or>
     map_of m key = None \<and> (\<exists>b. client_bucket key es = Some b \<and> bucket_expired now b))"

lemma agreesE:
  assumes "agrees now m es"
  obtains "map_of m key = client_bucket key es"
  | b where "map_of m key = None" "client_bucket key es = Some b" "bucket_expired now b"
  using assms by (auto simp: agrees_def)

lemma agrees_mono: "agrees t m es \<Longrightarrow> t \<le> now \<Longrightarrow> agrees now m es"
  unfolding agrees_def by (meson bucket_expired_mono)

lemma keys_length: "distinct (map fst m) \<Longrightarrow> length m = card (fst ` set m)"
  by (metis distinct_card length_map list.set_map)

lemma room_for_client:
  assumes "distinct (map fst m)" "fst ` set m \<subseteq> K" "finite K" "card K \<le> max_failure_buckets" "k \<in> K" "k \<notin> fst ` set m"
  shows "length m < max_failure_buckets"
proof -
  have "card (fst ` set m) \<le> card (K - {k})"
    using assms by (intro card_mono) auto
  also have "\<dots> < card K"
    using assms by (intro card_Diff1_less)
  finally show ?thesis
    using assms keys_length [of m] by simp
qed

text \<open>A failure of a client opens or fills its own bucket, and may only sweep expired buckets of others.\<close>

lemma failed_own: "map_of (failed k t p m) k = client_bucket_step k (map_of m k) (Failed k t p)"
  by (simp add: failed_def update_conv' split: option.split)

lemma sweep_lookup:
  assumes "distinct (map fst m)"
  obtains "map_of (sweep t m) key = map_of m key"
  | b where "map_of (sweep t m) key = None" "map_of m key = Some b" "bucket_expired t b"
proof (cases "max_failure_buckets \<le> length m")
  case True
  then have "map_of (sweep t m) key =
      (case map_of m key of None \<Rightarrow> None | Some b \<Rightarrow> if \<not> bucket_expired t b then Some b else None)"
    unfolding sweep_def by (simp only: if_True map_of_filter_values [OF assms, of "\<lambda>b. \<not> bucket_expired t b"])
  then show ?thesis
    using that by (cases "map_of m key") (auto split: if_splits)
qed (use that in \<open>simp add: sweep_def\<close>)

lemma swept_room:
  assumes m: "distinct (map fst m)" "fst ` set m \<subseteq> K" and K: "finite K" "card K \<le> max_failure_buckets" "k \<in> K"
    and open_window: "\<And>b. map_of m k = Some b \<Longrightarrow> bucket_expired t b"
  shows "evict p (sweep t m) = sweep t m"
proof -
  have "length (sweep t m) < max_failure_buckets"
  proof (cases "max_failure_buckets \<le> length m")
    case True
    have "map_of (sweep t m) k = None"
      by (rule sweep_lookup [OF m(1), of t k]) (use True open_window map_of_filter_values [OF m(1)] in
        \<open>auto simp: sweep_def split: option.splits\<close>)
    then have "k \<notin> fst ` set (sweep t m)"
      by (simp add: map_of_eq_None_iff)
    moreover have "fst ` set (sweep t m) \<subseteq> K"
      using m(2) by (auto simp: sweep_def)
    ultimately show ?thesis
      using K distinct_sweep [OF m(1)] by (intro room_for_client)
  next
    case False
    then show ?thesis by (simp add: sweep_def)
  qed
  then show ?thesis by (simp add: evict_def)
qed

lemma failed_other:
  assumes m: "distinct (map fst m)" "fst ` set m \<subseteq> K" and K: "finite K" "card K \<le> max_failure_buckets" "k \<in> K"
    and other: "key \<noteq> k"
  obtains "map_of (failed k t p m) key = map_of m key"
  | b where "map_of (failed k t p m) key = None" "map_of m key = Some b" "bucket_expired t b"
proof (cases "\<exists>b. map_of m k = Some b \<and> \<not> bucket_expired t b")
  case True
  then show ?thesis
    using other that(1) by (auto simp: failed_def update_conv')
next
  case False
  then have "map_of (failed k t p m) key = map_of (evict p (sweep t m)) key"
    using other by (auto simp: failed_def update_conv' split: option.split)
  also have "evict p (sweep t m) = sweep t m"
    using False by (intro swept_room [OF m K]) auto
  finally show ?thesis
    using that by (metis sweep_lookup [OF m(1)])
qed

lemma failing_clients_snoc:
  "failing_clients (es @ [e]) = failing_clients es \<union> set_option (failing_client e)"
  by (auto simp: failing_clients_def List.map_filter_def)

lemma limiter_keys: "fst ` set (limiter_run es) \<subseteq> failing_clients es"
proof (induction es rule: rev_induct)
  case (snoc e es)
  have "fst ` set (limiter_step m e) \<subseteq> fst ` set m \<union> set_option (failing_client e)" for m
  proof (cases e)
    case (Failed k t p)
    have "fst ` set (evict p (sweep t m)) \<subseteq> fst ` set m"
      by (auto simp: evict_def sweep_def AList.delete_eq)
    then show ?thesis
      using Failed by (auto simp: failed_def dom_update split: option.splits)
  qed (auto simp: limited_def succeeded_def AList.delete_eq split: option.splits)
  with snoc show ?case
    by (simp add: failing_clients_snoc) blast
qed (simp add: failing_clients_def)

lemma finite_failing_clients [simp]: "finite (failing_clients es)"
  by (simp add: failing_clients_def)

lemma in_order_snoc:
  "in_order (es @ [e]) now \<Longrightarrow> (case attempt_time e of None \<Rightarrow> in_order es now | Some t \<Rightarrow> in_order es t \<and> t \<le> now)"
  by (auto simp: in_order_def List.map_filter_def sorted_append split: option.split)

lemma asked_agrees: "agrees t m es \<Longrightarrow> agrees t (snd (limited k t m)) (es @ [Asked k t])"
proof -
  assume a: "agrees t m es"
  have same: "agrees t m (es @ [Asked k t])"
    using a by (simp add: agrees_def)
  show ?thesis
  proof (cases "map_of m k")
    case None
    then have "map_of (AList.delete k m) = map_of m"
      by (simp add: delete_conv' fun_upd_idem)
    then show ?thesis
      using None same by (simp add: limited_def agrees_def)
  next
    case (Some b)
    show ?thesis
    proof (cases "bucket_expired t b")
      case True
      have "client_bucket k es = Some b"
        by (rule agreesE [OF a, of k]) (use Some in auto)
      then show ?thesis
        using Some True same by (auto simp: limited_def agrees_def delete_conv')
    qed (use Some same in \<open>auto simp: limited_def\<close>)
  qed
qed

lemma failed_agrees:
  assumes m: "distinct (map fst m)" "fst ` set m \<subseteq> K" and K: "finite K" "card K \<le> max_failure_buckets" "k \<in> K"
    and a: "agrees t m es"
  shows "agrees t (failed k t p m) (es @ [Failed k t p])"
  unfolding agrees_def client_bucket_snoc
proof (rule allI)
  fix key
  show "map_of (failed k t p m) key = client_bucket_step key (client_bucket key es) (Failed k t p) \<or>
    map_of (failed k t p m) key = None \<and>
      (\<exists>b. client_bucket_step key (client_bucket key es) (Failed k t p) = Some b \<and> bucket_expired t b)"
  proof (cases "key = k")
    case True
    show ?thesis
      by (rule agreesE [OF a, of k]) (use True failed_own [of k t p m] in \<open>auto split: option.split\<close>)
  next
    case False
    show ?thesis
      by (rule failed_other [OF m K False, of t p]; rule agreesE [OF a, of key]) (use False in auto)
  qed
qed

lemma limiter_agrees:
  "in_order es now \<Longrightarrow> card (failing_clients es) \<le> max_failure_buckets \<Longrightarrow> agrees now (limiter_run es) es"
proof (induction es arbitrary: now rule: rev_induct)
  case Nil
  then show ?case by (simp add: agrees_def)
next
  case (snoc e es)
  let ?m = "limiter_run es"
  have le: "card (failing_clients es) \<le> max_failure_buckets"
    using snoc.prems(2) by (rule order_trans [rotated]) (auto simp: failing_clients_snoc intro: card_mono)
  show ?case
  proof (cases e)
    case (Asked k t)
    then have "agrees t ?m es" "t \<le> now"
      using in_order_snoc [OF snoc.prems(1)] snoc.IH [OF _ le] by auto
    then show ?thesis
      using Asked asked_agrees [of t ?m es k] by (auto intro: agrees_mono)
  next
    case (Failed k t p)
    then have "agrees t ?m es" "t \<le> now"
      using in_order_snoc [OF snoc.prems(1)] snoc.IH [OF _ le] by auto
    moreover have "agrees t (failed k t p ?m) (es @ [Failed k t p])" if "agrees t ?m es"
      using limiter_bounded [of es] limiter_keys [of es] snoc.prems(2) Failed that
      by (intro failed_agrees [where K = "failing_clients (es @ [e])"]) (auto simp: failing_clients_snoc)
    ultimately show ?thesis
      using Failed by (auto intro: agrees_mono)
  next
    case (Succeeded k)
    then have "agrees now ?m es"
      using in_order_snoc [OF snoc.prems(1)] snoc.IH [OF _ le] by auto
    then show ?thesis
      using Succeeded by (auto simp: agrees_def succeeded_def delete_conv')
  qed
qed

lemma limited_answer:
  "agrees now m es \<Longrightarrow> fst (limited key now m) = client_limited key now es"
  by (erule agreesE [of now m es key]) (auto simp: limited_def client_limited_def bucket_expired_def split: option.split)

lemma limiter_decision:
  "in_order es now \<Longrightarrow> card (failing_clients es) \<le> max_failure_buckets \<Longrightarrow>
     fst (limited key now (limiter_run es)) = client_limited key now es"
  by (rule limited_answer) (rule limiter_agrees)

text \<open>The bucket of a client never counts more failures than the client had since the start of the window.\<close>

lemma sub_lookup: "map_of (evict p (sweep t m)) key = Some b \<Longrightarrow> distinct (map fst m) \<Longrightarrow> map_of m key = Some b"
proof -
  assume a: "map_of (evict p (sweep t m)) key = Some b" and d: "distinct (map fst m)"
  have "map_of (sweep t m) key = Some b"
    using a by (auto simp: evict_def delete_conv' split: if_splits)
  with sweep_lookup [OF d, of t key] show ?thesis by fastforce
qed

lemma step_lookup:
  assumes "map_of (limiter_step m e) key = Some b" "distinct (map fst m)"
  obtains (same) "map_of m key = Some b"
  | (failure) t p where "e = Failed key t p" "client_bucket_step key (map_of m key) e = Some b"
proof (cases e)
  case (Asked k t)
  then show ?thesis
    using assms same by (auto simp: limited_def delete_conv' split: option.splits if_splits)
next
  case (Failed k t p)
  show ?thesis
  proof (cases "key = k")
    case True
    then show ?thesis
      using assms Failed failure failed_own [of k t p m] by simp
  next
    case False
    then show ?thesis
      using assms Failed same sub_lookup [of p t m key b]
      by (auto simp: failed_def update_conv' split: option.splits if_splits)
  qed
next
  case (Succeeded k)
  then show ?thesis
    using assms same by (auto simp: succeeded_def delete_conv' split: if_splits)
qed

lemma failures_since_snoc:
  "failures_since key since (es @ [e]) =
     failures_since key since es + (if \<exists>t p. e = Failed key t p \<and> since \<le> t then 1 else 0)"
  by (auto simp: failures_since_def)

lemma bucket_counts:
  "map_of (limiter_run es) key = Some b \<Longrightarrow> in_order es now \<Longrightarrow>
     fb_count b \<le> failures_since key (fb_start b) es \<and> fb_start b \<le> now"
proof (induction es arbitrary: b now rule: rev_induct)
  case (snoc e es)
  have m: "map_of (limiter_step (limiter_run es) e) key = Some b"
    using snoc.prems(1) by simp
  have earlier: "in_order es now"
    using snoc.prems(2) by (auto simp: in_order_def map_filter_append sorted_append)
  show ?case
  proof (rule step_lookup [OF m conjunct1 [OF limiter_bounded]])
    assume same: "map_of (limiter_run es) key = Some b"
    show ?thesis
      using snoc.IH [OF same earlier] by (simp add: failures_since_snoc)
  next
    fix t p
    assume failure: "e = Failed key t p" "client_bucket_step key (map_of (limiter_run es) key) e = Some b"
    then have t: "in_order es t" "t \<le> now"
      using in_order_snoc [OF snoc.prems(2)] by auto
    have new: "0 \<le> failures_since key t es"
      by (simp add: failures_since_def)
    show ?thesis
    proof (cases "map_of (limiter_run es) key")
      case None
      then show ?thesis
        using failure t new by (auto simp: failures_since_snoc)
    next
      case (Some c)
      with snoc.IH [OF Some t(1)] show ?thesis
        using failure t new by (auto simp: failures_since_snoc split: if_splits)
    qed
  qed
qed simp

lemma limited_sound:
  assumes "in_order es now" "fst (limited key now (limiter_run es)) = (True, wait)"
  shows "0 < wait \<and> wait \<le> auth_failure_window \<and>
    auth_failure_limit \<le> failures_since key (now + wait - auth_failure_window) es"
proof -
  obtain b where b: "map_of (limiter_run es) key = Some b"
    using assms(2) by (auto simp: limited_def split: option.splits)
  have "wait = fb_start b + auth_failure_window - now" "\<not> bucket_expired now b" "auth_failure_limit \<le> fb_count b"
    using assms(2) b by (auto simp: limited_def split: if_splits)
  moreover have "fb_count b \<le> failures_since key (fb_start b) es" "fb_start b \<le> now"
    using bucket_counts [OF b assms(1)] by simp_all
  ultimately show ?thesis
    by (auto simp: bucket_expired_def algebra_simps)
qed

section \<open>The claim\<close>

text \<open>C27: Whatever the calls of the limiter were, with a clock that does not run backwards, it holds at most 10000 buckets, a client
  it limits had at least five failures within the five minutes before the end of its wait, which is at most five minutes
  away (so no client is locked out permanently), and as long as at most 10000 clients failed, it answers to each client
  what a limiter of that client alone answers, whatever the others did.\<close>

theorem rate_limit_per_client:
  assumes "in_order es now"
  shows "length (limiter_run es) \<le> max_failure_buckets \<and>
    (\<forall>wait. fst (limited key now (limiter_run es)) = (True, wait) \<longrightarrow>
       0 < wait \<and> wait \<le> auth_failure_window \<and>
       auth_failure_limit \<le> failures_since key (now + wait - auth_failure_window) es) \<and>
    (card (failing_clients es) \<le> max_failure_buckets \<longrightarrow>
       fst (limited key now (limiter_run es)) = client_limited key now es)"
  using limiter_bounded [of es] limited_sound [OF assms] limiter_decision [OF assms] by blast

definition demo_attempts :: "attempt list" where
  "demo_attempts = concat (map (\<lambda>i. [Asked ''10.0.0.1'' i, Failed ''10.0.0.1'' i 0, Failed ''10.0.0.2'' i 0]) [0, 1, 2, 3, 4])"

lemma demo_attempts_clients: "card (failing_clients demo_attempts) \<le> max_failure_buckets"
proof -
  have "failing_clients demo_attempts = {''10.0.0.1'', ''10.0.0.2''}"
    by (auto simp: failing_clients_def demo_attempts_def List.map_filter_def)
  then show ?thesis by (simp add: max_failure_buckets_def)
qed

theorem rate_limit_per_client_witness:
  "fst (limited ''10.0.0.1'' 6 (limiter_run demo_attempts)) = (True, auth_failure_window - 6)"
proof -
  have "in_order demo_attempts 6"
    by (simp add: in_order_def demo_attempts_def List.map_filter_def)
  then have "fst (limited ''10.0.0.1'' 6 (limiter_run demo_attempts)) = client_limited ''10.0.0.1'' 6 demo_attempts"
    using rate_limit_per_client demo_attempts_clients by blast
  also have "\<dots> = (True, auth_failure_window - 6)"
    by (simp add: client_limited_def client_bucket_def demo_attempts_def bucket_expired_def auth_failure_window_def
      auth_failure_limit_def)
  finally show ?thesis .
qed

end
