(* ===== verification/GoNet.thy ===== *)
theory GoNet
  imports GoStrings "HOL-Library.Word"
begin

unbundle bit_operations_syntax

text \<open>
  The parts of Go's package \<open>net\<close> the program uses: \<open>SplitHostPort\<close>, \<open>ParseIP\<close> and \<open>IPNet.Contains\<close>. An address is the list of its
  bytes, four or sixteen; \<open>ParseIP\<close> answers sixteen, an IPv4 address after the prefix of the mapped addresses.
\<close>

type_synonym ip = "nat list"

record ip_net =
  in_ip :: ip
  in_mask :: ip

section \<open>Host and port\<close>

fun index_of :: "char \<Rightarrow> string \<Rightarrow> nat option" where
  "index_of c [] = None"
| "index_of c (d # s) = (if d = c then Some 0 else map_option Suc (index_of c s))"

definition last_index_of :: "char \<Rightarrow> string \<Rightarrow> nat option" where
  "last_index_of c s = map_option (\<lambda>i. length s - Suc i) (index_of c (rev s))"

definition split_host_port :: "string \<Rightarrow> (string \<times> string) option" where
  "split_host_port s =
     (case last_index_of (CHR '':'') s of
        None \<Rightarrow> None
      | Some i \<Rightarrow>
          if has_prefix s ''[''
          then (case index_of (CHR '']'') s of
              None \<Rightarrow> None
            | Some e \<Rightarrow>
                if Suc e \<noteq> i then None
                else if CHR ''['' \<in> set (drop 1 s) \<or> CHR '']'' \<in> set (drop (Suc e) s) then None
                else Some (take (e - 1) (drop 1 s), drop (Suc i) s))
          else if CHR '':'' \<in> set (take i s) then None
          else if CHR ''['' \<in> set s \<or> CHR '']'' \<in> set s then None
          else Some (take i s, drop (Suc i) s))"

section \<open>Addresses\<close>

definition parse_octet :: "string \<Rightarrow> nat option" where
  "parse_octet s =
     (if s = [] \<or> (1 < length s \<and> has_prefix s ''0'') \<or> 3 < length s then None
      else case parse_digits 10 0 s of None \<Rightarrow> None | Some n \<Rightarrow> if 255 < n then None else Some n)"

fun all_octets :: "string list \<Rightarrow> nat list option" where
  "all_octets [] = Some []"
| "all_octets (p # ps) = (case parse_octet p of None \<Rightarrow> None | Some n \<Rightarrow> map_option ((#) n) (all_octets ps))"

definition parse_ipv4 :: "string \<Rightarrow> ip option" where
  "parse_ipv4 s = (let ps = split_on (CHR ''.'') s in if length ps = 4 then all_octets ps else None)"

text \<open>
  The loop over the groups of an IPv6 address: what is left of the text, the bytes before it, and the number of bytes
  before the ellipsis, when there was one. The fuel is the number of groups.
\<close>

fun hex_run :: "string \<Rightarrow> string" where
  "hex_run [] = []"
| "hex_run (c # s) = (case digit_val 16 c of None \<Rightarrow> [] | Some _ \<Rightarrow> c # hex_run s)"

definition group_bytes :: "string \<Rightarrow> nat list" where
  "group_bytes h = (case parse_digits 16 0 h of None \<Rightarrow> [] | Some n \<Rightarrow> [n div 256, n mod 256])"

fun ipv6_groups :: "nat \<Rightarrow> string \<Rightarrow> nat list \<Rightarrow> nat option \<Rightarrow> (string \<times> nat list \<times> nat option) option" where
  "ipv6_groups 0 s acc ell = Some (s, acc, ell)"
| "ipv6_groups (Suc n) s acc ell =
     (let h = hex_run s; t = drop (length h) s in
      if h = [] \<or> 4 < length h then None
      else if has_prefix t ''.''
      then (if (ell = None \<and> length acc \<noteq> 12) \<or> 16 < length acc + 4 then None
        else map_option (\<lambda>v. ([], acc @ v, ell)) (parse_ipv4 s))
      else let acc' = acc @ group_bytes h in
        if t = [] then Some ([], acc', ell)
        else if \<not> has_prefix t '':'' \<or> length t = 1 then None
        else if has_prefix t ''::''
        then (if ell \<noteq> None then None
          else if length t = 2 then Some ([], acc', Some (length acc'))
          else ipv6_groups n (drop 2 t) acc' (Some (length acc')))
        else ipv6_groups n (drop 1 t) acc' ell)"

definition ipv6_expand :: "string \<times> nat list \<times> nat option \<Rightarrow> ip option" where
  "ipv6_expand r =
     (case r of (s, acc, ell) \<Rightarrow>
        if s \<noteq> [] then None
        else if length acc < 16
        then map_option (\<lambda>e. take e acc @ replicate (16 - length acc) 0 @ drop e acc) ell
        else if ell \<noteq> None then None else Some acc)"

definition parse_ipv6 :: "string \<Rightarrow> ip option" where
  "parse_ipv6 s =
     (if CHR ''%'' \<in> set s then None
      else if has_prefix s ''::''
      then (if length s = 2 then Some (replicate 16 0)
        else Option.bind (ipv6_groups 8 (drop 2 s) [] (Some 0)) ipv6_expand)
      else Option.bind (ipv6_groups 8 s [] None) ipv6_expand)"

definition ipv4_mapped :: "ip \<Rightarrow> ip" where
  "ipv4_mapped v = replicate 10 0 @ [255, 255] @ v"

definition parse_ip :: "string \<Rightarrow> ip option" where
  "parse_ip s =
     (case find (\<lambda>c. c \<in> set ''.:%'') s of
        None \<Rightarrow> None
      | Some c \<Rightarrow>
          if c = CHR ''.'' then map_option ipv4_mapped (parse_ipv4 s)
          else if c = CHR '':'' then parse_ipv6 s else None)"

section \<open>Networks\<close>

definition to4 :: "ip \<Rightarrow> ip option" where
  "to4 x =
     (if length x = 4 then Some x
      else if length x = 16 \<and> take 12 x = replicate 10 0 @ [255, 255] then Some (drop 12 x) else None)"

definition network_number_and_mask :: "ip_net \<Rightarrow> (ip \<times> ip) option" where
  "network_number_and_mask n =
     (let x = (case to4 (in_ip n) of Some v \<Rightarrow> v | None \<Rightarrow> in_ip n); m = in_mask n in
      if length x \<noteq> 4 \<and> length x \<noteq> 16 then None
      else if length m = 4 then (if length x = 4 then Some (x, m) else None)
      else if length m = 16 then Some (x, if length x = 4 then drop 12 m else m)
      else None)"

definition net_contains :: "ip_net \<Rightarrow> ip \<Rightarrow> bool" where
  "net_contains n x =
     (case network_number_and_mask n of
        None \<Rightarrow> x = []
      | Some (nn, m) \<Rightarrow>
          let y = (case to4 x of Some v \<Rightarrow> v | None \<Rightarrow> x) in
          length y = length nn \<and> list_all (\<lambda>i. nn ! i AND m ! i = y ! i AND m ! i) [0..<length y])"

section \<open>Facts\<close>

lemma all_octets_length: "all_octets ps = Some v \<Longrightarrow> length v = length ps"
  by (induction ps arbitrary: v) (auto split: option.splits)

lemma parse_ipv4_length: "parse_ipv4 s = Some v \<Longrightarrow> length v = 4"
  by (auto simp: parse_ipv4_def Let_def all_octets_length split: if_splits)

text \<open>An IPv4 network contains the mapped form of an address exactly when it contains the address.\<close>

lemma net_contains_mapped: "length v = 4 \<Longrightarrow> net_contains n (ipv4_mapped v) \<longleftrightarrow> net_contains n v"
  by (auto simp: net_contains_def to4_def ipv4_mapped_def split: option.split)

text \<open>The examples of the documentation of the package.\<close>

lemma split_host_port_examples:
  "split_host_port ''192.0.2.1:25'' = Some (''192.0.2.1'', ''25'')"
  "split_host_port ''[2001:db8::1]:80'' = Some (''2001:db8::1'', ''80'')"
  "split_host_port ''2001:db8::1'' = None"
  by (simp_all add: split_host_port_def last_index_of_def)

lemma parse_ip_examples:
  "parse_ip ''192.0.2.1'' = Some (ipv4_mapped [192, 0, 2, 1])"
  "parse_ip ''192.0.2.01'' = None"
  by (simp_all add: parse_ip_def parse_ipv4_def parse_octet_def digit_val_def numeral_2_eq_2)

lemmas ipv6_groups_numeral = ipv6_groups.simps(2) [where n = "pred_numeral k", folded numeral_eq_Suc] for k

lemma replicate_numeral: "replicate (numeral k) x = x # replicate (pred_numeral k) x"
  by (simp add: numeral_eq_Suc)

lemma parse_ip6_examples:
  "parse_ip ''::ffff:192.0.2.1'' = Some [0, 0, 0, 0, 0, 0, 0, 0, 0, 0, 255, 255, 192, 0, 2, 1]"
  "parse_ip ''2001:db8::68'' = Some [32, 1, 13, 184, 0, 0, 0, 0, 0, 0, 0, 0, 0, 0, 0, 104]"
  "parse_ip ''1:2:3:4:5:6:7::8'' = None"
  by (simp_all add: parse_ip_def parse_ipv6_def parse_ipv4_def parse_octet_def digit_val_def ipv6_expand_def group_bytes_def
    ipv6_groups_numeral replicate_numeral)

end
