(* ===== verification/Middleware.thy ===== *)
theory Middleware
  imports IdentityService GoNet
begin

text \<open>
  The HTTP middleware, \<open>core/internal/middleware/\<close>: the session gate of the management surface, the trust boundary of the Agent
  surface, CORS, and the helpers the handlers share. A handler is a function of the request and a state (the database)
  to a reply and the state after it; a middleware is a function from handlers to handlers. A request carries what the source
  reads of it, with the two values the middlewares put into its context. A reply with an error envelope is
  \<open>Refused\<close> with the status and the machine-readable code; the human-readable messages are left out. A handler that panics gives \<open>Dropped\<close>: the
  server recovers and closes the connection without a reply.
\<close>

section \<open>Requests and replies\<close>

record request =
  rq_method :: string
  rq_uri :: string
  rq_remote :: string
  rq_header :: "string \<Rightarrow> string"
  rq_cookie :: "string \<Rightarrow> string option"
  rq_query :: "string \<Rightarrow> string"
  rq_session :: "session_state option"
  rq_serial :: "string option"

datatype 'b reply = Refused nat string | Replied nat 'b | Dropped

type_synonym ('s, 'b) handler = "request \<Rightarrow> 's \<Rightarrow> 'b reply \<times> 's"

definition code_bad_request :: string where "code_bad_request = ''bad_request''"
definition code_unauthorized :: string where "code_unauthorized = ''unauthorized''"
definition code_forbidden :: string where "code_forbidden = ''forbidden''"
definition code_not_found :: string where "code_not_found = ''not_found''"
definition code_conflict :: string where "code_conflict = ''conflict''"
definition code_duplicate :: string where "code_duplicate = ''duplicate''"
definition code_internal :: string where "code_internal = ''internal''"
definition code_unavailable :: string where "code_unavailable = ''unavailable''"

section \<open>The session gate\<close>

definition session_cookie :: string where
  "session_cookie = ''autosecrets_session''"

definition csrf_header :: string where
  "csrf_header = ''X-CSRF-Token''"

definition session_from_request :: "(bytes \<Rightarrow> bytes) \<Rightarrow> time \<Rightarrow> request \<Rightarrow> core_db \<Rightarrow> session_state option" where
  "session_from_request sha now r d =
     (case rq_cookie r session_cookie of
        None \<Rightarrow> None
      | Some value \<Rightarrow>
          if value = [] then None
          else (case session_by_id (hash_token sha value) now d of Inl _ \<Rightarrow> None | Inr s \<Rightarrow> Some s))"

text \<open>The clock is read once to resolve the session (\<open>t1\<close>), and again (\<open>t2\<close>) to slide the idle window.\<close>

definition require_session ::
    "(bytes \<Rightarrow> bytes) \<Rightarrow> time \<Rightarrow> time \<Rightarrow> (core_db, 'b) handler \<Rightarrow> (core_db, 'b) handler" where
  "require_session sha t1 t2 next r d =
     (case session_from_request sha t1 r d of
        None \<Rightarrow> (Refused 401 code_unauthorized, d)
      | Some s \<Rightarrow>
          if rq_method r \<noteq> ''GET'' \<and> rq_method r \<noteq> ''HEAD''
          then
            if \<not> subtle_constant_time_equal (hash_token sha (rq_header r csrf_header)) (hash_token sha (se_csrf s))
            then (Refused 403 code_forbidden, d)
            else next (r\<lparr>rq_session := Some s\<rparr>) (touch_session_activity (se_hash s) t2 (t2 + session_idle_ttl) d)
          else next (r\<lparr>rq_session := Some s\<rparr>) d)"

section \<open>The Agent trust boundary\<close>

text \<open>
  What the source reads of a parsed X.509 certificate: its key, when it is an Ed25519 key, and its serial. The
  verifier is the Agent CA (\<open>ParseAgentCert\<close>), \<open>ed\<close> is \<open>ed25519.Verify\<close>.
\<close>

record agent_cert =
  ac_key :: "bytes option"
  ac_serial :: int

type_synonym cert_verifier = "bytes \<Rightarrow> time \<Rightarrow> agent_cert option"
type_synonym ed_verify = "bytes \<Rightarrow> bytes \<Rightarrow> bytes \<Rightarrow> bool"

definition verify_agent_proof :: "ed_verify \<Rightarrow> agent_cert \<Rightarrow> bytes \<Rightarrow> bytes \<Rightarrow> bool" where
  "verify_agent_proof ed cert message sig =
     (case ac_key cert of None \<Rightarrow> False | Some k \<Rightarrow> ed k message sig)"

definition serial_text :: "int \<Rightarrow> string" where
  "serial_text n = (if n < 0 then CHR ''-'' # show_nat 16 (nat (- n)) else show_nat 16 (nat n))"

text \<open>
  \<open>time.Unix(sec, 0)\<close> keeps the seconds since year 1 in an int64, \<open>Time.Sub\<close> saturates at the range of a Duration, and
  negating a Duration wraps.
\<close>

definition unix_to_internal :: int where
  "unix_to_internal = 62135596800"

definition unix_time :: "int \<Rightarrow> time" where
  "unix_time sec = (to_int64 (sec + unix_to_internal) - unix_to_internal) * second"

definition time_sub :: "time \<Rightarrow> time \<Rightarrow> duration" where
  "time_sub t u = (if t - u < - (2 ^ 63) then - (2 ^ 63) else if 2 ^ 63 \<le> t - u then 2 ^ 63 - 1 else t - u)"

definition agent_proof_max_skew :: duration where
  "agent_proof_max_skew = 5 * minute"

definition within_skew :: "int \<Rightarrow> time \<Rightarrow> bool" where
  "within_skew ts now \<longleftrightarrow>
     (let delta = time_sub now (unix_time ts); delta' = (if delta < 0 then to_int64 (- delta) else delta)
      in delta' \<le> agent_proof_max_skew)"

definition proof_message :: "string \<Rightarrow> request \<Rightarrow> bytes" where
  "proof_message ts r = ts @ [CHR 0x0A] @ rq_method r @ [CHR 0x0A] @ rq_uri r"

definition agent_proof_serial ::
    "cert_verifier option \<Rightarrow> ed_verify \<Rightarrow> time \<Rightarrow> request \<Rightarrow> string option" where
  "agent_proof_serial verifier ed now r =
     (case verifier of
        None \<Rightarrow> None
      | Some parse \<Rightarrow>
          let cert64 = trim_space (rq_header r ''X-Autosecrets-Cert'');
              ts_header = trim_space (rq_header r ''X-Autosecrets-Ts'');
              sig64 = trim_space (rq_header r ''X-Autosecrets-Sig'') in
          if cert64 = [] \<or> ts_header = [] \<or> sig64 = [] then None
          else (case parse_int 10 ts_header of
            None \<Rightarrow> None
          | Some ts \<Rightarrow>
              if \<not> within_skew ts now then None
              else case std_decode cert64 of
                None \<Rightarrow> None
              | Some raw \<Rightarrow> (case parse raw now of
                  None \<Rightarrow> None
                | Some cert \<Rightarrow> (case std_decode sig64 of
                    None \<Rightarrow> None
                  | Some sig \<Rightarrow>
                      if verify_agent_proof ed cert (proof_message ts_header r) sig
                      then Some (serial_text (ac_serial cert)) else None))))"

definition remote_ip :: "string \<Rightarrow> ip option" where
  "remote_ip addr = (case split_host_port addr of None \<Rightarrow> parse_ip addr | Some (host, port) \<Rightarrow> parse_ip host)"

definition is_trusted :: "ip \<Rightarrow> ip_net list \<Rightarrow> bool" where
  "is_trusted x trusted \<longleftrightarrow> list_ex (\<lambda>n. net_contains n x) trusted"

definition agent_identity_middleware ::
    "ip_net list \<Rightarrow> string \<Rightarrow> cert_verifier option \<Rightarrow> ed_verify \<Rightarrow> time \<Rightarrow> ('s, 'b) handler \<Rightarrow> ('s, 'b) handler" where
  "agent_identity_middleware trusted cert_header verifier ed now next r s =
     (case agent_proof_serial verifier ed now r of
        Some serial \<Rightarrow> next (r\<lparr>rq_serial := Some serial\<rparr>) s
      | None \<Rightarrow>
          if \<not> (case remote_ip (rq_remote r) of None \<Rightarrow> False | Some x \<Rightarrow> is_trusted x trusted) then (Refused 403 [], s)
          else
            let serial = trim_space (rq_header r cert_header) in
            if serial = [] then (Refused 403 [], s) else next (r\<lparr>rq_serial := Some serial\<rparr>) s)"

definition agent_serial_from_context :: "request \<Rightarrow> string option" where
  "agent_serial_from_context r = (case rq_serial r of None \<Rightarrow> None | Some s \<Rightarrow> if s = [] then None else Some s)"

definition actor_from :: "request \<Rightarrow> string" where
  "actor_from r =
     (case rq_session r of
        Some s \<Rightarrow> ''admin:'' @ se_username s
      | None \<Rightarrow> (case agent_serial_from_context r of Some serial \<Rightarrow> ''node:'' @ serial | None \<Rightarrow> ''anonymous''))"

definition correlation_id :: "time \<Rightarrow> request \<Rightarrow> string" where
  "correlation_id now r =
     (if rq_header r ''X-Correlation-ID'' \<noteq> [] then rq_header r ''X-Correlation-ID'' else format_int now)"

section \<open>CORS\<close>

text \<open>The response headers the middleware adds, and whether the request goes on to the next handler.\<close>

definition cors_headers :: "string \<Rightarrow> (string \<times> string) list" where
  "cors_headers origin =
     [(''Access-Control-Allow-Origin'', origin), (''Access-Control-Allow-Credentials'', ''true''), (''Vary'', ''Origin''),
      (''Access-Control-Allow-Headers'', ''Accept, Content-Type, X-CSRF-Token''),
      (''Access-Control-Allow-Methods'', ''GET, POST, PUT, PATCH, DELETE, OPTIONS'')]"

definition cors :: "string list \<Rightarrow> request \<Rightarrow> (string \<times> string) list \<times> bool" where
  "cors origins r =
     ((if rq_header r ''Origin'' \<in> set origins then cors_headers (rq_header r ''Origin'') else []),
      rq_method r \<noteq> ''OPTIONS'')"

section \<open>Helpers of the handlers\<close>

definition valid_name :: "string \<Rightarrow> int \<Rightarrow> bool" where
  "valid_name value mx \<longleftrightarrow> 0 < length (trim_space value) \<and> int (length (trim_space value)) \<le> mx"

definition mode_string :: "int \<Rightarrow> string" where
  "mode_string m = format_04o m"

definition page_params :: "request \<Rightarrow> cursor_error + (cursor \<times> int \<times> int)" where
  "page_params r =
     (case decode_cursor (rq_query r ''cursor'') of
        Inl e \<Rightarrow> Inl e
      | Inr cursor \<Rightarrow>
          let positive = (\<lambda>raw dflt. if raw = [] then dflt
                else case parse_int 10 raw of None \<Rightarrow> dflt | Some n \<Rightarrow> if 0 < n then n else dflt);
              limit = positive (rq_query r ''limit'') 25; page = positive (rq_query r ''page'') 0 in
          Inr (cursor, if 100 < limit then 100 else limit, page))"

definition reason_categories :: "string list" where
  "reason_categories = [''maintenance'', ''incident_response'', ''access_change'', ''configuration_correction'', ''other'']"

record reason_input =
  ri_category :: string
  ri_explanation :: string
  ri_reference :: string

definition operation_reason_of :: "reason_input option \<Rightarrow> operation_reason option" where
  "operation_reason_of body =
     (case body of
        None \<Rightarrow> None
      | Some b \<Rightarrow>
          let category = to_lower (trim_space (ri_category b)); explanation = trim_space (ri_explanation b);
              reference = trim_space (ri_reference b) in
          if category \<notin> set reason_categories then None
          else if rune_count explanation < 10 \<or> 500 < rune_count explanation then None
          else if 128 < length reference then None
          else Some \<lparr>or_category = category, or_explanation = explanation, or_external = reference\<rparr>)"

definition operation_reason_or :: "reason_input option \<Rightarrow> operation_reason option" where
  "operation_reason_or body =
     (case body of
        None \<Rightarrow> Some \<lparr>or_category = ''other'', or_explanation = [], or_external = []\<rparr>
      | Some _ \<Rightarrow> operation_reason_of body)"

end
