(* ===== verification/MiddlewareProperties.thy ===== *)
theory MiddlewareProperties
  imports Middleware IdentityProperties CryptoProperties
begin

text \<open>
  The two gates of the server: which requests reach a handler of the management surface, whatever happened to the session
  since it was opened, and which reach a handler of the Agent surface.
\<close>

section \<open>The session gate\<close>

lemma session_from_request_Some:
  assumes "session_from_request sha now r d = Some s"
  obtains c where "rq_cookie r session_cookie = Some c" "c \<noteq> []" "session_by_id (hash_token sha c) now d = Inr s"
  using assms by (auto simp: session_from_request_def split: option.splits sum.splits if_splits)

lemma require_session_cases:
  obtains (refused) status code where "status = 401 \<and> code = code_unauthorized \<or> status = 403 \<and> code = code_forbidden"
      "require_session sha t1 t2 next r d = (Refused status code, d)"
  | (read) s where "session_from_request sha t1 r d = Some s" "rq_method r \<in> {''GET'', ''HEAD''}"
      "require_session sha t1 t2 next r d = next (r\<lparr>rq_session := Some s\<rparr>) d"
  | (change) s where "session_from_request sha t1 r d = Some s" "rq_method r \<notin> {''GET'', ''HEAD''}"
      "hash_token sha (rq_header r csrf_header) = hash_token sha (se_csrf s)"
      "require_session sha t1 t2 next r d =
         next (r\<lparr>rq_session := Some s\<rparr>) (touch_session_activity (se_hash s) t2 (t2 + session_idle_ttl) d)"
proof (cases "session_from_request sha t1 r d")
  case None
  then show ?thesis
    by (intro refused [of 401 code_unauthorized]) (simp_all add: require_session_def)
next
  case (Some s)
  show ?thesis
  proof (cases "rq_method r \<in> {''GET'', ''HEAD''}")
    case True
    then show ?thesis
      using Some by (intro read [of s]) (auto simp: require_session_def)
  next
    case False
    show ?thesis
    proof (cases "hash_token sha (rq_header r csrf_header) = hash_token sha (se_csrf s)")
      case True
      then show ?thesis
        using Some False by (intro change [of s]) (auto simp: require_session_def constant_time_equal)
    next
      case mismatch: False
      then show ?thesis
        using Some False by (intro refused [of 403 code_forbidden]) (auto simp: require_session_def constant_time_equal)
    qed
  qed
qed

lemma session_until_by_id:
  assumes "session_until h i e csrf d" "session_by_id h now d = Inr s"
  shows "now < e \<and> now < se_idle s \<and> se_admin s = i \<and> se_expires s = e \<and> se_csrf s = csrf \<and> se_hash s = h"
  using assms by (elim session_by_id_Inr) (simp add: session_until_def)

lemma gate_lifetime:
  assumes inv: "session_until (hash_token sha cookie) i e csrf d2"
    and cookie: "rq_cookie r session_cookie = Some cookie"
  shows "require_session sha t1 t2 next r d2 \<in> {(Refused 401 code_unauthorized, d2), (Refused 403 code_forbidden, d2)} \<or>
    (\<exists>s d3. require_session sha t1 t2 next r d2 = next (r\<lparr>rq_session := Some s\<rparr>) d3 \<and>
       t1 < e \<and> t1 < se_idle s \<and> se_admin s = i \<and> se_expires s = e \<and>
       (if rq_method r \<in> {''GET'', ''HEAD''} then d3 = d2
        else hash_token sha (rq_header r csrf_header) = hash_token sha csrf \<and>
          d3 = touch_session_activity (hash_token sha cookie) t2 (t2 + session_idle_ttl) d2))"
proof -
  have live: "t1 < e \<and> t1 < se_idle s \<and> se_admin s = i \<and> se_expires s = e \<and> se_csrf s = csrf \<and>
      se_hash s = hash_token sha cookie" if s: "session_from_request sha t1 r d2 = Some s" for s
  proof -
    obtain c where "rq_cookie r session_cookie = Some c" "c \<noteq> []" "session_by_id (hash_token sha c) t1 d2 = Inr s"
      by (rule session_from_request_Some [OF s])
    then show ?thesis
      using cookie session_until_by_id [OF inv] by simp
  qed
  show ?thesis
  proof (rule require_session_cases [of sha t1 t2 "next" r d2])
    fix s assume "session_from_request sha t1 r d2 = Some s" "rq_method r \<in> {''GET'', ''HEAD''}"
      "require_session sha t1 t2 next r d2 = next (r\<lparr>rq_session := Some s\<rparr>) d2"
    then show ?thesis using live [of s] by (intro disjI2 exI [of _ s] exI [of _ d2]) simp
  next
    fix s assume "session_from_request sha t1 r d2 = Some s" "rq_method r \<notin> {''GET'', ''HEAD''}"
      "hash_token sha (rq_header r csrf_header) = hash_token sha (se_csrf s)"
      "require_session sha t1 t2 next r d2 =
         next (r\<lparr>rq_session := Some s\<rparr>) (touch_session_activity (se_hash s) t2 (t2 + session_idle_ttl) d2)"
    then show ?thesis
      using live [of s]
      by (intro disjI2 exI [of _ s] exI [of _ "touch_session_activity (se_hash s) t2 (t2 + session_idle_ttl) d2"]) simp
  qed auto
qed

text \<open>C39: A Session is opened under the hash of a cookie, and the identity operations that follow open no other one under it.
  Then a request with that cookie is refused, which changes nothing, or the handler runs with the Session of the member it was
  opened for, before its absolute and its idle limit. If the request is neither a GET nor a HEAD, it has a CSRF token with
  the hash of the Session's, and before the handler runs the idle window slides; else nothing changes.\<close>

theorem session_gate:
  assumes "create_bounded_session (hash_token sha cookie) i csrf e idle m ts d0 = Inr d"
    and "(no_new_row identity_step t_sessions ss_id (hash_token sha cookie))\<^sup>*\<^sup>* d d2"
    and "rq_cookie r session_cookie = Some cookie"
  shows "require_session sha t1 t2 next r d2 \<in> {(Refused 401 code_unauthorized, d2), (Refused 403 code_forbidden, d2)} \<or>
    (\<exists>s d3. require_session sha t1 t2 next r d2 = next (r\<lparr>rq_session := Some s\<rparr>) d3 \<and>
       t1 < e \<and> t1 < se_idle s \<and> se_admin s = i \<and> se_expires s = e \<and>
       (if rq_method r \<in> {''GET'', ''HEAD''} then d3 = d2
        else hash_token sha (rq_header r csrf_header) = hash_token sha csrf \<and>
          d3 = touch_session_activity (hash_token sha cookie) t2 (t2 + session_idle_ttl) d2))"
proof (rule gate_lifetime [OF _ assms(3)])
  show "session_until (hash_token sha cookie) i e csrf d2"
    using assms(1) by (intro lifetime.reachable_inv [OF _ assms(2)]) blast
qed

definition demo_request :: request where
  "demo_request = \<lparr>rq_method = ''POST'', rq_uri = ''/'', rq_remote = ''192.0.2.1:25'', rq_header = (\<lambda>h. []),
     rq_cookie = (\<lambda>c. if c = session_cookie then Some ''t'' else None), rq_query = (\<lambda>q. []), rq_session = None,
     rq_serial = None\<rparr>"

lemma demo_hash: "hash_token id ''t'' = ''74''" "hash_token id [] = []" "hash_token id ''c'' = ''63''"
  by (simp_all add: hash_token_def hex_encode_def digit_char_def char_of_def bit_Suc_0_iff)

theorem session_gate_witness:
  "\<exists>d. create_bounded_session (hash_token id ''t'') ''adm'' ''c'' 90 30 AuthLocal 1 demo_core = Inr d \<and>
     fst (require_session id 20 21 (\<lambda>r d. (Replied 200 (), d)) demo_request d) \<noteq> Replied 200 ()"
proof -
  obtain d where d: "create_bounded_session (hash_token id ''t'') ''adm'' ''c'' 90 30 AuthLocal 1 demo_core = Inr d"
    unfolding demo_hash by (simp add: create_bounded_session_def create_bounded_session_q_def exists_admin_in admin_in_demo)
  have "rq_cookie demo_request session_cookie = Some ''t''"
    by (simp add: demo_request_def)
  from session_gate [OF d rtranclp.rtrancl_refl this, of 20 21 "\<lambda>r d. (Replied 200 (), d)"]
  have "fst (require_session id 20 21 (\<lambda>r d. (Replied 200 (), d)) demo_request d) \<noteq> Replied 200 ()"
    by (auto simp: demo_request_def demo_hash)
  with d show ?thesis by blast
qed

section \<open>The Agent trust boundary\<close>

text \<open>Which timestamps pass: those within five minutes, and, since \<open>-delta\<close> overflows there, those 292 years ahead.\<close>

lemma unix_time_id:
  assumes "- (2 ^ 63) \<le> ts" "ts < 2 ^ 63 - unix_to_internal"
  shows "unix_time ts = ts * second"
  using assms by (simp add: unix_time_def unix_to_internal_def to_int64_id)

lemma within_skew_sub:
  "within_skew ts now \<longleftrightarrow>
     \<bar>now - unix_time ts\<bar> \<le> agent_proof_max_skew \<or> 2 ^ 63 \<le> unix_time ts - now"
proof -
  have wrap: "to_int64 (2 ^ 63) = - (2 ^ 63)"
    by (simp add: to_int64_def)
  show ?thesis
  proof (cases "now - unix_time ts \<le> - (2 ^ 63)")
    case True
    then have "time_sub now (unix_time ts) = - (2 ^ 63)"
      by (auto simp: time_sub_def)
    then show ?thesis
      using True wrap by (simp add: within_skew_def agent_proof_max_skew_def)
  next
    case False
    have big: "agent_proof_max_skew < 2 ^ 63 - 1"
      by (simp add: agent_proof_max_skew_def)
    show ?thesis
    proof (cases "now - unix_time ts < 0")
      case True
      then have "time_sub now (unix_time ts) = now - unix_time ts"
        using False by (simp add: time_sub_def)
      moreover have "to_int64 (- (now - unix_time ts)) = - (now - unix_time ts)"
        using True False by (intro to_int64_id) simp_all
      ultimately show ?thesis
        using True False by (simp add: within_skew_def)
    next
      case pos: False
      then show ?thesis
        using big by (simp add: within_skew_def time_sub_def)
    qed
  qed
qed

lemma to_int64_wrap: "to_int64 (y + 2 ^ 64) = to_int64 y"
proof -
  have "(2 :: 64 word) ^ 64 = 0"
    by (simp only: exp_eq_zero_iff) simp
  then show ?thesis
    by (simp only: to_int64_def of_int_add of_int_power of_int_numeral add_0_right)
qed

lemma proof_window:
  assumes "0 \<le> now" "now < 2 ^ 63" "- (2 ^ 63) \<le> ts" "ts < 2 ^ 63"
  shows "within_skew ts now \<longleftrightarrow>
    \<bar>now - ts * second\<bar> \<le> agent_proof_max_skew \<or> ts < 2 ^ 63 - unix_to_internal \<and> 2 ^ 63 \<le> ts * second - now"
proof (cases "ts < 2 ^ 63 - unix_to_internal")
  case True
  then show ?thesis
    using assms by (simp add: within_skew_sub unix_time_id)
next
  case False
  have "to_int64 (ts + unix_to_internal) = to_int64 (ts + unix_to_internal - 2 ^ 64)"
    using to_int64_wrap [of "ts + unix_to_internal - 2 ^ 64"] by simp
  also have "\<dots> = ts + unix_to_internal - 2 ^ 64"
    using False assms by (intro to_int64_id) (simp_all add: unix_to_internal_def)
  finally have "unix_time ts = (ts - 2 ^ 64) * second"
    by (simp add: unix_time_def)
  then show ?thesis
    using False assms by (simp add: within_skew_sub agent_proof_max_skew_def unix_to_internal_def)
qed

lemma parse_int_range: "parse_int b s = Some n \<Longrightarrow> - (2 ^ 63) \<le> n \<and> n < 2 ^ 63"
  by (auto simp: parse_int_def Let_def split: list.splits option.splits if_splits)

text \<open>
  A request proves the serial of a certificate by its three headers: the certificate in base64, which the verifier accepts now, the
  time of the signature, and in base64 the signature by the certificate's key of that time, the method and the URI.
\<close>

definition header_text :: "request \<Rightarrow> string \<Rightarrow> string" where
  "header_text r name = trim_space (rq_header r name)"

definition proves_serial :: "cert_verifier option \<Rightarrow> ed_verify \<Rightarrow> time \<Rightarrow> request \<Rightarrow> int \<Rightarrow> string \<Rightarrow> bool" where
  "proves_serial verifier ed now r ts serial \<longleftrightarrow>
     (\<exists>parse raw cert key sig.
        header_text r ''X-Autosecrets-Cert'' \<noteq> [] \<and> header_text r ''X-Autosecrets-Sig'' \<noteq> [] \<and>
        std_decode (header_text r ''X-Autosecrets-Cert'') = Some raw \<and>
        verifier = Some parse \<and> parse raw now = Some cert \<and> ac_key cert = Some key \<and>
        parse_int 10 (header_text r ''X-Autosecrets-Ts'') = Some ts \<and>
        std_decode (header_text r ''X-Autosecrets-Sig'') = Some sig \<and>
        ed key (header_text r ''X-Autosecrets-Ts'' @ [CHR 0x0A] @ rq_method r @ [CHR 0x0A] @ rq_uri r) sig \<and>
        serial = serial_text (ac_serial cert))"

lemma agent_proof_serial_iff:
  "agent_proof_serial verifier ed now r = Some serial \<longleftrightarrow> (\<exists>ts. proves_serial verifier ed now r ts serial \<and> within_skew ts now)"
proof -
  have "parse_int 10 [] = None" by (simp add: parse_int_def)
  then show ?thesis
    unfolding agent_proof_serial_def proves_serial_def header_text_def
    by (cases verifier) (auto simp: verify_agent_proof_def proof_message_def Let_def split: option.splits)
qed

text \<open>A proof with a timestamp in the year 2603 passes the check of the clock in 2023, and will pass it until 2311.\<close>

lemma far_future_proof: "within_skew 20000000000 (1700000000 * second)" "\<not> within_skew 20000000000 (19000000000 * second)"
  by (simp_all add: within_skew_sub unix_time_id unix_to_internal_def agent_proof_max_skew_def)

text \<open>C40: The Agent middleware, in full. A request whose headers carry a certificate the verifier accepts now and a signature by its
  Ed25519 key of the time, the method and the URI reaches the Agent surface with the serial of that certificate, when that time is
  within five minutes of the clock, or (this is where \<open>-delta\<close> overflows) at least 2^63 nanoseconds, some 292 years, ahead of
  it. Any other request reaches it only from an address in a trusted network and with a serial in the proxy's
  header, the one it then has; all the rest are refused with 403, and nothing changes.\<close>

theorem agent_admission:
  assumes "0 \<le> now" "now < 2 ^ 63"
    and "proved = {serial. \<exists>ts. proves_serial verifier ed now r ts serial \<and>
      (\<bar>now - ts * second\<bar> \<le> 5 * minute \<or> ts < 2 ^ 63 - unix_to_internal \<and> 2 ^ 63 \<le> ts * second - now)}"
  shows "(\<forall>serial \<in> proved.
      agent_identity_middleware trusted header verifier ed now next r s = next (r\<lparr>rq_serial := Some serial\<rparr>) s) \<and>
    (proved = {} \<longrightarrow> agent_identity_middleware trusted header verifier ed now next r s =
      (if (\<exists>x n. remote_ip (rq_remote r) = Some x \<and> n \<in> set trusted \<and> net_contains n x) \<and> header_text r header \<noteq> []
       then next (r\<lparr>rq_serial := Some (header_text r header)\<rparr>) s else (Refused 403 [], s)))"
proof -
  have "within_skew ts now \<longleftrightarrow> \<bar>now - ts * second\<bar> \<le> 5 * minute \<or> ts < 2 ^ 63 - unix_to_internal \<and> 2 ^ 63 \<le> ts * second - now"
    if "proves_serial verifier ed now r ts serial" for ts serial
  proof -
    from that obtain t where "parse_int 10 t = Some ts" by (auto simp: proves_serial_def)
    from proof_window [OF assms(1,2)] parse_int_range [OF this] show ?thesis by (simp add: agent_proof_max_skew_def)
  qed
  then have proved: "proved = {serial. agent_proof_serial verifier ed now r = Some serial}"
    unfolding agent_proof_serial_iff assms(3) by blast
  show ?thesis
  proof (cases "agent_proof_serial verifier ed now r")
    case None
    then show ?thesis
      by (auto simp: proved agent_identity_middleware_def header_text_def is_trusted_def list_ex_iff Let_def split: option.split)
  next
    case (Some serial)
    then show ?thesis by (simp add: proved agent_identity_middleware_def)
  qed
qed

definition demo_signed :: request where
  "demo_signed = demo_request\<lparr>rq_header := (\<lambda>x. if x = ''X-Autosecrets-Cert'' \<or> x = ''X-Autosecrets-Sig'' then ''AAAA''
     else if x = ''X-Autosecrets-Ts'' then ''1700000000'' else [])\<rparr>"

theorem agent_admission_witness:
  "agent_identity_middleware [] ''X-Cert'' (Some (\<lambda>raw t. None)) (\<lambda>k m s. True) (1700000000 * second)
     (\<lambda>r s. (Replied 200 (), s)) demo_signed () = (Refused 403 [], ()) \<and>
   agent_identity_middleware [] ''X-Cert'' (Some (\<lambda>raw t. Some \<lparr>ac_key = Some ''k'', ac_serial = 171\<rparr>)) (\<lambda>k m s. k = ''k'')
     (1700000001 * second) (\<lambda>r s. (Replied 200 (rq_serial r), s)) demo_signed () = (Replied 200 (Some (serial_text 171)), ())"
proof -
  let ?no = "Some (\<lambda>raw t. None)" and ?yes = "Some (\<lambda>raw t. Some \<lparr>ac_key = Some ''k'', ac_serial = 171\<rparr>)"
  have texts: "header_text demo_signed ''X-Autosecrets-Cert'' = ''AAAA''" "header_text demo_signed ''X-Autosecrets-Sig'' = ''AAAA''"
    "header_text demo_signed ''X-Autosecrets-Ts'' = ''1700000000''"
    by code_simp+
  have parts: "std_decode ''AAAA'' = Some (replicate 3 (CHR 0x00))" "parse_int 10 ''1700000000'' = Some 1700000000"
    by (code_simp, simp add: parse_int_def parse_uint_def digit_val_def Let_def)
  have none: "\<not> proves_serial ?no (\<lambda>k m s. True) (1700000000 * second) demo_signed ts serial" for ts serial
    by (simp add: proves_serial_def)
  have "proves_serial ?yes (\<lambda>k m s. k = ''k'') (1700000001 * second) demo_signed 1700000000 (serial_text 171)"
    by (simp add: proves_serial_def texts parts)
  moreover have "\<bar>1700000001 * second - 1700000000 * second\<bar> \<le> 5 * minute" by simp
  ultimately have "serial_text 171 \<in> {serial. \<exists>ts. proves_serial ?yes (\<lambda>k m s. k = ''k'') (1700000001 * second) demo_signed ts serial \<and>
      (\<bar>1700000001 * second - ts * second\<bar> \<le> 5 * minute \<or> ts < 2 ^ 63 - unix_to_internal \<and> 2 ^ 63 \<le> ts * second - 1700000001 * second)}"
    by blast
  with agent_admission [OF _ _ refl, of "1700000001 * second" ?yes "\<lambda>k m s. k = ''k''" demo_signed "[]" "''X-Cert''"
      "\<lambda>r s. (Replied 200 (rq_serial r), s)" "()"]
    agent_admission [OF _ _ refl, of "1700000000 * second" ?no "\<lambda>k m s. True" demo_signed "[]" "''X-Cert''"
      "\<lambda>r s. (Replied 200 (), s)" "()"] none
  show ?thesis by simp
qed

end
