(* ===== verification/GoJson.thy ===== *)
theory GoJson
  imports GoStrings
begin

text \<open>
  The text \<open>encoding/json\<close> writes for strings, for maps from strings to strings (their keys in byte order) and for arrays. The
  scanner reads such a string back, so that on valid UTF-8 the text of a string determines the string.
\<close>

section \<open>Strings\<close>

definition quote_char :: char where "quote_char = CHR 0x22"
definition backslash :: char where "backslash = CHR 0x5C"

text \<open>An ASCII byte, with the characters of HTML escaped.\<close>

definition escape_ascii :: "char \<Rightarrow> string" where
  "escape_ascii c =
     (if c = quote_char \<or> c = backslash then [backslash, c]
      else if c = CHR 0x08 then [backslash, CHR ''b'']
      else if c = CHR 0x0C then [backslash, CHR ''f'']
      else if c = CHR 0x0A then [backslash, CHR ''n'']
      else if c = CHR 0x0D then [backslash, CHR ''r'']
      else if c = CHR 0x09 then [backslash, CHR ''t'']
      else if byte_val c < 32 \<or> c = CHR ''<'' \<or> c = CHR ''>'' \<or> c = CHR ''&''
      then [backslash, CHR ''u'', CHR ''0'', CHR ''0'', digit_char (byte_val c div 16), digit_char (byte_val c mod 16)]
      else [c])"

text \<open>U+2028 and U+2029, and their escapes.\<close>

definition line_separator :: string where
  "line_separator = [CHR 0xE2, CHR 0x80, CHR 0xA8]"

definition paragraph_separator :: string where
  "paragraph_separator = [CHR 0xE2, CHR 0x80, CHR 0xA9]"

function json_escape :: "string \<Rightarrow> string" where
  "json_escape [] = []"
| "json_escape (c # s) =
     (if byte_val c < 0x80 then escape_ascii c @ json_escape s
      else let w = rune_width (c # s); r = take w (c # s); rest = json_escape (drop w (c # s)) in
        if w = 1 then backslash # ''ufffd'' @ rest
        else if r = line_separator then backslash # ''u2028'' @ rest
        else if r = paragraph_separator then backslash # ''u2029'' @ rest
        else r @ rest)"
  by pat_completeness auto
termination
  by (relation "measure length") (auto simp: Let_def diff_less)

declare json_escape.simps(2) [simp del]

definition json_string :: "string \<Rightarrow> string" where
  "json_string s = quote_char # json_escape s @ [quote_char]"

section \<open>Maps and arrays\<close>

definition json_field :: "string \<times> string \<Rightarrow> string" where
  "json_field kv = json_string (fst kv) @ '':'' @ snd kv"

text \<open>An object whose members are given as JSON texts, in this order; a map is written with its keys sorted.\<close>

definition json_object :: "(string \<times> string) list \<Rightarrow> string" where
  "json_object kvs = ''{'' @ join_with '','' (map json_field kvs) @ ''}''"

definition json_map :: "(string \<times> string) list \<Rightarrow> string" where
  "json_map kvs = json_object (sort_key fst kvs)"

definition json_array :: "string list \<Rightarrow> string" where
  "json_array xs = ''['' @ join_with '','' xs @ '']''"

section \<open>Reading a string back\<close>

fun valid_utf8 :: "string \<Rightarrow> bool" where
  "valid_utf8 [] = True"
| "valid_utf8 (c # s) = (if byte_val c < 0x80 then valid_utf8 s
     else 1 < rune_width (c # s) \<and> valid_utf8 (drop (rune_width (c # s) - 1) s))"

definition unescape :: "char \<Rightarrow> char" where
  "unescape e = (if e = CHR ''b'' then CHR 0x08 else if e = CHR ''f'' then CHR 0x0C else if e = CHR ''n'' then CHR 0x0A
     else if e = CHR ''r'' then CHR 0x0D else if e = CHR ''t'' then CHR 0x09 else e)"

definition unescape_hex :: "string \<Rightarrow> string" where
  "unescape_hex h = (if h = ''2028'' then line_separator else if h = ''2029'' then paragraph_separator
     else case parse_digits 16 0 h of Some n \<Rightarrow> [char_of n] | None \<Rightarrow> [])"

text \<open>Bytes put before what a scan read.\<close>

definition scanned :: "string \<Rightarrow> (string \<times> string) option \<Rightarrow> (string \<times> string) option" where
  "scanned r x = (case x of None \<Rightarrow> None | Some (a, b) \<Rightarrow> Some (r @ a, b))"

lemma scanned_simps [simp]:
  "scanned r None = None" "scanned r (Some (a, b)) = Some (r @ a, b)" "scanned r (scanned q x) = scanned (r @ q) x"
  "scanned [] x = x"
  by (simp_all add: scanned_def split: option.split prod.split)

fun json_scan :: "string \<Rightarrow> (string \<times> string) option" where
  "json_scan [] = None"
| "json_scan (c # s) =
     (if c = quote_char then Some ([], s)
      else if c = backslash
      then (case s of
          [] \<Rightarrow> None
        | e # t \<Rightarrow>
            if e = CHR ''u'' \<and> 4 \<le> length t then scanned (unescape_hex (take 4 t)) (json_scan (drop 4 t))
            else scanned [unescape e] (json_scan t))
      else scanned [c] (json_scan s))"

lemma byte_at_high: "byte_at s i lo hi \<Longrightarrow> 128 \<le> lo \<Longrightarrow> i < length s \<and> 128 \<le> byte_val (s ! i)"
  by (simp add: byte_at_def)

lemma rune_width_high:
  assumes "rune_width s = w" "1 < w"
  shows "\<forall>i < w. i < length s \<and> 128 \<le> byte_val (s ! i)"
proof -
  let ?h = "\<lambda>i. i < length s \<and> 128 \<le> byte_val (s ! i)"
  define c2 where "c2 \<longleftrightarrow> byte_at s 0 0xC2 0xDF \<and> byte_at s 1 0x80 0xBF"
  define c3 where "c3 \<longleftrightarrow> (byte_at s 0 0xE0 0xE0 \<and> byte_at s 1 0xA0 0xBF \<or> byte_at s 0 0xE1 0xEC \<and> byte_at s 1 0x80 0xBF
             \<or> byte_at s 0 0xED 0xED \<and> byte_at s 1 0x80 0x9F \<or> byte_at s 0 0xEE 0xEF \<and> byte_at s 1 0x80 0xBF)
           \<and> byte_at s 2 0x80 0xBF"
  define c4 where "c4 \<longleftrightarrow> (byte_at s 0 0xF0 0xF0 \<and> byte_at s 1 0x90 0xBF \<or> byte_at s 0 0xF1 0xF3 \<and> byte_at s 1 0x80 0xBF
             \<or> byte_at s 0 0xF4 0xF4 \<and> byte_at s 1 0x80 0x8F) \<and> byte_at s 2 0x80 0xBF \<and> byte_at s 3 0x80 0xBF"
  have w: "w = (if c2 then 2 else if c3 then 3 else if c4 then 4 else 1)"
    using assms(1) by (simp only: rune_width_def Let_def c2_def c3_def c4_def)
  have h2: "?h 0 \<and> ?h 1" if c2
    using that byte_at_high [of s] unfolding c2_def by fastforce
  have h3: "?h 0 \<and> ?h 1 \<and> ?h 2" if c3
    using that byte_at_high [of s] unfolding c3_def by fastforce
  have h4: "?h 0 \<and> ?h 1 \<and> ?h 2 \<and> ?h 3" if c4
    using that byte_at_high [of s] unfolding c4_def by fastforce
  consider "c2" "w = 2" | "c3" "w = 3" | "c4" "w = 4"
    using w assms(2) by (metis less_irrefl)
  then show ?thesis
  proof cases
    case 1
    then show ?thesis using h2 by (auto simp: less_2_cases_iff)
  next
    case 2
    have "i = 0 \<or> i = 1 \<or> i = 2" if "i < 3" for i :: nat
      using that by linarith
    with 2 show ?thesis using h3 by blast
  next
    case 3
    have "i = 0 \<or> i = 1 \<or> i = 2 \<or> i = 3" if "i < 4" for i :: nat
      using that by linarith
    with 3 show ?thesis using h4 by blast
  qed
qed

lemma rune_bytes:
  assumes "rune_width s = w" "1 < w"
  shows "w \<le> length s" "c \<in> set (take w s) \<Longrightarrow> 128 \<le> byte_val c"
proof -
  have h: "i < length s \<and> 128 \<le> byte_val (s ! i)" if "i < w" for i
    using rune_width_high [OF assms] that by simp
  then show "w \<le> length s"
    using assms(2) by (meson less_not_refl not_le)
  then show "128 \<le> byte_val c" if "c \<in> set (take w s)"
    using that h by (auto simp: in_set_conv_nth)
qed

lemma scan_raw:
  "(\<And>c. c \<in> set r \<Longrightarrow> 128 \<le> byte_val c) \<Longrightarrow> json_scan (r @ t) = scanned r (json_scan t)"
proof (induction r)
  case (Cons c r)
  have "byte_val quote_char = (34 :: nat)" "byte_val backslash = (92 :: nat)"
    by (simp_all add: quote_char_def backslash_def)
  moreover have "128 \<le> byte_val c"
    by (rule Cons.prems) simp
  ultimately have "c \<noteq> quote_char" "c \<noteq> backslash"
    by auto
  moreover have "json_scan (r @ t) = scanned r (json_scan t)"
    by (rule Cons.IH) (rule Cons.prems, simp)
  ultimately show ?case by simp
qed simp

lemma digit_char_hex: "d < 16 \<Longrightarrow> digit_val 16 (digit_char d) = Some d"
  by (simp add: digit_val_char)

lemma hex_pair:
  assumes "byte_val c < 128"
  shows "unescape_hex [CHR ''0'', CHR ''0'', digit_char (byte_val c div 16), digit_char (byte_val c mod 16)] = [c]"
proof -
  have "digit_val 16 (CHR ''0'') = Some 0"
    by (simp add: digit_val_def)
  moreover have "byte_val c div 16 < 16" "byte_val c mod 16 < 16"
    using assms by simp_all
  ultimately show ?thesis
    by (simp add: unescape_hex_def digit_char_hex)
qed

lemma scan_ascii:
  assumes "byte_val c < 128"
  shows "json_scan (escape_ascii c @ t) = scanned [c] (json_scan t)"
  using hex_pair [OF assms]
  by (simp add: escape_ascii_def unescape_def quote_char_def backslash_def)

lemma scan_escape: "valid_utf8 s \<Longrightarrow> json_scan (json_escape s @ quote_char # t) = Some (s, t)"
proof (induction s rule: valid_utf8.induct)
  case (2 c s)
  show ?case
  proof (cases "byte_val c < 128")
    case True
    then show ?thesis using 2 by (simp add: json_escape.simps scan_ascii)
  next
    case False
    define w where "w = rune_width (c # s)"
    have w: "1 < w" and v: "valid_utf8 (drop (w - 1) s)"
      using 2(3) False by (simp_all add: w_def)
    have d: "drop w (c # s) = drop (w - 1) s"
      using w by (cases w) simp_all
    have ih: "json_scan (json_escape (drop w (c # s)) @ quote_char # t) = Some (drop w (c # s), t)"
      unfolding d using 2(2) False v by (simp add: w_def)
    have join: "take w (c # s) @ drop w (c # s) = c # s"
      by (rule append_take_drop_id)
    have esc: "json_escape (c # s) =
        (if take w (c # s) = line_separator then backslash # ''u2028''
         else if take w (c # s) = paragraph_separator then backslash # ''u2029'' else take w (c # s)) @
        json_escape (drop w (c # s))"
      using False w by (simp add: json_escape.simps(2) Let_def flip: w_def)
    have raw: "json_scan (take w (c # s) @ u) = scanned (take w (c # s)) (json_scan u)" for u
      by (rule scan_raw) (rule rune_bytes(2) [OF w_def [symmetric] w])
    have sep: "json_scan (backslash # ''u2028'' @ u) = scanned line_separator (json_scan u)"
      "json_scan (backslash # ''u2029'' @ u) = scanned paragraph_separator (json_scan u)" for u
      by (simp_all add: backslash_def quote_char_def unescape_hex_def)
    let ?u = "json_escape (drop w (c # s)) @ quote_char # t"
    have "json_scan (json_escape (c # s) @ quote_char # t) = scanned (take w (c # s)) (json_scan ?u)"
      using raw [of ?u] sep [of ?u] unfolding esc by (simp del: json_scan.simps)
    also have "\<dots> = Some (take w (c # s) @ drop w (c # s), t)"
      unfolding ih by simp
    finally show ?thesis unfolding join .
  qed
qed (simp add: quote_char_def)

lemma json_string_inj:
  assumes "json_string s @ t = json_string s' @ t'" "valid_utf8 s" "valid_utf8 s'"
  shows "s = s' \<and> t = t'"
proof -
  have "json_scan (json_escape s @ quote_char # t) = json_scan (json_escape s' @ quote_char # t')"
    using assms(1) by (simp add: json_string_def)
  then show ?thesis
    using assms(2,3) by (simp add: scan_escape)
qed

end
