(* ===== verification/GoTime.thy ===== *)
theory GoTime
  imports GoStrings
begin

text \<open>
  The parts of Go's package \<open>time\<close> that write and read instants: \<open>Time.Format(time.RFC3339)\<close> on UTC times, and \<open>time.Parse\<close> with
  the layout \<open>2006-01-02T15:04:05Z\<close>, over the proleptic Gregorian calendar. The round trip holds for the years 1 to 9999.
\<close>

section \<open>The calendar\<close>

text \<open>Days are counted from 1 January of the year 1; the Unix epoch is day 719162.\<close>

definition epoch_day :: int where
  "epoch_day = 719162"

definition leap_year :: "int \<Rightarrow> bool" where
  "leap_year y \<longleftrightarrow> y mod 4 = 0 \<and> (y mod 100 \<noteq> 0 \<or> y mod 400 = 0)"

definition days_before_year :: "int \<Rightarrow> int" where
  "days_before_year y = 365 * (y - 1) + (y - 1) div 4 - (y - 1) div 100 + (y - 1) div 400"

definition month_lengths :: "bool \<Rightarrow> int list" where
  "month_lengths leap = [31, if leap then 29 else 28, 31, 30, 31, 30, 31, 31, 30, 31, 30, 31]"

text \<open>The year of a day and the day of that year, by cycles of 400, 100, 4 and 1 years.\<close>

definition year_of_day :: "int \<Rightarrow> int \<times> int" where
  "year_of_day d0 =
     (let n = d0 div 146097; d1 = d0 mod 146097;
          a = min 3 (d1 div 36524); d2 = d1 - 36524 * a;
          b = d2 div 1461; d3 = d2 mod 1461;
          c = min 3 (d3 div 365); d4 = d3 - 365 * c
      in (400 * n + 100 * a + 4 * b + c + 1, d4))"

fun month_of_day :: "int \<Rightarrow> int list \<Rightarrow> int \<Rightarrow> int \<times> int" where
  "month_of_day m [] d = (m, d + 1)"
| "month_of_day m (l # ls) d = (if d < l then (m, d + 1) else month_of_day (m + 1) ls (d - l))"

record civil =
  cl_year :: int
  cl_month :: int
  cl_day :: int
  cl_hour :: int
  cl_min :: int
  cl_sec :: int

definition civil_of :: "time \<Rightarrow> civil" where
  "civil_of t =
     (let s = t div second; d = s div 86400; r = s mod 86400; (y, yd) = year_of_day (d + epoch_day);
          (m, dd) = month_of_day 1 (month_lengths (leap_year y)) yd
      in \<lparr>cl_year = y, cl_month = m, cl_day = dd, cl_hour = r div 3600, cl_min = r mod 3600 div 60, cl_sec = r mod 60\<rparr>)"

definition time_of :: "civil \<Rightarrow> time" where
  "time_of c =
     (let days = days_before_year (cl_year c) +
            sum_list (take (nat (cl_month c - 1)) (month_lengths (leap_year (cl_year c)))) + cl_day c - 1 - epoch_day
      in (days * 86400 + cl_hour c * 3600 + cl_min c * 60 + cl_sec c) * second)"

definition civil_ok :: "civil \<Rightarrow> bool" where
  "civil_ok c \<longleftrightarrow> 1 \<le> cl_month c \<and> cl_month c \<le> 12 \<and> 1 \<le> cl_day c \<and>
     cl_day c \<le> month_lengths (leap_year (cl_year c)) ! nat (cl_month c - 1) \<and>
     0 \<le> cl_hour c \<and> cl_hour c < 24 \<and> 0 \<le> cl_min c \<and> cl_min c < 60 \<and> 0 \<le> cl_sec c \<and> cl_sec c < 60"

section \<open>Text\<close>

definition pad_int :: "nat \<Rightarrow> int \<Rightarrow> string" where
  "pad_int w n = (if n < 0 then CHR ''-'' # zero_pad w (show_nat 10 (nat (- n))) else zero_pad w (show_nat 10 (nat n)))"

definition format_rfc3339 :: "time \<Rightarrow> string" where
  "format_rfc3339 t =
     (let c = civil_of t in
      pad_int 4 (cl_year c) @ ''-'' @ pad_int 2 (cl_month c) @ ''-'' @ pad_int 2 (cl_day c) @ ''T'' @
      pad_int 2 (cl_hour c) @ '':'' @ pad_int 2 (cl_min c) @ '':'' @ pad_int 2 (cl_sec c) @ ''Z'')"

definition is_digit :: "char \<Rightarrow> bool" where
  "is_digit c \<longleftrightarrow> 48 \<le> byte_val c \<and> byte_val c \<le> 57"

definition digit_of :: "char \<Rightarrow> int" where
  "digit_of c = int (byte_val c) - 48"

text \<open>
  The chunks of \<open>time.Parse\<close>: a year of four digits, a number of two digits, the hour of one or two, a literal character,
  and the fraction of a second, which the parser takes even where the layout has none.
\<close>

fun take_year :: "string \<Rightarrow> (int \<times> string) option" where
  "take_year (a # b # c # d # s) =
     (if is_digit a \<and> is_digit b \<and> is_digit c \<and> is_digit d
      then Some (digit_of a * 1000 + digit_of b * 100 + digit_of c * 10 + digit_of d, s) else None)"
| "take_year _ = None"

fun take_two :: "string \<Rightarrow> (int \<times> string) option" where
  "take_two (a # b # s) = (if is_digit a \<and> is_digit b then Some (digit_of a * 10 + digit_of b, s) else None)"
| "take_two _ = None"

fun take_hour :: "string \<Rightarrow> (int \<times> string) option" where
  "take_hour (a # s) =
     (if \<not> is_digit a then None
      else case s of
        b # t \<Rightarrow> if is_digit b then Some (digit_of a * 10 + digit_of b, t) else Some (digit_of a, s)
      | [] \<Rightarrow> Some (digit_of a, s))"
| "take_hour [] = None"

fun take_char :: "char \<Rightarrow> string \<Rightarrow> string option" where
  "take_char c (d # s) = (if c = d then Some s else None)"
| "take_char c [] = None"

definition take_fraction :: "string \<Rightarrow> int \<times> string" where
  "take_fraction s =
     (case s of
        c # d # t \<Rightarrow>
          if (c = CHR ''.'' \<or> c = CHR '','') \<and> is_digit d
          then (let ds = takeWhile is_digit (d # t); ns = take 9 ds @ replicate (9 - length ds) (CHR ''0'') in
                (foldl (\<lambda>v x. v * 10 + digit_of x) 0 ns, dropWhile is_digit (d # t)))
          else (0, s)
      | _ \<Rightarrow> (0, s))"

definition parse_utc :: "string \<Rightarrow> time option" where
  "parse_utc s0 =
     Option.bind (take_year s0) (\<lambda>(y, s1). Option.bind (take_char (CHR ''-'') s1) (\<lambda>s2.
     Option.bind (take_two s2) (\<lambda>(mo, s3). if mo < 1 \<or> 12 < mo then None else Option.bind (take_char (CHR ''-'') s3) (\<lambda>s4.
     Option.bind (take_two s4) (\<lambda>(d, s5). Option.bind (take_char (CHR ''T'') s5) (\<lambda>s6.
     Option.bind (take_hour s6) (\<lambda>(h, s7). if 24 \<le> h then None else Option.bind (take_char (CHR '':'') s7) (\<lambda>s8.
     Option.bind (take_two s8) (\<lambda>(mi, s9). if 60 \<le> mi then None else Option.bind (take_char (CHR '':'') s9) (\<lambda>s10.
     Option.bind (take_two s10) (\<lambda>(sec, s11). if 60 \<le> sec then None else
       let (ns, s12) = take_fraction s11;
           c = \<lparr>cl_year = y, cl_month = mo, cl_day = d, cl_hour = h, cl_min = mi, cl_sec = sec\<rparr> in
       if s12 = ''Z'' \<and> civil_ok c then Some (time_of c + ns) else None)))))))))))"

section \<open>The calendar round trip\<close>

lemma div_bounds: "0 < (k :: int) \<Longrightarrow> k * (d div k) \<le> d \<and> d < k * (d div k) + k"
  using pos_mod_bound [of k d] pos_mod_sign [of k d] mult_div_mod_eq [of k d] by linarith

text \<open>A quotient cut at 3: what remains of less than four cycles and one day is at most a cycle, and less before the last.\<close>

lemma min_quotient:
  assumes "0 \<le> d" "d < 4 * k + 1" "q = min 3 (d div k)" "0 < (k :: int)"
  shows "0 \<le> q \<and> q \<le> 3 \<and> 0 \<le> d - k * q \<and> d - k * q \<le> k \<and> (q < 3 \<longrightarrow> d - k * q < k)"
proof -
  define p where "p = d div k"
  have b: "k * p \<le> d" "d < k * p + k" "0 \<le> p"
    using div_bounds [OF assms(4), of d] assms(1,4) by (simp_all add: p_def pos_imp_zdiv_nonneg_iff)
  show ?thesis
  proof (cases "3 \<le> p")
    case True
    then have q: "q = 3" and "k * 3 \<le> k * p"
      using assms(3,4) by (simp_all add: p_def)
    with b(1) have "3 * k \<le> d" by linarith
    then show ?thesis using assms(2) unfolding q by linarith
  next
    case False
    then have q: "q = p" using assms(3) by (simp add: p_def)
    show ?thesis using b False unfolding q by linarith
  qed
qed

lemma year_of_day_split:
  assumes "year_of_day d = (y, yd)"
  shows "days_before_year y + yd = d \<and> 0 \<le> yd \<and> (yd < 365 \<or> yd = 365 \<and> leap_year y)"
proof -
  define n where "n = d div 146097"
  define d1 where "d1 = d mod 146097"
  define a where "a = min 3 (d1 div 36524)"
  define d2 where "d2 = d1 - 36524 * a"
  define b where "b = d2 div 1461"
  define d3 where "d3 = d2 mod 1461"
  define c where "c = min 3 (d3 div 365)"
  have "year_of_day d = (400 * n + 100 * a + 4 * b + c + 1, d3 - 365 * c)"
    by (simp only: year_of_day_def Let_def n_def d1_def a_def d2_def b_def d3_def c_def)
  then have y: "y = 400 * n + 100 * a + 4 * b + c + 1" and yd: "yd = d3 - 365 * c"
    using assms by simp_all
  have d: "d = 146097 * n + d1" and d1: "0 \<le> d1" "d1 < 146097"
    by (simp_all add: n_def d1_def)
  have a: "0 \<le> a" "a \<le> 3" and d2: "0 \<le> d2" "d2 \<le> 36524" "a < 3 \<Longrightarrow> d2 < 36524"
    using d1 min_quotient [OF _ _ a_def] unfolding d2_def by auto
  have d2': "d2 = 1461 * b + d3" and d3: "0 \<le> d3" "d3 < 1461"
    by (simp_all add: b_def d3_def)
  have b: "0 \<le> b" "b \<le> 24"
    using d2 div_bounds [of 1461 d2] unfolding b_def by linarith+
  have c: "0 \<le> c" "c \<le> 3" and yd': "0 \<le> yd" "yd \<le> 365" "c < 3 \<Longrightarrow> yd < 365"
    using d3 min_quotient [OF _ _ c_def] unfolding yd by auto
  have y4: "(y - 1) div 4 = 100 * n + 25 * a + b" "(y - 1) div 100 = 4 * n + a" "(y - 1) div 400 = n"
  proof -
    show "(y - 1) div 4 = 100 * n + 25 * a + b"
      by (rule int_div_pos_eq [where r = c]) (use y c in simp_all)
    show "(y - 1) div 100 = 4 * n + a"
      by (rule int_div_pos_eq [where r = "4 * b + c"]) (use y b c in simp_all)
    show "(y - 1) div 400 = n"
      by (rule int_div_pos_eq [where r = "100 * a + 4 * b + c"]) (use y a b c in simp_all)
  qed
  have "days_before_year y + yd = d"
    unfolding days_before_year_def y4 using y yd d d2' by (simp add: d2_def)
  moreover have "leap_year y" if "yd = 365"
  proof -
    have c3: "c = 3"
      using c yd'(3) that by (cases "c < 3") auto
    have "y mod 4 = 0"
      by (rule int_mod_pos_eq [where q = "100 * n + 25 * a + b + 1"]) (use y c3 in simp_all)
    moreover have "y mod 100 \<noteq> 0 \<or> y mod 400 = 0"
    proof (cases "b = 24")
      case True
      then have "a = 3"
        using d2(3) a d2' that c3 yd by (cases "a < 3") auto
      then have "y mod 400 = 0"
        by (intro int_mod_pos_eq [where q = "n + 1"]) (use y c3 True in simp_all)
      then show ?thesis ..
    next
      case False
      then have "y mod 100 = 4 * b + 4"
        by (intro int_mod_pos_eq [where q = "4 * n + a"]) (use y c3 b in simp_all)
      then show ?thesis using b(1) by simp
    qed
    ultimately show ?thesis
      by (simp add: leap_year_def)
  qed
  ultimately show ?thesis
    using yd'(1,2) by (cases "yd = 365") simp_all
qed

lemma month_of_day_split:
  "0 \<le> d \<Longrightarrow> d < sum_list ls \<Longrightarrow> month_of_day m ls d = (m', dd) \<Longrightarrow>
     \<exists>k. m' = m + int k \<and> k < length ls \<and> d = sum_list (take k ls) + dd - 1 \<and> 1 \<le> dd \<and> dd \<le> ls ! k"
proof (induction m ls d rule: month_of_day.induct)
  case (2 m l ls d)
  show ?case
  proof (cases "d < l")
    case True
    then show ?thesis using 2 by (intro exI [of _ 0]) auto
  next
    case False
    then obtain k where "m' = m + 1 + int k" "k < length ls" "d - l = sum_list (take k ls) + dd - 1" "1 \<le> dd" "dd \<le> ls ! k"
      using 2 by auto
    then show ?thesis by (intro exI [of _ "Suc k"]) simp
  qed
qed simp

lemma sum_month_lengths: "sum_list (month_lengths leap) = (if leap then 366 else 365)"
  by (simp add: month_lengths_def)

lemma length_month_lengths [simp]: "length (month_lengths leap) = 12"
  by (simp add: month_lengths_def)

lemma civil_of_time:
  "civil_ok (civil_of t) \<and> time_of (civil_of t) = t div second * second"
proof -
  define s where "s = t div second"
  define r where "r = s mod 86400"
  obtain y yd where y: "year_of_day (s div 86400 + epoch_day) = (y, yd)"
    by fastforce
  obtain m dd where m: "month_of_day 1 (month_lengths (leap_year y)) yd = (m, dd)"
    by fastforce
  have c: "civil_of t = \<lparr>cl_year = y, cl_month = m, cl_day = dd, cl_hour = r div 3600, cl_min = r mod 3600 div 60, cl_sec = r mod 60\<rparr>"
    by (simp only: civil_of_def Let_def s_def [symmetric] r_def [symmetric] y m prod.case)
  have day: "days_before_year y + yd = s div 86400 + epoch_day" "0 \<le> yd" "yd < sum_list (month_lengths (leap_year y))"
    using year_of_day_split [OF y] by (auto simp: sum_month_lengths)
  obtain k where k: "m = 1 + int k" "k < 12" "yd = sum_list (take k (month_lengths (leap_year y))) + dd - 1" "1 \<le> dd"
    "dd \<le> month_lengths (leap_year y) ! k"
    using month_of_day_split [OF day(2,3) m] by auto
  have r: "0 \<le> r" "r < 86400"
    by (simp_all add: r_def)
  have clock: "r div 3600 < 24" "r mod 3600 div 60 < 60" "0 \<le> r div 3600" "0 \<le> r mod 3600 div 60"
    using r div_bounds [of 3600 r] div_bounds [of 60 "r mod 3600"] pos_mod_bound [of 3600 r] pos_mod_sign [of 3600 r]
    by linarith+
  have "r mod 60 = r mod 3600 mod 60"
    by (simp add: mod_mod_cancel)
  then have "r mod 3600 = r mod 3600 div 60 * 60 + r mod 60"
    by simp
  then have parts: "r div 3600 * 3600 + r mod 3600 div 60 * 60 + r mod 60 = r"
    using div_mult_mod_eq [of r 3600] by linarith
  have "civil_ok (civil_of t)"
    using k clock by (simp add: c civil_ok_def)
  moreover have "time_of (civil_of t) = s * second"
  proof -
    have "time_of (civil_of t) =
        ((days_before_year y + yd - epoch_day) * 86400 + (r div 3600 * 3600 + r mod 3600 div 60 * 60 + r mod 60)) * second"
      using k by (simp add: c time_of_def)
    also have "days_before_year y + yd - epoch_day = s div 86400"
      using day(1) by simp
    also have "s div 86400 * 86400 + (r div 3600 * 3600 + r mod 3600 div 60 * 60 + r mod 60) = s"
      unfolding parts by (simp add: r_def)
    finally show ?thesis .
  qed
  ultimately show ?thesis by (simp add: s_def)
qed

section \<open>The text round trip\<close>

lemma digits_10: "n < 10 \<Longrightarrow> digits 10 n = [n]" "10 \<le> n \<Longrightarrow> digits 10 n = digits 10 (n div 10) @ [n mod 10]"
  by (subst digits.simps, simp)+

lemma digit_zero: "digit_char 0 = CHR ''0''"
  by (simp add: digit_char_def char_of_def bit_Suc_0_iff)

lemma replicate_small: "replicate 2 x = [x, x]" "replicate 3 x = [x, x, x]"
  by (simp_all add: numeral_2_eq_2 numeral_3_eq_3)

lemma pad_two: "n < 100 \<Longrightarrow> zero_pad 2 (show_nat 10 n) = [digit_char (n div 10), digit_char (n mod 10)]"
  by (cases "n < 10") (simp_all add: zero_pad_def show_nat_def digits_10 digit_zero)

lemma pad_four:
  assumes "n < 10000"
  shows "zero_pad 4 (show_nat 10 n) =
    [digit_char (n div 1000), digit_char (n div 100 mod 10), digit_char (n div 10 mod 10), digit_char (n mod 10)]"
proof -
  have div: "n div 10 div 10 = n div 100" "n div 100 div 10 = n div 1000"
    by (simp_all add: div_mult2_eq [symmetric])
  have z: "digit_char 0 = CHR ''0''"
    by (rule digit_zero)
  consider "n < 10" | "10 \<le> n" "n < 100" | "100 \<le> n" "n < 1000" | "1000 \<le> n"
    by linarith
  then show ?thesis
  proof cases
    case 1
    then show ?thesis using z by (simp add: zero_pad_def show_nat_def digits_10 replicate_small)
  next
    case 2
    then have "digits 10 n = [n div 10, n mod 10]" by (simp add: digits_10)
    with 2 show ?thesis using z by (simp add: zero_pad_def show_nat_def replicate_small)
  next
    case 3
    then have "digits 10 n = [n div 100, n div 10 mod 10, n mod 10]" by (simp add: digits_10 div)
    with 3 show ?thesis using z by (simp add: zero_pad_def show_nat_def)
  next
    case 4
    then have "digits 10 n = [n div 1000, n div 100 mod 10, n div 10 mod 10, n mod 10]"
      using assms by (simp add: digits_10 div)
    with 4 show ?thesis by (simp add: zero_pad_def show_nat_def)
  qed
qed

lemma digit_of_char: "d < 10 \<Longrightarrow> is_digit (digit_char d) \<and> digit_of (digit_char d) = int d"
  by (simp add: is_digit_def digit_of_def digit_char_def)

lemma tens: "0 \<le> n \<Longrightarrow> int (nat n div 10) * 10 + int (nat n mod 10) = n"
  by (metis div_mult_mod_eq int_nat_eq of_nat_add of_nat_mult of_nat_numeral)

lemma take_two_pad: "0 \<le> n \<Longrightarrow> n < 100 \<Longrightarrow> take_two (pad_int 2 n @ s) = Some (n, s)"
  using pad_two [of "nat n"] digit_of_char [of "nat n div 10"] digit_of_char [of "nat n mod 10"]
  by (simp add: pad_int_def nat_less_iff less_mult_imp_div_less tens)

lemma take_hour_pad: "0 \<le> n \<Longrightarrow> n < 100 \<Longrightarrow> take_hour (pad_int 2 n @ s) = Some (n, s)"
  using pad_two [of "nat n"] digit_of_char [of "nat n div 10"] digit_of_char [of "nat n mod 10"]
  by (simp add: pad_int_def nat_less_iff less_mult_imp_div_less tens)

lemma thousands: "n div 1000 * 1000 + n div 100 mod 10 * 100 + n div 10 mod 10 * 10 + n mod 10 = (n :: nat)"
proof -
  have "n = n div 10 * 10 + n mod 10" "n div 10 = n div 100 * 10 + n div 10 mod 10"
    "n div 100 = n div 1000 * 10 + n div 100 mod 10"
    using div_mult_mod_eq [of n 10] div_mult_mod_eq [of "n div 10" 10] div_mult_mod_eq [of "n div 100" 10]
    by (simp_all add: div_mult2_eq [symmetric])
  then show ?thesis by linarith
qed

lemma take_year_pad:
  assumes "0 \<le> n" "n < 10000"
  shows "take_year (pad_int 4 n @ s) = Some (n, s)"
proof -
  let ?n = "nat n"
  have small: "?n < 10000" using assms by simp
  have "take_year (pad_int 4 n @ s) =
      Some (int (?n div 1000) * 1000 + int (?n div 100 mod 10) * 100 + int (?n div 10 mod 10) * 10 + int (?n mod 10), s)"
    using assms small digit_of_char [of "?n div 1000"] digit_of_char [of "?n div 100 mod 10"]
      digit_of_char [of "?n div 10 mod 10"] digit_of_char [of "?n mod 10"]
    by (simp add: pad_int_def pad_four less_mult_imp_div_less)
  also have "int (?n div 1000) * 1000 + int (?n div 100 mod 10) * 100 + int (?n div 10 mod 10) * 10 + int (?n mod 10) = n"
    using arg_cong [where f = int, OF thousands [of ?n]] assms(1) by (simp only: of_nat_add of_nat_mult of_nat_numeral int_nat_eq if_True)
  finally show ?thesis .
qed

lemma civil_eta: "\<lparr>cl_year = cl_year c, cl_month = cl_month c, cl_day = cl_day c, cl_hour = cl_hour c, cl_min = cl_min c,
    cl_sec = cl_sec c\<rparr> = c"
  by simp

text \<open>What \<open>Format(time.RFC3339)\<close> writes, the layout reads, to the second.\<close>

theorem parse_format_utc:
  assumes "1 \<le> cl_year (civil_of t)" "cl_year (civil_of t) \<le> 9999"
  shows "parse_utc (format_rfc3339 t) = Some (t div second * second)"
proof -
  let ?c = "civil_of t"
  have ok: "civil_ok ?c" "time_of ?c = t div second * second"
    using civil_of_time [of t] by simp_all
  have len: "month_lengths l ! k \<le> 31" if "k < 12" for l k
    using that by (auto simp: month_lengths_def nth_Cons split: nat.splits)
  have "cl_day ?c \<le> 31"
    using ok(1) len [of "nat (cl_month ?c - 1)" "leap_year (cl_year ?c)"] by (auto simp: civil_ok_def intro: order_trans)
  then show ?thesis
    using ok assms
    by (simp add: parse_utc_def format_rfc3339_def Let_def take_year_pad take_two_pad take_hour_pad civil_ok_def
      take_fraction_def civil_eta)
qed

end
