(* ===== verification/Envelope.thy ===== *)
theory Envelope
  imports GoJson GoTime Encodings Pagination
begin

text \<open>
  The Agent envelope, \<open>core/internal/envelope/envelope.go\<close>: the canonical signature payload, making, verifying and opening an
  envelope, and the canonical manifest. SHA-256, Ed25519 and age are arguments: \<open>ed_sign\<close> and
  \<open>ed_verify\<close> over a private and a public key, \<open>age_encrypt\<close> to a recipient (with the random bytes of the call) and \<open>age_decrypt\<close> with
  an identity.
\<close>

section \<open>Envelopes\<close>

definition protocol_name :: string where "protocol_name = ''autosecrets-envelope''"
definition envelope_version :: int where "envelope_version = 1"
definition suite_age_x25519 :: string where "suite_age_x25519 = ''age-x25519''"

datatype envelope_error = ManifestRequired | RecipientRequired | SignerRequired
  | UnsupportedProtocol | UnsupportedVersion | UnsupportedSuite | EnvelopeExpired | BadSignature | BadCiphertext | BadManifest
  | InvalidExpiry

record envelope =
  nv_protocol :: string
  nv_version :: int
  nv_node :: string
  nv_revision :: string
  nv_created :: string
  nv_expires :: string
  nv_manifest :: string
  nv_suite :: string
  nv_cipher :: string
  nv_key_id :: string
  nv_signature :: string

record envelope_options =
  eo_node :: string
  eo_revision :: string
  eo_created :: time
  eo_expires :: time
  eo_manifest :: bytes
  eo_plaintext :: bytes
  eo_recipient :: "bytes option"
  eo_signer :: bytes
  eo_key_id :: string

definition signature_fields :: "envelope \<Rightarrow> (string \<times> string) list" where
  "signature_fields e =
     [(''ciphertext'', nv_cipher e), (''created_at'', nv_created e), (''expires_at'', nv_expires e),
      (''manifest_sha256'', nv_manifest e), (''node_id'', nv_node e), (''protocol'', nv_protocol e),
      (''revision_id'', nv_revision e), (''signing_key_id'', nv_key_id e), (''suite'', nv_suite e),
      (''version'', format_int (nv_version e))]"

definition signature_payload :: "envelope \<Rightarrow> bytes" where
  "signature_payload e = json_map (map (\<lambda>(k, v). (k, json_string v)) (signature_fields e))"

section \<open>Making an envelope\<close>

definition new_envelope ::
    "(bytes \<Rightarrow> bytes) \<Rightarrow> (bytes \<Rightarrow> bytes \<Rightarrow> bytes) \<Rightarrow> (bytes \<Rightarrow> bytes \<Rightarrow> bytes) \<Rightarrow> time \<Rightarrow> envelope_options \<Rightarrow>
     envelope_error + envelope" where
  "new_envelope sha256 age_encrypt ed_sign wall eo =
     (if eo_manifest eo = [] then Inl ManifestRequired
      else case eo_recipient eo of
        None \<Rightarrow> Inl RecipientRequired
      | Some recipient \<Rightarrow>
          if length (eo_signer eo) \<noteq> 64 then Inl SignerRequired
          else
            let created = (if eo_created eo = zero_time then wall else eo_created eo);
                expires = (if eo_expires eo = zero_time then [] else format_rfc3339 (eo_expires eo));
                e = \<lparr>nv_protocol = protocol_name, nv_version = envelope_version, nv_node = eo_node eo,
                     nv_revision = eo_revision eo, nv_created = format_rfc3339 created, nv_expires = expires,
                     nv_manifest = hex_encode (sha256 (eo_manifest eo)), nv_suite = suite_age_x25519,
                     nv_cipher = std_encode (age_encrypt recipient (eo_plaintext eo)), nv_key_id = eo_key_id eo,
                     nv_signature = []\<rparr>
            in Inr (e\<lparr>nv_signature := std_encode (ed_sign (eo_signer eo) (signature_payload e))\<rparr>))"

section \<open>Verifying and opening\<close>

definition check_meta :: "envelope \<Rightarrow> envelope_error + unit" where
  "check_meta e =
     (if nv_protocol e \<noteq> protocol_name then Inl UnsupportedProtocol
      else if nv_version e \<noteq> envelope_version then Inl UnsupportedVersion
      else if nv_suite e \<noteq> suite_age_x25519 then Inl UnsupportedSuite else Inr ())"

definition check_expiry :: "time \<Rightarrow> envelope \<Rightarrow> envelope_error + unit" where
  "check_expiry now e =
     (if nv_expires e = [] then Inr ()
      else case parse_utc (nv_expires e) of
        None \<Rightarrow> Inl InvalidExpiry
      | Some expiry \<Rightarrow> if expiry < now then Inl EnvelopeExpired else Inr ())"

definition verify_envelope :: "(bytes \<Rightarrow> bytes \<Rightarrow> bytes \<Rightarrow> bool) \<Rightarrow> bytes \<Rightarrow> time \<Rightarrow> envelope \<Rightarrow> envelope_error + unit" where
  "verify_envelope ed_verify key now e =
     and_then (check_meta e) (\<lambda>_.
     and_then (check_expiry now e) (\<lambda>_.
       if length key \<noteq> 32 then Inl BadSignature
       else case std_decode (nv_signature e) of
         None \<Rightarrow> Inl BadSignature
       | Some signature \<Rightarrow>
           if \<not> ed_verify key (signature_payload e) signature then Inl BadSignature else Inr ()))"

definition open_envelope ::
    "(bytes \<Rightarrow> bytes \<Rightarrow> bytes \<Rightarrow> bool) \<Rightarrow> (bytes \<Rightarrow> bytes \<Rightarrow> bytes option) \<Rightarrow> bytes \<Rightarrow> bytes \<Rightarrow> time \<Rightarrow> envelope \<Rightarrow>
     envelope_error + bytes" where
  "open_envelope ed_verify age_decrypt identity key now e =
     and_then (verify_envelope ed_verify key now e) (\<lambda>_.
       case std_decode (nv_cipher e) of
         None \<Rightarrow> Inl BadCiphertext
       | Some ciphertext \<Rightarrow> (case age_decrypt identity ciphertext of None \<Rightarrow> Inl BadCiphertext | Some plaintext \<Rightarrow> Inr plaintext))"

definition verify_manifest :: "(bytes \<Rightarrow> bytes) \<Rightarrow> bytes \<Rightarrow> envelope \<Rightarrow> envelope_error + unit" where
  "verify_manifest sha256 manifest e =
     (if hex_encode (sha256 manifest) \<noteq> nv_manifest e then Inl BadManifest else Inr ())"

section \<open>Manifests\<close>

record file_spec =
  fs_path :: string
  fs_mode :: string
  fs_uid :: string
  fs_gid :: string
  fs_sha :: string

definition manifest_entry :: "file_spec \<Rightarrow> string" where
  "manifest_entry f =
     json_map (map (\<lambda>(k, v). (k, json_string v))
       [(''gid'', fs_gid f), (''mode'', fs_mode f), (''path'', fs_path f), (''sha256'', fs_sha f), (''uid'', fs_uid f)])"

text \<open>\<open>sort.Slice\<close> leaves the order of files with the same path open; it is the order of the list here.\<close>

definition canonical_manifest :: "file_spec list \<Rightarrow> bytes" where
  "canonical_manifest files =
     json_map [(''files'', json_array (map manifest_entry (sort_key fs_path files))),
       (''protocol'', json_string ''autosecrets-manifest''), (''version'', json_string ''1'')]"

section \<open>Facts\<close>

text \<open>The keys of the two canonical forms are in order.\<close>

lemma json_map_sorted: "sorted (map fst kvs) \<Longrightarrow> json_map kvs = json_object kvs"
  by (simp add: json_map_def sorted_sort_id sort_key_id_if_sorted)

lemma signature_payload_eq:
  "signature_payload e = json_object (map (\<lambda>(k, v). (k, json_string v)) (signature_fields e))"
proof -
  have "sorted (map fst (signature_fields e))"
    by (simp add: signature_fields_def less_eq_char_def)
  then show ?thesis
    unfolding signature_payload_def by (intro json_map_sorted) (simp add: comp_def case_prod_beta)
qed

text \<open>An object with given keys determines its values, when these are strings of valid UTF-8.\<close>

lemma members_inj:
  "join_with '','' (map (\<lambda>(k, v). json_field (k, json_string v)) (zip ks vs)) @ t =
   join_with '','' (map (\<lambda>(k, v). json_field (k, json_string v)) (zip ks us)) @ t' \<Longrightarrow>
   length vs = length ks \<Longrightarrow> length us = length ks \<Longrightarrow> \<forall>v \<in> set vs. valid_utf8 v \<Longrightarrow> \<forall>u \<in> set us. valid_utf8 u \<Longrightarrow>
   vs = us \<and> t = t'"
proof (induction ks arbitrary: vs us)
  case (Cons k ks)
  let ?f = "\<lambda>(k, v). json_field (k, json_string v)"
  obtain v vs1 u us1 where vu: "vs = v # vs1" "us = u # us1" "length vs1 = length ks" "length us1 = length ks"
    using Cons.prems(2,3) by (auto simp: length_Suc_conv)
  show ?case
  proof (cases ks)
    case Nil
    then have "json_string v @ t = json_string u @ t'"
      using Cons.prems(1) vu by (simp add: json_field_def)
    then show ?thesis
      using json_string_inj [of v t u t'] Cons.prems(4,5) vu Nil by simp
  next
    case (Cons k2 ks2)
    then obtain v2 vs2 u2 us2 where more: "vs1 = v2 # vs2" "us1 = u2 # us2"
      using vu(3,4) by (auto simp: length_Suc_conv)
    let ?r = "\<lambda>xs. '','' @ join_with '','' (map ?f (zip ks xs))"
    have "json_string v @ (?r vs1 @ t) = json_string u @ (?r us1 @ t')"
      using Cons.prems(1) vu Cons more by (simp add: json_field_def)
    then have "v = u" "?r vs1 @ t = ?r us1 @ t'"
      using json_string_inj [of v "?r vs1 @ t" u "?r us1 @ t'"] Cons.prems(4,5) vu by simp_all
    then show ?thesis
      using Cons.IH [of vs1 us1] Cons.prems(4,5) vu by simp
  qed
qed simp

lemma payload_inj:
  assumes "signature_payload e = signature_payload e'"
    and "\<forall>v \<in> snd ` set (signature_fields e) \<union> snd ` set (signature_fields e'). valid_utf8 v"
  shows "signature_fields e = signature_fields e'"
proof -
  let ?ks = "map fst (signature_fields e)" and ?vs = "\<lambda>e. map snd (signature_fields e)"
  have ks: "map fst (signature_fields e') = ?ks"
    by (simp add: signature_fields_def)
  have z: "map json_field (map (\<lambda>(k, v). (k, json_string v)) kvs) =
      map (\<lambda>(k, v). json_field (k, json_string v)) (zip (map fst kvs) (map snd kvs))" for kvs
    by (simp add: zip_map_fst_snd case_prod_beta comp_def)
  have "join_with '','' (map (\<lambda>(k, v). json_field (k, json_string v)) (zip ?ks (?vs e))) @ ''}'' =
      join_with '','' (map (\<lambda>(k, v). json_field (k, json_string v)) (zip ?ks (?vs e'))) @ ''}''"
    using assms(1) z [of "signature_fields e"] z [of "signature_fields e'"]
    by (simp only: signature_payload_eq json_object_def same_append_eq ks)
  then have "?vs e = ?vs e'"
    using assms(2) by (intro conjunct1 [OF members_inj [of ?ks "?vs e" "''}''" "?vs e'" "''}''"]]) (auto simp: signature_fields_def)
  then show ?thesis
    using ks by (metis zip_map_fst_snd)
qed

text \<open>A signature that verifies, verifies one message only.\<close>

definition message_bound :: "(bytes \<Rightarrow> bytes \<Rightarrow> bytes \<Rightarrow> bool) \<Rightarrow> bytes \<Rightarrow> bool" where
  "message_bound ed_verify key \<longleftrightarrow> (\<forall>m m' s. ed_verify key m s \<longrightarrow> ed_verify key m' s \<longrightarrow> m = m')"

lemma verify_envelope_Inr:
  assumes "verify_envelope ed_verify key now e = Inr ()"
  obtains s where "std_decode (nv_signature e) = Some s" "ed_verify key (signature_payload e) s" "length key = 32"
    "check_meta e = Inr ()" "check_expiry now e = Inr ()"
  using assms by (auto simp: verify_envelope_def split: if_splits option.splits)

lemma envelope_bound:
  assumes "message_bound ed_verify key" "verify_envelope ed_verify key now e = Inr ()"
    and "verify_envelope ed_verify key now' e' = Inr ()" "nv_signature e' = nv_signature e"
    and "\<forall>v \<in> snd ` set (signature_fields e) \<union> snd ` set (signature_fields e'). valid_utf8 v"
  shows "e' = e"
proof -
  obtain s where s: "std_decode (nv_signature e) = Some s" "ed_verify key (signature_payload e) s"
    by (rule verify_envelope_Inr [OF assms(2)])
  obtain s' where s': "std_decode (nv_signature e') = Some s'" "ed_verify key (signature_payload e') s'"
    by (rule verify_envelope_Inr [OF assms(3)])
  have "signature_payload e = signature_payload e'"
    using assms(1) s s' assms(4) unfolding message_bound_def by auto
  then have "signature_fields e = signature_fields e'"
    using assms(5) by (rule payload_inj)
  moreover have "nv_version e = nv_version e'"
    using assms(2,3) by (auto simp: verify_envelope_def check_meta_def split: if_splits)
  ultimately show ?thesis
    using assms(4) by (cases e; cases e') (auto simp: signature_fields_def)
qed

lemma open_new_envelope:
  assumes "\<And>m. ed_verify pub m (ed_sign (eo_signer eo) m)"
    and "\<And>r v. eo_recipient eo = Some r \<Longrightarrow> age_decrypt identity (age_encrypt r v) = Some v"
    and "length pub = 32" "new_envelope sha256 age_encrypt ed_sign wall eo = Inr e"
    and "1 \<le> cl_year (civil_of (eo_expires eo))" "cl_year (civil_of (eo_expires eo)) \<le> 9999"
  shows "open_envelope ed_verify age_decrypt identity pub now e =
      (if eo_expires eo \<noteq> zero_time \<and> eo_expires eo div second * second < now then Inl EnvelopeExpired
       else Inr (eo_plaintext eo)) \<and>
    verify_manifest sha256 (eo_manifest eo) e = Inr ()"
proof -
  obtain r where r: "eo_recipient eo = Some r" and m: "eo_manifest eo \<noteq> []" and k: "length (eo_signer eo) = 64"
    using assms(4) by (auto simp: new_envelope_def split: if_splits option.splits)
  define e0 where "e0 = \<lparr>nv_protocol = protocol_name, nv_version = envelope_version, nv_node = eo_node eo,
    nv_revision = eo_revision eo, nv_created = format_rfc3339 (if eo_created eo = zero_time then wall else eo_created eo),
    nv_expires = (if eo_expires eo = zero_time then [] else format_rfc3339 (eo_expires eo)),
    nv_manifest = hex_encode (sha256 (eo_manifest eo)), nv_suite = suite_age_x25519,
    nv_cipher = std_encode (age_encrypt r (eo_plaintext eo)), nv_key_id = eo_key_id eo, nv_signature = []\<rparr>"
  have e: "e = e0\<lparr>nv_signature := std_encode (ed_sign (eo_signer eo) (signature_payload e0))\<rparr>"
    using assms(4) r m k by (simp add: new_envelope_def Let_def e0_def)
  have payload: "signature_payload e = signature_payload e0"
    by (simp add: e signature_payload_def signature_fields_def)
  have signature: "std_decode (nv_signature e) = Some (ed_sign (eo_signer eo) (signature_payload e0))"
    by (simp add: e std_roundtrip)
  have meta: "check_meta e = Inr ()"
    by (simp add: e e0_def check_meta_def)
  have nonempty: "format_rfc3339 t \<noteq> []" for t
    by (simp add: format_rfc3339_def Let_def)
  have expiry: "check_expiry now e =
      (if eo_expires eo \<noteq> zero_time \<and> eo_expires eo div second * second < now then Inl EnvelopeExpired else Inr ())"
    using parse_format_utc [OF assms(5,6)] nonempty by (simp add: check_expiry_def e e0_def)
  have verify: "verify_envelope ed_verify pub now e = check_expiry now e"
    using assms(1) [of "signature_payload e0"] assms(3) signature
    by (simp add: verify_envelope_def meta payload expiry)
  have "std_decode (nv_cipher e) = Some (age_encrypt r (eo_plaintext eo))"
    by (simp add: e e0_def std_roundtrip)
  then show ?thesis
    using assms(2) [OF r] by (simp add: open_envelope_def verify expiry) (simp add: verify_manifest_def e e0_def)
qed

text \<open>The Go side also reads an expiry the document of the protocol excludes.\<close>

lemma loose_expiry: "parse_utc ''2026-01-01T5:00:00.5Z'' \<noteq> None"
  by (simp add: parse_utc_def take_fraction_def civil_ok_def month_lengths_def is_digit_def digit_of_def)

end
