(* ===== verification/AgentCA.thy ===== *)
theory AgentCA
  imports GoTime CryptoCore Middleware
begin

text \<open>
  The internal Agent CA and the Core signing key of \<open>core/internal/crypto/crypto.go\<close>: loading or creating them from their
  files, issuing a certificate for a Managed Node, and checking the certificate an Agent presents. The encodings (PEM, ASN.1,
  PKCS 8) and the signatures of X.509 are the record \<open>x509\<close> of arguments; a certificate carries what the source sets and reads
  of it. Random bytes and fresh keys are arguments, and writing a file succeeds.
\<close>

section \<open>Keys and certificates\<close>

text \<open>An ECDSA key is its uncompressed point.\<close>

datatype public_key = NoKey | EcdsaKey bytes | Ed25519Key bytes | OtherKey bytes

datatype key_usage = UsageDigitalSignature | UsageCertSign | UsageCRLSign

datatype ext_usage = ClientAuth | ServerAuth

record certificate =
  ce_raw :: bytes
  ce_serial :: int
  ce_common_name :: string
  ce_not_before :: time
  ce_not_after :: time
  ce_is_ca :: bool
  ce_constraints :: bool
  ce_usage :: "key_usage list"
  ce_ext :: "ext_usage list"
  ce_subject_id :: bytes
  ce_authority_id :: bytes
  ce_key :: public_key

record csr =
  cq_key :: public_key
  cq_signed :: bool

datatype private_key = EcPrivate bytes | EdPrivate bytes | OtherPrivate bytes

text \<open>
  \<open>xc_ec_key\<close> and \<open>xc_ed_key\<close> hold of the private keys that \<open>ecdsa.GenerateKey\<close> on P-256 and \<open>ed25519.GenerateKey\<close>
  make. \<open>xc_create\<close> is \<open>x509.CreateCertificate\<close> on random bytes, a template, the parent, the key of the subject and the key that
  signs; \<open>xc_verify\<close> is \<open>Certificate.Verify\<close> on the one root, the current time and the required usages.
\<close>

record x509 =
  xc_ec_key :: "bytes \<Rightarrow> bool"
  xc_ed_key :: "bytes \<Rightarrow> bool"
  xc_pem_encode :: "string \<Rightarrow> bytes \<Rightarrow> bytes"
  xc_pem_decode :: "bytes \<Rightarrow> (string \<times> bytes) option"
  xc_marshal_ec :: "bytes \<Rightarrow> bytes"
  xc_parse_ec :: "bytes \<Rightarrow> bytes option"
  xc_public_ec :: "bytes \<Rightarrow> bytes"
  xc_marshal_pkcs8 :: "bytes \<Rightarrow> bytes"
  xc_parse_pkcs8 :: "bytes \<Rightarrow> private_key option"
  xc_marshal_pkix :: "bytes \<Rightarrow> bytes"
  xc_create :: "bytes \<Rightarrow> certificate \<Rightarrow> certificate \<Rightarrow> public_key \<Rightarrow> bytes \<Rightarrow> bytes option"
  xc_parse :: "bytes \<Rightarrow> certificate option"
  xc_parse_csr :: "bytes \<Rightarrow> csr option"
  xc_verify :: "certificate \<Rightarrow> time \<Rightarrow> ext_usage list \<Rightarrow> certificate \<Rightarrow> bool"
  xc_sha1 :: "bytes \<Rightarrow> bytes"

datatype ca_error = KeyUnreadable | MalformedKey | UnparsableKey | MalformedCert | UnparsableCert | CreateFailed
  | MalformedCsr | UnparsableCsr | CsrSignature | SliceBounds | Untrusted | NotEd25519

definition subject_key_id :: "x509 \<Rightarrow> public_key \<Rightarrow> bytes" where
  "subject_key_id x k =
     (case k of EcdsaKey p \<Rightarrow> xc_sha1 x p | Ed25519Key p \<Rightarrow> xc_sha1 x p | NoKey \<Rightarrow> [] | OtherKey _ \<Rightarrow> [])"

section \<open>The CA\<close>

record agent_ca =
  ca_cert :: certificate
  ca_key :: bytes

text \<open>\<open>Time.AddDate(n, 0, 0)\<close>: the 29th of February becomes the 1st of March in a common year.\<close>

definition add_years :: "int \<Rightarrow> time \<Rightarrow> time" where
  "add_years n t = (let c = civil_of t in time_of (c\<lparr>cl_year := cl_year c + n\<rparr>) + t mod second)"

definition ca_template :: "x509 \<Rightarrow> time \<Rightarrow> bytes \<Rightarrow> certificate" where
  "ca_template x now key =
     \<lparr>ce_raw = [], ce_serial = 1, ce_common_name = ''AutoSecrets Agent CA'', ce_not_before = now - 60 * minute,
      ce_not_after = add_years 10 now, ce_is_ca = True, ce_constraints = True, ce_usage = [UsageCertSign, UsageCRLSign],
      ce_ext = [], ce_subject_id = subject_key_id x (EcdsaKey (xc_public_ec x key)), ce_authority_id = [], ce_key = NoKey\<rparr>"

text \<open>
  The answer is the CA and the two files after the call. A certificate file that exists and cannot be read, with a key file
  that can, returns the error of the key file, which is nil: no CA and no error (\<open>None\<close>).
\<close>

definition load_or_create_ca ::
    "x509 \<Rightarrow> key_file \<Rightarrow> key_file \<Rightarrow> time \<Rightarrow> bytes \<Rightarrow> bytes \<Rightarrow> ca_error + (agent_ca option \<times> key_file \<times> key_file)" where
  "load_or_create_ca x key_path cert_path now new_key rnd =
     (if key_path = NoFile \<or> cert_path = NoFile then
        let template = ca_template x now new_key in
        (case xc_create x rnd template template (EcdsaKey (xc_public_ec x new_key)) new_key of
           None \<Rightarrow> Inl CreateFailed
         | Some der \<Rightarrow>
             (case xc_parse x der of
                None \<Rightarrow> Inl UnparsableCert
              | Some cert \<Rightarrow> Inr (Some \<lparr>ca_cert = cert, ca_key = new_key\<rparr>,
                  FileBytes (xc_pem_encode x ''EC PRIVATE KEY'' (xc_marshal_ec x new_key)),
                  FileBytes (xc_pem_encode x ''CERTIFICATE'' der))))
      else case (key_path, cert_path) of
        (FileBytes key_bytes, FileBytes cert_bytes) \<Rightarrow>
          (case xc_pem_decode x key_bytes of
             None \<Rightarrow> Inl MalformedKey
           | Some (_, kb) \<Rightarrow>
               (case xc_parse_ec x kb of
                  None \<Rightarrow> Inl UnparsableKey
                | Some key \<Rightarrow>
                    (case xc_pem_decode x cert_bytes of
                       None \<Rightarrow> Inl MalformedCert
                     | Some (_, cb) \<Rightarrow>
                         (case xc_parse x cb of
                            None \<Rightarrow> Inl UnparsableCert
                          | Some cert \<Rightarrow> Inr (Some \<lparr>ca_cert = cert, ca_key = key\<rparr>, key_path, cert_path)))))
      | (FileBytes _, _) \<Rightarrow> Inr (None, key_path, cert_path)
      | _ \<Rightarrow> Inl KeyUnreadable)"

definition cert_pem :: "x509 \<Rightarrow> agent_ca \<Rightarrow> bytes" where
  "cert_pem x ca = xc_pem_encode x ''CERTIFICATE'' (ce_raw (ca_cert ca))"

text \<open>
  The subject key identifier of a key that is neither ECDSA nor Ed25519 is nil, and slicing it to 20 bytes panics
  (\<open>SliceBounds\<close>). The serial is a random number below \<open>2 ^ 128\<close>; \<open>now\<close> is the system clock.
\<close>

definition agent_template :: "x509 \<Rightarrow> agent_ca \<Rightarrow> string \<Rightarrow> public_key \<Rightarrow> duration \<Rightarrow> time \<Rightarrow> int \<Rightarrow> certificate" where
  "agent_template x ca node key ttl now serial =
     \<lparr>ce_raw = [], ce_serial = serial, ce_common_name = ''node:'' @ node, ce_not_before = now - minute,
      ce_not_after = now + ttl, ce_is_ca = False, ce_constraints = False, ce_usage = [UsageDigitalSignature],
      ce_ext = [ClientAuth], ce_subject_id = take 20 (subject_key_id x key), ce_authority_id = ce_subject_id (ca_cert ca),
      ce_key = NoKey\<rparr>"

definition issue_agent_cert ::
    "x509 \<Rightarrow> agent_ca \<Rightarrow> string \<Rightarrow> bytes \<Rightarrow> duration \<Rightarrow> time \<Rightarrow> int \<Rightarrow> bytes \<Rightarrow> ca_error + (bytes \<times> string \<times> time)" where
  "issue_agent_cert x ca node csr_pem ttl now serial rnd =
     (case xc_pem_decode x csr_pem of
        None \<Rightarrow> Inl MalformedCsr
      | Some (_, block) \<Rightarrow>
          (case xc_parse_csr x block of
             None \<Rightarrow> Inl UnparsableCsr
           | Some req \<Rightarrow>
               if \<not> cq_signed req then Inl CsrSignature
               else if length (subject_key_id x (cq_key req)) < 20 then Inl SliceBounds
               else (case xc_create x rnd (agent_template x ca node (cq_key req) ttl now serial) (ca_cert ca) (cq_key req) (ca_key ca) of
                   None \<Rightarrow> Inl CreateFailed
                 | Some der \<Rightarrow> Inr (xc_pem_encode x ''CERTIFICATE'' der, serial_text serial, now + ttl))))"

definition parse_agent_cert :: "x509 \<Rightarrow> agent_ca \<Rightarrow> bytes \<Rightarrow> time \<Rightarrow> ca_error + certificate" where
  "parse_agent_cert x ca raw now =
     (let der = trim_space raw;
          der' = (case xc_pem_decode x der of Some (t, b) \<Rightarrow> if t = ''CERTIFICATE'' then b else der | None \<Rightarrow> der) in
      case xc_parse x der' of
        None \<Rightarrow> Inl UnparsableCert
      | Some cert \<Rightarrow> if xc_verify x (ca_cert ca) now [ClientAuth] cert then Inr cert else Inl Untrusted)"

text \<open>What the middleware asks of the CA.\<close>

definition agent_cert_of :: "certificate \<Rightarrow> agent_cert" where
  "agent_cert_of c = \<lparr>ac_key = (case ce_key c of Ed25519Key k \<Rightarrow> Some k | _ \<Rightarrow> None), ac_serial = ce_serial c\<rparr>"

definition ca_verifier :: "x509 \<Rightarrow> agent_ca \<Rightarrow> cert_verifier" where
  "ca_verifier x ca raw now = (case parse_agent_cert x ca raw now of Inl _ \<Rightarrow> None | Inr c \<Rightarrow> Some (agent_cert_of c))"

section \<open>The signing key\<close>

text \<open>An Ed25519 private key ends with its public key.\<close>

record signer =
  sg_priv :: bytes
  sg_pub :: bytes

definition signer_of :: "bytes \<Rightarrow> signer" where
  "signer_of priv = \<lparr>sg_priv = priv, sg_pub = drop 32 priv\<rparr>"

definition signer_key_id :: "signer \<Rightarrow> string" where
  "signer_key_id s = hex_encode (take 8 (sg_pub s))"

definition public_key_pem :: "x509 \<Rightarrow> signer \<Rightarrow> bytes" where
  "public_key_pem x s = xc_pem_encode x ''PUBLIC KEY'' (xc_marshal_pkix x (sg_pub s))"

definition load_or_create_signer :: "x509 \<Rightarrow> key_file \<Rightarrow> bytes \<Rightarrow> ca_error + (signer \<times> key_file)" where
  "load_or_create_signer x file new_key =
     (case file of
        NoFile \<Rightarrow> Inr (signer_of new_key, FileBytes (xc_pem_encode x ''PRIVATE KEY'' (xc_marshal_pkcs8 x new_key)))
      | Unreadable \<Rightarrow> Inl KeyUnreadable
      | FileBytes bytes \<Rightarrow>
          (case xc_pem_decode x bytes of
             None \<Rightarrow> Inl MalformedKey
           | Some (_, block) \<Rightarrow>
               (case xc_parse_pkcs8 x block of
                  None \<Rightarrow> Inl UnparsableKey
                | Some (EdPrivate priv) \<Rightarrow> Inr (signer_of priv, file)
                | Some _ \<Rightarrow> Inl NotEd25519)))"

section \<open>The documented behaviour of the encodings\<close>

text \<open>Decoding a PEM block gives back what was encoded, with or without the white space around it.\<close>

definition pem_labels :: "string list" where
  "pem_labels = [''CERTIFICATE'', ''EC PRIVATE KEY'', ''PRIVATE KEY'', ''PUBLIC KEY'']"

lemma pem_labels [simp]:
  "''CERTIFICATE'' \<in> set pem_labels" "''EC PRIVATE KEY'' \<in> set pem_labels" "''PRIVATE KEY'' \<in> set pem_labels"
  by (simp_all add: pem_labels_def)

definition pem_laws :: "x509 \<Rightarrow> bool" where
  "pem_laws x \<longleftrightarrow>
     (\<forall>t b. t \<in> set pem_labels \<longrightarrow> xc_pem_decode x (xc_pem_encode x t b) = Some (t, b) \<and>
        xc_pem_decode x (trim_space (xc_pem_encode x t b)) = Some (t, b))"

text \<open>Parsing gives back a private key that was marshalled, when it is a key of its algorithm.\<close>

definition key_laws :: "x509 \<Rightarrow> bool" where
  "key_laws x \<longleftrightarrow>
     (\<forall>k. xc_ec_key x k \<longrightarrow> xc_parse_ec x (xc_marshal_ec x k) = Some k) \<and>
     (\<forall>k. xc_ed_key x k \<longrightarrow> xc_parse_pkcs8 x (xc_marshal_pkcs8 x k) = Some (EdPrivate k))"

text \<open>
  A certificate that was made parses, to the key of the subject and the fields below of its template: its serial, common name,
  usages and constraints, and its validity in whole seconds. \<open>IsCA\<close> counts only in a template that says its basic constraints are
  valid. Nothing is said of the other fields; the authority key id, for one, \<open>CreateCertificate\<close> takes from the parent.
\<close>

definition made_from :: "certificate \<Rightarrow> certificate \<Rightarrow> public_key \<Rightarrow> bytes \<Rightarrow> bool" where
  "made_from cert t key der \<longleftrightarrow> ce_raw cert = der \<and> ce_key cert = key \<and> ce_serial cert = ce_serial t \<and>
     ce_common_name cert = ce_common_name t \<and> ce_not_before cert = whole_seconds (ce_not_before t) \<and>
     ce_not_after cert = whole_seconds (ce_not_after t) \<and> ce_is_ca cert = ce_is_ca t \<and> ce_constraints cert = ce_constraints t \<and>
     set (ce_usage cert) = set (ce_usage t) \<and> set (ce_ext cert) = set (ce_ext t)"

definition cert_laws :: "x509 \<Rightarrow> bool" where
  "cert_laws x \<longleftrightarrow>
     (\<forall>r t p k s der. xc_create x r t p k s = Some der \<longrightarrow> (ce_is_ca t \<longrightarrow> ce_constraints t) \<longrightarrow>
        (\<exists>cert. xc_parse x der = Some cert \<and> made_from cert t k der))"

text \<open>
  \<open>Verify\<close> on one root and no intermediates accepts a certificate that the root made with its own key, when the root is a CA
  that may sign certificates and restricts no extended usage, when the time is within the validity of both, and when the
  certificate has one of the extended usages asked for.
\<close>

definition signing_root :: "x509 \<Rightarrow> certificate \<Rightarrow> bytes \<Rightarrow> bool" where
  "signing_root x root key \<longleftrightarrow> ce_key root = EcdsaKey (xc_public_ec x key) \<and> ce_is_ca root \<and> ce_constraints root \<and>
     UsageCertSign \<in> set (ce_usage root) \<and> ce_ext root = []"

definition valid_at :: "certificate \<Rightarrow> time \<Rightarrow> bool" where
  "valid_at cert now \<longleftrightarrow> ce_not_before cert \<le> now \<and> now \<le> ce_not_after cert"

definition verify_laws :: "x509 \<Rightarrow> bool" where
  "verify_laws x \<longleftrightarrow>
     (\<forall>r t root k key der cert now us. xc_create x r t root k key = Some der \<longrightarrow> xc_parse x der = Some cert \<longrightarrow>
        signing_root x root key \<longrightarrow> valid_at root now \<longrightarrow> valid_at cert now \<longrightarrow> set us \<inter> set (ce_ext cert) \<noteq> {} \<longrightarrow>
        xc_verify x root now us cert)"

definition x509_laws :: "x509 \<Rightarrow> bool" where
  "x509_laws x \<longleftrightarrow> pem_laws x \<and> cert_laws x \<and> verify_laws x"

section \<open>Properties\<close>

lemma x509_pem: "pem_laws x \<Longrightarrow> t \<in> set pem_labels \<Longrightarrow> xc_pem_decode x (xc_pem_encode x t b) = Some (t, b)"
  by (simp add: pem_laws_def)

lemma x509_pem_trim: "pem_laws x \<Longrightarrow> t \<in> set pem_labels \<Longrightarrow> xc_pem_decode x (trim_space (xc_pem_encode x t b)) = Some (t, b)"
  by (simp add: pem_laws_def)

lemma x509_create:
  assumes "cert_laws x" "xc_create x r t p k s = Some der" "ce_is_ca t \<longrightarrow> ce_constraints t"
  obtains cert where "xc_parse x der = Some cert" "made_from cert t k der"
  using assms unfolding cert_laws_def by blast

text \<open>What a process creates, the next one loads.\<close>

lemma signer_reload:
  assumes "pem_laws x" "key_laws x" "xc_ed_key x new_key" "load_or_create_signer x NoFile new_key = Inr (s, file)"
  shows "load_or_create_signer x file other = Inr (s, file)"
  using assms by (auto simp: load_or_create_signer_def x509_pem key_laws_def)

lemma created_ca:
  assumes "load_or_create_ca x key_path cert_path now new_key rnd = Inr (Some ca, kf, cf)" "key_path = NoFile \<or> cert_path = NoFile"
  obtains der where "xc_create x rnd (ca_template x now new_key) (ca_template x now new_key)
      (EcdsaKey (xc_public_ec x new_key)) new_key = Some der" "xc_parse x der = Some (ca_cert ca)" "ca_key ca = new_key"
    "kf = FileBytes (xc_pem_encode x ''EC PRIVATE KEY'' (xc_marshal_ec x new_key))"
    "cf = FileBytes (xc_pem_encode x ''CERTIFICATE'' der)"
  using assms by (auto simp: load_or_create_ca_def Let_def split: option.splits)

lemma ca_reload:
  assumes "pem_laws x" "key_laws x" "xc_ec_key x new_key"
    and made: "load_or_create_ca x NoFile cert_path now new_key rnd = Inr (Some ca, kf, cf)"
  shows "load_or_create_ca x kf cf now' other rnd' = Inr (Some ca, kf, cf)"
proof -
  obtain der where "xc_parse x der = Some (ca_cert ca)" "ca_key ca = new_key"
    and files: "kf = FileBytes (xc_pem_encode x ''EC PRIVATE KEY'' (xc_marshal_ec x new_key))"
      "cf = FileBytes (xc_pem_encode x ''CERTIFICATE'' der)"
    by (rule created_ca [OF made]) simp_all
  then show ?thesis
    using assms(2,3) by (simp add: load_or_create_ca_def files x509_pem [OF assms(1)] key_laws_def)
qed

text \<open>The CA a process creates can sign, for ten years from an hour before.\<close>

lemma created_ca_signs:
  assumes "cert_laws x" "load_or_create_ca x key_path cert_path now new_key rnd = Inr (Some ca, kf, cf)"
    and "key_path = NoFile \<or> cert_path = NoFile"
  shows "signing_root x (ca_cert ca) (ca_key ca)"
    and "valid_at (ca_cert ca) t \<longleftrightarrow> whole_seconds (now - 60 * minute) \<le> t \<and> t \<le> whole_seconds (add_years 10 now)"
proof -
  obtain der where der: "xc_create x rnd (ca_template x now new_key) (ca_template x now new_key)
      (EcdsaKey (xc_public_ec x new_key)) new_key = Some der" "xc_parse x der = Some (ca_cert ca)" "ca_key ca = new_key"
    by (rule created_ca [OF assms(2,3)])
  obtain cert where "xc_parse x der = Some cert" "made_from cert (ca_template x now new_key) (EcdsaKey (xc_public_ec x new_key)) der"
    by (rule x509_create [OF assms(1) der(1)]) (simp_all add: ca_template_def)
  then have made: "made_from (ca_cert ca) (ca_template x now new_key) (EcdsaKey (xc_public_ec x new_key)) der"
    using der(2) by simp
  then show "signing_root x (ca_cert ca) (ca_key ca)" by (simp add: signing_root_def made_from_def ca_template_def der(3))
  from made show "valid_at (ca_cert ca) t \<longleftrightarrow> whole_seconds (now - 60 * minute) \<le> t \<and> t \<le> whole_seconds (add_years 10 now)"
    by (simp add: valid_at_def made_from_def ca_template_def)
qed

text \<open>An unreadable certificate beside a readable key is no CA and no error.\<close>

lemma ca_nil_without_error: "load_or_create_ca x (FileBytes k) Unreadable now new_key rnd = Inr (None, FileBytes k, Unreadable)"
  by (simp add: load_or_create_ca_def)

text \<open>A certificate the CA issued is the certificate it accepts, until it expires, with the key of the request.\<close>

lemma issued_accepted:
  assumes laws: "x509_laws x" and ca: "signing_root x (ca_cert ca) (ca_key ca)"
    and issued: "issue_agent_cert x ca node csr_pem ttl now serial rnd = Inr (pem, text, expires)"
    and time: "whole_seconds (now - minute) \<le> t" "t \<le> whole_seconds expires" "valid_at (ca_cert ca) t"
  obtains kind block req cert where "xc_pem_decode x csr_pem = Some (kind, block)" "xc_parse_csr x block = Some req"
    "parse_agent_cert x ca pem t = Inr cert" "ce_key cert = cq_key req" "serial_text (ce_serial cert) = text"
    "text = serial_text serial"
proof -
  have parts: "pem_laws x" "cert_laws x" "verify_laws x" using laws by (simp_all add: x509_laws_def)
  from issued obtain kind block req der where *: "xc_pem_decode x csr_pem = Some (kind, block)" "xc_parse_csr x block = Some req"
    and der: "xc_create x rnd (agent_template x ca node (cq_key req) ttl now serial) (ca_cert ca) (cq_key req) (ca_key ca) = Some der"
    and out: "pem = xc_pem_encode x ''CERTIFICATE'' der" "text = serial_text serial" "expires = now + ttl"
    by (auto simp: issue_agent_cert_def split: option.splits if_splits)
  let ?t = "agent_template x ca node (cq_key req) ttl now serial"
  obtain cert where parsed: "xc_parse x der = Some cert" and made: "made_from cert ?t (cq_key req) der"
    by (rule x509_create [OF parts(2) der]) (simp_all add: agent_template_def)
  from made have cert: "ce_key cert = cq_key req" "ce_serial cert = serial" "ce_not_before cert = whole_seconds (now - minute)"
    "ce_not_after cert = whole_seconds (now + ttl)" "set (ce_ext cert) = {ClientAuth}"
    by (simp_all add: made_from_def agent_template_def)
  have "valid_at cert t" using time(1,2) by (simp add: valid_at_def cert out(3))
  moreover have "set [ClientAuth] \<inter> set (ce_ext cert) \<noteq> {}" by (simp add: cert(5))
  ultimately have "xc_verify x (ca_cert ca) t [ClientAuth] cert"
    using parts(3) der parsed ca time(3) unfolding verify_laws_def by blast
  then have "parse_agent_cert x ca pem t = Inr cert"
    by (simp add: parse_agent_cert_def out Let_def x509_pem_trim [OF parts(1)] parsed)
  from that [OF * this cert(1)] show thesis by (simp add: out cert(2))
qed

section \<open>A concrete instance\<close>

text \<open>One root, one key and one certificate; PEM is the label, a line break and the bytes between two dashes.\<close>

definition demo_pem_encode :: "string \<Rightarrow> bytes \<Rightarrow> bytes" where
  "demo_pem_encode t b = CHR ''-'' # t @ CHR 0x0A # b @ ''-''"

definition demo_pem_decode :: "bytes \<Rightarrow> (string \<times> bytes) option" where
  "demo_pem_decode s =
     (case s of [] \<Rightarrow> None
      | c # t \<Rightarrow> if c \<noteq> CHR ''-'' then None
          else (case dropWhile (\<lambda>c. c \<noteq> CHR 0x0A) t of
              [] \<Rightarrow> None
            | _ # b \<Rightarrow> if b = [] then None else Some (takeWhile (\<lambda>c. c \<noteq> CHR 0x0A) t, butlast b)))"

definition demo_agent_key :: bytes where
  "demo_agent_key = replicate 32 (CHR ''p'')"

definition demo_root :: certificate where
  "demo_root = \<lparr>ce_raw = ''root'', ce_serial = 1, ce_common_name = ''AutoSecrets Agent CA'', ce_not_before = 0,
     ce_not_after = 4000000000 * second, ce_is_ca = True, ce_constraints = True, ce_usage = [UsageCertSign, UsageCRLSign],
     ce_ext = [], ce_subject_id = [], ce_authority_id = [], ce_key = EcdsaKey ''ca key''\<rparr>"

definition demo_template :: certificate where
  "demo_template = \<lparr>ce_raw = [], ce_serial = 171, ce_common_name = ''node:node'', ce_not_before = 1699999940 * second,
     ce_not_after = 1702592000 * second, ce_is_ca = False, ce_constraints = False, ce_usage = [UsageDigitalSignature],
     ce_ext = [ClientAuth], ce_subject_id = replicate 20 (CHR ''h''), ce_authority_id = [], ce_key = NoKey\<rparr>"

definition demo_cert :: certificate where
  "demo_cert = demo_template\<lparr>ce_raw := ''leaf'', ce_key := Ed25519Key demo_agent_key\<rparr>"

definition demo_x509 :: x509 where
  "demo_x509 = \<lparr>xc_ec_key = (\<lambda>k. True), xc_ed_key = (\<lambda>k. True), xc_pem_encode = demo_pem_encode, xc_pem_decode = demo_pem_decode, xc_marshal_ec = id, xc_parse_ec = Some,
     xc_public_ec = id, xc_marshal_pkcs8 = id, xc_parse_pkcs8 = (\<lambda>b. Some (EdPrivate b)), xc_marshal_pkix = id,
     xc_create = (\<lambda>r t p k s. if t = demo_template \<and> k = Ed25519Key demo_agent_key then Some ''leaf'' else None),
     xc_parse = (\<lambda>b. if b = ''leaf'' then Some demo_cert else if b = ''root'' then Some demo_root else None),
     xc_parse_csr = (\<lambda>b. Some \<lparr>cq_key = Ed25519Key b, cq_signed = True\<rparr>),
     xc_verify = (\<lambda>root now us c. valid_at root now \<and> valid_at c now \<and> list_ex (\<lambda>u. u \<in> set (ce_ext c)) us),
     xc_sha1 = (\<lambda>b. replicate 20 (CHR ''h''))\<rparr>"

definition demo_ca :: agent_ca where
  "demo_ca = \<lparr>ca_cert = demo_root, ca_key = ''ca key''\<rparr>"

lemma trim_dashes: "trim_space (CHR ''-'' # t @ ''-'') = CHR ''-'' # t @ ''-''"
  by (simp add: trim_space_def trim_left_def trim_right_def trim_prefixes_fix space_encodings_def)

lemma demo_pem_laws:
  assumes "t \<in> set pem_labels"
  shows "demo_pem_decode (demo_pem_encode t b) = Some (t, b)" "trim_space (demo_pem_encode t b) = demo_pem_encode t b"
  using assms trim_dashes [of "t @ CHR 0x0A # b"] by (auto simp: demo_pem_encode_def demo_pem_decode_def pem_labels_def)

lemma demo_x509_laws: "x509_laws demo_x509" "key_laws demo_x509"
proof -
  have "pem_laws demo_x509" by (simp add: pem_laws_def demo_x509_def demo_pem_laws)
  moreover have "cert_laws demo_x509"
    by (simp add: cert_laws_def demo_x509_def made_from_def demo_cert_def demo_template_def whole_seconds_def)
  moreover have "verify_laws demo_x509" by (auto simp: verify_laws_def demo_x509_def list_ex_iff)
  ultimately show "x509_laws demo_x509" by (simp add: x509_laws_def)
  show "key_laws demo_x509" by (simp add: key_laws_def demo_x509_def)
qed

lemma demo_ca_signs: "signing_root demo_x509 (ca_cert demo_ca) (ca_key demo_ca)"
  by (simp add: signing_root_def demo_x509_def demo_ca_def demo_root_def)

end
