(* ===== verification/Delivery.thy ===== *)
theory Delivery
  imports Envelope AgentCA FleetStore
begin

text \<open>
  The Agent-facing delivery surface, \<open>core/internal/fleet/delivery.go\<close>, and the projection of a node's state,
  \<open>nodestate.go\<close>. A handler is a function of the request, the decoded body (\<open>None\<close> when decoding fails) and the path values to a
  reply and the database after it; the clock is read once per request (\<open>now\<close>), and \<open>ts\<close> is the clock of the database.
  Appending to the audit log, whose error the code ignores, succeeds.
\<close>

section \<open>The handler and its keys\<close>

text \<open>
  \<open>fh_recipient\<close> is \<open>age.ParseX25519Recipient\<close>, \<open>fh_coll\<close> the collation of the database, \<open>fh_printable\<close> the Unicode table of
  \<open>strconv.IsPrint\<close>. The last four fields are the configuration; the directory of the artifacts is an argument of its handler.
\<close>

record fleet_handler =
  fh_sha256 :: "bytes \<Rightarrow> bytes"
  fh_open :: gcm_open
  fh_master :: bytes
  fh_recipient :: "string \<Rightarrow> bytes option"
  fh_encrypt :: "bytes \<Rightarrow> bytes \<Rightarrow> bytes"
  fh_sign :: "bytes \<Rightarrow> bytes \<Rightarrow> bytes"
  fh_signer :: signer
  fh_ca :: agent_ca
  fh_x509 :: x509
  fh_coll :: "string \<Rightarrow> string"
  fh_printable :: "nat \<Rightarrow> bool"
  fh_public_url :: string
  fh_curl_opts :: string
  fh_agent_base :: string
  fh_offline_after :: duration

definition audit_by :: "time \<Rightarrow> time \<Rightarrow> request \<Rightarrow> string \<Rightarrow> string \<Rightarrow> string \<Rightarrow> string \<Rightarrow> db \<Rightarrow> db" where
  "audit_by now ts r actor action resource result d =
     append_audit (event actor action resource result (correlation_id now r)) ts d"

definition node_from_request :: "request \<Rightarrow> db \<Rightarrow> node option" where
  "node_from_request r d =
     (case agent_serial_from_context r of
        None \<Rightarrow> None
      | Some serial \<Rightarrow> (case node_by_serial serial d of Inl _ \<Rightarrow> None | Inr n \<Rightarrow> Some n))"

section \<open>Desired State\<close>

definition etag_of :: "(bytes \<Rightarrow> bytes) \<Rightarrow> string list \<Rightarrow> string" where
  "etag_of sha256 ids = quote_char # hex_encode (sha256 (join_with '','' (sort ids))) @ [quote_char]"

text \<open>A file of a Bundle Revision with its value opened, as the payload and the manifest have it.\<close>

record opened_file =
  of_path :: string
  of_mode :: int
  of_uid :: int
  of_gid :: int
  of_plain :: bytes

definition open_file :: "gcm_open \<Rightarrow> bytes \<Rightarrow> db \<Rightarrow> file_row \<Rightarrow> opened_file option" where
  "open_file go master d f =
     (case secret_version_blob (rf_secret f) (rf_seq f) d of
        Inl _ \<Rightarrow> None
      | Inr (wrapped, nonces, ct) \<Rightarrow>
          (case open_sealed go master wrapped nonces ct of
             Inl _ \<Rightarrow> None
           | Inr plain \<Rightarrow> Some \<lparr>of_path = rf_path f, of_mode = rf_mode f, of_uid = rf_uid f, of_gid = rf_gid f, of_plain = plain\<rparr>))"

definition file_spec_of :: "(bytes \<Rightarrow> bytes) \<Rightarrow> opened_file \<Rightarrow> file_spec" where
  "file_spec_of sha256 f =
     \<lparr>fs_path = of_path f, fs_mode = mode_string (of_mode f), fs_uid = format_int (of_uid f), fs_gid = format_int (of_gid f),
      fs_sha = hex_encode (sha256 (of_plain f))\<rparr>"

definition payload_file :: "opened_file \<Rightarrow> string" where
  "payload_file f =
     json_object [(''path'', json_string (of_path f)), (''mode'', json_string (mode_string (of_mode f))),
       (''uid'', json_string (format_int (of_uid f))), (''gid'', json_string (format_int (of_gid f))),
       (''content'', json_string (std_encode (of_plain f)))]"

definition payload_json :: "uuid \<Rightarrow> uuid \<Rightarrow> opened_file list \<Rightarrow> bytes" where
  "payload_json app env files =
     json_object [(''app_id'', json_string app), (''env_id'', json_string env),
       (''files'', json_array (map payload_file files))]"

text \<open>Any error becomes an internal error of the request, so the answer is an option.\<close>

definition build_envelope :: "fleet_handler \<Rightarrow> time \<Rightarrow> node \<Rightarrow> uuid \<Rightarrow> bytes \<Rightarrow> db \<Rightarrow> envelope option" where
  "build_envelope h now node rid recipient d =
     (case revision_app_env rid d of
        Inl _ \<Rightarrow> None
      | Inr (app, env) \<Rightarrow>
          (case those (map (open_file (fh_open h) (fh_master h) d) (revision_files (fh_coll h) rid d)) of
             None \<Rightarrow> None
           | Some files \<Rightarrow>
               (case new_envelope (fh_sha256 h) (fh_encrypt h) (fh_sign h) now
                   \<lparr>eo_node = node_id node, eo_revision = rid, eo_created = now, eo_expires = now + 10 * minute,
                    eo_manifest = canonical_manifest (map (file_spec_of (fh_sha256 h)) files),
                    eo_plaintext = payload_json app env files, eo_recipient = Some recipient, eo_signer = sg_priv (fh_signer h),
                    eo_key_id = signer_key_id (fh_signer h)\<rparr> of
                  Inl _ \<Rightarrow> None
                | Inr e \<Rightarrow> Some e)))"

definition cleanup_for :: "node \<Rightarrow> db \<Rightarrow> cleanup_instruction list" where
  "cleanup_for node d = pending_cleanup_instructions (node_id node) d"

record desired_response =
  dv_etag :: string
  dv_envelopes :: "envelope list"
  dv_cleanup :: "cleanup_instruction list"
  dv_poll :: int

text \<open>A \<open>304\<close> has no body.\<close>

definition handle_desired :: "fleet_handler \<Rightarrow> time \<Rightarrow> request \<Rightarrow> db \<Rightarrow> desired_response option reply \<times> db" where
  "handle_desired h now r d =
     (case node_from_request r d of
        None \<Rightarrow> (Refused 403 code_forbidden, d)
      | Some node \<Rightarrow>
          let rids = assigned_revisions (node_id node) d; cleanup = cleanup_for node d;
              etag = etag_of (fh_sha256 h) (rids @ map ci_asg cleanup) in
          if rq_header r ''If-None-Match'' = etag then (Replied 304 None, d)
          else
            let d1 = (case set_node_desired (node_id node) etag d of Inl _ \<Rightarrow> d | Inr d' \<Rightarrow> d') in
            if rids = []
            then (Replied 200 (Some \<lparr>dv_etag = etag, dv_envelopes = [], dv_cleanup = cleanup, dv_poll = node_poll node\<rparr>), d1)
            else case fh_recipient h (node_age node) of
              None \<Rightarrow> (Refused 500 code_internal, d1)
            | Some recipient \<Rightarrow>
                (case those (map (\<lambda>rid. build_envelope h now node rid recipient d1) rids) of
                   None \<Rightarrow> (Refused 500 code_internal, d1)
                 | Some envs \<Rightarrow>
                     (Replied 200 (Some \<lparr>dv_etag = etag, dv_envelopes = envs, dv_cleanup = cleanup, dv_poll = node_poll node\<rparr>),
                      d1)))"

section \<open>Reports\<close>

definition handle_heartbeat :: "time \<Rightarrow> request \<Rightarrow> uuid \<Rightarrow> db \<Rightarrow> int reply \<times> db" where
  "handle_heartbeat now r path_node d =
     (case node_from_request r d of
        None \<Rightarrow> (Refused 403 code_forbidden, d)
      | Some node \<Rightarrow>
          if node_id node \<noteq> path_node then (Refused 403 code_forbidden, d)
          else (case touch_node (node_id node) (node_observed node) (node_result node) now d of
              Inl _ \<Rightarrow> (Refused 500 code_internal, d)
            | Inr d' \<Rightarrow> (Replied 200 (node_poll node), d')))"

record report_body =
  rb_revision :: string
  rb_stage :: string
  rb_result :: string
  rb_error :: string

definition handle_report :: "time \<Rightarrow> time \<Rightarrow> request \<Rightarrow> uuid \<Rightarrow> report_body option \<Rightarrow> db \<Rightarrow> unit reply \<times> db" where
  "handle_report now ts r path_node body d =
     (case node_from_request r d of
        None \<Rightarrow> (Refused 403 code_forbidden, d)
      | Some node \<Rightarrow>
          if node_id node \<noteq> path_node then (Refused 403 code_forbidden, d)
          else case body of
            None \<Rightarrow> (Refused 400 code_bad_request, d)
          | Some b \<Rightarrow>
              if rb_result b = [] then (Refused 400 code_bad_request, d)
              else
                let last_result = (if rb_error b \<noteq> [] then rb_result b @ '': '' @ rb_error b else rb_result b);
                    recorded = (case assignment_for_node_revision (node_id node) (rb_revision b) d of
                        Inl _ \<Rightarrow> Inr d
                      | Inr a \<Rightarrow> record_convergence
                          \<lparr>cv_node = node_id node, cv_asg = asg_id a, cv_app = asg_app a, cv_env = asg_env a,
                           cv_desired = asg_rev a, cv_observed = rb_revision b, cv_stage = rb_stage b,
                           cv_result = rb_result b, cv_error = rb_error b, cv_reported = Some now, cv_updated = zero_time\<rparr> ts d)
                in (case recorded of
                    Inl _ \<Rightarrow> (Refused 500 code_internal, d)
                  | Inr d1 \<Rightarrow>
                      (case touch_node (node_id node) (rb_revision b) last_result now d1 of
                         Inl _ \<Rightarrow> (Refused 500 code_internal, d1)
                       | Inr d2 \<Rightarrow>
                           (Replied 200 (), audit_by now ts r (''node:'' @ node_name node) (''activation.'' @ rb_stage b)
                             (rb_revision b) (rb_result b) d2))))"

record cleanup_body =
  kb_assignment :: string
  kb_result :: string
  kb_error :: string

definition handle_cleanup_report ::
    "time \<Rightarrow> time \<Rightarrow> request \<Rightarrow> uuid \<Rightarrow> cleanup_body option \<Rightarrow> db \<Rightarrow> unit reply \<times> db" where
  "handle_cleanup_report now ts r path_node body d =
     (case node_from_request r d of
        None \<Rightarrow> (Refused 403 code_forbidden, d)
      | Some node \<Rightarrow>
          if node_id node \<noteq> path_node then (Refused 403 code_forbidden, d)
          else case body of
            None \<Rightarrow> (Refused 400 code_bad_request, d)
          | Some b \<Rightarrow>
              if kb_assignment b = [] \<or> kb_result b = [] then (Refused 400 code_bad_request, d)
              else (case report_cleanup_task (kb_assignment b) (node_id node) (kb_result b) (kb_error b) ts d of
                  Inl _ \<Rightarrow> (Refused 404 code_not_found, d)
                | Inr d' \<Rightarrow>
                    (Replied 200 (), audit_by now ts r (''node:'' @ node_name node) ''assignment.cleanup'' (kb_assignment b)
                      (kb_result b) d')))"

section \<open>The state of a node\<close>

datatype node_state = StateNeverOnline | StateHealthy | StateConverging | StateFailed | StateOffline

definition derive_node_state ::
    "time option \<Rightarrow> time \<Rightarrow> duration \<Rightarrow> bool \<Rightarrow> bool \<Rightarrow> bool \<Rightarrow> node_state \<times> bool" where
  "derive_node_state last_seen now offline_after has_failed has_assignment all_converged =
     (if has_failed then (StateFailed, False)
      else if (case last_seen of None \<Rightarrow> False | Some t \<Rightarrow> offline_after < time_sub now t) then (StateOffline, False)
      else if has_assignment \<and> \<not> all_converged then (StateConverging, False)
      else if last_seen \<noteq> None then (StateHealthy, \<not> has_assignment)
      else (StateNeverOnline, False))"

end
