(* ===== verification/DeliveryProperties.thy ===== *)
theory DeliveryProperties
  imports Delivery Deliveries CryptoProperties
begin

text \<open>
  What an Agent receives: the envelope it opens is the Bundle Revision assigned to it, with the plaintext of every Secret
  at its published version; the ETag identifies the set of revisions and cleanups; and the state of a
  node as the console shows it.
\<close>

section \<open>Assigned revisions are deliverable\<close>

text \<open>Every stored version was sealed under the master key of the handler.\<close>

definition versions_sealed :: "fleet_handler \<Rightarrow> db \<Rightarrow> bool" where
  "versions_sealed h d \<longleftrightarrow>
     (\<forall>v \<in> set (t_versions d). \<exists>p. open_sealed (fh_open h) (fh_master h) (sv_wrapped v) (sv_nonce v) (sv_cipher v) = Inr p)"

lemma those_map_Some: "(\<And>x. x \<in> set xs \<Longrightarrow> \<exists>y. f x = Some y) \<Longrightarrow> \<exists>ys. those (map f xs) = Some ys"
  by (induction xs) fastforce+

lemma those_list_all2: "those (map f xs) = Some ys \<longleftrightarrow> list_all2 (\<lambda>x y. f x = Some y) xs ys"
proof (induction xs arbitrary: ys)
  case (Cons x xs)
  show ?case
    by (cases "f x") (auto simp: Cons list_all2_Cons1 split: option.splits)
qed auto

lemma row_of_exists: "r \<in> set t \<Longrightarrow> p r \<Longrightarrow> \<exists>x. row_of p t = Inr x \<and> x \<in> set t \<and> p x"
  by (cases "row_of p t") (auto simp: row_of_Inl dest: row_of_Inr)

lemma open_file_total:
  assumes "versions_sealed h d" "version_in d (rf_secret f) (rf_seq f)"
  shows "\<exists>x. open_file (fh_open h) (fh_master h) d f = Some x"
proof -
  obtain v where "v \<in> set (t_versions d)" "sv_secret v = rf_secret f \<and> sv_seq v = rf_seq f"
    using assms(2) by (auto simp: version_in_def)
  then obtain x where x: "row_of (\<lambda>v. sv_secret v = rf_secret f \<and> sv_seq v = rf_seq f) (t_versions d) = Inr x"
    "x \<in> set (t_versions d)"
    using row_of_exists [of v "t_versions d" "\<lambda>v. sv_secret v = rf_secret f \<and> sv_seq v = rf_seq f"] by blast
  obtain p where "open_sealed (fh_open h) (fh_master h) (sv_wrapped x) (sv_nonce x) (sv_cipher x) = Inr p"
    using assms(1) x(2) by (auto simp: versions_sealed_def)
  then show ?thesis
    using x(1) by (simp add: open_file_def secret_version_blob_def secret_version_blob_q_def)
qed

lemma set_revision_files: "set (revision_files coll rid d) = {f \<in> set (t_files d). rf_rev f = rid}"
  by (simp add: revision_files_def revision_files_q_def)

lemma files_open:
  assumes "contents_ok d" "versions_sealed h d"
  obtains files where "those (map (open_file (fh_open h) (fh_master h) d) (revision_files coll rid d)) = Some files"
  using those_map_Some [of "revision_files coll rid d" "open_file (fh_open h) (fh_master h) d"] assms(1) open_file_total [OF assms(2)]
  by (auto simp: set_revision_files contents_ok_def)

lemma manifest_nonempty: "canonical_manifest fs \<noteq> []"
  by (simp add: canonical_manifest_def json_map_def json_object_def)

text \<open>What the envelope of a revision has to contain, for the node it is made for.\<close>

definition delivers ::
    "fleet_handler \<Rightarrow> (bytes \<Rightarrow> bytes \<Rightarrow> bytes \<Rightarrow> bool) \<Rightarrow> bytes \<Rightarrow> (bytes \<Rightarrow> bytes \<Rightarrow> bytes option) \<Rightarrow> bytes \<Rightarrow> time \<Rightarrow> db \<Rightarrow> uuid \<Rightarrow>
     uuid \<Rightarrow> envelope \<Rightarrow> bool" where
  "delivers h ed_verify pub age_decrypt identity at d n rid e \<longleftrightarrow>
     nv_node e = n \<and> nv_revision e = rid \<and>
     (\<exists>app env files. revision_app_env rid d = Inr (app, env) \<and>
        those (map (open_file (fh_open h) (fh_master h) d) (revision_files (fh_coll h) rid d)) = Some files \<and>
        open_envelope ed_verify age_decrypt identity pub at e = Inr (payload_json app env files) \<and>
        verify_manifest (fh_sha256 h) (canonical_manifest (map (file_spec_of (fh_sha256 h)) files)) e = Inr ())"

text \<open>The keys of the server and of an Agent fit together.\<close>

definition keys_fit ::
    "fleet_handler \<Rightarrow> (bytes \<Rightarrow> bytes \<Rightarrow> bytes \<Rightarrow> bool) \<Rightarrow> bytes \<Rightarrow> (bytes \<Rightarrow> bytes \<Rightarrow> bytes option) \<Rightarrow> bytes \<Rightarrow> string \<Rightarrow> bool" where
  "keys_fit h ed_verify pub age_decrypt identity age \<longleftrightarrow>
     length (sg_priv (fh_signer h)) = 64 \<and> length pub = 32 \<and> (\<forall>m. ed_verify pub m (fh_sign h (sg_priv (fh_signer h)) m)) \<and>
     (\<exists>r. fh_recipient h age = Some r \<and> (\<forall>v. age_decrypt identity (fh_encrypt h r v) = Some v))"

lemma envelope_delivers:
  assumes ok: "bundle_ok d" "versions_sealed h d" and rev: "revision_in d rid app env"
    and keys: "keys_fit h ed_verify pub age_decrypt identity (node_age node)"
    and recipient: "fh_recipient h (node_age node) = Some recipient"
    and year: "1 \<le> cl_year (civil_of (now + 10 * minute))" "cl_year (civil_of (now + 10 * minute)) \<le> 9999"
    and at: "at \<le> (now + 10 * minute) div second * second"
  shows "\<exists>e. build_envelope h now node rid recipient d = Some e \<and>
    delivers h ed_verify pub age_decrypt identity at d (node_id node) rid e"
proof -
  obtain a b where ab: "revision_app_env rid d = Inr (a, b)"
    using rev row_of_exists [of _ "t_revisions d" "\<lambda>r. br_id r = rid"]
    by (force simp: revision_in_def revision_app_env_def revision_app_env_q_def)
  obtain files where files: "those (map (open_file (fh_open h) (fh_master h) d) (revision_files (fh_coll h) rid d)) = Some files"
    by (rule files_open [OF bundle_okD(3) [OF ok(1)] ok(2)])
  define eo where "eo = \<lparr>eo_node = node_id node, eo_revision = rid, eo_created = now, eo_expires = now + 10 * minute,
    eo_manifest = canonical_manifest (map (file_spec_of (fh_sha256 h)) files), eo_plaintext = payload_json a b files,
    eo_recipient = Some recipient, eo_signer = sg_priv (fh_signer h), eo_key_id = signer_key_id (fh_signer h)\<rparr>"
  have keys': "length (sg_priv (fh_signer h)) = 64" "length pub = 32" "\<And>m. ed_verify pub m (fh_sign h (sg_priv (fh_signer h)) m)"
    "\<And>v. age_decrypt identity (fh_encrypt h recipient v) = Some v"
    using keys recipient by (auto simp: keys_fit_def)
  obtain e where e: "new_envelope (fh_sha256 h) (fh_encrypt h) (fh_sign h) now eo = Inr e"
    "nv_node e = node_id node" "nv_revision e = rid"
    using keys'(1) by (simp add: new_envelope_def eo_def manifest_nonempty Let_def)
  have "build_envelope h now node rid recipient d = Some e"
    using e(1) unfolding build_envelope_def eo_def by (simp add: ab files)
  moreover have "open_envelope ed_verify age_decrypt identity pub at e = Inr (payload_json a b files) \<and>
      verify_manifest (fh_sha256 h) (canonical_manifest (map (file_spec_of (fh_sha256 h)) files)) e = Inr ()"
  proof -
    have "open_envelope ed_verify age_decrypt identity pub at e =
        (if eo_expires eo \<noteq> zero_time \<and> eo_expires eo div second * second < at then Inl EnvelopeExpired
         else Inr (eo_plaintext eo)) \<and> verify_manifest (fh_sha256 h) (eo_manifest eo) e = Inr ()"
      by (rule open_new_envelope [OF _ _ keys'(2) e(1)]) (use keys'(3,4) year in \<open>auto simp: eo_def\<close>)
    then show ?thesis
      using at by (simp add: eo_def)
  qed
  ultimately show ?thesis
    using ab files e(2,3) by (auto simp: delivers_def)
qed

lemma envelopes_deliver:
  assumes "bundle_ok d" "fleet_ok d" "versions_sealed h d"
    and keys: "keys_fit h ed_verify pub age_decrypt identity (node_age node)"
    and recipient: "fh_recipient h (node_age node) = Some recipient"
    and year: "1 \<le> cl_year (civil_of (now + 10 * minute))" "cl_year (civil_of (now + 10 * minute)) \<le> 9999"
    and at: "at \<le> (now + 10 * minute) div second * second"
  obtains envs where "those (map (\<lambda>rid. build_envelope h now node rid recipient d) (assigned_revisions (node_id node) d)) = Some envs"
    "list_all2 (delivers h ed_verify pub age_decrypt identity at d (node_id node)) (assigned_revisions (node_id node) d) envs"
proof -
  let ?rids = "assigned_revisions (node_id node) d" and ?b = "\<lambda>rid. build_envelope h now node rid recipient d"
  have one: "\<exists>e. ?b rid = Some e \<and> delivers h ed_verify pub age_decrypt identity at d (node_id node) rid e" if rid: "rid \<in> set ?rids" for rid
  proof -
    obtain a where "a \<in> set (t_assignments d)" "as_rev a = rid"
      using rid by (auto simp: assigned_iff actives_def)
    then have "revision_in d rid (as_app a) (as_env a)"
      using fleet_okD(2) [OF assms(2)] by (auto simp: fleet_refs_def)
    then show ?thesis
      using assms(1,3) keys recipient year at by (intro envelope_delivers)
  qed
  then obtain envs where envs: "those (map ?b ?rids) = Some envs"
    using those_map_Some [of ?rids ?b] by blast
  have "list_all2 (delivers h ed_verify pub age_decrypt identity at d (node_id node)) ?rids envs"
    using envs one unfolding those_list_all2 by (fastforce intro: list.rel_mono_strong)
  with envs show ?thesis by (rule that)
qed

text \<open>The mark of what was last offered to a node does not change what is delivered.\<close>

lemma desired_mark:
  assumes "set_node_desired n etag d = Inr d'"
  shows "assigned_revisions m d' = assigned_revisions m d" "build_envelope h now node rid recipient d' = build_envelope h now node rid recipient d"
proof -
  have "d' = d\<lparr>t_nodes := t_nodes d'\<rparr>"
    using assms by (auto simp: set_node_desired_def set_node_desired_q_def)
  then obtain ns where d': "d' = d\<lparr>t_nodes := ns\<rparr>" by blast
  show "assigned_revisions m d' = assigned_revisions m d"
    by (simp add: d' assigned_revisions_def assigned_revisions_q_def cong: if_cong)
  have "open_file go mk (d\<lparr>t_nodes := ns\<rparr>) = open_file go mk d" for go mk
    by (rule ext) (simp add: open_file_def secret_version_blob_def secret_version_blob_q_def)
  moreover have "revision_app_env rid (d\<lparr>t_nodes := ns\<rparr>) = revision_app_env rid d"
    "revision_files coll rid (d\<lparr>t_nodes := ns\<rparr>) = revision_files coll rid d" for coll
    by (simp_all add: revision_app_env_def revision_app_env_q_def revision_files_def revision_files_q_def)
  ultimately show "build_envelope h now node rid recipient d' = build_envelope h now node rid recipient d"
    by (simp only: d' build_envelope_def)
qed

lemma desired_state_eq:
  assumes "bundle_ok d" "fleet_ok d" "versions_sealed h d"
    and "node_from_request r d = Some node" "keys_fit h ed_verify pub age_decrypt identity (node_age node)"
    and "1 \<le> cl_year (civil_of (now + 10 * minute))" "cl_year (civil_of (now + 10 * minute)) \<le> 9999"
    and "at \<le> (now + 10 * minute) div second * second"
    and "etag = etag_of (fh_sha256 h) (assigned_revisions (node_id node) d @ map ci_asg (cleanup_for node d))"
  shows "if rq_header r ''If-None-Match'' = etag then handle_desired h now r d = (Replied 304 None, d)
    else \<exists>envs d'. set_node_desired (node_id node) etag d = Inr d' \<and>
      handle_desired h now r d = (Replied 200 (Some \<lparr>dv_etag = etag, dv_envelopes = envs, dv_cleanup = cleanup_for node d,
        dv_poll = node_poll node\<rparr>), d') \<and>
      list_all2 (delivers h ed_verify pub age_decrypt identity at d (node_id node)) (assigned_revisions (node_id node) d) envs"
proof (cases "rq_header r ''If-None-Match'' = etag")
  case True
  then show ?thesis
    using assms(4,9) by (simp add: handle_desired_def Let_def)
next
  case False
  obtain d' where d': "set_node_desired (node_id node) etag d = Inr d'"
    by (simp add: set_node_desired_def)
  obtain recipient where rec: "fh_recipient h (node_age node) = Some recipient"
    using assms(5) by (auto simp: keys_fit_def)
  obtain envs where envs: "those (map (\<lambda>rid. build_envelope h now node rid recipient d) (assigned_revisions (node_id node) d)) = Some envs"
    "list_all2 (delivers h ed_verify pub age_decrypt identity at d (node_id node)) (assigned_revisions (node_id node) d) envs"
    by (rule envelopes_deliver [OF assms(1-3,5) rec assms(6-8)])
  have reply: "handle_desired h now r d = (Replied 200 (Some \<lparr>dv_etag = etag, dv_envelopes = envs,
      dv_cleanup = cleanup_for node d, dv_poll = node_poll node\<rparr>), d')"
  proof (cases "assigned_revisions (node_id node) d = []")
    case True
    then have "etag = etag_of (fh_sha256 h) (map ci_asg (cleanup_for node d))"
      using assms(9) by simp
    then show ?thesis
      using assms(4) False envs(1) True d' by (simp add: handle_desired_def Let_def)
  next
    case some: False
    then show ?thesis
      using assms(4) False envs(1) rec
      by (simp add: handle_desired_def Let_def d' desired_mark [OF d'] flip: assms(9))
  qed
  show ?thesis
    unfolding if_not_P [OF False] by (intro exI conjI, rule d', rule reply, rule envs(2))
qed

text \<open>C4: On a well-formed database whose Secret versions are sealed under the master key, an Agent that polls with the serial of
  its certificate is told that nothing changed, exactly when it names the ETag of its revisions and cleanups, or receives
  one envelope per revision assigned to it, in their order: the Agent opens it (before it expires, ten minutes
  later) to the files of that revision with the plaintext of every Secret at the published version, and the
  manifest it rebuilds has the hash the envelope carries. The only change is the ETag noted at the node.\<close>

theorem desired_state_delivered:
  assumes "bundle_ok d" "fleet_ok d" "versions_sealed h d"
    and "node_from_request r d = Some node" "keys_fit h ed_verify pub age_decrypt identity (node_age node)"
    and "1 \<le> cl_year (civil_of (now + 10 * minute))" "cl_year (civil_of (now + 10 * minute)) \<le> 9999"
    and "at \<le> (now + 10 * minute) div second * second"
    and "etag = etag_of (fh_sha256 h) (assigned_revisions (node_id node) d @ map ci_asg (cleanup_for node d))"
  shows "if rq_header r ''If-None-Match'' = etag then handle_desired h now r d = (Replied 304 None, d)
    else \<exists>envs d'. set_node_desired (node_id node) etag d = Inr d' \<and>
      handle_desired h now r d = (Replied 200 (Some \<lparr>dv_etag = etag, dv_envelopes = envs, dv_cleanup = cleanup_for node d,
        dv_poll = node_poll node\<rparr>), d') \<and>
      list_all2 (delivers h ed_verify pub age_decrypt identity at d (node_id node)) (assigned_revisions (node_id node) d) envs"
  using assms by (rule desired_state_eq)

definition demo_delivery :: db where
  "demo_delivery = demo_assigned\<lparr>
     t_versions := [\<lparr>sv_id = ''v1'', sv_secret = ''sec'', sv_seq = 1, sv_wrapped = ''w'', sv_nonce = replicate 24 (CHR ''n''),
       sv_cipher = ''c''\<rparr>],
     t_nodes := [\<lparr>nd_id = ''node'', nd_name = ''host'', nd_serial = ''ab'', nd_age = ''age1'', nd_cert = [],
       nd_cert_expires = 7, nd_created = 7, nd_last_seen = None, nd_etag = [], nd_observed = [],
       nd_result = [], nd_poll = 15, nd_bundle_dir = []\<rparr>]\<rparr>"

definition demo_handler :: fleet_handler where
  "demo_handler = \<lparr>fh_sha256 = id, fh_open = (\<lambda>k n c. Some (replicate 32 (CHR ''k''))), fh_master = replicate 32 (CHR ''m''),
     fh_recipient = Some, fh_encrypt = (\<lambda>r v. v), fh_sign = (\<lambda>k m. m), fh_signer = signer_of (replicate 64 (CHR ''s'')),
     fh_ca = demo_ca, fh_x509 = demo_x509, fh_coll = id, fh_printable = (\<lambda>r. True), fh_public_url = ''https://core'',
     fh_curl_opts = [], fh_agent_base = ''/agent'', fh_offline_after = 75 * second\<rparr>"

definition demo_poll :: request where
  "demo_poll = \<lparr>rq_method = ''GET'', rq_uri = ''/desired'', rq_remote = [], rq_header = (\<lambda>x. []), rq_cookie = (\<lambda>c. None),
     rq_query = (\<lambda>q. []), rq_session = None, rq_serial = Some ''ab''\<rparr>"

lemmas demo_delivery_defs = demo_delivery_def demo_defs

lemma demo_delivery_bundle: "bundle_ok demo_delivery"
proof (rule bundle_okI)
  show "keys_ok demo_delivery"
    by (simp add: keys_ok_def file_key_def demo_delivery_defs)
  show "owners_ok demo_delivery"
    by (simp add: owners_ok_def env_in_def demo_delivery_defs)
  show "contents_ok demo_delivery"
    by (simp add: contents_ok_def lookup_defs demo_delivery_defs)
  have "seqs_of ''sec'' demo_delivery = [1..1]"
    by (simp add: seqs_of_def demo_delivery_defs)
  then show "total_ok demo_delivery"
    by (simp add: total_ok_def demo_delivery_defs) (auto intro: exI [of _ 1])
qed

lemma demo_delivery_fleet: "fleet_ok demo_delivery"
  by (rule fleet_okI)
    (simp_all add: fleet_keys_def unique_active_def actives_def fleet_refs_def revision_in_def exclusive_def tasks_ok_def
      demo_delivery_defs)

lemma demo_delivery_keys:
  "versions_sealed demo_handler demo_delivery"
  "keys_fit demo_handler (\<lambda>k m s. m = s) (replicate 32 (CHR ''p'')) (\<lambda>i. Some) [] ''age1''"
  by (simp_all add: versions_sealed_def open_sealed_def aes_key_def nonce_size_def keys_fit_def signer_of_def demo_handler_def
      demo_delivery_defs)

lemma cl_year_civil_of: "cl_year (civil_of t) = fst (year_of_day (t div second div 86400 + epoch_day))"
  by (simp add: civil_of_def Let_def split: prod.split)

theorem desired_state_delivered_witness:
  "\<exists>e d'. handle_desired demo_handler (1700000000 * second) demo_poll demo_delivery =
     (Replied 200 (Some \<lparr>dv_etag = etag_of id [''rev1''], dv_envelopes = [e], dv_cleanup = [], dv_poll = 15\<rparr>), d') \<and>
     nv_revision e = ''rev1''"
proof -
  obtain node where node: "node_from_request demo_poll demo_delivery = Some node" "node_id node = ''node''"
    "node_age node = ''age1''" "node_poll node = 15"
    by (simp add: node_from_request_def agent_serial_from_context_def demo_poll_def node_by_serial_def node_by_serial_q_def
        row_of_def one_def node_from_list_def demo_delivery_defs)
  have rids: "assigned_revisions ''node'' demo_delivery = [''rev1'']"
    by (simp add: assigned_revisions_def assigned_revisions_q_def demo_delivery_defs)
  have cleanup: "cleanup_for node demo_delivery = []"
    by (simp add: cleanup_for_def pending_cleanup_instructions_def pending_cleanup_q_def demo_delivery_defs)
  let ?now = "1700000000 * second"
  have year: "cl_year (civil_of (?now + 10 * minute)) = 2023"
    by (simp add: cl_year_civil_of year_of_day_def epoch_day_def)
  have other: "rq_header demo_poll ''If-None-Match'' \<noteq> etag_of id [''rev1'']"
    by (simp add: demo_poll_def etag_of_def)
  have keys: "keys_fit demo_handler (\<lambda>k m s. m = s) (replicate 32 (CHR ''p'')) (\<lambda>i. Some) [] (node_age node)"
    unfolding node(3) by (rule demo_delivery_keys(2))
  have "\<exists>envs d'. handle_desired demo_handler ?now demo_poll demo_delivery =
      (Replied 200 (Some \<lparr>dv_etag = etag_of id [''rev1''], dv_envelopes = envs, dv_cleanup = [], dv_poll = 15\<rparr>), d') \<and>
      list_all2 (delivers demo_handler (\<lambda>k m s. m = s) (replicate 32 (CHR ''p'')) (\<lambda>i. Some) [] 0 demo_delivery ''node'') [''rev1''] envs"
    using desired_state_delivered [OF demo_delivery_bundle demo_delivery_fleet demo_delivery_keys(1) node(1) keys _ _ _ refl,
        of ?now 0] year other
    by (auto simp: node rids cleanup demo_handler_def)
  then show ?thesis
    by (auto simp: list_all2_Cons1 delivers_def)
qed

section \<open>ETags\<close>

lemma join_inj:
  assumes "CHR '','' \<notin> \<Union> (set ` set xs)" "CHR '','' \<notin> \<Union> (set ` set ys)" "[] \<notin> set xs" "[] \<notin> set ys"
    and "join_with '','' xs = join_with '','' ys"
  shows "xs = ys"
proof -
  have split: "split_on (CHR '','') (join_with '','' zs) = zs" if "zs \<noteq> []" "CHR '','' \<notin> \<Union> (set ` set zs)" for zs
    using that
  proof (induction "'',''" zs rule: join_with.induct)
    case (2 z)
    then show ?case by (simp add: split_on_plain)
  next
    case (3 z t ts)
    then show ?case by (simp add: split_on_append)
  qed simp
  have nonempty: "join_with '','' zs \<noteq> []" if "zs \<noteq> []" "[] \<notin> set zs" for zs
    using that by (induction "'',''" zs rule: join_with.induct) auto
  show ?thesis
    by (metis assms split nonempty join_with.simps(1))
qed

lemma hex_encode_inj: "hex_encode xs = hex_encode ys \<Longrightarrow> xs = ys"
proof (induction xs arbitrary: ys)
  case Nil
  then show ?case by (cases ys) (simp_all add: hex_encode_def)
next
  case (Cons x xs)
  then obtain y zs where ys: "ys = y # zs"
    by (cases ys) (simp_all add: hex_encode_def)
  have inj: "d = e" if "digit_char d = digit_char e" "d < 16" "e < 16" for d e
  proof -
    have "Some d = Some e"
      unfolding digit_val_char [OF that(2) order.refl, symmetric] digit_val_char [OF that(3) order.refl, symmetric] that(1) ..
    then show ?thesis by simp
  qed
  have small: "byte_val c div 16 < 16" "byte_val c mod 16 < 16" for c
    using byte_vals_lt [of "[c]"] by (simp_all add: less_mult_imp_div_less)
  have "digit_char (byte_val x div 16) = digit_char (byte_val y div 16)"
    "digit_char (byte_val x mod 16) = digit_char (byte_val y mod 16)" "hex_encode xs = hex_encode zs"
    using Cons.prems by (simp_all add: ys hex_encode_def)
  then have "byte_val x div 16 = (byte_val y div 16 :: nat)" "byte_val x mod 16 = (byte_val y mod 16 :: nat)" "xs = zs"
    using inj small Cons.IH by blast+
  then have "byte_val x = (byte_val y :: nat)" "xs = zs"
    by (metis div_mult_mod_eq)+
  then show ?case by (simp add: ys)
qed

text \<open>Two answers have the same ETag exactly when they have the same revisions and cleanups, in any order.\<close>

lemma etag_iff:
  assumes "inj sha256" "\<forall>x \<in> set xs \<union> set ys. x \<noteq> [] \<and> CHR '','' \<notin> set x"
  shows "etag_of sha256 xs = etag_of sha256 ys \<longleftrightarrow> mset xs = mset ys"
proof
  assume "etag_of sha256 xs = etag_of sha256 ys"
  then have "sha256 (join_with '','' (sort xs)) = sha256 (join_with '','' (sort ys))"
    by (auto simp: etag_of_def dest: hex_encode_inj)
  then have "join_with '','' (sort xs) = join_with '','' (sort ys)"
    using assms(1) by (rule injD [rotated])
  then have "sort xs = sort ys"
    using assms(2) by (intro join_inj) auto
  then show "mset xs = mset ys"
    by (metis mset_sort)
next
  assume "mset xs = mset ys"
  then have "sort xs = sort ys"
    by (metis mset_sort properties_for_sort sorted_sort)
  then show "etag_of sha256 xs = etag_of sha256 ys"
    by (simp add: etag_of_def)
qed

end
