(* ===== verification/GoUrl.thy ===== *)
theory GoUrl
  imports GoNet CryptoCore
begin

text \<open>
  The parts of Go's \<open>net/url\<close>, \<open>path\<close>, \<open>net\<close> and \<open>strings\<close> (version 1.24) the program uses on locations: \<open>url.Parse\<close>,
  \<open>url.ParseRequestURI\<close>, \<open>url.ParseQuery\<close>, \<open>Values.Encode\<close>, \<open>path.Clean\<close>, \<open>net.ParseCIDR\<close>, \<open>strings.TrimRight\<close>, \<open>Cut\<close> and \<open>Fields\<close>. A parsed
  location carries what the source reads of it; the user information is only checked.
\<close>

section \<open>Strings\<close>

definition cut_at :: "char \<Rightarrow> string \<Rightarrow> string \<times> string" where
  "cut_at c s = (takeWhile (\<lambda>d. d \<noteq> c) s, drop 1 (dropWhile (\<lambda>d. d \<noteq> c) s))"

definition trim_right_char :: "char \<Rightarrow> string \<Rightarrow> string" where
  "trim_right_char c s = rev (dropWhile (\<lambda>d. d = c) (rev s))"

text \<open>\<open>strings.Fields\<close>; the accumulator is the field being read, reversed.\<close>

definition space_width :: "string \<Rightarrow> nat" where
  "space_width s = (case find (\<lambda>e. has_prefix s e) space_encodings of None \<Rightarrow> 0 | Some e \<Rightarrow> length e)"

function split_fields_from :: "string \<Rightarrow> string \<Rightarrow> string list" where
  "split_fields_from acc [] = (if acc = [] then [] else [rev acc])"
| "split_fields_from acc (c # s) =
     (if space_width (c # s) = 0 then split_fields_from (c # acc) s
      else (if acc = [] then [] else [rev acc]) @ split_fields_from [] (drop (space_width (c # s) - 1) s))"
  by pat_completeness auto
termination by (relation "measure (\<lambda>(acc, s). length s)") auto

definition split_fields :: "string \<Rightarrow> string list" where
  "split_fields s = split_fields_from [] s"

section \<open>Percent encoding\<close>

datatype url_part = UrlPath | UrlHost | UrlZone | UrlUser | UrlFragment | UrlQuery

text \<open>The bytes of a host that \<open>shouldEscape\<close> refuses.\<close>

definition escaped_in_host :: "char \<Rightarrow> bool" where
  "escaped_in_host c \<longleftrightarrow> \<not> unreserved c \<and> c \<notin> set ''!$&()*+,;=:[]<>'' \<and> c \<noteq> CHR 0x22 \<and> c \<noteq> CHR 0x27"

fun percent_decode :: "url_part \<Rightarrow> string \<Rightarrow> string option" where
  "percent_decode m [] = Some []"
| "percent_decode m (c # s) =
     (if c = CHR ''%'' then
        (case s of
           a # b # t \<Rightarrow>
             (case (digit_val 16 a, digit_val 16 b) of
                (Some x, Some y) \<Rightarrow>
                  let v = char_of (16 * x + y) in
                  if m = UrlHost \<and> x < 8 \<and> \<not> (a = CHR ''2'' \<and> b = CHR ''5'') then None
                  else if m = UrlZone \<and> \<not> (a = CHR ''2'' \<and> b = CHR ''5'') \<and> v \<noteq> CHR '' '' \<and> escaped_in_host v then None
                  else map_option ((#) v) (percent_decode m t)
              | _ \<Rightarrow> None)
         | _ \<Rightarrow> None)
      else if (m = UrlHost \<or> m = UrlZone) \<and> byte_val c < 128 \<and> escaped_in_host c then None
      else map_option ((#) (if m = UrlQuery \<and> c = CHR ''+'' then CHR '' '' else c)) (percent_decode m s))"

section \<open>Locations\<close>

record url =
  ur_scheme :: string
  ur_host :: string
  ur_path :: string
  ur_query :: string
  ur_fragment :: string

definition is_letter :: "char \<Rightarrow> bool" where
  "is_letter c \<longleftrightarrow> (let n = byte_val c in 97 \<le> n \<and> n \<le> 122 \<or> 65 \<le> n \<and> n \<le> 90)"

definition is_decimal :: "char \<Rightarrow> bool" where
  "is_decimal c \<longleftrightarrow> 48 \<le> byte_val c \<and> byte_val c \<le> 57"

definition has_control :: "string \<Rightarrow> bool" where
  "has_control s \<longleftrightarrow> list_ex (\<lambda>c. byte_val c < 32 \<or> byte_val c = 127) s"

text \<open>\<open>getScheme\<close>: the scheme and the rest, \<open>None\<close> for a missing scheme before a colon.\<close>

definition get_scheme :: "string \<Rightarrow> (string \<times> string) option" where
  "get_scheme s =
     (let p = takeWhile (\<lambda>c. is_letter c \<or> is_decimal c \<or> c \<in> set ''+-.'') s; t = drop (length p) s in
      if s \<noteq> [] \<and> \<not> is_letter (hd s) then (if hd s = CHR '':'' then None else Some ([], s))
      else if t \<noteq> [] \<and> hd t = CHR '':'' then Some (p, tl t) else Some ([], s))"

definition valid_optional_port :: "string \<Rightarrow> bool" where
  "valid_optional_port s \<longleftrightarrow> s = [] \<or> hd s = CHR '':'' \<and> list_all is_decimal (tl s)"

definition zone_at :: "string \<Rightarrow> nat option" where
  "zone_at s = (case find (\<lambda>i. has_prefix (drop i s) ''%25'') [0..<length s] of None \<Rightarrow> None | Some i \<Rightarrow> Some i)"

definition parse_host :: "string \<Rightarrow> string option" where
  "parse_host h =
     (if has_prefix h ''['' then
        (case last_index_of (CHR '']'') h of
           None \<Rightarrow> None
         | Some i \<Rightarrow>
             if \<not> valid_optional_port (drop (Suc i) h) then None
             else (case zone_at (take i h) of
                 None \<Rightarrow> percent_decode UrlHost h
               | Some z \<Rightarrow>
                   (case (percent_decode UrlHost (take z h), percent_decode UrlZone (drop z (take i h)), percent_decode UrlHost (drop i h)) of
                      (Some a, Some b, Some c) \<Rightarrow> Some (a @ b @ c) | _ \<Rightarrow> None)))
      else (case last_index_of (CHR '':'') h of
          None \<Rightarrow> percent_decode UrlHost h
        | Some i \<Rightarrow> if valid_optional_port (drop i h) then percent_decode UrlHost h else None))"

definition valid_userinfo :: "string \<Rightarrow> bool" where
  "valid_userinfo s \<longleftrightarrow> list_all (\<lambda>c. unreserved c \<or> c \<in> set '':!$&()*+,;=%@'' \<or> c = CHR 0x27) s"

definition parse_authority :: "string \<Rightarrow> string option" where
  "parse_authority s =
     (case last_index_of (CHR ''@'') s of
        None \<Rightarrow> parse_host s
      | Some i \<Rightarrow>
          let user = take i s; (name, password) = cut_at (CHR '':'') user in
          (case parse_host (drop (Suc i) s) of
             None \<Rightarrow> None
           | Some host \<Rightarrow>
               if \<not> valid_userinfo user \<or> percent_decode UrlUser name = None \<or> percent_decode UrlUser password = None then None
               else Some host))"

text \<open>\<open>parse\<close> of \<open>net/url\<close>; \<open>request\<close> is its argument \<open>viaRequest\<close>.\<close>

definition split_query :: "string \<Rightarrow> string \<times> string" where
  "split_query s =
     (if s \<noteq> [] \<and> last s = CHR ''?'' \<and> CHR ''?'' \<notin> set (butlast s) then (butlast s, []) else cut_at (CHR ''?'') s)"

definition rootless_error :: "bool \<Rightarrow> string \<Rightarrow> bool" where
  "rootless_error request rest \<longleftrightarrow> request \<or> CHR '':'' \<in> set (fst (cut_at (CHR ''/'') rest))"

definition with_path :: "string \<Rightarrow> string \<Rightarrow> string \<Rightarrow> string \<Rightarrow> url option" where
  "with_path scheme host query rest =
     map_option (\<lambda>p. \<lparr>ur_scheme = scheme, ur_host = host, ur_path = p, ur_query = query, ur_fragment = []\<rparr>)
       (percent_decode UrlPath rest)"

definition parse_url :: "bool \<Rightarrow> string \<Rightarrow> url option" where
  "parse_url request s =
     (if has_control s then None
      else if s = [] \<and> request then None
      else if s = ''*'' then Some \<lparr>ur_scheme = [], ur_host = [], ur_path = ''*'', ur_query = [], ur_fragment = []\<rparr>
      else (case get_scheme s of
          None \<Rightarrow> None
        | Some (scheme0, rest0) \<Rightarrow>
            let scheme = to_lower scheme0; (rest, query) = split_query rest0 in
            if \<not> has_prefix rest ''/'' \<and> scheme \<noteq> []
            then Some \<lparr>ur_scheme = scheme, ur_host = [], ur_path = [], ur_query = query, ur_fragment = []\<rparr>
            else if \<not> has_prefix rest ''/'' \<and> rootless_error request rest then None
            else if (scheme \<noteq> [] \<or> \<not> request \<and> \<not> has_prefix rest ''///'') \<and> has_prefix rest ''//'' then
              let authority = takeWhile (\<lambda>c. c \<noteq> CHR ''/'') (drop 2 rest); path = dropWhile (\<lambda>c. c \<noteq> CHR ''/'') (drop 2 rest) in
              (case parse_authority authority of None \<Rightarrow> None | Some host \<Rightarrow> with_path scheme host query path)
            else with_path scheme [] query rest))"

definition parse_request_uri :: "string \<Rightarrow> url option" where
  "parse_request_uri s = parse_url True s"

definition url_parse :: "string \<Rightarrow> url option" where
  "url_parse s =
     (let (u, fragment) = cut_at (CHR ''#'') s in
      case parse_url False u of
        None \<Rightarrow> None
      | Some l \<Rightarrow> if fragment = [] then Some l else map_option (\<lambda>f. l\<lparr>ur_fragment := f\<rparr>) (percent_decode UrlFragment fragment))"

definition host_name :: "url \<Rightarrow> string" where
  "host_name u =
     (let h = ur_host u;
          h' = (case last_index_of (CHR '':'') h of
              None \<Rightarrow> h | Some i \<Rightarrow> if valid_optional_port (drop i h) then take i h else h) in
      if has_prefix h' ''['' \<and> last h' = CHR '']'' then butlast (tl h') else h')"

section \<open>Query strings\<close>

text \<open>The keys of \<open>url.Values\<close> are distinct here; \<open>Encode\<close> writes them in their order.\<close>

definition encode_values :: "(string \<times> string) list \<Rightarrow> string" where
  "encode_values vs = join_with ''&'' (map (\<lambda>(k, v). query_escape k @ ''='' @ query_escape v) (sort_key fst vs))"

definition parse_pair :: "string \<Rightarrow> (string \<times> string) option" where
  "parse_pair s =
     (if CHR '';'' \<in> set s then None
      else let (k, v) = cut_at (CHR ''='') s in
        case (percent_decode UrlQuery k, percent_decode UrlQuery v) of (Some k', Some v') \<Rightarrow> Some (k', v') | _ \<Rightarrow> None)"

definition parse_query :: "string \<Rightarrow> (string \<times> string) list option" where
  "parse_query s = those (map parse_pair (filter (\<lambda>p. p \<noteq> []) (split_on (CHR ''&'') s)))"

definition query_value :: "(string \<times> string) list \<Rightarrow> string \<Rightarrow> string" where
  "query_value vs k = (case map_of vs k of None \<Rightarrow> [] | Some v \<Rightarrow> v)"

section \<open>Paths\<close>

text \<open>\<open>path.Clean\<close>: the elements kept so far, the last one first.\<close>

fun clean_step :: "bool \<Rightarrow> string list \<Rightarrow> string \<Rightarrow> string list" where
  "clean_step rooted kept part =
     (if part = [] \<or> part = ''.'' then kept
      else if part = ''..'' then
        (case kept of
           [] \<Rightarrow> if rooted then [] else [''..'']
         | k # ks \<Rightarrow> if k = ''..'' then part # kept else ks)
      else part # kept)"

definition path_clean :: "string \<Rightarrow> string" where
  "path_clean p =
     (let rooted = has_prefix p ''/''; parts = rev (foldl (clean_step rooted) [] (split_on (CHR ''/'') p)) in
      if rooted then CHR ''/'' # join_with ''/'' parts
      else if parts = [] then ''.'' else join_with ''/'' parts)"

section \<open>Addresses\<close>

definition is_loopback :: "ip \<Rightarrow> bool" where
  "is_loopback x = (case to4 x of Some v \<Rightarrow> hd v = 127 | None \<Rightarrow> x = replicate 15 0 @ [1])"

text \<open>\<open>CIDRMask\<close>: the first \<open>n\<close> bits of \<open>k\<close> bytes.\<close>

definition cidr_mask :: "nat \<Rightarrow> nat \<Rightarrow> ip" where
  "cidr_mask n k = map (\<lambda>i. let b = min 8 (n - 8 * i) in 256 - 2 ^ (8 - b)) [0..<k]"

definition parse_cidr :: "string \<Rightarrow> ip_net option" where
  "parse_cidr s =
     (if CHR ''/'' \<notin> set s then None
      else
        let (addr, mask) = cut_at (CHR ''/'') s;
            x = (case find (\<lambda>c. c \<in> set ''.:%'') addr of
                None \<Rightarrow> None | Some c \<Rightarrow> if c = CHR ''.'' then parse_ipv4 addr else if c = CHR '':'' then parse_ipv6 addr else None) in
        (case x of
           None \<Rightarrow> None
         | Some v \<Rightarrow>
             if mask = [] then None
             else (case parse_digits 10 0 mask of
                 None \<Rightarrow> None
               | Some n \<Rightarrow>
                   if 8 * length v < n then None
                   else let m = cidr_mask n (length v) in
                     Some \<lparr>in_ip = map2 (\<lambda>a b. a AND b) v m, in_mask = m\<rparr>)))"

section \<open>Facts\<close>

text \<open>Unescaping gives back what was escaped.\<close>

lemma percent_digits:
  obtains a b where "percent c = [CHR ''%'', a, b]" "digit_val 16 a = Some (byte_val c div 16)" "digit_val 16 b = Some (byte_val c mod 16)"
proof -
  define up where "up d = (if d < 10 then char_of (48 + d) else char_of (55 + d) :: char)" for d :: nat
  have "byte_val c < 256" by simp
  then have n: "byte_val c div 16 < 16" "byte_val c mod 16 < 16" by linarith+
  have byte: "byte_val (char_of k :: char) = k" if "k < 256" for k :: nat
    using that by simp
  have up_digit: "d < 16 \<Longrightarrow> to_upper (digit_char d # s) = up d # to_upper s" for d s
    by (auto simp: digit_char_def up_def byte)
  have val: "d < 16 \<Longrightarrow> digit_val 16 (up d) = Some d" for d
    by (auto simp: digit_val_def up_def byte Let_def)
  have "percent c = [CHR ''%'', up (byte_val c div 16), up (byte_val c mod 16)]"
    using n by (simp add: percent_def hex_encode_def up_digit del: to_upper.simps(2))
  then show thesis using that val n by blast
qed

lemma percent_decode_percent: "percent_decode UrlQuery (percent c @ s) = map_option ((#) c) (percent_decode UrlQuery s)"
proof -
  obtain a b where *: "percent c = [CHR ''%'', a, b]" "digit_val 16 a = Some (byte_val c div 16)" "digit_val 16 b = Some (byte_val c mod 16)"
    by (rule percent_digits)
  have "char_of (16 * (byte_val c div 16) + byte_val c mod 16) = c" by simp
  with * show ?thesis by simp
qed

lemma query_unescape: "percent_decode UrlQuery (query_escape s) = Some s"
proof (induction s)
  case Nil
  then show ?case by (simp add: query_escape_def)
next
  case (Cons c s)
  have step: "query_escape (c # s) = (if unreserved c then [c] else if c = CHR '' '' then ''+'' else percent c) @ query_escape s"
    by (simp add: query_escape_def)
  have plain: "unreserved c \<Longrightarrow> c \<noteq> CHR ''%'' \<and> c \<noteq> CHR ''+''"
    by (auto simp: unreserved_def Let_def)
  show ?case
    unfolding step using Cons plain percent_decode_percent by auto
qed

lemma query_escape_plain: "d \<in> set (query_escape s) \<Longrightarrow> unreserved d \<or> d = CHR ''+'' \<or> d = CHR ''%''"
proof (induction s)
  case (Cons c s)
  have hex: "unreserved a" if "digit_val 16 a = Some n" for a n
    using that by (auto simp: digit_val_def unreserved_def Let_def split: if_splits)
  obtain a b where "percent c = [CHR ''%'', a, b]" "unreserved a" "unreserved b"
    by (rule percent_digits [of c]) (use hex in blast)
  with Cons show ?case
    by (auto simp: query_escape_def split: if_splits)
qed (simp add: query_escape_def)

lemma query_escape_no:
  "CHR ''&'' \<notin> set (query_escape s)" "CHR ''='' \<notin> set (query_escape s)" "CHR '';'' \<notin> set (query_escape s)"
  using query_escape_plain [of "CHR ''&''" s] query_escape_plain [of "CHR ''=''" s] query_escape_plain [of "CHR '';''" s]
  by (auto simp: unreserved_def)

lemma split_join:
  "ps \<noteq> [] \<Longrightarrow> \<forall>p \<in> set ps. c \<notin> set p \<Longrightarrow> split_on c (join_with [c] ps) = ps"
proof (induction "[c]" ps rule: join_with.induct)
  have one: "c \<notin> set p \<Longrightarrow> split_on c p = [p]" for p
    by (induction p) auto
  have first: "c \<notin> set p \<Longrightarrow> split_on c (p @ c # t) = p # split_on c t" for p t
    by (induction p) auto
  case 2
  then show ?case by (simp add: one)
next
  have first: "c \<notin> set p \<Longrightarrow> split_on c (p @ c # t) = p # split_on c t" for p t
    by (induction p) auto
  case 3
  then show ?case by (simp add: first)
qed simp

lemma parse_encoded_values: "vs \<noteq> [] \<Longrightarrow> parse_query (encode_values vs) = Some (sort_key fst vs)"
proof -
  assume vs: "vs \<noteq> []"
  let ?pair = "\<lambda>(k, v). query_escape k @ ''='' @ query_escape v"
  let ?ps = "map ?pair (sort_key fst vs)"
  have "sort_key fst vs \<noteq> []" using vs by (metis length_0_conv length_sort)
  moreover have "\<forall>p \<in> set ?ps. CHR ''&'' \<notin> set p" using query_escape_no by auto
  ultimately have "split_on (CHR ''&'') (encode_values vs) = ?ps"
    unfolding encode_values_def by (intro split_join) auto
  moreover have "filter (\<lambda>p. p \<noteq> []) ?ps = ?ps" by (auto simp: filter_id_conv)
  moreover have "parse_pair (?pair kv) = Some kv" for kv
  proof (cases kv)
    case (Pair k v)
    have "takeWhile (\<lambda>d. d \<noteq> CHR ''='') (query_escape k @ CHR ''='' # query_escape v) = query_escape k"
      "dropWhile (\<lambda>d. d \<noteq> CHR ''='') (query_escape k @ CHR ''='' # query_escape v) = CHR ''='' # query_escape v"
      using query_escape_no(2) by (subst takeWhile_append2 dropWhile_append2; force)+
    then show ?thesis
      by (simp add: Pair parse_pair_def cut_at_def query_escape_no query_unescape)
  qed
  then have "map parse_pair ?ps = map Some (sort_key fst vs)" by (simp only: list.map_comp comp_def)
  moreover have "those (map Some xs) = Some xs" for xs :: "(string \<times> string) list"
    by (induction xs) simp_all
  ultimately show ?thesis by (simp only: parse_query_def)
qed

text \<open>A cleaned rooted path is made of ordinary elements, and cleaning leaves such a path alone.\<close>

definition ordinary_part :: "string \<Rightarrow> bool" where
  "ordinary_part p \<longleftrightarrow> p \<noteq> [] \<and> p \<noteq> ''.'' \<and> p \<noteq> ''..'' \<and> CHR ''/'' \<notin> set p"

lemma clean_step_ordinary:
  "list_all ordinary_part kept \<Longrightarrow> CHR ''/'' \<notin> set part \<Longrightarrow> list_all ordinary_part (clean_step True kept part)"
  by (cases kept) (auto simp: ordinary_part_def)

lemma clean_parts:
  "list_all ordinary_part kept \<Longrightarrow> \<forall>p \<in> set parts. CHR ''/'' \<notin> set p \<Longrightarrow> list_all ordinary_part (foldl (clean_step True) kept parts)"
proof (induction parts arbitrary: kept)
  case (Cons p parts)
  then have "list_all ordinary_part (clean_step True kept p)" by (intro clean_step_ordinary) auto
  with Cons show ?case by simp
qed simp

lemma clean_ordinary: "list_all ordinary_part parts \<Longrightarrow> foldl (clean_step rooted) kept parts = rev parts @ kept"
  by (induction parts arbitrary: kept) (auto simp: ordinary_part_def)

lemma path_clean_rooted:
  "\<exists>parts. list_all ordinary_part parts \<and> path_clean (CHR ''/'' # s) = CHR ''/'' # join_with ''/'' parts"
proof -
  have "list_all ordinary_part (foldl (clean_step True) [] (split_on (CHR ''/'') (CHR ''/'' # s)))"
    by (rule clean_parts) (use split_on_no_sep in auto)
  then have "list_all ordinary_part (rev (foldl (clean_step True) [] (split_on (CHR ''/'') (CHR ''/'' # s))))"
    by (simp add: list_all_iff)
  then show ?thesis
    by (intro exI [of _ "rev (foldl (clean_step True) [] (split_on (CHR ''/'') (CHR ''/'' # s)))"]) (simp add: path_clean_def Let_def)
qed

lemma path_clean_ordinary:
  assumes "list_all ordinary_part parts" "parts \<noteq> []"
  shows "path_clean (CHR ''/'' # join_with ''/'' parts) = CHR ''/'' # join_with ''/'' parts"
    "path_clean (join_with ''/'' parts) = join_with ''/'' parts"
proof -
  have split: "split_on (CHR ''/'') (join_with ''/'' parts) = parts"
    using assms by (intro split_join) (auto simp: list_all_iff ordinary_part_def)
  then show "path_clean (CHR ''/'' # join_with ''/'' parts) = CHR ''/'' # join_with ''/'' parts"
    using assms(1) by (simp add: path_clean_def Let_def clean_ordinary)
  have "\<not> has_prefix (join_with ''/'' parts) ''/''"
  proof -
    obtain p ps where parts: "parts = p # ps" using assms(2) by (cases parts) auto
    obtain c q where "p = c # q" "c \<noteq> CHR ''/''" using assms(1) parts by (cases p) (auto simp: ordinary_part_def)
    then show ?thesis by (cases ps) (simp_all add: parts)
  qed
  then show "path_clean (join_with ''/'' parts) = join_with ''/'' parts"
    using split assms by (simp add: path_clean_def Let_def clean_ordinary)
qed

text \<open>Examples of the documentation of the packages.\<close>

lemma path_clean_examples:
  "path_clean ''a//c'' = ''a/c''" "path_clean ''a/c/b/..'' = ''a/c''" "path_clean ''/../a/b/../././/c'' = ''/a/c''"
  "path_clean [] = ''.''" "path_clean ''../a'' = ''../a''"
  by (simp_all add: path_clean_def)

lemma url_examples:
  "url_parse ''https://example.org:8080/a%20b?x=1#f'' = Some \<lparr>ur_scheme = ''https'', ur_host = ''example.org:8080'', ur_path = ''/a b'',
     ur_query = ''x=1'', ur_fragment = ''f''\<rparr>"
  "url_parse ''http://[fe80::1%25en0]:80/'' = Some \<lparr>ur_scheme = ''http'', ur_host = ''[fe80::1%en0]:80'', ur_path = ''/'', ur_query = [],
     ur_fragment = []\<rparr>"
  "url_parse ''http://a b/'' = None" "parse_request_uri ''a/b'' = None"
  by code_simp+

lemma cidr_examples:
  "parse_cidr ''10.1.0.0/8'' = Some \<lparr>in_ip = [10, 0, 0, 0], in_mask = [255, 0, 0, 0]\<rparr>"
  "parse_cidr ''10.0.0.1'' = None" "parse_cidr ''10.0.0.0/33'' = None"
  by code_simp+

end
