(* ===== verification/Providers.thy ===== *)
theory Providers
  imports Config Middleware
begin

text \<open>
  The clients of the external login providers, \<open>core/internal/identity/oidc.go\<close> and \<open>oauth.go\<close>. The network, the decoding of JSON,
  SHA-256 and RSA are a record of arguments; the source discards the texts of the errors, so a failure is \<open>None\<close>.
\<close>

section \<open>What the clients use\<close>

record http_request =
  hq_method :: string
  hq_url :: string
  hq_headers :: "(string \<times> string) list"
  hq_body :: string

text \<open>A body that cannot be read to its end is \<open>None\<close>.\<close>

record http_response =
  hr_status :: nat
  hr_body :: "bytes option"

text \<open>The redirect policy of a client: may it follow to this location after that many requests.\<close>

type_synonym redirect_policy = "url \<Rightarrow> nat \<Rightarrow> bool"

record oidc_metadata =
  om_issuer :: string
  om_authorization :: string
  om_token :: string
  om_jwks :: string
  om_responses :: "string list"
  om_algorithms :: "string list"

record jwt_header =
  jh_alg :: string
  jh_kid :: string

text \<open>The audience stays undecoded until the other claims are.\<close>

record token_claims =
  cm_issuer :: string
  cm_subject :: string
  cm_audience :: bytes
  cm_azp :: string
  cm_expires :: int
  cm_issued :: int
  cm_nonce :: string
  cm_name :: string

record json_key =
  jk_id :: string
  jk_type :: string
  jk_alg :: string
  jk_use :: string
  jk_modulus :: string
  jk_exponent :: string

text \<open>A decoded value of any type; a number is a float64, here with its value when that is a whole number of an int64.\<close>

datatype json_value = JNull | JText string | JNumber "int option" | JOther

record provider_env =
  pe_net :: "redirect_policy \<Rightarrow> http_request \<Rightarrow> http_response option"
  pe_sha256 :: "bytes \<Rightarrow> bytes"
  pe_rsa :: "nat \<Rightarrow> nat \<Rightarrow> bytes \<Rightarrow> bytes \<Rightarrow> bool"
  pe_metadata :: "bytes \<Rightarrow> oidc_metadata option"
  pe_id_token :: "bytes \<Rightarrow> string option"
  pe_header :: "bytes \<Rightarrow> jwt_header option"
  pe_claims :: "bytes \<Rightarrow> token_claims option"
  pe_text :: "bytes \<Rightarrow> string option"
  pe_texts :: "bytes \<Rightarrow> string list option"
  pe_keys :: "bytes \<Rightarrow> json_key list option"
  pe_access_token :: "bytes \<Rightarrow> string option"
  pe_object :: "bytes \<Rightarrow> (string \<times> json_value) list option"

record oidc_config =
  dg_public_url :: string
  dg_issuer :: string
  dg_client :: string
  dg_secret :: string
  dg_scopes :: "string list"
  dg_redirects :: "redirect_policy option"

record oidc_client =
  dc_config :: oidc_config
  dc_metadata :: oidc_metadata

section \<open>Requests\<close>

definition body_limit :: nat where
  "body_limit = 2 ^ 20"

text \<open>\<open>http.NewRequest\<close> parses the location, and refuses one it cannot parse.\<close>

definition send :: "provider_env \<Rightarrow> redirect_policy \<Rightarrow> http_request \<Rightarrow> http_response option" where
  "send pe policy q = (if url_parse (hq_url q) = None then None else pe_net pe policy q)"

definition decode_bounded_json :: "(bytes \<Rightarrow> 'a option) \<Rightarrow> http_response \<Rightarrow> 'a option" where
  "decode_bounded_json decode resp =
     (case hr_body resp of None \<Rightarrow> None | Some body \<Rightarrow> decode (take body_limit body))"

definition get_json :: "provider_env \<Rightarrow> redirect_policy \<Rightarrow> (bytes \<Rightarrow> 'a option) \<Rightarrow> string \<Rightarrow> 'a option" where
  "get_json pe policy decode endpoint =
     (case send pe policy \<lparr>hq_method = ''GET'', hq_url = endpoint, hq_headers = [], hq_body = []\<rparr> of
        None \<Rightarrow> None
      | Some resp \<Rightarrow> if hr_status resp \<noteq> 200 then None else decode_bounded_json decode resp)"

definition basic_auth :: "string \<Rightarrow> string \<Rightarrow> string \<times> string" where
  "basic_auth user password = (''Authorization'', ''Basic '' @ std_encode (user @ '':'' @ password))"

definition pkce_challenge :: "provider_env \<Rightarrow> string \<Rightarrow> string" where
  "pkce_challenge pe verifier = raw_url_encode (pe_sha256 pe verifier)"

section \<open>OpenID Connect\<close>

definition is_loopback_oidc_host :: "string \<Rightarrow> bool" where
  "is_loopback_oidc_host host \<longleftrightarrow> host = ''localhost'' \<or> (case parse_ip host of None \<Rightarrow> False | Some x \<Rightarrow> is_loopback x)"

definition oidc_endpoint_allowed :: "string \<Rightarrow> url \<Rightarrow> bool" where
  "oidc_endpoint_allowed issuer endpoint \<longleftrightarrow>
     (case url_parse issuer of
        None \<Rightarrow> False
      | Some i \<Rightarrow>
          if ur_host endpoint = [] then False
          else if ur_scheme i = ''https'' then ur_scheme endpoint = ''https''
          else ur_scheme i = ''http'' \<and> is_loopback_oidc_host (host_name i) \<and> ur_scheme endpoint = ''http'' \<and>
            is_loopback_oidc_host (host_name endpoint))"

definition oidc_http_client :: "redirect_policy option \<Rightarrow> string \<Rightarrow> redirect_policy" where
  "oidc_http_client original issuer u via \<longleftrightarrow>
     oidc_endpoint_allowed issuer u \<and> (case original of Some policy \<Rightarrow> policy u via | None \<Rightarrow> via < 10)"

definition discover_oidc :: "provider_env \<Rightarrow> oidc_config \<Rightarrow> oidc_client option" where
  "discover_oidc pe cfg =
     (case url_parse (dg_issuer cfg) of
        None \<Rightarrow> None
      | Some u \<Rightarrow>
          if ur_query u \<noteq> [] \<or> ur_fragment u \<noteq> [] \<or> \<not> oidc_endpoint_allowed (dg_issuer cfg) u then None
          else
            (case get_json pe (oidc_http_client (dg_redirects cfg) (dg_issuer cfg)) (pe_metadata pe)
                (trim_right_char (CHR ''/'') (dg_issuer cfg) @ ''/.well-known/openid-configuration'') of
               None \<Rightarrow> None
             | Some m \<Rightarrow>
                 if om_issuer m \<noteq> dg_issuer cfg \<or> om_authorization m = [] \<or> om_token m = [] \<or> om_jwks m = [] then None
                 else if ''code'' \<notin> set (om_responses m) \<or> ''RS256'' \<notin> set (om_algorithms m) then None
                 else if list_ex (\<lambda>e. case url_parse e of None \<Rightarrow> True
                     | Some p \<Rightarrow> ur_host p = [] \<or> \<not> oidc_endpoint_allowed (dg_issuer cfg) p)
                   [om_authorization m, om_token m, om_jwks m] then None
                 else Some \<lparr>dc_config = cfg, dc_metadata = m\<rparr>))"

definition oidc_policy :: "oidc_client \<Rightarrow> redirect_policy" where
  "oidc_policy c = oidc_http_client (dg_redirects (dc_config c)) (dg_issuer (dc_config c))"

definition oidc_redirect_uri :: "oidc_client \<Rightarrow> string \<Rightarrow> string" where
  "oidc_redirect_uri c base = trim_right_char (CHR ''/'') (dg_public_url (dc_config c)) @ base @ ''/auth/oidc/callback''"

definition oidc_parameters :: "provider_env \<Rightarrow> oidc_client \<Rightarrow> string \<Rightarrow> string \<Rightarrow> string \<Rightarrow> string \<Rightarrow> (string \<times> string) list" where
  "oidc_parameters pe c base state nonce verifier =
     [(''response_type'', ''code''), (''client_id'', dg_client (dc_config c)), (''redirect_uri'', oidc_redirect_uri c base),
      (''scope'', join_with '' '' (dg_scopes (dc_config c))), (''state'', state), (''nonce'', nonce),
      (''code_challenge'', pkce_challenge pe verifier), (''code_challenge_method'', ''S256'')]"

definition oidc_authorization_url :: "provider_env \<Rightarrow> oidc_client \<Rightarrow> string \<Rightarrow> string \<Rightarrow> string \<Rightarrow> string \<Rightarrow> string" where
  "oidc_authorization_url pe c base state nonce verifier =
     om_authorization (dc_metadata c) @ ''?'' @ encode_values (oidc_parameters pe c base state nonce verifier)"

section \<open>The ID token\<close>

definition decode_jwt_part :: "(bytes \<Rightarrow> 'a option) \<Rightarrow> string \<Rightarrow> 'a option" where
  "decode_jwt_part decode raw = (case raw_url_decode raw of None \<Rightarrow> None | Some bytes \<Rightarrow> decode bytes)"

definition big_endian :: "bytes \<Rightarrow> nat" where
  "big_endian bs = foldl (\<lambda>n c. 256 * n + byte_val c) 0 bs"

text \<open>The first key with the id that may verify RS256 signatures is used, or none when it is malformed.\<close>

definition signing_key :: "provider_env \<Rightarrow> oidc_client \<Rightarrow> string \<Rightarrow> (nat \<times> nat) option" where
  "signing_key pe c kid =
     (case get_json pe (oidc_policy c) (pe_keys pe) (om_jwks (dc_metadata c)) of
        None \<Rightarrow> None
      | Some keys \<Rightarrow>
          (case find (\<lambda>k. jk_id k = kid \<and> jk_type k = ''RSA'' \<and> jk_alg k = ''RS256'' \<and> jk_use k = ''sig'') keys of
             None \<Rightarrow> None
           | Some k \<Rightarrow>
               (case (raw_url_decode (jk_modulus k), raw_url_decode (jk_exponent k)) of
                  (Some modulus, Some exponent) \<Rightarrow>
                    if exponent = [] \<or> 4 < length exponent \<or> big_endian exponent < 3 then None
                    else Some (big_endian modulus, big_endian exponent)
                | _ \<Rightarrow> None)))"

definition parse_audience :: "provider_env \<Rightarrow> bytes \<Rightarrow> string list option" where
  "parse_audience pe raw =
     (case pe_text pe raw of
        Some single \<Rightarrow> Some [single]
      | None \<Rightarrow> (case pe_texts pe raw of None \<Rightarrow> None | Some many \<Rightarrow> if many = [] then None else Some many))"

definition max_id_token_age :: duration where "max_id_token_age = 60 * minute"
definition clock_skew :: duration where "clock_skew = 2 * minute"

text \<open>\<open>Time.Add\<close> of a positive duration of whole seconds saturates at the last second an int64 can count since the year 1.\<close>

definition time_add :: "time \<Rightarrow> duration \<Rightarrow> time" where
  "time_add t d = min (t + d) ((2 ^ 63 - 1 - unix_to_internal) * second + t mod second)"

definition claims_ok :: "provider_env \<Rightarrow> oidc_client \<Rightarrow> string \<Rightarrow> time \<Rightarrow> token_claims \<Rightarrow> bool" where
  "claims_ok pe c nonce now m \<longleftrightarrow>
     (let client = dg_client (dc_config c) in
      case parse_audience pe (cm_audience m) of
        None \<Rightarrow> False
      | Some audiences \<Rightarrow>
          if client \<notin> set audiences \<or> 1 < length audiences \<and> cm_azp m \<noteq> client \<or> cm_azp m \<noteq> [] \<and> cm_azp m \<noteq> client then False
          else
            let issued = unix_time (cm_issued m); expires = unix_time (cm_expires m) in
            \<not> (cm_issuer m \<noteq> dg_issuer (dc_config c) \<or> cm_subject m = [] \<or> cm_nonce m \<noteq> nonce \<or> cm_issued m \<le> 0 \<or> cm_expires m \<le> 0 \<or>
               expires < issued \<or> time_add expires clock_skew < now \<or> time_add now clock_skew < issued \<or>
               max_id_token_age + clock_skew < time_sub now issued))"

definition validate_id_token :: "provider_env \<Rightarrow> oidc_client \<Rightarrow> string \<Rightarrow> string \<Rightarrow> time \<Rightarrow> oidc_identity option" where
  "validate_id_token pe c raw nonce now =
     (case split_on (CHR ''.'') raw of
        [header, payload, sig64] \<Rightarrow>
          (case decode_jwt_part (pe_header pe) header of
             None \<Rightarrow> None
           | Some h \<Rightarrow>
               if jh_alg h \<noteq> ''RS256'' \<or> jh_kid h = [] then None
               else (case signing_key pe c (jh_kid h) of
                   None \<Rightarrow> None
                 | Some (modulus, exponent) \<Rightarrow>
                     (case raw_url_decode sig64 of
                        None \<Rightarrow> None
                      | Some sig \<Rightarrow>
                          if \<not> pe_rsa pe modulus exponent (pe_sha256 pe (header @ ''.'' @ payload)) sig then None
                          else (case decode_jwt_part (pe_claims pe) payload of
                              None \<Rightarrow> None
                            | Some m \<Rightarrow>
                                if claims_ok pe c nonce now m
                                then Some \<lparr>oi_issuer = cm_issuer m, oi_subject = cm_subject m, oi_display = cm_name m\<rparr> else None))))
      | _ \<Rightarrow> None)"

text \<open>The body of a token request; a public client names itself in it, a confidential one in the header.\<close>

definition token_values :: "string \<Rightarrow> string \<Rightarrow> string \<Rightarrow> string \<Rightarrow> string \<Rightarrow> (string \<times> string) list" where
  "token_values code redirect verifier client secret =
     [(''grant_type'', ''authorization_code''), (''code'', code), (''redirect_uri'', redirect), (''code_verifier'', verifier)] @
     (if secret = [] then [(''client_id'', client)] else [])"

definition oidc_token_request :: "oidc_client \<Rightarrow> string \<Rightarrow> string \<Rightarrow> string \<Rightarrow> http_request" where
  "oidc_token_request c base code verifier =
     (let cfg = dc_config c in
      \<lparr>hq_method = ''POST'', hq_url = om_token (dc_metadata c),
       hq_headers = (''Content-Type'', ''application/x-www-form-urlencoded'') #
         (if dg_secret cfg \<noteq> [] then [basic_auth (dg_client cfg) (dg_secret cfg)] else []),
       hq_body = encode_values (token_values code (oidc_redirect_uri c base) verifier (dg_client cfg) (dg_secret cfg))\<rparr>)"

definition exchange_and_validate ::
    "provider_env \<Rightarrow> oidc_client \<Rightarrow> string \<Rightarrow> string \<Rightarrow> string \<Rightarrow> string \<Rightarrow> time \<Rightarrow> oidc_identity option" where
  "exchange_and_validate pe c base code verifier nonce now =
     (case send pe (oidc_policy c) (oidc_token_request c base code verifier) of
        None \<Rightarrow> None
      | Some resp \<Rightarrow>
          if hr_status resp \<noteq> 200 then None
          else (case decode_bounded_json (pe_id_token pe) resp of
              None \<Rightarrow> None
            | Some token \<Rightarrow> if token = [] then None else validate_id_token pe c token nonce now))"

section \<open>OAuth\<close>

record oauth_client =
  hc_public_url :: string
  hc_authorization :: string
  hc_token :: string
  hc_userinfo :: string
  hc_client :: string
  hc_secret :: string
  hc_scopes :: "string list"
  hc_redirects :: redirect_policy

definition oauth_endpoint_allowed :: "url \<Rightarrow> bool" where
  "oauth_endpoint_allowed u \<longleftrightarrow>
     (if ur_host u = [] then False
      else ur_scheme u = ''https'' \<or> ur_scheme u = ''http'' \<and> is_loopback_oidc_host (host_name u))"

definition new_oauth_client :: "oauth_client \<Rightarrow> oauth_client option" where
  "new_oauth_client cfg =
     (if list_ex (\<lambda>raw. case url_parse raw of None \<Rightarrow> True
          | Some u \<Rightarrow> ur_host u = [] \<or> ur_query u \<noteq> [] \<or> ur_fragment u \<noteq> [] \<or> \<not> oauth_endpoint_allowed u)
        [hc_authorization cfg, hc_token cfg, hc_userinfo cfg] then None
      else Some cfg)"

definition oauth_issuer :: "oauth_client \<Rightarrow> string" where
  "oauth_issuer c = trim_right_char (CHR ''/'') (hc_authorization c)"

definition oauth_redirect_uri :: "oauth_client \<Rightarrow> string \<Rightarrow> string" where
  "oauth_redirect_uri c base = trim_right_char (CHR ''/'') (hc_public_url c) @ base @ ''/auth/oauth/callback''"

definition oauth_parameters :: "provider_env \<Rightarrow> oauth_client \<Rightarrow> string \<Rightarrow> string \<Rightarrow> string \<Rightarrow> (string \<times> string) list" where
  "oauth_parameters pe c base state verifier =
     [(''response_type'', ''code''), (''client_id'', hc_client c), (''redirect_uri'', oauth_redirect_uri c base), (''state'', state),
      (''code_challenge'', pkce_challenge pe verifier), (''code_challenge_method'', ''S256'')] @
     (if hc_scopes c \<noteq> [] then [(''scope'', join_with '' '' (hc_scopes c))] else [])"

definition oauth_authorization_url :: "provider_env \<Rightarrow> oauth_client \<Rightarrow> string \<Rightarrow> string \<Rightarrow> string \<Rightarrow> string" where
  "oauth_authorization_url pe c base state verifier =
     hc_authorization c @ ''?'' @ encode_values (oauth_parameters pe c base state verifier)"

definition oauth_user_agent :: string where
  "oauth_user_agent = ''autosecrets-core''"

definition oauth_token_request :: "oauth_client \<Rightarrow> string \<Rightarrow> string \<Rightarrow> string \<Rightarrow> http_request" where
  "oauth_token_request c base code verifier =
     \<lparr>hq_method = ''POST'', hq_url = hc_token c,
      hq_headers = [(''Content-Type'', ''application/x-www-form-urlencoded''), (''Accept'', ''application/json''),
        (''User-Agent'', oauth_user_agent)] @ (if hc_secret c \<noteq> [] then [basic_auth (hc_client c) (hc_secret c)] else []),
      hq_body = encode_values (token_values code (oauth_redirect_uri c base) verifier (hc_client c) (hc_secret c))\<rparr>"

definition decode_oauth_access_token :: "provider_env \<Rightarrow> bytes \<Rightarrow> string option" where
  "decode_oauth_access_token pe body =
     (case pe_access_token pe body of
        Some (c # t) \<Rightarrow> Some (c # t)
      | _ \<Rightarrow>
          (case parse_query body of
             None \<Rightarrow> None
           | Some vs \<Rightarrow> if query_value vs ''access_token'' = [] then None else Some (query_value vs ''access_token'')))"

definition oauth_string_claim :: "(string \<times> json_value) list \<Rightarrow> string \<Rightarrow> string" where
  "oauth_string_claim claims key =
     (case map_of claims key of
        Some (JText s) \<Rightarrow> s
      | Some (JNumber (Some n)) \<Rightarrow> format_int n
      | _ \<Rightarrow> [])"

definition first_text :: "string list \<Rightarrow> string" where
  "first_text ss = (case find (\<lambda>s. s \<noteq> []) ss of None \<Rightarrow> [] | Some s \<Rightarrow> s)"

definition userinfo_identity :: "provider_env \<Rightarrow> oauth_client \<Rightarrow> string \<Rightarrow> oidc_identity option" where
  "userinfo_identity pe c token =
     (case send pe (hc_redirects c) \<lparr>hq_method = ''GET'', hq_url = hc_userinfo c,
         hq_headers = [(''Authorization'', ''Bearer '' @ token), (''Accept'', ''application/json''), (''User-Agent'', oauth_user_agent)],
         hq_body = []\<rparr> of
        None \<Rightarrow> None
      | Some resp \<Rightarrow>
          if hr_status resp \<noteq> 200 then None
          else (case decode_bounded_json (pe_object pe) resp of
              None \<Rightarrow> None
            | Some claims \<Rightarrow>
                let subject = first_text (map (oauth_string_claim claims) [''sub'', ''id'']) in
                if claims = [] then None
                else if subject = [] then None
                else Some \<lparr>oi_issuer = oauth_issuer c, oi_subject = subject,
                  oi_display = first_text (map (oauth_string_claim claims) [''name'', ''login'', ''preferred_username''])\<rparr>))"

definition exchange_and_identify :: "provider_env \<Rightarrow> oauth_client \<Rightarrow> string \<Rightarrow> string \<Rightarrow> string \<Rightarrow> oidc_identity option" where
  "exchange_and_identify pe c base code verifier =
     (case send pe (hc_redirects c) (oauth_token_request c base code verifier) of
        None \<Rightarrow> None
      | Some resp \<Rightarrow>
          if hr_status resp \<noteq> 200 then None
          else (case hr_body resp of
              None \<Rightarrow> None
            | Some body \<Rightarrow>
                (case decode_oauth_access_token pe (take body_limit body) of
                   None \<Rightarrow> None | Some token \<Rightarrow> userinfo_identity pe c token)))"

end
