(* ===== verification/IdentityHandler.thy ===== *)
theory IdentityHandler
  imports Providers RateLimit GoTime
begin

text \<open>
  The HTTP surface of the identity domain, \<open>core/internal/identity/handler.go\<close>. A handler is a function of the request, its decoded
  body (\<open>None\<close> when decoding fails), fresh random bytes and the database to a response and the database after it; the two
  login handlers also take and return their limiter of failures. A response is a reply or a redirect, with the cookies it sets;
  every cookie is HttpOnly and SameSite=Lax. The clock is read once per request (\<open>now\<close>), and \<open>ts\<close> is the clock of the
  database; \<open>tls\<close> tells whether the connection is encrypted.
\<close>

section \<open>The handler and its responses\<close>

record identity_handler =
  ih_service :: service
  ih_base :: string
  ih_oidc :: "oidc_client option"
  ih_oidc_unavailable :: string
  ih_oauth :: "oauth_client option"
  ih_oauth_unavailable :: string
  ih_public_url :: string
  ih_trusted :: "ip_net list"
  ih_env :: provider_env

record set_cookie =
  ck_name :: string
  ck_value :: string
  ck_path :: string
  ck_secure :: bool
  ck_max_age :: int
  ck_expires :: "time option"

datatype 'b body_out = Body "'b reply" | Redirect string

record 'b response =
  rz_cookies :: "set_cookie list"
  rz_retry :: "int option"
  rz_out :: "'b body_out"

definition plain :: "'b reply \<Rightarrow> 'b response" where
  "plain rep = \<lparr>rz_cookies = [], rz_retry = None, rz_out = Body rep\<rparr>"

definition refuse :: "nat \<Rightarrow> string \<Rightarrow> core_db \<Rightarrow> 'b response \<times> core_db" where
  "refuse status code d = (plain (Refused status code), d)"

definition with_cookies :: "set_cookie list \<Rightarrow> 'b response \<Rightarrow> 'b response" where
  "with_cookies cs resp = resp\<lparr>rz_cookies := cs @ rz_cookies resp\<rparr>"

definition code_password_login_disabled :: string where "code_password_login_disabled = ''password_login_disabled''"
definition code_second_factor_required :: string where "code_second_factor_required = ''second_factor_required''"
definition code_challenge_expired :: string where "code_challenge_expired = ''challenge_expired''"
definition code_rate_limited :: string where "code_rate_limited = ''rate_limited''"

definition login_challenge_cookie :: string where "login_challenge_cookie = ''autosecrets_login_challenge''"
definition oidc_state_cookie :: string where "oidc_state_cookie = ''autosecrets_oidc_state''"
definition oauth_state_cookie :: string where "oauth_state_cookie = ''autosecrets_oauth_state''"

definition request_context :: "time \<Rightarrow> time \<Rightarrow> request \<Rightarrow> call_context" where
  "request_context now ts r = \<lparr>cx_now = now, cx_db = ts, cx_corr = correlation_id now r\<rparr>"

definition peer_host :: "request \<Rightarrow> string" where
  "peer_host r = (case split_host_port (rq_remote r) of None \<Rightarrow> rq_remote r | Some (host, port) \<Rightarrow> host)"

definition client_ip :: "request \<Rightarrow> string" where
  "client_ip r = peer_host r"

definition source_hash :: "identity_handler \<Rightarrow> request \<Rightarrow> string" where
  "source_hash h r = hash (ih_service h) (peer_host r @ CHR 0x0A # rq_header r ''User-Agent'')"

text \<open>
  \<open>strings.EqualFold\<close> against an ASCII word: besides the letters, U+017F folds to \<open>s\<close> and U+212A to \<open>k\<close>.
\<close>

fun fold_case :: "string \<Rightarrow> string" where
  "fold_case [] = []"
| "fold_case (c # s) =
     (if 65 \<le> byte_val c \<and> byte_val c \<le> 90 then char_of (byte_val c + 32) # fold_case s
      else if byte_val c = 0xC5 \<and> has_prefix s [CHR 0xBF] then CHR ''s'' # fold_case (drop 1 s)
      else if byte_val c = 0xE2 \<and> has_prefix s [CHR 0x84, CHR 0xAA] then CHR ''k'' # fold_case (drop 2 s)
      else c # fold_case s)"

definition secure_cookies :: "identity_handler \<Rightarrow> bool \<Rightarrow> request \<Rightarrow> bool" where
  "secure_cookies h tls r \<longleftrightarrow>
     (if tls \<or> has_prefix (ih_public_url h) ''https://'' then True
      else (case parse_ip (peer_host r) of
          None \<Rightarrow> False
        | Some remote \<Rightarrow>
            if fold_case (trim_space (fst (cut_at (CHR '','') (rq_header r ''X-Forwarded-Proto'')))) \<noteq> ''https'' then False
            else list_ex (\<lambda>n. net_contains n remote) (ih_trusted h)))"

definition cookie_at :: "identity_handler \<Rightarrow> bool \<Rightarrow> request \<Rightarrow> string \<Rightarrow> string \<Rightarrow> string \<Rightarrow> int \<Rightarrow> set_cookie" where
  "cookie_at h tls r name path value age =
     \<lparr>ck_name = name, ck_value = value, ck_path = path, ck_secure = secure_cookies h tls r, ck_max_age = age, ck_expires = None\<rparr>"

definition oidc_state where
  "oidc_state h tls r value age = cookie_at h tls r oidc_state_cookie (ih_base h @ ''/auth/oidc/callback'') value age"

definition oauth_state where
  "oauth_state h tls r value age = cookie_at h tls r oauth_state_cookie (ih_base h @ ''/auth/oauth/callback'') value age"

definition login_challenge where
  "login_challenge h tls r value age = cookie_at h tls r login_challenge_cookie (ih_base h @ ''/auth/login'') value age"

definition session_cookie_of :: "identity_handler \<Rightarrow> bool \<Rightarrow> request \<Rightarrow> session_out \<Rightarrow> set_cookie" where
  "session_cookie_of h tls r s =
     \<lparr>ck_name = session_cookie, ck_value = so_id s, ck_path = ''/'', ck_secure = secure_cookies h tls r, ck_max_age = 0,
      ck_expires = Some (so_expires s)\<rparr>"

text \<open>What a reply shows of a session; the id only goes into the cookie.\<close>

record session_view =
  vs_csrf :: string
  vs_username :: string
  vs_member :: uuid
  vs_role :: member_role
  vs_expires :: string

definition session_view_of :: "session_out \<Rightarrow> session_view" where
  "session_view_of s = \<lparr>vs_csrf = so_csrf s, vs_username = so_username s, vs_member = so_member s, vs_role = so_role s,
     vs_expires = format_rfc3339 (so_expires s)\<rparr>"

definition write_session_status where
  "write_session_status h tls r status s =
     with_cookies [session_cookie_of h tls r s] (plain (Replied status (session_view_of s)))"

definition write_session where
  "write_session h tls r s = write_session_status h tls r 200 s"

definition handler_session :: "identity_handler \<Rightarrow> time \<Rightarrow> request \<Rightarrow> core_db \<Rightarrow> session_state option" where
  "handler_session h now r d =
     (case rq_cookie r session_cookie of
        None \<Rightarrow> None
      | Some value \<Rightarrow>
          if value = [] then None
          else (case session_by_id (hash (ih_service h) value) now d of Inl _ \<Rightarrow> None | Inr s \<Rightarrow> Some s))"

section \<open>Where a login returns to\<close>

definition return_fallback :: string where
  "return_fallback = ''/dashboard/overview''"

definition valid_return_to :: "string \<Rightarrow> string" where
  "valid_return_to value =
     (if value = [] \<or> has_prefix value ''//'' \<or> contains_any value [CHR 0x5C, CHR 0x0D, CHR 0x0A] then return_fallback
      else (case parse_request_uri value of
          None \<Rightarrow> return_fallback
        | Some u \<Rightarrow>
            if ur_scheme u \<noteq> [] \<or> ur_host u \<noteq> [] then return_fallback
            else if path_clean (ur_path u) \<noteq> ur_path u then return_fallback
            else if ur_path u \<noteq> ''/dashboard'' \<and> \<not> has_prefix (ur_path u) ''/dashboard/'' then return_fallback
            else value))"

section \<open>The state of the logins\<close>

record provider_status =
  vp_available :: bool
  vp_bound :: bool
  vp_login :: bool

definition public_provider_status :: "bool \<Rightarrow> bool \<Rightarrow> provider_status" where
  "public_provider_status available bound = \<lparr>vp_available = available, vp_bound = bound, vp_login = (available \<and> bound)\<rparr>"

definition oidc_available where "oidc_available h \<longleftrightarrow> ih_oidc h \<noteq> None"
definition oauth_available where "oauth_available h \<longleftrightarrow> ih_oauth h \<noteq> None"

definition is_bound :: "external_row result \<Rightarrow> bool" where
  "is_bound b = (case b of Inl _ \<Rightarrow> False | Inr _ \<Rightarrow> True)"

definition handle_oidc_status ::
    "identity_handler \<Rightarrow> core_db \<Rightarrow> (provider_status \<times> provider_status \<times> bool) response \<times> core_db" where
  "handle_oidc_status h d =
     (let oidc = public_provider_status (oidc_available h) (is_bound (external_identity_binding d));
          oauth = public_provider_status (oauth_available h) (is_bound (oauth_identity_binding d)) in
      case password_login_state (ih_service h) d of
        Inl _ \<Rightarrow> refuse 500 code_internal d
      | Inr (_, password) \<Rightarrow> (plain (Replied 200 (oidc, oauth, password)), d))"

definition handle_oauth_status :: "identity_handler \<Rightarrow> core_db \<Rightarrow> provider_status response \<times> core_db" where
  "handle_oauth_status h d =
     (plain (Replied 200 (public_provider_status (oauth_available h) (is_bound (oauth_identity_binding d)))), d)"

record security_provider =
  vy_available :: bool
  vy_bound :: bool
  vy_error :: string
  vy_binding :: "(string \<times> string) option"

definition security_provider_status :: "bool \<Rightarrow> string \<Rightarrow> external_row result \<Rightarrow> security_provider" where
  "security_provider_status available unavailable b =
     \<lparr>vy_available = available, vy_bound = is_bound b, vy_error = unavailable,
      vy_binding = (case b of Inl _ \<Rightarrow> None | Inr x \<Rightarrow> Some (xb_issuer x, xb_display x))\<rparr>"

record security_view =
  vz_totp :: bool
  vz_password :: bool
  vz_password_available :: bool
  vz_oidc :: security_provider
  vz_oauth :: security_provider

definition handle_security_status :: "identity_handler \<Rightarrow> core_db \<Rightarrow> security_view response \<times> core_db" where
  "handle_security_status h d =
     (case organization d of
        Inl _ \<Rightarrow> refuse 500 code_internal d
      | Inr org \<Rightarrow>
          (case password_login_state (ih_service h) d of
             Inl _ \<Rightarrow> refuse 500 code_internal d
           | Inr (_, password) \<Rightarrow>
               (plain (Replied 200 \<lparr>vz_totp = og_totp org, vz_password = og_password org, vz_password_available = password,
                  vz_oidc = security_provider_status (oidc_available h) (ih_oidc_unavailable h) (external_identity_binding d),
                  vz_oauth = security_provider_status (oauth_available h) (ih_oauth_unavailable h) (oauth_identity_binding d)\<rparr>), d)))"

section \<open>Policies and factors of the signed-in Administrator\<close>

definition credential_error :: "service_error \<Rightarrow> 'b response" where
  "credential_error e =
     (if e = InvalidCredentials then plain (Refused 401 code_unauthorized) else plain (Refused 500 code_internal))"

definition handle_password_login ::
    "identity_handler \<Rightarrow> time \<Rightarrow> time \<Rightarrow> request \<Rightarrow> (bool \<times> string \<times> string) option \<Rightarrow> core_db \<Rightarrow> (bool \<times> bool) response \<times> core_db" where
  "handle_password_login h now ts r body d =
     (case (rq_session r, body) of
        (Some s, Some (enabled, password, totp)) \<Rightarrow>
          (case set_password_login (ih_service h) (request_context now ts r) (se_admin s) (se_hash s) password totp enabled d of
             (Inl e, d1) \<Rightarrow> if e = ExternalLoginRequired then refuse 409 code_conflict d1 else (credential_error e, d1)
           | (Inr _, d1) \<Rightarrow>
               (case password_login_state (ih_service h) d1 of
                  Inl _ \<Rightarrow> refuse 500 code_internal d1
                | Inr state \<Rightarrow> (plain (Replied 200 state), d1)))
      | _ \<Rightarrow> refuse 400 code_bad_request d)"

definition handle_start_totp ::
    "identity_handler \<Rightarrow> time \<Rightarrow> time \<Rightarrow> bytes \<Rightarrow> bytes \<Rightarrow> bytes \<Rightarrow> bytes \<Rightarrow> bytes \<Rightarrow> request \<Rightarrow> string option \<Rightarrow> core_db \<Rightarrow>
     (string \<times> string \<times> string) response \<times> core_db" where
  "handle_start_totp h now ts rnd key nonce1 nonce2 rtoken r body d =
     (case (rq_session r, body) of
        (Some s, Some password) \<Rightarrow>
          (case start_totp_enrollment (ih_service h) (request_context now ts r) (se_admin s) password rnd key nonce1 nonce2 rtoken d of
             (Inl e, d1) \<Rightarrow>
               if e = AlreadyEnrolled \<or> e = FromStore ErrConflict then refuse 409 code_conflict d1 else (credential_error e, d1)
           | (Inr out, d1) \<Rightarrow> (plain (Replied 201 out), d1))
      | _ \<Rightarrow> refuse 400 code_bad_request d)"

definition handle_verify_mfa ::
    "identity_handler \<Rightarrow> time \<Rightarrow> time \<Rightarrow> bytes list \<Rightarrow> bytes \<Rightarrow> request \<Rightarrow> (string \<times> string) option \<Rightarrow> core_db \<Rightarrow>
     (string \<times> string list) response \<times> core_db" where
  "handle_verify_mfa h now ts rcodes rconf r body d =
     (case body of
        None \<Rightarrow> refuse 400 code_bad_request d
      | Some (token, totp) \<Rightarrow>
          if token = [] then refuse 400 code_bad_request d
          else (case verify_mfa_enrollment (ih_service h) (request_context now ts r) token totp rcodes rconf d of
              (Inl e, d1) \<Rightarrow>
                if e = InvalidCredentials then refuse 401 code_unauthorized d1
                else if e = FromStore ErrNotFound then refuse 403 code_forbidden d1
                else if e = EnrollmentNotPending then refuse 409 code_conflict d1
                else refuse 500 code_internal d1
            | (Inr out, d1) \<Rightarrow> (plain (Replied 200 out), d1)))"

definition handle_confirm_mfa ::
    "identity_handler \<Rightarrow> time \<Rightarrow> time \<Rightarrow> request \<Rightarrow> string option \<Rightarrow> core_db \<Rightarrow> admin_row response \<times> core_db" where
  "handle_confirm_mfa h now ts r body d =
     (case (rq_session r, body) of
        (Some s, Some conf) \<Rightarrow>
          if conf = [] then refuse 400 code_bad_request d
          else (case confirm_enrollment (ih_service h) (request_context now ts r) (se_admin s) (se_hash s) conf d of
              (Inl e, d1) \<Rightarrow> if e = EnrollmentNotPending then refuse 409 code_conflict d1 else refuse 500 code_internal d1
            | (Inr m, d1) \<Rightarrow> (plain (Replied 200 m), d1))
      | _ \<Rightarrow> refuse 400 code_bad_request d)"

definition handle_disable_totp ::
    "identity_handler \<Rightarrow> time \<Rightarrow> time \<Rightarrow> request \<Rightarrow> (string \<times> string) option \<Rightarrow> core_db \<Rightarrow> unit response \<times> core_db" where
  "handle_disable_totp h now ts r body d =
     (case (rq_session r, body) of
        (Some s, Some (password, totp)) \<Rightarrow>
          (case disable_own_totp (ih_service h) (request_context now ts r) (se_admin s) (se_hash s) password totp d of
             (Inl e, d1) \<Rightarrow> (credential_error e, d1)
           | (Inr _, d1) \<Rightarrow> (plain (Replied 200 ()), d1))
      | _ \<Rightarrow> refuse 400 code_bad_request d)"

section \<open>External logins\<close>

definition bad_external :: "core_db \<Rightarrow> 'b response \<times> core_db" where
  "bad_external d = refuse 401 code_unauthorized d"

definition transaction_age :: int where
  "transaction_age = 300"

definition handle_start_oidc_login ::
    "identity_handler \<Rightarrow> bool \<Rightarrow> time \<Rightarrow> time \<Rightarrow> bytes \<Rightarrow> bytes \<Rightarrow> bytes \<Rightarrow> request \<Rightarrow> core_db \<Rightarrow> unit response \<times> core_db" where
  "handle_start_oidc_login h tls now ts r1 r2 r3 r d =
     (case ih_oidc h of
        None \<Rightarrow> refuse 503 code_unavailable d
      | Some c \<Rightarrow>
          (case start_oidc_login (ih_service h) (request_context now ts r) (valid_return_to (rq_query r ''return_to'')) r1 r2 r3 d of
             (Inl _, d1) \<Rightarrow> bad_external d1
           | (Inr st, d1) \<Rightarrow>
               (\<lparr>rz_cookies = [oidc_state h tls r (os_state st) transaction_age], rz_retry = None,
                 rz_out = Redirect (oidc_authorization_url (ih_env h) c (ih_base h) (os_state st) (os_nonce st) (os_verifier st))\<rparr>, d1)))"

definition handle_start_oauth_login ::
    "identity_handler \<Rightarrow> bool \<Rightarrow> time \<Rightarrow> time \<Rightarrow> bytes \<Rightarrow> bytes \<Rightarrow> bytes \<Rightarrow> request \<Rightarrow> core_db \<Rightarrow> unit response \<times> core_db" where
  "handle_start_oauth_login h tls now ts r1 r2 r3 r d =
     (case ih_oauth h of
        None \<Rightarrow> refuse 503 code_unavailable d
      | Some c \<Rightarrow>
          (case start_oauth_login (ih_service h) (request_context now ts r) (valid_return_to (rq_query r ''return_to'')) r1 r2 r3 d of
             (Inl _, d1) \<Rightarrow> bad_external d1
           | (Inr st, d1) \<Rightarrow>
               (\<lparr>rz_cookies = [oauth_state h tls r (os_state st) transaction_age], rz_retry = None,
                 rz_out = Redirect (oauth_authorization_url (ih_env h) c (ih_base h) (os_state st) (os_verifier st))\<rparr>, d1)))"

definition handle_start_oidc_binding ::
    "identity_handler \<Rightarrow> bool \<Rightarrow> time \<Rightarrow> time \<Rightarrow> bytes \<Rightarrow> bytes \<Rightarrow> bytes \<Rightarrow> request \<Rightarrow> (string \<times> string \<times> string) option \<Rightarrow> core_db \<Rightarrow>
     string response \<times> core_db" where
  "handle_start_oidc_binding h tls now ts r1 r2 r3 r body d =
     (case ih_oidc h of
        None \<Rightarrow> refuse 503 code_unavailable d
      | Some c \<Rightarrow>
          (case (rq_session r, body) of
             (Some s, Some (password, totp, ret)) \<Rightarrow>
               (case start_oidc_binding (ih_service h) (request_context now ts r) (se_admin s) password totp (valid_return_to ret) r1 r2 r3 d of
                  (Inl e, d1) \<Rightarrow> if e = FromStore ErrConflict then refuse 409 code_conflict d1 else bad_external d1
                | (Inr st, d1) \<Rightarrow>
                    (with_cookies [oidc_state h tls r (os_state st) transaction_age] (plain (Replied 200
                       (oidc_authorization_url (ih_env h) c (ih_base h) (os_state st) (os_nonce st) (os_verifier st)))), d1))
           | _ \<Rightarrow> refuse 400 code_bad_request d))"

definition handle_start_oauth_binding ::
    "identity_handler \<Rightarrow> bool \<Rightarrow> time \<Rightarrow> time \<Rightarrow> bytes \<Rightarrow> bytes \<Rightarrow> bytes \<Rightarrow> request \<Rightarrow> (string \<times> string \<times> string) option \<Rightarrow> core_db \<Rightarrow>
     string response \<times> core_db" where
  "handle_start_oauth_binding h tls now ts r1 r2 r3 r body d =
     (case ih_oauth h of
        None \<Rightarrow> refuse 503 code_unavailable d
      | Some c \<Rightarrow>
          (case (rq_session r, body) of
             (Some s, Some (password, totp, ret)) \<Rightarrow>
               (case start_oauth_binding (ih_service h) (request_context now ts r) (se_admin s) password totp (valid_return_to ret) r1 r2 r3 d of
                  (Inl e, d1) \<Rightarrow> if e = FromStore ErrConflict then refuse 409 code_conflict d1 else bad_external d1
                | (Inr st, d1) \<Rightarrow>
                    (with_cookies [oauth_state h tls r (os_state st) transaction_age] (plain (Replied 200
                       (oauth_authorization_url (ih_env h) c (ih_base h) (os_state st) (os_verifier st)))), d1))
           | _ \<Rightarrow> refuse 400 code_bad_request d))"

text \<open>
  The callback of a provider. The source has it twice, for OIDC and for OAuth: the two differ in the client, the cookie and the use
  cases, which are arguments here. \<open>exchange\<close> trades the code for an identity, \<open>None\<close> without a client.
\<close>

definition callback_with ::
    "(oidc_transaction \<Rightarrow> string \<Rightarrow> oidc_identity option) option \<Rightarrow> set_cookie \<Rightarrow>
     (string \<Rightarrow> uuid \<Rightarrow> core_db \<Rightarrow> core_db) \<Rightarrow> (oidc_transaction option \<Rightarrow> oidc_identity option \<Rightarrow> string \<Rightarrow> core_db \<Rightarrow> unit answer) \<Rightarrow>
     (oidc_transaction option \<Rightarrow> oidc_identity option \<Rightarrow> core_db \<Rightarrow> session_out answer) \<Rightarrow>
     identity_handler \<Rightarrow> bool \<Rightarrow> time \<Rightarrow> time \<Rightarrow> request \<Rightarrow> core_db \<Rightarrow> unit response \<times> core_db" where
  "callback_with exchange clear denied_audit bind_case login_case h tls now ts r d =
     (let refused = (\<lambda>d'. (with_cookies [clear] (plain (Refused 401 code_unauthorized)), d'));
          state = rq_query r ''state''; code = rq_query r ''code'' in
      case exchange of
        None \<Rightarrow> refused (denied_audit [] [] d)
      | Some trade \<Rightarrow>
          if rq_query r ''error'' \<noteq> [] \<or> code = [] then refused (denied_audit [] [] d)
          else (case rq_cookie r (ck_name clear) of
              None \<Rightarrow> refused (denied_audit [] [] d)
            | Some cookie \<Rightarrow>
                if state = [] \<or> \<not> subtle_constant_time_equal state cookie then refused (denied_audit [] [] d)
                else (case finish_transaction (ih_service h) (request_context now ts r) state d of
                    (Inl _, d1) \<Rightarrow> refused (denied_audit [] [] d1)
                  | (Inr t, d1) \<Rightarrow>
                      (case trade t code of
                         None \<Rightarrow> refused (denied_audit (tx_purpose t) (tx_member t) d1)
                       | Some x \<Rightarrow>
                           if tx_purpose t = ''bind'' then
                             (case handler_session h now r d1 of
                                None \<Rightarrow> refused (denied_audit (tx_purpose t) (tx_member t) d1)
                              | Some s \<Rightarrow>
                                  if se_admin s \<noteq> tx_member t then refused (denied_audit (tx_purpose t) (tx_member t) d1)
                                  else (case bind_case (Some t) (Some x) (se_hash s) d1 of
                                      (Inl _, d2) \<Rightarrow> refused d2
                                    | (Inr _, d2) \<Rightarrow>
                                        (\<lparr>rz_cookies = [clear], rz_retry = None, rz_out = Redirect (tx_return t)\<rparr>, d2)))
                           else
                             (case login_case (Some t) (Some x) d1 of
                                (Inl _, d2) \<Rightarrow> refused d2
                              | (Inr s, d2) \<Rightarrow>
                                  (\<lparr>rz_cookies = [clear, session_cookie_of h tls r s], rz_retry = None,
                                    rz_out = Redirect (tx_return t)\<rparr>, d2))))))"

definition handle_oidc_callback ::
    "identity_handler \<Rightarrow> bool \<Rightarrow> time \<Rightarrow> time \<Rightarrow> bytes \<Rightarrow> bytes \<Rightarrow> request \<Rightarrow> core_db \<Rightarrow> unit response \<times> core_db" where
  "handle_oidc_callback h tls now ts r1 r2 r d =
     callback_with
       (map_option (\<lambda>c t code. exchange_and_validate (ih_env h) c (ih_base h) code (tx_verifier t) (tx_nonce t) now) (ih_oidc h))
       (oidc_state h tls r [] (-1))
       (audit_oidc_callback_denied (request_context now ts r))
       (complete_oidc_binding (request_context now ts r))
       (\<lambda>t x. complete_oidc_login (ih_service h) (request_context now ts r) t x r1 r2) h tls now ts r d"

definition handle_oauth_callback ::
    "identity_handler \<Rightarrow> bool \<Rightarrow> time \<Rightarrow> time \<Rightarrow> bytes \<Rightarrow> bytes \<Rightarrow> request \<Rightarrow> core_db \<Rightarrow> unit response \<times> core_db" where
  "handle_oauth_callback h tls now ts r1 r2 r d =
     callback_with
       (map_option (\<lambda>c t code. exchange_and_identify (ih_env h) c (ih_base h) code (tx_verifier t)) (ih_oauth h))
       (oauth_state h tls r [] (-1))
       (audit_oauth_callback_denied (request_context now ts r))
       (complete_oauth_binding (request_context now ts r))
       (\<lambda>t x. complete_oauth_login (ih_service h) (request_context now ts r) t x r1 r2) h tls now ts r d"

definition unbind_error :: "service_error \<Rightarrow> 'b response" where
  "unbind_error e =
     (if e = LastExternalLogin then plain (Refused 409 code_conflict)
      else if e = FromStore ErrNotFound then plain (Refused 404 code_not_found)
      else plain (Refused 401 code_unauthorized))"

definition handle_unbind_oidc ::
    "identity_handler \<Rightarrow> time \<Rightarrow> time \<Rightarrow> request \<Rightarrow> (string \<times> string) option \<Rightarrow> core_db \<Rightarrow> unit response \<times> core_db" where
  "handle_unbind_oidc h now ts r body d =
     (case (rq_session r, body) of
        (Some s, Some (password, totp)) \<Rightarrow>
          (case unbind_oidc (ih_service h) (request_context now ts r) (se_admin s) (se_hash s) password totp d of
             (Inl e, d1) \<Rightarrow> (unbind_error e, d1)
           | (Inr _, d1) \<Rightarrow> (plain (Replied 200 ()), d1))
      | _ \<Rightarrow> refuse 400 code_bad_request d)"

definition handle_unbind_oauth ::
    "identity_handler \<Rightarrow> time \<Rightarrow> time \<Rightarrow> request \<Rightarrow> (string \<times> string) option \<Rightarrow> core_db \<Rightarrow> unit response \<times> core_db" where
  "handle_unbind_oauth h now ts r body d =
     (case (rq_session r, body) of
        (Some s, Some (password, totp)) \<Rightarrow>
          (case unbind_oauth (ih_service h) (request_context now ts r) (se_admin s) (se_hash s) password totp d of
             (Inl e, d1) \<Rightarrow> (unbind_error e, d1)
           | (Inr _, d1) \<Rightarrow> (plain (Replied 200 ()), d1))
      | _ \<Rightarrow> refuse 400 code_bad_request d)"

section \<open>Bootstrap and login\<close>

record bootstrap_body =
  wb_code :: string
  wb_organization :: string
  wb_username :: string
  wb_password :: string

definition handle_bootstrap ::
    "identity_handler \<Rightarrow> bool \<Rightarrow> time \<Rightarrow> time \<Rightarrow> bytes \<Rightarrow> uuid \<Rightarrow> bytes \<Rightarrow> bytes \<Rightarrow> request \<Rightarrow> bootstrap_body option \<Rightarrow> core_db \<Rightarrow>
     session_view response \<times> core_db" where
  "handle_bootstrap h tls now ts salt i r1 r2 r body d =
     (case body of
        None \<Rightarrow> refuse 400 code_bad_request d
      | Some b \<Rightarrow>
          let org = (if trim_space (wb_organization b) = [] then ''AutoSecrets'' else wb_organization b) in
          (case bootstrap (ih_service h) (request_context now ts r) (wb_code b) org (wb_username b) (wb_password b) salt i r1 r2 d of
             (Inl e, d1) \<Rightarrow>
               if e = InvalidCredentials then refuse 400 code_bad_request d1
               else if e = FromStore ErrNotFound then refuse 403 code_forbidden d1
               else if e = FromStore ErrConflict then refuse 409 code_conflict d1
               else if e = FromStore ErrDuplicate then refuse 409 code_duplicate d1
               else refuse 500 code_internal d1
           | (Inr s, d1) \<Rightarrow> (write_session_status h tls r 201 s, d1)))"

text \<open>\<open>Duration.Round\<close> to the second, halves up; at least one second is asked for.\<close>

definition retry_seconds :: "duration \<Rightarrow> int" where
  "retry_seconds after = max 1 ((after + second div 2) div second)"

definition rate_limited :: "duration \<Rightarrow> 'b response" where
  "rate_limited after =
     \<lparr>rz_cookies = [], rz_retry = Some (retry_seconds after), rz_out = Body (Refused 429 code_rate_limited)\<rparr>"

definition handler_audit :: "call_context \<Rightarrow> string \<Rightarrow> string \<Rightarrow> core_db \<Rightarrow> core_db" where
  "handler_audit cx action result d = record_audit cx ''authentication'' action [] result d"

text \<open>
  \<open>pick\<close> is the bucket the limiter's map iteration yields first. A login that needs a second factor answers the code that says so
  (\<open>Inl\<close>), and the challenge goes into a cookie.
\<close>

definition handle_login ::
    "identity_handler \<Rightarrow> bool \<Rightarrow> time \<Rightarrow> time \<Rightarrow> nat \<Rightarrow> bytes \<Rightarrow> bytes \<Rightarrow> request \<Rightarrow> (string \<times> string) option \<Rightarrow> limiter \<Rightarrow> core_db \<Rightarrow>
     (string + session_view) response \<times> limiter \<times> core_db" where
  "handle_login h tls now ts pick r1 r2 r body lm d =
     (let cx = request_context now ts r; key = client_ip r; ((blocked, after), lm1) = limited key now lm in
      if blocked then (rate_limited after, lm1, handler_audit cx ''auth.login'' ''rate_limited'' d)
      else case body of
        None \<Rightarrow> (plain (Refused 400 code_bad_request), lm1, handler_audit cx ''auth.login'' ''denied'' d)
      | Some (username, password) \<Rightarrow>
          (case login (ih_service h) cx username password (source_hash h r) r1 r2 d of
             (Inl e, d1) \<Rightarrow>
               if e = PasswordLoginDisabled then (plain (Refused 403 code_password_login_disabled), lm1, d1)
               else if e = InvalidCredentials then (plain (Refused 401 code_unauthorized), failed key now pick lm1, d1)
               else (plain (Refused 500 code_internal), lm1, d1)
           | (Inr (LoggedIn s), d1) \<Rightarrow> 
               (with_cookies [session_cookie_of h tls r s] (plain (Replied 200 (Inr (session_view_of s)))), succeeded key lm1, d1)
           | (Inr (Challenged token), d1) \<Rightarrow>
               (with_cookies [login_challenge h tls r token 300] (plain (Replied 202 (Inl code_second_factor_required))),
                succeeded key lm1, d1)))"

definition handle_second_factor ::
    "identity_handler \<Rightarrow> bool \<Rightarrow> time \<Rightarrow> time \<Rightarrow> nat \<Rightarrow> bytes \<Rightarrow> bytes \<Rightarrow> request \<Rightarrow> (string \<times> string) option \<Rightarrow> limiter \<Rightarrow> core_db \<Rightarrow>
     session_view response \<times> limiter \<times> core_db" where
  "handle_second_factor h tls now ts pick r1 r2 r body lm d =
     (let cx = request_context now ts r; key = client_ip r; ((blocked, after), lm1) = limited key now lm;
          act = ''auth.second_factor''; clear = login_challenge h tls r [] (-1) in
      if blocked then (with_cookies [clear] (rate_limited after), lm1, handler_audit cx act ''rate_limited'' d)
      else (case rq_cookie r login_challenge_cookie of
          None \<Rightarrow> (plain (Refused 401 code_challenge_expired), lm1, handler_audit cx act ''denied'' d)
        | Some challenge \<Rightarrow>
            if challenge = [] then (plain (Refused 401 code_challenge_expired), lm1, handler_audit cx act ''denied'' d)
            else (case body of
                None \<Rightarrow> (with_cookies [clear] (plain (Refused 400 code_bad_request)), lm1, handler_audit cx act ''denied'' d)
              | Some (totp, recovery) \<Rightarrow>
                  (case complete_login (ih_service h) cx challenge (source_hash h r) totp recovery r1 r2 d of
                     (Inl e, d1) \<Rightarrow>
                       (with_cookies [clear] (plain
                          (if e = PasswordLoginDisabled then Refused 403 code_password_login_disabled
                           else if e = ChallengeExpired then Refused 401 code_challenge_expired
                           else Refused 401 code_unauthorized)),
                        failed key now pick lm1, d1)
                   | (Inr s, d1) \<Rightarrow> (with_cookies [clear] (write_session h tls r s), succeeded key lm1, d1)))))"

section \<open>Sessions\<close>

definition handle_renew ::
    "identity_handler \<Rightarrow> bool \<Rightarrow> time \<Rightarrow> time \<Rightarrow> bytes \<Rightarrow> bytes \<Rightarrow> request \<Rightarrow> (string \<times> string \<times> string) option \<Rightarrow> core_db \<Rightarrow>
     session_view response \<times> core_db" where
  "handle_renew h tls now ts r1 r2 r body d =
     (case (rq_session r, body) of
        (Some s, Some (password, totp, recovery)) \<Rightarrow>
          (case renew_session (ih_service h) (request_context now ts r) (se_hash s) (se_admin s) password totp recovery r1 r2 d of
             (Inl e, d1) \<Rightarrow> (credential_error e, d1)
           | (Inr out, d1) \<Rightarrow> (write_session h tls r out, d1))
      | _ \<Rightarrow> refuse 400 code_bad_request d)"

definition handle_step_up ::
    "identity_handler \<Rightarrow> time \<Rightarrow> time \<Rightarrow> request \<Rightarrow> (string \<times> string \<times> string) option \<Rightarrow> core_db \<Rightarrow> string response \<times> core_db" where
  "handle_step_up h now ts r body d =
     (case (rq_session r, body) of
        (Some s, Some (password, totp, recovery)) \<Rightarrow>
          (case step_up (ih_service h) (request_context now ts r) (se_hash s) (se_admin s) password totp recovery d of
             (Inl e, d1) \<Rightarrow> (credential_error e, d1)
           | (Inr expires, d1) \<Rightarrow> (plain (Replied 200 (format_rfc3339 expires)), d1))
      | _ \<Rightarrow> refuse 400 code_bad_request d)"

definition handle_username_change ::
    "identity_handler \<Rightarrow> bool \<Rightarrow> time \<Rightarrow> time \<Rightarrow> bytes \<Rightarrow> bytes \<Rightarrow> request \<Rightarrow> (string \<times> string \<times> string) option \<Rightarrow> core_db \<Rightarrow>
     session_view response \<times> core_db" where
  "handle_username_change h tls now ts r1 r2 r body d =
     (case (rq_session r, body) of
        (Some s, Some (username, current, totp)) \<Rightarrow>
          (case change_own_username (ih_service h) (request_context now ts r) (se_admin s) username current totp r1 r2 d of
             (Inl e, d1) \<Rightarrow> if e = FromStore ErrDuplicate then refuse 409 code_duplicate d1 else (credential_error e, d1)
           | (Inr out, d1) \<Rightarrow> (write_session h tls r out, d1))
      | _ \<Rightarrow> refuse 400 code_bad_request d)"

definition handle_password_change ::
    "identity_handler \<Rightarrow> bool \<Rightarrow> time \<Rightarrow> time \<Rightarrow> bytes \<Rightarrow> bytes \<Rightarrow> bytes \<Rightarrow> request \<Rightarrow> (string \<times> string \<times> string) option \<Rightarrow> core_db \<Rightarrow>
     session_view response \<times> core_db" where
  "handle_password_change h tls now ts salt r1 r2 r body d =
     (case (rq_session r, body) of
        (Some s, Some (current, new, totp)) \<Rightarrow>
          (case change_own_password (ih_service h) (request_context now ts r) (se_admin s) current new totp salt r1 r2 d of
             (Inl e, d1) \<Rightarrow> (credential_error e, d1)
           | (Inr out, d1) \<Rightarrow> (write_session h tls r out, d1))
      | _ \<Rightarrow> refuse 400 code_bad_request d)"

definition handle_logout :: "identity_handler \<Rightarrow> bool \<Rightarrow> time \<Rightarrow> time \<Rightarrow> request \<Rightarrow> core_db \<Rightarrow> unit response \<times> core_db" where
  "handle_logout h tls now ts r d =
     (let d1 = (case (rq_cookie r session_cookie, rq_session r) of
            (Some value, Some s) \<Rightarrow>
              logout (request_context now ts r) (hash (ih_service h) value) (se_admin s) (se_username s) d
          | _ \<Rightarrow> d) in
      (with_cookies [cookie_at h tls r session_cookie ''/'' [] (-1)] (plain (Replied 200 ())), d1))"

record me_view =
  vm_organization :: string
  vm_session :: session_state
  vm_expires :: string
  vm_idle :: string
  vm_totp :: bool

text \<open>\<open>None\<close> is the answer before the bootstrap.\<close>

definition handle_me :: "identity_handler \<Rightarrow> time \<Rightarrow> request \<Rightarrow> core_db \<Rightarrow> me_view option response \<times> core_db" where
  "handle_me h now r d =
     (if admin_count d = 0 then (plain (Replied 200 None), d)
      else (case handler_session h now r d of
          None \<Rightarrow> refuse 401 code_unauthorized d
        | Some s \<Rightarrow>
            (case organization d of
               Inl _ \<Rightarrow> refuse 500 code_internal d
             | Inr org \<Rightarrow>
                 (plain (Replied 200 (Some \<lparr>vm_organization = og_name org, vm_session = s, vm_expires = format_rfc3339 (se_expires s),
                    vm_idle = format_rfc3339 (se_idle s), vm_totp = og_totp org\<rparr>)), d))))"

end
