(* ===== verification/ReturnTo.thy ===== *)
theory ReturnTo
  imports IdentityHandler
begin

text \<open>
  Where a browser goes when it is redirected to the location a login returns to (\<open>validReturnTo\<close> of \<open>identity/handler.go\<close>). The
  browser is specified here as the URL standard of the WHATWG has it, for a relative location against an \<open>https\<close> page.
\<close>

section \<open>Locations of another origin\<close>

text \<open>Leading spaces and controls, and tabs and line breaks anywhere, are dropped.\<close>

definition browser_text :: "string \<Rightarrow> string" where
  "browser_text s = filter (\<lambda>c. byte_val c \<notin> {9, 10, 13}) (dropWhile (\<lambda>c. byte_val c \<le> 32) s)"

definition names_scheme :: "string \<Rightarrow> bool" where
  "names_scheme s \<longleftrightarrow>
     (case dropWhile (\<lambda>c. is_letter c \<or> is_decimal c \<or> c \<in> set ''+-.'') s of
        [] \<Rightarrow> False | c # t \<Rightarrow> c = CHR '':'' \<and> is_letter (hd s))"

text \<open>A backslash counts as a slash, and two of them begin a host.\<close>

definition names_host :: "string \<Rightarrow> bool" where
  "names_host s \<longleftrightarrow> (case s of a # b # t \<Rightarrow> a \<in> {CHR ''/'', CHR 0x5C} \<and> b \<in> {CHR ''/'', CHR 0x5C} | _ \<Rightarrow> False)"

definition leaves_origin :: "string \<Rightarrow> bool" where
  "leaves_origin s \<longleftrightarrow> names_scheme (browser_text s) \<or> names_host (browser_text s)"

text \<open>A page of the console: of this origin, and under \<open>/dashboard\<close> without a way up.\<close>

definition stays_in_console :: "string \<Rightarrow> bool" where
  "stays_in_console s \<longleftrightarrow>
     \<not> leaves_origin s \<and>
     (case parse_request_uri s of
        None \<Rightarrow> False
      | Some u \<Rightarrow> path_clean (ur_path u) = ur_path u \<and> (ur_path u = ''/dashboard'' \<or> has_prefix (ur_path u) ''/dashboard/''))"

lemma leaves_examples:
  "leaves_origin ''https://evil.example/dashboard''" "leaves_origin ''//evil.example/dashboard''"
  "leaves_origin (''/'' @ [CHR 0x5C] @ ''evil.example'')" "leaves_origin (''/'' @ [CHR 0x09] @ ''/evil.example'')"
  "leaves_origin ''javascript:alert(1)''" "\<not> leaves_origin ''/dashboard/nodes?page=2#top''"
  by code_simp+

section \<open>The accepted locations\<close>

lemma parsed_request:
  assumes "parse_request_uri s = Some u" "ur_scheme u = []" "ur_path u \<noteq> ''*''"
  shows "\<not> has_control s" "s \<noteq> []" "hd s = CHR ''/''"
proof -
  obtain scheme0 rest0 rest query where parts: "\<not> has_control s" "s \<noteq> []" "get_scheme s = Some (scheme0, rest0)"
    "split_query rest0 = (rest, query)" and cases: "if \<not> has_prefix rest ''/'' \<and> to_lower scheme0 \<noteq> []
      then ur_scheme u = to_lower scheme0
      else has_prefix rest ''/'' \<and> (ur_scheme u = to_lower scheme0)"
    using assms(1,3)
    by (auto simp: parse_request_uri_def parse_url_def rootless_error_def with_path_def Let_def split: if_splits option.splits
        prod.splits)
  have scheme: "to_lower scheme0 = []" "has_prefix rest ''/''" using cases assms(2) by (auto split: if_splits)
  have "scheme0 = []" using scheme(1) by (cases scheme0) (auto split: if_splits)
  then have "rest0 = s \<or> takeWhile (\<lambda>c. is_letter c \<or> is_decimal c \<or> c \<in> set ''+-.'') s = []"
    using parts(2,3) by (auto simp: get_scheme_def Let_def split: if_splits)
  moreover have "rest0 = s" if "takeWhile (\<lambda>c. is_letter c \<or> is_decimal c \<or> c \<in> set ''+-.'') s = []"
  proof -
    from that parts(2) have "\<not> is_letter (hd s)" by (cases s) (auto split: if_splits)
    with parts(2,3) show ?thesis by (auto simp: get_scheme_def Let_def split: if_splits)
  qed
  ultimately have "rest0 = s" by blast
  then have "\<exists>t. s = rest @ t"
  proof (cases "s \<noteq> [] \<and> last s = CHR ''?'' \<and> CHR ''?'' \<notin> set (butlast s)")
    case True
    with parts(4) \<open>rest0 = s\<close> have "rest = butlast s" by (simp add: split_query_def)
    with parts(2) show ?thesis by (metis append_butlast_last_id)
  next
    case False
    with parts(4) \<open>rest0 = s\<close> have "rest = takeWhile (\<lambda>d. d \<noteq> CHR ''?'') s" by (auto simp: split_query_def cut_at_def)
    then show ?thesis by (metis takeWhile_dropWhile_id)
  qed
  with scheme(2) parts(1,2) show "\<not> has_control s" "s \<noteq> []" "hd s = CHR ''/''"
    by (cases rest; auto)+
qed

lemma browser_text_plain:
  assumes "\<not> has_control s" "s \<noteq> []" "hd s = CHR ''/''"
  shows "browser_text s = s"
proof -
  have "dropWhile (\<lambda>c. byte_val c \<le> 32) s = s" using assms(2,3) by (cases s) auto
  moreover have "filter (\<lambda>c. byte_val c \<notin> {9, 10, 13}) s = s"
    using assms(1) by (force simp: has_control_def list_ex_iff filter_id_conv)
  ultimately show ?thesis by (simp add: browser_text_def)
qed

lemma rooted_stays:
  assumes "\<not> has_control s" "s \<noteq> []" "hd s = CHR ''/''" "\<not> has_prefix s ''//''" "CHR 0x5C \<notin> set s"
  shows "\<not> leaves_origin s"
proof -
  obtain t where s: "s = CHR ''/'' # t" using assms(2,3) by (cases s) auto
  have "\<not> names_scheme s" by (simp add: s names_scheme_def is_letter_def is_decimal_def)
  moreover have "\<not> names_host s" using assms(4,5) by (cases t) (auto simp: s names_host_def)
  ultimately show ?thesis
    using browser_text_plain [OF assms(1-3)] by (simp add: leaves_origin_def)
qed

lemma fallback_stays [simp]: "stays_in_console return_fallback"
  by code_simp

lemma valid_return_stays [simp]: "stays_in_console (valid_return_to v)"
proof (cases "valid_return_to v = return_fallback")
  case False
  then obtain u where u: "parse_request_uri v = Some u" "ur_scheme u = []" "path_clean (ur_path u) = ur_path u"
    "ur_path u = ''/dashboard'' \<or> has_prefix (ur_path u) ''/dashboard/''" and v: "valid_return_to v = v"
    "\<not> has_prefix v ''//''" "\<not> contains_any v [CHR 0x5C, CHR 0x0D, CHR 0x0A]"
    by (auto simp: valid_return_to_def split: if_splits option.splits)
  have "ur_path u \<noteq> ''*''" using u(4) by auto
  note plain = parsed_request [OF u(1,2) this]
  have "CHR 0x5C \<notin> set v" using v(3) by (auto simp: contains_any_def list_ex_iff)
  with rooted_stays [OF plain v(2)] have "\<not> leaves_origin v" by blast
  with u show ?thesis by (auto simp: v(1) stays_in_console_def)
qed simp

end
