(* ===== verification/GoQuote.thy ===== *)
theory GoQuote
  imports GoJson
begin

text \<open>
  \<open>strconv.Quote\<close>, which the verb \<open>%q\<close> prints for a string. Which characters beyond ASCII are printable is
  a Unicode table, the argument \<open>printable\<close>.
\<close>

section \<open>Decoding a character\<close>

definition low_bits :: "string \<Rightarrow> nat \<Rightarrow> nat" where
  "low_bits s i = byte_val (s ! i) mod 64"

definition rune_value :: "string \<Rightarrow> nat" where
  "rune_value s =
     (let w = rune_width s; b = byte_val (s ! 0) in
      if w = 2 then b mod 32 * 64 + low_bits s 1
      else if w = 3 then b mod 16 * 4096 + low_bits s 1 * 64 + low_bits s 2
      else if w = 4 then b mod 8 * 262144 + low_bits s 1 * 4096 + low_bits s 2 * 64 + low_bits s 3
      else b)"

section \<open>Quoting\<close>

definition hex_pad :: "nat \<Rightarrow> nat \<Rightarrow> string" where
  "hex_pad w n = zero_pad w (show_nat 16 n)"

text \<open>An ASCII byte.\<close>

definition quote_ascii :: "char \<Rightarrow> string" where
  "quote_ascii c =
     (if c = quote_char \<or> c = backslash then [backslash, c]
      else if 32 \<le> byte_val c \<and> byte_val c < 127 then [c]
      else if c = CHR 0x07 then [backslash, CHR ''a'']
      else if c = CHR 0x08 then [backslash, CHR ''b'']
      else if c = CHR 0x0C then [backslash, CHR ''f'']
      else if c = CHR 0x0A then [backslash, CHR ''n'']
      else if c = CHR 0x0D then [backslash, CHR ''r'']
      else if c = CHR 0x09 then [backslash, CHR ''t'']
      else if c = CHR 0x0B then [backslash, CHR ''v'']
      else backslash # CHR ''x'' # hex_pad 2 (byte_val c))"

function quote_body :: "(nat \<Rightarrow> bool) \<Rightarrow> string \<Rightarrow> string" where
  "quote_body printable [] = []"
| "quote_body printable (c # s) =
     (if byte_val c < 0x80 then quote_ascii c @ quote_body printable s
      else let w = rune_width (c # s); r = rune_value (c # s); rest = quote_body printable (drop w (c # s)) in
        if w = 1 then backslash # CHR ''x'' # hex_pad 2 (byte_val c) @ rest
        else if printable r then take w (c # s) @ rest
        else if r < 0x10000 then backslash # CHR ''u'' # hex_pad 4 r @ rest
        else backslash # CHR ''U'' # hex_pad 8 r @ rest)"
  by pat_completeness auto
termination
  by (relation "measure (length o snd)") (auto simp: Let_def diff_less)

declare quote_body.simps(2) [simp del]

definition go_quote :: "(nat \<Rightarrow> bool) \<Rightarrow> string \<Rightarrow> string" where
  "go_quote printable s = quote_char # quote_body printable s @ [quote_char]"

section \<open>What quoting leaves alone\<close>

text \<open>Printable ASCII other than the quote and the backslash stands for itself, the \<open>$\<close> and the backquote of a shell among it.\<close>

definition plain_char :: "char \<Rightarrow> bool" where
  "plain_char c \<longleftrightarrow> 32 \<le> byte_val c \<and> byte_val c < 127 \<and> c \<noteq> quote_char \<and> c \<noteq> backslash"

lemma quote_plain: "\<forall>c \<in> set s. plain_char c \<Longrightarrow> quote_body printable s = s"
  by (induction s) (auto simp: plain_char_def quote_ascii_def quote_body.simps(2))

text \<open>A quoted text has no line break and no quote that is not escaped, so it stays one quoted word of one line.\<close>

lemma quote_ascii_no_newline: "CHR 0x0A \<notin> set (quote_ascii c)"
proof (cases "c = CHR 0x0A")
  case True
  then show ?thesis by (simp add: quote_ascii_def quote_char_def backslash_def)
next
  case False
  have "CHR 0x0A \<notin> set (hex_pad 2 n)" for n
  proof
    assume "CHR 0x0A \<in> set (hex_pad 2 n)"
    then have "CHR 0x0A \<in> set (show_nat 16 n)" by (auto simp: hex_pad_def zero_pad_def)
    then obtain d where "d < 16" "digit_char d = CHR 0x0A"
      by (auto simp: show_nat_def dest: digits_lt [rotated])
    with digit_val_char [of d 16] show False by (simp add: digit_val_def)
  qed
  with False show ?thesis by (auto simp: quote_ascii_def quote_char_def backslash_def)
qed

end
