(* ===== verification/FleetHandler.thy ===== *)
theory FleetHandler
  imports Delivery GoQuote
begin

text \<open>
  The management surface of the fleet and the enrollment of Agents: \<open>core/internal/fleet/handler.go\<close>, \<open>enroll.go\<close> and
  \<open>unassignment.go\<close>. One definition per handler, with its checks and its calls in their order. A decoded body is an argument
  (\<open>None\<close> when decoding fails), and so are path values, fresh ids and random bytes. Ids are canonical UUID texts. Reads of the
  database that cannot fail in the model have no error branch.
\<close>

section \<open>Node Groups\<close>

definition handle_list_node_groups :: "request \<Rightarrow> db \<Rightarrow> (node_group list \<times> string \<times> nat) reply \<times> db" where
  "handle_list_node_groups r d =
     (case page_params r of
        Inl _ \<Rightarrow> (Refused 400 code_bad_request, d)
      | Inr (cursor, limit, page) \<Rightarrow>
          (case list_node_groups_page cursor limit page d of
             Inl _ \<Rightarrow> (Refused 500 code_internal, d)
           | Inr v \<Rightarrow> (Replied 200 v, d)))"

definition handle_create_node_group ::
    "time \<Rightarrow> time \<Rightarrow> uuid \<Rightarrow> request \<Rightarrow> string option \<Rightarrow> db \<Rightarrow> (uuid \<times> string) reply \<times> db" where
  "handle_create_node_group now ts i r body d =
     (case body of
        None \<Rightarrow> (Refused 400 code_bad_request, d)
      | Some name \<Rightarrow>
          if \<not> valid_name name 64 then (Refused 400 code_bad_request, d)
          else (case create_node_group i (trim_space name) ts d of
              Inl e \<Rightarrow> if e = ErrDuplicate then (Refused 409 code_duplicate, d) else (Refused 500 code_internal, d)
            | Inr d' \<Rightarrow> (Replied 201 (i, trim_space name), audit_by now ts r (actor_from r) ''nodegroup.create'' i ''ok'' d')))"

definition handle_delete_node_group :: "time \<Rightarrow> time \<Rightarrow> request \<Rightarrow> uuid \<Rightarrow> db \<Rightarrow> unit reply \<times> db" where
  "handle_delete_node_group now ts r g d =
     (case delete_node_group g d of
        Inl e \<Rightarrow>
          if e = ErrNotFound then (Refused 404 code_not_found, d)
          else if e = ErrConflict then (Refused 409 code_conflict, d)
          else (Refused 500 code_internal, d)
      | Inr d' \<Rightarrow> (Replied 204 (), audit_by now ts r (actor_from r) ''nodegroup.delete'' g ''ok'' d'))"

definition handle_add_group_member :: "request \<Rightarrow> uuid \<Rightarrow> uuid option \<Rightarrow> db \<Rightarrow> unit reply \<times> db" where
  "handle_add_group_member r g body d =
     (case body of
        None \<Rightarrow> (Refused 400 code_bad_request, d)
      | Some n \<Rightarrow>
          if n = [] then (Refused 400 code_bad_request, d)
          else (case add_group_member g n d of
              Inl e \<Rightarrow>
                if e = ErrNotFound then (Refused 404 code_not_found, d)
                else if e = ErrConflict then (Refused 409 code_conflict, d)
                else (Refused 500 code_internal, d)
            | Inr d' \<Rightarrow> (Replied 200 (), d')))"

definition handle_remove_group_member :: "request \<Rightarrow> uuid \<Rightarrow> uuid \<Rightarrow> db \<Rightarrow> unit reply \<times> db" where
  "handle_remove_group_member r g n d =
     (case remove_group_member g n d of
        Inl _ \<Rightarrow> (Refused 500 code_internal, d)
      | Inr d' \<Rightarrow> (Replied 200 (), d'))"

section \<open>Assignments\<close>

definition handle_list_assignments :: "request \<Rightarrow> db \<Rightarrow> (assignment list \<times> string \<times> nat) reply \<times> db" where
  "handle_list_assignments r d =
     (case page_params r of
        Inl _ \<Rightarrow> (Refused 400 code_bad_request, d)
      | Inr (cursor, limit, page) \<Rightarrow>
          (case list_assignments_page cursor limit page d of
             Inl _ \<Rightarrow> (Refused 500 code_internal, d)
           | Inr v \<Rightarrow> (Replied 200 v, d)))"

record assignment_body =
  sb_group :: string
  sb_app :: string
  sb_env :: string
  sb_reason :: "reason_input option"

definition handle_create_assignment ::
    "time \<Rightarrow> time \<Rightarrow> uuid \<Rightarrow> request \<Rightarrow> assignment_body option \<Rightarrow> db \<Rightarrow> assignment reply \<times> db" where
  "handle_create_assignment now ts i r body d =
     (case body of
        None \<Rightarrow> (Refused 400 code_bad_request, d)
      | Some b \<Rightarrow>
          if sb_group b = [] \<or> sb_app b = [] \<or> sb_env b = [] then (Refused 400 code_bad_request, d)
          else (case operation_reason_or (sb_reason b) of
              None \<Rightarrow> (Refused 400 code_bad_request, d)
            | Some reason \<Rightarrow>
                (case create_assignment i (sb_group b) (sb_app b) (sb_env b) ts d of
                   Inl e \<Rightarrow>
                     if e = ErrNotFound then (Refused 404 code_not_found, d)
                     else if e = ErrBadPayload then (Refused 400 code_bad_request, d)
                     else if e = ErrConflict then (Refused 409 code_conflict, d)
                     else if e = ErrDuplicate then (Refused 409 code_duplicate, d)
                     else (Refused 500 code_internal, d)
                 | Inr (a, d') \<Rightarrow>
                     (Replied 201 a, audit_by now ts r (actor_from r) ''assignment.create'' (asg_id a)
                        (''bundle='' @ asg_app a @ ''/'' @ asg_env a @ '' group='' @ asg_group_name a @ '' reason='' @
                         or_category reason) d'))))"

section \<open>Managed Nodes\<close>

text \<open>A node with its derived state, the two values the list adds to the row.\<close>

record node_item =
  ni_node :: node
  ni_state :: node_state
  ni_unassigned :: bool

definition node_item_of :: "fleet_handler \<Rightarrow> time \<Rightarrow> db \<Rightarrow> node \<Rightarrow> node_item" where
  "node_item_of h now d n =
     (let rows = all_node_convergence d (node_id n);
          has_failed = list_ex (\<lambda>c. cv_result c = ''failed'') rows;
          all_converged = (rows \<noteq> [] \<and> \<not> list_ex (\<lambda>c. cv_desired c \<noteq> cv_observed c \<or> cv_observed c = []) rows);
          (state, unassigned) = derive_node_state (node_last_seen n) now (fh_offline_after h) has_failed
            (0 < node_assignment_counts d (node_id n)) all_converged
      in \<lparr>ni_node = n, ni_state = state, ni_unassigned = unassigned\<rparr>)"

definition node_item_key :: "node_item \<Rightarrow> time \<times> string" where
  "node_item_key i = (node_created (ni_node i), node_id (ni_node i))"

fun position_of :: "('r \<Rightarrow> bool) \<Rightarrow> 'r list \<Rightarrow> nat option" where
  "position_of p [] = None"
| "position_of p (x # xs) = (if p x then Some 0 else map_option Suc (position_of p xs))"

text \<open>The product of an int wraps; a cursor that names no node starts at the front.\<close>

definition node_page_start :: "cursor \<Rightarrow> int \<Rightarrow> int \<Rightarrow> node_item list \<Rightarrow> int" where
  "node_page_start cursor limit page out =
     (if 1 < page \<and> cu_id cursor = [] then to_int64 ((page - 1) * limit)
      else if cu_id cursor \<noteq> [] then
        (case position_of (\<lambda>i. node_id (ni_node i) = cu_id cursor \<and>
             (cu_at cursor = zero_time \<or> node_created (ni_node i) = cu_at cursor)) out of
           None \<Rightarrow> 0 | Some k \<Rightarrow> int k + 1)
      else 0)"

text \<open>A negative start is a slice out of bounds, and the handler panics (\<open>None\<close>).\<close>

definition node_page :: "cursor \<Rightarrow> int \<Rightarrow> int \<Rightarrow> node_item list \<Rightarrow> (node_item list \<times> string) option" where
  "node_page cursor limit page out =
     (let start = node_page_start cursor limit page out in
      if start < int (length out) then
        if start < 0 then None
        else
          let fin = min (start + limit) (int (length out)) in
          Some (take (nat (fin - start)) (drop (nat start) out),
            if fin < int (length out) then encode_cursor (node_item_key (out ! nat (fin - 1))) else [])
      else Some ([], []))"

definition listed_nodes :: "fleet_handler \<Rightarrow> time \<Rightarrow> db \<Rightarrow> node_item list" where
  "listed_nodes h now d = order_desc node_item_key (map (node_item_of h now d) (list_node (fh_coll h) d))"

definition handle_list_nodes ::
    "fleet_handler \<Rightarrow> time \<Rightarrow> request \<Rightarrow> db \<Rightarrow> (node_item list \<times> string \<times> nat) reply \<times> db" where
  "handle_list_nodes h now r d =
     (let out = listed_nodes h now d in
      case page_params r of
        Inl _ \<Rightarrow> (Refused 400 code_bad_request, d)
      | Inr (cursor, limit, page) \<Rightarrow>
          (case node_page cursor limit page out of
             None \<Rightarrow> (Dropped, d)
           | Some (items, next) \<Rightarrow> (Replied 200 (items, next, length out), d)))"

definition node_settings :: "node \<Rightarrow> node_item" where
  "node_settings n =
     \<lparr>ni_node = n, ni_state = (if node_enrolled n \<and> node_last_seen n \<noteq> None then StateOffline else StateNeverOnline),
      ni_unassigned = True\<rparr>"

definition write_node_store_error :: "store_error \<Rightarrow> 'b reply" where
  "write_node_store_error e = (if e = ErrNotFound then Refused 404 code_not_found else Refused 500 code_internal)"

definition valid_bundle_dir :: "string \<Rightarrow> bool" where
  "valid_bundle_dir v \<longleftrightarrow> v = [] \<or> has_prefix v ''~'' \<or> has_prefix v ''/''"

record node_body =
  bo_name :: string
  bo_dir :: string

definition handle_create_node ::
    "time \<Rightarrow> time \<Rightarrow> uuid \<Rightarrow> request \<Rightarrow> node_body option \<Rightarrow> db \<Rightarrow> node_item reply \<times> db" where
  "handle_create_node now ts i r body d =
     (case body of
        None \<Rightarrow> (Refused 400 code_bad_request, d)
      | Some b \<Rightarrow>
          if \<not> valid_name (bo_name b) 64 then (Refused 400 code_bad_request, d)
          else if \<not> valid_bundle_dir (bo_dir b) then (Refused 400 code_bad_request, d)
          else (case create_pending_node i (trim_space (bo_name b)) (trim_space (bo_dir b)) now ts d of
              Inl _ \<Rightarrow> (Refused 500 code_internal, d)
            | Inr d' \<Rightarrow>
                (case get_node i d' of
                   Inl _ \<Rightarrow> (Refused 500 code_internal, d')
                 | Inr n \<Rightarrow> (Replied 201 (node_settings n), audit_by now ts r (actor_from r) ''node.create'' i ''ok'' d'))))"

definition handle_delete_node :: "time \<Rightarrow> time \<Rightarrow> request \<Rightarrow> uuid \<Rightarrow> db \<Rightarrow> unit reply \<times> db" where
  "handle_delete_node now ts r i d =
     (case delete_node i d of
        Inl e \<Rightarrow> (write_node_store_error e, d)
      | Inr d' \<Rightarrow> (Replied 204 (), audit_by now ts r (actor_from r) ''node.delete'' i ''ok'' d'))"

text \<open>
  The three settings are checked and written one after the other, so a refused setting leaves the ones before it written.
  \<open>setting\<close> is one of these steps: nothing to do, a refusal, or a call of the store.
\<close>

record update_body =
  ub_name :: "string option"
  ub_dir :: "string option"
  ub_poll :: "int option"

definition setting :: "'v option \<Rightarrow> ('v \<Rightarrow> bool) \<Rightarrow> ('v \<Rightarrow> db \<Rightarrow> db result) \<Rightarrow> db \<Rightarrow> ('b reply \<times> db) + db" where
  "setting v ok store d =
     (case v of
        None \<Rightarrow> Inr d
      | Some x \<Rightarrow>
          if \<not> ok x then Inl (Refused 400 code_bad_request, d)
          else (case store x d of Inl e \<Rightarrow> Inl (write_node_store_error e, d) | Inr d' \<Rightarrow> Inr d'))"

definition handle_update_node ::
    "time \<Rightarrow> time \<Rightarrow> request \<Rightarrow> uuid \<Rightarrow> update_body option \<Rightarrow> db \<Rightarrow> node_item reply \<times> db" where
  "handle_update_node now ts r i body d =
     (case body of
        None \<Rightarrow> (Refused 400 code_bad_request, d)
      | Some b \<Rightarrow>
          if ub_name b = None \<and> ub_dir b = None \<and> ub_poll b = None then (Refused 400 code_bad_request, d)
          else
            (case and_then (setting (ub_poll b) (\<lambda>p. 5 \<le> p \<and> p \<le> 86400) (set_node_poll_interval i) d) (\<lambda>d1.
                  and_then (setting (ub_name b) (\<lambda>n. valid_name n 64) (\<lambda>n. rename_node i (trim_space n)) d1) (\<lambda>d2.
                  setting (ub_dir b) valid_bundle_dir (\<lambda>v. set_node_bundle_dir i (trim_space v)) d2)) of
               Inl refused \<Rightarrow> refused
             | Inr d3 \<Rightarrow>
                 (case get_node i d3 of
                    Inl e \<Rightarrow> (write_node_store_error e, d3)
                  | Inr n \<Rightarrow> (Replied 200 (node_settings n), audit_by now ts r (actor_from r) ''node.update'' i ''ok'' d3))))"

section \<open>Install Commands\<close>

definition token_ttl :: duration where "token_ttl = 10 * minute"
definition cert_ttl :: duration where "cert_ttl = 30 * 24 * 60 * minute"

definition trim_slash :: "string \<Rightarrow> string" where
  "trim_slash s = (if s \<noteq> [] \<and> last s = CHR ''/'' then butlast s else s)"

definition install_command :: "fleet_handler \<Rightarrow> string \<Rightarrow> string \<Rightarrow> string \<Rightarrow> string" where
  "install_command h token name dir =
     (let base = trim_slash (fh_public_url h);
          curl = (if fh_curl_opts h \<noteq> [] then ''curl -k -fsSL'' else ''curl -fsSL'');
          extra = (if fh_curl_opts h \<noteq> [] then '' --insecure'' else []) @
            (if dir \<noteq> [] then '' --bundle-dir '' @ go_quote (fh_printable h) dir else [])
      in curl @ '' '' @ base @ fh_agent_base h @ ''/install.sh | sudo bash -s -- --server '' @ base @ '' --token '' @ token @
         '' --name '' @ go_quote (fh_printable h) name @ extra)"

definition write_install_command ::
    "fleet_handler \<Rightarrow> time \<Rightarrow> time \<Rightarrow> bytes \<Rightarrow> request \<Rightarrow> uuid \<Rightarrow> string \<Rightarrow> string \<Rightarrow> db \<Rightarrow> (string \<times> string) reply \<times> db" where
  "write_install_command h now ts random r node name dir d =
     (if fh_public_url h = [] then (Refused 503 code_unavailable, d)
      else
        let token = new_secret 192 random; expires = now + token_ttl in
        (case create_node_enrollment_token (hash_token (fh_sha256 h) token) name node expires ts d of
           Inl _ \<Rightarrow> (Refused 500 code_internal, d)
         | Inr d' \<Rightarrow>
             (Replied 201 (install_command h token name dir, format_rfc3339 expires),
              audit_by now ts r (actor_from r) ''token.issue'' node (''expires='' @ format_rfc3339 expires) d')))"

text \<open>An error of the decoder is ignored: the body is what was decoded until then.\<close>

definition handle_install_command ::
    "fleet_handler \<Rightarrow> time \<Rightarrow> time \<Rightarrow> uuid \<Rightarrow> uuid \<Rightarrow> bytes \<Rightarrow> request \<Rightarrow> node_body \<Rightarrow> db \<Rightarrow> (string \<times> string) reply \<times> db" where
  "handle_install_command h now ts fresh i random r b d =
     (let name = (if \<not> valid_name (bo_name b) 64 then ''node-'' @ take 8 fresh else bo_name b) in
      if \<not> valid_bundle_dir (bo_dir b) then (Refused 400 code_bad_request, d)
      else (case create_pending_node i (trim_space name) (trim_space (bo_dir b)) now ts d of
          Inl _ \<Rightarrow> (Refused 500 code_internal, d)
        | Inr d' \<Rightarrow> write_install_command h now ts random r i (trim_space name) (trim_space (bo_dir b)) d'))"

definition handle_node_install_command ::
    "fleet_handler \<Rightarrow> time \<Rightarrow> time \<Rightarrow> bytes \<Rightarrow> request \<Rightarrow> uuid \<Rightarrow> string \<Rightarrow> db \<Rightarrow> (string \<times> string) reply \<times> db" where
  "handle_node_install_command h now ts random r i dir0 d =
     (case get_node i d of
        Inl e \<Rightarrow> (write_node_store_error e, d)
      | Inr n \<Rightarrow>
          let dir = (if trim_space dir0 = [] then node_dir n else trim_space dir0) in
          if \<not> valid_bundle_dir dir then (Refused 400 code_bad_request, d)
          else write_install_command h now ts random r (node_id n) (node_name n) dir d)"

section \<open>Artifacts\<close>

definition artifact_names :: "string list" where
  "artifact_names = [''autosecrets-agent-'' @ os @ ''-'' @ arch @ ''.tar.gz'' @ sig.
     os \<leftarrow> [''linux'', ''darwin'', ''windows''], arch \<leftarrow> [''amd64'', ''arm64''], sig \<leftarrow> [[], ''.sig'']]"

definition valid_artifact_name :: "string \<Rightarrow> bool" where
  "valid_artifact_name name \<longleftrightarrow> name \<in> set artifact_names"

text \<open>\<open>files\<close> is the directory of the artifacts: the content of a regular file, by the name joined to the directory.\<close>

definition handle_artifact :: "(string \<Rightarrow> bytes option) \<Rightarrow> string \<Rightarrow> db \<Rightarrow> bytes reply \<times> db" where
  "handle_artifact files name d =
     (if \<not> valid_artifact_name name then (Refused 404 code_not_found, d)
      else if contains name ''..'' \<or> contains name ''/'' then (Refused 404 code_not_found, d)
      else (case files name of None \<Rightarrow> (Refused 404 code_not_found, d) | Some content \<Rightarrow> (Replied 200 content, d)))"

definition handle_ca_pem :: "fleet_handler \<Rightarrow> db \<Rightarrow> bytes reply \<times> db" where
  "handle_ca_pem h d = (Replied 200 (cert_pem (fh_x509 h) (fh_ca h)), d)"

section \<open>Enrollment\<close>

record enroll_body =
  nb_token :: string
  nb_name :: string
  nb_age :: string
  nb_csr :: string

record enrolled =
  el_node :: uuid
  el_cert :: bytes
  el_ca :: bytes
  el_expires :: string

text \<open>
  \<open>clock\<close> is the system clock, which the CA reads; \<open>serial\<close> and \<open>rnd\<close> are its random numbers. A key the CA cannot
  identify makes it panic, after the token has been used.
\<close>

definition handle_enroll ::
    "fleet_handler \<Rightarrow> time \<Rightarrow> time \<Rightarrow> time \<Rightarrow> uuid \<Rightarrow> uuid \<Rightarrow> int \<Rightarrow> bytes \<Rightarrow> request \<Rightarrow> enroll_body option \<Rightarrow> db
      \<Rightarrow> enrolled reply \<times> db" where
  "handle_enroll h now ts clock fresh_name fresh_node serial rnd r body d =
     (case body of
        None \<Rightarrow> (Refused 400 code_bad_request, d)
      | Some b \<Rightarrow>
          if nb_token b = [] \<or> nb_age b = [] \<or> nb_csr b = [] then (Refused 400 code_bad_request, d)
          else (case consume_enrollment_token (hash_token (fh_sha256 h) (nb_token b)) now d of
              Inl _ \<Rightarrow> (Refused 403 code_forbidden, d)
            | Inr (t, d1) \<Rightarrow>
                let name0 = trim_space (nb_name b);
                    name1 = (if name0 = [] then et_name t else name0);
                    name = (if name1 = [] then ''node-'' @ take 8 fresh_name else name1);
                    node = (case et_node t of None \<Rightarrow> fresh_node | Some n \<Rightarrow> n) in
                (case issue_agent_cert (fh_x509 h) (fh_ca h) node (nb_csr b) cert_ttl clock serial rnd of
                   Inl e \<Rightarrow> if e = SliceBounds then (Dropped, d1) else (Refused 400 code_bad_request, d1)
                 | Inr (pem, serial_hex, expires) \<Rightarrow>
                     let reply = Replied 201 \<lparr>el_node = node, el_cert = pem, el_ca = cert_pem (fh_x509 h) (fh_ca h),
                           el_expires = format_rfc3339 expires\<rparr>;
                         done_with = (\<lambda>d2. (reply, audit_by now ts r (''agent:'' @ name) ''node.enroll'' node ''ok'' d2)) in
                     (case et_node t of
                        Some _ \<Rightarrow>
                          (case activate_pending_node node serial_hex (nb_age b) pem expires d1 of
                             Inl e \<Rightarrow> if e = ErrNotFound then (Refused 403 code_forbidden, d1) else (Refused 500 code_internal, d1)
                           | Inr d2 \<Rightarrow> done_with d2)
                      | None \<Rightarrow>
                          (case register_node node name serial_hex (nb_age b) pem expires ts d1 of
                             Inl _ \<Rightarrow> (Refused 500 code_internal, d1)
                           | Inr d2 \<Rightarrow> done_with d2)))))"

section \<open>Two-phase Unassignment\<close>

definition handle_unassign ::
    "time \<Rightarrow> time \<Rightarrow> request \<Rightarrow> uuid \<Rightarrow> reason_input option option \<Rightarrow> db \<Rightarrow> (uuid \<times> task_row list) reply \<times> db" where
  "handle_unassign now ts r i body d =
     (case body of
        None \<Rightarrow> (Refused 400 code_bad_request, d)
      | Some given \<Rightarrow>
          (case operation_reason_or given of
             None \<Rightarrow> (Refused 400 code_bad_request, d)
           | Some reason \<Rightarrow>
               (case assignment_by_id i d of
                  Inl _ \<Rightarrow> (Refused 404 code_not_found, d)
                | Inr _ \<Rightarrow>
                    (case unassign i ts d of
                       Inl _ \<Rightarrow> (Refused 409 code_conflict, d)
                     | Inr (tasks, d') \<Rightarrow>
                         (Replied 202 (i, tasks), audit_by now ts r (actor_from r) ''assignment.unassign'' i
                            (''reason='' @ or_category reason) d')))))"

definition handle_unassignment_state :: "request \<Rightarrow> uuid \<Rightarrow> db \<Rightarrow> (assignment \<times> task_row list) reply \<times> db" where
  "handle_unassignment_state r i d =
     (case assignment_by_id i d of
        Inl _ \<Rightarrow> (Refused 404 code_not_found, d)
      | Inr a \<Rightarrow> (Replied 200 (a, list_unassignment_tasks i d), d))"

definition handle_abandon_cleanup ::
    "time \<Rightarrow> time \<Rightarrow> request \<Rightarrow> uuid \<Rightarrow> reason_input option option \<Rightarrow> db \<Rightarrow> unit reply \<times> db" where
  "handle_abandon_cleanup now ts r i body d =
     (case body of
        None \<Rightarrow> (Refused 400 code_bad_request, d)
      | Some given \<Rightarrow>
          (case operation_reason_or given of
             None \<Rightarrow> (Refused 400 code_bad_request, d)
           | Some reason \<Rightarrow>
               (case assignment_by_id i d of
                  Inl _ \<Rightarrow> (Refused 404 code_not_found, d)
                | Inr _ \<Rightarrow>
                    (case abandon_cleanup_confirmation i ts d of
                       Inl _ \<Rightarrow> (Refused 409 code_conflict, d)
                     | Inr d' \<Rightarrow>
                         (Replied 200 (), audit_by now ts r (actor_from r) ''assignment.abandon_cleanup'' i
                            (''cleanup_unconfirmed reason='' @ or_category reason) d')))))"

end
