(* ===== verification/SecretsHandler.thy ===== *)
theory SecretsHandler
  imports Delivery
begin

text \<open>
  The management surface of the Secret Bundle domain, \<open>core/internal/secrets/handler.go\<close>. One definition per handler, with its
  checks and its calls in their order; the decoded body (\<open>None\<close> when decoding fails), path values, fresh ids and random bytes are
  arguments, as in the handlers of the fleet.
\<close>

section \<open>The handler\<close>

text \<open>The random bytes of one call of \<open>Seal\<close>.\<close>

record seal_random =
  sr_key :: bytes
  sr_wrap :: bytes
  sr_data :: bytes

record secrets_handler =
  sh_seal :: gcm_seal
  sh_master :: bytes
  sh_coll :: "string \<Rightarrow> string"

definition seal_value :: "secrets_handler \<Rightarrow> seal_random \<Rightarrow> bytes \<Rightarrow> crypto_error + sealed" where
  "seal_value h rnd v = seal (sh_seal h) (sh_master h) (sr_key rnd) (sr_wrap rnd) (sr_data rnd) v"

definition safe_modes :: "int list" where
  "safe_modes = [256, 288, 292, 384, 416, 420]"

definition policy_actions :: "string list" where
  "policy_actions = [''none'', ''reload'', ''restart'']"

record binding_dto =
  bd_path :: string
  bd_uid :: int
  bd_gid :: int
  bd_mode :: string

record secret_dto =
  sd_id :: uuid
  sd_name :: string
  sd_binding :: "binding_dto option"
  sd_latest :: int
  sd_selected :: int

section \<open>Applications and Environments\<close>

definition handle_list_applications :: "request \<Rightarrow> db \<Rightarrow> (application_row list \<times> string \<times> nat) reply \<times> db" where
  "handle_list_applications r d =
     (case page_params r of
        Inl _ \<Rightarrow> (Refused 400 code_bad_request, d)
      | Inr (cursor, limit, page) \<Rightarrow>
          (case list_applications_page cursor limit page d of
             Inl _ \<Rightarrow> (Refused 500 code_internal, d)
           | Inr v \<Rightarrow> (Replied 200 v, d)))"

definition handle_create_application ::
    "time \<Rightarrow> time \<Rightarrow> uuid \<Rightarrow> request \<Rightarrow> string option \<Rightarrow> db \<Rightarrow> (uuid \<times> string) reply \<times> db" where
  "handle_create_application now ts i r body d =
     (case body of
        None \<Rightarrow> (Refused 400 code_bad_request, d)
      | Some name \<Rightarrow>
          if \<not> valid_name name 64 then (Refused 400 code_bad_request, d)
          else (case create_application i (trim_space name) ts d of
              Inl _ \<Rightarrow> (Refused 409 code_duplicate, d)
            | Inr d' \<Rightarrow> (Replied 201 (i, trim_space name), audit_by now ts r (actor_from r) ''application.create'' i ''ok'' d')))"

definition write_delete_err :: "store_error \<Rightarrow> 'b reply" where
  "write_delete_err e =
     (if e = ErrNotFound then Refused 404 code_not_found
      else if e = ErrConflict then Refused 409 code_conflict
      else Refused 500 code_internal)"

definition handle_delete_application :: "time \<Rightarrow> time \<Rightarrow> request \<Rightarrow> uuid \<Rightarrow> db \<Rightarrow> unit reply \<times> db" where
  "handle_delete_application now ts r app d =
     (case delete_application app d of
        Inl e \<Rightarrow> (write_delete_err e, d)
      | Inr d' \<Rightarrow> (Replied 204 (), audit_by now ts r (actor_from r) ''application.delete'' app ''ok'' d'))"

definition handle_get_application ::
    "secrets_handler \<Rightarrow> uuid \<Rightarrow> db \<Rightarrow> (uuid \<times> string \<times> environment list) reply \<times> db" where
  "handle_get_application h app d =
     (case get_application app d of
        Inl _ \<Rightarrow> (Refused 404 code_not_found, d)
      | Inr a \<Rightarrow> (Replied 200 (ap_id a, ap_name a, list_environments (sh_coll h) app d), d))"

definition handle_create_environment ::
    "time \<Rightarrow> time \<Rightarrow> uuid \<Rightarrow> request \<Rightarrow> uuid \<Rightarrow> string option \<Rightarrow> db \<Rightarrow> (uuid \<times> string) reply \<times> db" where
  "handle_create_environment now ts i r app body d =
     (case body of
        None \<Rightarrow> (Refused 400 code_bad_request, d)
      | Some name \<Rightarrow>
          if \<not> valid_name name 64 then (Refused 400 code_bad_request, d)
          else (case get_application app d of
              Inl _ \<Rightarrow> (Refused 404 code_not_found, d)
            | Inr _ \<Rightarrow>
                (case create_environment i app (trim_space name) ts d of
                   Inl _ \<Rightarrow> (Refused 409 code_duplicate, d)
                 | Inr d' \<Rightarrow>
                     (Replied 201 (i, trim_space name), audit_by now ts r (actor_from r) ''environment.create'' i ''ok'' d'))))"

definition handle_delete_environment :: "time \<Rightarrow> time \<Rightarrow> request \<Rightarrow> uuid \<Rightarrow> uuid \<Rightarrow> db \<Rightarrow> unit reply \<times> db" where
  "handle_delete_environment now ts r app env d =
     (case delete_environment env app d of
        Inl e \<Rightarrow> (write_delete_err e, d)
      | Inr d' \<Rightarrow> (Replied 204 (), audit_by now ts r (actor_from r) ''environment.delete'' env ''ok'' d'))"

section \<open>Secrets\<close>

definition secret_dto_of :: "secret_list_row \<Rightarrow> secret_dto" where
  "secret_dto_of s =
     \<lparr>sd_id = sl_id s, sd_name = sl_name s,
      sd_binding = (if sl_path s \<noteq> []
        then Some \<lparr>bd_path = sl_path s, bd_uid = sl_uid s, bd_gid = sl_gid s, bd_mode = mode_string (sl_mode s)\<rparr> else None),
      sd_latest = sl_latest s, sd_selected = sl_selected s\<rparr>"

definition handle_list_secrets :: "secrets_handler \<Rightarrow> uuid \<Rightarrow> uuid \<Rightarrow> db \<Rightarrow> secret_dto list reply \<times> db" where
  "handle_list_secrets h app env d = (Replied 200 (map secret_dto_of (list_secrets (sh_coll h) app env d)), d)"

definition handle_delete_secret :: "time \<Rightarrow> time \<Rightarrow> request \<Rightarrow> uuid \<Rightarrow> db \<Rightarrow> unit reply \<times> db" where
  "handle_delete_secret now ts r sid d =
     (case delete_secret sid d of
        Inl e \<Rightarrow> (write_delete_err e, d)
      | Inr d' \<Rightarrow> (Replied 204 (), audit_by now ts r (actor_from r) ''secret.delete'' sid ''ok'' d'))"

text \<open>\<open>createSecretWithValue\<close>; the error of sealing is not one of the store's.\<close>

definition seal_and_create ::
    "secrets_handler \<Rightarrow> seal_random \<Rightarrow> uuid \<Rightarrow> uuid \<Rightarrow> uuid \<Rightarrow> uuid \<Rightarrow> uuid \<Rightarrow> string \<Rightarrow> bytes \<Rightarrow> db
      \<Rightarrow> store_error option + db" where
  "seal_and_create h rnd fresh sid vid app env name v d =
     (case seal_value h rnd v of
        Inl _ \<Rightarrow> Inl None
      | Inr s \<Rightarrow>
          (case create_secret_with_value fresh sid vid app env name (sl_wrapped s) (sl_nonces s) (sl_cipher s) d of
             Inl e \<Rightarrow> Inl (Some e)
           | Inr d' \<Rightarrow> Inr d'))"

record secret_body =
  sy_name :: string
  sy_value :: string

definition handle_create_secret ::
    "secrets_handler \<Rightarrow> time \<Rightarrow> time \<Rightarrow> seal_random \<Rightarrow> uuid \<Rightarrow> uuid \<Rightarrow> uuid \<Rightarrow> request \<Rightarrow> uuid \<Rightarrow> uuid \<Rightarrow> secret_body option
      \<Rightarrow> db \<Rightarrow> (uuid \<times> string) reply \<times> db" where
  "handle_create_secret h now ts rnd fresh sid vid r app env body d =
     (case body of
        None \<Rightarrow> (Refused 400 code_bad_request, d)
      | Some b \<Rightarrow>
          if \<not> valid_name (sy_name b) 128 then (Refused 400 code_bad_request, d)
          else if contains_any (sy_name b) [CHR ''/'', CHR 0x00] then (Refused 400 code_bad_request, d)
          else (case get_environment env app d of
              Inl _ \<Rightarrow> (Refused 404 code_not_found, d)
            | Inr _ \<Rightarrow>
                (case seal_and_create h rnd fresh sid vid app env (trim_space (sy_name b)) (sy_value b) d of
                   Inl e \<Rightarrow> if e = Some ErrDuplicate then (Refused 409 code_duplicate, d) else (Refused 500 code_internal, d)
                 | Inr d' \<Rightarrow>
                     (Replied 201 (sid, trim_space (sy_name b)),
                      audit_by now ts r (actor_from r) ''secret.create'' sid ''ok'' d'))))"

definition handle_create_secret_version ::
    "secrets_handler \<Rightarrow> time \<Rightarrow> time \<Rightarrow> seal_random \<Rightarrow> uuid \<Rightarrow> request \<Rightarrow> uuid \<Rightarrow> bytes option \<Rightarrow> db
      \<Rightarrow> (int \<times> int) reply \<times> db" where
  "handle_create_secret_version h now ts rnd vid r sid body d =
     (case body of
        None \<Rightarrow> (Refused 400 code_bad_request, d)
      | Some v \<Rightarrow>
          (case seal_value h rnd v of
             Inl _ \<Rightarrow> (Refused 500 code_internal, d)
           | Inr s \<Rightarrow>
               (case add_secret_version vid sid (sl_wrapped s) (sl_nonces s) (sl_cipher s) d of
                  Inl e \<Rightarrow> if e = ErrNotFound then (Refused 404 code_not_found, d) else (Refused 500 code_internal, d)
                | Inr (seq, version, d') \<Rightarrow>
                    (Replied 201 (seq, version), audit_by now ts r (actor_from r) ''secret.version'' sid
                       (''seq='' @ format_int seq @ '' draft='' @ format_int version) d'))))"

section \<open>File Bindings\<close>

text \<open>The control characters of UTF-8 text are single bytes, and a byte that is no character is none of them.\<close>

definition path_part_ok :: "string \<Rightarrow> bool" where
  "path_part_ok part \<longleftrightarrow> part \<noteq> [] \<and> part \<noteq> ''.'' \<and> part \<noteq> ''..'' \<and> length part \<le> 255 \<and>
     list_all (\<lambda>c. \<not> (byte_val c < 32 \<or> byte_val c = 127)) part"

definition validate_binding_path :: "string \<Rightarrow> string option" where
  "validate_binding_path p0 =
     (let p = trim_space p0 in
      if p = [] then None
      else if has_prefix p ''/'' then None
      else if list_all path_part_ok (split_on (CHR ''/'') p) then Some p
      else None)"

record binding_body =
  by_path :: string
  by_uid :: "int option"
  by_gid :: "int option"
  by_mode :: string

definition handle_update_binding ::
    "time \<Rightarrow> time \<Rightarrow> request \<Rightarrow> uuid \<Rightarrow> binding_body option \<Rightarrow> db \<Rightarrow> (int \<times> string) reply \<times> db" where
  "handle_update_binding now ts r sid body d =
     (case body of
        None \<Rightarrow> (Refused 400 code_bad_request, d)
      | Some b \<Rightarrow>
          (case validate_binding_path (by_path b) of
             None \<Rightarrow> (Refused 400 code_bad_request, d)
           | Some path \<Rightarrow>
               (case parse_int 8 (by_mode b) of
                  None \<Rightarrow> (Refused 400 code_bad_request, d)
                | Some mode \<Rightarrow>
                    if mode \<notin> set safe_modes then (Refused 400 code_bad_request, d)
                    else if (case by_uid b of None \<Rightarrow> False | Some u \<Rightarrow> u < 0) then (Refused 400 code_bad_request, d)
                    else if (case by_gid b of None \<Rightarrow> False | Some g \<Rightarrow> g < 0) then (Refused 400 code_bad_request, d)
                    else
                      (case update_binding sid path (case by_uid b of None \<Rightarrow> 0 | Some u \<Rightarrow> u)
                          (case by_gid b of None \<Rightarrow> 0 | Some g \<Rightarrow> g) mode d of
                         Inl e \<Rightarrow> if e = ErrNotFound then (Refused 404 code_not_found, d) else (Refused 500 code_internal, d)
                       | Inr (version, d') \<Rightarrow>
                           (Replied 200 (version, path), audit_by now ts r (actor_from r) ''binding.update'' sid
                              (''path='' @ path @ '' draft='' @ format_int version) d')))))"

section \<open>Drafts\<close>

record selection_dto =
  su_secret :: uuid
  su_name :: string
  su_seq :: int
  su_binding :: binding_dto

definition selection_dto_of :: "draft_selection \<Rightarrow> selection_dto" where
  "selection_dto_of s =
     \<lparr>su_secret = sel_secret s, su_name = sel_name s, su_seq = sel_seq s,
      su_binding = \<lparr>bd_path = sel_path s, bd_uid = sel_uid s, bd_gid = sel_gid s, bd_mode = mode_string (sel_mode s)\<rparr>\<rparr>"

definition handle_get_draft :: "secrets_handler \<Rightarrow> uuid \<Rightarrow> uuid \<Rightarrow> db \<Rightarrow> (int \<times> selection_dto list) reply \<times> db" where
  "handle_get_draft h app env d =
     (case get_draft (sh_coll h) app env d of
        Inl e \<Rightarrow> if e = ErrNotFound then (Replied 200 (0, []), d) else (Refused 404 code_not_found, d)
      | Inr v \<Rightarrow> (Replied 200 (draft_version v, map selection_dto_of (draft_selections v)), d))"

text \<open>
  The value \<open>strconv.ParseInt\<close> returns beside an error: 0 for a text that is no number, the nearest bound for one out of range.
\<close>

definition parse_int_value :: "string \<Rightarrow> int" where
  "parse_int_value s =
     (case s of [] \<Rightarrow> 0
      | c # t \<Rightarrow>
          let neg = (c = CHR ''-''); u = (if neg \<or> c = CHR ''+'' then t else s) in
          (case parse_uint 10 u of None \<Rightarrow> 0
           | Some n \<Rightarrow> if neg then max (- (2 ^ 63)) (- int n) else min (2 ^ 63 - 1) (int n)))"

definition expected_version :: "request \<Rightarrow> int" where
  "expected_version r = (if rq_header r ''If-Match'' = [] then - 1 else parse_int_value (rq_header r ''If-Match''))"

text \<open>The selections of the body are a map; the two arguments are its entries in the two orders the store ranges over them.\<close>

definition handle_update_draft ::
    "request \<Rightarrow> uuid \<Rightarrow> uuid \<Rightarrow> ((uuid \<times> int) list \<times> (uuid \<times> int) list) option \<Rightarrow> db \<Rightarrow> int reply \<times> db" where
  "handle_update_draft r app env body d =
     (case body of
        None \<Rightarrow> (Refused 400 code_bad_request, d)
      | Some (checks, writes) \<Rightarrow>
          if checks = [] then (Refused 400 code_bad_request, d)
          else (case update_draft_selections app env (expected_version r) checks writes d of
              Inl e \<Rightarrow>
                if e = ErrNotFound then (Refused 404 code_not_found, d)
                else if e = ErrConflict then (Refused 409 code_conflict, d)
                else if e = ErrBadPayload then (Refused 400 code_bad_request, d)
                else (Refused 500 code_internal, d)
            | Inr (version, d') \<Rightarrow> (Replied 200 version, d')))"

section \<open>Publish and rollback\<close>

text \<open>Publishing and pointing the Assignments at the new revision are two transactions.\<close>

definition handle_publish ::
    "secrets_handler \<Rightarrow> time \<Rightarrow> time \<Rightarrow> uuid \<Rightarrow> request \<Rightarrow> uuid \<Rightarrow> uuid \<Rightarrow> reason_input option option \<Rightarrow> db
      \<Rightarrow> revision reply \<times> db" where
  "handle_publish h now ts rid r app env body d =
     (case body of
        None \<Rightarrow> (Refused 400 code_bad_request, d)
      | Some given \<Rightarrow>
          (case operation_reason_or given of
             None \<Rightarrow> (Refused 400 code_bad_request, d)
           | Some reason \<Rightarrow>
               (case get_environment env app d of
                  Inl _ \<Rightarrow> (Refused 404 code_not_found, d)
                | Inr _ \<Rightarrow>
                    (case get_draft (sh_coll h) app env d of
                       Inl _ \<Rightarrow> (Refused 404 code_not_found, d)
                     | Inr dft \<Rightarrow>
                         if (case list_revisions app env d of [] \<Rightarrow> False | v # _ \<Rightarrow> rev_draft v = draft_version dft)
                         then (Refused 409 code_conflict, d)
                         else (case publish rid app env (actor_from r) reason ts now d of
                             Inl e \<Rightarrow> if e = ErrNoSecrets then (Refused 400 code_bad_request, d) else (Refused 500 code_internal, d)
                           | Inr (v, d1) \<Rightarrow>
                               (case advance_desired_revision app env (rev_id v) d1 of
                                  Inl _ \<Rightarrow> (Refused 500 code_internal, d1)
                                | Inr d2 \<Rightarrow>
                                    (Replied 201 v, audit_by now ts r (actor_from r) ''revision.publish'' (rev_id v)
                                       (''draft='' @ format_int (rev_draft v) @ '' files='' @ format_int (int (rev_files v)) @
                                        '' reason='' @ or_category reason) d2)))))))"

record rollback_body =
  ro_source :: string
  ro_reason :: "reason_input option"

definition handle_rollback ::
    "time \<Rightarrow> time \<Rightarrow> uuid \<Rightarrow> request \<Rightarrow> uuid \<Rightarrow> uuid \<Rightarrow> rollback_body option \<Rightarrow> db \<Rightarrow> revision reply \<times> db" where
  "handle_rollback now ts rid r app env body d =
     (case body of
        None \<Rightarrow> (Refused 400 code_bad_request, d)
      | Some b \<Rightarrow>
          if ro_source b = [] then (Refused 400 code_bad_request, d)
          else (case operation_reason_or (ro_reason b) of
              None \<Rightarrow> (Refused 400 code_bad_request, d)
            | Some reason \<Rightarrow>
                (case get_environment env app d of
                   Inl _ \<Rightarrow> (Refused 404 code_not_found, d)
                 | Inr _ \<Rightarrow>
                     (case rollback rid app env (ro_source b) (actor_from r) reason ts now d of
                        Inl e \<Rightarrow>
                          if e = ErrNotFound then (Refused 404 code_not_found, d)
                          else if e = ErrNoSecrets then (Refused 400 code_bad_request, d)
                          else (Refused 500 code_internal, d)
                      | Inr (v, d1) \<Rightarrow>
                          (case advance_desired_revision app env (rev_id v) d1 of
                             Inl _ \<Rightarrow> (Refused 500 code_internal, d1)
                           | Inr d2 \<Rightarrow>
                               (Replied 201 v, audit_by now ts r (actor_from r) ''revision.rollback'' (rev_id v)
                                  (''source='' @ ro_source b @ '' files='' @ format_int (int (rev_files v)) @ '' reason='' @
                                   or_category reason) d2))))))"

definition handle_list_revisions :: "uuid \<Rightarrow> uuid \<Rightarrow> db \<Rightarrow> revision list reply \<times> db" where
  "handle_list_revisions app env d = (Replied 200 (list_revisions app env d), d)"

section \<open>Activation Policies\<close>

definition handle_get_activation_policy :: "uuid \<Rightarrow> db \<Rightarrow> (string \<times> string list) reply \<times> db" where
  "handle_get_activation_policy env d =
     (case get_activation_policy env d of
        Inl _ \<Rightarrow> (Refused 404 code_not_found, d)
      | Inr p \<Rightarrow> (Replied 200 (pol_action p, pol_units p), d))"

definition unit_name_ok :: "string \<Rightarrow> bool" where
  "unit_name_ok u \<longleftrightarrow> u \<noteq> [] \<and> \<not> contains_any u ('' '' @ [CHR 0x09, CHR 0x0A] @ '';|&$'' @ [CHR 0x60, CHR 0x22, CHR 0x27]) \<and>
     \<not> contains u ''..''"

record policy_body =
  pb_action :: string
  pb_units :: "string list"
  pb_reason :: "reason_input option"

definition handle_put_activation_policy ::
    "time \<Rightarrow> time \<Rightarrow> request \<Rightarrow> uuid \<Rightarrow> uuid \<Rightarrow> policy_body option \<Rightarrow> db \<Rightarrow> (string \<times> string list) reply \<times> db" where
  "handle_put_activation_policy now ts r app env body d =
     (case body of
        None \<Rightarrow> (Refused 400 code_bad_request, d)
      | Some b \<Rightarrow>
          (case operation_reason_or (pb_reason b) of
             None \<Rightarrow> (Refused 400 code_bad_request, d)
           | Some reason \<Rightarrow>
               let action = to_lower (trim_space (pb_action b)); units = map trim_space (pb_units b) in
               if action \<notin> set policy_actions then (Refused 400 code_bad_request, d)
               else if length (pb_units b) < 1 \<or> 5 < length (pb_units b) then (Refused 400 code_bad_request, d)
               else if \<not> list_all unit_name_ok units then (Refused 400 code_bad_request, d)
               else (case get_environment env app d of
                   Inl _ \<Rightarrow> (Refused 404 code_not_found, d)
                 | Inr _ \<Rightarrow>
                     (case save_activation_policy \<lparr>pol_env = env, pol_action = action, pol_units = units\<rparr> d of
                        Inl _ \<Rightarrow> (Refused 500 code_internal, d)
                      | Inr d' \<Rightarrow>
                          (Replied 200 (action, units), audit_by now ts r (actor_from r) ''activation_policy.update'' env
                             (action @ '' reason='' @ or_category reason) d')))))"

end
