(* ===== verification/Requests.thy ===== *)
theory Requests
  imports FleetHandler SecretsHandler CoreSystem
begin

text \<open>
  The routes the two domains mount (\<open>Register\<close> of \<open>fleet/handler.go\<close> and \<open>secrets/handler.go\<close>), and what a request may do to the
  database: a handler's effect is a sequence of steps of the stores and of appended audit events. The error paths are
  included, and so are the handlers that stop after a first write.
\<close>

section \<open>Effects\<close>

text \<open>
  A step of the stores or an appended audit event. \<open>new\<close> restricts the Secret versions a step may add; the restriction is
  proved where the database is well-formed.
\<close>

inductive db_step :: "(version_row \<Rightarrow> bool) \<Rightarrow> db \<Rightarrow> db \<Rightarrow> bool" for new where
  Store: "core_step d d' \<Longrightarrow> (bundle_ok d \<Longrightarrow> \<forall>v \<in> set (t_versions d'). v \<in> set (t_versions d) \<or> new v) \<Longrightarrow> db_step new d d'"
| Audit: "db_step new d (append_audit e ts d)"

abbreviation effects :: "(version_row \<Rightarrow> bool) \<Rightarrow> db \<Rightarrow> db \<Rightarrow> bool" where
  "effects new \<equiv> (db_step new)\<^sup>*\<^sup>*"

named_theorems calls \<open>the effect of a handler\<close>

lemma effects_refl: "effects new d d"
  by simp

lemma effects_bundle:
  "bundle_step d d' \<Longrightarrow> (bundle_ok d \<Longrightarrow> \<forall>v \<in> set (t_versions d'). v \<in> set (t_versions d) \<or> new v) \<Longrightarrow> effects new d d'"
  by (rule r_into_rtranclp) (rule db_step.Store, simp_all add: core_step_def)

lemma effects_fleet: "fleet_step d d' \<Longrightarrow> effects new d d'"
  by (rule r_into_rtranclp) (rule db_step.Store, auto simp: core_step_def same_bundle_tables_def dest: fleet_step_same)

lemma effects_audit [calls]: "effects new d d' \<Longrightarrow> effects new d (audit_by now ts r actor action resource result d')"
  unfolding audit_by_def by (rule rtranclp.rtrancl_into_rtrancl) (auto intro: db_step.Audit)

lemma effects_fleet_after: "effects new d d1 \<Longrightarrow> fleet_step d1 d2 \<Longrightarrow> effects new d d2"
  by (metis effects_fleet rtranclp_trans)

lemma advance_effects:
  "effects new d d1 \<Longrightarrow> revision_in d1 rid app env \<Longrightarrow> advance_desired_revision app env rid d1 = Inr d2 \<Longrightarrow> effects new d d2"
  by (blast intro: effects_fleet_after fleet_step.Advance)

text \<open>The operations that add no Secret version.\<close>

lemma kept_effects:
  assumes "bundle_step d d'" "bundle_ok d \<Longrightarrow> set (t_versions d') \<subseteq> set (t_versions d)"
  shows "effects new d d'"
  by (rule effects_bundle [OF assms(1)]) (use assms(2) in blast)

lemma creation_effects:
  "create_application i name ts d = Inr d' \<Longrightarrow> effects new d d'"
  "create_environment i app name ts d = Inr d' \<Longrightarrow> effects new d d'"
  "update_binding sid path uid gid mode d = Inr (v, d') \<Longrightarrow> effects new d d'"
  "save_activation_policy p d = Inr d' \<Longrightarrow> effects new d d'"
  by (rule kept_effects, erule bundle_step.intros, force simp: create_application_def create_application_q_def
      create_environment_def create_environment_q_def update_binding_def bump_draft_def bump_draft_tx_def bump_draft_q_def
      update_file_binding_q_def split: if_splits elim: save_activation_policy_Inr)+

lemma deletion_effects:
  "delete_secret sid d = Inr d' \<Longrightarrow> effects new d d'"
  "delete_environment env app d = Inr d' \<Longrightarrow> effects new d d'"
  "delete_application app d = Inr d' \<Longrightarrow> effects new d d'"
proof -
  show "effects new d d'" if del: "delete_secret sid d = Inr d'"
    by (rule kept_effects [OF bundle_step.DropSecret [OF del]])
      (use delete_secret_Inr(1) [OF del bundle_okD(1)] in \<open>auto simp: delete_files_for_secret_q_def del_def\<close>)
  show "effects new d d'" if del: "delete_environment env app d = Inr d'"
  proof (rule kept_effects [OF bundle_step.DropEnv [OF del]])
    assume "bundle_ok d"
    then have "keys_ok d" by (rule bundle_okD)
    from delete_environment_tables(4) [OF delete_environment_Inr(1,2) [OF del this]]
    show "set (t_versions d') \<subseteq> set (t_versions d)" by auto
  qed
  show "effects new d d'" if del: "delete_application app d = Inr d'"
  proof (rule kept_effects [OF bundle_step.DropApp [OF del]])
    assume "bundle_ok d"
    then have ok: "keys_ok d" "owners_ok d" by (rule bundle_okD)+
    from delete_application_tables_ok(4) [OF delete_application_Inr(1,2) [OF del ok(1)] ok]
    show "set (t_versions d') \<subseteq> set (t_versions d)" by auto
  qed
qed

lemma select_effects:
  assumes "set writes = set checks" and writes: "distinct (map fst writes)"
    and up: "update_draft_selections app env expected checks writes d = Inr (v, d')"
  shows "effects new d d'"
proof (rule kept_effects [OF bundle_step.Select [OF assms]])
  assume "bundle_ok d"
  then have "keys_ok d" by (rule bundle_okD)
  from up this show "set (t_versions d') \<subseteq> set (t_versions d)"
  proof (rule update_draft_selections_Inr)
    fix r d1
    assume all: "upsert_all (dr_id r) writes d = Inr d1"
      and d': "d' = d1\<lparr>t_drafts := upd (\<lambda>x. dr_id x = dr_id r) (\<lambda>x. x\<lparr>dr_version := dr_version x + 1\<rparr>) (t_drafts d1)\<rparr>"
    have "t_versions d1 = t_versions d" by (subst upsert_all_Inr(1) [OF all writes]) simp
    then show ?thesis by (simp add: d')
  qed
qed

lemma release_steps:
  assumes "insert_revision_q rid app env dv actor reason ts d = Inr d1" "insert_files fs d1 = Inr d2"
  shows "t_versions d2 = t_versions d"
  using assms by (auto simp: insert_revision_q_def insert_files_def split: if_splits)

lemma publish_effects:
  assumes "publish rid app env actor reason ts now d = Inr (v, d')"
  shows "effects new d d'"
  by (rule kept_effects [OF bundle_step.Publish [OF assms]]) (use assms in \<open>auto elim!: publish_Inr dest: release_steps\<close>)

lemma rollback_effects:
  assumes "rollback rid app env source actor reason ts now d = Inr (v, d')"
  shows "effects new d d'"
  by (rule kept_effects [OF bundle_step.Rollback [OF assms]]) (use assms in \<open>auto elim!: rollback_Inr dest: release_steps\<close>)

text \<open>The two that add one.\<close>

lemma new_secret_effects:
  assumes env: "env_in d env app" and create: "create_secret_with_value fresh sid vid app env name w n c d = Inr d'"
    and new: "\<And>v. sv_wrapped v = w \<Longrightarrow> sv_nonce v = n \<Longrightarrow> sv_cipher v = c \<Longrightarrow> new v"
  shows "effects new d d'"
proof (rule effects_bundle [OF bundle_step.NewSecret [OF env create]])
  assume "bundle_ok d"
  from create bundle_okD(1-3) [OF this] show "\<forall>v \<in> set (t_versions d'). v \<in> set (t_versions d) \<or> new v"
    by (rule create_secret_Inr) (auto simp: with_new_secret_def intro: new)
qed

lemma new_version_effects:
  assumes add: "add_secret_version vid sid w n c d = Inr (seq, v, d')"
    and new: "\<And>v. sv_wrapped v = w \<Longrightarrow> sv_nonce v = n \<Longrightarrow> sv_cipher v = c \<Longrightarrow> new v"
  shows "effects new d d'"
proof (rule effects_bundle [OF bundle_step.NewVersion [OF add]])
  from add obtain app env d1 where
    1: "insert_version_next_q vid sid w n c d = Inr (seq, d1)"
    and 2: "bump_draft app env (update_selection_version_q seq app env sid d1) = Inr (v, d')"
    by (auto simp: add_secret_version_def)
  from 2 show "\<forall>v \<in> set (t_versions d'). v \<in> set (t_versions d) \<or> new v"
    by (rule bump_draft_Inr) (auto simp: update_selection_version_q_def insert_version_next_Inr(2) [OF 1] intro: new)
qed

section \<open>The preconditions the handlers establish\<close>

lemma get_environment_in: "get_environment env app d = Inr e \<Longrightarrow> env_in d env app"
  by (auto simp: get_environment_def get_environment_q_def env_in_def dest!: row_of_Inr)

lemma publish_revision_in:
  assumes "publish rid app env actor reason ts now d = Inr (v, d')"
  shows "revision_in d' (rev_id v) app env"
  using assms
  by (rule publish_Inr) (auto simp: insert_revision_q_def insert_files_def revision_in_def split: if_splits)

lemma rollback_revision_in:
  assumes "rollback rid app env source actor reason ts now d = Inr (v, d')"
  shows "revision_in d' (rev_id v) app env"
  using assms
  by (rule rollback_Inr) (auto simp: insert_revision_q_def insert_files_def revision_in_def split: if_splits)

section \<open>The handlers of the fleet\<close>

lemmas handler_splits = option.splits sum.splits prod.splits if_splits

lemma group_effects [calls]:
  "handle_list_node_groups r d = (rep1, d') \<Longrightarrow> effects new d d'"
  "handle_create_node_group now ts i r name d = (rep2, d') \<Longrightarrow> effects new d d'"
  "handle_delete_node_group now ts r g d = (rep3, d') \<Longrightarrow> effects new d d'"
  "handle_add_group_member r g nd d = (rep4, d') \<Longrightarrow> effects new d d'"
  "handle_remove_group_member r g n d = (rep5, d') \<Longrightarrow> effects new d d'"
  by (auto simp: handle_list_node_groups_def handle_create_node_group_def handle_delete_node_group_def
      handle_add_group_member_def handle_remove_group_member_def split: handler_splits
      intro!: effects_audit intro: effects_fleet fleet_step.intros)

lemma assignment_effects [calls]:
  "handle_list_assignments r d = (rep1, d') \<Longrightarrow> effects new d d'"
  "handle_create_assignment now ts i r body d = (rep2, d') \<Longrightarrow> effects new d d'"
  "handle_unassign now ts r i given d = (rep3, d') \<Longrightarrow> effects new d d'"
  "handle_unassignment_state r i d = (rep4, d') \<Longrightarrow> effects new d d'"
  "handle_abandon_cleanup now ts r i given d = (rep5, d') \<Longrightarrow> effects new d d'"
  by (auto simp: handle_list_assignments_def handle_create_assignment_def handle_unassign_def handle_unassignment_state_def
      handle_abandon_cleanup_def split: handler_splits
      intro!: effects_audit intro: effects_fleet fleet_step.intros)

lemma node_effects [calls]:
  "handle_list_nodes h now r d = (rep1, d') \<Longrightarrow> effects new d d'"
  "handle_create_node now ts i r body d = (rep2, d') \<Longrightarrow> effects new d d'"
  "handle_delete_node now ts r i d = (rep3, d') \<Longrightarrow> effects new d d'"
  by (auto simp: handle_list_nodes_def handle_create_node_def handle_delete_node_def Let_def split: handler_splits
      intro!: effects_audit intro: effects_fleet fleet_step.intros)

lemma setting_effects:
  assumes "\<And>x d'. store x d = Inr d' \<Longrightarrow> fleet_step d d'"
  shows "setting v ok store d = Inl x \<Longrightarrow> effects new d (snd x)" "setting v ok store d = Inr d' \<Longrightarrow> effects new d d'"
  using assms by (auto simp: setting_def split: option.splits sum.splits if_splits intro: effects_fleet)

lemma settings_effects:
  "setting v1 ok1 (set_node_poll_interval i) d = Inl x \<Longrightarrow> effects new d (snd x)"
  "setting v1 ok1 (set_node_poll_interval i) d = Inr d' \<Longrightarrow> effects new d d'"
  "setting v2 ok2 (\<lambda>n. rename_node i (trim_space n)) d = Inl y \<Longrightarrow> effects new d (snd y)"
  "setting v2 ok2 (\<lambda>n. rename_node i (trim_space n)) d = Inr d' \<Longrightarrow> effects new d d'"
  "setting v2 ok2 (\<lambda>v. set_node_bundle_dir i (trim_space v)) d = Inl y \<Longrightarrow> effects new d (snd y)"
  "setting v2 ok2 (\<lambda>v. set_node_bundle_dir i (trim_space v)) d = Inr d' \<Longrightarrow> effects new d d'"
  by (erule setting_effects [rotated], erule fleet_step.intros)+

lemma update_node_effects [calls]:
  assumes "handle_update_node now ts r i body d = (rep, d')"
  shows "effects new d d'"
proof (cases body)
  case None
  with assms show ?thesis by (simp add: handle_update_node_def)
next
  case (Some b)
  let ?all = "and_then (setting (ub_poll b) (\<lambda>p. 5 \<le> p \<and> p \<le> 86400) (set_node_poll_interval i) d) (\<lambda>d1.
      and_then (setting (ub_name b) (\<lambda>n. valid_name n 64) (\<lambda>n. rename_node i (trim_space n)) d1) (\<lambda>d2.
      setting (ub_dir b) valid_bundle_dir (\<lambda>v. set_node_bundle_dir i (trim_space v)) d2))"
  have refused: "effects new d (snd x)" if "?all = Inl x" for x :: "node_item reply \<times> db"
    using that by (auto simp: and_then_def split: sum.splits dest!: settings_effects dest: rtranclp_trans)
  have fine: "effects new d d3" if "?all = (Inr d3 :: (node_item reply \<times> db) + db)" for d3
    using that by (auto simp: and_then_def split: sum.splits dest!: settings_effects dest: rtranclp_trans)
  show ?thesis
    using assms Some by (auto simp: handle_update_node_def split: if_splits sum.splits intro!: effects_audit intro: fine dest: refused)
qed

lemma write_install_effects:
  "write_install_command h now ts random r node name dir d1 = (rep, d') \<Longrightarrow> effects new d d1 \<Longrightarrow> effects new d d'"
  by (auto simp: write_install_command_def Let_def split: handler_splits
      intro!: effects_audit intro: effects_fleet_after fleet_step.NewToken)

lemma install_effects [calls]:
  "handle_install_command h now ts fresh i random r b d = (rep, d') \<Longrightarrow> effects new d d'"
  "handle_node_install_command h now ts random r i dir d = (rep, d') \<Longrightarrow> effects new d d'"
  by (auto simp: handle_install_command_def handle_node_install_command_def Let_def split: handler_splits
      elim!: write_install_effects intro: effects_fleet fleet_step.Reserve)

lemma enroll_effects [calls]:
  assumes "handle_enroll h now ts clock fresh_name fresh_node serial rnd r body d = (rep, d')"
  shows "effects new d d'"
proof (cases "\<exists>b t d1. body = Some b \<and> \<not> (nb_token b = [] \<or> nb_age b = [] \<or> nb_csr b = []) \<and>
    consume_enrollment_token (hash_token (fh_sha256 h) (nb_token b)) now d = Inr (t, d1)")
  case False
  with assms have "d' = d"
    by (auto simp: handle_enroll_def split: option.splits if_splits sum.splits)
  then show ?thesis by simp
next
  case True
  then obtain b t d1 where *: "body = Some b" "\<not> (nb_token b = [] \<or> nb_age b = [] \<or> nb_csr b = [])"
    and used: "consume_enrollment_token (hash_token (fh_sha256 h) (nb_token b)) now d = Inr (t, d1)" by blast
  have d1: "effects new d d1" by (rule effects_fleet) (rule fleet_step.UseToken [OF used])
  have calls: "register_node a1 a2 a3 a4 a5 a6 a7 d1 = Inr d2 \<Longrightarrow> effects new d d2"
    "activate_pending_node a1 a2 a3 a4 a6 d1 = Inr d2 \<Longrightarrow> effects new d d2" for a1 a2 a3 a4 a5 a6 a7 d2
    by (blast intro: effects_fleet_after [OF d1] fleet_step.Register fleet_step.Activate)+
  from assms d1 show ?thesis
    by (auto simp: handle_enroll_def * used Let_def split: option.splits sum.splits prod.splits if_splits
        intro!: effects_audit intro: calls)
qed

lemma delivery_effects [calls]:
  "handle_desired h now r d = (rep1, d') \<Longrightarrow> effects new d d'"
  "handle_heartbeat now r p d = (rep2, d') \<Longrightarrow> effects new d d'"
  "handle_cleanup_report now ts r p cleaned d = (rep4, d') \<Longrightarrow> effects new d d'"
  by (auto simp: handle_desired_def handle_heartbeat_def handle_cleanup_report_def Let_def split: handler_splits
      intro!: effects_audit intro: effects_fleet fleet_step.intros)

lemma report_effects [calls]:
  "handle_report now ts r p body d = (rep, d') \<Longrightarrow> effects new d d'"
  by (auto simp: handle_report_def Let_def split: handler_splits
      intro!: effects_audit intro: effects_fleet fleet_step.Touch fleet_step.Converge
        effects_fleet_after [OF effects_fleet [OF fleet_step.Converge] fleet_step.Touch])

section \<open>The handlers of the Secret Bundle\<close>

lemma bundle_effects [calls]:
  "handle_list_applications r d = (rep1, d') \<Longrightarrow> effects new d d'"
  "handle_create_application now ts i r name d = (rep2, d') \<Longrightarrow> effects new d d'"
  "handle_delete_application now ts r app d = (rep3, d') \<Longrightarrow> effects new d d'"
  "handle_get_application sh app d = (rep4, d') \<Longrightarrow> effects new d d'"
  "handle_create_environment now ts i r app name d = (rep5, d') \<Longrightarrow> effects new d d'"
  "handle_delete_environment now ts r app env d = (rep6, d') \<Longrightarrow> effects new d d'"
  "handle_list_secrets sh app env d = (rep7, d') \<Longrightarrow> effects new d d'"
  "handle_delete_secret now ts r sid d = (rep8, d') \<Longrightarrow> effects new d d'"
  by (auto simp: handle_list_applications_def handle_create_application_def handle_delete_application_def
      handle_get_application_def handle_create_environment_def handle_delete_environment_def handle_list_secrets_def
      handle_delete_secret_def split: handler_splits
      intro!: effects_audit intro: creation_effects deletion_effects)

text \<open>A Secret version the code adds was sealed under the master key, with the random bytes of one call.\<close>

definition sealed_by :: "secrets_handler \<Rightarrow> version_row \<Rightarrow> bool" where
  "sealed_by h v \<longleftrightarrow> (\<exists>rnd p. length (sr_wrap rnd) = nonce_size \<and> length (sr_data rnd) = nonce_size \<and>
     seal_value h rnd p = Inr \<lparr>sl_wrapped = sv_wrapped v, sl_nonces = sv_nonce v, sl_cipher = sv_cipher v\<rparr>)"

definition nonces_drawn :: "seal_random \<Rightarrow> bool" where
  "nonces_drawn rnd \<longleftrightarrow> length (sr_wrap rnd) = nonce_size \<and> length (sr_data rnd) = nonce_size"

lemma sealed_byI:
  "nonces_drawn rnd \<Longrightarrow> seal_value h rnd p = Inr s \<Longrightarrow> sv_wrapped v = sl_wrapped s \<Longrightarrow> sv_nonce v = sl_nonces s \<Longrightarrow>
   sv_cipher v = sl_cipher s \<Longrightarrow> sealed_by h v"
  unfolding sealed_by_def nonces_drawn_def by (intro exI [of _ rnd] exI [of _ p]) simp

lemma secret_effects [calls]:
  "nonces_drawn rnd \<Longrightarrow> handle_create_secret sh now ts rnd fresh sid vid r app env body d = (rep1, d') \<Longrightarrow>
   effects (sealed_by sh) d d'"
  "nonces_drawn rnd \<Longrightarrow> handle_create_secret_version sh now ts rnd vid r sid v d = (rep2, d') \<Longrightarrow>
   effects (sealed_by sh) d d'"
  by (auto simp: handle_create_secret_def handle_create_secret_version_def seal_and_create_def
      split: handler_splits dest!: get_environment_in
      intro!: effects_audit intro: new_secret_effects new_version_effects sealed_byI)

lemma binding_effects [calls]: "handle_update_binding now ts r sid binding d = (rep, d') \<Longrightarrow> effects new d d'"
  by (auto simp: handle_update_binding_def split: handler_splits intro!: effects_audit intro: creation_effects)

lemma draft_effects [calls]:
  "handle_get_draft sh app env d = (rep1, d') \<Longrightarrow> effects new d d'"
  "set writes = set checks \<Longrightarrow> distinct (map fst writes) \<Longrightarrow>
   handle_update_draft r app env (Some (checks, writes)) d = (rep2, d') \<Longrightarrow> effects new d d'"
  "handle_update_draft r app env None d = (rep2, d') \<Longrightarrow> effects new d d'"
  by (auto simp: handle_get_draft_def handle_update_draft_def split: handler_splits
      intro: select_effects)

lemma advance_calls:
  "publish rid app env actor reason ts now d = Inr (v, d1) \<Longrightarrow>
   advance_desired_revision app env (rev_id v) d1 = Inr d2 \<Longrightarrow> effects new d d2"
  "rollback rid app env source actor reason ts now d = Inr (v, d1) \<Longrightarrow>
   advance_desired_revision app env (rev_id v) d1 = Inr d2 \<Longrightarrow> effects new d d2"
  by (blast intro: advance_effects publish_effects rollback_effects publish_revision_in rollback_revision_in)+

lemma release_effects [calls]:
  "handle_publish sh now ts rid r app env given d = (rep1, d') \<Longrightarrow> effects new d d'"
  "handle_rollback now ts rid r app env body d = (rep2, d') \<Longrightarrow> effects new d d'"
  "handle_list_revisions app env d = (rep3, d') \<Longrightarrow> effects new d d'"
  by (auto simp: handle_publish_def handle_rollback_def handle_list_revisions_def split: handler_splits
      intro!: effects_audit intro: publish_effects rollback_effects advance_calls)

lemma policy_effects [calls]:
  "handle_get_activation_policy env d = (rep1, d') \<Longrightarrow> effects new d d'"
  "handle_put_activation_policy now ts r app env body d = (rep2, d') \<Longrightarrow> effects new d d'"
  by (auto simp: handle_get_activation_policy_def handle_put_activation_policy_def Let_def split: handler_splits
      intro!: effects_audit intro: creation_effects)

end
