(* ===== verification/InstallScript.thy ===== *)
theory InstallScript
  imports FleetHandler
begin

text \<open>
  The installer of the Agent, \<open>handleInstallScript\<close> and its template in \<open>core/internal/fleet/enroll.go\<close>, as the list of the template's
  lines. The two places of the agent base and the place of the public signing key are arguments.
\<close>

section \<open>The template\<close>

definition script_arguments :: "string list" where
  "script_arguments = [
     ''#!/bin/sh'',
     ''# AutoSecrets Agent installer (ADR-0013).'',
     ''set -eu'',
     [],
     ''SERVER=\"\"'',
     ''TOKEN=\"\"'',
     ''NODE_NAME=\"\"'',
     ''INSECURE=\"\"'',
     ''BUNDLE_DIR=\"\"'',
     ''while [ $# -gt 0 ]; do'',
     ''  case \"$1\" in'',
     ''    --server) SERVER=\"$2\"; shift 2 ;;'',
     ''    --token) TOKEN=\"$2\"; shift 2 ;;'',
     ''    --name) NODE_NAME=\"$2\"; shift 2 ;;'',
     ''    --bundle-dir) BUNDLE_DIR=\"$2\"; shift 2 ;;'',
     ''    --insecure) INSECURE=\"1\"; shift ;;'',
     ''    *) echo \"unknown argument: $1\" >&2; exit 2 ;;'',
     ''  esac'',
     ''done'',
     ''[ -n \"$SERVER\" ] && [ -n \"$TOKEN\" ] || { echo \"usage: install.sh --server URL --token TOKEN\" >&2; exit 2; }'',
     [],
     ''PREFIX=\"${AUTOSECRETS_PREFIX:-/opt/autosecrets-agent}\"'',
     ''CONFIG_DIR=\"${AUTOSECRETS_CONFIG_DIR:-/etc/autosecrets-agent}\"'',
     ''STATE_DIR=\"${AUTOSECRETS_STATE_DIR:-/var/lib/autosecrets-agent}\"'',
     [],
     ''if [ -z \"$BUNDLE_DIR\" ]; then'',
     ''  BUNDLE_DIR=\"~/.autosecrets\"'',
     ''fi'',
     ''USER_HOME=\"$HOME\"'',
     ''if [ -n \"${SUDO_USER:-}\" ] && [ \"$SUDO_USER\" != \"root\" ]; then'',
     ''  USER_HOME=\"$(getent passwd \"$SUDO_USER\" | cut -d: -f6)\"'',
     ''fi'',
     ''case \"$BUNDLE_DIR\" in'',
     ''  \"~/\"*) BUNDLE_DIR=\"$USER_HOME/${BUNDLE_DIR#'' @ [CHR 0x5C] @ ''~/}\" ;;'',
     ''esac'',
     []]"

definition script_platform :: "string list" where
  "script_platform = [
     ''ARCH=\"$(uname -m)\"'',
     ''case \"$ARCH\" in'',
     ''  x86_64|amd64) ART_ARCH=\"amd64\" ;;'',
     ''  aarch64|arm64) ART_ARCH=\"arm64\" ;;'',
     ''  *) echo \"unsupported architecture: $ARCH\" >&2; exit 2 ;;'',
     ''esac'',
     ''OS=\"$(uname -s)\"'',
     ''case \"$OS\" in'',
     ''  Linux) ART_OS=\"linux\" ;;'',
     ''  Darwin) ART_OS=\"darwin\" ;;'',
     ''  MINGW*|MSYS*|CYGWIN*) ART_OS=\"windows\" ;;'',
     ''  *) echo \"unsupported operating system: $OS\" >&2; exit 2 ;;'',
     ''esac'',
     []]"

definition script_artifact :: "string \<Rightarrow> string \<Rightarrow> string list" where
  "script_artifact base key = [
     ''require_openssl() {'',
     ''  command -v openssl >/dev/null 2>&1 || { echo \"openssl is required to verify the agent artifact\" >&2; exit 2; }'',
     ''  command -v python3 >/dev/null 2>&1 || { echo \"python3 >= 3.11 is required to run the agent\" >&2; exit 2; }'',
     ''}'',
     [],
     ''verify_artifact() {'',
     ''  artifact=\"$1\"; sig=\"$2\"'',
     ''  openssl pkeyutl -verify -rawin -pubin -inkey \"$PUBKEY_FILE\" -sigfile \"$sig\" -in \"$artifact\" >/dev/null 2>&1 '' @ [CHR 0x5C],
     ''    || { echo \"signature verification FAILED; refusing to install\" >&2; exit 3; }'',
     ''}'',
     [],
     ''echo \"==> Downloading and verifying the signed agent artifact\"'',
     ''require_openssl'',
     ''TMP=\"$(mktemp -d)\"'',
     ''trap '' @ [CHR 0x27] @ ''rm -rf \"$TMP\"'' @ [CHR 0x27] @ '' EXIT'',
     ''PUBKEY_FILE=\"$TMP/signing.pub\"'',
     ''cat > \"$PUBKEY_FILE\" <<'' @ [CHR 0x27] @ ''PUBKEY_EOF'' @ [CHR 0x27],
     key,
     ''PUBKEY_EOF'',
     [],
     ''if [ -n \"$INSECURE\" ]; then'',
     ''  CURL=\"curl -fsSL -k\"'',
     ''else'',
     ''  CURL=\"curl -fsSL ${AUTOSECRETS_CURL_OPTS:-}\"'',
     ''fi'',
     ''$CURL \"$SERVER'' @ base @ ''/artifacts/autosecrets-agent-$ART_OS-$ART_ARCH.tar.gz\" -o \"$TMP/agent.tar.gz\"'',
     ''$CURL \"$SERVER'' @ base @ ''/artifacts/autosecrets-agent-$ART_OS-$ART_ARCH.tar.gz.sig\" -o \"$TMP/agent.tar.gz.sig\"'',
     ''verify_artifact \"$TMP/agent.tar.gz\" \"$TMP/agent.tar.gz.sig\"'',
     [],
     ''echo \"==> Installing to $PREFIX\"'',
     ''mkdir -p \"$PREFIX\" \"$CONFIG_DIR\" \"$STATE_DIR/identity\" \"$STATE_DIR/bundles\"'',
     ''tar -xzf \"$TMP/agent.tar.gz\" -C \"$PREFIX\"'',
     []]"

definition script_config :: "string \<Rightarrow> string list" where
  "script_config base = [
     ''SIGNING_KEY_B64=\"$(openssl pkey -pubin -in \"$PUBKEY_FILE\" -outform DER 2>/dev/null | tail -c 32 | base64 -w0)\"'',
     ''CA_BUNDLE_LINE=\"\"'',
     ''if [ -n \"$INSECURE\" ] || [ -n \"${AUTOSECRETS_CURL_OPTS:-}\" ]; then'',
     ''  $CURL \"$SERVER'' @ base @ ''/ca.pem\" -o \"$STATE_DIR/identity/ca.pem\"'',
     ''  CA_BUNDLE_LINE=\"ca_bundle = '' @ [CHR 0x5C] @ ''\"$STATE_DIR/identity/ca.pem'' @ [CHR 0x5C] @ ''\"\"'',
     ''fi'',
     ''cat > \"$CONFIG_DIR/config.toml\" <<EOF'',
     ''server_url = \"$SERVER\"'',
     ''identity_dir = \"$STATE_DIR/identity\"'',
     ''bundle_dir = \"$BUNDLE_DIR\"'',
     ''name = \"${NODE_NAME:-$(hostname)}\"'',
     ''signing_public_key = \"$SIGNING_KEY_B64\"'',
     ''$CA_BUNDLE_LINE'',
     ''EOF'',
     []]"

definition script_service :: "string list" where
  "script_service = [
     ''echo \"==> Enrolling with the one-time token\"'',
     ''\"$PREFIX/autosecrets-agent\" enroll --server \"$SERVER\" --token \"$TOKEN\" --config \"$CONFIG_DIR/config.toml\"'',
     [],
     ''if command -v systemctl >/dev/null 2>&1 && [ -z \"${AUTOSECRETS_NO_SYSTEMD:-}\" ]; then'',
     ''  cat > /etc/systemd/system/autosecrets-agent.service <<EOF'',
     ''[Unit]'',
     ''Description=AutoSecrets Agent'',
     ''After=network-online.target'',
     ''Wants=network-online.target'',
     [],
     ''[Service]'',
     ''Type=simple'',
     ''ExecStart=$PREFIX/autosecrets-agent serve --config $CONFIG_DIR/config.toml'',
     ''Environment=HTTP_PROXY='',
     ''Environment=HTTPS_PROXY='',
     ''Environment=http_proxy='',
     ''Environment=https_proxy='',
     ''Environment=ALL_PROXY='',
     ''Environment=NO_PROXY=*'',
     ''Restart=always'',
     ''RestartSec=5'',
     [],
     ''[Install]'',
     ''WantedBy=multi-user.target'',
     ''EOF'',
     ''  systemctl daemon-reload'',
     ''  systemctl enable autosecrets-agent.service'',
     ''  systemctl restart autosecrets-agent.service'',
     ''  echo \"==> Agent installed and running via systemd (autosecrets-agent.service)\"'',
     ''else'',
     ''  echo \"==> First convergence pass\"'',
     ''  \"$PREFIX/autosecrets-agent\" sync --config \"$CONFIG_DIR/config.toml\"'',
     ''  echo \"==> No systemd detected; run '' @ [CHR 0x27] @ ''$PREFIX/autosecrets-agent serve --config $CONFIG_DIR/config.toml'' @ [CHR 0x27] @ '' to keep polling\"'',
     ''fi'']"

definition install_script :: "string \<Rightarrow> string \<Rightarrow> string" where
  "install_script base key =
     concat (map (\<lambda>line. line @ [CHR 0x0A]) (script_arguments @ script_platform @ script_artifact base key @ script_config base @ script_service))"

section \<open>The handler\<close>

text \<open>Marshalling an Ed25519 key succeeds.\<close>

definition handle_install_script :: "fleet_handler \<Rightarrow> db \<Rightarrow> string reply \<times> db" where
  "handle_install_script h d =
     (if fh_public_url h = [] then (Refused 503 code_unavailable, d)
      else (Replied 200 (install_script (fh_agent_base h) (public_key_pem (fh_x509 h) (fh_signer h))), d))"

end
