(* ===== verification/Routes.thy ===== *)
theory Routes
  imports Requests InstallScript
begin

text \<open>
  The routes the two domains mount: \<open>Register\<close> of \<open>secrets/handler.go\<close> and of \<open>fleet/handler.go\<close>, the latter split into its management,
  its Agent and its open routes. A route relates the request and the database to the reply without its body and the database
  after it. Path values, decoded bodies, clocks and fresh ids are arbitrary.
\<close>

section \<open>Methods and replies\<close>

text \<open>A pattern for \<open>GET\<close> also serves \<open>HEAD\<close>.\<close>

definition is_get :: "request \<Rightarrow> bool" where
  "is_get r \<longleftrightarrow> rq_method r = ''GET'' \<or> rq_method r = ''HEAD''"

definition sent :: "'b reply \<Rightarrow> unit reply" where
  "sent rep = (case rep of Refused s c \<Rightarrow> Refused s c | Replied s _ \<Rightarrow> Replied s () | Dropped \<Rightarrow> Dropped)"

lemma sent_simps [simp]:
  "sent (Refused s c) = Refused s c" "sent (Replied s b) = Replied s ()" "sent Dropped = Dropped"
  by (simp_all add: sent_def)

section \<open>Routes\<close>

inductive secrets_route :: "secrets_handler \<Rightarrow> request \<Rightarrow> db \<Rightarrow> unit reply \<Rightarrow> db \<Rightarrow> bool" for h r where
  ListApplications: "is_get r \<Longrightarrow> handle_list_applications r d = (rep, d') \<Longrightarrow> secrets_route h r d (sent rep) d'"
| CreateApplication: "rq_method r = ''POST'' \<Longrightarrow> handle_create_application now ts i r name d = (rep, d') \<Longrightarrow>
    secrets_route h r d (sent rep) d'"
| GetApplication: "is_get r \<Longrightarrow> handle_get_application h app d = (rep, d') \<Longrightarrow> secrets_route h r d (sent rep) d'"
| DeleteApplication: "rq_method r = ''DELETE'' \<Longrightarrow> handle_delete_application now ts r app d = (rep, d') \<Longrightarrow>
    secrets_route h r d (sent rep) d'"
| CreateEnvironment: "rq_method r = ''POST'' \<Longrightarrow> handle_create_environment now ts i r app name d = (rep, d') \<Longrightarrow>
    secrets_route h r d (sent rep) d'"
| DeleteEnvironment: "rq_method r = ''DELETE'' \<Longrightarrow> handle_delete_environment now ts r app env d = (rep, d') \<Longrightarrow>
    secrets_route h r d (sent rep) d'"
| ListSecrets: "is_get r \<Longrightarrow> handle_list_secrets h app env d = (rep, d') \<Longrightarrow> secrets_route h r d (sent rep) d'"
| CreateSecret: "rq_method r = ''POST'' \<Longrightarrow> nonces_drawn rnd \<Longrightarrow>
    handle_create_secret h now ts rnd fresh sid vid r app env secret d = (rep, d') \<Longrightarrow> secrets_route h r d (sent rep) d'"
| DeleteSecret: "rq_method r = ''DELETE'' \<Longrightarrow> handle_delete_secret now ts r sid d = (rep, d') \<Longrightarrow> secrets_route h r d (sent rep) d'"
| CreateVersion: "rq_method r = ''POST'' \<Longrightarrow> nonces_drawn rnd \<Longrightarrow>
    handle_create_secret_version h now ts rnd vid r sid v d = (rep, d') \<Longrightarrow> secrets_route h r d (sent rep) d'"
| UpdateBinding: "rq_method r = ''PUT'' \<Longrightarrow> handle_update_binding now ts r sid binding d = (rep, d') \<Longrightarrow>
    secrets_route h r d (sent rep) d'"
| GetDraft: "is_get r \<Longrightarrow> handle_get_draft h app env d = (rep, d') \<Longrightarrow> secrets_route h r d (sent rep) d'"
| UpdateDraft: "rq_method r = ''PUT'' \<Longrightarrow> set writes = set checks \<Longrightarrow> distinct (map fst writes) \<Longrightarrow>
    handle_update_draft r app env (Some (checks, writes)) d = (rep, d') \<Longrightarrow> secrets_route h r d (sent rep) d'"
| UpdateDraftMalformed: "rq_method r = ''PUT'' \<Longrightarrow> handle_update_draft r app env None d = (rep, d') \<Longrightarrow>
    secrets_route h r d (sent rep) d'"
| Publish: "rq_method r = ''POST'' \<Longrightarrow> handle_publish h now ts rid r app env given d = (rep, d') \<Longrightarrow>
    secrets_route h r d (sent rep) d'"
| Rollback: "rq_method r = ''POST'' \<Longrightarrow> handle_rollback now ts rid r app env back d = (rep, d') \<Longrightarrow>
    secrets_route h r d (sent rep) d'"
| ListRevisions: "is_get r \<Longrightarrow> handle_list_revisions app env d = (rep, d') \<Longrightarrow> secrets_route h r d (sent rep) d'"
| GetPolicy: "is_get r \<Longrightarrow> handle_get_activation_policy env d = (rep, d') \<Longrightarrow> secrets_route h r d (sent rep) d'"
| PutPolicy: "rq_method r = ''PUT'' \<Longrightarrow> handle_put_activation_policy now ts r app env policy d = (rep, d') \<Longrightarrow>
    secrets_route h r d (sent rep) d'"

inductive fleet_route :: "fleet_handler \<Rightarrow> request \<Rightarrow> db \<Rightarrow> unit reply \<Rightarrow> db \<Rightarrow> bool" for h r where
  ListGroups: "is_get r \<Longrightarrow> handle_list_node_groups r d = (rep, d') \<Longrightarrow> fleet_route h r d (sent rep) d'"
| CreateGroup: "rq_method r = ''POST'' \<Longrightarrow> handle_create_node_group now ts i r name d = (rep, d') \<Longrightarrow>
    fleet_route h r d (sent rep) d'"
| DeleteGroup: "rq_method r = ''DELETE'' \<Longrightarrow> handle_delete_node_group now ts r g d = (rep, d') \<Longrightarrow> fleet_route h r d (sent rep) d'"
| AddMember: "rq_method r = ''POST'' \<Longrightarrow> handle_add_group_member r g nd d = (rep, d') \<Longrightarrow> fleet_route h r d (sent rep) d'"
| RemoveMember: "rq_method r = ''DELETE'' \<Longrightarrow> handle_remove_group_member r g n d = (rep, d') \<Longrightarrow>
    fleet_route h r d (sent rep) d'"
| ListAssignments: "is_get r \<Longrightarrow> handle_list_assignments r d = (rep, d') \<Longrightarrow> fleet_route h r d (sent rep) d'"
| CreateAssignment: "rq_method r = ''POST'' \<Longrightarrow> handle_create_assignment now ts i r new d = (rep, d') \<Longrightarrow>
    fleet_route h r d (sent rep) d'"
| UnassignmentState: "is_get r \<Longrightarrow> handle_unassignment_state r i d = (rep, d') \<Longrightarrow> fleet_route h r d (sent rep) d'"
| Unassign: "rq_method r = ''POST'' \<Longrightarrow> handle_unassign now ts r i given d = (rep, d') \<Longrightarrow> fleet_route h r d (sent rep) d'"
| AbandonCleanup: "rq_method r = ''POST'' \<Longrightarrow> handle_abandon_cleanup now ts r i given d = (rep, d') \<Longrightarrow>
    fleet_route h r d (sent rep) d'"
| ListNodes: "is_get r \<Longrightarrow> handle_list_nodes h now r d = (rep, d') \<Longrightarrow> fleet_route h r d (sent rep) d'"
| CreateNode: "rq_method r = ''POST'' \<Longrightarrow> handle_create_node now ts i r nb d = (rep, d') \<Longrightarrow> fleet_route h r d (sent rep) d'"
| UpdateNode: "rq_method r = ''PATCH'' \<Longrightarrow> handle_update_node now ts r i change d = (rep, d') \<Longrightarrow> fleet_route h r d (sent rep) d'"
| DeleteNode: "rq_method r = ''DELETE'' \<Longrightarrow> handle_delete_node now ts r i d = (rep, d') \<Longrightarrow> fleet_route h r d (sent rep) d'"
| InstallCommand: "rq_method r = ''POST'' \<Longrightarrow> handle_install_command h now ts fresh i random r b d = (rep, d') \<Longrightarrow>
    fleet_route h r d (sent rep) d'"
| NodeInstallCommand: "rq_method r = ''POST'' \<Longrightarrow> handle_node_install_command h now ts random r i dir d = (rep, d') \<Longrightarrow>
    fleet_route h r d (sent rep) d'"

inductive agent_route :: "fleet_handler \<Rightarrow> request \<Rightarrow> db \<Rightarrow> unit reply \<Rightarrow> db \<Rightarrow> bool" for h r where
  Desired: "is_get r \<Longrightarrow> handle_desired h now r d = (rep, d') \<Longrightarrow> agent_route h r d (sent rep) d'"
| Report: "rq_method r = ''POST'' \<Longrightarrow> handle_report now ts r n report d = (rep, d') \<Longrightarrow> agent_route h r d (sent rep) d'"
| CleanupReport: "rq_method r = ''POST'' \<Longrightarrow> handle_cleanup_report now ts r n cleanup d = (rep, d') \<Longrightarrow>
    agent_route h r d (sent rep) d'"
| Heartbeat: "rq_method r = ''POST'' \<Longrightarrow> handle_heartbeat now r n d = (rep, d') \<Longrightarrow> agent_route h r d (sent rep) d'"

inductive open_route :: "fleet_handler \<Rightarrow> request \<Rightarrow> db \<Rightarrow> unit reply \<Rightarrow> db \<Rightarrow> bool" for h r where
  CaPem: "is_get r \<Longrightarrow> handle_ca_pem h d = (rep, d') \<Longrightarrow> open_route h r d (sent rep) d'"
| Script: "is_get r \<Longrightarrow> handle_install_script h d = (rep, d') \<Longrightarrow> open_route h r d (sent rep) d'"
| Artifact: "is_get r \<Longrightarrow> handle_artifact files name d = (rep, d') \<Longrightarrow> open_route h r d (sent rep) d'"
| Enroll: "rq_method r = ''POST'' \<Longrightarrow> handle_enroll h now ts clock fresh_name fresh_node serial rnd r body d = (rep, d') \<Longrightarrow>
    open_route h r d (sent rep) d'"

section \<open>Effects\<close>

lemma open_effects [calls]:
  "handle_ca_pem h d = (rep1, d') \<Longrightarrow> effects new d d'"
  "handle_install_script h d = (rep3, d') \<Longrightarrow> effects new d d'"
  "handle_artifact files name d = (rep2, d') \<Longrightarrow> effects new d d'"
  by (auto simp: handle_ca_pem_def handle_install_script_def handle_artifact_def split: handler_splits)

lemma route_effects:
  "secrets_route h r d rep d' \<Longrightarrow> effects (sealed_by h) d d'"
  "fleet_route f r d rep d' \<Longrightarrow> effects new d d'"
  "agent_route f r d rep d' \<Longrightarrow> effects new d d'"
  "open_route f r d rep d' \<Longrightarrow> effects new d d'"
  by ((erule secrets_route.cases fleet_route.cases agent_route.cases open_route.cases; (hypsubst, rule calls; assumption)))+

section \<open>Reading routes\<close>

text \<open>A management request with the method of a read leaves the database as it was.\<close>

lemmas reading_handlers =
  handle_list_applications_def handle_get_application_def handle_list_secrets_def handle_get_draft_def
  handle_list_revisions_def handle_get_activation_policy_def handle_list_node_groups_def handle_list_assignments_def
  handle_unassignment_state_def handle_list_nodes_def handle_ca_pem_def handle_install_script_def handle_artifact_def

lemma reads_change_nothing:
  "secrets_route h r d rep d' \<Longrightarrow> is_get r \<Longrightarrow> d' = d"
  "fleet_route f r d rep d' \<Longrightarrow> is_get r \<Longrightarrow> d' = d"
  "open_route f r d rep d' \<Longrightarrow> is_get r \<Longrightarrow> d' = d"
  by (auto simp: is_get_def reading_handlers Let_def elim!: secrets_route.cases fleet_route.cases open_route.cases
      split: option.splits sum.splits prod.splits if_splits)

section \<open>Status and code\<close>

text \<open>The statuses of the error envelope, each with the codes that go with it.\<close>

definition envelope_codes :: "(nat \<times> string) list" where
  "envelope_codes = [(400, code_bad_request), (403, code_forbidden), (404, code_not_found), (409, code_conflict),
     (409, code_duplicate), (500, code_internal), (503, code_unavailable)]"

definition well_formed_reply :: "unit reply \<Rightarrow> bool" where
  "well_formed_reply rep \<longleftrightarrow>
     (case rep of Refused s c \<Rightarrow> (s, c) \<in> set envelope_codes
      | Replied s _ \<Rightarrow> s \<in> {200, 201, 202, 204, 304} | Dropped \<Rightarrow> False)"

lemma codes [simp]:
  "(400, code_bad_request) \<in> set envelope_codes" "(403, code_forbidden) \<in> set envelope_codes"
  "(404, code_not_found) \<in> set envelope_codes" "(409, code_conflict) \<in> set envelope_codes"
  "(409, code_duplicate) \<in> set envelope_codes" "(500, code_internal) \<in> set envelope_codes"
  "(503, code_unavailable) \<in> set envelope_codes"
  by (simp_all add: envelope_codes_def)

lemma well_formed_simps [simp]:
  "well_formed_reply (Refused s c) \<longleftrightarrow> (s, c) \<in> set envelope_codes"
  "well_formed_reply (Replied s u) \<longleftrightarrow> s \<in> {200, 201, 202, 204, 304}" "\<not> well_formed_reply Dropped"
  by (simp_all add: well_formed_reply_def)

lemma sent_errors [simp]:
  "well_formed_reply (sent (write_delete_err e))" "well_formed_reply (sent (write_node_store_error e))"
  by (simp_all add: write_delete_err_def write_node_store_error_def)

lemma secrets_replies: "secrets_route h r d rep d' \<Longrightarrow> well_formed_reply rep"
  by (erule secrets_route.cases;
      auto simp: handle_list_applications_def handle_create_application_def handle_get_application_def
        handle_delete_application_def handle_create_environment_def handle_delete_environment_def handle_list_secrets_def
        handle_create_secret_def handle_delete_secret_def handle_create_secret_version_def handle_update_binding_def
        handle_get_draft_def handle_update_draft_def handle_publish_def handle_rollback_def handle_list_revisions_def
        handle_get_activation_policy_def handle_put_activation_policy_def Let_def split: handler_splits)

lemma agent_replies: "agent_route h r d rep d' \<Longrightarrow> well_formed_reply rep"
  by (erule agent_route.cases;
      auto simp: handle_desired_def handle_report_def handle_cleanup_report_def handle_heartbeat_def Let_def
        split: handler_splits)

text \<open>The two handlers that can panic.\<close>

lemma list_nodes_reply: "handle_list_nodes h now r d = (rep, d') \<Longrightarrow> rep = Dropped \<or> well_formed_reply (sent rep)"
  by (auto simp: handle_list_nodes_def Let_def split: handler_splits)

lemma enroll_reply:
  "handle_enroll h now ts clock fresh_name fresh_node serial rnd r body d = (rep, d') \<Longrightarrow> rep = Dropped \<or> well_formed_reply (sent rep)"
  by (auto simp: handle_enroll_def Let_def split: handler_splits)

lemma setting_reply: "setting v ok store d = Inl (rep, d') \<Longrightarrow> well_formed_reply (sent rep)"
  by (auto simp: setting_def split: option.splits sum.splits if_splits)

lemma update_node_reply: "handle_update_node now ts r i body d = (rep, d') \<Longrightarrow> well_formed_reply (sent rep)"
  by (auto simp: handle_update_node_def and_then_def split: option.splits if_splits sum.splits dest!: setting_reply)

lemma install_reply:
  "write_install_command h now ts random r n name dir d = (rep, d') \<Longrightarrow> well_formed_reply (sent rep)"
  by (auto simp: write_install_command_def Let_def split: handler_splits)

lemma fleet_replies: "fleet_route h r d rep d' \<Longrightarrow> (rep = Dropped \<and> is_get r) \<or> well_formed_reply rep"
proof (induction rule: fleet_route.cases)
  case (ListNodes now d rep d')
  then show ?thesis using list_nodes_reply [OF ListNodes(5)] by auto
next
  case (UpdateNode now ts i change d rep d')
  then show ?thesis using update_node_reply [OF UpdateNode(5)] by auto
next
  case (InstallCommand now ts fresh i random b d rep d')
  then show ?thesis by (auto simp: handle_install_command_def Let_def split: handler_splits dest: install_reply)
next
  case (NodeInstallCommand now ts random i dir d rep d')
  then show ?thesis by (auto simp: handle_node_install_command_def Let_def split: handler_splits dest: install_reply)
qed (auto simp: handle_list_node_groups_def handle_create_node_group_def handle_delete_node_group_def
    handle_add_group_member_def handle_remove_group_member_def handle_list_assignments_def handle_create_assignment_def
    handle_unassignment_state_def handle_unassign_def handle_abandon_cleanup_def handle_create_node_def
    handle_delete_node_def Let_def split: handler_splits)

end
