(* ===== verification/IdentityRoutes.thy ===== *)
theory IdentityRoutes
  imports ReturnTo ServiceRefinement Routes
begin

text \<open>
  The routes of the identity domain, \<open>Register\<close> of \<open>identity/handler.go\<close>: those behind the session gate and those open to
  anyone. Whatever a request does to the database is a sequence of steps of the identity store, and every external login it begins
  returns to a page of the console. The limiters of the two login handlers are state of the process, not of the database: a route may find them in any state.
\<close>

section \<open>Routes\<close>

text \<open>What is left of a response without its cookies, its location and its body.\<close>

definition bare :: "'b response \<Rightarrow> unit reply" where
  "bare resp = (case rz_out resp of Body rep \<Rightarrow> sent rep | Redirect location \<Rightarrow> Replied 302 ())"

lemma bare_simps [simp]:
  "bare (plain rep) = sent rep" "bare (with_cookies cs resp) = bare resp"
  "bare \<lparr>rz_cookies = cs, rz_retry = a, rz_out = Redirect l\<rparr> = Replied 302 ()"
  "bare \<lparr>rz_cookies = cs, rz_retry = a, rz_out = Body rep\<rparr> = sent rep"
  by (simp_all add: bare_def plain_def with_cookies_def)

inductive identity_session_route :: "identity_handler \<Rightarrow> request \<Rightarrow> core_db \<Rightarrow> unit reply \<Rightarrow> core_db \<Rightarrow> bool" for h r where
  StartTotp: "rq_method r = ''POST'' \<Longrightarrow> handle_start_totp h now ts rnd key n1 n2 rt r body d = (resp, d') \<Longrightarrow>
    identity_session_route h r d (bare resp) d'"
| VerifyMfa: "rq_method r = ''POST'' \<Longrightarrow> handle_verify_mfa h now ts rcodes rconf r token d = (resp, d') \<Longrightarrow>
    identity_session_route h r d (bare resp) d'"
| ConfirmMfa: "rq_method r = ''POST'' \<Longrightarrow> handle_confirm_mfa h now ts r body d = (resp, d') \<Longrightarrow>
    identity_session_route h r d (bare resp) d'"
| Security: "is_get r \<Longrightarrow> handle_security_status h d = (resp, d') \<Longrightarrow> identity_session_route h r d (bare resp) d'"
| PasswordLogin: "rq_method r = ''PUT'' \<Longrightarrow> handle_password_login h now ts r policy d = (resp, d') \<Longrightarrow>
    identity_session_route h r d (bare resp) d'"
| BindOidc: "rq_method r = ''POST'' \<Longrightarrow> handle_start_oidc_binding h tls now ts r1 r2 r3 r bound d = (resp, d') \<Longrightarrow>
    identity_session_route h r d (bare resp) d'"
| UnbindOidc: "rq_method r = ''DELETE'' \<Longrightarrow> handle_unbind_oidc h now ts r proof_given d = (resp, d') \<Longrightarrow>
    identity_session_route h r d (bare resp) d'"
| BindOAuth: "rq_method r = ''POST'' \<Longrightarrow> handle_start_oauth_binding h tls now ts r1 r2 r3 r bound d = (resp, d') \<Longrightarrow>
    identity_session_route h r d (bare resp) d'"
| UnbindOAuth: "rq_method r = ''DELETE'' \<Longrightarrow> handle_unbind_oauth h now ts r proof_given d = (resp, d') \<Longrightarrow>
    identity_session_route h r d (bare resp) d'"
| DisableTotp: "rq_method r = ''DELETE'' \<Longrightarrow> handle_disable_totp h now ts r proof_given d = (resp, d') \<Longrightarrow>
    identity_session_route h r d (bare resp) d'"
| Logout: "rq_method r = ''POST'' \<Longrightarrow> handle_logout h tls now ts r d = (resp, d') \<Longrightarrow> identity_session_route h r d (bare resp) d'"
| Renew: "rq_method r = ''POST'' \<Longrightarrow> handle_renew h tls now ts r1 r2 r factors d = (resp, d') \<Longrightarrow>
    identity_session_route h r d (bare resp) d'"
| StepUp: "rq_method r = ''POST'' \<Longrightarrow> handle_step_up h now ts r factors d = (resp, d') \<Longrightarrow>
    identity_session_route h r d (bare resp) d'"
| Username: "rq_method r = ''POST'' \<Longrightarrow> handle_username_change h tls now ts r1 r2 r change d = (resp, d') \<Longrightarrow>
    identity_session_route h r d (bare resp) d'"
| Password: "rq_method r = ''POST'' \<Longrightarrow> handle_password_change h tls now ts salt r1 r2 r change d = (resp, d') \<Longrightarrow>
    identity_session_route h r d (bare resp) d'"

inductive identity_open_route :: "identity_handler \<Rightarrow> request \<Rightarrow> core_db \<Rightarrow> unit reply \<Rightarrow> core_db \<Rightarrow> bool" for h r where
  Bootstrapping: "rq_method r = ''POST'' \<Longrightarrow> handle_bootstrap h tls now ts salt i r1 r2 r first d = (resp, d') \<Longrightarrow>
    identity_open_route h r d (bare resp) d'"
| Login: "rq_method r = ''POST'' \<Longrightarrow> handle_login h tls now ts pick r1 r2 r credentials lm d = (resp, lm', d') \<Longrightarrow>
    identity_open_route h r d (bare resp) d'"
| SecondFactor: "rq_method r = ''POST'' \<Longrightarrow> handle_second_factor h tls now ts pick r1 r2 r factor lm d = (resp, lm', d') \<Longrightarrow>
    identity_open_route h r d (bare resp) d'"
| OidcStatus: "is_get r \<Longrightarrow> handle_oidc_status h d = (resp, d') \<Longrightarrow> identity_open_route h r d (bare resp) d'"
| OidcLogin: "is_get r \<Longrightarrow> handle_start_oidc_login h tls now ts r1 r2 r3 r d = (resp, d') \<Longrightarrow>
    identity_open_route h r d (bare resp) d'"
| OidcCallback: "is_get r \<Longrightarrow> handle_oidc_callback h tls now ts r1 r2 r d = (resp, d') \<Longrightarrow>
    identity_open_route h r d (bare resp) d'"
| OAuthStatus: "is_get r \<Longrightarrow> handle_oauth_status h d = (resp, d') \<Longrightarrow> identity_open_route h r d (bare resp) d'"
| OAuthLogin: "is_get r \<Longrightarrow> handle_start_oauth_login h tls now ts r1 r2 r3 r d = (resp, d') \<Longrightarrow>
    identity_open_route h r d (bare resp) d'"
| OAuthCallback: "is_get r \<Longrightarrow> handle_oauth_callback h tls now ts r1 r2 r d = (resp, d') \<Longrightarrow>
    identity_open_route h r d (bare resp) d'"
| Me: "is_get r \<Longrightarrow> handle_me h now r d = (resp, d') \<Longrightarrow> identity_open_route h r d (bare resp) d'"

section \<open>Effects\<close>

text \<open>The steps of the store, where a login that begins returns to the console.\<close>

definition console_step :: "core_db \<Rightarrow> core_db \<Rightarrow> bool" where
  "console_step d d' \<longleftrightarrow> identity_step d d' \<and> returns_from stays_in_console d d'"

interpretation console: all_steps console_step stays_in_console
  by unfold_locales (simp_all add: console_step_def keep_within_def keep_step_def)

text \<open>A use case as its handler calls it: with its answer and the database after it named.\<close>

lemma answered: "good console_step d a \<Longrightarrow> a = (x, d') \<Longrightarrow> console_step\<^sup>*\<^sup>* d d'"
  by (simp add: good_def reaches_def)

lemmas use_cases_reach =
  console.bootstrap_good [THEN answered] console.start_totp_good [THEN answered] console.verify_mfa_good [THEN answered]
  console.confirm_good [THEN answered] console.login_good [THEN answered] console.complete_login_good [THEN answered]
  console.renew_good [THEN answered] console.step_up_good [THEN answered] console.change_password_good [THEN answered]
  console.change_username_good [THEN answered] console.disable_good [THEN answered]
  console.start_login_good [OF valid_return_stays, THEN answered]
  console.start_binding_good [OF valid_return_stays, THEN answered] console.finish_good [THEN answered]
  console.complete_external_login_good [THEN answered] console.complete_external_binding_good [THEN answered]
  console.set_password_good [THEN answered] console.unbind_good [THEN answered]

lemma handler_audit_reaches [simp]: "console_step\<^sup>*\<^sup>* d (handler_audit cx action result d)"
  unfolding handler_audit_def using console.reaches_always(3) [OF reaches_refl] by (simp add: reaches_def)

lemmas response_defs = refuse_def bad_external_def Let_def

lemma session_handlers_reach:
  "handle_start_totp h now ts rnd key n1 n2 rt r b1 d = (o1, d') \<Longrightarrow> console_step\<^sup>*\<^sup>* d d'"
  "handle_verify_mfa h now ts rcodes rconf r b2 d = (o2, d') \<Longrightarrow> console_step\<^sup>*\<^sup>* d d'"
  "handle_confirm_mfa h now ts r b1 d = (o3, d') \<Longrightarrow> console_step\<^sup>*\<^sup>* d d'"
  "handle_security_status h d = (o4, d') \<Longrightarrow> console_step\<^sup>*\<^sup>* d d'"
  "handle_password_login h now ts r b4 d = (o5, d') \<Longrightarrow> console_step\<^sup>*\<^sup>* d d'"
  "handle_start_oidc_binding h tls now ts r1 r2 r3 r b5 d = (o6, d') \<Longrightarrow> console_step\<^sup>*\<^sup>* d d'"
  "handle_unbind_oidc h now ts r b2 d = (o7, d') \<Longrightarrow> console_step\<^sup>*\<^sup>* d d'"
  "handle_start_oauth_binding h tls now ts r1 r2 r3 r b5 d = (o6, d') \<Longrightarrow> console_step\<^sup>*\<^sup>* d d'"
  "handle_unbind_oauth h now ts r b2 d = (o7, d') \<Longrightarrow> console_step\<^sup>*\<^sup>* d d'"
  "handle_disable_totp h now ts r b2 d = (o7, d') \<Longrightarrow> console_step\<^sup>*\<^sup>* d d'"
  "handle_renew h tls now ts r1 r2 r b5 d = (o8, d') \<Longrightarrow> console_step\<^sup>*\<^sup>* d d'"
  "handle_step_up h now ts r b5 d = (o6, d') \<Longrightarrow> console_step\<^sup>*\<^sup>* d d'"
  "handle_username_change h tls now ts r1 r2 r b5 d = (o8, d') \<Longrightarrow> console_step\<^sup>*\<^sup>* d d'"
  "handle_password_change h tls now ts salt r1 r2 r b5 d = (o8, d') \<Longrightarrow> console_step\<^sup>*\<^sup>* d d'"
  by (auto simp: handle_start_totp_def handle_verify_mfa_def handle_confirm_mfa_def handle_security_status_def
      handle_password_login_def handle_start_oidc_binding_def handle_unbind_oidc_def handle_start_oauth_binding_def
      handle_unbind_oauth_def handle_disable_totp_def handle_renew_def handle_step_up_def handle_username_change_def
      handle_password_change_def response_defs split: handler_splits dest: use_cases_reach)

lemma logout_handler_reaches: "handle_logout h tls now ts r d = (resp, d') \<Longrightarrow> console_step\<^sup>*\<^sup>* d d'"
  by (auto simp: handle_logout_def Let_def split: option.splits
      intro: console.logout_reaches [unfolded reaches_def])

lemma open_handlers_reach:
  "handle_bootstrap h tls now ts salt i r1 r2 r b1 d = (o1, d') \<Longrightarrow> console_step\<^sup>*\<^sup>* d d'"
  "handle_oidc_status h d = (o2, d') \<Longrightarrow> console_step\<^sup>*\<^sup>* d d'"
  "handle_start_oidc_login h tls now ts r1 r2 r3 r d = (o3, d') \<Longrightarrow> console_step\<^sup>*\<^sup>* d d'"
  "handle_oauth_status h d = (o4, d') \<Longrightarrow> console_step\<^sup>*\<^sup>* d d'"
  "handle_start_oauth_login h tls now ts r1 r2 r3 r d = (o3, d') \<Longrightarrow> console_step\<^sup>*\<^sup>* d d'"
  "handle_me h now r d = (o5, d') \<Longrightarrow> console_step\<^sup>*\<^sup>* d d'"
  by (auto simp: handle_bootstrap_def handle_oidc_status_def handle_start_oidc_login_def handle_oauth_status_def
      handle_start_oauth_login_def handle_me_def response_defs split: handler_splits dest: use_cases_reach)

lemma login_handler_reaches: "handle_login h tls now ts pick r1 r2 r body lm d = (resp, lm', d') \<Longrightarrow> console_step\<^sup>*\<^sup>* d d'"
  by (auto simp: handle_login_def Let_def split: handler_splits login_out.splits dest: use_cases_reach)

lemma factor_handler_reaches:
  "handle_second_factor h tls now ts pick r1 r2 r body lm d = (resp, lm', d') \<Longrightarrow> console_step\<^sup>*\<^sup>* d d'"
  by (auto simp: handle_second_factor_def Let_def split: handler_splits dest: use_cases_reach)

text \<open>What the callback does to the database, from what its three use cases do.\<close>

lemma callback_reaches:
  assumes run: "callback_with exchange clear denied_audit bind_case login_case h tls now ts r d = (resp, d')"
    and audit: "\<And>p i x. console_step\<^sup>*\<^sup>* x (denied_audit p i x)"
    and bind: "\<And>t x s d1 a d2. bind_case t x s d1 = (a, d2) \<Longrightarrow> console_step\<^sup>*\<^sup>* d1 d2"
    and login: "\<And>t x d1 a d2. login_case t x d1 = (a, d2) \<Longrightarrow> console_step\<^sup>*\<^sup>* d1 d2"
  shows "console_step\<^sup>*\<^sup>* d d'"
proof -
  have audited: "console_step\<^sup>*\<^sup>* d (denied_audit p i x)" if "console_step\<^sup>*\<^sup>* d x" for p i x
    using that audit by (rule rtranclp_trans)
  show ?thesis
    using run
    by (auto simp: callback_with_def Let_def split: handler_splits intro!: audited dest!: bind login
        dest: console.finish_good [THEN answered] intro: rtranclp_trans)
qed

lemma oidc_callback_reaches: "handle_oidc_callback h tls now ts r1 r2 r d = (resp, d') \<Longrightarrow> console_step\<^sup>*\<^sup>* d d'"
  unfolding handle_oidc_callback_def
  by (erule callback_reaches) (auto intro: console.callback_denied_reaches [unfolded reaches_def] dest: use_cases_reach)

lemma oauth_callback_reaches: "handle_oauth_callback h tls now ts r1 r2 r d = (resp, d') \<Longrightarrow> console_step\<^sup>*\<^sup>* d d'"
  unfolding handle_oauth_callback_def
  by (erule callback_reaches) (auto intro: console.callback_denied_reaches [unfolded reaches_def] dest: use_cases_reach)

lemma identity_route_reaches:
  "identity_session_route h r d rep d' \<Longrightarrow> console_step\<^sup>*\<^sup>* d d'"
  "identity_open_route h r d rep d' \<Longrightarrow> console_step\<^sup>*\<^sup>* d d'"
  by (erule identity_session_route.cases; blast intro: session_handlers_reach logout_handler_reaches)
     (erule identity_open_route.cases;
      blast intro: open_handlers_reach login_handler_reaches factor_handler_reaches oidc_callback_reaches oauth_callback_reaches)

lemma console_steps: "console_step\<^sup>*\<^sup>* d d' \<Longrightarrow> identity_step\<^sup>*\<^sup>* d d'"
proof (induction rule: rtranclp_induct)
  case (step x y)
  then show ?case unfolding console_step_def by (blast intro: rtranclp.rtrancl_into_rtrancl)
qed simp

section \<open>Every login returns to the console\<close>

definition returns_ok :: "core_db \<Rightarrow> bool" where
  "returns_ok d \<longleftrightarrow> list_all (\<lambda>t. stays_in_console (ot_return t)) (t_transactions d)"

lemma returns_ok_from: "returns_from stays_in_console d d' \<Longrightarrow> returns_ok d \<Longrightarrow> returns_ok d'"
  unfolding returns_from_def returns_ok_def list_all_iff by (auto simp del: mem_Collect_eq dest!: subsetD [OF _ imageI])

lemma console_steps_return: "console_step\<^sup>*\<^sup>* d d' \<Longrightarrow> returns_ok d \<Longrightarrow> returns_ok d'"
proof (induction rule: rtranclp_induct)
  case (step x y)
  then have "returns_from stays_in_console x y" by (simp add: console_step_def)
  with step show ?case by (blast intro: returns_ok_from)
qed

lemma finish_row:
  assumes "finish_transaction sv cx state d = (Inr t, d')"
  obtains row where "row \<in> set (t_transactions d)" "ot_state row = hash sv state" "ot_used row = None" "cx_now cx < ot_expires row"
    "tx_return t = ot_return row" "tx_purpose t = ot_purpose row" "tx_nonce t = ot_nonce row" "tx_verifier t = ot_verifier row"
    "d' = d\<lparr>t_transactions := upd (\<lambda>t. ot_state t = hash sv state \<and> ot_used t = None \<and> cx_now cx < ot_expires t)
       (\<lambda>t. t\<lparr>ot_used := Some (cx_now cx)\<rparr>) (t_transactions d)\<rparr>"
proof -
  obtain row where "find (\<lambda>t. ot_state t = hash sv state \<and> ot_used t = None \<and> cx_now cx < ot_expires t) (t_transactions d) = Some row"
    and t: "tx_return t = ot_return row" "tx_purpose t = ot_purpose row" "tx_nonce t = ot_nonce row" "tx_verifier t = ot_verifier row"
    "d' = d\<lparr>t_transactions := upd (\<lambda>t. ot_state t = hash sv state \<and> ot_used t = None \<and> cx_now cx < ot_expires t)
       (\<lambda>t. t\<lparr>ot_used := Some (cx_now cx)\<rparr>) (t_transactions d)\<rparr>"
    using assms by (auto simp: finish_transaction_def consume_oidc_transaction_def consume_oidc_transaction_q_def Let_def
        row_of_def one_def split: sum.splits prod.splits option.splits)
  from this(1) have "row \<in> set (t_transactions d) \<and> ot_state row = hash sv state \<and> ot_used row = None \<and> cx_now cx < ot_expires row"
    by (auto simp: find_Some_iff)
  with t that show thesis by blast
qed

lemma finish_returns:
  "finish_transaction sv cx state d = (Inr t, d') \<Longrightarrow> returns_ok d \<Longrightarrow> stays_in_console (tx_return t)"
  by (erule finish_row) (auto simp: returns_ok_def list_all_iff)

text \<open>A redirect of a callback goes where the transaction says.\<close>

lemma callback_redirect:
  assumes "callback_with exchange clear denied_audit bind_case login_case h tls now ts r d = (resp, d')"
    and "rz_out resp = Redirect l"
  obtains t d1 where "finish_transaction (ih_service h) (request_context now ts r) (rq_query r ''state'') d = (Inr t, d1)"
    "l = tx_return t"
  using assms by (auto simp: callback_with_def plain_def with_cookies_def Let_def split: handler_splits)

lemma callback_returns:
  assumes "handle_oidc_callback h tls now ts r1 r2 r d = (resp, d') \<or> handle_oauth_callback h tls now ts r1 r2 r d = (resp, d')"
    and "rz_out resp = Redirect l" "returns_ok d"
  shows "stays_in_console l"
proof -
  obtain t d1 where "finish_transaction (ih_service h) (request_context now ts r) (rq_query r ''state'') d = (Inr t, d1)"
    "l = tx_return t"
    using assms(1,2) unfolding handle_oidc_callback_def handle_oauth_callback_def by (blast elim: callback_redirect)
  with finish_returns assms(3) show ?thesis by blast
qed

end
