(* ===== verification/Overview.thy ===== *)
theory Overview
  imports SecretsHandler AuditLog
begin

text \<open>
  The read models of the composition root: the overview (\<open>database/overview.go\<close>, \<open>app/overview.go\<close>), the global search
  (\<open>database/search.go\<close>, \<open>app/search.go\<close>) and the list of audit events (\<open>app/audit.go\<close>), with their queries. The handlers change
  nothing, so they are functions of the database to a reply.
\<close>

section \<open>The overview\<close>

record overview_counts =
  oc_applications :: nat
  oc_environments :: nat
  oc_secrets :: nat
  oc_nodes :: nat
  oc_groups :: nat
  oc_assignments :: nat
  oc_events :: nat

definition overview_counts_q :: "db \<Rightarrow> overview_counts" where
  "overview_counts_q d =
     \<lparr>oc_applications = length (t_apps d), oc_environments = length (t_envs d),
      oc_secrets = cnt (\<lambda>s. sc_retired s = None) (t_secrets d), oc_nodes = length (t_nodes d), oc_groups = length (t_groups d),
      oc_assignments = cnt (\<lambda>a. as_status a = Active) (t_assignments d), oc_events = length (t_audit d)\<rparr>"

record attention_counts =
  at_failed :: nat
  at_offline :: nat
  at_unassigned :: nat

text \<open>\<open>now\<close> is the clock of the database.\<close>

definition overview_attention_counts_q :: "time \<Rightarrow> db \<Rightarrow> attention_counts" where
  "overview_attention_counts_q now d =
     \<lparr>at_failed = card (cv_node ` {c \<in> set (t_convergence d). cv_result c = ''failed''}),
      at_offline = cnt (\<lambda>n. case nd_last_seen n of None \<Rightarrow> True | Some t \<Rightarrow> t < now - 75 * second) (t_nodes d),
      at_unassigned = cnt (\<lambda>n. \<not> (\<exists>m \<in> set (t_members d). gm_node m = nd_id n \<and>
          (\<exists>a \<in> set (t_assignments d). as_group a = gm_group m \<and> as_status a = Active))) (t_nodes d)\<rparr>"

definition overview_cleanup_counts_q :: "db \<Rightarrow> nat \<times> nat" where
  "overview_cleanup_counts_q d =
     (cnt (\<lambda>t. ut_status t = Failed) (t_tasks d), cnt (\<lambda>t. ut_status t = CleanupUnconfirmed) (t_tasks d))"

definition overview_counts :: "db \<Rightarrow> overview_counts" where
  "overview_counts d = overview_counts_q d"

record attention_fact =
  af_kind :: string
  af_count :: nat

definition fact :: "string \<Rightarrow> nat \<Rightarrow> attention_fact list" where
  "fact kind n = (if 0 < n then [\<lparr>af_kind = kind, af_count = n\<rparr>] else [])"

definition overview_attention :: "time \<Rightarrow> db \<Rightarrow> attention_fact list" where
  "overview_attention now d =
     (let counts = overview_attention_counts_q now d; (failed, unconfirmed) = overview_cleanup_counts_q d in
      fact ''failed_convergence'' (at_failed counts) @ fact ''offline_node'' (at_offline counts) @
      fact ''unassigned_node'' (at_unassigned counts) @ fact ''cleanup_unconfirmed'' unconfirmed @ fact ''cleanup_failed'' failed)"

record overview_reply =
  vw_generated :: string
  vw_counts :: overview_counts
  vw_attention :: "attention_fact list"
  vw_publishes :: "revision list"
  vw_audit :: "audit_row list"

definition five_events :: audit_filter where
  "five_events = \<lparr>fl_actor = [], fl_action = [], fl_resource = [], fl_outcome = [], fl_category = [], fl_from = zero_time,
     fl_to = zero_time, fl_limit = 5, fl_page = 0\<rparr>"

definition handle_overview :: "time \<Rightarrow> time \<Rightarrow> db \<Rightarrow> overview_reply reply" where
  "handle_overview now ts d =
     (case list_audit five_events d of
        Inl _ \<Rightarrow> Refused 500 code_internal
      | Inr events \<Rightarrow>
          Replied 200 \<lparr>vw_generated = format_rfc3339 now, vw_counts = overview_counts d,
            vw_attention = overview_attention ts d, vw_publishes = list_all_revisions 5 d, vw_audit = events\<rparr>)"

section \<open>The search\<close>

text \<open>
  \<open>LIKE\<close> of the database: \<open>%\<close> is any text, \<open>_\<close> any one character, and a backslash takes the next byte literally.
  \<open>ILIKE\<close> folds both sides first (\<open>fd\<close> is the folding of the database's locale, which leaves the three special characters alone).
\<close>

function like :: "string \<Rightarrow> string \<Rightarrow> bool" where
  "like [] t = (t = [])"
| "like (c # p) t =
     (if c = CHR ''%'' then like p t \<or> (if t = [] then False else like (c # p) (drop (rune_width t) t))
      else if c = CHR ''_'' then t \<noteq> [] \<and> like p (drop (rune_width t) t)
      else if c = backslash then (case (p, t) of (e # q, x # u) \<Rightarrow> x = e \<and> like q u | _ \<Rightarrow> False)
      else (case t of [] \<Rightarrow> False | x # u \<Rightarrow> x = c \<and> like p u))"
  by pat_completeness auto
termination
  by (relation "measure (\<lambda>(p, t). length p + length t)") (auto simp: diff_less)

declare like.simps(2) [simp del]

definition ilike :: "(string \<Rightarrow> string) \<Rightarrow> string \<Rightarrow> string \<Rightarrow> bool" where
  "ilike fd pattern t \<longleftrightarrow> like (fd pattern) (fd t)"

record search_result =
  sx_type :: string
  sx_id :: uuid
  sx_name :: string

text \<open>A query of the search: the rows with a matching text, ordered by the collation of their name, at most 20.\<close>

definition search_q ::
    "(string \<Rightarrow> string) \<Rightarrow> (string \<Rightarrow> string) \<Rightarrow> string \<Rightarrow> ('r \<Rightarrow> string list) \<Rightarrow> ('r \<Rightarrow> string) \<Rightarrow> 'r list \<Rightarrow> 'r list" where
  "search_q coll fd pattern texts name t =
     take 20 (sort_key (\<lambda>r. coll (name r)) (filter (\<lambda>r. list_ex (ilike fd pattern) (texts r)) t))"

definition search_applications_q :: "(string \<Rightarrow> string) \<Rightarrow> (string \<Rightarrow> string) \<Rightarrow> string \<Rightarrow> db \<Rightarrow> (uuid \<times> string) list" where
  "search_applications_q coll fd pattern d =
     map (\<lambda>a. (ap_id a, ap_name a)) (search_q coll fd pattern (\<lambda>a. [ap_name a]) ap_name (t_apps d))"

definition search_environments_q :: "(string \<Rightarrow> string) \<Rightarrow> (string \<Rightarrow> string) \<Rightarrow> string \<Rightarrow> db \<Rightarrow> (uuid \<times> string) list" where
  "search_environments_q coll fd pattern d =
     map (\<lambda>(e, a). (en_id e, ap_name a @ ''/'' @ en_name e))
       (search_q coll fd pattern (\<lambda>(e, a). [en_name e]) (\<lambda>(e, a). en_name e)
         [(e, a). e \<leftarrow> t_envs d, a \<leftarrow> t_apps d, ap_id a = en_app e])"

definition search_nodes_q :: "(string \<Rightarrow> string) \<Rightarrow> (string \<Rightarrow> string) \<Rightarrow> string \<Rightarrow> db \<Rightarrow> (uuid \<times> string) list" where
  "search_nodes_q coll fd pattern d =
     map (\<lambda>n. (nd_id n, nd_name n)) (search_q coll fd pattern (\<lambda>n. [nd_name n, nd_serial n]) nd_name (t_nodes d))"

definition search_node_groups_q :: "(string \<Rightarrow> string) \<Rightarrow> (string \<Rightarrow> string) \<Rightarrow> string \<Rightarrow> db \<Rightarrow> (uuid \<times> string) list" where
  "search_node_groups_q coll fd pattern d =
     map (\<lambda>g. (ng_id g, ng_name g)) (search_q coll fd pattern (\<lambda>g. [ng_name g]) ng_name (t_groups d))"

definition hits :: "string \<Rightarrow> (uuid \<times> string) list \<Rightarrow> search_result list" where
  "hits kind rows = map (\<lambda>(i, n). \<lparr>sx_type = kind, sx_id = i, sx_name = n\<rparr>) rows"

text \<open>The database refuses a parameter that is not UTF-8, or that has a NUL (\<open>None\<close>).\<close>

definition search :: "(string \<Rightarrow> string) \<Rightarrow> (string \<Rightarrow> string) \<Rightarrow> string \<Rightarrow> db \<Rightarrow> search_result list option" where
  "search coll fd query d =
     (let pattern = ''%'' @ query @ ''%'' in
      if \<not> valid_utf8 pattern \<or> CHR 0x00 \<in> set pattern then None
      else Some (hits ''application'' (search_applications_q coll fd pattern d) @
        hits ''environment'' (search_environments_q coll fd pattern d) @
        hits ''node'' (search_nodes_q coll fd pattern d) @
        hits ''node_group'' (search_node_groups_q coll fd pattern d)))"

text \<open>The query is cut after 128 bytes, wherever that is in a character.\<close>

definition handle_search :: "(string \<Rightarrow> string) \<Rightarrow> (string \<Rightarrow> string) \<Rightarrow> request \<Rightarrow> db \<Rightarrow> search_result list reply" where
  "handle_search coll fd r d =
     (let query = trim_space (rq_query r ''q'') in
      if query = [] then Replied 200 []
      else (case search coll fd (if 128 < length query then take 128 query else query) d of
          None \<Rightarrow> Refused 500 code_internal
        | Some results \<Rightarrow> Replied 200 results))"

section \<open>The list of audit events\<close>

text \<open>
  \<open>time.Parse(time.RFC3339, s)\<close>: the layout of \<open>parse_utc\<close>, where the zone may also be an offset of up to 24 hours and 60
  minutes.
\<close>

definition zone_offset :: "string \<Rightarrow> duration option" where
  "zone_offset z =
     (case z of
        [s, h1, h2, c, m1, m2] \<Rightarrow>
          if (s = CHR ''+'' \<or> s = CHR ''-'') \<and> c = CHR '':'' \<and> list_all is_digit [h1, h2, m1, m2] then
            let h = digit_of h1 * 10 + digit_of h2; m = digit_of m1 * 10 + digit_of m2 in
            if 24 < h \<or> 60 < m then None
            else Some ((if s = CHR ''-'' then - 1 else 1) * (h * 60 + m) * minute)
          else None
      | _ \<Rightarrow> None)"

definition parse_rfc3339 :: "string \<Rightarrow> time option" where
  "parse_rfc3339 s =
     (case zone_offset (drop (length s - 6) s) of
        None \<Rightarrow> parse_utc s
      | Some off \<Rightarrow> map_option (\<lambda>t. t - off) (parse_utc (take (length s - 6) s @ ''Z'')))"

definition query_time :: "string \<Rightarrow> time" where
  "query_time s = (if s = [] then zero_time else case parse_rfc3339 s of None \<Rightarrow> zero_time | Some t \<Rightarrow> t)"

definition query_int :: "string \<Rightarrow> int" where
  "query_int s = (if s = [] then 0 else case parse_int 10 s of None \<Rightarrow> 0 | Some n \<Rightarrow> n)"

definition handle_list_audit :: "request \<Rightarrow> db \<Rightarrow> (audit_row list \<times> string \<times> nat) reply" where
  "handle_list_audit r d =
     (let filter = \<lparr>fl_actor = rq_query r ''actor'', fl_action = rq_query r ''action'', fl_resource = rq_query r ''resource'',
            fl_outcome = rq_query r ''outcome'', fl_category = rq_query r ''reason_category'',
            fl_from = query_time (rq_query r ''from''), fl_to = query_time (rq_query r ''to''),
            fl_limit = query_int (rq_query r ''limit''), fl_page = query_int (rq_query r ''page'')\<rparr>;
          after = (if rq_query r ''cursor'' = [] then 0 else parse_int_value (rq_query r ''cursor''))
      in (case list_audit_page filter after d of
            Inl _ \<Rightarrow> Refused 500 code_internal
          | Inr v \<Rightarrow> Replied 200 v))"

section \<open>Properties\<close>

text \<open>A search that asks for any text answers with every row, and an empty pattern only with the empty text.\<close>

lemma like_any: "like ''%'' t"
proof (induction "length t" arbitrary: t rule: less_induct)
  case less
  show ?case
  proof (cases "t = []")
    case False
    with less [of "drop (rune_width t) t"] show ?thesis by (subst like.simps) (simp add: diff_less)
  qed (simp add: like.simps(2))
qed

lemma like_self: "list_all (\<lambda>c. c \<noteq> CHR ''%'' \<and> c \<noteq> CHR ''_'' \<and> c \<noteq> backslash) p \<Longrightarrow> like p t \<longleftrightarrow> t = p"
  by (induction p arbitrary: t) (auto simp: like.simps(2) split: list.splits)

text \<open>Who counts as unassigned is who is assigned no revision.\<close>

lemma unassigned_counts:
  "at_unassigned (overview_attention_counts_q now d) = cnt (\<lambda>n. assigned_revisions (nd_id n) d = []) (t_nodes d)"
proof -
  have iff: "rid \<in> set (assigned_revisions i d) \<longleftrightarrow> (\<exists>a \<in> set (t_assignments d). as_status a = Active \<and> as_rev a = rid \<and>
      (\<exists>m \<in> set (t_members d). gm_group m = as_group a \<and> gm_node m = i))" for i rid
    by (auto simp: assigned_revisions_def assigned_revisions_q_def)
  have "assigned_revisions i d = [] \<longleftrightarrow> \<not> (\<exists>m \<in> set (t_members d). gm_node m = i \<and>
      (\<exists>a \<in> set (t_assignments d). as_group a = gm_group m \<and> as_status a = Active))" for i
    unfolding set_empty [symmetric] set_eq_iff iff by (simp, metis)
  then show ?thesis by (simp add: overview_attention_counts_q_def)
qed

end
