(* ===== verification/Server.thy ===== *)
theory Server
  imports IdentityRoutes Overview DeliveryProperties ServiceProperties
begin

text \<open>
  The composition root, \<open>core/internal/app/app.go\<close>: the handlers of the domains over one store and one master key, the two
  surfaces behind their middlewares, and the whole program as one step relation on the database. The invariants of the
  Secret Bundle, of the fleet and of the identity domain hold together in every state the server reaches.
\<close>

section \<open>The application\<close>

text \<open>The library functions and the database's collation, as arguments of the whole program.\<close>

record library =
  lb_sha256 :: "bytes \<Rightarrow> bytes"
  lb_argon :: argon2
  lb_hmac :: "bytes \<Rightarrow> bytes \<Rightarrow> bytes"
  lb_seal :: gcm_seal
  lb_open :: gcm_open
  lb_x509 :: x509
  lb_recipient :: "string \<Rightarrow> bytes option"
  lb_encrypt :: "bytes \<Rightarrow> bytes \<Rightarrow> bytes"
  lb_sign :: "bytes \<Rightarrow> bytes \<Rightarrow> bytes"
  lb_verify :: ed_verify
  lb_coll :: "string \<Rightarrow> string"
  lb_fold :: "string \<Rightarrow> string"
  lb_printable :: "nat \<Rightarrow> bool"
  lb_provider :: provider_env

record options =
  op_public_url :: string
  op_agent_url :: string
  op_trusted :: "ip_net list"
  op_cert_header :: string
  op_offline_after :: duration
  op_curl_opts :: string
  op_oidc :: "oidc_client option"
  op_oidc_unavailable :: string
  op_oauth :: "oauth_client option"
  op_oauth_unavailable :: string

record app =
  co_identity :: identity_handler
  co_secrets :: secrets_handler
  co_fleet :: fleet_handler
  co_trusted :: "ip_net list"
  co_cert_header :: string
  co_verify :: ed_verify
  co_coll :: "string \<Rightarrow> string"
  co_fold :: "string \<Rightarrow> string"

text \<open>A provider is ready when it has a client; the identity handler learns its base when its routes are registered.\<close>

definition new_identity :: "library \<Rightarrow> bytes \<Rightarrow> string \<Rightarrow> options \<Rightarrow> identity_handler" where
  "new_identity lib mk base opts =
     \<lparr>ih_service = \<lparr>sv_sha256 = lb_sha256 lib, sv_argon = lb_argon lib, sv_hmac = lb_hmac lib, sv_seal = lb_seal lib,
        sv_open = lb_open lib, sv_master = mk, sv_oidc_ready = (op_oidc opts \<noteq> None), sv_oauth_ready = (op_oauth opts \<noteq> None)\<rparr>,
      ih_base = base, ih_oidc = op_oidc opts, ih_oidc_unavailable = op_oidc_unavailable opts,
      ih_oauth = op_oauth opts, ih_oauth_unavailable = op_oauth_unavailable opts, ih_public_url = op_public_url opts,
      ih_trusted = op_trusted opts, ih_env = lb_provider lib\<rparr>"

definition new_app :: "library \<Rightarrow> bytes \<Rightarrow> agent_ca \<Rightarrow> signer \<Rightarrow> string \<Rightarrow> string \<Rightarrow> options \<Rightarrow> app" where
  "new_app lib mk ca sg management_base agent_base opts =
     \<lparr>co_identity = new_identity lib mk management_base opts,
      co_secrets = \<lparr>sh_seal = lb_seal lib, sh_master = mk, sh_coll = lb_coll lib\<rparr>,
      co_fleet = \<lparr>fh_sha256 = lb_sha256 lib, fh_open = lb_open lib, fh_master = mk, fh_recipient = lb_recipient lib,
        fh_encrypt = lb_encrypt lib, fh_sign = lb_sign lib, fh_signer = sg, fh_ca = ca, fh_x509 = lb_x509 lib,
        fh_coll = lb_coll lib, fh_printable = lb_printable lib, fh_public_url = op_agent_url opts,
        fh_curl_opts = op_curl_opts opts, fh_agent_base = agent_base,
        fh_offline_after = (if op_offline_after opts \<le> 0 then 75 * second else op_offline_after opts)\<rparr>,
      co_trusted = op_trusted opts, co_cert_header = op_cert_header opts, co_verify = lb_verify lib,
      co_coll = lb_coll lib, co_fold = lb_fold lib\<rparr>"

definition bootstrap_ttl :: duration where
  "bootstrap_ttl = 60 * minute"

text \<open>The empty code when an Administrator exists; otherwise the code the log shows.\<close>

definition emit_bootstrap_code :: "app \<Rightarrow> time \<Rightarrow> bytes \<Rightarrow> core_db \<Rightarrow> store_error + (string \<times> core_db)" where
  "emit_bootstrap_code a now random d =
     (if 0 < human_identity_count d then Inr ([], d)
      else
        let code = new_secret 96 random in
        and_then (save_bootstrap_code (hash_token (sv_sha256 (ih_service (co_identity a))) code) (now + bootstrap_ttl) d)
          (\<lambda>d'. Inr (code, d')))"

section \<open>The surfaces\<close>

text \<open>A handler of the domains runs on the tables of the domains and leaves those of the identity domain alone.\<close>

definition on_core :: "(db, 'b) handler \<Rightarrow> (core_db, 'b) handler" where
  "on_core h r d = (case h r (db.truncate d) of (rep, d') \<Rightarrow> (rep, db.extend d' (db.more d)))"

definition app_session :: "app \<Rightarrow> time \<Rightarrow> time \<Rightarrow> (core_db, 'b) handler \<Rightarrow> (core_db, 'b) handler" where
  "app_session a t1 t2 next = require_session (sv_sha256 (ih_service (co_identity a))) t1 t2 next"

definition agent_auth :: "app \<Rightarrow> time \<Rightarrow> ('s, 'b) handler \<Rightarrow> ('s, 'b) handler" where
  "agent_auth a now next =
     agent_identity_middleware (co_trusted a) (co_cert_header a) (Some (ca_verifier (fh_x509 (co_fleet a)) (fh_ca (co_fleet a))))
       (co_verify a) now next"

text \<open>The read models the composition root mounts itself.\<close>

inductive view_route :: "app \<Rightarrow> request \<Rightarrow> db \<Rightarrow> unit reply \<Rightarrow> db \<Rightarrow> bool" for a r where
  Overview: "is_get r \<Longrightarrow> view_route a r d (sent (handle_overview now ts d)) d"
| Search: "is_get r \<Longrightarrow> view_route a r d (sent (handle_search (co_coll a) (co_fold a) r d)) d"
| Events: "is_get r \<Longrightarrow> view_route a r d (sent (handle_list_audit r d)) d"

text \<open>
  A step of the server: the bootstrap code of the start, or a request. The handler a request is dispatched to is one of the
  mounted routes for its method.
\<close>

inductive server_step :: "app \<Rightarrow> core_db \<Rightarrow> core_db \<Rightarrow> bool" for a where
  Start: "emit_bootstrap_code a now random d = Inr (code, d') \<Longrightarrow> server_step a d d'"
| Secrets: "\<forall>r' x. rq_method r' = rq_method r \<longrightarrow> secrets_route (co_secrets a) r' x (fst (h r' x)) (snd (h r' x)) \<Longrightarrow>
    app_session a t1 t2 (on_core h) r d = (rep, d') \<Longrightarrow> server_step a d d'"
| Fleet: "\<forall>r' x. rq_method r' = rq_method r \<longrightarrow> fleet_route (co_fleet a) r' x (fst (h r' x)) (snd (h r' x)) \<Longrightarrow>
    app_session a t1 t2 (on_core h) r d = (rep, d') \<Longrightarrow> server_step a d d'"
| Agent: "\<forall>r' x. rq_method r' = rq_method r \<longrightarrow> agent_route (co_fleet a) r' x (fst (h r' x)) (snd (h r' x)) \<Longrightarrow>
    agent_auth a now (on_core h) r d = (rep, d') \<Longrightarrow> server_step a d d'"
| Views: "\<forall>r' x. rq_method r' = rq_method r \<longrightarrow> view_route a r' x (fst (h r' x)) (snd (h r' x)) \<Longrightarrow>
    app_session a t1 t2 (on_core h) r d = (rep, d') \<Longrightarrow> server_step a d d'"
| Identity: "\<forall>r' x. rq_method r' = rq_method r \<longrightarrow> identity_session_route (co_identity a) r' x (fst (h r' x)) (snd (h r' x)) \<Longrightarrow>
    app_session a t1 t2 h r d = (rep, d') \<Longrightarrow> server_step a d d'"
| SignIn: "identity_open_route (co_identity a) r d rep d' \<Longrightarrow> server_step a d d'"
| Open: "open_route (co_fleet a) r (db.truncate d) rep d1 \<Longrightarrow> d' = db.extend d1 (db.more d) \<Longrightarrow> server_step a d d'"

section \<open>Invariants of the domains\<close>

definition domains_ok :: "fleet_handler \<Rightarrow> db \<Rightarrow> bool" where
  "domains_ok h d \<longleftrightarrow> bundle_ok d \<and> fleet_ok d \<and> versions_sealed h d \<and> audit_ok d \<and> 0 \<le> audit_seq d"

definition opens :: "fleet_handler \<Rightarrow> version_row \<Rightarrow> bool" where
  "opens h v \<longleftrightarrow> (\<exists>p. open_sealed (fh_open h) (fh_master h) (sv_wrapped v) (sv_nonce v) (sv_cipher v) = Inr p)"

lemma sealed_by_opens:
  assumes "aead (sh_seal s) (fh_open h)" "fh_master h = sh_master s" "sealed_by s v"
  shows "opens h v"
proof -
  from assms(3) obtain rnd p where n: "length (sr_wrap rnd) = nonce_size" "length (sr_data rnd) = nonce_size"
    and s: "seal_value s rnd p = Inr \<lparr>sl_wrapped = sv_wrapped v, sl_nonces = sv_nonce v, sl_cipher = sv_cipher v\<rparr>"
    by (auto simp: sealed_by_def)
  from s have k: "aes_key (sh_master s)" "aes_key (sr_key rnd)" "sv_wrapped v = sh_seal s (sh_master s) (sr_wrap rnd) (sr_key rnd)"
    "sv_nonce v = sr_wrap rnd @ sr_data rnd" "sv_cipher v = sh_seal s (sr_key rnd) (sr_data rnd) p"
    by (auto simp: seal_value_def seal_def split: if_splits)
  have "open_sealed (fh_open h) (fh_master h) (sv_wrapped v) (sv_nonce v) (sv_cipher v) = Inr p"
    using aead_open [OF assms(1) k(1) n(1), of "sv_wrapped v" "sr_key rnd"] aead_open [OF assms(1) k(2) n(2), of "sv_cipher v" p]
    by (simp add: open_sealed_def assms(2) k n)
  then show ?thesis by (auto simp: opens_def)
qed

lemma core_step_ok: "core_step d d' \<Longrightarrow> bundle_ok d \<Longrightarrow> fleet_ok d \<Longrightarrow> bundle_ok d' \<and> fleet_ok d'"
  using core.step_inv by blast

lemma append_audit_domains:
  assumes "domains_ok h d"
  shows "domains_ok h (append_audit e ts d)"
proof -
  have same: "same_bundle_tables d (append_audit e ts d)" "fleet_ok (append_audit e ts d)"
    using assms by (auto simp: same_bundle_tables_def append_audit_def insert_audit_event_q_def domains_ok_def
        intro: fleet_ok_same)
  have "audit_ok (append_audit e ts d)"
    using assms append_audit_grows(1) [of e ts d] by (auto simp: domains_ok_def intro: audit_ok_append)
  with same assms show ?thesis
    by (auto simp: domains_ok_def versions_sealed_def same_bundle_tables_def intro: same_tables_ok)
qed

lemma db_step_domains:
  assumes new: "\<And>v. new v \<Longrightarrow> opens h v" and "db_step new d d'" "domains_ok h d"
  shows "domains_ok h d'"
  using assms(2,3)
proof (induction rule: db_step.induct)
  case (Store d d')
  then have ok: "bundle_ok d" "fleet_ok d" "versions_sealed h d" by (simp_all add: domains_ok_def)
  have "versions_sealed h d'"
    unfolding versions_sealed_def using Store(2) [OF ok(1)] ok(3) new by (auto simp: versions_sealed_def opens_def)
  with core_step_ok [OF Store(1) ok(1,2)] core_step_audit [OF Store(1) ok(1)] Store(3) show ?case
    by (simp add: domains_ok_def audit_ok_def)
next
  case (Audit d e ts)
  then show ?case by (rule append_audit_domains)
qed

lemma effects_domains:
  assumes "\<And>v. new v \<Longrightarrow> opens h v"
  shows "effects new d d' \<Longrightarrow> domains_ok h d \<Longrightarrow> domains_ok h d'"
  by (induction rule: rtranclp_induct) (auto intro: db_step_domains [OF assms])

section \<open>The identity domain leaves the others alone\<close>

definition domain_same :: "core_db \<Rightarrow> core_db \<Rightarrow> bool" where
  "domain_same d d' \<longleftrightarrow> t_apps d' = t_apps d \<and> t_envs d' = t_envs d \<and> t_secrets d' = t_secrets d \<and>
     t_versions d' = t_versions d \<and> t_bindings d' = t_bindings d \<and> t_drafts d' = t_drafts d \<and>
     t_selections d' = t_selections d \<and> t_revisions d' = t_revisions d \<and> t_files d' = t_files d \<and>
     t_nodes d' = t_nodes d \<and> t_groups d' = t_groups d \<and> t_members d' = t_members d \<and>
     t_assignments d' = t_assignments d \<and> t_tokens d' = t_tokens d \<and> t_tasks d' = t_tasks d"

lemma domain_same_revoke [simp]:
  "domain_same d (drop_sessions p d0) \<longleftrightarrow> domain_same d d0"
  "domain_same d (append_audit e ts d0) \<longleftrightarrow> domain_same d d0" "domain_same d (append_audit_tx e ts d0) \<longleftrightarrow> domain_same d d0"
  by (simp_all add: domain_same_def drop_sessions_def Let_def append_audit_def insert_audit_event_q_def append_audit_tx_def
      insert_audit_event_legacy_q_def)

lemma domain_same_refl [simp]: "domain_same d d"
  by (simp add: domain_same_def)

lemma domain_same_trans: "domain_same d d1 \<Longrightarrow> domain_same d1 d2 \<Longrightarrow> domain_same d d2"
  by (simp add: domain_same_def)

lemma insert_recovery_codes_domain: "insert_recovery_codes i hs d = Inr d' \<Longrightarrow> domain_same d d'"
proof (induction i hs d rule: insert_recovery_codes.induct)
  case (2 i h hs d)
  then obtain d1 where 1: "insert_recovery_code_q i h d = Inr d1" and 2: "insert_recovery_codes i hs d1 = Inr d'"
    by auto
  from 1 have "domain_same d d1" by (auto simp: insert_recovery_code_q_def domain_same_def split: if_splits)
  from this "2.IH" [OF 2] show ?case by (rule domain_same_trans)
qed simp

lemma identity_step_domain: "identity_step d d' \<Longrightarrow> domain_same d d'"
proof (induction rule: identity_step.induct)
  case (Bootstrap code org i u p now e ts d d')
  then show ?case
    by (rule bootstrap_Inr) (simp add: domain_same_def consume_bootstrap_code_q_def Let_def append_audit_tx_def
        insert_audit_event_legacy_q_def)
next
  case (Verify token conf hashes now e ts d d')
  then show ?case
    by (auto simp: complete_mfa_enrollment_def mark_mfa_verified_q_def split: if_splits
        dest!: insert_recovery_codes_domain intro: domain_same_trans) (auto simp: domain_same_def)
qed (auto simp: identity_op_defs Let_def domain_same_def append_audit_def insert_audit_event_q_def append_audit_tx_def
    insert_audit_event_legacy_q_def drop_sessions_def delete_other_member_sessions_q_def delete_member_sessions_q_def
    delete_member_step_up_grants_q_def enable_totp_login_policy_q_def disable_totp_login_policy_q_def
    set_password_login_enabled_q_def split: if_splits)

section \<open>The invariant of the server\<close>

definition server_ok :: "app \<Rightarrow> core_db \<Rightarrow> bool" where
  "server_ok a d \<longleftrightarrow> domains_ok (co_fleet a) (db.truncate d) \<and> identity_ok d"

text \<open>The one master key, and an AEAD that opens what it sealed.\<close>

definition wired :: "app \<Rightarrow> bool" where
  "wired a \<longleftrightarrow> aead (sh_seal (co_secrets a)) (fh_open (co_fleet a)) \<and> fh_master (co_fleet a) = sh_master (co_secrets a)"

lemma new_app_wired: "aead (lb_seal lib) (lb_open lib) \<Longrightarrow> wired (new_app lib mk ca sg management_base agent_base opts)"
  by (simp add: wired_def new_app_def)

lemma truncate_tables [simp]:
  "t_apps (db.truncate d) = t_apps d" "t_envs (db.truncate d) = t_envs d" "t_secrets (db.truncate d) = t_secrets d"
  "t_versions (db.truncate d) = t_versions d" "t_bindings (db.truncate d) = t_bindings d" "t_drafts (db.truncate d) = t_drafts d"
  "t_selections (db.truncate d) = t_selections d" "t_revisions (db.truncate d) = t_revisions d"
  "t_files (db.truncate d) = t_files d" "t_nodes (db.truncate d) = t_nodes d" "t_groups (db.truncate d) = t_groups d"
  "t_members (db.truncate d) = t_members d" "t_assignments (db.truncate d) = t_assignments d"
  "t_tokens (db.truncate d) = t_tokens d" "t_tasks (db.truncate d) = t_tasks d" "t_audit (db.truncate d) = t_audit d"
  "audit_seq (db.truncate d) = audit_seq d"
  by (simp_all add: db.defs)

lemma extend_tables [simp]:
  fixes d :: core_db
  shows "t_admins (db.extend x (db.more d)) = t_admins d" "t_org (db.extend x (db.more d)) = t_org d"
    "t_mfa (db.extend x (db.more d)) = t_mfa d" "t_recovery (db.extend x (db.more d)) = t_recovery d"
    "t_sessions (db.extend x (db.more d)) = t_sessions d" "t_grants (db.extend x (db.more d)) = t_grants d"
    "t_challenges (db.extend x (db.more d)) = t_challenges d" "t_external (db.extend x (db.more d)) = t_external d"
    "t_oauth (db.extend x (db.more d)) = t_oauth d" "t_transactions (db.extend x (db.more d)) = t_transactions d"
    "t_bootstrap (db.extend x (db.more d)) = t_bootstrap d"
  by (cases d; simp add: db.defs)+

lemma extend_log [simp]: "t_audit (db.extend x m) = t_audit x" "audit_seq (db.extend x m) = audit_seq x"
  by (simp_all add: db.defs)

lemma truncate_extend [simp]: "db.truncate (db.extend x m) = x"
  by (cases x) (simp add: db.defs)

lemma extend_identity:
  assumes "identity_ok d" "audit_ok x" "0 \<le> audit_seq x"
  shows "identity_ok (db.extend x (db.more d))"
  using assms
  by (simp add: identity_ok_def single_admin_def sessions_ok_def factors_ok_def externals_ok_def admin_in_def log_ok_def audit_ok_def)

lemma domains_after:
  assumes "wired a" "server_ok a d" "effects (sealed_by (co_secrets a)) (db.truncate d) x"
  shows "server_ok a (db.extend x (db.more d))"
proof -
  have "domains_ok (co_fleet a) x"
    by (rule effects_domains [OF sealed_by_opens assms(3)]) (use assms(1,2) in \<open>simp_all add: wired_def server_ok_def\<close>)
  with assms(2) show ?thesis
    by (simp add: server_ok_def extend_identity domains_ok_def)
qed

lemma identity_after:
  assumes "server_ok a d" "identity_step d d'"
  shows "server_ok a d'"
proof -
  have id: "identity_ok d'" using assms by (auto simp: server_ok_def intro: identity.step_inv)
  have same: "domain_same d d'" by (rule identity_step_domain [OF assms(2)])
  then have "same_bundle_tables (db.truncate d) (db.truncate d')" "fleet_ok (db.truncate d')"
    "versions_sealed (co_fleet a) (db.truncate d')"
    using assms(1) by (auto simp: same_bundle_tables_def domain_same_def server_ok_def domains_ok_def versions_sealed_def
        intro: fleet_ok_same)
  with id assms(1) show ?thesis
    by (auto simp: server_ok_def domains_ok_def identity_ok_def log_ok_def audit_ok_def intro: same_tables_ok)
qed

lemma identity_steps_after: "identity_step\<^sup>*\<^sup>* d d' \<Longrightarrow> server_ok a d \<Longrightarrow> server_ok a d'"
  by (induction rule: rtranclp_induct) (auto intro: identity_after)

text \<open>Sliding the idle window is a use case of its own, and what the handler does comes after it.\<close>

lemma on_core_after:
  assumes "wired a" "server_ok a d" "on_core h r d = (rep, d')"
    and "effects (sealed_by (co_secrets a)) (db.truncate d) (snd (h r (db.truncate d)))"
  shows "server_ok a d'"
  using assms(3) domains_after [OF assms(1,2,4)] by (auto simp: on_core_def split: prod.splits)

lemma session_after:
  assumes run: "app_session a t1 t2 next r d = (rep, d')" and ok: "I d"
    and touched: "\<And>k idle. I (touch_session_activity k t2 idle d)"
    and handled: "\<And>r' x. rq_method r' = rq_method r \<Longrightarrow> I x \<Longrightarrow> I (snd (next r' x))"
  shows "I d'"
proof -
  have after: "I d'" if "I x" "next (r\<lparr>rq_session := s\<rparr>) x = (rep, d')" for x s
    using handled [of "r\<lparr>rq_session := s\<rparr>", OF _ that(1)] that(2) by simp
  show ?thesis
    using run ok by (auto simp: app_session_def require_session_def Let_def split: option.splits if_splits
        intro: after touched)
qed

lemma touched_after: "server_ok a d \<Longrightarrow> server_ok a (touch_session_activity k t idle d)"
  by (erule identity_after) (rule identity_step.TouchSession)

lemma domain_session_after:
  assumes a: "wired a" "server_ok a d" and run: "app_session a t1 t2 (on_core h) r d = (rep, d')"
    and route: "\<And>r' x. rq_method r' = rq_method r \<Longrightarrow> effects (sealed_by (co_secrets a)) x (snd (h r' x))"
  shows "server_ok a d'"
proof (rule session_after [where I = "server_ok a", OF run a(2) touched_after [OF a(2)]])
  show "server_ok a (snd (on_core h r' x))" if "rq_method r' = rq_method r" "server_ok a x" for r' x
    by (rule on_core_after [OF a(1) that(2) surjective_pairing]) (rule route [OF that(1)])
qed

lemma agent_after:
  assumes a: "wired a" "server_ok a d" and run: "agent_auth a now (on_core h) r d = (rep, d')"
    and route: "\<And>r' x. rq_method r' = rq_method r \<Longrightarrow> effects (sealed_by (co_secrets a)) x (snd (h r' x))"
  shows "server_ok a d'"
proof -
  have handled: "server_ok a d'" if "on_core h (r\<lparr>rq_serial := s\<rparr>) d = (rep, d')" for s
    by (rule on_core_after [OF a that]) (rule route, simp)
  show ?thesis
    using run a(2) by (auto simp: agent_auth_def agent_identity_middleware_def Let_def split: option.splits if_splits
        intro: handled)
qed

lemma view_reads: "view_route a r d rep d' \<Longrightarrow> d' = d"
  by (erule view_route.cases; simp)

lemma server_step_ok:
  assumes "wired a"
  shows "server_step a d d' \<Longrightarrow> server_ok a d \<Longrightarrow> server_ok a d'"
proof (induction rule: server_step.induct)
  case (Start now random d code d')
  then show ?case
    by (auto simp: emit_bootstrap_code_def Let_def split: if_splits intro: identity_after identity_step.SaveCode)
next
  case (Secrets r h t1 t2 d rep d')
  show ?case
    by (rule domain_session_after [OF assms Secrets(3,2)]) (use Secrets(1) in \<open>blast intro: route_effects(1)\<close>)
next
  case (Fleet r h t1 t2 d rep d')
  show ?case
    by (rule domain_session_after [OF assms Fleet(3,2)]) (use Fleet(1) in \<open>blast intro: route_effects(2)\<close>)
next
  case (Agent r h now d rep d')
  show ?case
    by (rule agent_after [OF assms Agent(3,2)]) (use Agent(1) in \<open>blast intro: route_effects(3)\<close>)
next
  case (Views r h t1 t2 d rep d')
  show ?case
    by (rule domain_session_after [OF assms Views(3,2)]) (use Views(1) in \<open>metis view_reads effects_refl\<close>)
next
  case (Identity r h t1 t2 d rep d')
  show ?case
    by (rule session_after [where I = "server_ok a", OF Identity(2,3) touched_after [OF Identity(3)]])
      (use Identity(1) in \<open>blast intro: identity_steps_after console_steps identity_route_reaches(1)\<close>)
next
  case (SignIn r d rep d')
  then show ?case by (blast intro: identity_steps_after console_steps identity_route_reaches(2))
next
  case (Open r d rep d1 d')
  show ?case
    unfolding Open(2) by (rule domains_after [OF assms Open(3)]) (rule route_effects(4) [OF Open(1)])
qed

lemma server_ok_empty: "server_ok a empty_core"
proof -
  have "db.truncate empty_core = empty_db" by (simp add: empty_core_def)
  moreover have "domains_ok h empty_db" for h
    using bundle_ok_empty fleet_ok_empty by (simp add: domains_ok_def versions_sealed_def audit_ok_def) (simp add: empty_db_def)
  ultimately show ?thesis by (simp add: server_ok_def identity_ok_empty)
qed

text \<open>Without the wiring the relation says nothing, so that the laws hold for every application.\<close>

interpretation server: step_system "\<lambda>d. d = empty_core" "\<lambda>d d'. wired a \<and> server_step a d d'" "server_ok a" for a
proof
  show "server_ok a s" if "s = empty_core" for s
    unfolding that by (rule server_ok_empty)
  show "server_ok a t" if "server_ok a s" "wired a \<and> server_step a s t" for s t
    using server_step_ok that by blast
qed

lemma wired_steps: "wired a \<Longrightarrow> (server_step a)\<^sup>*\<^sup>* d d' \<Longrightarrow> (\<lambda>d d'. wired a \<and> server_step a d d')\<^sup>*\<^sup>* d d'"
  by (rule mono_rtranclp [rule_format, rotated]) auto

lemma server_reachable_ok:
  assumes "aead (lb_seal lib) (lb_open lib)" "(server_step (new_app lib mk ca sg management_base agent_base opts))\<^sup>*\<^sup>* empty_core d"
  shows "server_ok (new_app lib mk ca sg management_base agent_base opts) d"
  by (rule server.reachable_inv [OF refl wired_steps [OF new_app_wired [OF assms(1)] assms(2)]])

end
