(* ===== verification/ServerProperties.thy ===== *)
theory ServerProperties
  imports Server
begin

text \<open>
  Properties that span the components of the server: the invariants of every reachable state, the form of the replies, and
  what a publication does for the Agents.
\<close>

section \<open>Reachable states\<close>

text \<open>For one application, from the empty database and by any sequence of requests to its surfaces.\<close>

theorem server_well_formed:
  assumes "aead (lb_seal lib) (lb_open lib)"
    and "(server_step (new_app lib mk ca sg management_base agent_base opts))\<^sup>*\<^sup>* empty_core d"
  shows "bundle_ok (db.truncate d) \<and> fleet_ok (db.truncate d) \<and>
    versions_sealed (co_fleet (new_app lib mk ca sg management_base agent_base opts)) (db.truncate d) \<and> identity_ok d"
  using server_reachable_ok [OF assms] by (simp add: server_ok_def domains_ok_def)

text \<open>No provider can be reached.\<close>

definition demo_provider :: provider_env where
  "demo_provider = \<lparr>pe_net = (\<lambda>policy q. None), pe_sha256 = id, pe_rsa = (\<lambda>n e digest sig. False), pe_metadata = (\<lambda>b. None),
     pe_id_token = (\<lambda>b. None), pe_header = (\<lambda>b. None), pe_claims = (\<lambda>b. None), pe_text = (\<lambda>b. None), pe_texts = (\<lambda>b. None),
     pe_keys = (\<lambda>b. None), pe_access_token = (\<lambda>b. None), pe_object = (\<lambda>b. None)\<rparr>"

definition demo_library :: library where
  "demo_library = \<lparr>lb_sha256 = id, lb_argon = (\<lambda>p s t m th n. take n (p @ replicate n (CHR 0x00))),
     lb_hmac = (\<lambda>k m. take 20 (k @ m @ replicate 20 (CHR 0x00))), lb_seal = toy_seal, lb_open = toy_open,
     lb_x509 = demo_x509, lb_recipient = Some, lb_encrypt = (\<lambda>r v. v), lb_sign = (\<lambda>k m. m), lb_verify = (\<lambda>k m s. m = s),
     lb_coll = id, lb_fold = id, lb_printable = (\<lambda>r. True), lb_provider = demo_provider\<rparr>"

definition demo_options :: options where
  "demo_options = \<lparr>op_public_url = ''https://console'', op_agent_url = ''https://core'', op_trusted = [], op_cert_header = ''X-Cert'', op_offline_after = 0,
     op_curl_opts = [], op_oidc = None, op_oidc_unavailable = ''OIDC is not configured'',
     op_oauth = None, op_oauth_unavailable = ''OAuth is not configured''\<rparr>"

definition demo_app :: app where
  "demo_app = new_app demo_library (replicate 32 (CHR ''m'')) demo_ca (signer_of (replicate 64 (CHR ''s''))) ''/api'' ''/agent'' demo_options"

theorem server_well_formed_witness:
  "\<exists>code d. emit_bootstrap_code demo_app 5 ''random bytes'' empty_core = Inr (code, d) \<and> code \<noteq> [] \<and> identity_ok d"
proof -
  obtain code d where run: "emit_bootstrap_code demo_app 5 ''random bytes'' empty_core = Inr (code, d)" "code \<noteq> []"
    by (simp add: emit_bootstrap_code_def human_identity_count_def human_identity_count_q_def empty_core_def db.defs
        save_bootstrap_code_def save_bootstrap_code_q_def Let_def new_secret_def raw_url_encode_def encode_sextets_def)
  have "(server_step (new_app demo_library (replicate 32 (CHR ''m'')) demo_ca (signer_of (replicate 64 (CHR ''s''))) ''/api''
      ''/agent'' demo_options))\<^sup>*\<^sup>* empty_core d"
    using server_step.Start [OF run(1)] by (simp add: demo_app_def r_into_rtranclp)
  from server_well_formed [OF _ this] toy_aead run show ?thesis
    by (auto simp: demo_library_def)
qed

section \<open>Replies\<close>

text \<open>Behind the middlewares, a route of the domains answers with a success or with the error envelope, the status fitting the code;
  the list of the nodes can also panic.\<close>

lemma reply_envelopes:
  assumes "secrets_route s r d rep d' \<or> fleet_route h r d rep d' \<or> agent_route h r d rep d'"
  shows "well_formed_reply rep \<or> rep = Dropped \<and> is_get r \<and> fleet_route h r d rep d'"
  using assms secrets_replies fleet_replies agent_replies by blast

definition demo_call :: "string \<Rightarrow> request" where
  "demo_call method = \<lparr>rq_method = method, rq_uri = ''/'', rq_remote = [], rq_header = (\<lambda>x. []), rq_cookie = (\<lambda>c. None),
     rq_query = (\<lambda>q. []), rq_session = None, rq_serial = None\<rparr>"

section \<open>Publication reaches the Agents\<close>

text \<open>What a successful publication request did.\<close>

lemma publish_reply:
  assumes "handle_publish s now ts rid r app env given d = (Replied st v, d')"
  obtains reason d1 d2 msg where "publish rid app env (actor_from r) reason ts now d = Inr (v, d1)"
    "advance_desired_revision app env (rev_id v) d1 = Inr d2"
    "d' = audit_by now ts r (actor_from r) ''revision.publish'' (rev_id v) msg d2" "st = 201"
  using assms by (auto simp: handle_publish_def split: option.splits sum.splits prod.splits if_splits)

lemma audit_tables [simp]:
  "t_assignments (audit_by now ts r actor action resource result d) = t_assignments d"
  "t_members (audit_by now ts r actor action resource result d) = t_members d"
  "t_revisions (audit_by now ts r actor action resource result d) = t_revisions d"
  "t_nodes (audit_by now ts r actor action resource result d) = t_nodes d"
  "t_tasks (audit_by now ts r actor action resource result d) = t_tasks d"
  "t_drafts (audit_by now ts r actor action resource result d) = t_drafts d"
  "t_bindings (audit_by now ts r actor action resource result d) = t_bindings d"
  by (simp_all add: audit_by_def append_audit_def insert_audit_event_q_def)

text \<open>The members of the Node Groups with an active Assignment of the Secret Bundle are assigned the new revision.\<close>

lemma publish_assigns:
  assumes run: "handle_publish s now ts rid r app env given d = (Replied st v, d')" and ok: "bundle_ok d"
    and a: "a \<in> actives d" "as_app a = app" "as_env a = env" "member d (as_group a) n"
  shows "rev_id v \<in> set (assigned_revisions n d')"
proof -
  obtain reason d1 d2 msg where pub: "publish rid app env (actor_from r) reason ts now d = Inr (v, d1)"
    and adv: "advance_desired_revision app env (rev_id v) d1 = Inr d2"
    and d': "d' = audit_by now ts r (actor_from r) ''revision.publish'' (rev_id v) msg d2"
    by (rule publish_reply [OF run])
  have same: "t_assignments d1 = t_assignments d" "t_members d1 = t_members d"
  proof -
    from pub have "fleet_same d d1"
      by (rule publish_Inr) (rule new_revision_fleet)
    then show "t_assignments d1 = t_assignments d" "t_members d1 = t_members d" by (simp_all add: fleet_same_def)
  qed
  from adv have d2: "d2 = d1\<lparr>t_assignments := upd (\<lambda>a. as_app a = app \<and> as_env a = env \<and> as_status a = Active)
      (\<lambda>a. a\<lparr>as_rev := rev_id v\<rparr>) (t_assignments d1)\<rparr>"
    by (auto simp: advance_desired_revision_def advance_desired_revision_q_def Let_def split: if_splits)
  have "a\<lparr>as_rev := rev_id v\<rparr> \<in> actives d'"
    using a by (force simp: actives_def d' d2 set_upd same)
  moreover have "member d' (as_group (a\<lparr>as_rev := rev_id v\<rparr>)) n"
    using a(4) by (simp add: member_def d' d2 same)
  ultimately show ?thesis
    unfolding assigned_iff by (intro bexI [of _ "a\<lparr>as_rev := rev_id v\<rparr>"]) simp_all
qed

text \<open>C5: A publication reaches the Agents. Once the publication request has succeeded, the next poll of every Managed Node that has an
  active Assignment of the Secret Bundle through one of its Node Groups is answered, unless the Agent already names
  the new ETag, with an envelope of the new revision, which the Agent opens to the files of that revision.\<close>

theorem publication_reaches_agents:
  assumes "domains_ok h d" and "handle_publish s pnow ts rid pr app env given d = (Replied st v, d1)"
    and "a \<in> actives d" "as_app a = app" "as_env a = env" "member d (as_group a) (node_id node)"
    and "node_from_request r d1 = Some node" "keys_fit h ed_verify pub age_decrypt identity (node_age node)"
    and "1 \<le> cl_year (civil_of (now + 10 * minute))" "cl_year (civil_of (now + 10 * minute)) \<le> 9999"
    and "at \<le> (now + 10 * minute) div second * second"
    and "rq_header r ''If-None-Match'' \<noteq>
      etag_of (fh_sha256 h) (assigned_revisions (node_id node) d1 @ map ci_asg (cleanup_for node d1))"
  shows "\<exists>resp d2 e. handle_desired h now r d1 = (Replied 200 (Some resp), d2) \<and> e \<in> set (dv_envelopes resp) \<and>
    delivers h ed_verify pub age_decrypt identity at d1 (node_id node) (rev_id v) e"
proof -
  have "effects (\<lambda>_. False) d d1" using assms(2) by (rule release_effects)
  from effects_domains [OF _ this assms(1)] have ok: "bundle_ok d1" "fleet_ok d1" "versions_sealed h d1"
    by (simp_all add: domains_ok_def)
  have "bundle_ok d" using assms(1) by (simp add: domains_ok_def)
  from publish_assigns [OF assms(2) this assms(3-6)]
  obtain k where k: "k < length (assigned_revisions (node_id node) d1)" "assigned_revisions (node_id node) d1 ! k = rev_id v"
    by (auto simp: in_set_conv_nth)
  obtain envs d2 where reply: "handle_desired h now r d1 = (Replied 200 (Some \<lparr>dv_etag = etag_of (fh_sha256 h)
      (assigned_revisions (node_id node) d1 @ map ci_asg (cleanup_for node d1)), dv_envelopes = envs,
      dv_cleanup = cleanup_for node d1, dv_poll = node_poll node\<rparr>), d2)"
    and envs: "list_all2 (delivers h ed_verify pub age_decrypt identity at d1 (node_id node))
      (assigned_revisions (node_id node) d1) envs"
    using desired_state_eq [OF ok assms(7-11) refl] assms(12) by auto
  have "envs ! k \<in> set envs" "delivers h ed_verify pub age_decrypt identity at d1 (node_id node) (rev_id v) (envs ! k)"
    using list_all2_nthD [OF envs k(1)] k list_all2_lengthD [OF envs] by auto
  with reply show ?thesis by fastforce
qed

definition demo_ready :: db where
  "demo_ready = demo_delivery\<lparr>t_drafts := [\<lparr>dr_id = ''dft'', dr_app = ''app'', dr_env = ''env'', dr_version = 2\<rparr>]\<rparr>"

definition demo_secrets :: secrets_handler where
  "demo_secrets = \<lparr>sh_seal = toy_seal, sh_master = replicate 32 (CHR ''m''), sh_coll = id\<rparr>"

lemma demo_ready_ok: "domains_ok demo_handler demo_ready"
proof -
  have same: "t_apps demo_ready = t_apps demo_delivery" "t_envs demo_ready = t_envs demo_delivery"
    "t_secrets demo_ready = t_secrets demo_delivery" "t_versions demo_ready = t_versions demo_delivery"
    "t_bindings demo_ready = t_bindings demo_delivery" "t_selections demo_ready = t_selections demo_delivery"
    "t_revisions demo_ready = t_revisions demo_delivery" "t_files demo_ready = t_files demo_delivery"
    by (simp_all add: demo_ready_def)
  have "bundle_ok demo_ready"
  proof (rule bundle_okI)
    show "keys_ok demo_ready"
      by (simp add: keys_ok_def file_key_def demo_ready_def demo_delivery_defs)
    show "owners_ok demo_ready"
      by (simp add: owners_ok_def env_in_def demo_ready_def demo_delivery_defs)
    show "contents_ok demo_ready"
      by (simp add: contents_ok_def lookup_defs demo_ready_def demo_delivery_defs)
    have "seqs_of ''sec'' demo_ready = [1..1]"
      by (simp add: seqs_of_def demo_ready_def demo_delivery_defs)
    then show "total_ok demo_ready"
      by (simp add: total_ok_def demo_ready_def demo_delivery_defs) (auto intro: exI [of _ 1])
  qed
  moreover have "fleet_ok demo_ready"
    by (rule fleet_ok_same [OF demo_delivery_fleet]) (simp_all add: demo_ready_def)
  moreover have "versions_sealed demo_handler demo_ready"
    using demo_delivery_keys(1) by (simp add: versions_sealed_def same)
  moreover have "audit_ok demo_ready" "0 \<le> audit_seq demo_ready"
    by (simp_all add: audit_ok_def demo_ready_def demo_delivery_defs)
  ultimately show ?thesis by (simp add: domains_ok_def)
qed

theorem publication_reaches_agents_witness:
  "\<exists>v d1 resp d2 e. handle_publish demo_secrets 9 9 ''rev2'' (demo_call ''POST'') ''app'' ''env'' (Some None) demo_ready =
      (Replied 201 v, d1) \<and> handle_desired demo_handler (1700000000 * second) demo_poll d1 = (Replied 200 (Some resp), d2) \<and>
      e \<in> set (dv_envelopes resp) \<and> nv_revision e = ''rev2''"
proof -
  define out where "out = handle_publish demo_secrets 9 9 ''rev2'' (demo_call ''POST'') ''app'' ''env'' (Some None) demo_ready"
  have "case out of (Replied st v, d1) \<Rightarrow> st = 201 \<and> rev_id v = ''rev2'' \<and> t_nodes d1 = t_nodes demo_ready | _ \<Rightarrow> False"
    unfolding out_def by code_simp
  then obtain v d1 where run: "out = (Replied 201 v, d1)" "rev_id v = ''rev2''" "t_nodes d1 = t_nodes demo_ready"
    by (auto split: prod.splits reply.splits)
  obtain node where node: "node_from_request demo_poll d1 = Some node" "node_id node = ''node''" "node_age node = ''age1''"
    by (simp add: node_from_request_def agent_serial_from_context_def demo_poll_def node_by_serial_def node_by_serial_q_def
        row_of_def one_def node_from_list_def run(3) demo_ready_def demo_delivery_defs)
  let ?now = "1700000000 * second"
  have year: "cl_year (civil_of (?now + 10 * minute)) = 2023"
    by (simp add: cl_year_civil_of year_of_day_def epoch_day_def)
  have act: "\<lparr>as_id = ''asg'', as_group = ''grp'', as_rev = ''rev1'', as_created = 8, as_app = ''app'', as_env = ''env'',
      as_status = Active\<rparr> \<in> actives demo_ready" "member demo_ready ''grp'' ''node''"
    by (simp_all add: actives_def member_def demo_ready_def demo_delivery_defs)
  have other: "rq_header demo_poll ''If-None-Match'' \<noteq> etag_of (fh_sha256 demo_handler) ids" for ids
    by (simp add: demo_poll_def etag_of_def)
  have keys: "keys_fit demo_handler (\<lambda>k m s. m = s) (replicate 32 (CHR ''p'')) (\<lambda>i. Some) [] (node_age node)"
    unfolding node(3) by (rule demo_delivery_keys(2))
  obtain resp d2 e where reply: "handle_desired demo_handler ?now demo_poll d1 = (Replied 200 (Some resp), d2)"
    "e \<in> set (dv_envelopes resp)"
    "delivers demo_handler (\<lambda>k m s. m = s) (replicate 32 (CHR ''p'')) (\<lambda>i. Some) [] 0 d1 (node_id node) (rev_id v) e"
    using publication_reaches_agents [OF demo_ready_ok run(1) [unfolded out_def] act(1) _ _ _ node(1) keys _ _ _ other,
        of ?now 0] year act(2) node(2) by auto
  have "nv_revision e = ''rev2''" using reply(3) run(2) by (simp add: delivers_def)
  with reply run(1) show ?thesis unfolding out_def by blast
qed

end
