(* ===== verification/EnrollmentRequests.thy ===== *)
theory EnrollmentRequests
  imports ServerProperties MiddlewareProperties Enrollment
begin

text \<open>
  From the Enrollment Token to the Agent surface: the certificate an enrollment request returns is the one by which the
  middleware recognises the Agent afterwards, as the Managed Node of the token.
\<close>

section \<open>The effect of an enrollment\<close>

lemma activate_row:
  assumes "activate_pending_node i serial age cert expires d = Inr d'"
  obtains n where "n \<in> set (t_nodes d')" "nd_id n = i" "nd_serial n = serial" "nd_age n = age"
proof -
  from assms have ex: "cnt (\<lambda>n. nd_id n = i) (t_nodes d) \<noteq> 0" and d': "d' = d\<lparr>t_nodes := upd (\<lambda>n. nd_id n = i)
      (\<lambda>n. n\<lparr>nd_serial := serial, nd_age := age, nd_cert := cert, nd_cert_expires := expires\<rparr>) (t_nodes d)\<rparr>"
    by (auto simp: activate_pending_node_def activate_pending_node_q_def Let_def split: if_splits)
  from ex obtain n where "n \<in> set (t_nodes d)" "nd_id n = i" by (auto simp: cnt_def filter_empty_conv)
  then have "n\<lparr>nd_serial := serial, nd_age := age, nd_cert := cert, nd_cert_expires := expires\<rparr> \<in> set (t_nodes d')"
    by (force simp: d' set_upd_split)
  from that [OF this] \<open>nd_id n = i\<close> show thesis by simp
qed

lemma register_row:
  assumes "register_node i name serial age cert expires ts d = Inr d'"
  obtains n where "n \<in> set (t_nodes d')" "nd_id n = i" "nd_serial n = serial" "nd_age n = age"
proof -
  from assms have "\<exists>n \<in> set (t_nodes d'). nd_id n = i \<and> nd_serial n = serial \<and> nd_age n = age"
    by (auto simp: register_node_def register_node_q_def split: if_splits)
  with that show thesis by blast
qed

text \<open>A successful enrollment issued the certificate it answers with, and left a row of the node with its serial.\<close>

lemma enrollment_done:
  assumes "handle_enroll h now ts clock fresh_name fresh_node serial rnd r (Some b) d = (Replied st v, d')"
  obtains expires n where "issue_agent_cert (fh_x509 h) (fh_ca h) (el_node v) (nb_csr b) cert_ttl clock serial rnd =
      Inr (el_cert v, serial_text serial, expires)" "expires = clock + cert_ttl"
    "n \<in> set (t_nodes d')" "nd_id n = el_node v" "nd_serial n = serial_text serial" "nd_age n = nb_age b"
proof -
  from assms have fields: "\<not> (nb_token b = [] \<or> nb_age b = [] \<or> nb_csr b = [])"
    by (auto simp: handle_enroll_def)
  with assms obtain t d1 where used: "consume_enrollment_token (hash_token (fh_sha256 h) (nb_token b)) now d = Inr (t, d1)"
    by (auto simp: handle_enroll_def split: sum.splits)
  define node where "node = (case et_node t of None \<Rightarrow> fresh_node | Some n \<Rightarrow> n)"
  from assms used fields obtain pem shown expires
    where issued: "issue_agent_cert (fh_x509 h) (fh_ca h) node (nb_csr b) cert_ttl clock serial rnd = Inr (pem, shown, expires)"
    by (auto simp: handle_enroll_def Let_def node_def split: sum.splits if_splits)
  have shown: "shown = serial_text serial" "expires = clock + cert_ttl"
    using issued by (auto simp: issue_agent_cert_def split: option.splits if_splits)
  have v: "el_node v = node" "el_cert v = pem"
    using assms used fields issued by (auto simp: handle_enroll_def Let_def node_def split: sum.splits if_splits option.splits)
  have "\<exists>n \<in> set (t_nodes d'). nd_id n = node \<and> nd_serial n = shown \<and> nd_age n = nb_age b"
  proof (cases "et_node t")
    case None
    with assms used fields issued obtain name d2 where reg: "register_node node name shown (nb_age b) pem expires ts d1 = Inr d2"
      and "t_nodes d' = t_nodes d2"
      by (auto simp: handle_enroll_def Let_def node_def split: sum.splits if_splits)
    with register_row [OF reg] show ?thesis by metis
  next
    case (Some i)
    with assms used fields issued obtain d2 where act: "activate_pending_node node shown (nb_age b) pem expires d1 = Inr d2"
      and "t_nodes d' = t_nodes d2"
      by (auto simp: handle_enroll_def Let_def node_def split: sum.splits if_splits)
    with activate_row [OF act] show ?thesis by metis
  qed
  with that issued shown v show thesis by auto
qed

section \<open>Recognition\<close>

lemma serial_text_nonempty: "serial_text n \<noteq> []"
  by (simp add: serial_text_def)

lemma node_by_serial_row:
  assumes "fleet_ok d" "n \<in> set (t_nodes d)" "nd_serial n \<noteq> []"
  shows "node_from_request (r\<lparr>rq_serial := Some (nd_serial n)\<rparr>) d = Some ((node_from_list n)\<lparr>node_age := nd_age n\<rparr>)"
proof -
  have "distinct (map nd_serial (t_nodes d))" using assms(1) by (simp add: fleet_ok_def fleet_keys_def)
  from one_Some_unique [OF this assms(2) refl] assms(3) show ?thesis
    by (simp add: node_from_request_def agent_serial_from_context_def node_by_serial_def node_by_serial_q_def row_of_def)
qed

text \<open>What a request of the Agent has to carry: the certificate, a fresh timestamp and a signature under its key.\<close>

definition signed_request :: "ed_verify \<Rightarrow> bytes \<Rightarrow> bytes \<Rightarrow> time \<Rightarrow> request \<Rightarrow> bool" where
  "signed_request ed cert key now r \<longleftrightarrow>
     (let cert64 = trim_space (rq_header r ''X-Autosecrets-Cert''); stamp = trim_space (rq_header r ''X-Autosecrets-Ts'');
          sig64 = trim_space (rq_header r ''X-Autosecrets-Sig'') in
      cert64 \<noteq> [] \<and> stamp \<noteq> [] \<and> sig64 \<noteq> [] \<and> std_decode cert64 = Some cert \<and>
      (case parse_int 10 stamp of None \<Rightarrow> False | Some s \<Rightarrow> \<bar>now - s * second\<bar> \<le> agent_proof_max_skew) \<and>
      (case std_decode sig64 of None \<Rightarrow> False | Some sig \<Rightarrow> ed key (proof_message stamp r) sig))"

lemma signed_request_admitted:
  assumes "signed_request ed cert key now r" "verifier cert now = Some c" "ac_key c = Some key" "0 \<le> now" "now < 2 ^ 63"
  shows "agent_identity_middleware trusted header (Some verifier) ed now next r s =
    next (r\<lparr>rq_serial := Some (serial_text (ac_serial c))\<rparr>) s"
proof -
  obtain stamp sig where *: "parse_int 10 (trim_space (rq_header r ''X-Autosecrets-Ts'')) = Some stamp"
    "\<bar>now - stamp * second\<bar> \<le> agent_proof_max_skew" "std_decode (trim_space (rq_header r ''X-Autosecrets-Sig'')) = Some sig"
    using assms(1) by (auto simp: signed_request_def Let_def split: option.splits)
  have "within_skew stamp now"
    using proof_window [OF assms(4,5)] parse_int_range [OF *(1)] *(2) by blast
  then show ?thesis
    using assms * by (simp add: agent_identity_middleware_def agent_proof_serial_def verify_agent_proof_def signed_request_def Let_def)
qed

text \<open>What may happen afterwards: any step of the stores and any audit event, but the deletion of the node and its own enrollment
  anew.\<close>

definition undisturbed :: "uuid \<Rightarrow> db \<Rightarrow> db \<Rightarrow> bool" where
  "undisturbed i d d' \<longleftrightarrow> db_step (\<lambda>_. True) d d' \<and> delete_node i d \<noteq> Inr d' \<and>
     (\<forall>serial age cert expires. activate_pending_node i serial age cert expires d \<noteq> Inr d')"

definition enrolled_as :: "uuid \<Rightarrow> string \<Rightarrow> string \<Rightarrow> db \<Rightarrow> bool" where
  "enrolled_as i serial age d \<longleftrightarrow> (\<exists>n \<in> set (t_nodes d). nd_id n = i \<and> nd_serial n = serial \<and> nd_age n = age)"

definition enrolled_key :: "node_row \<Rightarrow> uuid \<times> string \<times> string" where
  "enrolled_key n = (nd_id n, nd_serial n, nd_age n)"

lemma enrolled_as_keys: "enrolled_as i serial age d \<longleftrightarrow> (i, serial, age) \<in> set (map enrolled_key (t_nodes d))"
  by (auto simp: enrolled_as_def enrolled_key_def)

text \<open>A step keeps the identities of the nodes and adds at most one, or it is one of the two excluded ones, of some node.\<close>

lemma fleet_step_nodes:
  assumes "fleet_step d d'"
  shows "(\<exists>ks. map enrolled_key (t_nodes d') = map enrolled_key (t_nodes d) @ ks) \<or> (\<exists>i. delete_node i d = Inr d') \<or>
    (\<exists>i serial age cert expires. activate_pending_node i serial age cert expires d = Inr d')"
  using assms
  by cases (blast | (rule disjI1; force simp: fleet_op_defs Let_def map_upd_same enrolled_key_def split: if_splits option.splits))+

lemma fleet_step_enrolled:
  assumes "fleet_step d d'" "enrolled_as i serial age d" "delete_node i d \<noteq> Inr d'"
    and "\<forall>serial age cert expires. activate_pending_node i serial age cert expires d \<noteq> Inr d'"
  shows "enrolled_as i serial age d'"
proof -
  from assms(2) obtain n where n: "n \<in> set (t_nodes d)" "nd_id n = i" "nd_serial n = serial" "nd_age n = age"
    by (auto simp: enrolled_as_def)
  from fleet_step_nodes [OF assms(1)] show ?thesis
  proof (elim disjE exE)
    fix ks assume "map enrolled_key (t_nodes d') = map enrolled_key (t_nodes d) @ ks"
    with assms(2) show ?thesis by (simp only: enrolled_as_keys set_append UnI1)
  next
    fix j assume drop: "delete_node j d = Inr d'"
    with assms(3) have "j \<noteq> i" by blast
    with drop n show ?thesis
      by (auto simp: delete_node_def delete_node_q_def Let_def enrolled_as_def del_def drop_nodes_def split: if_splits)
  next
    fix j s a c e assume activate: "activate_pending_node j s a c e d = Inr d'"
    with assms(4) have "j \<noteq> i" by blast
    from activate obtain f where "t_nodes d' = upd (\<lambda>n. nd_id n = j) f (t_nodes d)"
      by (auto simp: activate_pending_node_def activate_pending_node_q_def Let_def split: if_splits)
    with n \<open>j \<noteq> i\<close> show ?thesis by (auto simp: enrolled_as_def set_upd_split)
  qed
qed

lemma undisturbed_keeps:
  assumes "undisturbed i d d'" "bundle_ok d" "fleet_ok d" "enrolled_as i serial age d"
  shows "bundle_ok d' \<and> fleet_ok d' \<and> enrolled_as i serial age d'"
proof -
  from assms(1) have "db_step (\<lambda>_. True) d d'" by (simp add: undisturbed_def)
  then show ?thesis
  proof cases
    case Store
    then show ?thesis
    proof (cases "fleet_step d d'")
      case True
      with fleet_step_enrolled [OF True assms(4)] assms(1) core_step_ok [OF Store(1) assms(2,3)] show ?thesis
        by (auto simp: undisturbed_def)
    next
      case False
      with Store have "bundle_step d d'" by (simp add: core_step_def)
      from bundle_step_shrinks [OF this assms(2)] have "t_nodes d' = t_nodes d" by (simp add: fleet_shrinks_def)
      with assms(4) core_step_ok [OF Store(1) assms(2,3)] show ?thesis by (simp add: enrolled_as_def)
    qed
  next
    case (Audit e ts)
    have "same_bundle_tables d d'" by (simp add: Audit same_bundle_tables_def append_audit_def insert_audit_event_q_def)
    then have "bundle_ok d'" using assms(2) by (rule same_tables_ok)
    moreover have "fleet_ok d'" using assms(3) by (rule fleet_ok_same)
        (simp_all add: Audit append_audit_def insert_audit_event_q_def)
    ultimately show ?thesis
      using assms(4) by (simp add: Audit enrolled_as_def append_audit_def insert_audit_event_q_def)
  qed
qed

lemma undisturbed_later:
  assumes "(undisturbed i)\<^sup>*\<^sup>* d d'" "bundle_ok d" "fleet_ok d" "enrolled_as i serial age d"
  shows "fleet_ok d' \<and> enrolled_as i serial age d'"
proof -
  from assms have "bundle_ok d' \<and> fleet_ok d' \<and> enrolled_as i serial age d'"
    by (induction rule: rtranclp_induct) (auto dest: undisturbed_keeps)
  then show ?thesis by blast
qed

text \<open>C6: An enrolled Agent is recognised. When an enrollment request has succeeded on a well-formed database, any request that
  carries the certificate of its reply, signed with the Ed25519 key of its certificate request within five minutes, passes
  the Agent middleware for as long as neither that certificate nor the one of the Agent CA has expired, and the Managed Node its
  handler works for is the one of the reply, with the age recipient the Agent enrolled, in whatever state the stores have
  reached since, unless the node was deleted or enrolled again. The Agent CA is one that may sign certificates, and the
  x509 package makes and verifies certificates as documented.\<close>

theorem enrolled_agent_recognised:
  assumes "domains_ok h d" and "x509_laws (fh_x509 h)" and "signing_root (fh_x509 h) (ca_cert (fh_ca h)) (ca_key (fh_ca h))"
    and "handle_enroll h ct ts clock fresh_name fresh_node serial rnd er (Some b) d = (Replied st v, d')"
    and "xc_pem_decode (fh_x509 h) (nb_csr b) = Some (kind, block)" "xc_parse_csr (fh_x509 h) block = Some req"
    and "cq_key req = Ed25519Key key"
    and "signed_request ed (el_cert v) key now r" and "0 \<le> now" "now < 2 ^ 63"
    and "whole_seconds (clock - minute) \<le> now" "now \<le> whole_seconds (clock + cert_ttl)"
    and "valid_at (ca_cert (fh_ca h)) now"
    and "(undisturbed (el_node v))\<^sup>*\<^sup>* d' d2"
  shows "\<exists>r' node. agent_identity_middleware trusted header (Some (ca_verifier (fh_x509 h) (fh_ca h))) ed now next r s = next r' s \<and>
    r' = r\<lparr>rq_serial := Some (serial_text serial)\<rparr> \<and>
    node_from_request r' d2 = Some node \<and> node_id node = el_node v \<and> node_age node = nb_age b"
proof -
  obtain expires n where issued: "issue_agent_cert (fh_x509 h) (fh_ca h) (el_node v) (nb_csr b) cert_ttl clock serial rnd =
      Inr (el_cert v, serial_text serial, expires)" and expires: "expires = clock + cert_ttl"
    and n: "n \<in> set (t_nodes d')" "nd_id n = el_node v" "nd_serial n = serial_text serial" "nd_age n = nb_age b"
    by (rule enrollment_done [OF assms(4)])
  have "effects (\<lambda>_. False) d d'" by (rule enroll_effects [OF assms(4)])
  from effects_domains [OF _ this assms(1)] have "bundle_ok d'" "fleet_ok d'" by (simp_all add: domains_ok_def)
  then have later: "fleet_ok d2" "enrolled_as (el_node v) (serial_text serial) (nb_age b) d2"
    using undisturbed_later [OF assms(14)] n by (auto simp: enrolled_as_def)
  then obtain n2 where n2: "n2 \<in> set (t_nodes d2)" "nd_id n2 = el_node v" "nd_serial n2 = serial_text serial" "nd_age n2 = nb_age b"
    by (auto simp: enrolled_as_def)
  obtain cert where cert: "parse_agent_cert (fh_x509 h) (fh_ca h) (el_cert v) now = Inr cert" "ce_key cert = Ed25519Key key"
    "serial_text (ce_serial cert) = serial_text serial"
  proof (rule issued_accepted [OF assms(2,3) issued assms(11) _ assms(13)])
    show "now \<le> whole_seconds expires" using assms(12) expires by simp
    fix kind' block' req' cert
    assume *: "xc_pem_decode (fh_x509 h) (nb_csr b) = Some (kind', block')" "xc_parse_csr (fh_x509 h) block' = Some req'"
      "parse_agent_cert (fh_x509 h) (fh_ca h) (el_cert v) now = Inr cert" "ce_key cert = cq_key req'"
      "serial_text (ce_serial cert) = serial_text serial"
    have "req' = req" using *(1,2) assms(5,6) by simp
    with * that [of cert] assms(7) show thesis by simp
  qed
  have "agent_identity_middleware trusted header (Some (ca_verifier (fh_x509 h) (fh_ca h))) ed now next r s =
      next (r\<lparr>rq_serial := Some (serial_text serial)\<rparr>) s"
    using signed_request_admitted [OF assms(8) _ _ assms(9,10), of "ca_verifier (fh_x509 h) (fh_ca h)" "agent_cert_of cert"] cert
    by (simp add: ca_verifier_def agent_cert_of_def)
  moreover have "node_from_request (r\<lparr>rq_serial := Some (serial_text serial)\<rparr>) d2 = Some ((node_from_list n2)\<lparr>node_age := nd_age n2\<rparr>)"
    using node_by_serial_row [OF later(1) n2(1)] n2(3) serial_text_nonempty by metis
  ultimately show ?thesis
    using n2 by (auto simp: node_from_list_def)
qed

definition demo_enroll :: enroll_body where
  "demo_enroll = \<lparr>nb_token = ''token'', nb_name = [], nb_age = ''age2'',
     nb_csr = demo_pem_encode ''CERTIFICATE REQUEST'' demo_agent_key\<rparr>"

definition demo_agent_request :: request where
  "demo_agent_request = \<lparr>rq_method = ''GET'', rq_uri = ''/desired'', rq_remote = [],
     rq_header = (\<lambda>x. if x = ''X-Autosecrets-Cert'' then ''LUNFUlRJRklDQVRFCmxlYWYt''
       else if x = ''X-Autosecrets-Ts'' then ''1700000000'' else if x = ''X-Autosecrets-Sig'' then ''AAAA'' else []),
     rq_cookie = (\<lambda>c. None), rq_query = (\<lambda>q. []), rq_session = None, rq_serial = None\<rparr>"

theorem enrolled_agent_recognised_witness:
  "\<exists>d d' d2 v r' node. handle_enroll demo_handler 8 8 (1700000000 * second) [] [] 171 [] (demo_call ''POST'') (Some demo_enroll) d =
     (Replied 201 v, d') \<and> (undisturbed ''node'')\<^sup>*\<^sup>* d' d2 \<and> node_from_request r' d2 = Some node \<and> node_id node = ''node'' \<and> node_age node = ''age2''"
proof -
  obtain d where d: "create_node_enrollment_token (hash_token id ''token'') ''host'' ''node'' 9 1 demo_ready = Inr d"
    "t_nodes d = t_nodes demo_ready"
    by (simp add: create_node_enrollment_token_def create_node_enrollment_token_q_def demo_ready_def demo_delivery_defs)
  have "effects (\<lambda>_. False) demo_ready d"
    by (rule effects_fleet) (rule fleet_step.NewToken [OF d(1)])
  from effects_domains [OF _ this demo_ready_ok] have ok: "domains_ok demo_handler d" by simp
  define out where "out = handle_enroll demo_handler 8 8 (1700000000 * second) [] [] 171 [] (demo_call ''POST'') (Some demo_enroll) d"
  have fields: "nb_token demo_enroll = ''token''" "nb_age demo_enroll = ''age2''" "nb_csr demo_enroll \<noteq> []" "fh_sha256 demo_handler = id"
    "fh_x509 demo_handler = demo_x509" "fh_ca demo_handler = demo_ca"
    by (simp_all add: demo_enroll_def demo_handler_def demo_pem_encode_def)
  obtain t d1 where used: "consume_enrollment_token (hash_token id ''token'') 8 d = Inr (t, d1)" "et_node t = Some ''node''"
    "t_nodes d1 = t_nodes demo_ready"
    using d(1) by (auto simp: create_node_enrollment_token_def create_node_enrollment_token_q_def consume_token_eq one_def
        demo_ready_def demo_delivery_defs)
  obtain expires where issued: "issue_agent_cert demo_x509 demo_ca ''node'' (nb_csr demo_enroll) cert_ttl (1700000000 * second) 171 [] =
      Inr (demo_pem_encode ''CERTIFICATE'' ''leaf'', serial_text 171, expires)"
  proof -
    have "demo_pem_decode (nb_csr demo_enroll) = Some (''CERTIFICATE REQUEST'', demo_agent_key)" by code_simp
    then show thesis
      by (intro that) (simp add: issue_agent_cert_def demo_x509_def demo_ca_def demo_root_def agent_template_def demo_template_def
          subject_key_id_def cert_ttl_def)
  qed
  obtain d2 where "activate_pending_node ''node'' (serial_text 171) ''age2'' (demo_pem_encode ''CERTIFICATE'' ''leaf'') expires d1 = Inr d2"
    by (simp add: activate_pending_node_def activate_pending_node_q_def used(3) demo_ready_def demo_delivery_defs cnt_def)
  then obtain v d' where run: "out = (Replied 201 v, d')" "el_node v = ''node''" "el_cert v = demo_pem_encode ''CERTIFICATE'' ''leaf''"
    using used issued fields by (simp add: out_def handle_enroll_def Let_def)
  have signed: "signed_request (\<lambda>k m s. True) (demo_pem_encode ''CERTIFICATE'' ''leaf'') demo_agent_key (1700000000 * second) demo_agent_request"
  proof -
    have "trim_space ''LUNFUlRJRklDQVRFCmxlYWYt'' = ''LUNFUlRJRklDQVRFCmxlYWYt''" "trim_space ''1700000000'' = ''1700000000''"
      "trim_space ''AAAA'' = ''AAAA''" "std_decode ''AAAA'' = Some (replicate 3 (CHR 0x00))"
      by code_simp+
    moreover have "std_decode ''LUNFUlRJRklDQVRFCmxlYWYt'' = Some ''-CERTIFICATE\<newline>leaf-''"
      "demo_pem_encode ''CERTIFICATE'' ''leaf'' = ''-CERTIFICATE\<newline>leaf-''"
      by code_simp+
    moreover have "parse_int 10 ''1700000000'' = Some 1700000000"
      by (simp add: parse_int_def parse_uint_def digit_val_def Let_def)
    ultimately show ?thesis
      by (simp add: signed_request_def demo_agent_request_def agent_proof_max_skew_def)
  qed
  have csr: "xc_pem_decode demo_x509 (nb_csr demo_enroll) = Some (''CERTIFICATE REQUEST'', demo_agent_key)"
    "xc_parse_csr demo_x509 demo_agent_key = Some \<lparr>cq_key = Ed25519Key demo_agent_key, cq_signed = True\<rparr>"
    by code_simp+
  define d2 where "d2 = append_audit (event ''console'' ''application.created'' ''app'' ''ok'' []) 9 d'"
  have "t_audit d2 \<noteq> t_audit d'" by (simp add: d2_def append_audit_def insert_audit_event_q_def)
  then have "delete_node ''node'' d' \<noteq> Inr d2" "activate_pending_node ''node'' serial age cert expires d' \<noteq> Inr d2" for serial age cert expires
    by (auto simp: delete_node_def delete_node_q_def activate_pending_node_def activate_pending_node_q_def Let_def drop_nodes_def
        split: if_splits)
  then have later: "(undisturbed (el_node v))\<^sup>*\<^sup>* d' d2"
    by (intro r_into_rtranclp) (simp add: undisturbed_def run(2) d2_def db_step.Audit)
  note recognised = enrolled_agent_recognised [of demo_handler d, unfolded fields, OF ok demo_x509_laws(1) demo_ca_signs
      run(1) [unfolded out_def] csr _ signed [folded run(3)] _ _ _ _ _ later]
  obtain r' node where "node_from_request r' d2 = Some node" "node_id node = ''node''" "node_age node = ''age2''"
    using recognised [of "[]" "[]" "\<lambda>r d. (Replied 200 (), d)" "()"]
    by (auto simp: run(2) demo_enroll_def demo_ca_def demo_root_def cert_ttl_def whole_seconds_def valid_at_def)
  with run(1) later show ?thesis unfolding out_def run(2) by blast
qed

end
