(* ===== verification/HandlerProperties.thy ===== *)
theory HandlerProperties
  imports ServerProperties GoUrl
begin

text \<open>
  Two properties of single handlers: reading the list of Managed Nodes page by page, and the paths a File Binding can
  be given.
\<close>

section \<open>The list of Managed Nodes, page by page\<close>

definition with_cursor :: "string \<Rightarrow> request \<Rightarrow> request" where
  "with_cursor c r = r\<lparr>rq_query := (rq_query r)(''cursor'' := c)\<rparr>"

text \<open>A client that asks for a page and follows \<open>next_cursor\<close> until it is empty; the fuel bounds the number of requests.\<close>

primrec all_pages :: "nat \<Rightarrow> fleet_handler \<Rightarrow> time \<Rightarrow> request \<Rightarrow> string \<Rightarrow> db \<Rightarrow> node_item list option" where
  "all_pages 0 h now r c d = None"
| "all_pages (Suc n) h now r c d =
     (case fst (handle_list_nodes h now (with_cursor c r) d) of
        Replied _ (items, next, _) \<Rightarrow>
          if next = [] then Some items else map_option ((@) items) (all_pages n h now r next d)
      | _ \<Rightarrow> None)"

lemma position_of_nth:
  "distinct (map f xs) \<Longrightarrow> k < length xs \<Longrightarrow> p (xs ! k) \<Longrightarrow> (\<And>x. x \<in> set xs \<Longrightarrow> p x \<Longrightarrow> f x = f (xs ! k)) \<Longrightarrow>
   position_of p xs = Some k"
proof (induction xs arbitrary: k)
  case (Cons x xs)
  show ?case
  proof (cases k)
    case 0
    with Cons.prems(3) show ?thesis by simp
  next
    case (Suc j)
    from Cons.prems Suc have j: "j < length xs" "p (xs ! j)" "f x \<notin> set (map f xs)" by simp_all
    have "f (xs ! j) \<in> set (map f xs)" using j(1) by simp
    then have "f x \<noteq> f (xs ! j)" using j(3) by metis
    then have "\<not> p x" using Cons.prems(4) [of x] Suc by auto
    moreover have "position_of p xs = Some j"
    proof (rule Cons.IH)
      show "distinct (map f xs)" using Cons.prems(1) by simp
      show "f y = f (xs ! j)" if "y \<in> set xs" "p y" for y using Cons.prems(4) [of y] that Suc by simp
    qed (use j in simp_all)
    ultimately show ?thesis using Suc by simp
  qed
qed simp

text \<open>The page after the first \<open>k\<close> items, and where it leads.\<close>

lemma node_page_after:
  assumes start: "node_page_start c limit page out = int k" and k: "k < length out" and limit: "1 \<le> limit"
  shows "node_page c limit page out = Some (take (nat limit) (drop k out),
    if k + nat limit < length out then encode_cursor (node_item_key (out ! (k + nat limit - 1))) else [])"
proof -
  have "nat (min (int k + limit) (int (length out)) - int k) = min (nat limit) (length out - k)"
    using k limit by linarith
  then have items: "take (nat (min (int k + limit) (int (length out)) - int k)) (drop k out) = take (nat limit) (drop k out)"
    by (metis length_drop min.commute take_all_iff take_take order_refl)
  have fin: "min (int k + limit) (int (length out)) < int (length out) \<longleftrightarrow> k + nat limit < length out"
    using limit by linarith
  have last: "nat (int k + limit - 1) = k + nat limit - Suc 0"
    using limit by linarith
  have fin2: "k + nat limit < length out \<Longrightarrow> min (int k + limit) (int (length out)) = int k + limit"
    using limit by linarith
  show ?thesis
    using k by (simp add: node_page_def start Let_def items fin fin2 last)
qed

lemma node_page_empty: "node_page no_cursor limit 0 [] = Some ([], [])"
  by (simp add: node_page_def node_page_start_def no_cursor_def)

definition listable :: "node_item list \<Rightarrow> bool" where
  "listable out \<longleftrightarrow> distinct (map (\<lambda>i. node_id (ni_node i)) out) \<and>
     (\<forall>i \<in> set out. node_id (ni_node i) \<noteq> [] \<and> - (2 ^ 63) \<le> node_created (ni_node i) \<and> node_created (ni_node i) < 2 ^ 63)"

text \<open>The cursor of an item leads behind it.\<close>

lemma cursor_leads:
  assumes out: "listable out" and k: "0 < k" "k \<le> length out"
  shows "\<exists>c. decode_cursor (encode_cursor (node_item_key (out ! (k - 1)))) = Inr c \<and> node_page_start c limit 0 out = int k"
proof -
  let ?i = "out ! (k - 1)"
  let ?c = "\<lparr>cu_at = node_created (ni_node ?i), cu_id = node_id (ni_node ?i)\<rparr>"
  have i: "k - 1 < length out" "?i \<in> set out" using k by auto
  then have "node_id (ni_node ?i) \<noteq> []" "- (2 ^ 63) \<le> node_created (ni_node ?i)" "node_created (ni_node ?i) < 2 ^ 63"
    using out by (simp_all add: listable_def)
  then have dec: "decode_cursor (encode_cursor (node_item_key ?i)) = Inr ?c" and id: "cu_id ?c \<noteq> []"
    by (simp_all add: node_item_key_def cursor_roundtrip_eq)
  have "position_of (\<lambda>i. node_id (ni_node i) = cu_id ?c \<and> (cu_at ?c = zero_time \<or> node_created (ni_node i) = cu_at ?c)) out = Some (k - 1)"
    by (rule position_of_nth [where f = "\<lambda>i. node_id (ni_node i)"]) (use out i in \<open>simp_all add: listable_def\<close>)
  then have "node_page_start ?c limit 0 out = int k"
    using id k by (simp add: node_page_start_def)
  with dec show ?thesis by blast
qed

definition asked_limit :: "request \<Rightarrow> int" where
  "asked_limit r = (case page_params r of Inl _ \<Rightarrow> 1 | Inr (c, limit, page) \<Rightarrow> limit)"

lemma page_params_cursor:
  assumes "decode_cursor c = Inr cu" "rq_query r ''page'' = []"
  shows "\<exists>limit. page_params (with_cursor c r) = Inr (cu, limit, 0) \<and> 1 \<le> limit \<and> limit \<le> 100"
  using assms by (auto simp: page_params_def with_cursor_def Let_def split: option.splits)

lemma pages_from:
  assumes out: "listable (listed_nodes h now d)" and page: "rq_query r ''page'' = []"
    and c: "decode_cursor c = Inr cu" "\<And>limit. node_page_start cu limit 0 (listed_nodes h now d) = int k"
    and k: "k < length (listed_nodes h now d)" and n: "length (listed_nodes h now d) < n + k"
  shows "all_pages n h now r c d = Some (drop k (listed_nodes h now d))"
  using c k n
proof (induction n arbitrary: c cu k)
  case (Suc n)
  let ?out = "listed_nodes h now d"
  obtain limit where params: "page_params (with_cursor c r) = Inr (cu, limit, 0)" and limit: "1 \<le> limit"
    using page_params_cursor [OF Suc.prems(1) page] by blast
  let ?k = "k + nat limit"
  let ?next = "if ?k < length ?out then encode_cursor (node_item_key (?out ! (?k - 1))) else []"
  have reply: "fst (handle_list_nodes h now (with_cursor c r) d) = Replied 200 (take (nat limit) (drop k ?out), ?next, length ?out)"
    using node_page_after [OF Suc.prems(2,3) limit] by (simp add: handle_list_nodes_def params Let_def)
  show ?case
  proof (cases "?k < length ?out")
    case True
    obtain c' where dec: "decode_cursor ?next = Inr c'"
      using cursor_leads [OF out, of ?k] True limit by auto
    have start: "node_page_start c' l 0 ?out = int ?k" for l
      using cursor_leads [OF out, of ?k l] True limit dec by auto
    have "all_pages n h now r ?next d = Some (drop ?k ?out)"
      by (rule Suc.IH [OF dec start]) (use True Suc.prems(4) limit in auto)
    moreover have "?next \<noteq> []" using True by (simp add: encode_cursor_nonempty)
    moreover have "take (nat limit) (drop k ?out) @ drop ?k ?out = drop k ?out"
      by (metis add.commute append_take_drop_id drop_drop)
    ultimately show ?thesis by (simp add: reply)
  next
    case False
    then show ?thesis by (simp add: reply)
  qed
qed simp

lemma ni_node_of [simp]: "ni_node (node_item_of h now d n) = n"
  by (simp add: node_item_of_def Let_def split: prod.split)

lemma listed_ids:
  "mset (map (\<lambda>i. node_id (ni_node i)) (listed_nodes h now d)) = mset (map nd_id (t_nodes d))"
  "length (listed_nodes h now d) = length (t_nodes d)"
  by (simp_all add: listed_nodes_def mset_map list_node_def list_node_q_def node_from_list_def
      image_mset.compositionality comp_def)

lemma listed_listable:
  assumes "distinct (map nd_id (t_nodes d))"
    and "\<forall>n \<in> set (t_nodes d). nd_id n \<noteq> [] \<and> - (2 ^ 63) \<le> nd_created n \<and> nd_created n < 2 ^ 63"
  shows "listable (listed_nodes h now d)"
proof -
  have "distinct (map (\<lambda>i. node_id (ni_node i)) (listed_nodes h now d))"
    using listed_ids(1) assms(1) by (metis mset_eq_imp_distinct_iff)
  with assms(2) show ?thesis
    by (auto simp: listable_def listed_nodes_def list_node_def list_node_q_def node_from_list_def)
qed

text \<open>C37: Following the cursors of the list of Managed Nodes, from no cursor and with any page size, ends after at most one request
  more than there are nodes, and what was read is every node once, the newest first.\<close>

theorem list_nodes_complete:
  assumes "fleet_ok d" and "\<forall>n \<in> set (t_nodes d). nd_id n \<noteq> [] \<and> - (2 ^ 63) \<le> nd_created n \<and> nd_created n < 2 ^ 63"
    and "rq_query r ''page'' = []"
  shows "\<exists>items. all_pages (Suc (length (t_nodes d))) h now r [] d = Some items \<and>
    mset (map (\<lambda>i. node_id (ni_node i)) items) = mset (map nd_id (t_nodes d)) \<and>
    sorted_wrt (\<lambda>i j. node_item_key j < node_item_key i) items"
proof -
  let ?out = "listed_nodes h now d"
  have out: "listable ?out"
    using assms(1,2) by (intro listed_listable) (simp_all add: fleet_ok_def fleet_keys_def)
  have none: "decode_cursor [] = Inr no_cursor" by (simp add: decode_cursor_def)
  have "all_pages (Suc (length (t_nodes d))) h now r [] d = Some ?out"
  proof (cases "?out = []")
    case True
    obtain limit where "page_params (with_cursor [] r) = Inr (no_cursor, limit, 0)"
      using page_params_cursor [OF none assms(3)] by blast
    with True show ?thesis by (simp add: handle_list_nodes_def node_page_empty)
  next
    case False
    have "all_pages (Suc (length (t_nodes d))) h now r [] d = Some (drop 0 ?out)"
      by (rule pages_from [OF out assms(3) none])
        (use False listed_ids(2) [of h now d] in \<open>auto simp: node_page_start_def no_cursor_def\<close>)
    then show ?thesis by simp
  qed
  moreover have "sorted_wrt (\<lambda>i j. node_item_key j < node_item_key i) ?out"
  proof -
    have "distinct (map node_item_key ?out)"
      using out by (auto simp: listable_def node_item_key_def distinct_map inj_on_def)
    then have "distinct (map node_item_key (map (node_item_of h now d) (list_node (fh_coll h) d)))"
      unfolding listed_nodes_def by (metis mset_eq_imp_distinct_iff mset_map mset_order_desc)
    then show ?thesis unfolding listed_nodes_def by (rule sorted_desc_strict)
  qed
  ultimately show ?thesis using listed_ids(1) by blast
qed

definition demo_two_nodes :: db where
  "demo_two_nodes = empty_db\<lparr>t_nodes := map (\<lambda>(i, at). \<lparr>nd_id = i, nd_name = i, nd_serial = i, nd_age = [], nd_cert = [],
     nd_cert_expires = 7, nd_created = at, nd_last_seen = None, nd_etag = [], nd_observed = [], nd_result = [], nd_poll = 15,
     nd_bundle_dir = []\<rparr>) [(''a'', 1), (''b'', 2)]\<rparr>"

theorem list_nodes_complete_witness:
  "\<exists>items. all_pages 3 demo_handler 9 ((demo_call ''GET'')\<lparr>rq_query := (\<lambda>q. if q = ''limit'' then ''1'' else [])\<rparr>) [] demo_two_nodes =
     Some items \<and> mset (map (\<lambda>i. node_id (ni_node i)) items) = {#''a'', ''b''#}"
proof -
  let ?r = "(demo_call ''GET'')\<lparr>rq_query := (\<lambda>q. if q = ''limit'' then ''1'' else [])\<rparr>"
  have "fleet_ok demo_two_nodes"
    by (rule fleet_okI)
      (simp_all add: fleet_keys_def unique_active_def actives_def fleet_refs_def exclusive_def tasks_ok_def demo_two_nodes_def empty_db_def)
  moreover have "\<forall>n \<in> set (t_nodes demo_two_nodes). nd_id n \<noteq> [] \<and> - (2 ^ 63) \<le> nd_created n \<and> nd_created n < 2 ^ 63"
    by (simp add: demo_two_nodes_def)
  ultimately obtain items where items: "all_pages (Suc (length (t_nodes demo_two_nodes))) demo_handler 9 ?r [] demo_two_nodes = Some items"
    "mset (map (\<lambda>i. node_id (ni_node i)) items) = mset (map nd_id (t_nodes demo_two_nodes))"
    using list_nodes_complete [of demo_two_nodes ?r demo_handler 9] by auto
  have "Suc (length (t_nodes demo_two_nodes)) = 3" "mset (map nd_id (t_nodes demo_two_nodes)) = {#''a'', ''b''#}"
    by (simp_all add: demo_two_nodes_def)
  with items show ?thesis by metis
qed

section \<open>The paths of File Bindings\<close>

lemma valid_binding_parts:
  assumes "validate_binding_path p = Some path"
  obtains parts where "path = join_with ''/'' parts" "list_all ordinary_part parts" "parts \<noteq> []"
proof
  from assms have "path = trim_space p" "list_all path_part_ok (split_on (CHR ''/'') path)"
    by (auto simp: validate_binding_path_def Let_def split: if_splits)
  then show "list_all ordinary_part (split_on (CHR ''/'') path)"
    using split_on_no_sep by (fastforce simp: list_all_iff path_part_ok_def ordinary_part_def)
  show "path = join_with ''/'' (split_on (CHR ''/'') path)" by (simp add: join_split)
qed simp

lemma join_append:
  "xs \<noteq> [] \<Longrightarrow> ys \<noteq> [] \<Longrightarrow> join_with sep (xs @ ys) = join_with sep xs @ sep @ join_with sep ys"
proof (induction sep xs rule: join_with.induct)
  case (2 sep s)
  then show ?case by (cases ys) simp_all
qed simp_all

text \<open>Joined to a clean absolute directory, such a path stays below it.\<close>

lemma binding_joined:
  assumes path: "path = join_with ''/'' parts" "list_all ordinary_part parts" "parts \<noteq> []"
    and dir: "has_prefix dir ''/''" "dir \<noteq> ''/''" "path_clean dir = dir"
  shows "path_clean (dir @ CHR ''/'' # path) = dir @ CHR ''/'' # path"
proof -
  obtain s where "dir = CHR ''/'' # s" using dir(1) by (auto simp: has_prefix_iff)
  with path_clean_rooted [of s] dir(3) obtain ds where ds: "list_all ordinary_part ds" "dir = CHR ''/'' # join_with ''/'' ds" by auto
  then have "ds \<noteq> []" using dir(2) by auto
  then have joined: "dir @ CHR ''/'' # path = CHR ''/'' # join_with ''/'' (ds @ parts)"
    using path(3) by (simp add: ds(2) path(1) join_append)
  show ?thesis
    unfolding joined by (rule path_clean_ordinary(1)) (use ds(1) path in simp_all)
qed

text \<open>C38: A request that updates a File Binding is refused and changes nothing, or leaves in every binding of the Secret one of the
  six safe modes, an owner and a group that are not negative, and a path that stays inside any bundle directory: joined to
  a clean absolute directory it is clean, so it names a file below it.\<close>

theorem binding_stays_inside:
  assumes "handle_update_binding now ts r sid body d = (rep, d')"
  shows "(\<exists>st c. rep = Refused st c \<and> d' = d) \<or>
    (\<forall>b \<in> set (t_bindings d'). fb_secret b = sid \<longrightarrow> fb_mode b \<in> set safe_modes \<and> 0 \<le> fb_uid b \<and> 0 \<le> fb_gid b \<and>
       (\<forall>dir. has_prefix dir ''/'' \<and> dir \<noteq> ''/'' \<and> path_clean dir = dir \<longrightarrow>
          path_clean (dir @ ''/'' @ fb_path b) = dir @ ''/'' @ fb_path b))"
proof (cases "\<exists>st c. rep = Refused st c \<and> d' = d")
  case False
  then have ok: "rep \<noteq> Refused st c \<or> d' \<noteq> d" for st c by blast
  obtain b where body: "body = Some b"
    using assms ok by (cases body) (auto simp: handle_update_binding_def)
  obtain path where path: "validate_binding_path (by_path b) = Some path"
    using assms ok by (cases "validate_binding_path (by_path b)") (auto simp: handle_update_binding_def body)
  obtain mode where mode: "parse_int 8 (by_mode b) = Some mode" "mode \<in> set safe_modes"
    using assms ok by (cases "parse_int 8 (by_mode b)") (auto simp: handle_update_binding_def body path split: if_splits)
  let ?u = "case by_uid b of None \<Rightarrow> 0 | Some u \<Rightarrow> u" and ?g = "case by_gid b of None \<Rightarrow> 0 | Some g \<Rightarrow> g"
  have owner: "0 \<le> ?u" "0 \<le> ?g"
    using assms ok by (auto simp: handle_update_binding_def body path mode split: if_splits option.splits)
  obtain version d1 where upd: "update_binding sid path ?u ?g mode d = Inr (version, d1)" and d': "t_bindings d' = t_bindings d1"
    using assms ok by (cases "update_binding sid path ?u ?g mode d")
      (auto simp: handle_update_binding_def body path mode split: if_splits)
  from upd have "t_bindings d1 = upd (\<lambda>b. fb_secret b = sid) (\<lambda>x. x\<lparr>fb_path := path, fb_uid := ?u, fb_gid := ?g, fb_mode := mode\<rparr>)
      (t_bindings d)"
    by (auto simp: update_binding_def bump_draft_def bump_draft_tx_def bump_draft_q_def update_file_binding_q_def)
  then have rows: "\<forall>x \<in> set (t_bindings d'). fb_secret x = sid \<longrightarrow> fb_path x = path \<and> fb_uid x = ?u \<and> fb_gid x = ?g \<and> fb_mode x = mode"
    unfolding d' by (simp add: set_upd_split ball_Un del: ball_upd)
  obtain parts where "path = join_with ''/'' parts" "list_all ordinary_part parts" "parts \<noteq> []"
    by (rule valid_binding_parts [OF path])
  from binding_joined [OF this] have "path_clean (dir @ ''/'' @ path) = dir @ ''/'' @ path"
    if "has_prefix dir ''/'' \<and> dir \<noteq> ''/'' \<and> path_clean dir = dir" for dir
    using that by simp
  with rows mode(2) owner show ?thesis by metis
qed simp

definition demo_binding :: binding_body where
  "demo_binding = \<lparr>by_path = '' etc/app.conf'', by_uid = None, by_gid = Some 7, by_mode = ''0640''\<rparr>"

theorem binding_stays_inside_witness:
  "\<exists>version d' b. handle_update_binding 9 9 (demo_call ''PUT'') ''sec'' (Some demo_binding) demo_ready =
     (Replied 200 (version, ''etc/app.conf''), d') \<and> b \<in> set (t_bindings d') \<and> fb_path b = ''etc/app.conf'' \<and>
     path_clean (''/srv/bundle/'' @ fb_path b) = ''/srv/bundle/etc/app.conf''"
proof -
  define out where "out = handle_update_binding 9 9 (demo_call ''PUT'') ''sec'' (Some demo_binding) demo_ready"
  have "case update_binding ''sec'' ''etc/app.conf'' 0 7 416 demo_ready of Inl _ \<Rightarrow> False
      | Inr (version, d1) \<Rightarrow> (case t_bindings d1 of [b] \<Rightarrow> fb_secret b = ''sec'' \<and> fb_path b = ''etc/app.conf'' | _ \<Rightarrow> False)"
    by code_simp
  then obtain version d1 b where upd: "update_binding ''sec'' ''etc/app.conf'' 0 7 416 demo_ready = Inr (version, d1)" "t_bindings d1 = [b]"
    "fb_secret b = ''sec''" "fb_path b = ''etc/app.conf''"
    by (auto split: sum.splits prod.splits list.splits)
  have "validate_binding_path '' etc/app.conf'' = Some ''etc/app.conf''" by code_simp
  moreover have "parse_int 8 ''0640'' = Some 416" by (simp add: parse_int_def parse_uint_def digit_val_def Let_def)
  ultimately obtain d' where run: "out = (Replied 200 (version, ''etc/app.conf''), d')" "t_bindings d' = [b]"
    using upd by (simp add: out_def handle_update_binding_def demo_binding_def safe_modes_def)
  have "path_clean ''/srv/bundle'' = ''/srv/bundle''" by code_simp
  with binding_stays_inside [OF run(1) [unfolded out_def]] run(2) upd(3,4)
  have "path_clean (''/srv/bundle'' @ ''/'' @ fb_path b) = ''/srv/bundle'' @ ''/'' @ fb_path b"
    by (auto dest: spec [of _ "''/srv/bundle''"])
  with run upd(4) show ?thesis unfolding out_def by auto
qed

text \<open>A Secret gets its first File Binding from its name, which no such check has seen.\<close>

lemma default_binding_unchecked:
  "validate_binding_path ''..'' = None \<and>
   (case handle_create_secret demo_secrets 9 9 \<lparr>sr_key = replicate 32 (CHR ''k''), sr_wrap = replicate 12 (CHR ''n''), sr_data = replicate 12 (CHR ''n'')\<rparr>
       [] ''s2'' ''v2'' (demo_call ''POST'') ''app'' ''env'' (Some \<lparr>sy_name = ''..'', sy_value = ''v''\<rparr>) demo_ready of
      (Replied st _, d') \<Rightarrow> st = 201 \<and> list_ex (\<lambda>b. fb_secret b = ''s2'' \<and> fb_path b = ''..'') (t_bindings d')
    | _ \<Rightarrow> False)"
  by code_simp

end
