(* ===== verification/LoginProperties.thy ===== *)
theory LoginProperties
  imports ServerProperties
begin

text \<open>
  Properties of the external logins across the server: where a login returns to, what an ID token has to prove before a
  Session opens, and what a provider is asked.
\<close>

section \<open>Logins return to the console\<close>

text \<open>Every transaction of a reachable database returns to a page of the console.\<close>

lemma returns_ok_same: "t_transactions d' = t_transactions d \<Longrightarrow> returns_ok d \<Longrightarrow> returns_ok d'"
  by (simp add: returns_ok_def)

lemma on_core_returns: "returns_ok x \<Longrightarrow> returns_ok (snd (on_core h r x))"
  by (rule returns_ok_same) (simp_all add: on_core_def split: prod.splits)

lemma touched_returns: "returns_ok d \<Longrightarrow> returns_ok (touch_session_activity k t idle d)"
  by (erule returns_ok_same [rotated]) (simp add: touch_session_activity_def touch_session_activity_q_def)

lemma domain_session_returns:
  "app_session a t1 t2 (on_core h) r d = (rep, d') \<Longrightarrow> returns_ok d \<Longrightarrow> returns_ok d'"
  by (erule session_after [where I = returns_ok]) (auto intro: touched_returns on_core_returns)

lemma server_step_returns: "server_step a d d' \<Longrightarrow> returns_ok d \<Longrightarrow> returns_ok d'"
proof (induction rule: server_step.induct)
  case (Start now random d code d')
  have "t_transactions d' = t_transactions d"
    using Start(1) by (auto simp: emit_bootstrap_code_def Let_def save_bootstrap_code_def save_bootstrap_code_q_def split: if_splits)
  then show ?case using Start(2) by (rule returns_ok_same)
next
  case (Agent r h now d rep d')
  have "d' = d \<or> (\<exists>s. on_core h (r\<lparr>rq_serial := s\<rparr>) d = (rep, d'))"
    using Agent(2) by (auto simp: agent_auth_def agent_identity_middleware_def Let_def split: option.splits if_splits)
  then show ?case using Agent(3) on_core_returns by (metis snd_conv)
next
  case (Identity r h t1 t2 d rep d')
  show ?case
    by (rule session_after [where I = returns_ok, OF Identity(2,3) touched_returns [OF Identity(3)]])
      (use Identity(1) in \<open>blast intro: console_steps_return identity_route_reaches(1)\<close>)
next
  case (SignIn r d rep d')
  then show ?case by (blast intro: console_steps_return identity_route_reaches(2))
next
  case (Open r d rep d1 d')
  show ?case by (rule returns_ok_same [OF _ Open(3)]) (simp add: Open(2))
qed (blast intro: domain_session_returns)+

interpretation returning: step_system "\<lambda>d. d = empty_core" "server_step a" returns_ok for a
proof
  show "returns_ok d" if "d = empty_core" for d
    using that by (simp add: returns_ok_def empty_core_def db.defs)
  show "returns_ok d'" if "returns_ok d" "server_step a d d'" for d d'
    by (rule server_step_returns [OF that(2,1)])
qed

text \<open>C33: the external logins are no open redirect. Whatever requests the server has answered since its pending logins all
  returned to the console, as those of an empty database do, and whatever locations they asked to return to, a callback of either provider redirects the browser, when it redirects
  it, to a page of this origin under \<open>/dashboard\<close>: never to a location a browser takes for another host or
  scheme, and never through a parent directory.\<close>

theorem no_open_redirect:
  assumes "returns_ok d0" "(server_step a)\<^sup>*\<^sup>* d0 d"
    and "handle_oidc_callback (co_identity a) tls now ts r1 r2 r d = (resp, d') \<or>
      handle_oauth_callback (co_identity a) tls now ts r1 r2 r d = (resp, d')"
    and "rz_out resp = Redirect l"
  shows "stays_in_console l"
  by (rule callback_returns [OF assms(3,4) returning.steps_inv [OF assms(2,1)]])

text \<open>A provider of OAuth whose token endpoint answers a form, and an Administrator bound to it.\<close>

definition demo_oauth :: oauth_client where
  "demo_oauth = \<lparr>hc_public_url = ''https://console'', hc_authorization = ''https://idp/auth'', hc_token = ''https://idp/token'',
     hc_userinfo = ''https://idp/user'', hc_client = ''core'', hc_secret = [], hc_scopes = [''profile''], hc_redirects = (\<lambda>u n. True)\<rparr>"

definition demo_idp :: provider_env where
  "demo_idp = demo_provider\<lparr>pe_net := (\<lambda>policy q. Some \<lparr>hr_status = 200, hr_body = Some ''access_token=t''\<rparr>),
     pe_object := (\<lambda>b. Some [(''sub'', JText ''root@idp'')])\<rparr>"

definition demo_site :: app where
  "demo_site = new_app (demo_library\<lparr>lb_provider := demo_idp\<rparr>) (replicate 32 (CHR ''m'')) demo_ca
     (signer_of (replicate 64 (CHR ''s''))) ''/api'' ''/agent'' (demo_options\<lparr>op_oauth := Some demo_oauth\<rparr>)"

definition demo_bound :: core_db where
  "demo_bound = demo_open\<lparr>t_oauth := [\<lparr>xb_admin = ''adm'', xb_issuer = ''https://idp/auth'', xb_subject = ''root@idp'', xb_display = [],
     xb_created = 1\<rparr>]\<rparr>"

lemma demo_exchange:
  "exchange_and_identify demo_idp demo_oauth base code verifier =
     Some \<lparr>oi_issuer = ''https://idp/auth'', oi_subject = ''root@idp'', oi_display = []\<rparr>"
proof -
  have urls: "url_parse ''https://idp/token'' \<noteq> None" "url_parse ''https://idp/user'' \<noteq> None" by code_simp+
  have short: "take body_limit ''access_token=t'' = ''access_token=t''" by (rule take_all) (simp add: body_limit_def)
  have form: "parse_query ''access_token=t'' = Some [(''access_token'', ''t'')]" by code_simp
  show ?thesis
    using urls
    by (simp add: exchange_and_identify_def send_def oauth_token_request_def demo_oauth_def demo_idp_def demo_provider_def short form
        decode_oauth_access_token_def query_value_def userinfo_identity_def decode_bounded_json_def Let_def oauth_string_claim_def
        first_text_def oauth_issuer_def trim_right_char_def)
qed

text \<open>A login is started, and its callback answered.\<close>

definition demo_started :: "unit response \<times> core_db" where
  "demo_started = handle_start_oauth_login (co_identity demo_site) True 5 5 ''state'' ''nonce'' ''verifier''
     ((demo_call ''GET'')\<lparr>rq_query := (\<lambda>k. if k = ''return_to'' then ''/dashboard/nodes'' else [])\<rparr>) demo_bound"

definition demo_back :: request where
  "demo_back = (demo_call ''GET'')\<lparr>rq_query := (\<lambda>k. if k = ''state'' then new_secret 192 ''state'' else if k = ''code'' then ''c'' else []),
     rq_cookie := (\<lambda>c. Some (new_secret 192 ''state''))\<rparr>"

lemma demo_started_db:
  "snd demo_started = demo_bound\<lparr>t_transactions := [\<lparr>ot_state = hash (ih_service (co_identity demo_site)) (new_secret 192 ''state''),
     ot_purpose = ''login'', ot_admin = None, ot_nonce = new_secret 192 ''nonce'', ot_verifier = new_secret 256 ''verifier'',
     ot_return = ''/dashboard/nodes'', ot_expires = 5 + 5 * minute, ot_used = None\<rparr>]\<rparr>"
proof -
  have ret: "valid_return_to ''/dashboard/nodes'' = ''/dashboard/nodes''" by code_simp
  show ?thesis
    by (simp add: demo_started_def handle_start_oauth_login_def demo_site_def new_app_def new_identity_def demo_options_def
        start_oauth_login_def start_login_with_def oauth_identity_binding_def oauth_identity_binding_q_def row_of_def one_def
        demo_bound_def begin_transaction_def Let_def with_store_def create_oidc_transaction_def insert_oidc_transaction_q_def
        request_context_def ret demo_open_def empty_core_def db.defs)
qed

lemma new_secret_some: "8 \<le> bits \<Longrightarrow> random \<noteq> [] \<Longrightarrow> new_secret bits random \<noteq> []"
  by (cases random; cases "tl random"; cases "tl (tl random)")
    (auto simp: new_secret_def raw_url_encode_def encode_sextets_def take_Cons' split: nat.splits)

lemma demo_callback:
  "\<exists>resp d'. handle_oauth_callback (co_identity demo_site) True 6 6 ''r1'' ''r2'' demo_back (snd demo_started) = (resp, d') \<and>
     rz_out resp = Redirect ''/dashboard/nodes''"
proof -
  have state: "new_secret 192 ''state'' \<noteq> []" by (simp add: new_secret_some)
  show ?thesis
    unfolding demo_started_db
    using state
    by (simp add: handle_oauth_callback_def callback_with_def demo_site_def new_app_def new_identity_def demo_options_def
        demo_back_def demo_call_def constant_time_equal finish_transaction_def consume_oidc_transaction_def
        consume_oidc_transaction_q_def Let_def row_of_def one_def request_context_def
        demo_library_def demo_exchange complete_oauth_login_def complete_login_with_def oauth_identity_binding_def
        oauth_identity_binding_q_def demo_bound_def demo_open_def demo_member_def empty_core_def db.defs member_by_id_def
        member_by_id_q_def issue_session_def with_store_def create_bounded_session_def create_bounded_session_q_def exists_admin_def)
qed

theorem no_open_redirect_witness:
  "\<exists>resp d'. handle_oauth_callback (co_identity demo_site) True 6 6 ''r1'' ''r2'' demo_back (snd demo_started) = (resp, d') \<and>
     rz_out resp = Redirect ''/dashboard/nodes'' \<and> stays_in_console ''/dashboard/nodes''"
proof -
  obtain resp d' where run: "handle_oauth_callback (co_identity demo_site) True 6 6 ''r1'' ''r2'' demo_back (snd demo_started) = (resp, d')"
    and out: "rz_out resp = Redirect ''/dashboard/nodes''"
    using demo_callback by blast
  have "server_step demo_site demo_bound (snd demo_started)"
    by (rule server_step.SignIn, rule identity_open_route.OAuthLogin [of _ _ _ _ _ _ _ _ _ "fst demo_started"])
      (simp_all add: is_get_def demo_started_def demo_call_def prod_eq_iff)
  moreover have "returns_ok demo_bound"
    by (simp add: returns_ok_def demo_bound_def demo_open_def empty_core_def db.defs)
  ultimately show ?thesis
    using no_open_redirect [OF _ r_into_rtranclp disjI2 [OF run] out] run out by blast
qed

section \<open>What opens a Session by OpenID Connect\<close>

text \<open>
  The identity \<open>x\<close> that an ID token proves: signed by the provider's key the token names, over its own header and claims,
  issued by the configured provider for this client and for the login of this nonce, at most an hour ago and not
  expired, with two minutes for the difference of the clocks.
\<close>

definition token_proves :: "provider_env \<Rightarrow> oidc_client \<Rightarrow> string \<Rightarrow> string \<Rightarrow> time \<Rightarrow> oidc_identity \<Rightarrow> bool" where
  "token_proves pe c token nonce now x \<longleftrightarrow>
     (\<exists>header payload sig64 h m n e sig audiences.
        token = header @ ''.'' @ payload @ ''.'' @ sig64 \<and>
        decode_jwt_part (pe_header pe) header = Some h \<and> jh_alg h = ''RS256'' \<and> signing_key pe c (jh_kid h) = Some (n, e) \<and>
        raw_url_decode sig64 = Some sig \<and> pe_rsa pe n e (pe_sha256 pe (header @ ''.'' @ payload)) sig \<and>
        decode_jwt_part (pe_claims pe) payload = Some m \<and>
        x = \<lparr>oi_issuer = dg_issuer (dc_config c), oi_subject = cm_subject m, oi_display = cm_name m\<rparr> \<and>
        cm_issuer m = dg_issuer (dc_config c) \<and> cm_subject m \<noteq> [] \<and> cm_nonce m = nonce \<and>
        parse_audience pe (cm_audience m) = Some audiences \<and> dg_client (dc_config c) \<in> set audiences \<and>
        (1 < length audiences \<longrightarrow> cm_azp m = dg_client (dc_config c)) \<and>
        now \<le> unix_time (cm_expires m) + 2 * minute \<and> unix_time (cm_issued m) \<le> now + 2 * minute \<and>
        now \<le> unix_time (cm_issued m) + 62 * minute)"

lemma split_three:
  assumes "split_on c s = [a, b, e]"
  shows "s = a @ [c] @ b @ [c] @ e"
proof -
  have one: "split_on c t = [x] \<Longrightarrow> t = x" for t x
    by (induction t arbitrary: x) (auto split: if_splits list.splits)
  have two: "split_on c t = [x, y] \<Longrightarrow> t = x @ [c] @ y" for t x y
    by (induction t arbitrary: x) (auto split: if_splits list.splits dest: one)
  have three: "split_on c t = [x, y, z] \<Longrightarrow> t = x @ [c] @ y @ [c] @ z" for t x y z
    by (induction t arbitrary: x) (auto split: if_splits list.splits dest: two)
  show ?thesis by (rule three [OF assms])
qed

lemma claims_prove:
  assumes "claims_ok pe c nonce now m"
  shows "cm_issuer m = dg_issuer (dc_config c)" "cm_subject m \<noteq> []" "cm_nonce m = nonce"
    and "\<exists>audiences. parse_audience pe (cm_audience m) = Some audiences \<and> dg_client (dc_config c) \<in> set audiences \<and>
      (1 < length audiences \<longrightarrow> cm_azp m = dg_client (dc_config c))"
    and "now \<le> unix_time (cm_expires m) + 2 * minute" "unix_time (cm_issued m) \<le> now + 2 * minute"
    and "now \<le> unix_time (cm_issued m) + 62 * minute"
proof -
  have ok: "cm_issuer m = dg_issuer (dc_config c) \<and> cm_subject m \<noteq> [] \<and> cm_nonce m = nonce \<and>
      now \<le> time_add (unix_time (cm_expires m)) clock_skew \<and> unix_time (cm_issued m) \<le> time_add now clock_skew \<and>
      time_sub now (unix_time (cm_issued m)) \<le> max_id_token_age + clock_skew"
    using assms by (auto simp: claims_ok_def Let_def split: option.splits if_splits)
  then show "cm_issuer m = dg_issuer (dc_config c)" "cm_subject m \<noteq> []" "cm_nonce m = nonce" by simp_all
  show "\<exists>audiences. parse_audience pe (cm_audience m) = Some audiences \<and> dg_client (dc_config c) \<in> set audiences \<and>
      (1 < length audiences \<longrightarrow> cm_azp m = dg_client (dc_config c))"
    using assms by (auto simp: claims_ok_def Let_def split: option.splits if_splits)
  have "time_add t clock_skew \<le> t + 2 * minute" for t
    by (simp add: time_add_def clock_skew_def)
  with ok show "now \<le> unix_time (cm_expires m) + 2 * minute" "unix_time (cm_issued m) \<le> now + 2 * minute"
    by (meson order_trans)+
  show "now \<le> unix_time (cm_issued m) + 62 * minute"
    using ok by (auto simp: time_sub_def max_id_token_age_def clock_skew_def split: if_splits)
qed

lemma validated_proves:
  assumes "validate_id_token pe c token nonce now = Some x"
  shows "token_proves pe c token nonce now x"
proof -
  obtain header payload sig64 h m n e sig where
    parts: "split_on (CHR ''.'') token = [header, payload, sig64]" "decode_jwt_part (pe_header pe) header = Some h"
      "jh_alg h = ''RS256''" "signing_key pe c (jh_kid h) = Some (n, e)" "raw_url_decode sig64 = Some sig"
      "pe_rsa pe n e (pe_sha256 pe (header @ ''.'' @ payload)) sig" "decode_jwt_part (pe_claims pe) payload = Some m"
    and ok: "claims_ok pe c nonce now m" and x: "x = \<lparr>oi_issuer = cm_issuer m, oi_subject = cm_subject m, oi_display = cm_name m\<rparr>"
    using assms by (auto simp: validate_id_token_def split: list.splits option.splits if_splits)
  have token: "token = header @ ''.'' @ payload @ ''.'' @ sig64" using split_three [OF parts(1)] by simp
  from claims_prove(4) [OF ok] obtain audiences where "parse_audience pe (cm_audience m) = Some audiences"
    "dg_client (dc_config c) \<in> set audiences" "1 < length audiences \<longrightarrow> cm_azp m = dg_client (dc_config c)" by blast
  then show ?thesis
    unfolding token_proves_def using token parts claims_prove(1-3,5-7) [OF ok] x
    by (intro exI [of _ header] exI [of _ payload] exI [of _ sig64] exI [of _ h] exI [of _ m] exI [of _ n] exI [of _ e]
        exI [of _ sig] exI [of _ audiences]) simp
qed

lemma exchange_proves:
  assumes "exchange_and_validate pe c base code verifier nonce now = Some x"
  obtains answer token where "send pe (oidc_policy c) (oidc_token_request c base code verifier) = Some answer"
    "hr_status answer = 200" "decode_bounded_json (pe_id_token pe) answer = Some token" "token_proves pe c token nonce now x"
  using assms by (auto simp: exchange_and_validate_def split: option.splits if_splits dest: validated_proves)

text \<open>A Session cookie of a callback comes from the use case that opens the Session.\<close>

lemma callback_cookie:
  assumes "callback_with exchange clear denied_audit bind_case login_case h tls now ts r d = (resp, d')"
    and "ck \<in> set (rz_cookies resp)" "ck_name ck = session_cookie" "ck_name clear \<noteq> session_cookie"
  obtains trade t d1 x s where "exchange = Some trade" "rq_cookie r (ck_name clear) = Some (rq_query r ''state'')"
    "rq_query r ''state'' \<noteq> []"
    "finish_transaction (ih_service h) (request_context now ts r) (rq_query r ''state'') d = (Inr t, d1)"
    "trade t (rq_query r ''code'') = Some x" "login_case (Some t) (Some x) d1 = (Inr s, d')" "ck_value ck = so_id s"
proof -
  from assms have "\<exists>trade t d1 x s. exchange = Some trade \<and> rq_cookie r (ck_name clear) = Some (rq_query r ''state'') \<and>
    rq_query r ''state'' \<noteq> [] \<and>
    finish_transaction (ih_service h) (request_context now ts r) (rq_query r ''state'') d = (Inr t, d1) \<and>
    trade t (rq_query r ''code'') = Some x \<and> login_case (Some t) (Some x) d1 = (Inr s, d') \<and> ck_value ck = so_id s"
    by (auto simp: callback_with_def plain_def with_cookies_def Let_def session_cookie_of_def constant_time_equal
        split: handler_splits)
  then show thesis using that by blast
qed

lemma external_login_opens:
  assumes "complete_oidc_login sv cx (Some t) (Some x) r1 r2 d = (Inr s, d')"
  obtains b m where "tx_purpose t = ''login''" "external_identity_binding d = Inr b" "xb_issuer b = oi_issuer x"
    "xb_subject b = oi_subject x" "member_by_id (xb_admin b) d = Inr m" "ad_status m = MemberActive" "so_member s = ad_id m"
    "t_sessions d' = t_sessions d @ [opened_session sv cx AuthOidc s]" "t_transactions d' = t_transactions d"
proof -
  obtain b m d1 where *: "tx_purpose t = ''login''" "external_identity_binding d = Inr b" "xb_issuer b = oi_issuer x"
    "xb_subject b = oi_subject x" "member_by_id (xb_admin b) d = Inr m" "ad_status m = MemberActive"
    "issue_session sv cx r1 r2 m AuthOidc d = (Inr s, d1)"
    "d' = record_audit cx (''member:'' @ ad_username m) ''auth.login'' (ad_id m) ''oidc'' d1"
    using assms by (auto simp: complete_oidc_login_def complete_login_with_def denied_def Let_def split: sum.splits if_splits prod.splits)
  have "t_transactions d1 = t_transactions d"
    using *(7) by (auto simp: issue_session_def Let_def with_store_iff elim!: create_session_Inr)
  with issue_session_cases [OF *(7)] * that show thesis by (simp add: record_audit_def)
qed

text \<open>No transaction of that state can be finished any more.\<close>

definition state_spent :: "string \<Rightarrow> time \<Rightarrow> core_db \<Rightarrow> bool" where
  "state_spent state now d \<longleftrightarrow> list_all (\<lambda>t. ot_state t = state \<longrightarrow> ot_used t \<noteq> None \<or> ot_expires t \<le> now) (t_transactions d)"

lemma finish_spends:
  assumes "finish_transaction sv cx state d = (Inr t, d')"
  shows "state_spent (hash sv state) (cx_now cx) d'"
  by (rule finish_row [OF assms]) (auto simp: state_spent_def list_all_iff set_upd_split)

text \<open>C32: an OpenID Connect callback that sets a Session cookie has found everything a login needs: the browser that started the login
  (its state cookie), a login transaction of that state, unused and not expired, which it spends; an ID token of the
  configured provider that proves an identity for the nonce of that transaction; and that very identity bound to an
  active Administrator, for whom the one Session it opens is.\<close>

theorem oidc_session_requirements:
  assumes "handle_oidc_callback h tls now ts r1 r2 r d = (resp, d')"
    and "ck \<in> set (rz_cookies resp)" "ck_name ck = session_cookie"
  shows "\<exists>c row token x b m s. ih_oidc h = Some c \<and>
    rq_query r ''state'' \<noteq> [] \<and> rq_cookie r oidc_state_cookie = Some (rq_query r ''state'') \<and>
    row \<in> set (t_transactions d) \<and> ot_state row = hash (ih_service h) (rq_query r ''state'') \<and> ot_used row = None \<and>
    now < ot_expires row \<and> ot_purpose row = ''login'' \<and> state_spent (ot_state row) now d' \<and>
    token_proves (ih_env h) c token (ot_nonce row) now x \<and>
    external_identity_binding d = Inr b \<and> xb_issuer b = oi_issuer x \<and> xb_subject b = oi_subject x \<and>
    member_by_id (xb_admin b) d = Inr m \<and> ad_status m = MemberActive \<and> so_member s = ad_id m \<and> ck_value ck = so_id s \<and>
    t_sessions d' = t_sessions d @ [opened_session (ih_service h) (request_context now ts r) AuthOidc s]"
proof -
  have other: "ck_name (oidc_state h tls r [] (-1)) = oidc_state_cookie" "oidc_state_cookie \<noteq> session_cookie"
    by (simp_all add: oidc_state_def cookie_at_def oidc_state_cookie_def session_cookie_def)
  obtain trade t d1 x s where trade: "map_option (\<lambda>c t code. exchange_and_validate (ih_env h) c (ih_base h) code (tx_verifier t)
        (tx_nonce t) now) (ih_oidc h) = Some trade"
    and state: "rq_cookie r oidc_state_cookie = Some (rq_query r ''state'')" "rq_query r ''state'' \<noteq> []"
    and finish: "finish_transaction (ih_service h) (request_context now ts r) (rq_query r ''state'') d = (Inr t, d1)"
    and x: "trade t (rq_query r ''code'') = Some x" and s: "ck_value ck = so_id s"
    and login: "complete_oidc_login (ih_service h) (request_context now ts r) (Some t) (Some x) r1 r2 d1 = (Inr s, d')"
    by (rule callback_cookie [OF assms(1) [unfolded handle_oidc_callback_def] assms(2,3)]) (use other in simp_all)
  from trade obtain c where c: "ih_oidc h = Some c"
    "exchange_and_validate (ih_env h) c (ih_base h) (rq_query r ''code'') (tx_verifier t) (tx_nonce t) now = Some x"
    using x by auto
  obtain token where token: "token_proves (ih_env h) c token (tx_nonce t) now x" by (rule exchange_proves [OF c(2)])
  have now: "cx_now (request_context now ts r) = now" by (simp add: request_context_def)
  obtain row where row: "row \<in> set (t_transactions d)" "ot_state row = hash (ih_service h) (rq_query r ''state'')"
    "ot_used row = None" "now < ot_expires row" "tx_purpose t = ot_purpose row" "tx_nonce t = ot_nonce row"
    and same: "t_sessions d1 = t_sessions d" "external_identity_binding d1 = external_identity_binding d"
      "\<And>i. member_by_id i d1 = member_by_id i d"
    by (rule finish_row [OF finish]) (simp add: now external_identity_binding_def external_identity_binding_q_def
        member_by_id_def member_by_id_q_def)
  obtain b m where b: "tx_purpose t = ''login''" "external_identity_binding d1 = Inr b" "xb_issuer b = oi_issuer x"
    "xb_subject b = oi_subject x" "member_by_id (xb_admin b) d1 = Inr m" "ad_status m = MemberActive" "so_member s = ad_id m"
    "t_sessions d' = t_sessions d1 @ [opened_session (ih_service h) (request_context now ts r) AuthOidc s]"
    "t_transactions d' = t_transactions d1"
    by (rule external_login_opens [OF login])
  have "state_spent (ot_state row) now d'"
    using finish_spends [OF finish] by (simp add: state_spent_def b(9) row(2) now)
  with c(1) state row token b s same show ?thesis by metis
qed

definition demo_oidc :: oidc_client where
  "demo_oidc = \<lparr>dc_config = \<lparr>dg_public_url = ''https://console'', dg_issuer = ''https://idp'', dg_client = ''core'', dg_secret = [],
       dg_scopes = [''openid''], dg_redirects = None\<rparr>,
     dc_metadata = \<lparr>om_issuer = ''https://idp'', om_authorization = ''https://idp/auth'', om_token = ''https://idp/token'',
       om_jwks = ''https://idp/keys'', om_responses = [''code''], om_algorithms = [''RS256'']\<rparr>\<rparr>"

text \<open>A provider whose tokens are issued at second 1000 and expire at second 1300, for the nonce of one login.\<close>

definition demo_nonce :: string where
  "demo_nonce = new_secret 192 ''nonce''"

definition demo_issuer :: provider_env where
  "demo_issuer = demo_provider\<lparr>pe_net := (\<lambda>policy q. Some \<lparr>hr_status = 200, hr_body = Some []\<rparr>), pe_rsa := (\<lambda>n e digest sig. True),
     pe_id_token := (\<lambda>b. Some ''AA.AA.AA''), pe_header := (\<lambda>b. Some \<lparr>jh_alg = ''RS256'', jh_kid = ''k''\<rparr>),
     pe_keys := (\<lambda>b. Some [\<lparr>jk_id = ''k'', jk_type = ''RSA'', jk_alg = ''RS256'', jk_use = ''sig'', jk_modulus = ''AQAB'', jk_exponent = ''AQAB''\<rparr>]),
     pe_claims := (\<lambda>b. Some \<lparr>cm_issuer = ''https://idp'', cm_subject = ''root@idp'', cm_audience = [], cm_azp = [], cm_expires = 1300,
       cm_issued = 1000, cm_nonce = demo_nonce, cm_name = ''Root''\<rparr>), pe_text := (\<lambda>b. Some ''core'')\<rparr>"

definition demo_sso :: identity_handler where
  "demo_sso = \<lparr>ih_service = demo_service, ih_base = ''/api'', ih_oidc = Some demo_oidc, ih_oidc_unavailable = [], ih_oauth = None,
     ih_oauth_unavailable = [], ih_public_url = ''https://console'', ih_trusted = [], ih_env = demo_issuer\<rparr>"

definition demo_pending :: core_db where
  "demo_pending = demo_open\<lparr>t_external := [\<lparr>xb_admin = ''adm'', xb_issuer = ''https://idp'', xb_subject = ''root@idp'', xb_display = [],
       xb_created = 1\<rparr>],
     t_transactions := [\<lparr>ot_state = hash demo_service ''s'', ot_purpose = ''login'', ot_admin = None, ot_nonce = demo_nonce, ot_verifier = ''v'',
       ot_return = ''/dashboard'', ot_expires = 1200 * second, ot_used = None\<rparr>]\<rparr>"

definition demo_answer :: request where
  "demo_answer = (demo_call ''GET'')\<lparr>rq_query := (\<lambda>k. if k = ''state'' then ''s'' else if k = ''code'' then ''c'' else []),
     rq_cookie := (\<lambda>c. Some ''s'')\<rparr>"

lemma demo_token:
  "exchange_and_validate demo_issuer demo_oidc base code verifier demo_nonce (1010 * second) =
     Some \<lparr>oi_issuer = ''https://idp'', oi_subject = ''root@idp'', oi_display = ''Root''\<rparr>"
proof -
  have urls: "url_parse ''https://idp/token'' \<noteq> None" "url_parse ''https://idp/keys'' \<noteq> None" by code_simp+
  have token: "split_on (CHR ''.'') ''AA.AA.AA'' = [''AA'', ''AA'', ''AA'']" by simp
  have decoded: "raw_url_decode ''AA'' = Some [CHR 0x00]" by code_simp
  have number: "raw_url_decode ''AQAB'' = Some [CHR 0x01, CHR 0x00, CHR 0x01]" by code_simp
  have key: "signing_key demo_issuer demo_oidc ''k'' = Some (65537, 65537)"
    using urls by (simp add: signing_key_def get_json_def send_def demo_oidc_def demo_issuer_def demo_provider_def decode_bounded_json_def
        number big_endian_def)
  have claims: "claims_ok demo_issuer demo_oidc demo_nonce (1010 * second) \<lparr>cm_issuer = ''https://idp'', cm_subject = ''root@idp'',
      cm_audience = [], cm_azp = [], cm_expires = 1300, cm_issued = 1000, cm_nonce = demo_nonce, cm_name = ''Root''\<rparr>"
    by (simp add: claims_ok_def demo_issuer_def demo_oidc_def parse_audience_def unix_time_def to_int64_id unix_to_internal_def time_add_def
        clock_skew_def time_sub_def max_id_token_age_def Let_def)
  have "validate_id_token demo_issuer demo_oidc ''AA.AA.AA'' demo_nonce (1010 * second) =
      Some \<lparr>oi_issuer = ''https://idp'', oi_subject = ''root@idp'', oi_display = ''Root''\<rparr>"
    using key claims
    by (simp add: validate_id_token_def token decode_jwt_part_def decoded demo_issuer_def demo_provider_def)
  then show ?thesis
    using urls by (simp add: exchange_and_validate_def send_def oidc_token_request_def decode_bounded_json_def demo_issuer_def
        demo_provider_def demo_oidc_def)
qed

lemma demo_signed_in:
  "\<exists>resp d' ck. handle_oidc_callback demo_sso True (1010 * second) 0 ''r1'' ''r2'' demo_answer demo_pending = (resp, d') \<and>
     ck \<in> set (rz_cookies resp) \<and> ck_name ck = session_cookie"
  by (simp add: handle_oidc_callback_def callback_with_def demo_sso_def demo_answer_def demo_call_def constant_time_equal
      finish_transaction_def consume_oidc_transaction_def consume_oidc_transaction_q_def Let_def row_of_def one_def
      request_context_def demo_token [simplified] complete_oidc_login_def complete_login_with_def external_identity_binding_def
      external_identity_binding_q_def demo_pending_def demo_open_def demo_member_def empty_core_def db.defs member_by_id_def
      member_by_id_q_def issue_session_def with_store_def create_bounded_session_def create_bounded_session_q_def exists_admin_def
      session_cookie_of_def conj_disj_distribR ex_disj_distrib)

theorem oidc_session_requirements_witness:
  "\<exists>resp d' s. handle_oidc_callback demo_sso True (1010 * second) 0 ''r1'' ''r2'' demo_answer demo_pending = (resp, d') \<and>
     t_sessions d' = [s] \<and> ss_admin s = ''adm'' \<and> ss_method s = AuthOidc"
proof -
  obtain resp d' ck where run: "handle_oidc_callback demo_sso True (1010 * second) 0 ''r1'' ''r2'' demo_answer demo_pending = (resp, d')"
    and ck: "ck \<in> set (rz_cookies resp)" "ck_name ck = session_cookie"
    using demo_signed_in by blast
  from oidc_session_requirements [OF run ck]
  obtain b m s where "external_identity_binding demo_pending = Inr b" "member_by_id (xb_admin b) demo_pending = Inr m"
    "so_member s = ad_id m"
    "t_sessions d' = t_sessions demo_pending @ [opened_session (ih_service demo_sso) (request_context (1010 * second) 0 demo_answer)
      AuthOidc s]" by blast
  with run show ?thesis
    by (auto simp: demo_pending_def demo_open_def demo_member_def empty_core_def db.defs external_identity_binding_def
        external_identity_binding_q_def member_by_id_def member_by_id_q_def row_of_def one_def opened_session_def)
qed

section \<open>What a provider is asked\<close>

lemma map_of_sort_key: "distinct (map fst vs) \<Longrightarrow> map_of (sort_key fst vs) = map_of vs"
proof -
  assume d: "distinct (map fst vs)"
  have "mset (map fst (sort_key fst vs)) = mset (map fst vs)" by simp
  with d have "distinct (map fst (sort_key fst vs))" by (metis mset_eq_imp_distinct_iff)
  with d show ?thesis using map_of_inject_set [of "sort_key fst vs" vs] by simp
qed

lemma parse_encoded:
  assumes "distinct (map fst vs)" "vs \<noteq> []"
  obtains qs where "parse_query (encode_values vs) = Some qs" "\<And>k. query_value qs k = (case map_of vs k of None \<Rightarrow> [] | Some v \<Rightarrow> v)"
  using parse_encoded_values [OF assms(2)] map_of_sort_key [OF assms(1)] by (simp add: query_value_def)

text \<open>
  What a provider finds in the location a browser is sent to, of which the browser keeps the fragment to itself, and in the body of a
  token request.
\<close>

definition asked :: "string \<Rightarrow> string \<Rightarrow> string option" where
  "asked location k =
     map_option (\<lambda>qs. query_value qs k) (parse_query (snd (cut_at (CHR ''?'') (fst (cut_at (CHR ''#'') location)))))"

definition posted :: "http_request \<Rightarrow> string \<Rightarrow> string option" where
  "posted q k = map_option (\<lambda>bs. query_value bs k) (parse_query (hq_body q))"

lemma cut_query: "CHR ''?'' \<notin> set e \<Longrightarrow> snd (cut_at (CHR ''?'') (e @ ''?'' @ q)) = q"
  by (induction e) (auto simp: cut_at_def)

lemma cut_nothing: "c \<notin> set s \<Longrightarrow> fst (cut_at c s) = s"
  by (auto simp: cut_at_def takeWhile_eq_all_conv)

lemma encode_values_no_hash: "CHR ''#'' \<notin> set (encode_values vs)"
proof -
  have "CHR ''#'' \<notin> set (query_escape s)" for s
    using query_escape_plain [of "CHR ''#''" s] by (auto simp: unreserved_def)
  then have "\<forall>x \<in> set (map (\<lambda>(k, v). query_escape k @ ''='' @ query_escape v) xs). CHR ''#'' \<notin> set x" for xs by auto
  moreover have "\<forall>x \<in> set ps. CHR ''#'' \<notin> set x \<Longrightarrow> CHR ''#'' \<notin> set (join_with ''&'' ps)" for ps
    by (induction "''&''" ps rule: join_with.induct) auto
  ultimately show ?thesis unfolding encode_values_def by blast
qed

lemma asked_parameters:
  assumes "CHR ''?'' \<notin> set (om_authorization (dc_metadata c))" "CHR ''#'' \<notin> set (om_authorization (dc_metadata c))"
  shows "asked (oidc_authorization_url pe c base state nonce verifier) k =
    Some (case map_of (oidc_parameters pe c base state nonce verifier) k of None \<Rightarrow> [] | Some v \<Rightarrow> v)"
proof -
  let ?ps = "oidc_parameters pe c base state nonce verifier"
  obtain qs where qs: "parse_query (encode_values ?ps) = Some qs"
    "\<And>k. query_value qs k = (case map_of ?ps k of None \<Rightarrow> [] | Some v \<Rightarrow> v)"
    by (rule parse_encoded [of ?ps]) (auto simp: oidc_parameters_def)
  have "fst (cut_at (CHR ''#'') (oidc_authorization_url pe c base state nonce verifier)) =
      om_authorization (dc_metadata c) @ ''?'' @ encode_values ?ps"
    unfolding oidc_authorization_url_def by (rule cut_nothing) (use assms(2) encode_values_no_hash in simp)
  then show ?thesis
    by (simp add: asked_def cut_query [OF assms(1), of "encode_values ?ps", simplified] qs)
qed

lemma posted_values:
  "posted (oidc_token_request c base code verifier) k = Some (case map_of (token_values code (oidc_redirect_uri c base) verifier
     (dg_client (dc_config c)) (dg_secret (dc_config c))) k of None \<Rightarrow> [] | Some v \<Rightarrow> v)"
proof -
  let ?bs = "token_values code (oidc_redirect_uri c base) verifier (dg_client (dc_config c)) (dg_secret (dc_config c))"
  obtain bs where "parse_query (encode_values ?bs) = Some bs"
    "\<And>k. query_value bs k = (case map_of ?bs k of None \<Rightarrow> [] | Some v \<Rightarrow> v)"
    by (rule parse_encoded [of ?bs]) (auto simp: token_values_def)
  then show ?thesis by (simp add: posted_def oidc_token_request_def Let_def)
qed

text \<open>A login that begins leaves one transaction of its state.\<close>

lemma oidc_login_begun:
  assumes "handle_start_oidc_login h tls now ts r1 r2 r3 r d = (resp, d1)" "rz_out resp = Redirect l" "ih_oidc h = Some c"
  obtains state nonce verifier row where
    "l = oidc_authorization_url (ih_env h) c (ih_base h) state nonce verifier"
    "rz_cookies resp = [oidc_state h tls r state transaction_age]"
    "ot_state row = hash (ih_service h) state" "ot_nonce row = nonce" "ot_verifier row = verifier"
    "filter (\<lambda>t. ot_state t = hash (ih_service h) state) (t_transactions d1) = [row]"
proof -
  let ?sv = "ih_service h" and ?cx = "request_context now ts r" and ?ret = "valid_return_to (rq_query r ''return_to'')"
  obtain st where st: "begin_transaction ?sv ?cx ''login'' [] ?ret r1 r2 r3 d = (Inr st, d1)"
    and resp: "rz_cookies resp = [oidc_state h tls r (os_state st) transaction_age]"
      "l = oidc_authorization_url (ih_env h) c (ih_base h) (os_state st) (os_nonce st) (os_verifier st)"
  proof -
    obtain res d2 where start: "start_oidc_login ?sv ?cx ?ret r1 r2 r3 d = (res, d2)" by fastforce
    then obtain st where "res = Inr st" using assms by (cases res) (auto simp: handle_start_oidc_login_def bad_external_def refuse_def plain_def)
    with start assms have "start_oidc_login ?sv ?cx ?ret r1 r2 r3 d = (Inr st, d1)"
      "rz_cookies resp = [oidc_state h tls r (os_state st) transaction_age]"
      "l = oidc_authorization_url (ih_env h) c (ih_base h) (os_state st) (os_nonce st) (os_verifier st)"
      by (auto simp: handle_start_oidc_login_def)
    with that show thesis
      by (cases "external_identity_binding d") (auto simp: start_oidc_login_def start_login_with_def denied_def)
  qed
  let ?row = "\<lparr>ot_state = hash ?sv (os_state st), ot_purpose = ''login'', ot_admin = None, ot_nonce = os_nonce st,
      ot_verifier = os_verifier st, ot_return = ?ret, ot_expires = cx_now ?cx + 5 * minute, ot_used = None\<rparr>"
  have "t_transactions d1 = t_transactions d @ [?row]" "\<forall>t \<in> set (t_transactions d). ot_state t \<noteq> hash ?sv (os_state st)"
    using st by (auto simp: begin_transaction_def Let_def with_store_def create_oidc_transaction_def insert_oidc_transaction_q_def
        split: sum.splits if_splits)
  then have "filter (\<lambda>t. ot_state t = hash ?sv (os_state st)) (t_transactions d1) = [?row]" by simp
  with that [of "os_state st" "os_nonce st" "os_verifier st" ?row] resp show thesis by simp
qed

text \<open>A callback that opens a Session has traded its code with the verifier and the nonce of the one transaction of its state.\<close>

lemma oidc_login_finished:
  assumes run: "handle_oidc_callback h tls now ts q1 q2 reply d = (resp, d')" "ih_oidc h = Some c"
    and ck: "ck \<in> set (rz_cookies resp)" "ck_name ck = session_cookie"
    and only: "filter (\<lambda>t. ot_state t = hash (ih_service h) (rq_query reply ''state'')) (t_transactions d) = [row]"
  shows "\<exists>answer token x.
      send (ih_env h) (oidc_policy c) (oidc_token_request c (ih_base h) (rq_query reply ''code'') (ot_verifier row)) = Some answer \<and>
      decode_bounded_json (pe_id_token (ih_env h)) answer = Some token \<and> token_proves (ih_env h) c token (ot_nonce row) now x"
proof -
  have other: "ck_name (oidc_state h tls reply [] (-1)) = oidc_state_cookie" "oidc_state_cookie \<noteq> session_cookie"
    by (simp_all add: oidc_state_def cookie_at_def oidc_state_cookie_def session_cookie_def)
  obtain trade t x d4 where trade: "map_option (\<lambda>c t code. exchange_and_validate (ih_env h) c (ih_base h) code (tx_verifier t)
        (tx_nonce t) now) (ih_oidc h) = Some trade"
    and finish: "finish_transaction (ih_service h) (request_context now ts reply) (rq_query reply ''state'') d = (Inr t, d4)"
    and x: "trade t (rq_query reply ''code'') = Some x"
    by (rule callback_cookie [OF run(1) [unfolded handle_oidc_callback_def] ck]) (use other in simp_all)
  obtain row' where row': "row' \<in> set (t_transactions d)" "ot_state row' = hash (ih_service h) (rq_query reply ''state'')"
    "tx_nonce t = ot_nonce row'" "tx_verifier t = ot_verifier row'"
    by (rule finish_row [OF finish]) simp
  have "row' \<in> set [row]" unfolding only [symmetric] using row' by simp
  with x trade row' run(2)
  have "exchange_and_validate (ih_env h) c (ih_base h) (rq_query reply ''code'') (ot_verifier row) (ot_nonce row) now = Some x" by auto
  then show ?thesis by (rule exchange_proves) blast
qed

text \<open>C35: What Core asks an OpenID provider arrives, and the login that ends is the one that began: when the authorization endpoint has
  no query and no fragment of its own, the provider reads back from the location a login redirects to the client, the scopes and
  the redirect location exactly, whatever bytes they are made of, and the state is the one the browser gets as a cookie. When a callback of
  that state later sets a Session cookie, the transaction of the state being as the login left it, then it has sent the
  provider a token request with the callback's code, the same redirect location and the verifier whose challenge the provider was shown
  (PKCE, S256), and the ID token in the answer proves an identity for the nonce the provider was shown.\<close>

theorem authorization_roundtrip:
  assumes "handle_start_oidc_login h tls now ts r1 r2 r3 r d = (resp, d1)" "rz_out resp = Redirect l" "ih_oidc h = Some c"
    and "CHR ''?'' \<notin> set (om_authorization (dc_metadata c))" "CHR ''#'' \<notin> set (om_authorization (dc_metadata c))"
  shows "map (asked l) [''response_type'', ''client_id'', ''scope'', ''redirect_uri'', ''code_challenge_method''] =
      map Some [''code'', dg_client (dc_config c), join_with '' '' (dg_scopes (dc_config c)), oidc_redirect_uri c (ih_base h), ''S256''] \<and>
    (\<exists>state. asked l ''state'' = Some state \<and> rz_cookies resp = [oidc_state h tls r state transaction_age]) \<and>
    (\<forall>tls2 now2 ts2 q1 q2 reply d2 resp2 d3 ck.
      asked l ''state'' = Some (rq_query reply ''state'') \<and>
      filter (\<lambda>t. ot_state t = hash (ih_service h) (rq_query reply ''state'')) (t_transactions d2) =
        filter (\<lambda>t. ot_state t = hash (ih_service h) (rq_query reply ''state'')) (t_transactions d1) \<and>
      handle_oidc_callback h tls2 now2 ts2 q1 q2 reply d2 = (resp2, d3) \<and> ck \<in> set (rz_cookies resp2) \<and> ck_name ck = session_cookie \<longrightarrow>
      (\<exists>verifier nonce answer token x.
        asked l ''code_challenge'' = Some (pkce_challenge (ih_env h) verifier) \<and> asked l ''nonce'' = Some nonce \<and>
        send (ih_env h) (oidc_policy c) (oidc_token_request c (ih_base h) (rq_query reply ''code'') verifier) = Some answer \<and>
        map (posted (oidc_token_request c (ih_base h) (rq_query reply ''code'') verifier)) [''code'', ''code_verifier'', ''redirect_uri''] =
          [Some (rq_query reply ''code''), Some verifier, asked l ''redirect_uri''] \<and>
        decode_bounded_json (pe_id_token (ih_env h)) answer = Some token \<and> token_proves (ih_env h) c token nonce now2 x))"
proof -
  obtain state nonce verifier row where l: "l = oidc_authorization_url (ih_env h) c (ih_base h) state nonce verifier"
    and cookies: "rz_cookies resp = [oidc_state h tls r state transaction_age]"
    and row: "ot_state row = hash (ih_service h) state" "ot_nonce row = nonce" "ot_verifier row = verifier"
    and only: "filter (\<lambda>t. ot_state t = hash (ih_service h) state) (t_transactions d1) = [row]"
    by (rule oidc_login_begun [OF assms(1-3)])
  note read = asked_parameters [OF assms(4,5), of "ih_env h" "ih_base h" state nonce verifier, folded l]
  show ?thesis
  proof (intro conjI allI impI)
    show "map (asked l) [''response_type'', ''client_id'', ''scope'', ''redirect_uri'', ''code_challenge_method''] =
      map Some [''code'', dg_client (dc_config c), join_with '' '' (dg_scopes (dc_config c)), oidc_redirect_uri c (ih_base h), ''S256'']"
      by (simp add: read oidc_parameters_def)
    show "\<exists>state. asked l ''state'' = Some state \<and> rz_cookies resp = [oidc_state h tls r state transaction_age]"
      by (simp add: read oidc_parameters_def cookies)
    fix tls2 now2 ts2 q1 q2 reply d2 resp2 d3 ck
    assume "asked l ''state'' = Some (rq_query reply ''state'') \<and>
      filter (\<lambda>t. ot_state t = hash (ih_service h) (rq_query reply ''state'')) (t_transactions d2) =
        filter (\<lambda>t. ot_state t = hash (ih_service h) (rq_query reply ''state'')) (t_transactions d1) \<and>
      handle_oidc_callback h tls2 now2 ts2 q1 q2 reply d2 = (resp2, d3) \<and> ck \<in> set (rz_cookies resp2) \<and> ck_name ck = session_cookie"
    then have same: "rq_query reply ''state'' = state"
      and run: "handle_oidc_callback h tls2 now2 ts2 q1 q2 reply d2 = (resp2, d3)" "ck \<in> set (rz_cookies resp2)" "ck_name ck = session_cookie"
      and "filter (\<lambda>t. ot_state t = hash (ih_service h) (rq_query reply ''state'')) (t_transactions d2) = [row]"
      using only by (simp_all add: read oidc_parameters_def)
    from oidc_login_finished [OF run(1) assms(3) run(2,3) this(5)]
    obtain answer token x where "send (ih_env h) (oidc_policy c) (oidc_token_request c (ih_base h) (rq_query reply ''code'') verifier) =
        Some answer" "decode_bounded_json (pe_id_token (ih_env h)) answer = Some token" "token_proves (ih_env h) c token nonce now2 x"
      unfolding row by blast
    then show "\<exists>verifier nonce answer token x.
        asked l ''code_challenge'' = Some (pkce_challenge (ih_env h) verifier) \<and> asked l ''nonce'' = Some nonce \<and>
        send (ih_env h) (oidc_policy c) (oidc_token_request c (ih_base h) (rq_query reply ''code'') verifier) = Some answer \<and>
        map (posted (oidc_token_request c (ih_base h) (rq_query reply ''code'') verifier)) [''code'', ''code_verifier'', ''redirect_uri''] =
          [Some (rq_query reply ''code''), Some verifier, asked l ''redirect_uri''] \<and>
        decode_bounded_json (pe_id_token (ih_env h)) answer = Some token \<and> token_proves (ih_env h) c token nonce now2 x"
      by (intro exI [of _ verifier] exI [of _ nonce] exI [of _ answer] exI [of _ token] exI [of _ x])
        (simp add: read oidc_parameters_def posted_values token_values_def)
  qed
qed

text \<open>A login is begun, and its callback opens a Session.\<close>

definition demo_begun :: "unit response \<times> core_db" where
  "demo_begun = handle_start_oidc_login demo_sso True (1005 * second) 0 ''state'' ''nonce'' ''verifier'' (demo_call ''GET'')
     (demo_pending\<lparr>t_transactions := []\<rparr>)"

definition demo_return :: request where
  "demo_return = (demo_call ''GET'')\<lparr>rq_query := (\<lambda>k. if k = ''state'' then new_secret 192 ''state'' else if k = ''code'' then ''c'' else []),
     rq_cookie := (\<lambda>c. Some (new_secret 192 ''state''))\<rparr>"

lemma demo_begun_parts:
  "rz_out (fst demo_begun) = Redirect (oidc_authorization_url demo_issuer demo_oidc ''/api'' (new_secret 192 ''state'') demo_nonce
     (new_secret 256 ''verifier''))"
  "snd demo_begun = demo_pending\<lparr>t_transactions := [\<lparr>ot_state = hash demo_service (new_secret 192 ''state''), ot_purpose = ''login'',
     ot_admin = None, ot_nonce = demo_nonce, ot_verifier = new_secret 256 ''verifier'', ot_return = valid_return_to [],
     ot_expires = 1005 * second + 5 * minute, ot_used = None\<rparr>]\<rparr>"
  by (simp_all add: demo_begun_def handle_start_oidc_login_def demo_sso_def start_oidc_login_def start_login_with_def
      external_identity_binding_def external_identity_binding_q_def row_of_def one_def demo_pending_def begin_transaction_def Let_def
      with_store_def create_oidc_transaction_def insert_oidc_transaction_q_def request_context_def demo_nonce_def demo_call_def
      demo_open_def empty_core_def db.defs)

lemma demo_returned:
  "\<exists>resp d' ck. handle_oidc_callback demo_sso True (1010 * second) 0 ''r1'' ''r2'' demo_return (snd demo_begun) = (resp, d') \<and>
     ck \<in> set (rz_cookies resp) \<and> ck_name ck = session_cookie"
  unfolding demo_begun_parts
  using new_secret_some [of 192 "''state''"]
  by (simp add: handle_oidc_callback_def callback_with_def demo_sso_def demo_return_def demo_call_def constant_time_equal
      finish_transaction_def consume_oidc_transaction_def consume_oidc_transaction_q_def Let_def row_of_def one_def
      request_context_def demo_token [simplified] complete_oidc_login_def complete_login_with_def external_identity_binding_def
      external_identity_binding_q_def demo_pending_def demo_open_def demo_member_def empty_core_def db.defs member_by_id_def
      member_by_id_q_def issue_session_def with_store_def create_bounded_session_def create_bounded_session_q_def exists_admin_def
      session_cookie_of_def conj_disj_distribR ex_disj_distrib)

theorem authorization_roundtrip_witness:
  "\<exists>l verifier. rz_out (fst demo_begun) = Redirect l \<and> asked l ''nonce'' = Some demo_nonce \<and>
     asked l ''redirect_uri'' = Some ''https://console/api/auth/oidc/callback'' \<and>
     asked l ''code_challenge'' = Some (pkce_challenge demo_issuer verifier) \<and>
     posted (oidc_token_request demo_oidc ''/api'' ''c'' verifier) ''code_verifier'' = Some verifier"
proof -
  let ?l = "oidc_authorization_url demo_issuer demo_oidc ''/api'' (new_secret 192 ''state'') demo_nonce (new_secret 256 ''verifier'')"
  have start: "handle_start_oidc_login demo_sso True (1005 * second) 0 ''state'' ''nonce'' ''verifier'' (demo_call ''GET'')
      (demo_pending\<lparr>t_transactions := []\<rparr>) = (fst demo_begun, snd demo_begun)"
    by (simp add: demo_begun_def)
  have client: "ih_oidc demo_sso = Some demo_oidc" "ih_env demo_sso = demo_issuer" "ih_base demo_sso = ''/api''"
    by (simp_all add: demo_sso_def)
  have plain: "CHR ''?'' \<notin> set (om_authorization (dc_metadata demo_oidc))" "CHR ''#'' \<notin> set (om_authorization (dc_metadata demo_oidc))"
    by (simp_all add: demo_oidc_def)
  note read = asked_parameters [OF plain, of demo_issuer "''/api''" "new_secret 192 ''state''" demo_nonce "new_secret 256 ''verifier''"]
  have uri: "oidc_redirect_uri demo_oidc ''/api'' = ''https://console/api/auth/oidc/callback''" by code_simp
  have state: "asked ?l ''state'' = Some (rq_query demo_return ''state'')"
    unfolding read by (simp add: oidc_parameters_def demo_return_def)
  obtain resp d' ck where reply: "handle_oidc_callback demo_sso True (1010 * second) 0 ''r1'' ''r2'' demo_return (snd demo_begun) = (resp, d')"
    "ck \<in> set (rz_cookies resp)" "ck_name ck = session_cookie"
    using demo_returned by blast
  have code: "rq_query demo_return ''code'' = ''c''" by (simp add: demo_return_def)
  note ended = conjunct2 [OF conjunct2 [OF authorization_roundtrip [OF start demo_begun_parts(1) client(1) plain, unfolded client]],
      rule_format, OF conjI [OF state conjI [OF refl conjI [OF reply(1) conjI [OF reply(2,3)]]]]]
  then obtain verifier where "asked ?l ''code_challenge'' = Some (pkce_challenge demo_issuer verifier)"
    "posted (oidc_token_request demo_oidc ''/api'' ''c'' verifier) ''code_verifier'' = Some verifier"
    unfolding code list.map list.inject by blast
  moreover have "asked ?l ''redirect_uri'' = Some (oidc_redirect_uri demo_oidc ''/api'')"
    unfolding read by (simp add: oidc_parameters_def)
  moreover have "asked ?l ''nonce'' = Some demo_nonce" unfolding read by (simp add: oidc_parameters_def)
  ultimately show ?thesis using demo_begun_parts(1) uri by auto
qed

end
