(* ===== verification/LoginLimit.thy ===== *)
theory LoginLimit
  imports IdentityHandler
begin

text \<open>
  The login handler with its limiter: how many passwords of one client address it checks, whatever other clients do. The
  requests are answered one at a time; what concurrent requests can do is recorded with the manifest's findings.
\<close>

section \<open>A sequence of logins\<close>

record login_event =
  le_tls :: bool
  le_now :: time
  le_ts :: time
  le_pick :: nat
  le_r1 :: bytes
  le_r2 :: bytes
  le_request :: request
  le_body :: "(string \<times> string) option"

definition login_at where
  "login_at h e lm d = handle_login h (le_tls e) (le_now e) (le_ts e) (le_pick e) (le_r1 e) (le_r2 e) (le_request e) (le_body e) lm d"

definition status_of :: "'b response \<Rightarrow> nat" where
  "status_of resp =
     (case rz_out resp of
        Redirect location \<Rightarrow> 302
      | Body rep \<Rightarrow> (case rep of Refused s c \<Rightarrow> s | Replied s b \<Rightarrow> s | Dropped \<Rightarrow> 0))"

text \<open>The statuses of the answers.\<close>

fun serve_logins :: "identity_handler \<Rightarrow> login_event list \<Rightarrow> limiter \<Rightarrow> core_db \<Rightarrow> nat list" where
  "serve_logins h [] lm d = []"
| "serve_logins h (e # es) lm d = (case login_at h e lm d of (resp, lm', d') \<Rightarrow> status_of resp # serve_logins h es lm' d')"

definition client_of :: "login_event \<Rightarrow> string" where
  "client_of e = client_ip (le_request e)"

section \<open>The calls of the limiter\<close>

definition calls_of :: "login_event \<Rightarrow> nat \<Rightarrow> attempt list" where
  "calls_of e status = Asked (client_of e) (le_now e) #
     (if status = 401 then [Failed (client_of e) (le_now e) (le_pick e)]
      else if status = 200 \<or> status = 202 then [Succeeded (client_of e)] else [])"

lemma login_calls:
  assumes "login_at h e (limiter_run hist) d = (resp, lm', d')"
  shows "lm' = limiter_run (hist @ calls_of e (status_of resp))"
    and "status_of resp = 401 \<Longrightarrow> \<not> fst (fst (limited (client_of e) (le_now e) (limiter_run hist)))"
proof -
  obtain blocked after lm1 where l: "limited (client_of e) (le_now e) (limiter_run hist) = ((blocked, after), lm1)"
    by (metis prod.exhaust)
  have lm1: "lm1 = limiter_run (hist @ [Asked (client_of e) (le_now e)])" by (simp add: l)
  note run = assms [unfolded login_at_def handle_login_def Let_def, folded client_of_def, unfolded l prod.case]
  have *: "lm' = limiter_run (hist @ calls_of e (status_of resp)) \<and> (status_of resp = 401 \<longrightarrow> \<not> blocked)"
  proof (cases blocked)
    case True
    with run show ?thesis by (auto simp: lm1 rate_limited_def status_of_def calls_of_def)
  next
    case False
    with run show ?thesis
      by (auto simp: lm1 status_of_def calls_of_def plain_def with_cookies_def limiter_run_def
          split: option.splits sum.splits prod.splits login_out.splits if_splits)
  qed
  then show "lm' = limiter_run (hist @ calls_of e (status_of resp))" by blast
  from * show "status_of resp = 401 \<Longrightarrow> \<not> fst (fst (limited (client_of e) (le_now e) (limiter_run hist)))" by (simp add: l)
qed

section \<open>The guesses of one client\<close>

definition denials :: "string \<Rightarrow> login_event list \<Rightarrow> nat list \<Rightarrow> nat" where
  "denials key es ss = length (filter (\<lambda>(e, s). client_of e = key \<and> s = 401) (zip es ss))"

definition logs_in :: "string \<Rightarrow> login_event list \<Rightarrow> nat list \<Rightarrow> bool" where
  "logs_in key es ss \<longleftrightarrow> list_ex (\<lambda>(e, s). client_of e = key \<and> (s = 200 \<or> s = 202)) (zip es ss)"

lemma denials_Cons: "denials key (e # es) (s # ss) = (if client_of e = key \<and> s = 401 then 1 else 0) + denials key es ss"
  by (simp add: denials_def)

lemma logs_in_Cons:
  "logs_in key (e # es) (s # ss) \<longleftrightarrow> client_of e = key \<and> (s = 200 \<or> s = 202) \<or> logs_in key es ss"
  by (simp add: logs_in_def)

text \<open>The failures a client has open at an instant: of its bucket, when that has not expired.\<close>

definition open_failures :: "string \<Rightarrow> time \<Rightarrow> attempt list \<Rightarrow> bool" where
  "open_failures key t hist \<longleftrightarrow> (case client_bucket key hist of None \<Rightarrow> False | Some b \<Rightarrow> \<not> bucket_expired t b)"

text \<open>
  A window begins at \<open>t0\<close>. Of the \<open>n\<close> guesses in it, those counted in a bucket opened before the window are at most \<open>k\<close>: none, or four,
  since the guess that opened it counts too; those of a bucket opened in the window, which outlasts it, come on top.
\<close>

definition guess_inv :: "time \<Rightarrow> nat \<Rightarrow> nat \<Rightarrow> failure_bucket option \<Rightarrow> bool" where
  "guess_inv t0 k n ob \<longleftrightarrow>
     (case ob of
        None \<Rightarrow> n \<le> k
      | Some b \<Rightarrow>
          if fb_start b < t0 then n \<le> k \<and> (bucket_expired t0 b \<or> k = 4 \<and> int n < fb_count b)
          else n \<le> k + 5 \<and> int n \<le> int k + fb_count b)"

lemma guess_inv_bound: "guess_inv t0 k n ob \<Longrightarrow> n \<le> k + 5"
  by (auto simp: guess_inv_def split: option.splits if_splits)

lemma guess_inv_start: "guess_inv t0 (if open_failures key t0 hist then 4 else 0) 0 (client_bucket key hist)"
proof -
  have "case client_bucket key hist of None \<Rightarrow> True | Some b \<Rightarrow> 0 < fb_count b"
  proof (induction hist rule: rev_induct)
    case (snoc a hist)
    then show ?case by (cases a) (auto split: option.splits)
  qed simp
  then show ?thesis by (auto simp: guess_inv_def open_failures_def split: option.splits)
qed

lemma guess_inv_failed:
  assumes "guess_inv t0 k n ob" "t0 \<le> now" "now < t0 + auth_failure_window"
    and "case ob of None \<Rightarrow> True | Some b \<Rightarrow> bucket_expired now b \<or> fb_count b < auth_failure_limit"
  shows "guess_inv t0 k (Suc n) (client_bucket_step key ob (Failed key now pick))"
  using assms by (cases ob) (auto simp: guess_inv_def bucket_expired_def auth_failure_limit_def split: if_splits)

lemma in_order_calls: "in_order hist t \<Longrightarrow> t \<le> le_now e \<Longrightarrow> in_order (hist @ calls_of e s) (le_now e)"
  by (auto simp: in_order_def calls_of_def List.map_filter_def sorted_append)

lemma failing_calls: "failing_clients (hist @ calls_of e s) \<subseteq> insert (client_of e) (failing_clients hist)"
  by (auto simp: failing_clients_def calls_of_def List.map_filter_def split: if_splits)

lemma bucket_calls:
  "client_bucket key (hist @ calls_of e s) =
     (if client_of e \<noteq> key then client_bucket key hist
      else if s = 401 then client_bucket_step key (client_bucket key hist) (Failed key (le_now e) (le_pick e))
      else if s = 200 \<or> s = 202 then None else client_bucket key hist)"
  by (auto simp: client_bucket_def calls_of_def)

lemma denials_bounded:
  assumes "sorted (map le_now es)" "\<forall>e \<in> set es. t \<le> le_now e \<and> t0 \<le> le_now e \<and> le_now e < t0 + auth_failure_window"
    and "in_order hist t" "card (failing_clients hist \<union> client_of ` set es) \<le> max_failure_buckets"
    and "\<not> logs_in key es (serve_logins h es (limiter_run hist) d)" "guess_inv t0 k n (client_bucket key hist)"
  shows "n + denials key es (serve_logins h es (limiter_run hist) d) \<le> k + 5"
  using assms
proof (induction es arbitrary: hist d n t)
  case Nil
  then show ?case using guess_inv_bound by (simp add: denials_def)
next
  case (Cons e es)
  obtain resp lm' d' where run: "login_at h e (limiter_run hist) d = (resp, lm', d')"
    by (metis prod.exhaust)
  define s where "s = status_of resp"
  define hist' where "hist' = hist @ calls_of e s"
  have calls: "lm' = limiter_run hist'" "s = 401 \<Longrightarrow> \<not> fst (fst (limited (client_of e) (le_now e) (limiter_run hist)))"
    using login_calls [OF run] by (simp_all add: s_def hist'_def)
  have order: "in_order hist (le_now e)"
    using Cons.prems(2,3) by (auto simp: in_order_def sorted_append)
  have cards: "card (failing_clients hist) \<le> max_failure_buckets"
    using Cons.prems(4) by (rule order_trans [rotated]) (auto intro: card_mono)
  have kept: "failing_clients hist' \<union> client_of ` set es \<subseteq> failing_clients hist \<union> client_of ` set (e # es)"
    using failing_calls [of hist e s] by (auto simp: hist'_def)
  have cards': "card (failing_clients hist' \<union> client_of ` set es) \<le> max_failure_buckets"
    using Cons.prems(4) by (rule order_trans [rotated]) (rule card_mono [OF _ kept], simp)
  have quiet: "\<not> (client_of e = key \<and> (s = 200 \<or> s = 202))" "\<not> logs_in key es (serve_logins h es (limiter_run hist') d')"
    using Cons.prems(5) by (simp_all add: run s_def [symmetric] calls(1) logs_in_Cons)
  have free: "case client_bucket key hist of None \<Rightarrow> True | Some b \<Rightarrow> bucket_expired (le_now e) b \<or> fb_count b < auth_failure_limit"
    if "client_of e = key" "s = 401"
  proof -
    have "\<not> fst (client_limited key (le_now e) hist)"
      using calls(2) that limiter_decision [OF order cards, of key] by simp
    then show ?thesis by (auto simp: client_limited_def bucket_expired_def split: option.splits if_splits)
  qed
  have inv: "guess_inv t0 k (n + (if client_of e = key \<and> s = 401 then 1 else 0)) (client_bucket key hist')"
    using guess_inv_failed [OF Cons.prems(6) _ _ free, of key] Cons.prems(2,6) quiet(1)
    by (auto simp: hist'_def bucket_calls)
  have "n + (if client_of e = key \<and> s = 401 then 1 else 0) + denials key es (serve_logins h es (limiter_run hist') d') \<le> k + 5"
    by (rule Cons.IH [OF _ _ _ cards' quiet(2) inv, where t = "le_now e"])
      (use Cons.prems(1-3) in \<open>auto simp: hist'_def in_order_calls\<close>)
  then show ?case by (simp add: run s_def [symmetric] calls(1) denials_Cons)
qed

text \<open>The other answers of the handler.\<close>

lemma login_statuses:
  assumes "login_at h e lm d = (resp, lm', d')"
  shows "status_of resp \<in> {200, 202, 400, 401, 403, 429, 500}"
  using assms unfolding login_at_def handle_login_def
  by (auto simp: Let_def rate_limited_def plain_def with_cookies_def status_of_def
      split: option.splits sum.splits prod.splits login_out.splits if_splits)

lemma serve_statuses: "set (serve_logins h es lm d) \<subseteq> {200, 202, 400, 401, 403, 429, 500}"
proof (induction es arbitrary: lm d)
  case (Cons e es)
  obtain resp lm' d' where run: "login_at h e lm d = (resp, lm', d')" by (metis prod.exhaust)
  with login_statuses [OF run] Cons.IH [of lm' d'] show ?case by simp
qed simp

text \<open>C34: password guessing is bounded per client address, when the server answers login requests one at a time. Take any window of
  five minutes, with the login requests of up to 10000 failing clients interleaved in any way, and any history before it: of the requests of one
  address none of which logs in, at most nine are answered by refusing the password (401), and at most five when no failure of that
  address was still counted when the window began. All its other requests are turned away with 429 by the limiter, with 400
  for a body that cannot be read, with 403 when password login is off, or with 500.\<close>

theorem guesses_bounded:
  assumes "sorted (map le_now es)" "\<forall>e \<in> set es. t0 \<le> le_now e \<and> le_now e < t0 + auth_failure_window"
    and "in_order hist t0" "card (failing_clients hist \<union> client_of ` set es) \<le> max_failure_buckets"
    and "\<not> logs_in key es (serve_logins h es (limiter_run hist) d)"
  shows "denials key es (serve_logins h es (limiter_run hist) d) \<le> (if open_failures key t0 hist then 9 else 5) \<and>
    list_all (\<lambda>(e, status). client_of e = key \<longrightarrow> status = 401 \<or> status \<in> {429, 400, 403, 500})
      (zip es (serve_logins h es (limiter_run hist) d))"
proof
  show "denials key es (serve_logins h es (limiter_run hist) d) \<le> (if open_failures key t0 hist then 9 else 5)"
    using denials_bounded [OF assms(1) _ assms(3-5) guess_inv_start, of t0] assms(2) by (auto split: if_splits)
  have "status \<in> {429, 400, 403, 500} \<or> status = 401"
    if "(e, status) \<in> set (zip es (serve_logins h es (limiter_run hist) d))" "client_of e = key" for e status
  proof -
    have "status \<in> {200, 202, 400, 401, 403, 429, 500}"
      using set_zip_rightD [OF that(1)] serve_statuses by blast
    moreover have "status \<noteq> 200 \<and> status \<noteq> 202"
      using assms(5) that by (auto simp: logs_in_def list_ex_iff)
    ultimately show ?thesis by blast
  qed
  then show "list_all (\<lambda>(e, status). client_of e = key \<longrightarrow> status = 401 \<or> status \<in> {429, 400, 403, 500})
      (zip es (serve_logins h es (limiter_run hist) d))"
    unfolding list_all_iff by blast
qed

text \<open>One failure before the window, four in it, and five more when the first bucket has expired.\<close>

definition demo_identity :: identity_handler where
  "demo_identity = \<lparr>ih_service = \<lparr>sv_sha256 = id, sv_argon = (\<lambda>p s t m th n. p), sv_hmac = (\<lambda>k m. k), sv_seal = (\<lambda>k n p. p),
       sv_open = (\<lambda>k n c. Some c), sv_master = [], sv_oidc_ready = False, sv_oauth_ready = False\<rparr>,
     ih_base = ''/api'', ih_oidc = None, ih_oidc_unavailable = [], ih_oauth = None, ih_oauth_unavailable = [],
     ih_public_url = ''https://console'', ih_trusted = [],
     ih_env = \<lparr>pe_net = (\<lambda>policy q. None), pe_sha256 = id, pe_rsa = (\<lambda>n e digest sig. False), pe_metadata = (\<lambda>b. None),
       pe_id_token = (\<lambda>b. None), pe_header = (\<lambda>b. None), pe_claims = (\<lambda>b. None), pe_text = (\<lambda>b. None), pe_texts = (\<lambda>b. None),
       pe_keys = (\<lambda>b. None), pe_access_token = (\<lambda>b. None), pe_object = (\<lambda>b. None)\<rparr>\<rparr>"

definition demo_guess :: "time \<Rightarrow> login_event" where
  "demo_guess t = \<lparr>le_tls = True, le_now = t, le_ts = t, le_pick = 0, le_r1 = [], le_r2 = [],
     le_request = \<lparr>rq_method = ''POST'', rq_uri = ''/api/auth/login'', rq_remote = ''10.0.0.1:99'', rq_header = (\<lambda>x. []),
       rq_cookie = (\<lambda>c. None), rq_query = (\<lambda>q. []), rq_session = None, rq_serial = None\<rparr>,
     le_body = Some (''nobody'', ''guess'')\<rparr>"

definition demo_guesses :: "login_event list" where
  "demo_guesses = map (\<lambda>m. demo_guess (m * minute)) [1, 2, 3, 4, 4, 5, 5, 5, 5, 5, 5]"

definition demo_tables :: core_db where
  "demo_tables = empty_core\<lparr>t_org := [\<lparr>og_name = ''org'', og_totp = False, og_password = True\<rparr>]\<rparr>"

lemma demo_client: "client_of (demo_guess t) = ''10.0.0.1''" "client_ip (le_request (demo_guess t)) = ''10.0.0.1''"
proof -
  have "split_host_port ''10.0.0.1:99'' = Some (''10.0.0.1'', ''99'')" by code_simp
  then show "client_ip (le_request (demo_guess t)) = ''10.0.0.1''" by (simp add: client_ip_def peer_host_def demo_guess_def)
  then show "client_of (demo_guess t) = ''10.0.0.1''" by (simp add: client_of_def)
qed

text \<open>Nobody has that name, so that the limiter alone decides.\<close>

fun guess_statuses :: "time list \<Rightarrow> limiter \<Rightarrow> nat list" where
  "guess_statuses [] lm = []"
| "guess_statuses (t # ts) lm =
     (if fst (fst (limited ''10.0.0.1'' t lm)) then 429 # guess_statuses ts (snd (limited ''10.0.0.1'' t lm))
      else 401 # guess_statuses ts (failed ''10.0.0.1'' t 0 (snd (limited ''10.0.0.1'' t lm))))"

lemma demo_serve:
  "t_admins d = [] \<Longrightarrow> t_org d = [\<lparr>og_name = ''org'', og_totp = False, og_password = True\<rparr>] \<Longrightarrow>
     serve_logins demo_identity (map demo_guess ts) lm d = guess_statuses ts lm"
proof (induction ts arbitrary: lm d)
  case (Cons t ts)
  obtain blocked wait lm1 where l: "limited ''10.0.0.1'' t lm = ((blocked, wait), lm1)" by (metis prod.exhaust)
  define cx where "cx = request_context t t (le_request (demo_guess t))"
  have run: "login_at demo_identity (demo_guess t) lm d =
      (if blocked then (rate_limited wait, lm1, handler_audit cx ''auth.login'' ''rate_limited'' d)
       else (plain (Refused 401 code_unauthorized), failed ''10.0.0.1'' t 0 lm1,
         record_audit cx ''authentication'' ''auth.login'' [] ''denied'' d))"
    using Cons.prems demo_client(2) [of t]
    by (simp add: login_at_def handle_login_def Let_def l demo_guess_def cx_def demo_identity_def login_def with_store_def
        organization_def organization_q_def row_of_def one_def password_login_available_def member_by_username_def
        member_by_username_q_def denied_def)
  have same: "t_admins (handler_audit cx a c d) = t_admins d" "t_org (handler_audit cx a c d) = t_org d"
    "t_admins (record_audit cx u a i c d) = t_admins d" "t_org (record_audit cx u a i c d) = t_org d" for u a i c
    by (simp_all add: handler_audit_def record_audit_def)
  show ?case
    using Cons.IH Cons.prems by (simp add: run l same status_of_def rate_limited_def plain_def)
qed simp

lemma demo_statuses:
  "serve_logins demo_identity demo_guesses (limiter_run [Failed ''10.0.0.1'' 0 0]) demo_tables =
     [401, 401, 401, 401, 429, 401, 401, 401, 401, 401, 429]"
proof -
  have "demo_guesses = map demo_guess (map (\<lambda>m. m * minute) [1, 2, 3, 4, 4, 5, 5, 5, 5, 5, 5])"
    by (simp add: demo_guesses_def)
  moreover have "t_admins demo_tables = []" "t_org demo_tables = [\<lparr>og_name = ''org'', og_totp = False, og_password = True\<rparr>]"
    by (simp_all add: demo_tables_def empty_core_def db.defs)
  ultimately have "serve_logins demo_identity demo_guesses (limiter_run [Failed ''10.0.0.1'' 0 0]) demo_tables =
      guess_statuses (map (\<lambda>m. m * minute) [1, 2, 3, 4, 4, 5, 5, 5, 5, 5, 5]) (limiter_run [Failed ''10.0.0.1'' 0 0])"
    using demo_serve by metis
  then show ?thesis
    by (simp add: limiter_run_def limited_def failed_def bucket_expired_def auth_failure_window_def auth_failure_limit_def
        sweep_def evict_def max_failure_buckets_def)
qed

theorem guesses_bounded_witness:
  "denials ''10.0.0.1'' demo_guesses (serve_logins demo_identity demo_guesses (limiter_run [Failed ''10.0.0.1'' 0 0]) demo_tables) \<le> 9 \<and>
     denials ''10.0.0.1'' demo_guesses [401, 401, 401, 401, 429, 401, 401, 401, 401, 401, 429] = 9"
proof -
  have clients: "failing_clients [Failed ''10.0.0.1'' 0 0] \<union> client_of ` set demo_guesses = {''10.0.0.1''}"
    by (simp add: failing_clients_def List.map_filter_def demo_guesses_def demo_client)
  have "denials ''10.0.0.1'' demo_guesses (serve_logins demo_identity demo_guesses (limiter_run [Failed ''10.0.0.1'' 0 0]) demo_tables) \<le>
      (if open_failures ''10.0.0.1'' minute [Failed ''10.0.0.1'' 0 0] then 9 else 5)"
  proof (rule guesses_bounded [THEN conjunct1])
    show "sorted (map le_now demo_guesses)" by (simp add: demo_guesses_def demo_guess_def)
    show "\<forall>e \<in> set demo_guesses. minute \<le> le_now e \<and> le_now e < minute + auth_failure_window"
      by (simp add: demo_guesses_def demo_guess_def auth_failure_window_def)
    show "in_order [Failed ''10.0.0.1'' 0 0] minute" by (simp add: in_order_def List.map_filter_def)
    show "card (failing_clients [Failed ''10.0.0.1'' 0 0] \<union> client_of ` set demo_guesses) \<le> max_failure_buckets"
      by (simp add: clients max_failure_buckets_def)
    show "\<not> logs_in ''10.0.0.1'' demo_guesses (serve_logins demo_identity demo_guesses (limiter_run [Failed ''10.0.0.1'' 0 0]) demo_tables)"
      unfolding demo_statuses by (simp add: logs_in_def demo_guesses_def)
  qed
  moreover have "denials ''10.0.0.1'' demo_guesses [401, 401, 401, 401, 429, 401, 401, 401, 401, 401, 429] = 9"
    by (simp add: denials_def demo_guesses_def demo_client)
  ultimately show ?thesis by (auto split: if_splits)
qed

end
