(* ===== verification/Accountability.thy ===== *)
theory Accountability
  imports ServerProperties
begin

text \<open>
  What the management surface leaves in the audit log: a request that changes the database says who changed it, and one that
  is refused changes nothing, with the exceptions the handlers have.
\<close>

section \<open>Changes without an event\<close>

text \<open>Steps of the stores, none of which touches the audit log.\<close>

abbreviation quiet :: "db \<Rightarrow> db \<Rightarrow> bool" where
  "quiet \<equiv> core_step\<^sup>*\<^sup>*"

lemma quiet_audit: "quiet d d' \<Longrightarrow> bundle_ok d \<Longrightarrow> bundle_ok d' \<and> t_audit d' = t_audit d"
proof (induction rule: rtranclp_induct)
  case (step d1 d2)
  then have ok: "bundle_ok d1" and same: "t_audit d1 = t_audit d" by simp_all
  have "bundle_ok d2"
    using step(2) bundle_step_ok [OF _ ok] same_tables_ok [OF fleet_step_same ok] by (auto simp: core_step_def)
  with core_step_audit [OF step(2) ok] same show ?case by simp
qed simp

lemma quiet_step: "bundle_step d d' \<Longrightarrow> quiet d d'" "fleet_step d d' \<Longrightarrow> quiet d d'"
  by (simp_all add: core_step_def r_into_rtranclp)

lemmas quiet_bundle = bundle_step.intros [THEN quiet_step(1)]
lemmas quiet_fleet = fleet_step.intros [THEN quiet_step(2)]

lemma quiet_after: "quiet d d1 \<Longrightarrow> bundle_step d1 d2 \<Longrightarrow> quiet d d2" "quiet d d1 \<Longrightarrow> fleet_step d1 d2 \<Longrightarrow> quiet d d2"
  by (auto simp: core_step_def intro: rtranclp.rtrancl_into_rtrancl)

text \<open>What a request other than a read may do.\<close>

definition nodes_only :: "db \<Rightarrow> db \<Rightarrow> bool" where
  "nodes_only d d' \<longleftrightarrow> (\<exists>ns. d' = d\<lparr>t_nodes := ns\<rparr>)"

definition members_only :: "db \<Rightarrow> db \<Rightarrow> bool" where
  "members_only d d' \<longleftrightarrow> (\<exists>ms. d' = d\<lparr>t_members := ms\<rparr>)"

definition draft_only :: "db \<Rightarrow> db \<Rightarrow> bool" where
  "draft_only d d' \<longleftrightarrow> (\<exists>ss ds. d' = d\<lparr>t_selections := ss, t_drafts := ds\<rparr>)"

definition by_requester :: "request \<Rightarrow> db \<Rightarrow> db \<Rightarrow> bool" where
  "by_requester r d d' \<longleftrightarrow> (\<exists>now ts action resource result d1. quiet d d1 \<and>
     d' = audit_by now ts r (actor_from r) action resource result d1)"

definition accounts :: "request \<Rightarrow> db \<Rightarrow> unit reply \<Rightarrow> db \<Rightarrow> bool" where
  "accounts r d rep d' \<longleftrightarrow>
     (case rep of
        Dropped \<Rightarrow> d' = d
      | Refused st c \<Rightarrow> d' = d \<or> (st = 503 \<or> rq_method r = ''PATCH'') \<and> nodes_only d d' \<or> st = 500 \<and> quiet d d'
      | Replied st u \<Rightarrow> by_requester r d d' \<or> st = 200 \<and> (members_only d d' \<or> draft_only d d'))"

lemma accounts_unchanged [simp]: "accounts r d Dropped d" "accounts r d (Refused st c) d"
  by (simp_all add: accounts_def)

lemma accounts_audited: "quiet d d1 \<Longrightarrow> accounts r d (Replied st u) (audit_by now ts r (actor_from r) action resource result d1)"
  unfolding accounts_def by_requester_def reply.case by blast

lemma accounts_internal: "quiet d d' \<Longrightarrow> accounts r d (Refused 500 c) d'"
  by (simp add: accounts_def)

lemma accounts_errors [simp]: "accounts r d (sent (write_delete_err e)) d" "accounts r d (sent (write_node_store_error e)) d"
  by (simp_all add: write_delete_err_def write_node_store_error_def)

section \<open>The handlers\<close>

lemma accounts_creation:
  "handle_create_application now ts i r name d = (rep1, d') \<Longrightarrow> accounts r d (sent rep1) d'"
  "handle_delete_application now ts r app d = (rep2, d') \<Longrightarrow> accounts r d (sent rep2) d'"
  "handle_create_environment now ts i r app name d = (rep3, d') \<Longrightarrow> accounts r d (sent rep3) d'"
  "handle_delete_environment now ts r app env d = (rep4, d') \<Longrightarrow> accounts r d (sent rep4) d'"
  "handle_delete_secret now ts r sid d = (rep5, d') \<Longrightarrow> accounts r d (sent rep5) d'"
  by (auto simp: handle_create_application_def handle_delete_application_def handle_create_environment_def
      handle_delete_environment_def handle_delete_secret_def split: handler_splits
      intro!: accounts_audited intro: quiet_bundle)

lemma accounts_secret:
  "handle_create_secret h now ts rnd fresh sid vid r app env secret d = (rep1, d') \<Longrightarrow> accounts r d (sent rep1) d'"
  "handle_create_secret_version h now ts rnd vid r sid v d = (rep2, d') \<Longrightarrow> accounts r d (sent rep2) d'"
  "handle_update_binding now ts r sid binding d = (rep3, d') \<Longrightarrow> accounts r d (sent rep3) d'"
  "handle_put_activation_policy now ts r app env policy d = (rep4, d') \<Longrightarrow> accounts r d (sent rep4) d'"
  by (auto simp: handle_create_secret_def seal_and_create_def handle_create_secret_version_def handle_update_binding_def
      handle_put_activation_policy_def Let_def split: handler_splits dest!: get_environment_in
      intro!: accounts_audited intro: quiet_bundle)

lemma quiet_release:
  "publish rid app env actor reason ts now d = Inr (v, d1) \<Longrightarrow> quiet d d1"
  "rollback rid app env source actor reason ts now d = Inr (v, d1) \<Longrightarrow> quiet d d1"
  "publish rid app env actor reason ts now d = Inr (v, d1) \<Longrightarrow> advance_desired_revision app env (rev_id v) d1 = Inr d2 \<Longrightarrow> quiet d d2"
  "rollback rid app env source actor reason ts now d = Inr (v, d1) \<Longrightarrow> advance_desired_revision app env (rev_id v) d1 = Inr d2 \<Longrightarrow>
    quiet d d2"
  by (blast intro: quiet_step quiet_after bundle_step.intros fleet_step.Advance publish_revision_in rollback_revision_in)+

lemma accounts_release:
  "handle_publish h now ts rid r app env given d = (rep1, d') \<Longrightarrow> accounts r d (sent rep1) d'"
  "handle_rollback now ts rid r app env source d = (rep2, d') \<Longrightarrow> accounts r d (sent rep2) d'"
  by (auto simp: handle_publish_def handle_rollback_def split: handler_splits
      intro!: accounts_audited accounts_internal intro: quiet_release)

lemma upsert_all_tables: "upsert_all i xs d = Inr d' \<Longrightarrow> \<exists>ss. d' = d\<lparr>t_selections := ss\<rparr>"
proof (induction i xs d rule: upsert_all.induct)
  case (1 i d)
  then show ?case by (intro exI [of _ "t_selections d"]) simp
next
  case (2 i sid seq xs d)
  then show ?case by (force simp: upsert_selection_q_def split: sum.splits if_splits)
qed

lemma update_draft_only:
  assumes "update_draft_selections app env expected checks writes d = Inr (v, d')"
  shows "draft_only d d'"
proof -
  from assms obtain i d1 where "upsert_all i writes d = Inr d1" "bump_draft_q i d1 = Inr (v, d')"
    by (auto simp: update_draft_selections_def bump_draft_tx_def split: if_splits)
  then show ?thesis by (auto simp: draft_only_def bump_draft_q_def Let_def split: if_splits dest!: upsert_all_tables)
qed

lemma accounts_draft: "handle_update_draft r app env body d = (rep, d') \<Longrightarrow> accounts r d (sent rep) d'"
  by (auto simp: handle_update_draft_def split: handler_splits) (auto simp: accounts_def dest: update_draft_only)

lemma accounts_groups:
  "handle_create_node_group now ts i r name d = (rep1, d') \<Longrightarrow> accounts r d (sent rep1) d'"
  "handle_delete_node_group now ts r g d = (rep2, d') \<Longrightarrow> accounts r d (sent rep2) d'"
  "handle_create_assignment now ts i r new d = (rep3, d') \<Longrightarrow> accounts r d (sent rep3) d'"
  "handle_unassign now ts r i given d = (rep4, d') \<Longrightarrow> accounts r d (sent rep4) d'"
  "handle_abandon_cleanup now ts r i given d = (rep5, d') \<Longrightarrow> accounts r d (sent rep5) d'"
  "handle_delete_node now ts r i d = (rep6, d') \<Longrightarrow> accounts r d (sent rep6) d'"
  "handle_create_node now ts i r nb d = (rep7, d') \<Longrightarrow> accounts r d (sent rep7) d'"
  by (auto simp: handle_create_node_group_def handle_delete_node_group_def handle_create_assignment_def handle_unassign_def
      handle_abandon_cleanup_def handle_delete_node_def handle_create_node_def Let_def split: handler_splits
      intro!: accounts_audited accounts_internal intro: quiet_fleet)

lemma accounts_members:
  "handle_add_group_member r g n d = (rep1, d') \<Longrightarrow> accounts r d (sent rep1) d'"
  "handle_remove_group_member r g m d = (rep2, d') \<Longrightarrow> accounts r d (sent rep2) d'"
  by (auto simp: handle_add_group_member_def handle_remove_group_member_def add_group_member_def insert_group_member_q_def
      remove_group_member_def remove_group_member_q_def split: handler_splits)
    (auto simp: accounts_def members_only_def intro: exI [of _ "t_members d"])

lemma nodes_only_refl [simp]: "nodes_only d d"
  unfolding nodes_only_def by (intro exI [of _ "t_nodes d"]) simp

lemma nodes_only_trans: "nodes_only d d1 \<Longrightarrow> nodes_only d1 d2 \<Longrightarrow> nodes_only d d2"
  by (auto simp: nodes_only_def)

lemma accounts_write_install:
  assumes "write_install_command h now ts random r node name dir d1 = (rep, d')" "quiet d d1" "nodes_only d d1"
  shows "accounts r d (sent rep) d'"
proof (cases "fh_public_url h = []")
  case True
  with assms show ?thesis by (auto simp: write_install_command_def accounts_def)
next
  case False
  have "quiet d d2" if "create_node_enrollment_token hash name node expires ts d1 = Inr d2" for hash expires d2
    by (rule quiet_after(2) [OF assms(2) fleet_step.NewToken [OF that]])
  with False assms(1,2) show ?thesis
    by (auto simp: write_install_command_def Let_def split: sum.splits intro!: accounts_audited accounts_internal)
qed

lemma accounts_install:
  "handle_install_command h now ts fresh i random r b d = (rep1, d') \<Longrightarrow> accounts r d (sent rep1) d'"
  "handle_node_install_command h now ts random r i dir d = (rep2, d') \<Longrightarrow> accounts r d (sent rep2) d'"
proof -
  have "quiet d d1 \<and> nodes_only d d1" if "create_pending_node i n b now ts d = Inr d1" for n b d1
    using quiet_fleet(17) [OF that] that
    by (auto simp: create_pending_node_def register_node_q_def nodes_only_def split: if_splits)
  then show "accounts r d (sent rep1) d'" if "handle_install_command h now ts fresh i random r b d = (rep1, d')"
    using that by (auto simp: handle_install_command_def Let_def split: handler_splits dest: accounts_write_install)
  show "accounts r d (sent rep2) d'" if "handle_node_install_command h now ts random r i dir d = (rep2, d')"
    using that
    by (auto simp: handle_node_install_command_def Let_def split: handler_splits elim!: accounts_write_install)
qed

lemma setting_outcome:
  assumes "\<And>x d'. store x d = Inr d' \<Longrightarrow> fleet_step d d' \<and> nodes_only d d'"
  shows "setting v ok store d = Inl (rep, d') \<Longrightarrow> d' = d \<and> (\<exists>st c. rep = Refused st c)"
    and "setting v ok store d = Inr d' \<Longrightarrow> quiet d d' \<and> nodes_only d d'"
  using assms
  by (auto simp: setting_def write_node_store_error_def split: option.splits sum.splits if_splits intro: quiet_step)

lemma node_settings_only:
  "set_node_poll_interval i x d = Inr d' \<Longrightarrow> fleet_step d d' \<and> nodes_only d d'"
  "rename_node i y d = Inr d' \<Longrightarrow> fleet_step d d' \<and> nodes_only d d'"
  "set_node_bundle_dir i y d = Inr d' \<Longrightarrow> fleet_step d d' \<and> nodes_only d d'"
  by (simp_all add: fleet_step.intros)
    (auto simp: set_node_poll_interval_def set_node_poll_interval_q_def rename_node_def rename_node_q_def set_node_bundle_dir_def
      set_node_bundle_dir_q_def nodes_only_def Let_def split: if_splits)

lemma accounts_refused_update: "rq_method r = ''PATCH'' \<Longrightarrow> nodes_only d d' \<Longrightarrow> accounts r d (Refused st c) d'"
  by (simp add: accounts_def)

lemma accounts_update:
  assumes "handle_update_node now ts r i change d = (rep, d')" "rq_method r = ''PATCH''"
  shows "accounts r d (sent rep) d'"
proof (cases "\<exists>b. change = Some b \<and> \<not> (ub_name b = None \<and> ub_dir b = None \<and> ub_poll b = None)")
  case False
  with assms show ?thesis by (auto simp: handle_update_node_def split: option.splits if_splits)
next
  case True
  then obtain b where b: "change = Some b" "\<not> (ub_name b = None \<and> ub_dir b = None \<and> ub_poll b = None)" by blast
  define poll :: "(node_item reply \<times> db) + db"
    where "poll = setting (ub_poll b) (\<lambda>p. 5 \<le> p \<and> p \<le> 86400) (set_node_poll_interval i) d"
  define rename :: "db \<Rightarrow> (node_item reply \<times> db) + db"
    where "rename = setting (ub_name b) (\<lambda>n. valid_name n 64) (\<lambda>n. rename_node i (trim_space n))"
  define dir :: "db \<Rightarrow> (node_item reply \<times> db) + db"
    where "dir = setting (ub_dir b) valid_bundle_dir (\<lambda>v. set_node_bundle_dir i (trim_space v))"
  have all: "handle_update_node now ts r i change d = (case and_then poll (\<lambda>d1. and_then (rename d1) dir) of
      Inl refused \<Rightarrow> refused
    | Inr d3 \<Rightarrow> (case get_node i d3 of Inl e \<Rightarrow> (write_node_store_error e, d3)
        | Inr n \<Rightarrow> (Replied 200 (node_settings n), audit_by now ts r (actor_from r) ''node.update'' i ''ok'' d3)))"
    by (simp only: handle_update_node_def b(1) option.case if_not_P [OF b(2)] poll_def rename_def dir_def)
  have polled: "poll = Inl (rep2, d2) \<Longrightarrow> d2 = d \<and> (\<exists>st c. rep2 = Refused st c)" "poll = Inr d2 \<Longrightarrow> quiet d d2 \<and> nodes_only d d2" for rep2 d2
    unfolding poll_def by (erule setting_outcome [rotated], erule node_settings_only)+
  have renamed: "rename d1 = Inl (rep2, d2) \<Longrightarrow> d2 = d1 \<and> (\<exists>st c. rep2 = Refused st c)" "rename d1 = Inr d2 \<Longrightarrow> quiet d1 d2 \<and> nodes_only d1 d2"
    for d1 rep2 d2
    unfolding rename_def by (erule setting_outcome [rotated], erule node_settings_only)+
  have moved: "dir d1 = Inl (rep2, d2) \<Longrightarrow> d2 = d1 \<and> (\<exists>st c. rep2 = Refused st c)" "dir d1 = Inr d2 \<Longrightarrow> quiet d1 d2 \<and> nodes_only d1 d2"
    for d1 rep2 d2
    unfolding dir_def by (erule setting_outcome [rotated], erule node_settings_only)+
  have refused: "nodes_only d d2 \<and> (\<exists>st c. rep2 = Refused st c)" if "and_then poll (\<lambda>d1. and_then (rename d1) dir) = Inl (rep2, d2)"
    for rep2 d2
    using that polled renamed moved by (auto simp: and_then_def split: sum.splits) (blast intro: nodes_only_trans)+
  have fine: "quiet d d3 \<and> nodes_only d d3" if "and_then poll (\<lambda>d1. and_then (rename d1) dir) = Inr d3" for d3
    using that polled(2) renamed(2) moved(2) unfolding and_then_def
    by (auto split: sum.splits) (blast intro: nodes_only_trans rtranclp_trans)+
  show ?thesis
  proof (cases "and_then poll (\<lambda>d1. and_then (rename d1) dir)")
    case (Inl x)
    with assms refused [of "fst x" "snd x"] show ?thesis by (auto simp: all accounts_refused_update)
  next
    case (Inr d3)
    with assms fine [OF Inr] show ?thesis
      by (auto simp: all write_node_store_error_def accounts_refused_update intro: accounts_audited split: sum.splits if_splits)
  qed
qed

lemma route_accounts:
  "secrets_route h r d rep d' \<Longrightarrow> \<not> is_get r \<Longrightarrow> accounts r d rep d'"
  "fleet_route f r d rep d' \<Longrightarrow> \<not> is_get r \<Longrightarrow> accounts r d rep d'"
  by ((erule secrets_route.cases fleet_route.cases; (simp; fail | hypsubst, rule accounts_creation accounts_secret accounts_release
      accounts_draft accounts_groups accounts_members accounts_install accounts_update; assumption)))+

section \<open>Every change has its author\<close>

text \<open>The event of a request: its actor is the member of the request's Session, and it carries the request's correlation id.\<close>

definition event_of :: "request \<Rightarrow> audit_row \<Rightarrow> bool" where
  "event_of r ev \<longleftrightarrow> ae_actor ev = actor_from r \<and> (\<exists>now. ae_correlation ev = correlation_id now r)"

lemma requester_event:
  assumes "by_requester r d d'" "bundle_ok d"
  shows "\<exists>ev. t_audit d' = t_audit d @ [ev] \<and> event_of r ev"
  using assms by (auto simp: by_requester_def event_of_def audit_by_def append_audit_def insert_audit_event_q_def event_def
      dest: quiet_audit)


text \<open>An administrator creates an application, and tries to add a node that is none to a Node Group.\<close>

definition demo_admin :: "string \<Rightarrow> request" where
  "demo_admin method = (demo_call method)\<lparr>rq_session := Some \<lparr>se_admin = ''adm'', se_username = ''root'', se_role = RoleAdministrator,
     se_csrf = ''c'', se_hash = ''s'', se_expires = 90, se_idle = 60,
     se_method = AuthLocal\<rparr>\<rparr>"


end
