(* ===== verification/Startup.thy ===== *)
theory Startup
  imports ServerProperties
begin

text \<open>
  The start of Core, \<open>core/cmd/autosecrets-core/main.go\<close>: from the environment and the key files to a running application, and the
  life of an installation over any number of starts, crashes and requests. Connecting to the database succeeds. The texts of
  the errors that make a provider unavailable are an argument.
\<close>

section \<open>The start\<close>

text \<open>What outlives the process: the key files and the database.\<close>

record installation =
  vo_master :: key_file
  vo_ca_key :: key_file
  vo_ca_cert :: key_file
  vo_signing :: key_file
  vo_db :: core_db

text \<open>The randomness of a start.\<close>

record start_random =
  si_master :: bytes
  si_ca_key :: bytes
  si_ca_serial :: bytes
  si_signing :: bytes
  si_code :: bytes

datatype startup_error = BadConfiguration config_error | ManyAdministrators nat | MasterKeyFailed crypto_error | AgentCaFailed ca_error
  | SigningKeyFailed ca_error | AgentCaMissing | BootstrapCodeFailed store_error

text \<open>The client of a provider, or why there is none; \<open>None\<close> is an error of the client itself.\<close>

definition start_oidc :: "provider_env \<Rightarrow> (config_error option \<Rightarrow> string) \<Rightarrow> config \<Rightarrow> oidc_client option \<times> string" where
  "start_oidc pe message cfg =
     (case oidc_configuration_error cfg of
        Some e \<Rightarrow> (None, message (Some e))
      | None \<Rightarrow>
          (case discover_oidc pe \<lparr>dg_public_url = cf_public_url cfg, dg_issuer = cf_oidc_issuer cfg, dg_client = cf_oidc_client cfg,
             dg_secret = cf_oidc_secret cfg, dg_scopes = cf_oidc_scopes cfg, dg_redirects = None\<rparr> of
             None \<Rightarrow> (None, message None) | Some c \<Rightarrow> (Some c, [])))"

definition start_oauth :: "(config_error option \<Rightarrow> string) \<Rightarrow> config \<Rightarrow> oauth_client option \<times> string" where
  "start_oauth message cfg =
     (case oauth_configuration_error cfg of
        Some e \<Rightarrow> (None, message (Some e))
      | None \<Rightarrow>
          (case new_oauth_client \<lparr>hc_public_url = cf_public_url cfg, hc_authorization = cf_oauth_authorization cfg,
             hc_token = cf_oauth_token cfg, hc_userinfo = cf_oauth_userinfo cfg, hc_client = cf_oauth_client cfg,
             hc_secret = cf_oauth_secret cfg, hc_scopes = cf_oauth_scopes cfg, hc_redirects = (\<lambda>u via. via < 10)\<rparr> of
             None \<Rightarrow> (None, message None) | Some c \<Rightarrow> (Some c, [])))"

definition start_options :: "provider_env \<Rightarrow> (config_error option \<Rightarrow> string) \<Rightarrow> Config.environment \<Rightarrow> config \<Rightarrow> options" where
  "start_options pe message env cfg =
     (let (oidc, no_oidc) = start_oidc pe message cfg; (oauth, no_oauth) = start_oauth message cfg in
      \<lparr>op_public_url = cf_public_url cfg, op_agent_url = public_agent_url env, op_trusted = cf_trusted cfg,
       op_cert_header = cf_cert_header cfg, op_offline_after = 0, op_curl_opts = install_curl_opts env, op_oidc = oidc,
       op_oidc_unavailable = no_oidc, op_oauth = oauth, op_oauth_unavailable = no_oauth\<rparr>)"

text \<open>
  A start that fails leaves the key files it has created. Where the source goes on without a CA and panics at its first use
  (\<open>load_or_create_ca\<close> answers none and no error), the model stops with \<open>AgentCaMissing\<close>.
\<close>

definition start_core ::
    "library \<Rightarrow> (config_error option \<Rightarrow> string) \<Rightarrow> Config.environment \<Rightarrow> time \<Rightarrow> start_random \<Rightarrow> installation \<Rightarrow>
     (startup_error + app) \<times> installation" where
  "start_core lib message env now rnd v =
     (case from_env env of
        Inl e \<Rightarrow> (Inl (BadConfiguration e), v)
      | Inr cfg \<Rightarrow>
     (case validate_single_administrator (vo_db v) of
        Inl n \<Rightarrow> (Inl (ManyAdministrators n), v)
      | Inr _ \<Rightarrow>
     (case load_or_create_master_key (vo_master v) (si_master rnd) of
        Inl e \<Rightarrow> (Inl (MasterKeyFailed e), v)
      | Inr (mk, mf) \<Rightarrow>
          let v1 = v\<lparr>vo_master := mf\<rparr> in
     (case load_or_create_ca (lb_x509 lib) (vo_ca_key v1) (vo_ca_cert v1) now (si_ca_key rnd) (si_ca_serial rnd) of
        Inl e \<Rightarrow> (Inl (AgentCaFailed e), v1)
      | Inr (ca, kf, cf) \<Rightarrow>
          let v2 = v1\<lparr>vo_ca_key := kf, vo_ca_cert := cf\<rparr> in
     (case load_or_create_signer (lb_x509 lib) (vo_signing v2) (si_signing rnd) of
        Inl e \<Rightarrow> (Inl (SigningKeyFailed e), v2)
      | Inr (sg, sf) \<Rightarrow>
          let v3 = v2\<lparr>vo_signing := sf\<rparr> in
     (case ca of
        None \<Rightarrow> (Inl AgentCaMissing, v3)
      | Some ca \<Rightarrow>
          let a = new_app lib mk ca sg (cf_management cfg) (cf_agent cfg) (start_options (lb_provider lib) message env cfg) in
          (case emit_bootstrap_code a now (si_code rnd) (vo_db v3) of
             Inl e \<Rightarrow> (Inl (BootstrapCodeFailed e), v3)
           | Inr (code, d) \<Rightarrow> (Inr a, v3\<lparr>vo_db := d\<rparr>))))))))"

section \<open>The life of an installation\<close>

text \<open>The installation and the application that runs, when one does. A start may follow a stop, a crash or a failed start.\<close>

inductive life_step :: "library \<Rightarrow> installation \<times> app option \<Rightarrow> installation \<times> app option \<Rightarrow> bool" for lib where
  Starting: "start_core lib message env now rnd v = (res, v') \<Longrightarrow>
    life_step lib (v, run) (v', case res of Inl e \<Rightarrow> None | Inr a \<Rightarrow> Some a)"
| Serving: "server_step a (vo_db v) d \<Longrightarrow> life_step lib (v, Some a) (v\<lparr>vo_db := d\<rparr>, Some a)"
| Stopping: "life_step lib (v, run) (v, None)"

definition new_installation :: installation where
  "new_installation = \<lparr>vo_master = NoFile, vo_ca_key = NoFile, vo_ca_cert = NoFile, vo_signing = NoFile, vo_db = empty_core\<rparr>"

text \<open>The tables are well-formed and open under a key, whichever handler reads them.\<close>

definition vault_ok :: "library \<Rightarrow> bytes \<Rightarrow> core_db \<Rightarrow> bool" where
  "vault_ok lib key d \<longleftrightarrow> identity_ok d \<and>
     (\<forall>h. fh_open h = lb_open lib \<and> fh_master h = key \<longrightarrow> domains_ok h (db.truncate d))"

definition life_ok :: "library \<Rightarrow> installation \<times> app option \<Rightarrow> bool" where
  "life_ok lib s \<longleftrightarrow>
     (case vo_master (fst s) of
        NoFile \<Rightarrow> snd s = None \<and> (\<forall>key. vault_ok lib key (vo_db (fst s)))
      | FileBytes key \<Rightarrow> vault_ok lib key (vo_db (fst s)) \<and>
          (\<forall>a. snd s = Some a \<longrightarrow> wired a \<and> fh_open (co_fleet a) = lb_open lib \<and> fh_master (co_fleet a) = key)
      | Unreadable \<Rightarrow> False)"

lemma vault_iff:
  assumes "fh_open (co_fleet a) = lb_open lib" "fh_master (co_fleet a) = key"
  shows "vault_ok lib key d \<longleftrightarrow> server_ok a d"
  using assms by (auto simp: vault_ok_def server_ok_def domains_ok_def versions_sealed_def)

lemma vault_step:
  assumes "wired a" "fh_open (co_fleet a) = lb_open lib" "fh_master (co_fleet a) = key" "server_step a d d'" "vault_ok lib key d"
  shows "vault_ok lib key d'"
  using server_step_ok [OF assms(1,4)] assms(5) by (simp add: vault_iff [OF assms(2,3)])

lemma new_app_keys:
  "fh_open (co_fleet (new_app lib mk ca sg m b opts)) = lb_open lib" "fh_master (co_fleet (new_app lib mk ca sg m b opts)) = mk"
  by (simp_all add: new_app_def)

text \<open>A start that gets as far as the master key has it in its file.\<close>

lemma master_key_file:
  "load_or_create_master_key file random = Inr (mk, file') \<Longrightarrow> file' = FileBytes mk \<and> (file = NoFile \<or> file = FileBytes mk)"
  by (auto simp: load_or_create_master_key_def split: key_file.splits if_splits)

lemma start_outcome:
  assumes "start_core lib message env now rnd v = (res, v')"
  obtains (same) "v' = v" "\<And>a. res \<noteq> Inr a"
  | (failed) mk where "vo_master v = NoFile \<or> vo_master v = FileBytes mk" "vo_master v' = FileBytes mk" "vo_db v' = vo_db v"
      "\<And>a. res \<noteq> Inr a"
  | (started) mk a ca sg m b opts code where "vo_master v = NoFile \<or> vo_master v = FileBytes mk" "vo_master v' = FileBytes mk"
      "a = new_app lib mk ca sg m b opts" "res = Inr a" "emit_bootstrap_code a now (si_code rnd) (vo_db v) = Inr (code, vo_db v')"
proof (cases "load_or_create_master_key (vo_master v) (si_master rnd)")
  case (Inl e)
  with assms have "v' = v" "\<And>a. res \<noteq> Inr a" by (auto simp: start_core_def split: sum.splits)
  then show thesis by (rule same)
next
  case (Inr r)
  then obtain mk mf where mk: "load_or_create_master_key (vo_master v) (si_master rnd) = Inr (mk, mf)" by (cases r) auto
  note key = master_key_file [OF mk]
  show thesis
  proof (cases "\<exists>a. res = Inr a")
    case False
    then have "\<And>a. res \<noteq> Inr a" by blast
    moreover have "v' = v \<or> vo_master v' = FileBytes mk \<and> vo_db v' = vo_db v"
      using assms mk key False by (auto simp: start_core_def Let_def split: sum.splits prod.splits option.splits)
    ultimately show thesis using same failed key by blast
  next
    case True
    with assms mk key obtain a ca sg m b opts code where "vo_master v' = FileBytes mk" "a = new_app lib mk ca sg m b opts" "res = Inr a"
      "emit_bootstrap_code a now (si_code rnd) (vo_db v) = Inr (code, vo_db v')"
      by (auto simp: start_core_def Let_def split: sum.splits prod.splits option.splits)
    with started key show thesis by blast
  qed
qed

lemma life_step_ok:
  assumes lib: "aead (lb_seal lib) (lb_open lib)"
  shows "life_step lib s s' \<Longrightarrow> life_ok lib s \<Longrightarrow> life_ok lib s'"
proof (induction rule: life_step.induct)
  case (Starting message env now rnd v res v' run)
  have vault: "vault_ok lib mk (vo_db v)" if "vo_master v = NoFile \<or> vo_master v = FileBytes mk" for mk
    using that Starting(2) by (auto simp: life_ok_def)
  show ?case
  proof (rule start_outcome [OF Starting(1)])
    show ?thesis if "v' = v" "\<And>a. res \<noteq> Inr a"
      using Starting(2) that by (auto simp: life_ok_def split: sum.splits key_file.splits)
    show ?thesis if "vo_master v = NoFile \<or> vo_master v = FileBytes mk" "vo_master v' = FileBytes mk" "vo_db v' = vo_db v"
        "\<And>a. res \<noteq> Inr a" for mk
      using vault [OF that(1)] that(2-4) by (auto simp: life_ok_def split: sum.splits)
    show ?thesis if new: "vo_master v = NoFile \<or> vo_master v = FileBytes mk" "vo_master v' = FileBytes mk"
        "a = new_app lib mk ca sg m b opts" "res = Inr a" "emit_bootstrap_code a now (si_code rnd) (vo_db v) = Inr (code, vo_db v')"
      for mk a ca sg m b opts code
    proof -
      have "wired a" unfolding new(3) by (rule new_app_wired [OF lib])
      moreover have "vault_ok lib mk (vo_db v')"
        by (rule vault_step [OF \<open>wired a\<close> _ _ server_step.Start [OF new(5)] vault [OF new(1)]]) (simp_all add: new(3) new_app_keys)
      ultimately show ?thesis using new by (simp add: life_ok_def new_app_keys)
    qed
  qed
next
  case (Serving a v d)
  then obtain key where key: "vo_master v = FileBytes key" "wired a" "fh_open (co_fleet a) = lb_open lib"
    "fh_master (co_fleet a) = key" "vault_ok lib key (vo_db v)"
    by (auto simp: life_ok_def split: key_file.splits)
  with vault_step [OF key(2-4) Serving(1) key(5)] show ?case by (simp add: life_ok_def)
next
  case (Stopping v run)
  then show ?case by (auto simp: life_ok_def split: key_file.splits)
qed

lemma new_installation_ok: "life_ok lib (new_installation, None)"
proof -
  have "identity_ok empty_core" using server_ok_empty by (simp add: server_ok_def)
  moreover have "domains_ok h (db.truncate empty_core)" for h
    using server_ok_empty [of "undefined\<lparr>co_fleet := h\<rparr>"] by (simp add: server_ok_def)
  ultimately show ?thesis by (simp add: life_ok_def new_installation_def vault_ok_def)
qed

interpretation life: step_system "\<lambda>s. s = (new_installation, None)"
    "\<lambda>s s'. aead (lb_seal lib) (lb_open lib) \<and> life_step lib s s'" "life_ok lib" for lib
proof
  show "life_ok lib s" if "s = (new_installation, None)" for s
    unfolding that by (rule new_installation_ok)
  show "life_ok lib s'" if "life_ok lib s" "aead (lb_seal lib) (lb_open lib) \<and> life_step lib s s'" for s s'
    using life_step_ok that by blast
qed

lemma life_reachable:
  assumes "aead (lb_seal lib) (lb_open lib)" "(life_step lib)\<^sup>*\<^sup>* (new_installation, None) s"
  shows "life_ok lib s"
proof -
  have "(\<lambda>s s'. aead (lb_seal lib) (lb_open lib) \<and> life_step lib s s')\<^sup>*\<^sup>* (new_installation, None) s"
    using assms by (simp add: conj_absorb)
  then show ?thesis by (rule life.reachable_inv [OF refl])
qed

section \<open>Every state of an installation\<close>

text \<open>C1: In the whole life of an installation, over any number of starts, stops and crashes of Core and whatever requests its surfaces answer in
  between, the database is well-formed in all three domains: the Secret Bundles and the fleet keep their invariants, the
  identity tables are those of at most one Administrator, and every stored Secret version opens under the master
  key in the installation's key file.\<close>

theorem core_well_formed:
  assumes "aead (lb_seal lib) (lb_open lib)" and "(life_step lib)\<^sup>*\<^sup>* (new_installation, None) (v, run)"
  shows "bundle_ok (db.truncate (vo_db v)) \<and> fleet_ok (db.truncate (vo_db v)) \<and> identity_ok (vo_db v) \<and>
    (\<forall>key. vo_master v = FileBytes key \<longrightarrow>
       (\<forall>w \<in> set (t_versions (vo_db v)). \<exists>p. open_sealed (lb_open lib) key (sv_wrapped w) (sv_nonce w) (sv_cipher w) = Inr p))"
proof -
  have ok: "life_ok lib (v, run)" by (rule life_reachable [OF assms])
  then obtain k where k: "vault_ok lib k (vo_db v)" "\<And>key. vo_master v = FileBytes key \<Longrightarrow> key = k"
    by (auto simp: life_ok_def split: key_file.splits)
  define h :: fleet_handler where "h = undefined\<lparr>fh_open := lb_open lib, fh_master := k\<rparr>"
  have "domains_ok h (db.truncate (vo_db v))" "identity_ok (vo_db v)"
    using k(1) by (simp_all add: vault_ok_def h_def)
  with k(2) show ?thesis by (auto simp: domains_ok_def versions_sealed_def h_def)
qed

text \<open>The first start with an empty environment, on an empty directory of keys.\<close>

definition demo_machine :: library where
  "demo_machine = demo_library\<lparr>lb_x509 := demo_x509\<lparr>xc_create := (\<lambda>r t p k s. Some ''root'')\<rparr>\<rparr>"

definition demo_start :: "(startup_error + app) \<times> installation" where
  "demo_start = start_core demo_machine (\<lambda>e. ''unavailable'') (\<lambda>key. []) 5 \<lparr>si_master = replicate 32 (CHR ''m''), si_ca_key = ''k'',
     si_ca_serial = ''r'', si_signing = replicate 64 (CHR ''s''), si_code = ''random bytes''\<rparr> new_installation"

lemma demo_start_runs: "\<exists>a. fst demo_start = Inr a \<and> vo_master (snd demo_start) = FileBytes (replicate 32 (CHR ''m''))"
proof -
  have env: "from_env (\<lambda>key. []) = Inr \<lparr>cf_listen = '':8080'', cf_management = ''/api/v1'', cf_agent = ''/agent/v1'', cf_trusted = [],
      cf_cert_header = ''X-Autosecrets-Client-Cert'', cf_version = [], cf_public_url = [], cf_oidc_issuer = [], cf_oidc_client = [],
      cf_oidc_secret = [], cf_oidc_scopes = [''openid'', ''profile''], cf_oauth_authorization = [], cf_oauth_token = [],
      cf_oauth_userinfo = [], cf_oauth_client = [], cf_oauth_secret = [], cf_oauth_scopes = [''profile''], cf_origins = []\<rparr>"
    by code_simp
  have one: "validate_single_administrator (vo_db new_installation) = Inr ()" "\<not> 0 < human_identity_count empty_core"
    by (simp_all add: new_installation_def validate_single_administrator_def human_identity_count_def human_identity_count_q_def
        empty_core_def db.defs)
  have key: "load_or_create_master_key NoFile (replicate 32 c) = Inr (replicate 32 c, FileBytes (replicate 32 c))" for c :: char
    by (simp add: load_or_create_master_key_def)
  have ca: "\<exists>ca kf cf. load_or_create_ca (lb_x509 demo_machine) NoFile NoFile 5 k r = Inr (Some ca, kf, cf)" for k r
    by (simp add: load_or_create_ca_def demo_machine_def demo_x509_def)
  have sg: "\<exists>sg sf. load_or_create_signer (lb_x509 demo_machine) NoFile k = Inr (sg, sf)" for k
    by (simp add: load_or_create_signer_def)
  have code: "\<exists>code d. emit_bootstrap_code a 5 random empty_core = Inr (code, d)" for a random
    using one(2) by (simp add: emit_bootstrap_code_def Let_def save_bootstrap_code_def save_bootstrap_code_q_def empty_core_def db.defs)
  show ?thesis
    using ca [of "''k''" "''r''"] sg [of "replicate 64 (CHR ''s'')"] code one(1)
    by (auto simp: demo_start_def start_core_def env Let_def new_installation_def key split: sum.splits prod.splits) (metis sum.simps(4) Inl_Inr_False)+
qed

theorem core_well_formed_witness:
  "identity_ok (vo_db (snd demo_start)) \<and> vo_master (snd demo_start) = FileBytes (replicate 32 (CHR ''m''))"
proof -
  obtain a v where run: "demo_start = (Inr a, v)" "vo_master v = FileBytes (replicate 32 (CHR ''m''))"
    using demo_start_runs by (metis prod.collapse snd_conv)
  have lib: "aead (lb_seal demo_machine) (lb_open demo_machine)"
    using toy_aead by (simp add: demo_machine_def demo_library_def)
  have steps: "(life_step demo_machine)\<^sup>*\<^sup>* (new_installation, None) (v, Some a)"
    using life_step.Starting [OF run(1) [unfolded demo_start_def], of None] by (simp add: r_into_rtranclp)
  from core_well_formed [OF lib steps] have "identity_ok (vo_db v)" by blast
  then show ?thesis unfolding run(1) snd_conv using run(2) by blast
qed

end
