(* ===== verification/Spec2Isabelle.thy ===== *)
theory Spec2Isabelle
  imports BundleProperties Deliveries Enrollment IdentityProperties ServiceRefusals RateLimit
   MiddlewareProperties DeliveryProperties EnrollmentRequests HandlerProperties LoginProperties LoginLimit
   Accountability Startup
begin

text \<open>
  A model of AutoSecrets Core, the Go server under \<open>src/core\<close>, and the theorems that make it correct.

  The program. Core keeps the secrets of Applications and delivers them to Agents. An Administrator edits a Draft per Application
  and Environment, publishes it as an immutable Bundle Revision, and assigns it to Node Groups; the Agent of every Managed
  Node polls for its desired state and gets the files of its revisions sealed to its own key and signed by Core. One HTTP
  server has two surfaces: the management surface, behind a session cookie and a CSRF token, and the Agent surface,
  behind a client certificate of the internal CA. All state is in PostgreSQL, except the limiters of failed logins.

  How the model corresponds to it. The database is a record of tables (\<open>db\<close>, extended to \<open>core_db\<close> by the identity tables), a table the list of its rows.
  An operation of the store is a function of the tables to an error or the tables after it, so that a transaction that fails changes
  nothing. A handler is a function of the request, its decoded body, clocks, fresh ids and random bytes, and the tables, to a reply and the
  tables. Go's \<open>int\<close> is 64 bits wide: where it can overflow it is an \<open>int\<close> with the wrap-around written out. Strings are byte strings;
  instants and durations count nanoseconds.

  The theories, from the bottom up.

  \<^item> \<open>Prelude\<close>, \<open>GoInts\<close>, \<open>GoStrings\<close>, \<open>Encodings\<close>, \<open>GoTime\<close>, \<open>GoNet\<close>, \<open>GoUrl\<close>, \<open>GoJson\<close>, \<open>GoQuote\<close>: identifiers, errors and tables; and the parts
    of Go's standard library the source calls, as it documents them, with round trips of the encoders.
  \<^item> \<open>Schema\<close>, \<open>BundleQueries\<close>, \<open>FleetQueries\<close>, \<open>IdentitySchema\<close>, \<open>IdentityQueries\<close>: \<open>core/migrations\<close> and one definition per generated query of
    \<open>database/gen\<close>, with the constraints and cascades of the schema.
  \<^item> \<open>BundleStore\<close>, \<open>FleetStore\<close>, \<open>Pagination\<close>, \<open>AuditLog\<close>, \<open>Overview\<close>, \<open>IdentityStore\<close>: one definition per method of \<open>database/domain.go\<close>, \<open>unassignment.go\<close>,
    \<open>convergence.go\<close>, \<open>pagination.go\<close>, \<open>store.go\<close>, \<open>overview.go\<close>, \<open>search.go\<close> and \<open>identity.go\<close>.
  \<^item> \<open>BundleInvariants\<close>, \<open>FleetInvariants\<close>, \<open>CoreSystem\<close>, \<open>IdentitySystem\<close>: the invariants of the tables, their preservation by every operation, and
    the step relations of the two halves of the store. The locale \<open>step_system\<close> of \<open>CoreSystem\<close> is invariance by rule induction; it is
    interpreted on every step relation of the development. Three steps have a condition the store does not check and every handler
    does before the call: a new Secret goes to an Environment of its Application, the Assignments move to a revision of their own
    Secret Bundle, and the entries of a map are distinct (\<open>foreign_environment\<close> shows what the first prevents). \<open>OneShot\<close> is the contract of single-use credentials, interpreted on
    Enrollment Tokens, Recovery Codes, login challenges, transactions and Bootstrap Codes (\<open>Enrollment\<close>, \<open>Credentials\<close>).
  \<^item> \<open>BundleLaws\<close>, \<open>BundleProperties\<close>, \<open>Unassignment\<close>, \<open>Deliveries\<close>, \<open>Enrollment\<close>, \<open>Credentials\<close>, \<open>IdentityProperties\<close>: what the operations do, on every
    well-formed database; \<open>Scenario\<close> is a run on concrete data for the witnesses.
  \<^item> \<open>CryptoCore\<close>, \<open>AgentCA\<close>, \<open>CryptoProperties\<close>: \<open>crypto/crypto.go\<close>. \<open>Envelope\<close>: \<open>envelope/envelope.go\<close>.
  \<^item> \<open>IdentityService\<close>, \<open>ServiceRefinement\<close>, \<open>ServiceProperties\<close>, \<open>ServiceRefusals\<close>: the use cases of \<open>identity/service.go\<close>, the proof that their effects are
    steps of the identity store, what a use case that succeeds has checked, and what one that refuses leaves behind.
    The locale \<open>keeping_steps\<close> is their contract: they are made of the steps of any relation that has the steps they take.
  \<^item> \<open>RateLimit\<close>: \<open>identity/rate_limit.go\<close>. \<open>Providers\<close>: \<open>identity/oidc.go\<close> and \<open>oauth.go\<close>. \<open>IdentityHandler\<close>, \<open>ReturnTo\<close>, \<open>IdentityRoutes\<close>, \<open>LoginLimit\<close>:
    \<open>identity/handler.go\<close>, where a login returns to, its routes, and the login handler with its limiter.
  \<^item> \<open>Middleware\<close>, \<open>MiddlewareProperties\<close>: \<open>middleware/\<close>. \<open>Delivery\<close>, \<open>FleetHandler\<close>, \<open>InstallScript\<close>, \<open>SecretsHandler\<close>: the handlers of \<open>fleet/\<close> and \<open>secrets/\<close>. \<open>Config\<close>:
    \<open>config/config.go\<close>.
  \<^item> \<open>Requests\<close>, \<open>Routes\<close>: the effect of every handler as a sequence of store operations, and the routes of the two domains as relations.
    \<open>Server\<close>: \<open>app/app.go\<close>, the running program as one step relation. \<open>Startup\<close>: \<open>cmd/autosecrets-core/main.go\<close>, its start, and the life of an
    installation. \<open>DeliveryProperties\<close>, \<open>EnrollmentRequests\<close>, \<open>HandlerProperties\<close>, \<open>ServerProperties\<close>,
    \<open>LoginProperties\<close>, \<open>Accountability\<close>: the properties that span components.

  What the theorems show. Every state of an installation, over any starts and requests, is well-formed in all domains, with at most one
  Administrator, and every stored version opens under the master key. A publication is exact, total and reaches every Agent assigned to it, whose envelope opens to exactly the files of
  the revision; a revision changes only when a Secret of it is deleted. No two sources deliver the same files to a node. A cleanup task
  changes its status by a report or by abandonment only, each along its own edges. Tokens, codes and challenges are spent by their first use. A request is served only with an unexpired session and
  its CSRF token, or with the certificate and the signature in its headers; an enrolled Agent is recognised as its node until its
  certificate or the CA's expires, the node is deleted or enrolls anew. Sessions open only for the proof the policy asks for, by password, second factor or an ID
  token; guessing is bounded; an external login ends with the state, nonce and verifier it began with, and returns to the console only; the
  Administrator is never locked out. A refused use case changes nothing but the audit log and the one credential it spends, and every change
  through the management surface has one event with its author, but for the two kinds of rows whose handlers record none. Pages of a
  list cover it where they do, and the places where they do not are stated as such.

  Bounds and fuel. Reading all pages of the list of nodes takes at most one request more than there are nodes (\<open>all_pages\<close>); the groups of an IPv6
  address are at most eight; the body of a provider's answer is cut at a megabyte, and the limiter holds at most 10000 buckets, as in the
  source. All other recursions are structural or have a measure.

  Arguments of the model, each with its documented laws where a theorem needs them: SHA-256, HMAC, Argon2id, AES-GCM, age, Ed25519, RSA; PEM, ASN.1 and
  X.509 (of which only the fields of a template that Go copies are related to the certificate, and \<open>Verify\<close> is related to a root that may sign, within the
  validity of both certificates); the network; decoding of JSON; the collation and case folding of the database; Unicode tables; the order in which
  Go iterates over a map. Random bytes, fresh ids and clocks are arguments too, so every theorem holds for all of them. Ids in
  paths and bodies are the canonical text of a UUID.

  Not modelled: the listener of the process, its timeouts and signals, connecting to the database and running migrations, which are
  input and output only; the request log and the health routes, which keep no state; log and error messages for people, and the JSON of
  the replies; isolation of concurrent transactions, each of which is one step here, and requests that run at the same time, which are answered one after the other; the web console and the Python Agent, which are
  other programs; and the store methods nothing calls (\<open>ActivateMember\<close>, \<open>InsertAdminPending\<close>, \<open>CountNodes\<close>).
\<close>

end
